(* ===== verification/Prelude.thy ===== *)
theory Prelude
  imports Complex_Main "HOL-Library.AList" "HOL-Library.Char_ord"
    "HOL-Library.List_Lexorder" "HOL-Library.Product_Lexorder" "HOL-Library.Sublist"
begin

text \<open>
  What the components share: the part of Python's \<^verbatim>\<open>str\<close>, \<^verbatim>\<open>dict\<close>, \<^verbatim>\<open>sorted\<close> and
  number formatting that the sources use.

  A Python \<^verbatim>\<open>str\<close> is a \<open>string\<close> that holds its UTF-8 encoding. Byte order on
  UTF-8 is code point order, and every separator the sources search for is ASCII, so
  comparison, \<^verbatim>\<open>partition\<close>, \<^verbatim>\<open>split\<close>, \<^verbatim>\<open>replace\<close> and \<^verbatim>\<open>startswith\<close> agree with Python's.
  Whitespace and digits are the ASCII ones.

  A \<^verbatim>\<open>dict\<close> is an association list with distinct keys in insertion order: storing to a
  key that is there replaces the value in place, a new key goes last. The locale
  \<open>ordered_dict\<close> states that contract and what follows from it for a dict built from
  a sequence of stores (a comprehension, \<^verbatim>\<open>update\<close>): the last value wins, the first
  position wins.

  Clock readings and durations are \<open>rat\<close>: the exact value of the float, with rounding
  in the fixed-point formatter only.
\<close>

named_theorems pystr \<comment> \<open>unfolding facts for the string operations\<close>
named_theorems dict_laws \<comment> \<open>facts about ordered dictionaries\<close>

type_synonym ('k, 'v) dict = "('k \<times> 'v) list"

section \<open>Strings\<close>

abbreviation nl :: string where "nl \<equiv> [CHR 0x0A]"
abbreviation quot :: char where "quot \<equiv> CHR 0x22"
abbreviation backslash :: char where "backslash \<equiv> CHR 0x5C"

definition is_space :: "char \<Rightarrow> bool" where
  "is_space c \<longleftrightarrow> c \<in> {CHR 0x09, CHR 0x0A, CHR 0x0B, CHR 0x0C, CHR 0x0D,
                      CHR 0x1C, CHR 0x1D, CHR 0x1E, CHR 0x1F, CHR 0x20}"

definition is_digit :: "char \<Rightarrow> bool" where
  "is_digit c \<longleftrightarrow> c \<in> set ''0123456789''"

definition lstrip :: "string \<Rightarrow> string" where
  "lstrip = dropWhile is_space"

definition rstrip :: "string \<Rightarrow> string" where
  "rstrip s = rev (dropWhile is_space (rev s))"

definition strip :: "string \<Rightarrow> string" where
  "strip s = rstrip (lstrip s)"

definition rstrip_chars :: "char set \<Rightarrow> string \<Rightarrow> string" where
  "rstrip_chars cs s = rev (dropWhile (\<lambda>c. c \<in> cs) (rev s))"

definition startswith :: "string \<Rightarrow> string \<Rightarrow> bool" where
  "startswith s p \<longleftrightarrow> prefix p s"

definition endswith :: "string \<Rightarrow> string \<Rightarrow> bool" where
  "endswith s p \<longleftrightarrow> suffix p s"

definition contains :: "string \<Rightarrow> string \<Rightarrow> bool" where
  \<comment> \<open>\<^verbatim>\<open>sub in s\<close>\<close>
  "contains sub s \<longleftrightarrow> sublist sub s"

text \<open>The text before and after the leftmost occurrence of a non-empty separator.\<close>

fun cut :: "string \<Rightarrow> string \<Rightarrow> (string \<times> string) option" where
  "cut sep [] = (if sep = [] then Some ([], []) else None)"
| "cut sep (c # cs) =
     (if prefix sep (c # cs) then Some ([], drop (length sep) (c # cs))
      else map_option (\<lambda>(a, b). (c # a, b)) (cut sep cs))"

definition partition3 :: "string \<Rightarrow> string \<Rightarrow> string \<times> string \<times> string" where
  \<comment> \<open>\<^verbatim>\<open>s.partition(sep)\<close>\<close>
  "partition3 s sep = (case cut sep s of None \<Rightarrow> (s, [], []) | Some (a, b) \<Rightarrow> (a, sep, b))"

lemma cut_Some_append: "cut sep s = Some (a, b) \<Longrightarrow> s = a @ sep @ b"
proof (induction sep s arbitrary: a b rule: cut.induct)
  case (2 sep c cs)
  then show ?case
    by (auto simp: prefix_def split: if_splits)
qed (auto split: if_splits)

lemma cut_Some_shorter: "cut sep s = Some (a, b) \<Longrightarrow> sep \<noteq> [] \<Longrightarrow> length b < length s"
  by (drule cut_Some_append) (cases sep; simp)

lemma cut_None_iff: "cut sep s = None \<longleftrightarrow> \<not> sublist sep s"
proof (induction sep s rule: cut.induct)
  case (1 sep)
  then show ?case by auto
next
  case (2 sep c cs)
  then show ?case by (auto simp: sublist_Cons_right)
qed

text \<open>\<^verbatim>\<open>s.split(sep)\<close> and \<^verbatim>\<open>s.replace(old, new)\<close>, for a non-empty first argument.\<close>

function split_on :: "string \<Rightarrow> string \<Rightarrow> string list" where
  "split_on sep s =
     (if sep = [] then [s]
      else case cut sep s of None \<Rightarrow> [s] | Some (a, b) \<Rightarrow> a # split_on sep b)"
  by pat_completeness auto
termination
  by (relation "measure (\<lambda>(sep, s). length s)") (auto dest: cut_Some_shorter)

function replace :: "string \<Rightarrow> string \<Rightarrow> string \<Rightarrow> string" where
  "replace old new s =
     (if old = [] then s
      else case cut old s of None \<Rightarrow> s | Some (a, b) \<Rightarrow> a @ new @ replace old new b)"
  by pat_completeness auto
termination
  by (relation "measure (\<lambda>(old, new, s). length s)") (auto dest: cut_Some_shorter)

declare split_on.simps [simp del] replace.simps [simp del]

fun join :: "string \<Rightarrow> string list \<Rightarrow> string" where
  "join sep [] = []"
| "join sep [x] = x"
| "join sep (x # y # ys) = x @ sep @ join sep (y # ys)"

definition upper_char :: "char \<Rightarrow> char" where
  "upper_char c = (if CHR ''a'' \<le> c \<and> c \<le> CHR ''z'' then char_of (of_char c - 32 :: nat) else c)"

definition lower_char :: "char \<Rightarrow> char" where
  "lower_char c = (if CHR ''A'' \<le> c \<and> c \<le> CHR ''Z'' then char_of (of_char c + 32 :: nat) else c)"

definition upper :: "string \<Rightarrow> string" where "upper = map upper_char"
definition lower :: "string \<Rightarrow> string" where "lower = map lower_char"

definition ljust :: "nat \<Rightarrow> string \<Rightarrow> string" where
  "ljust n s = s @ replicate (n - length s) CHR '' ''"

text \<open>Characters, where the sources count them: a byte that is not a continuation byte starts one.\<close>

definition is_continuation :: "char \<Rightarrow> bool" where
  "is_continuation c \<longleftrightarrow> CHR 0x80 \<le> c \<and> c \<le> CHR 0xBF"

definition char_count :: "string \<Rightarrow> nat" where
  \<comment> \<open>\<^verbatim>\<open>len\<close>\<close>
  "char_count s = length (filter (\<lambda>c. \<not> is_continuation c) s)"

fun char_take :: "nat \<Rightarrow> string \<Rightarrow> string" where
  \<comment> \<open>\<^verbatim>\<open>s[:n]\<close>\<close>
  "char_take n [] = []"
| "char_take n (c # cs) =
     (if is_continuation c then c # char_take n cs
      else case n of 0 \<Rightarrow> [] | Suc m \<Rightarrow> c # char_take m cs)"

lemma char_count_simps [simp]:
  "char_count [] = 0" "char_count (c # cs) = (if is_continuation c then char_count cs else Suc (char_count cs))"
  "char_count (s @ t) = char_count s + char_count t"
  by (simp_all add: char_count_def)

lemma char_count_take: "char_count (char_take n s) = min n (char_count s)"
  by (induction n s rule: char_take.induct) (auto split: nat.split)

lemma char_take_prefix: "prefix (char_take n s) s"
  by (induction n s rule: char_take.induct) (auto split: nat.split)

lemma replace_single_Nil [simp]: "replace [x] new [] = []"
  by (subst replace.simps) simp

lemma replace_single_Cons:
  "replace [x] new (c # cs) = (if c = x then new @ replace [x] new cs else c # replace [x] new cs)"
proof (cases "c = x")
  case True
  then show ?thesis by (subst replace.simps) simp
next
  case False
  then have "cut [x] (c # cs) = map_option (\<lambda>(a, b). (c # a, b)) (cut [x] cs)" by simp
  with False show ?thesis
    by (subst (1 2) replace.simps) (auto split: option.split)
qed

lemma replace_single: "replace [x] new s = concat (map (\<lambda>c. if c = x then new else [c]) s)"
  by (induction s) (auto simp: replace_single_Cons)

lemma set_strip: "set (strip s) \<subseteq> set s"
  by (auto simp: strip_def lstrip_def rstrip_def dest!: set_dropWhileD)

lemma strip_parts:
  "\<exists>p q. s = p @ strip s @ q \<and> (\<forall>c\<in>set p. is_space c) \<and> (\<forall>c\<in>set q. is_space c)"
proof (intro exI conjI)
  let ?l = "dropWhile is_space s"
  have "?l = rev (dropWhile is_space (rev ?l)) @ rev (takeWhile is_space (rev ?l))"
    using takeWhile_dropWhile_id[of is_space "rev ?l"] by (metis rev_append rev_rev_ident)
  then show "s = takeWhile is_space s @ strip s @ rev (takeWhile is_space (rev ?l))"
    unfolding strip_def rstrip_def lstrip_def by (metis takeWhile_dropWhile_id)
qed (auto dest: set_takeWhileD)

lemma strip_sublist: "sublist (strip s) s"
proof -
  have suf: "suffix (dropWhile p xs) xs" for p and xs :: string
    by (metis suffix_def takeWhile_dropWhile_id)
  have "prefix (rev (dropWhile is_space (rev xs))) xs" for xs
    using suf[of is_space "rev xs"] by (simp add: suffix_to_prefix)
  then have "sublist (rev (dropWhile is_space (rev (dropWhile is_space s)))) (dropWhile is_space s)"
    by (rule prefix_imp_sublist)
  also have "sublist (dropWhile is_space s) s" by (rule suffix_imp_sublist[OF suf])
  finally show ?thesis by (simp add: strip_def lstrip_def rstrip_def)
qed

section \<open>Numbers as text\<close>

definition digit_char :: "nat \<Rightarrow> char" where
  "digit_char d = ''0123456789'' ! d"

fun str_nat :: "nat \<Rightarrow> string" where
  "str_nat n = (if n < 10 then [digit_char n] else str_nat (n div 10) @ [digit_char (n mod 10)])"

declare str_nat.simps [simp del]

definition str_int :: "int \<Rightarrow> string" where
  "str_int i = (if i < 0 then CHR ''-'' # str_nat (nat (- i)) else str_nat (nat i))"

text \<open>A non-empty run of digits, single underscores between them, as \<^verbatim>\<open>int()\<close> takes it.\<close>

definition digit_val :: "char \<Rightarrow> nat" where
  "digit_val c = of_char c - 48"

fun digits_val :: "nat \<Rightarrow> string \<Rightarrow> nat option" where
  "digits_val acc [] = Some acc"
| "digits_val acc (c # cs) =
     (if is_digit c then digits_val (10 * acc + digit_val c) cs
      else if c = CHR ''_'' then
        (case cs of [] \<Rightarrow> None
         | d # ds \<Rightarrow> if is_digit d then digits_val (10 * acc + digit_val d) ds else None)
      else None)"

definition nat_of_digits :: "string \<Rightarrow> nat option" where
  "nat_of_digits s = (case s of [] \<Rightarrow> None | c # cs \<Rightarrow> if is_digit c then digits_val 0 s else None)"

definition py_int :: "string \<Rightarrow> int option" where
  \<comment> \<open>\<^verbatim>\<open>int(s)\<close>; \<open>None\<close> is ValueError\<close>
  "py_int s =
     (case strip s of
        [] \<Rightarrow> None
      | c # cs \<Rightarrow>
          if c = CHR ''-'' then map_option (\<lambda>n. - int n) (nat_of_digits cs)
          else if c = CHR ''+'' then map_option int (nat_of_digits cs)
          else map_option int (nat_of_digits (c # cs)))"

text \<open>
  \<^verbatim>\<open>f"{x:.{d}f}"\<close> on the exact value of a float: the nearest multiple of \<open>10 ^ -d\<close>,
  ties to even.
\<close>

definition round_half_even :: "rat \<Rightarrow> int" where
  "round_half_even x =
     (let f = \<lfloor>x\<rfloor>; r = x - of_int f
      in if r < 1 / 2 then f else if r > 1 / 2 then f + 1
         else if even f then f else f + 1)"

definition pad_left :: "nat \<Rightarrow> string \<Rightarrow> string" where
  "pad_left n s = replicate (n - length s) CHR ''0'' @ s"

definition fmt_fixed :: "nat \<Rightarrow> rat \<Rightarrow> string" where
  "fmt_fixed d x =
     (let n = round_half_even (\<bar>x\<bar> * 10 ^ d); s = pad_left (d + 1) (str_nat (nat n));
          body = (if d = 0 then s else take (length s - d) s @ ''.'' @ drop (length s - d) s)
      in if x < 0 then CHR ''-'' # body else body)"

definition round_to :: "nat \<Rightarrow> rat \<Rightarrow> rat" where
  \<comment> \<open>\<^verbatim>\<open>round(x, d)\<close>\<close>
  "round_to d x = of_int (round_half_even (x * 10 ^ d)) / 10 ^ d"

text \<open>
  \<^verbatim>\<open>float(s)\<close> on decimal literals: an optional sign, digits, optionally a point and more
  digits. The sources only ever pass a formatted integer; exponents, \<^verbatim>\<open>inf\<close> and \<^verbatim>\<open>nan\<close> are
  outside this grammar and come out as \<open>None\<close>, which otherwise is ValueError.
\<close>

definition udecimal :: "string \<Rightarrow> rat option" where
  "udecimal s =
     (case cut ''.'' s of
        None \<Rightarrow> map_option of_nat (nat_of_digits s)
      | Some (a, b) \<Rightarrow>
          (if a = [] \<and> b = [] then None
           else case (if a = [] then Some 0 else nat_of_digits a,
                      if b = [] then Some 0 else nat_of_digits b) of
                  (Some i, Some f) \<Rightarrow> Some (of_nat i + of_nat f / 10 ^ length (filter is_digit b))
                | _ \<Rightarrow> None))"

definition py_float :: "string \<Rightarrow> rat option" where
  "py_float s =
     (case strip s of
        [] \<Rightarrow> None
      | c # cs \<Rightarrow>
          if c = CHR ''-'' then map_option uminus (udecimal cs)
          else if c = CHR ''+'' then udecimal cs
          else udecimal (c # cs))"

lemma is_digit_char [simp]: "d < 10 \<Longrightarrow> is_digit (digit_char d)"
  unfolding is_digit_def digit_char_def by (rule nth_mem) simp

lemma digit_val_char [simp]:
  assumes "d < 10"
  shows "digit_val (digit_char d) = d"
proof -
  from assms have "d \<in> {0, 1, 2, 3, 4, 5, 6, 7, 8, 9}" by auto
  then show ?thesis by (elim insertE) (simp_all add: digit_val_def digit_char_def)
qed

lemma str_nat_digits: "c \<in> set (str_nat n) \<Longrightarrow> is_digit c"
proof (induction n rule: str_nat.induct)
  case (1 n)
  then show ?case by (subst (asm) str_nat.simps) (auto split: if_splits)
qed

lemma str_nat_nonempty [simp]: "str_nat n \<noteq> []"
  by (subst str_nat.simps) simp

lemma digits_val_append:
  "(\<forall>c\<in>set xs. is_digit c) \<Longrightarrow>
     digits_val acc (xs @ ys) = (case digits_val acc xs of None \<Rightarrow> None | Some a \<Rightarrow> digits_val a ys)"
  by (induction xs arbitrary: acc) auto

lemma digits_val_str_nat: "digits_val 0 (str_nat n) = Some n"
proof (induction n rule: str_nat.induct)
  case (1 n)
  show ?case
  proof (cases "n < 10")
    case True
    then show ?thesis by (subst str_nat.simps) simp
  next
    case False
    with 1 have "digits_val 0 (str_nat (n div 10)) = Some (n div 10)" by simp
    with False show ?thesis
      by (subst str_nat.simps) (simp add: digits_val_append str_nat_digits)
  qed
qed

lemma nat_of_digits_str_nat [simp]: "nat_of_digits (str_nat n) = Some n"
  using digits_val_str_nat[of n] str_nat_digits[of _ n]
  by (auto simp: nat_of_digits_def split: list.split)

lemma str_nat_inject [simp]: "str_nat m = str_nat n \<longleftrightarrow> m = n"
  by (metis digits_val_str_nat option.inject)

lemma digit_not_space: "is_digit c \<Longrightarrow> \<not> is_space c"
  by (auto simp: is_digit_def is_space_def)

lemma digit_neq: "is_digit c \<Longrightarrow> c \<noteq> CHR ''-'' \<and> c \<noteq> CHR ''+'' \<and> c \<noteq> CHR ''.''"
  by (auto simp: is_digit_def)

lemma strip_no_space: "(\<forall>c\<in>set s. \<not> is_space c) \<Longrightarrow> strip s = s"
proof -
  assume a: "\<forall>c\<in>set s. \<not> is_space c"
  then have "dropWhile is_space xs = xs" if "set xs = set s" for xs
    using that by (cases xs) auto
  then have "dropWhile is_space s = s" and "dropWhile is_space (rev s) = rev s"
    by simp_all
  then show ?thesis by (simp add: strip_def lstrip_def rstrip_def)
qed

lemma str_nat_Cons: obtains c cs where "str_nat n = c # cs" "is_digit c"
  by (metis list.set_intros(1) neq_Nil_conv str_nat_digits str_nat_nonempty)

lemma strip_str_nat [simp]: "strip (str_nat n) = str_nat n"
  by (rule strip_no_space) (auto dest: str_nat_digits digit_not_space)

lemma strip_minus_str_nat [simp]: "strip (CHR ''-'' # str_nat n) = CHR ''-'' # str_nat n"
proof (rule strip_no_space)
  have "\<not> is_space CHR ''-''" by (simp add: is_space_def)
  then show "\<forall>c\<in>set (CHR ''-'' # str_nat n). \<not> is_space c"
    by (auto dest: str_nat_digits digit_not_space)
qed

lemma py_int_str_nat [simp]: "py_int (str_nat n) = Some (int n)"
proof -
  obtain c cs where "str_nat n = c # cs" "is_digit c" by (rule str_nat_Cons)
  then show ?thesis
    using strip_str_nat[of n] nat_of_digits_str_nat[of n] by (simp add: py_int_def digit_neq)
qed

lemma py_int_str_int [simp]: "py_int (str_int i) = Some i"
  by (simp add: str_int_def) (simp add: py_int_def)

lemma cut_dot_digits: "(\<forall>c\<in>set s. is_digit c) \<Longrightarrow> cut ''.'' s = None"
  by (induction s) (auto dest: digit_neq)

lemma udecimal_str_nat [simp]: "udecimal (str_nat n) = Some (of_nat n)"
  by (simp add: udecimal_def cut_dot_digits str_nat_digits)

lemma py_float_str_int [simp]: "py_float (str_int i) = Some (of_int i)"
proof (cases "i < 0")
  case True
  then show ?thesis by (simp add: str_int_def py_float_def)
next
  case False
  obtain c cs where c: "str_nat (nat i) = c # cs" "is_digit c" by (rule str_nat_Cons)
  with False show ?thesis
    using strip_str_nat[of "nat i"] udecimal_str_nat[of "nat i"]
    by (simp add: str_int_def py_float_def digit_neq)
qed

lemma str_int_inject [simp]: "str_int i = str_int j \<longleftrightarrow> i = j"
  by (metis option.inject py_int_str_int)

section \<open>Errors and templates\<close>

datatype py_error =
    KeyError string
  | ValueError string
  | RuntimeError string
  | TreeError string       \<comment> \<open>the subclass of RuntimeError of \<^verbatim>\<open>backends.py\<close>\<close>
  | SkipError string       \<comment> \<open>\<^verbatim>\<open>harness.Skip\<close>\<close>
  | OSError string
  | SystemExit int
  | SystemExitText string

fun cons_ok :: "string \<Rightarrow> py_error + string \<Rightarrow> py_error + string" where
  "cons_ok p (Inl e) = Inl e"
| "cons_ok p (Inr s) = Inr (p @ s)"

text \<open>
  \<^verbatim>\<open>template.format(**env)\<close> for replacement fields that are plain names, which is all the
  templates of the sources hold.
\<close>

function py_format :: "(string \<times> string) list \<Rightarrow> string \<Rightarrow> py_error + string" where
  "py_format env [] = Inr []"
| "py_format env (c # cs) =
     (if c = CHR ''{'' then
        (if cs \<noteq> [] \<and> hd cs = CHR ''{'' then cons_ok ''{'' (py_format env (tl cs))
         else case cut ''}'' cs of
                None \<Rightarrow> Inl (ValueError ''expected '}' before end of string'')
              | Some (field, rest) \<Rightarrow>
                  (case map_of env field of
                     None \<Rightarrow> Inl (KeyError field)
                   | Some v \<Rightarrow> cons_ok v (py_format env rest)))
      else if c = CHR ''}'' then
        (if cs \<noteq> [] \<and> hd cs = CHR ''}'' then cons_ok ''}'' (py_format env (tl cs))
         else Inl (ValueError ''Single '}' encountered in format string''))
      else cons_ok [c] (py_format env cs))"
  by pat_completeness auto
termination
  by (relation "measure (\<lambda>(env, s). length s)")
    (auto dest!: cut_Some_shorter simp: length_tl less_Suc_eq_le)

text \<open>\<^verbatim>\<open>repr\<close> of a string: single quotes unless only those occur in it; control characters escaped.\<close>

definition hex_char :: "nat \<Rightarrow> char" where
  "hex_char n = (if n < 10 then digit_char n else char_of (n + 87))"

definition repr_char :: "char \<Rightarrow> char \<Rightarrow> string" where
  "repr_char q c =
     (if c = q \<or> c = backslash then [backslash, c]
      else if c = CHR 0x0A then [backslash, CHR ''n'']
      else if c = CHR 0x0D then [backslash, CHR ''r'']
      else if c = CHR 0x09 then [backslash, CHR ''t'']
      else if (of_char c :: nat) < 32 \<or> (of_char c :: nat) = 127
      then [backslash, CHR ''x'', hex_char (of_char c div 16), hex_char (of_char c mod 16)]
      else [c])"

definition py_repr :: "string \<Rightarrow> string" where
  "py_repr s =
     (let q = (if CHR 0x27 \<in> set s \<and> quot \<notin> set s then quot else CHR 0x27)
      in [q] @ concat (map (repr_char q) s) @ [q])"

section \<open>Dictionaries\<close>

definition dict_set :: "'k \<Rightarrow> 'v \<Rightarrow> ('k, 'v) dict \<Rightarrow> ('k, 'v) dict" where
  "dict_set = AList.update"

definition dict_get :: "('k, 'v) dict \<Rightarrow> 'k \<Rightarrow> 'v option" where
  "dict_get = map_of"

definition dict_keys :: "('k, 'v) dict \<Rightarrow> 'k list" where
  "dict_keys = map fst"

definition dict_update :: "('k, 'v) dict \<Rightarrow> ('k, 'v) dict \<Rightarrow> ('k, 'v) dict" where
  \<comment> \<open>\<^verbatim>\<open>d.update(kvs)\<close>\<close>
  "dict_update d kvs = fold (\<lambda>(k, v). dict_set k v) kvs d"

definition dict_of :: "('k \<times> 'v) list \<Rightarrow> ('k, 'v) dict" where
  \<comment> \<open>\<^verbatim>\<open>{k: v for k, v in kvs}\<close>\<close>
  "dict_of kvs = dict_update [] kvs"

definition setdefault :: "'k \<Rightarrow> 'v \<Rightarrow> ('k, 'v) dict \<Rightarrow> ('k, 'v) dict" where
  "setdefault k v d = (if k \<in> set (dict_keys d) then d else d @ [(k, v)])"

text \<open>A key list that remembers the first occurrence of each key.\<close>

fun first_seen :: "'k list \<Rightarrow> 'k list \<Rightarrow> 'k list" where
  "first_seen seen [] = seen"
| "first_seen seen (k # ks) = first_seen (if k \<in> set seen then seen else seen @ [k]) ks"

lemma set_first_seen [simp]: "set (first_seen seen ks) = set seen \<union> set ks"
  by (induction seen ks rule: first_seen.induct) auto

lemma distinct_first_seen: "distinct seen \<Longrightarrow> distinct (first_seen seen ks)"
  by (induction seen ks rule: first_seen.induct) auto

lemma first_seen_prefix: "\<exists>zs. first_seen seen ks = seen @ zs"
proof (induction seen ks rule: first_seen.induct)
  case (2 seen k ks)
  then show ?case by (auto split: if_splits)
qed simp

lemma first_seen_append: "first_seen seen (xs @ ys) = first_seen (first_seen seen xs) ys"
  by (induction seen xs rule: first_seen.induct) auto

text \<open>
  The contract of an insertion-ordered dictionary, and what a client that fills one
  by a sequence of stores may rely on.
\<close>

locale ordered_dict =
  fixes empty :: "'d"
    and get :: "'d \<Rightarrow> 'k \<Rightarrow> 'v option"
    and put :: "'k \<Rightarrow> 'v \<Rightarrow> 'd \<Rightarrow> 'd"
    and keys :: "'d \<Rightarrow> 'k list"
  assumes get_empty: "get empty k = None"
    and get_put: "get (put k v d) k' = (if k' = k then Some v else get d k')"
    and keys_empty: "keys empty = []"
    and keys_put: "keys (put k v d) = (if k \<in> set (keys d) then keys d else keys d @ [k])"
    and get_keys: "get d k \<noteq> None \<longleftrightarrow> k \<in> set (keys d)"
begin

lemma get_fold_put:
  "get (fold (\<lambda>(k, v). put k v) kvs d) k =
     (case map_of (rev kvs) k of None \<Rightarrow> get d k | Some v \<Rightarrow> Some v)"
  by (induction kvs rule: rev_induct) (auto simp: get_put split: prod.splits)

lemma keys_fold_put:
  "keys (fold (\<lambda>(k, v). put k v) kvs d) = first_seen (keys d) (map fst kvs)"
  by (induction kvs arbitrary: d) (auto simp: keys_put split: prod.splits)

lemma distinct_keys_fold_put:
  "distinct (keys d) \<Longrightarrow> distinct (keys (fold (\<lambda>(k, v). put k v) kvs d))"
  by (simp add: keys_fold_put distinct_first_seen)

end

interpretation alist_dict: ordered_dict "[]" dict_get dict_set dict_keys
proof unfold_locales
  fix k :: 'a and v :: 'b and d k'
  show "dict_get (dict_set k v d) k' = (if k' = k then Some v else dict_get d k')"
    by (simp add: dict_get_def dict_set_def update_conv)
  show "dict_keys (dict_set k v d) = (if k \<in> set (dict_keys d) then dict_keys d else dict_keys d @ [k])"
    by (induction d) (auto simp: dict_set_def dict_keys_def)
  show "dict_get d k \<noteq> None \<longleftrightarrow> k \<in> set (dict_keys d)"
    by (simp add: dict_get_def dict_keys_def map_of_eq_None_iff)
qed (simp_all add: dict_get_def dict_keys_def)

lemma dict_get_of [dict_laws]: "dict_get (dict_of kvs) k = map_of (rev kvs) k"
  by (simp add: dict_of_def dict_update_def alist_dict.get_fold_put alist_dict.get_empty
      split: option.split)

lemma dict_get_update [dict_laws]:
  "dict_get (dict_update d kvs) k =
     (case map_of (rev kvs) k of None \<Rightarrow> dict_get d k | Some v \<Rightarrow> Some v)"
  by (simp add: dict_update_def alist_dict.get_fold_put)

lemma dict_keys_of [dict_laws]: "dict_keys (dict_of kvs) = first_seen [] (map fst kvs)"
  by (simp add: dict_of_def dict_update_def alist_dict.keys_fold_put alist_dict.keys_empty)

lemma dict_keys_update [dict_laws]:
  "dict_keys (dict_update d kvs) = first_seen (dict_keys d) (map fst kvs)"
  by (simp add: dict_update_def alist_dict.keys_fold_put)

lemma dict_of_distinct: "distinct (dict_keys (dict_of kvs))"
  by (simp add: dict_keys_of distinct_first_seen)

lemma dict_get_keys: "k \<in> set (dict_keys d) \<longleftrightarrow> (\<exists>v. dict_get d k = Some v)"
  using alist_dict.get_keys[of d k] by auto

lemma dict_set_new: "k \<notin> set (dict_keys d) \<Longrightarrow> dict_set k v d = d @ [(k, v)]"
  by (induction d) (auto simp: dict_set_def dict_keys_def)

lemma dict_eq_keys_get:
  "distinct (dict_keys d) \<Longrightarrow> d = map (\<lambda>k. (k, the (dict_get d k))) (dict_keys d)"
proof (induction d)
  case (Cons p d)
  obtain k v where p: "p = (k, v)" by (cases p)
  with Cons.prems have "\<forall>k'\<in>set (dict_keys d). k' \<noteq> k" by (auto simp: dict_keys_def)
  then have "map (\<lambda>k'. (k', the (dict_get (p # d) k'))) (dict_keys d) =
      map (\<lambda>k'. (k', the (dict_get d k'))) (dict_keys d)"
    by (auto simp: p dict_get_def)
  with Cons show ?case by (simp add: p dict_keys_def) (simp add: dict_get_def)
qed (simp add: dict_keys_def)

lemma first_seen_distinct: "distinct (seen @ ks) \<Longrightarrow> first_seen seen ks = seen @ ks"
  by (induction seen ks rule: first_seen.induct) auto

lemma dict_of_same:
  assumes "distinct (map fst kvs)"
  shows "dict_of kvs = kvs"
proof -
  have keys: "dict_keys (dict_of kvs) = dict_keys kvs"
    using assms unfolding dict_keys_of by (simp add: first_seen_distinct dict_keys_def)
  have "map_of (rev kvs) = map_of kvs" using assms by (subst map_of_inject_set) (simp_all add: rev_map[symmetric])
  then have get: "dict_get (dict_of kvs) k = dict_get kvs k" for k
    by (simp add: dict_get_of) (simp add: dict_get_def)
  have d: "distinct (dict_keys kvs)" using assms by (simp add: dict_keys_def)
  have "dict_of kvs = map (\<lambda>k. (k, the (dict_get (dict_of kvs) k))) (dict_keys (dict_of kvs))"
    by (rule dict_eq_keys_get) (simp add: keys d)
  also have "\<dots> = kvs" unfolding keys get by (rule dict_eq_keys_get[OF d, symmetric])
  finally show ?thesis .
qed

text \<open>Grouping: a dictionary of lists filled with \<^verbatim>\<open>d.setdefault(key(x), []).append(x)\<close>.\<close>

locale grouped_dict = ordered_dict empty get put keys
  for empty :: 'd and get :: "'d \<Rightarrow> 'k \<Rightarrow> 'x list option" and put and keys +
  fixes key_of :: "'x \<Rightarrow> 'k" and add :: "'x \<Rightarrow> 'd \<Rightarrow> 'd"
  assumes add_def: "add x d =
    put (key_of x) ((case get d (key_of x) of None \<Rightarrow> [] | Some ys \<Rightarrow> ys) @ [x]) d"
begin

lemma get_group:
  "get (fold add xs empty) k =
     (if filter (\<lambda>x. key_of x = k) xs = [] then None else Some (filter (\<lambda>x. key_of x = k) xs))"
  by (induction xs rule: rev_induct) (auto simp: add_def get_put get_empty)

lemma keys_group: "keys (fold add xs d) = first_seen (keys d) (map key_of xs)"
  by (induction xs arbitrary: d) (simp_all add: add_def keys_put)

end

section \<open>Machines driven by events\<close>

text \<open>
  An operation that keeps an invariant, and one that only ever appends to an output: what
  holds after any sequence of events.
\<close>

locale kept_invariant =
  fixes step :: "'e \<Rightarrow> 's \<Rightarrow> 's" and inv :: "'s \<Rightarrow> bool"
  assumes step_inv: "inv s \<Longrightarrow> inv (step e s)"
begin

lemma fold_inv: "inv s \<Longrightarrow> inv (fold step es s)"
  by (induction es arbitrary: s) (simp_all add: step_inv)

end

locale append_only = kept_invariant +
  fixes out :: "'b \<Rightarrow> 'o list" and emit :: "'a \<Rightarrow> 'o list"
  assumes step_out: "out (step e s) = out s @ emit e"
begin

lemma fold_out: "out (fold step es s) = out s @ concat (map emit es)"
  by (induction es arbitrary: s) (simp_all add: step_out)

lemma fold_out_prefix: "prefix (out s) (out (fold step es s))"
  by (simp add: fold_out)

end

end
