(* ===== verification/Suite.thy ===== *)
theory Suite
  imports Prelude
begin

text \<open>
  \<^verbatim>\<open>testgear/suite.py\<close>: the one list of check scripts that the sweep (\<^verbatim>\<open>run_all.py\<close>), the
  matrix (\<^verbatim>\<open>compare.py\<close>) and the artifact normaliser read. A script is a record; \<open>SCRIPTS\<close>
  is the table, \<open>for_protocol\<close> the selection, \<open>script_argv\<close> and \<open>script_budget\<close> the two
  methods a runner calls. Arguments are templates: formatting may raise, so both return a sum.
\<close>

record script =
  s_name :: string
  s_args :: "string list"
  s_only :: "string option"
  s_in_matrix :: bool
  s_optional :: "(string \<times> string) list"
  s_extra_budget :: string

definition Script0 :: "string \<Rightarrow> script" where
  "Script0 n = \<lparr>s_name = n, s_args = [], s_only = None, s_in_matrix = True,
     s_optional = [], s_extra_budget = []\<rparr>"

definition script_protocols :: "script \<Rightarrow> string list \<Rightarrow> string list" where
  "script_protocols s wanted =
     (case s_only s of
        None \<Rightarrow> wanted
      | Some p \<Rightarrow> if p \<in> set wanted then [p] else [])"

definition format_env :: "int \<Rightarrow> int \<Rightarrow> (string \<times> string) list" where
  "format_env iterations soak = [(''iter'', str_int iterations), (''soak'', str_int soak)]"

fun format_all :: "(string \<times> string) list \<Rightarrow> string list \<Rightarrow> py_error + string list" where
  "format_all env [] = Inr []"
| "format_all env (a # as) =
     (case py_format env a of
        Inl e \<Rightarrow> Inl e
      | Inr x \<Rightarrow> (case format_all env as of Inl e \<Rightarrow> Inl e | Inr xs \<Rightarrow> Inr (x # xs)))"

text \<open>The runner flags the caller may not have set: \<^verbatim>\<open>sessions=None\<close> is \<open>(''sessions'', None)\<close>.\<close>

fun optional_args :: "(string \<times> int option) list \<Rightarrow> (string \<times> string) list \<Rightarrow> string list" where
  "optional_args given [] = []"
| "optional_args given ((flag, key) # rest) =
     (case map_of given key of
        Some (Some v) \<Rightarrow> [flag, str_int v]
      | _ \<Rightarrow> []) @ optional_args given rest"

definition script_argv ::
  "script \<Rightarrow> int \<Rightarrow> int \<Rightarrow> (string \<times> int option) list \<Rightarrow> py_error + string list" where
  "script_argv s iterations soak given =
     (case format_all (format_env iterations soak) (s_args s) of
        Inl e \<Rightarrow> Inl e
      | Inr out \<Rightarrow> Inr (out @ optional_args given (s_optional s)))"

definition script_budget :: "script \<Rightarrow> rat \<Rightarrow> int \<Rightarrow> int \<Rightarrow> py_error + rat" where
  "script_budget s dflt iterations soak =
     (if s_extra_budget s = [] then Inr dflt
      else case py_format (format_env iterations soak) (s_extra_budget s) of
             Inl e \<Rightarrow> Inl e
           | Inr t \<Rightarrow> (case py_float t of
                         None \<Rightarrow> Inl (ValueError (''could not convert string to float: '' @ t))
                       | Some x \<Rightarrow> Inr (dflt + x)))"

definition SCRIPTS :: "script list" where
  "SCRIPTS =
    [Script0 ''01_smoke.py'',
     (Script0 ''02_io.py'')\<lparr>s_args := [''-n'', ''{iter}'']\<rparr>,
     (Script0 ''03_srq.py'')\<lparr>s_args := [''-n'', ''30'']\<rparr>,
     (Script0 ''04_concurrency.py'')\<lparr>s_args := [''-n'', ''{iter}''],
        s_optional := [(''--sessions'', ''sessions'')]\<rparr>,
     (Script0 ''05_lock.py'')\<lparr>s_args := [''-n'', ''{iter}'']\<rparr>,
     (Script0 ''06_terminate.py'')\<lparr>s_args := [''-n'', ''15'']\<rparr>,
     (Script0 ''07_clear.py'')\<lparr>s_args := [''-n'', ''40'']\<rparr>,
     Script0 ''09_remote_local.py'',
     Script0 ''10_lock_semantics.py'',
     Script0 ''12_session_lifecycle.py'',
     Script0 ''13_events.py'',
     Script0 ''15_required_attributes.py'',
     Script0 ''16_operations.py'',
     Script0 ''17_resource_names.py'',
     Script0 ''conformance.py'',
     (Script0 ''08_soak.py'')\<lparr>s_args := [''--duration'', ''{soak}'', ''--srq-thread''],
        s_in_matrix := False, s_extra_budget := ''{soak}''\<rparr>,
     (Script0 ''vxi11_conformance.py'')\<lparr>s_only := Some ''vxi11''\<rparr>,
     (Script0 ''14_vxi11_flags.py'')\<lparr>s_only := Some ''vxi11''\<rparr>,
     (Script0 ''11_hislip_messages.py'')\<lparr>s_only := Some ''hislip''\<rparr>,
     (Script0 ''18_hislip_modes.py'')\<lparr>s_only := Some ''hislip''\<rparr>]"

definition BY_NAME :: "(string, script) dict" where
  "BY_NAME = dict_of (map (\<lambda>s. (s_name s, s)) SCRIPTS)"

definition for_protocol :: "string \<Rightarrow> bool \<Rightarrow> script list" where
  "for_protocol protocol matrix_only =
     filter (\<lambda>s. (\<not> matrix_only \<or> s_in_matrix s) \<and> script_protocols s [protocol] \<noteq> []) SCRIPTS"

definition names :: "string \<Rightarrow> bool \<Rightarrow> string list" where
  "names protocol matrix_only = map s_name (for_protocol protocol matrix_only)"

section \<open>Lemmas\<close>

lemmas script_defs = script_argv_def script_budget_def script_protocols_def
  format_env_def Script0_def

lemma distinct_script_names: "distinct (map s_name SCRIPTS)"
  by (simp add: SCRIPTS_def Script0_def)

lemma set_for_protocol:
  "s \<in> set (for_protocol p m) \<longleftrightarrow>
     s \<in> set SCRIPTS \<and> (m \<longrightarrow> s_in_matrix s) \<and> (s_only s = None \<or> s_only s = Some p)"
  by (auto simp: for_protocol_def script_protocols_def split: option.splits if_splits)

lemma py_format_iter [simp]: "py_format (format_env i k) ''{iter}'' = Inr (str_int i)"
  by (simp add: format_env_def)

lemma py_format_soak [simp]: "py_format (format_env i k) ''{soak}'' = Inr (str_int k)"
  by (simp add: format_env_def)

lemma map_of_rev_distinct:
  "distinct (map f xs) \<Longrightarrow> x \<in> set xs \<Longrightarrow> map_of (rev (map (\<lambda>s. (f s, s)) xs)) (f x) = Some x"
  by (rule map_of_is_SomeI) (auto simp: rev_map[symmetric] comp_def distinct_map)

lemma image_diff_singleton:
  assumes "\<forall>s\<in>A. (\<not> P s) = (f s = q)" and "\<forall>s\<in>A. f s = q \<longrightarrow> R s" and "\<exists>s\<in>A. f s = q"
  shows "f ` {s \<in> A. R s} - f ` {s \<in> A. P s \<and> R s} = {q}"
  using assms by auto

lemma no_brace_str_int: "CHR ''{'' \<notin> set (str_int i)" "CHR ''}'' \<notin> set (str_int i)"
proof -
  have "\<forall>c\<in>set (str_int i). is_digit c \<or> c = CHR ''-''"
    by (auto simp: str_int_def dest: str_nat_digits)
  moreover have "\<not> is_digit CHR ''{''" "\<not> is_digit CHR ''}''" by (simp_all add: is_digit_def)
  ultimately show "CHR ''{'' \<notin> set (str_int i)" "CHR ''}'' \<notin> set (str_int i)" by auto
qed

lemma suite_templates:
  assumes "s \<in> set SCRIPTS"
  shows "s_args s \<in> {[], [''-n'', ''{iter}''], [''-n'', ''30''], [''-n'', ''15''],
      [''-n'', ''40''], [''--duration'', ''{soak}'', ''--srq-thread'']}"
    and "s_optional s \<in> {[], [(''--sessions'', ''sessions'')]}"
    and "s_extra_budget s = (if s_name s = ''08_soak.py'' then ''{soak}'' else [])"
proof -
  have "\<forall>s\<in>set SCRIPTS. s_args s \<in> {[], [''-n'', ''{iter}''], [''-n'', ''30''], [''-n'', ''15''],
      [''-n'', ''40''], [''--duration'', ''{soak}'', ''--srq-thread'']} \<and>
      s_optional s \<in> {[], [(''--sessions'', ''sessions'')]} \<and>
      s_extra_budget s = (if s_name s = ''08_soak.py'' then ''{soak}'' else [])"
    by (simp add: SCRIPTS_def Script0_def)
  with assms show "s_args s \<in> {[], [''-n'', ''{iter}''], [''-n'', ''30''], [''-n'', ''15''],
      [''-n'', ''40''], [''--duration'', ''{soak}'', ''--srq-thread'']}"
    and "s_optional s \<in> {[], [(''--sessions'', ''sessions'')]}"
    and "s_extra_budget s = (if s_name s = ''08_soak.py'' then ''{soak}'' else [])"
    by blast+
qed

lemma suite_argv:
  assumes "s \<in> set SCRIPTS"
  shows "\<exists>args. script_argv s iterations soak given = Inr args \<and>
           (\<forall>a\<in>set args. CHR ''{'' \<notin> set a \<and> CHR ''}'' \<notin> set a)"
proof -
  have "\<exists>out. format_all (format_env iterations soak) (s_args s) = Inr out \<and>
      (\<forall>x\<in>set out. CHR ''{'' \<notin> set x \<and> CHR ''}'' \<notin> set x)"
    using suite_templates(1)[OF assms] by (elim insertE) (simp_all add: no_brace_str_int format_env_def)
  moreover have "\<forall>x\<in>set (optional_args given (s_optional s)). CHR ''{'' \<notin> set x \<and> CHR ''}'' \<notin> set x"
    using suite_templates(2)[OF assms] by (elim insertE) (auto simp: no_brace_str_int split: option.split)
  ultimately show ?thesis by (auto simp: script_argv_def)
qed

lemma suite_budget:
  "s \<in> set SCRIPTS \<Longrightarrow> script_budget s dflt iterations soak =
     Inr (if s_name s = ''08_soak.py'' then dflt + of_int soak else dflt)"
  using suite_templates(3)[of s] by (simp add: script_budget_def format_env_def)

section \<open>Properties\<close>

text \<open>The by-name table is the suite: looking a name up finds a script exactly when the
  suite has one of that name, and finds that one. No two scripts share a name, so none is
  lost when the table is built.\<close>

lemma by_name_iff:
  "dict_get BY_NAME n = Some s \<longleftrightarrow> s \<in> set SCRIPTS \<and> s_name s = n"
proof
  assume "dict_get BY_NAME n = Some s"
  then have "(n, s) \<in> set (rev (map (\<lambda>s. (s_name s, s)) SCRIPTS))"
    by (intro map_of_SomeD) (simp add: BY_NAME_def dict_get_of)
  then show "s \<in> set SCRIPTS \<and> s_name s = n" by auto
next
  assume "s \<in> set SCRIPTS \<and> s_name s = n"
  then show "dict_get BY_NAME n = Some s"
    using map_of_rev_distinct[OF distinct_script_names] by (auto simp: BY_NAME_def dict_get_of)
qed

text \<open>Selecting scripts per transport neither loses nor invents one. The two transports
  together run the whole suite; a script runs on both exactly when it names no transport; and
  the matrix leaves out the soak and nothing else.\<close>

theorem for_protocol_covers_suite:
  "set (for_protocol ''hislip'' False) \<union> set (for_protocol ''vxi11'' False) = set SCRIPTS \<and>
   (s \<in> set (for_protocol ''hislip'' False) \<inter> set (for_protocol ''vxi11'' False) \<longleftrightarrow>
     s \<in> set SCRIPTS \<and> s_only s = None) \<and>
   set (names p False) - set (names p True) = {''08_soak.py''}"
proof (intro conjI)
  have only: "\<forall>s\<in>set SCRIPTS. s_only s \<in> {None, Some ''hislip'', Some ''vxi11''}"
    by (simp add: SCRIPTS_def Script0_def)
  then show "set (for_protocol ''hislip'' False) \<union> set (for_protocol ''vxi11'' False) = set SCRIPTS"
    by (auto simp: set_for_protocol)
  show "s \<in> set (for_protocol ''hislip'' False) \<inter> set (for_protocol ''vxi11'' False) \<longleftrightarrow>
     s \<in> set SCRIPTS \<and> s_only s = None"
    by (auto simp: set_for_protocol)
  have soak: "\<forall>s\<in>set SCRIPTS. (\<not> s_in_matrix s) = (s_name s = ''08_soak.py'')"
    "\<forall>s\<in>set SCRIPTS. s_name s = ''08_soak.py'' \<longrightarrow> s_only s = None"
    "\<exists>s\<in>set SCRIPTS. s_name s = ''08_soak.py''"
    by (simp_all add: SCRIPTS_def Script0_def)
  have "set (names p b) = s_name ` {s \<in> set SCRIPTS. (b \<longrightarrow> s_in_matrix s) \<and> (s_only s = None \<or> s_only s = Some p)}" for b
    unfolding names_def set_map by (rule arg_cong[where f = "image s_name"]) (use set_for_protocol in blast)
  then show "set (names p False) - set (names p True) = {''08_soak.py''}"
    using image_diff_singleton[of "set SCRIPTS" s_in_matrix s_name, OF soak(1) _ soak(3)] soak(2) by simp
qed

text \<open>For every script of the suite and whatever iteration count, soak length and
  optional flags the runner was given, formatting the arguments raises nothing and leaves no
  placeholder, and the time budget is the runner's default, plus the soak length for the soak
  alone.\<close>

theorem suite_arguments_total:
  assumes "s \<in> set SCRIPTS"
  shows "(\<exists>args. script_argv s iterations soak given = Inr args \<and>
           (\<forall>a\<in>set args. CHR ''{'' \<notin> set a \<and> CHR ''}'' \<notin> set a)) \<and>
         script_budget s dflt iterations soak =
           Inr (if s_name s = ''08_soak.py'' then dflt + of_int soak else dflt)"
  using suite_argv[OF assms] suite_budget[OF assms] by blast

theorem suite_arguments_total_witness:
  "(\<exists>args. script_argv ((Script0 ''05_lock.py'')\<lparr>s_args := [''-n'', ''{iter}'']\<rparr>) 300 60 [] = Inr args) \<and>
   script_budget ((Script0 ''05_lock.py'')\<lparr>s_args := [''-n'', ''{iter}'']\<rparr>) 300 300 60 = Inr 300"
proof -
  have "(Script0 ''05_lock.py'')\<lparr>s_args := [''-n'', ''{iter}'']\<rparr> \<in> set SCRIPTS"
    by (simp add: SCRIPTS_def)
  from suite_arguments_total[OF this, of 300 60 "[]" 300] show ?thesis by (auto simp: Script0_def)
qed

end
