(* ===== verification/Visa_Status.thy ===== *)
theory Visa_Status
  imports Prelude
begin

text \<open>
  The part of \<^verbatim>\<open>testgear/visa.py\<close> that turns what a backend did into a status, which the
  harness itself needs. An exception object is a record whose \<open>e_mro\<close> lists its classes from the
  most derived to \<^verbatim>\<open>BaseException\<close>, so \<^verbatim>\<open>isinstance\<close> is membership and an \<^verbatim>\<open>except\<close> clause is a
  test on it. What the source takes from pyvisa and pyvisa-py (the numeric value of two status
  codes, which exception classes a tree defines) is the parameter \<open>visa_env\<close>.
\<close>

record exn =
  e_mro :: "string list"
  e_msg :: string          \<comment> \<open>\<^verbatim>\<open>str(exc)\<close>\<close>
  e_code :: int            \<comment> \<open>\<^verbatim>\<open>exc.error_code\<close> of a VisaIOError\<close>
  e_code_text :: string
  e_abbrev :: string
  e_trace :: string        \<comment> \<open>\<^verbatim>\<open>traceback.format_exc()\<close>\<close>

definition isinstance :: "exn \<Rightarrow> string \<Rightarrow> bool" where
  "isinstance e cls \<longleftrightarrow> cls \<in> set (e_mro e)"

definition type_name :: "exn \<Rightarrow> string" where
  "type_name e = (case e_mro e of [] \<Rightarrow> [] | c # _ \<Rightarrow> c)"

text \<open>An exception the suite raises itself. Nothing reads the traceback of one of these.\<close>

definition plain_exn :: "string list \<Rightarrow> string \<Rightarrow> exn" where
  "plain_exn mro msg = \<lparr>e_mro = mro, e_msg = msg, e_code = 0, e_code_text = [], e_abbrev = [],
     e_trace = []\<rparr>"

record visa_env =
  ve_success :: int                  \<comment> \<open>\<^verbatim>\<open>StatusCode.success\<close>\<close>
  ve_conn_lost :: int                \<comment> \<open>\<^verbatim>\<open>StatusCode.error_connection_lost\<close>\<close>
  ve_hislip_attr :: "string \<Rightarrow> bool" \<comment> \<open>the tree's hislip module has this exception class\<close>

datatype status = StatusCode int | NOT_IMPLEMENTED

text \<open>What a visalib call did: a tuple (its first and last elements), a bare status, or an exception.\<close>

datatype 'v call_end = Tuple 'v status | Single status | Raises exn

definition BadCall :: "string \<Rightarrow> exn \<Rightarrow> exn" where
  "BadCall fn e = plain_exn [''BadCall'', ''Exception'', ''BaseException''] (fn @ '': '' @ e_msg e)"

definition call :: "string \<Rightarrow> 'v call_end \<Rightarrow> exn + ('v option \<times> status)" where
  "call fn result =
     (case result of
        Raises e \<Rightarrow>
          if isinstance e ''VisaIOError'' then Inr (None, StatusCode (e_code e))
          else if isinstance e ''NotImplementedError'' then Inr (None, NOT_IMPLEMENTED)
          else if isinstance e ''ArgumentError'' then Inl (BadCall fn e)
          else Inl e
      | Tuple v st \<Rightarrow> Inr (Some v, st)
      | Single st \<Rightarrow> Inr (None, st))"

definition call_status :: "string \<Rightarrow> 'v call_end \<Rightarrow> exn + status" where
  "call_status fn result = map_sum id snd (call fn result)"

definition connection_gone_types :: "visa_env \<Rightarrow> string list" where
  "connection_gone_types env =
     [''ConnectionError'', ''BrokenPipeError''] @
     filter (ve_hislip_attr env) [''HiSLIPConnectionLost'', ''HiSLIPSynchronizationLost'']"

definition is_connection_lost :: "visa_env \<Rightarrow> exn \<Rightarrow> bool" where
  "is_connection_lost env e =
     (if list_ex (isinstance e) (connection_gone_types env) then True
      else isinstance e ''VisaIOError'' \<and> e_code e = ve_conn_lost env)"

definition visa_status :: "exn \<Rightarrow> string" where
  "visa_status e =
     (if isinstance e ''VisaIOError'' then e_abbrev e @ '' ('' @ e_code_text e @ '')''
      else type_name e @ '': '' @ e_msg e)"

definition target_failure :: "visa_env \<Rightarrow> exn \<Rightarrow> string option" where
  "target_failure env e =
     (if isinstance e ''VisaIOError'' \<or> is_connection_lost env e then Some (visa_status e) else None)"

section \<open>Properties\<close>

lemma target_failure_iff:
  "target_failure env e = None \<longleftrightarrow>
     \<not> isinstance e ''VisaIOError'' \<and> \<not> list_ex (isinstance e) (connection_gone_types env)"
  by (auto simp: target_failure_def is_connection_lost_def)

text \<open>Calling the library never loses the process to an answer of the backend. A status the
  library raised, and an operation it does not implement, come back as values; what still
  raises is either a call this suite made wrongly, always as BadCall, or the backend's own
  exception unchanged. No other outcome is possible.\<close>

theorem call_outcomes:
  "(case call fn result of
      Inr (v, st) \<Rightarrow>
        (case result of
           Tuple w s \<Rightarrow> v = Some w \<and> st = s
         | Single s \<Rightarrow> v = None \<and> st = s
         | Raises e \<Rightarrow> v = None \<and>
             (isinstance e ''VisaIOError'' \<and> st = StatusCode (e_code e) \<or>
              isinstance e ''NotImplementedError'' \<and> st = NOT_IMPLEMENTED))
    | Inl x \<Rightarrow>
        (\<exists>e. result = Raises e \<and> \<not> isinstance e ''VisaIOError'' \<and> \<not> isinstance e ''NotImplementedError'' \<and>
          (if isinstance e ''ArgumentError'' then type_name x = ''BadCall'' else x = e)))"
  by (cases result) (auto simp: call_def BadCall_def plain_exn_def type_name_def)

text \<open>A tree that lacks the pyvisa-py exception classes cannot change what the other columns
  report: with the names missing, whether an exception means a lost connection depends only on
  the standard socket errors and on the VISA status.\<close>

lemma connection_lost_without_pyvisa_py:
  "is_connection_lost (env\<lparr>ve_hislip_attr := \<lambda>_. False\<rparr>) e \<longleftrightarrow>
     isinstance e ''ConnectionError'' \<or> isinstance e ''BrokenPipeError'' \<or>
     (isinstance e ''VisaIOError'' \<and> e_code e = ve_conn_lost env)"
  by (simp add: is_connection_lost_def connection_gone_types_def)

end
