(* ===== verification/Harness.thy ===== *)
theory Harness
  imports Visa_Status
begin

text \<open>
  \<^verbatim>\<open>testgear/harness.py\<close>: the PASS/FAIL/SKIP bookkeeping every check script uses.

  A \<open>stats\<close> record is the \<^verbatim>\<open>Stats\<close> object; what it prints is kept in \<open>st_out\<close> (one
  entry per \<^verbatim>\<open>print\<close>, with its newline) and \<open>st_err\<close>, because the sweep reads that text
  back. Every recording method is one function, and \<open>stat_op\<close> names them as events.
  A check function is a \<open>check_fn\<close>: its decorations, and as parameters of the model
  what running it does (the records it makes through the \<^verbatim>\<open>Stats\<close> API, then return,
  raise, or never end). \<open>run_checks\<close> is the loop over them, watchdog and exception clauses included;
  it ends normally, is left by an exception no clause catches, or never ends.
  A thread the watchdog abandoned may go on recording; that interleaving is not modelled.
  Where the source reads the caller's stack frame, the location is an argument.
\<close>

abbreviation PASS :: string where "PASS \<equiv> ''PASS''"
abbreviation FAIL :: string where "FAIL \<equiv> ''FAIL''"
abbreviation SKIP :: string where "SKIP \<equiv> ''SKIP''"

section \<open>Results\<close>

record result =
  r_name :: string
  r_outcome :: string
  r_detail :: string
  r_duration :: rat
  r_rule :: string
  r_source :: string

definition stable_key :: "string \<Rightarrow> string" where
  "stable_key name = strip name"

text \<open>A result as the JSON report carries it. A report read back may lack the optional keys.\<close>

record rdict =
  d_name :: string
  d_outcome :: string
  d_detail :: "string option"
  d_duration :: "rat option"
  d_rule :: "string option"
  d_source :: "string option"
  d_key :: "string option"

definition as_dict :: "result \<Rightarrow> rdict" where
  "as_dict r = \<lparr>d_name = r_name r, d_outcome = r_outcome r, d_detail = Some (r_detail r),
     d_duration = Some (r_duration r), d_rule = Some (r_rule r), d_source = Some (r_source r),
     d_key = Some (stable_key (r_name r))\<rparr>"

text \<open>A path below the repository root is shown relative to it, any other by its last part.\<close>

definition relative_posix :: "string list \<Rightarrow> string list \<Rightarrow> string" where
  "relative_posix base path =
     (if prefix base path then
        (if path = base then ''.'' else join ''/'' (drop (length base) path))
      else if path = [] then [] else last path)"

definition caller_loc :: "string list \<Rightarrow> string list \<Rightarrow> int \<Rightarrow> string" where
  "caller_loc base filename lineno = relative_posix base filename @ '':'' @ str_int lineno"

section \<open>Stats\<close>

record stats =
  st_name :: string
  st_verbose :: bool
  st_context :: "(string, string) dict"
  st_results :: "result list"
  st_notes :: "string list"
  st_ok :: nat
  st_failures :: "string list"
  st_skipped :: "string list"
  st_expected_desync :: "(int, string) dict"
  st_started :: rat
  st_out :: "string list"
  st_err :: "string list"

definition say :: "string \<Rightarrow> stats \<Rightarrow> stats" where
  "say line st = st\<lparr>st_out := st_out st @ [line @ nl]\<rparr>"

definition context_lines :: "(string, string) dict \<Rightarrow> string list" where
  "context_lines ctx = map (\<lambda>(k, v). k @ '': '' @ v) ctx"

definition new_stats :: "string \<Rightarrow> bool \<Rightarrow> (string, string) dict option \<Rightarrow> rat \<Rightarrow> stats" where
  "new_stats name verbose ctx now =
     (let c = (case ctx of None \<Rightarrow> [] | Some d \<Rightarrow> d);
          st = \<lparr>st_name = name, st_verbose = verbose, st_context = c, st_results = [],
                st_notes = [], st_ok = 0, st_failures = [], st_skipped = [],
                st_expected_desync = [], st_started = now, st_out = [], st_err = []\<rparr>
      in fold (\<lambda>line. say (''  ---- '' @ line)) (context_lines c) (say (''=== '' @ name @ '' ==='') st))"

definition with_detail :: "string \<Rightarrow> string \<Rightarrow> string" where
  "with_detail message detail = (if detail = [] then message else message @ '' ('' @ detail @ '')'')"

definition cited :: "string \<Rightarrow> string \<Rightarrow> string" where
  \<comment> \<open>\<^verbatim>\<open>f"{text} [{rule}]" if rule else text\<close>\<close>
  "cited text rule = (if rule = [] then text else text @ '' ['' @ rule @ '']'')"

definition or_else :: "string \<Rightarrow> string \<Rightarrow> string" where
  "or_else s t = (if s = [] then t else s)"

definition mk_result :: "string \<Rightarrow> string \<Rightarrow> string \<Rightarrow> rat \<Rightarrow> string \<Rightarrow> string \<Rightarrow> result" where
  "mk_result n out d t rule src = \<lparr>r_name = n, r_outcome = out, r_detail = d, r_duration = t,
     r_rule = rule, r_source = src\<rparr>"

definition add_pass :: "result \<Rightarrow> stats \<Rightarrow> stats" where
  "add_pass r st = st\<lparr>st_ok := Suc (st_ok st), st_results := st_results st @ [r]\<rparr>"

definition add_fail :: "string \<Rightarrow> result \<Rightarrow> stats \<Rightarrow> stats" where
  "add_fail line r st =
     st\<lparr>st_failures := st_failures st @ [line], st_results := st_results st @ [r]\<rparr>"

definition add_skip :: "string \<Rightarrow> result \<Rightarrow> stats \<Rightarrow> stats" where
  "add_skip line r st =
     st\<lparr>st_skipped := st_skipped st @ [line], st_results := st_results st @ [r]\<rparr>"

definition stats_check ::
  "string \<Rightarrow> bool \<Rightarrow> string \<Rightarrow> string \<Rightarrow> string \<Rightarrow> string \<Rightarrow> stats \<Rightarrow> stats \<times> bool" where
  "stats_check caller cond message rule detail source st =
     (let src = or_else source caller; shown = with_detail message detail
      in if cond then
           (let st1 = add_pass (mk_result message PASS detail 0 rule src) st
            in (if st_verbose st then say (''  ok   '' @ shown) st1 else st1, True))
         else
           (say (''  FAIL '' @ cited shown rule)
              (add_fail (cited shown rule)
                 (mk_result message FAIL (cited (or_else detail message) rule) 0 rule src) st), False))"

definition stats_error ::
  "string \<Rightarrow> string \<Rightarrow> exn option \<Rightarrow> string \<Rightarrow> string \<Rightarrow> string \<Rightarrow> stats \<Rightarrow> stats" where
  "stats_error caller message exc rule detail source st =
     (let src = or_else source caller;
          tail = (case exc of None \<Rightarrow> [] | Some e \<Rightarrow> '': '' @ type_name e @ '': '' @ e_msg e);
          shown = with_detail message detail @ tail;
          observed = or_else detail message @ tail;
          st1 = say (''  FAIL '' @ cited shown rule)
                  (add_fail (cited shown rule)
                     (mk_result message FAIL (cited observed rule) 0 rule src) st)
      in case exc of
           None \<Rightarrow> st1
         | Some e \<Rightarrow> if st_verbose st then st1\<lparr>st_err := st_err st1 @ [e_trace e]\<rparr> else st1)"

definition stats_skip :: "string \<Rightarrow> string \<Rightarrow> string \<Rightarrow> string \<Rightarrow> stats \<Rightarrow> stats" where
  "stats_skip caller message reason source st =
     (let src = or_else source caller;
          line = (if reason = [] then message else message @ '': '' @ reason)
      in say (''  SKIP '' @ line)
           (add_skip line (mk_result message SKIP (or_else reason message) 0 [] src) st))"

definition stats_note :: "string \<Rightarrow> stats \<Rightarrow> stats" where
  "stats_note message st = say (''  ---- '' @ message) (st\<lparr>st_notes := st_notes st @ [message]\<rparr>)"

definition expect_desync :: "int list \<Rightarrow> string \<Rightarrow> stats \<Rightarrow> stats" where
  "expect_desync codes reason st =
     st\<lparr>st_expected_desync := fold (\<lambda>c. dict_set c reason) codes (st_expected_desync st)\<rparr>"

text \<open>The recording methods as events.\<close>

datatype stat_op =
    OpCheck string bool string string string string
  | OpError string string "exn option" string string string
  | OpSkip string string string string
  | OpNote string
  | OpExpect "int list" string

fun apply_op :: "stat_op \<Rightarrow> stats \<Rightarrow> stats" where
  "apply_op (OpCheck caller cond m rule d src) st = fst (stats_check caller cond m rule d src st)"
| "apply_op (OpError caller m exc rule d src) st = stats_error caller m exc rule d src st"
| "apply_op (OpSkip caller m reason src) st = stats_skip caller m reason src st"
| "apply_op (OpNote m) st = stats_note m st"
| "apply_op (OpExpect codes reason) st = expect_desync codes reason st"

definition apply_ops :: "stat_op list \<Rightarrow> stats \<Rightarrow> stats" where
  "apply_ops ops st = fold apply_op ops st"

section \<open>Reporting\<close>

text \<open>
  The dictionaries that reports, merged columns and planned columns are: every key optional,
  since each is read back from JSON with \<^verbatim>\<open>.get\<close>. The elapsed entry is a number in a report and
  a dictionary per script in a merged column.
\<close>

datatype elapsed = Seconds rat | PerScript "(string, rat) dict"

record column =
  j_script :: "string option"
  j_label :: "string option"
  j_context :: "(string, string) dict option"
  j_elapsed :: "elapsed option"
  j_passed :: "nat option"
  j_failed :: "nat option"
  j_skipped :: "nat option"
  j_results :: "rdict list option"
  j_notes :: "string list option"
  j_status :: "string option"
  j_reason :: "string option"
  j_id :: "string option"
  j_backend :: "string option"
  j_os_label :: "string option"
  j_vendor_version :: "string option"
  j_errors :: "string list option"
  j_short :: "string option"

definition empty_column :: column where
  "empty_column = \<lparr>j_script = None, j_label = None, j_context = None, j_elapsed = None,
     j_passed = None, j_failed = None, j_skipped = None, j_results = None, j_notes = None,
     j_status = None, j_reason = None, j_id = None, j_backend = None, j_os_label = None,
     j_vendor_version = None, j_errors = None, j_short = None\<rparr>"

definition stats_report :: "rat \<Rightarrow> stats \<Rightarrow> column" where
  "stats_report now st = empty_column\<lparr>
     j_script := Some (st_name st), j_context := Some (st_context st),
     j_elapsed := Some (Seconds (round_to 3 (now - st_started st))),
     j_passed := Some (st_ok st), j_failed := Some (length (st_failures st)),
     j_skipped := Some (length (st_skipped st)),
     j_results := Some (map as_dict (st_results st)), j_notes := Some (st_notes st)\<rparr>"

text \<open>
  \<^verbatim>\<open>write_report\<close>: the text goes to a \<^verbatim>\<open>.partial\<close> file that is then renamed into place. The
  process may die at any point, in the middle of the write too; \<open>write_steps\<close> is the directory at
  each of them.
\<close>

definition write_steps :: "string \<Rightarrow> 'c list \<Rightarrow> (string \<rightharpoonup> 'c list) \<Rightarrow> (string \<rightharpoonup> 'c list) list" where
  "write_steps path text fs =
     (let tmp = path @ ''.partial''
      in [fs] @ map (\<lambda>k. fs(tmp \<mapsto> take k text)) [0..<Suc (length text)] @
         [fs(tmp := None, path \<mapsto> text)])"

definition summary_line :: "rat \<Rightarrow> stats \<Rightarrow> string" where
  "summary_line now st =
     ''--- '' @ st_name st @ '': '' @ str_nat (st_ok st) @ '' checks passed, '' @
     str_nat (length (st_failures st)) @ '' failed'' @
     (if st_skipped st = [] then [] else '', '' @ str_nat (length (st_skipped st)) @ '' SKIPPED'') @
     '', '' @ fmt_fixed 1 (now - st_started st) @ ''s''"

definition finish :: "rat \<Rightarrow> stats \<Rightarrow> stats \<times> int" where
  "finish now st =
     (let st1 = say (summary_line now st) st;
          st2 = (if st_skipped st = [] then st1
                 else fold (\<lambda>e. say (''      - '' @ e)) (st_skipped st)
                        (say ''    skipped (not passes):'' st1));
          st3 = (if st_failures st = [] then st2
                 else fold (\<lambda>e. say (''      - '' @ e)) (take 20 (st_failures st))
                        (say ''    failures:'' st2));
          st4 = (if length (st_failures st) > 20
                 then say (''      ... and '' @ str_nat (length (st_failures st) - 20) @ '' more'') st3
                 else st3)
      in (st4, if st_failures st = [] then 0 else 1))"

section \<open>Checks\<close>

text \<open>
  \<^verbatim>\<open>_check_watchdog\<close>: not asked for, a number of seconds, or a callable (what calling it gave).
\<close>

datatype watchdog_spec = WNone | WSecs rat | WCall "exn + rat option"

datatype check_end = Returned string | Raised exn

record check_fn =
  cf_pyname :: string
  cf_name :: "string option"
  cf_rule :: "string option"
  cf_protocols :: "string list"
  cf_watchdog :: watchdog_spec
  cf_status :: "(exn + string) option"       \<comment> \<open>what the status reporter would answer\<close>
  cf_code :: "(string list \<times> int) option"    \<comment> \<open>file and first line of \<^verbatim>\<open>__code__\<close>\<close>
  cf_order :: "(int \<times> int) option"
  cf_ops :: "stat_op list"                   \<comment> \<open>what it records while it runs\<close>
  cf_time :: "rat option"                    \<comment> \<open>how long it runs; \<open>None\<close> never ends\<close>
  cf_end :: check_end
  cf_elapsed :: rat                          \<comment> \<open>the duration the loop measures\<close>

definition check_decorator ::
  "string \<Rightarrow> string \<Rightarrow> string list \<Rightarrow> watchdog_spec \<Rightarrow> (exn + string) option \<Rightarrow> check_fn \<Rightarrow> check_fn" where
  "check_decorator name rule protocols watchdog reporter f =
     f\<lparr>cf_name := Some name, cf_rule := Some rule, cf_protocols := protocols,
        cf_watchdog := watchdog, cf_status := reporter\<rparr>"

definition check_name :: "check_fn \<Rightarrow> string" where
  "check_name f = (case cf_name f of None \<Rightarrow> cf_pyname f | Some n \<Rightarrow> n)"

definition check_rule :: "check_fn \<Rightarrow> string" where
  "check_rule f = (case cf_rule f of None \<Rightarrow> [] | Some r \<Rightarrow> r)"

definition check_source :: "string list \<Rightarrow> check_fn \<Rightarrow> string" where
  "check_source base f =
     (case cf_code f of None \<Rightarrow> [] | Some (file, line) \<Rightarrow> caller_loc base file line)"

definition timeout_error :: "rat \<Rightarrow> exn" where
  "timeout_error timeout =
     plain_exn [''TimeoutError'', ''OSError'', ''Exception'', ''BaseException'']
       (''did not return within '' @ fmt_fixed 0 timeout @ ''s'')"

definition with_watchdog :: "rat \<Rightarrow> check_fn \<Rightarrow> check_end" where
  "with_watchdog timeout f =
     (case cf_time f of
        Some t \<Rightarrow> if t \<le> timeout then cf_end f else Raised (timeout_error timeout)
      | None \<Rightarrow> Raised (timeout_error timeout))"

text \<open>
  The timeout that applies to a check, and what resolving it prints. A callable that raises
  an \<^verbatim>\<open>Exception\<close> (\<open>WCall (Inl e)\<close>) counts as not having asked.
\<close>

definition timeout_of :: "rat option \<Rightarrow> check_fn \<Rightarrow> rat option" where
  "timeout_of watchdog f =
     (case cf_watchdog f of
        WNone \<Rightarrow> watchdog
      | WSecs w \<Rightarrow> Some w
      | WCall (Inr None) \<Rightarrow> watchdog
      | WCall (Inr (Some w)) \<Rightarrow> Some w
      | WCall (Inl e) \<Rightarrow> watchdog)"

definition sizing_note :: "check_fn \<Rightarrow> stats \<Rightarrow> stats" where
  "sizing_note f st =
     (case cf_watchdog f of
        WCall (Inl e) \<Rightarrow>
          say (''      could not size the watchdog for '' @ check_name f @ '': '' @ e_msg e) st
      | _ \<Rightarrow> st)"

datatype run_end = Went stats | Escaped exn stats | Stuck stats

text \<open>Running one check body: under the watchdog when there is a timeout, else directly.\<close>

definition run_body :: "rat option \<Rightarrow> check_fn \<Rightarrow> check_end option" where
  "run_body timeout f =
     (if timeout \<noteq> None \<and> timeout \<noteq> Some 0 then Some (with_watchdog (the timeout) f)
      else case cf_time f of None \<Rightarrow> None | Some _ \<Rightarrow> Some (cf_end f))"

definition indented :: "string \<Rightarrow> string" where
  "indented text = ''      '' @ rstrip (replace nl (nl @ ''      '') text)"

definition status_suffix :: "check_fn \<Rightarrow> string \<Rightarrow> string" where
  "status_suffix f said =
     (case cf_status f of
        None \<Rightarrow> said
      | Some (Inl e) \<Rightarrow> said
      | Some (Inr extra) \<Rightarrow> if extra = [] then said else said @ ''; '' @ extra)"

text \<open>
  The \<^verbatim>\<open>except\<close> clauses of \<^verbatim>\<open>run_checks\<close>, in order. \<open>on_timeout\<close> is \<open>None\<close> when there is no
  callback, else what calling it does: \<open>Some None\<close> returns, \<open>Some (Some e)\<close> raises \<open>e\<close>.
\<close>

definition handle_raise ::
  "visa_env \<Rightarrow> string list \<Rightarrow> exn option option \<Rightarrow> check_fn \<Rightarrow> exn \<Rightarrow> stats \<Rightarrow> run_end" where
  "handle_raise env base on_timeout f e st =
     (let name = check_name f; rule = check_rule f; src = check_source base f; dur = cf_elapsed f
      in if isinstance e ''Skip'' then
           Went (say (''SKIP  '' @ name @ nl @ ''      '' @ e_msg e)
             (add_skip (name @ '': '' @ e_msg e) (mk_result name SKIP (e_msg e) dur rule src) st))
         else if isinstance e ''AssertionError'' then
           (let c = cited (e_msg e) rule
            in Went (say (''FAIL  '' @ name @ nl @ ''      '' @ c)
                 (add_fail (name @ '': '' @ c) (mk_result name FAIL c dur rule src) st)))
         else if isinstance e ''TimeoutError'' then
           (let c = cited (status_suffix f (e_msg e)) rule;
                st1 = say (''FAIL  '' @ name @ nl @ ''      '' @ c)
                        (add_fail (name @ '': '' @ c) (mk_result name FAIL c dur rule src) st)
            in case on_timeout of
                 None \<Rightarrow> Went st1
               | Some r \<Rightarrow>
                   (let st2 = say (''      replacing the target: '' @ name @ '' left a thread running'') st1
                    in case r of
                         None \<Rightarrow> Went st2
                       | Some e' \<Rightarrow>
                           if isinstance e' ''Exception''
                           then Went (stats_note (''could not replace the target: '' @ e_msg e') st2)
                           else Escaped e' st2))
         else if isinstance e ''Exception'' then
           (case target_failure env e of
              None \<Rightarrow>
                Went (say (indented (e_trace e))
                  (say (''FAIL  '' @ name @ '' (unexpected exception)'')
                    (add_fail (name @ '': unexpected exception'')
                      (mk_result name FAIL (e_trace e) dur rule src) st)))
            | Some said \<Rightarrow>
                (let c = cited said rule;
                     st1 = say (''FAIL  '' @ name @ nl @ ''      '' @ c)
                             (add_fail (name @ '': '' @ c) (mk_result name FAIL c dur rule src) st)
                 in Went (if st_verbose st then say (indented (e_trace e)) st1 else st1)))
         else Escaped e st)"

definition run_check ::
  "visa_env \<Rightarrow> string list \<Rightarrow> rat option \<Rightarrow> exn option option \<Rightarrow> check_fn \<Rightarrow> stats \<Rightarrow> run_end" where
  "run_check env base watchdog on_timeout f st0 =
     (let st = apply_ops (cf_ops f) (sizing_note f st0)
      in case run_body (timeout_of watchdog f) f of
           None \<Rightarrow> Stuck st
         | Some (Returned detail) \<Rightarrow>
             Went (say (''PASS  '' @ check_name f @ (if detail = [] then [] else nl @ ''      '' @ detail))
               (add_pass (mk_result (check_name f) PASS detail (cf_elapsed f) (check_rule f)
                  (check_source base f)) st))
         | Some (Raised e) \<Rightarrow> handle_raise env base on_timeout f e st)"

fun run_checks ::
  "visa_env \<Rightarrow> string list \<Rightarrow> rat option \<Rightarrow> exn option option \<Rightarrow> check_fn list \<Rightarrow> stats \<Rightarrow> run_end" where
  "run_checks env base watchdog on_timeout [] st = Went st"
| "run_checks env base watchdog on_timeout (f # fs) st =
     (case run_check env base watchdog on_timeout f st of
        Went st' \<Rightarrow> run_checks env base watchdog on_timeout fs st'
      | Escaped e st' \<Rightarrow> Escaped e st'
      | Stuck st' \<Rightarrow> Stuck st')"

section \<open>Registration and collection\<close>

text \<open>
  A module namespace is a dictionary from names to functions. \<open>registrar_add\<close> is one call
  of the closure \<^verbatim>\<open>registrar\<close> returns; the counter it closes over is the last component of its state.
\<close>

type_synonym namespace = "(string, check_fn) dict"

record registrar =
  rg_anchor :: int
  rg_next :: nat

definition generated_name :: "int \<Rightarrow> nat \<Rightarrow> string" where
  "generated_name anchor index = ''_check_generated_'' @ str_int anchor @ ''_'' @ str_nat index"

definition registrar_add ::
  "check_fn \<Rightarrow> string \<Rightarrow> string \<Rightarrow> string list \<Rightarrow> watchdog_spec \<Rightarrow> (exn + string) option \<Rightarrow>
   registrar \<times> namespace \<Rightarrow> registrar \<times> namespace" where
  "registrar_add f name rule protocols watchdog reporter = (\<lambda>(rg, ns).
     (let index = rg_next rg;
          registered = (check_decorator name rule protocols watchdog reporter f)
            \<lparr>cf_order := Some (rg_anchor rg, int index)\<rparr>
      in (rg\<lparr>rg_next := Suc index\<rparr>, dict_set (generated_name (rg_anchor rg) index) registered ns)))"

text \<open>A registered check is a function, so it always has a \<^verbatim>\<open>__code__\<close>.\<close>

definition order_of :: "check_fn \<Rightarrow> int \<times> int" where
  "order_of f =
     (case cf_order f of
        Some o1 \<Rightarrow> o1
      | None \<Rightarrow> (case cf_code f of Some (_, line) \<Rightarrow> (line, 0) | None \<Rightarrow> (0, 0)))"

definition collect :: "namespace \<Rightarrow> string option \<Rightarrow> check_fn list" where
  "collect ns protocol =
     (let found = sort_key order_of (filter (\<lambda>f. cf_name f \<noteq> None) (map snd ns))
      in case protocol of None \<Rightarrow> found | Some p \<Rightarrow> filter (\<lambda>f. p \<in> set (cf_protocols f)) found)"

text \<open>A family of generated checks: one registration per member, as a \<^verbatim>\<open>_register_*\<close> function does.\<close>

type_synonym family =
  "(check_fn \<times> string \<times> string \<times> string list \<times> watchdog_spec \<times> (exn + string) option) list"

definition register_all :: "family \<Rightarrow> registrar \<times> namespace \<Rightarrow> registrar \<times> namespace" where
  "register_all specs = fold (\<lambda>(f, name, rule, protocols, watchdog, reporter).
     registrar_add f name rule protocols watchdog reporter) specs"

definition registered_at :: "int \<Rightarrow> check_fn \<Rightarrow> bool" where
  "registered_at anchor f = (case cf_order f of None \<Rightarrow> False | Some (a, _) \<Rightarrow> a = anchor)"

section \<open>Exit codes\<close>

text \<open>How a script's main function ended, and the exit code \<^verbatim>\<open>harness.main\<close> gives for it.\<close>

datatype main_end = Exits int | Throws exn

definition harness_main :: "visa_env \<Rightarrow> main_end \<Rightarrow> int" where
  "harness_main env m =
     (case m of
        Exits code \<Rightarrow> code
      | Throws e \<Rightarrow>
          if isinstance e ''KeyboardInterrupt'' then 130
          else if isinstance e ''ConnectionError'' \<or> isinstance e ''BrokenPipeError'' then 3
          else if isinstance e ''BadCall'' then 5
          else if isinstance e ''VisaIOError'' then
            (if e_code e = ve_conn_lost env then 3 else 2)
          else if isinstance e ''Exception'' then 2
          else 1)"

section \<open>What recording keeps\<close>

definition tally :: "string \<Rightarrow> stats \<Rightarrow> nat" where
  "tally outcome st = length (filter (\<lambda>r. r_outcome r = outcome) (st_results st))"

definition stats_inv :: "stats \<Rightarrow> bool" where
  "stats_inv st \<longleftrightarrow> st_ok st = tally PASS st \<and> length (st_failures st) = tally FAIL st \<and>
     length (st_skipped st) = tally SKIP st \<and> (\<forall>r\<in>set (st_results st). r_outcome r \<in> {PASS, FAIL, SKIP})"

definition rows :: "stats \<Rightarrow> (string \<times> string) list" where
  "rows st = map (\<lambda>r. (r_name r, r_outcome r)) (st_results st)"

fun op_rows :: "stat_op \<Rightarrow> (string \<times> string) list" where
  "op_rows (OpCheck caller cond m rule d src) = [(m, if cond then PASS else FAIL)]"
| "op_rows (OpError caller m exc rule d src) = [(m, FAIL)]"
| "op_rows (OpSkip caller m reason src) = [(m, SKIP)]"
| "op_rows (OpNote m) = []"
| "op_rows (OpExpect codes reason) = []"

text \<open>How a check that ended comes out, whatever it printed.\<close>

definition check_outcome :: "rat option \<Rightarrow> check_fn \<Rightarrow> string" where
  "check_outcome watchdog f =
     (case run_body (timeout_of watchdog f) f of
        Some (Returned _) \<Rightarrow> PASS
      | Some (Raised e) \<Rightarrow> if isinstance e ''Skip'' then SKIP else FAIL
      | None \<Rightarrow> FAIL)"

lemmas record_defs = add_pass_def add_fail_def add_skip_def say_def mk_result_def

lemma say_inv [simp]: "stats_inv (say l st) = stats_inv st" "rows (say l st) = rows st"
  by (simp_all add: stats_inv_def tally_def rows_def say_def)

lemma err_inv [simp]: "stats_inv (st\<lparr>st_err := x\<rparr>) = stats_inv st" "rows (st\<lparr>st_err := x\<rparr>) = rows st"
  by (simp_all add: stats_inv_def tally_def rows_def)

lemma add_inv [simp]:
  "r_outcome r = PASS \<Longrightarrow> stats_inv (add_pass r st) = stats_inv st"
  "r_outcome r = FAIL \<Longrightarrow> stats_inv (add_fail l r st) = stats_inv st"
  "r_outcome r = SKIP \<Longrightarrow> stats_inv (add_skip l r st) = stats_inv st"
  by (simp_all add: stats_inv_def tally_def record_defs)

lemma add_rows [simp]:
  "rows (add_pass r st) = rows st @ [(r_name r, r_outcome r)]"
  "rows (add_fail l r st) = rows st @ [(r_name r, r_outcome r)]"
  "rows (add_skip l r st) = rows st @ [(r_name r, r_outcome r)]"
  by (simp_all add: rows_def record_defs)

lemma mk_result_sel [simp]:
  "r_name (mk_result n out d t rule src) = n" "r_outcome (mk_result n out d t rule src) = out"
  by (simp_all add: mk_result_def)

lemma note_inv [simp]: "stats_inv (stats_note m st) = stats_inv st" "rows (stats_note m st) = rows st"
  by (simp_all add: stats_note_def stats_inv_def tally_def rows_def say_def)

lemma sizing_inv [simp]: "stats_inv (sizing_note f st) = stats_inv st" "rows (sizing_note f st) = rows st"
  by (simp_all add: sizing_note_def split: watchdog_spec.split sum.split)

lemma apply_op_inv: "stats_inv st \<Longrightarrow> stats_inv (apply_op op st)"
  by (cases op) (simp_all add: stats_check_def stats_error_def stats_skip_def Let_def
      expect_desync_def stats_inv_def[of "st\<lparr>st_expected_desync := _\<rparr>"] tally_def stats_inv_def[of st]
      split: option.split)

lemma apply_op_rows: "rows (apply_op op st) = rows st @ op_rows op"
  by (cases op) (simp_all add: stats_check_def stats_error_def stats_skip_def Let_def
      expect_desync_def rows_def[of "st\<lparr>st_expected_desync := _\<rparr>"] rows_def[of st] split: option.split)

interpretation recorder: append_only apply_op stats_inv rows op_rows
  by unfold_locales (simp_all add: apply_op_inv apply_op_rows)

lemma apply_ops_inv [simp]: "stats_inv st \<Longrightarrow> stats_inv (apply_ops ops st)"
  unfolding apply_ops_def by (rule recorder.fold_inv)

lemma apply_ops_rows [simp]: "rows (apply_ops ops st) = rows st @ concat (map op_rows ops)"
  unfolding apply_ops_def by (rule recorder.fold_out)

lemma fold_say [simp]: "stats_inv (fold (\<lambda>x. say (g x)) xs st) = stats_inv st"
  "rows (fold (\<lambda>x. say (g x)) xs st) = rows st"
  by (induction xs arbitrary: st) simp_all

lemma new_stats_inv: "stats_inv (new_stats name verbose ctx now)" "rows (new_stats name verbose ctx now) = []"
  by (simp_all add: new_stats_def Let_def stats_inv_def[of "\<lparr>st_name = _, st_verbose = _, st_context = _,
        st_results = _, st_notes = _, st_ok = _, st_failures = _, st_skipped = _,
        st_expected_desync = _, st_started = _, st_out = _, st_err = _\<rparr>"] tally_def
      rows_def[of "\<lparr>st_name = _, st_verbose = _, st_context = _,
        st_results = _, st_notes = _, st_ok = _, st_failures = _, st_skipped = _,
        st_expected_desync = _, st_started = _, st_out = _, st_err = _\<rparr>"])

lemma handle_raise_cases:
  assumes "isinstance e ''Exception''" and "\<And>e'. on_timeout = Some (Some e') \<Longrightarrow> isinstance e' ''Exception''"
  shows "\<exists>st'. handle_raise env base on_timeout f e st = Went st'"
  using assms by (auto simp: handle_raise_def Let_def split: option.split)

lemma handle_raise_rows:
  "handle_raise env base on_timeout f e st = Went st' \<Longrightarrow>
     rows st' = rows st @ [(check_name f, if isinstance e ''Skip'' then SKIP else FAIL)]"
  by (auto simp: handle_raise_def Let_def split: if_splits option.splits)

lemma handle_raise_inv:
  assumes "stats_inv st"
  shows "handle_raise env base on_timeout f e st = Went st' \<Longrightarrow> stats_inv st'"
  using assms by (auto simp: handle_raise_def Let_def split: if_splits option.splits)

lemma run_check_rows:
  "run_check env base watchdog on_timeout f st = Went st' \<Longrightarrow>
     rows st' = rows st @ concat (map op_rows (cf_ops f)) @ [(check_name f, check_outcome watchdog f)]"
  by (auto simp: run_check_def check_outcome_def Let_def dest!: handle_raise_rows
      split: option.splits check_end.splits)

lemma run_check_inv:
  "stats_inv st \<Longrightarrow> run_check env base watchdog on_timeout f st = Went st' \<Longrightarrow> stats_inv st'"
  by (auto simp: run_check_def Let_def dest!: handle_raise_inv[rotated] split: option.splits check_end.splits)

lemma run_checks_inv:
  "stats_inv st \<Longrightarrow> run_checks env base watchdog on_timeout fs st = Went st' \<Longrightarrow> stats_inv st'"
  by (induction fs arbitrary: st) (auto dest: run_check_inv split: run_end.splits)

lemma run_body_cases:
  assumes "timeout \<noteq> None" "timeout \<noteq> Some 0"
  obtains "run_body timeout f = Some (cf_end f)"
  | "run_body timeout f = Some (Raised (timeout_error (the timeout)))"
proof -
  from assms obtain t where t: "timeout = Some t" "t \<noteq> 0" by (cases timeout) auto
  show thesis
  proof (cases "cf_time f")
    case None
    with t show thesis using that(2) by (simp add: run_body_def with_watchdog_def)
  next
    case (Some u)
    with t show thesis using that by (cases "u \<le> t") (simp_all add: run_body_def with_watchdog_def)
  qed
qed

lemma timeout_error_isinstance [simp]:
  "isinstance (timeout_error t) ''Exception''" "\<not> isinstance (timeout_error t) ''Skip''"
  by (simp_all add: timeout_error_def isinstance_def plain_exn_def)

text \<open>Concrete inputs for the instances below.\<close>

definition example_env :: visa_env where
  "example_env = \<lparr>ve_success = 0, ve_conn_lost = -1073807194, ve_hislip_attr = \<lambda>_. False\<rparr>"

definition example_check :: "string \<Rightarrow> rat option \<Rightarrow> check_end \<Rightarrow> check_fn" where
  "example_check name t fin = \<lparr>cf_pyname = name, cf_name = Some name, cf_rule = None,
     cf_protocols = [''hislip''], cf_watchdog = WNone, cf_status = None, cf_code = None,
     cf_order = None, cf_ops = [], cf_time = t, cf_end = fin, cf_elapsed = 0\<rparr>"

definition example_skip :: exn where
  "example_skip = plain_exn [''Skip'', ''Exception'', ''BaseException''] ''not here''"

lemma example_run:
  "\<exists>st. run_checks example_env [] None None [example_check ''a'' (Some 1) (Raised example_skip)] st0 = Went st"
  by (simp add: run_check_def run_body_def example_check_def timeout_of_def handle_raise_def
      example_skip_def plain_exn_def isinstance_def Let_def)

section \<open>Properties\<close>

text \<open>C1: the four ways a run is summed up agree. After any run of any checks, whatever they
  recorded themselves on the way, the counters and the failure and skip lists of the report are
  the number of PASS, FAIL and SKIP results in it, no result has another outcome, and the exit
  status is 1 exactly when some result is a FAIL: a skip is never counted as a pass, and never
  fails the run.\<close>

theorem report_counts_agree:
  assumes "run_checks env base watchdog on_timeout fs (new_stats name verbose ctx started) = Went st"
  shows "j_passed (stats_report now st) = Some (tally PASS st) \<and>
         j_failed (stats_report now st) = Some (tally FAIL st) \<and>
         j_skipped (stats_report now st) = Some (tally SKIP st) \<and>
         tally PASS st + tally FAIL st + tally SKIP st = length (st_results st) \<and>
         (snd (finish now st) = 1 \<longleftrightarrow> (\<exists>r\<in>set (st_results st). r_outcome r = FAIL)) \<and>
         (snd (finish now st) = 0 \<longleftrightarrow> (\<forall>r\<in>set (st_results st). r_outcome r \<in> {PASS, SKIP}))"
proof -
  have inv: "stats_inv st" by (rule run_checks_inv[OF new_stats_inv(1) assms])
  have sum: "\<forall>r\<in>set rs. r_outcome r \<in> {PASS, FAIL, SKIP} \<Longrightarrow>
      length (filter (\<lambda>r. r_outcome r = PASS) rs) + length (filter (\<lambda>r. r_outcome r = FAIL) rs) +
      length (filter (\<lambda>r. r_outcome r = SKIP) rs) = length rs" for rs
    by (induction rs) auto
  have nofail: "st_failures st = [] \<longleftrightarrow> (\<forall>r\<in>set (st_results st). r_outcome r \<noteq> FAIL)"
  proof -
    have "st_failures st = [] \<longleftrightarrow> tally FAIL st = 0"
      using inv by (simp add: stats_inv_def flip: length_0_conv)
    then show ?thesis by (simp add: tally_def filter_empty_conv)
  qed
  have outcomes: "\<forall>r\<in>set (st_results st). r_outcome r \<in> {PASS, FAIL, SKIP}"
    using inv by (simp add: stats_inv_def)
  have "snd (finish now st) = (if st_failures st = [] then 0 else 1)"
    by (simp add: finish_def Let_def)
  moreover have "(\<forall>r\<in>set (st_results st). r_outcome r \<in> {PASS, SKIP}) \<longleftrightarrow>
      (\<forall>r\<in>set (st_results st). r_outcome r \<noteq> FAIL)"
    using outcomes by force
  ultimately show ?thesis
    using inv sum[of "st_results st"] nofail by (simp add: stats_inv_def stats_report_def tally_def)
qed

theorem report_counts_agree_witness:
  "\<exists>st. run_checks example_env [] None None [example_check ''a'' (Some 1) (Raised example_skip)]
          (new_stats ''s'' False None 0) = Went st \<and> j_skipped (stats_report 5 st) = Some (tally SKIP st)"
  using example_run[of "new_stats ''s'' False None 0"] report_counts_agree by blast

text \<open>C3: a run yields one result per check, in order, under the check's own name. What is added
  to the results is, for each check, the records it made itself and then exactly one row that
  is PASS when it returned, SKIP when it raised Skip, and FAIL otherwise; a check that never
  returns is a FAIL row and not a missing one.\<close>

theorem run_checks_one_row_each:
  assumes "run_checks env base watchdog on_timeout fs st = Went st'"
  shows "rows st' = rows st @
           concat (map (\<lambda>f. concat (map op_rows (cf_ops f)) @ [(check_name f, check_outcome watchdog f)]) fs) \<and>
         (\<forall>f\<in>set fs. cf_time f = None \<longrightarrow> check_outcome watchdog f = FAIL)"
proof
  show "rows st' = rows st @
      concat (map (\<lambda>f. concat (map op_rows (cf_ops f)) @ [(check_name f, check_outcome watchdog f)]) fs)"
    using assms by (induction fs arbitrary: st) (auto dest: run_check_rows split: run_end.splits)
  show "\<forall>f\<in>set fs. cf_time f = None \<longrightarrow> check_outcome watchdog f = FAIL"
    by (auto simp: check_outcome_def run_body_def with_watchdog_def)
qed

theorem run_checks_one_row_each_witness:
  "\<exists>st. run_checks example_env [] None None [example_check ''a'' (Some 1) (Raised example_skip)]
          (new_stats ''s'' False None 0) = Went st \<and> rows st = [(''a'', SKIP)]"
proof -
  obtain st where st: "run_checks example_env [] None None [example_check ''a'' (Some 1) (Raised example_skip)]
      (new_stats ''s'' False None 0) = Went st"
    using example_run by blast
  moreover have "rows st = [(''a'', SKIP)]"
    using conjunct1[OF run_checks_one_row_each[OF st]]
    by (simp add: new_stats_inv(2)) (simp add: example_check_def check_name_def check_outcome_def
        run_body_def timeout_of_def example_skip_def plain_exn_def isinstance_def)
  ultimately show ?thesis by blast
qed



text \<open>The exit code of a script separates what the sweep must separate. 3 is given only for a
  connection that is gone (a socket error or the VISA status for it), 5 only for a call the
  suite made wrongly, 130 only for an interrupt, and an ordinary exception that is none of
  these is 2; a main function that ran to its end keeps its own code.\<close>

theorem exit_code_meaning:
  assumes "isinstance e ''Exception''" and "\<not> isinstance e ''KeyboardInterrupt''"
  shows "(harness_main env (Throws e) = 3 \<longrightarrow> is_connection_lost env e) \<and>
         (harness_main env (Throws e) = 5 \<longrightarrow> isinstance e ''BadCall'') \<and>
         (harness_main env (Throws e) = 2 \<longleftrightarrow>
            \<not> isinstance e ''ConnectionError'' \<and> \<not> isinstance e ''BrokenPipeError'' \<and> \<not> isinstance e ''BadCall'' \<and>
            (isinstance e ''VisaIOError'' \<longrightarrow> e_code e \<noteq> ve_conn_lost env)) \<and>
         harness_main env (Throws e) \<in> {2, 3, 5} \<and> harness_main env (Exits code) = code"
  using assms by (auto simp: harness_main_def is_connection_lost_def connection_gone_types_def)

theorem exit_code_meaning_witness:
  "harness_main example_env (Throws (plain_exn [''KeyError'', ''LookupError'', ''Exception'', ''BaseException''] ''k'')) = 2"
  using exit_code_meaning[of "plain_exn [''KeyError'', ''LookupError'', ''Exception'', ''BaseException''] ''k''" example_env]
  by (simp add: plain_exn_def isinstance_def)

text \<open>C15: a report is on disk whole or not at all. At every point where the process may die while
  writing, the file under the report's name is either what it was before or the complete new
  text, and the last step leaves the new text and no partial file.\<close>

theorem write_report_atomic:
  "(\<forall>fs'\<in>set (write_steps path text fs). fs' path = fs path \<or> fs' path = Some text) \<and>
   last (write_steps path text fs) path = Some text \<and>
   last (write_steps path text fs) (path @ ''.partial'') = None"
  by (auto simp: write_steps_def Let_def)

theorem write_report_atomic_witness:
  "\<exists>fs'\<in>set (write_steps ''r.json'' ''{}'' Map.empty).
     fs' ''r.json.partial'' = Some ''{'' \<and> (fs' ''r.json'' = None \<or> fs' ''r.json'' = Some ''{}'')"
proof -
  let ?fs = "[''r.json.partial'' \<mapsto> ''{'']"
  have "?fs \<in> set (write_steps ''r.json'' ''{}'' Map.empty)"
    by (simp add: write_steps_def Let_def)
  with write_report_atomic[of "''r.json''" "''{}''" Map.empty] show ?thesis
    by (intro bexI[of _ ?fs]) auto
qed

section \<open>Generated families\<close>

lemma generated_name_inject: "generated_name a i = generated_name a j \<longleftrightarrow> i = j"
  by (simp add: generated_name_def)

definition family_entry :: "int \<Rightarrow> nat \<Rightarrow> check_fn \<times> string \<times> string \<times> string list \<times> watchdog_spec \<times> (exn + string) option
    \<Rightarrow> string \<times> check_fn" where
  "family_entry a i = (\<lambda>(f, name, rule, protocols, watchdog, reporter).
     (generated_name a i, (check_decorator name rule protocols watchdog reporter f)\<lparr>cf_order := Some (a, int i)\<rparr>))"

lemma family_entry_sel:
  "fst (family_entry a i s) = generated_name a i"
  "cf_order (snd (family_entry a i s)) = Some (a, int i)"
  "cf_name (snd (family_entry a i s)) = Some (fst (snd s))"
  by (simp_all add: family_entry_def check_decorator_def split: prod.split)

lemma register_all_appends:
  assumes "\<And>i. rg_next rg \<le> i \<Longrightarrow> generated_name (rg_anchor rg) i \<notin> set (dict_keys ns)"
  shows "snd (register_all specs (rg, ns)) =
     ns @ map (\<lambda>(i, s). family_entry (rg_anchor rg) i s) (enumerate (rg_next rg) specs)"
  using assms
proof (induction specs arbitrary: rg ns)
  case (Cons s specs)
  obtain f name rule protocols watchdog reporter where s: "s = (f, name, rule, protocols, watchdog, reporter)"
    by (cases s) auto
  let ?e = "family_entry (rg_anchor rg) (rg_next rg) s"
  let ?rg = "rg\<lparr>rg_next := Suc (rg_next rg)\<rparr>"
  have "register_all (s # specs) (rg, ns) = register_all specs (?rg, ns @ [?e])"
    using dict_set_new[OF Cons.prems[OF order_refl]]
    by (simp add: register_all_def s registrar_add_def Let_def family_entry_def)
  moreover have "generated_name (rg_anchor ?rg) i \<notin> set (dict_keys (ns @ [?e]))"
    if "rg_next ?rg \<le> i" for i
    using that Cons.prems[of i]
    by (auto simp: dict_keys_def family_entry_sel generated_name_inject)
  ultimately show ?case using Cons.IH[of ?rg "ns @ [?e]"] by simp
qed (simp add: register_all_def)

lemma map_enumerate_snd: "map (\<lambda>x. g (snd x)) (enumerate n xs) = map g xs"
  by (induction xs arbitrary: n) simp_all

lemma sorted_family:
  "sorted (map order_of (map snd (map (\<lambda>(i, s). family_entry a i s) (enumerate n specs))))"
proof (induction specs arbitrary: n)
  case (Cons s specs)
  have "order_of (snd (family_entry a n s)) \<le> order_of (snd (family_entry a i t))"
    if "(i, t) \<in> set (enumerate (Suc n) specs)" for i t
    using that by (auto simp: order_of_def family_entry_sel in_set_enumerate_eq)
  with Cons[of "Suc n"] show ?case by fastforce
qed simp

text \<open>Registering a family of generated checks loses none of them and keeps their order. If
  the namespace holds no check generated at this anchor yet, the checks that collecting the
  module finds at this anchor are the registered ones, all of them, in the order in which
  they were registered.\<close>

theorem registrar_keeps_family:
  assumes fresh: "\<And>i. generated_name a i \<notin> set (dict_keys ns)"
    and none_yet: "\<And>f. f \<in> set (map snd ns) \<Longrightarrow> \<not> registered_at a f"
  shows "map cf_name (filter (registered_at a)
           (collect (snd (register_all specs (\<lparr>rg_anchor = a, rg_next = 0\<rparr>, ns))) None)) =
         map (\<lambda>s. Some (fst (snd s))) specs"
proof -
  let ?new = "map (\<lambda>(i, s). family_entry a i s) (enumerate 0 specs)"
  let ?named = "\<lambda>f. cf_name f \<noteq> None"
  have ns: "snd (register_all specs (\<lparr>rg_anchor = a, rg_next = 0\<rparr>, ns)) = ns @ ?new"
    using register_all_appends[of "\<lparr>rg_anchor = a, rg_next = 0\<rparr>" ns specs] fresh by simp
  have old: "filter (registered_at a) (filter ?named (map snd ns)) = []"
    using none_yet by (auto simp: filter_empty_conv)
  have new: "filter (registered_at a) (filter ?named (map snd ?new)) = map snd ?new"
    by (rule trans[OF filter_True filter_True]) (auto simp: registered_at_def family_entry_sel)
  have "filter (registered_at a) (collect (ns @ ?new) None) = sort_key order_of (map snd ?new)"
    using old new by (simp add: collect_def filter_sort)
  also have "\<dots> = map snd ?new" by (rule sort_key_id_if_sorted[OF sorted_family])
  finally show ?thesis
    unfolding ns
    by (simp add: comp_def case_prod_unfold family_entry_sel
        map_enumerate_snd[of "\<lambda>s. Some (fst (snd s))"])
qed

theorem registrar_keeps_family_witness:
  "map cf_name (filter (registered_at 40)
     (collect (snd (register_all
        [(example_check ''f'' (Some 1) (Returned []), ''chunk 1'', [], [''hislip''], WNone, None),
         (example_check ''f'' (Some 1) (Returned []), ''chunk 7'', [], [''hislip''], WNone, None)]
        (\<lparr>rg_anchor = 40, rg_next = 0\<rparr>, []))) None)) = [Some ''chunk 1'', Some ''chunk 7'']"
  by (subst registrar_keeps_family) (simp_all add: dict_keys_def)

end
