(* ===== verification/Regex.thy ===== *)
theory Regex
  imports Prelude
begin

text \<open>
  The part of Python's \<^verbatim>\<open>re\<close> module the sources use. A pattern is a value of type
  \<open>rx\<close>; \<open>rx_run\<close> is a backtracking matcher that lists every way to match at a cursor
  in the order \<^verbatim>\<open>re\<close> tries them (greedy stars longest first, lazy ones shortest first),
  so the head of the list is the match Python returns, groups included. \<open>rx_rel\<close> is the
  meaning of a pattern as a relation on positions, and \<open>rx_run_positions\<close> shows that the
  matcher finds exactly the positions the relation allows.
\<close>

datatype rx =
    Eps
  | Sym "char \<Rightarrow> bool"
  | Cat rx rx
  | Alt rx rx
  | Star rx          \<comment> \<open>greedy\<close>
  | LazyStar rx
  | Grp nat rx       \<comment> \<open>capturing group\<close>
  | Bol              \<comment> \<open>start of the text\<close>
  | MBol             \<comment> \<open>start of a line (re.M)\<close>
  | Eol              \<comment> \<open>end of the text, or before a final newline\<close>
  | WordB            \<comment> \<open>\b\<close>
  | NotAhead rx      \<comment> \<open>negative lookahead\<close>

text \<open>A cursor: the text consumed so far, reversed; the text left; the groups captured.\<close>

type_synonym cursor = "string \<times> string \<times> (nat \<times> string) list"

definition is_word :: "char \<Rightarrow> bool" where
  "is_word c \<longleftrightarrow> is_digit c \<or> c = CHR ''_'' \<or> (CHR ''a'' \<le> c \<and> c \<le> CHR ''z'') \<or>
     (CHR ''A'' \<le> c \<and> c \<le> CHR ''Z'')"

definition head_word :: "string \<Rightarrow> bool" where
  "head_word s = (case s of [] \<Rightarrow> False | c # _ \<Rightarrow> is_word c)"

text \<open>Repetition: every iteration must consume something, as in \<^verbatim>\<open>re\<close>.\<close>

fun rx_iter :: "bool \<Rightarrow> nat \<Rightarrow> (cursor \<Rightarrow> cursor list) \<Rightarrow> cursor \<Rightarrow> cursor list" where
  "rx_iter greedy 0 f c = [c]"
| "rx_iter greedy (Suc n) f c =
     (let more = concat (map (rx_iter greedy n f)
                   (filter (\<lambda>c'. length (fst (snd c')) < length (fst (snd c))) (f c)))
      in if greedy then more @ [c] else c # more)"

primrec rx_run :: "rx \<Rightarrow> cursor \<Rightarrow> cursor list" where
  "rx_run Eps c = [c]"
| "rx_run (Sym p) c =
     (case c of (pre, post, g) \<Rightarrow>
       (case post of [] \<Rightarrow> [] | x # xs \<Rightarrow> if p x then [(x # pre, xs, g)] else []))"
| "rx_run (Cat a b) c = concat (map (rx_run b) (rx_run a c))"
| "rx_run (Alt a b) c = rx_run a c @ rx_run b c"
| "rx_run (Star a) c = rx_iter True (length (fst (snd c))) (rx_run a) c"
| "rx_run (LazyStar a) c = rx_iter False (length (fst (snd c))) (rx_run a) c"
| "rx_run (Grp i a) c =
     map (\<lambda>(pre, post, g). (pre, post, (i, rev (take (length pre - length (fst c)) pre)) # g))
       (rx_run a c)"
| "rx_run Bol c = (if fst c = [] then [c] else [])"
| "rx_run MBol c = (if fst c = [] \<or> hd (fst c) = CHR 0x0A then [c] else [])"
| "rx_run Eol c = (if fst (snd c) = [] \<or> fst (snd c) = nl then [c] else [])"
| "rx_run WordB c = (if head_word (fst c) \<noteq> head_word (fst (snd c)) then [c] else [])"
| "rx_run (NotAhead a) c = (if rx_run a c = [] then [c] else [])"

definition rx_lit :: "string \<Rightarrow> rx" where
  "rx_lit s = foldr (\<lambda>x r. Cat (Sym ((=) x)) r) s Eps"

definition rx_plus :: "rx \<Rightarrow> rx" where
  "rx_plus r = Cat r (Star r)"

definition rx_opt :: "rx \<Rightarrow> rx" where
  "rx_opt r = Alt r Eps"

fun rx_cat :: "rx list \<Rightarrow> rx" where
  "rx_cat [] = Eps"
| "rx_cat (r # rs) = Cat r (rx_cat rs)"

fun rx_alt :: "rx list \<Rightarrow> rx" where
  "rx_alt [] = Sym (\<lambda>_. False)"
| "rx_alt [r] = r"
| "rx_alt (r # rs) = Alt r (rx_alt rs)"

abbreviation rx_digit :: rx where "rx_digit \<equiv> Sym is_digit"
abbreviation rx_space :: rx where "rx_space \<equiv> Sym is_space"
abbreviation rx_dot :: rx where "rx_dot \<equiv> Sym (\<lambda>c. c \<noteq> CHR 0x0A)"

definition rx_match :: "rx \<Rightarrow> string \<Rightarrow> cursor option" where
  \<comment> \<open>\<^verbatim>\<open>re.match\<close>\<close>
  "rx_match r s = (case rx_run r ([], s, []) of [] \<Rightarrow> None | c # _ \<Rightarrow> Some c)"

text \<open>The leftmost match at or after a position, with the position it starts at.\<close>

fun rx_search_from :: "rx \<Rightarrow> string \<Rightarrow> string \<Rightarrow> (string \<times> cursor) option" where
  "rx_search_from r pre [] =
     (case rx_run r (pre, [], []) of [] \<Rightarrow> None | c # _ \<Rightarrow> Some (pre, c))"
| "rx_search_from r pre (x # xs) =
     (case rx_run r (pre, x # xs, []) of
        [] \<Rightarrow> rx_search_from r (x # pre) xs
      | c # _ \<Rightarrow> Some (pre, c))"

definition rx_search :: "rx \<Rightarrow> string \<Rightarrow> cursor option" where
  \<comment> \<open>\<^verbatim>\<open>re.search\<close>\<close>
  "rx_search r s = map_option snd (rx_search_from r [] s)"

definition rx_group :: "nat \<Rightarrow> cursor \<Rightarrow> string option" where
  \<comment> \<open>\<^verbatim>\<open>m.group(i)\<close> for \<open>i > 0\<close>\<close>
  "rx_group i c = map_of (snd (snd c)) i"

text \<open>The number of leftmost, non-overlapping matches: \<^verbatim>\<open>len(re.findall(r, s))\<close>, with fuel.\<close>

fun rx_count_from :: "nat \<Rightarrow> rx \<Rightarrow> string \<Rightarrow> string \<Rightarrow> nat" where
  "rx_count_from 0 r pre s = 0"
| "rx_count_from (Suc n) r pre s =
     (case rx_search_from r pre s of
        None \<Rightarrow> 0
      | Some (from0, (pre', post', _)) \<Rightarrow>
          if length pre' > length from0 then Suc (rx_count_from n r pre' post')
          else case post' of [] \<Rightarrow> 1 | x # xs \<Rightarrow> Suc (rx_count_from n r (x # pre') xs))"

definition rx_findall_count :: "rx \<Rightarrow> string \<Rightarrow> nat" where
  "rx_findall_count r s = rx_count_from (Suc (length s)) r [] s"

text \<open>The matches themselves, with their groups: \<^verbatim>\<open>re.finditer(r, s)\<close>, with the same fuel.\<close>

fun rx_finditer_from :: "nat \<Rightarrow> rx \<Rightarrow> string \<Rightarrow> string \<Rightarrow> cursor list" where
  "rx_finditer_from 0 r pre s = []"
| "rx_finditer_from (Suc n) r pre s =
     (case rx_search_from r pre s of
        None \<Rightarrow> []
      | Some (from0, (pre', post', g)) \<Rightarrow>
          if length pre' > length from0 then (pre', post', g) # rx_finditer_from n r pre' post'
          else case post' of [] \<Rightarrow> [(pre', post', g)] | x # xs \<Rightarrow> (pre', post', g) # rx_finditer_from n r (x # pre') xs)"

definition rx_finditer :: "rx \<Rightarrow> string \<Rightarrow> cursor list" where
  "rx_finditer r s = rx_finditer_from (Suc (length s)) r [] s"

lemma length_rx_finditer: "length (rx_finditer r s) = rx_findall_count r s"
proof -
  have "length (rx_finditer_from n r pre s) = rx_count_from n r pre s" for n pre
    by (induction n r pre s rule: rx_finditer_from.induct) (simp_all split: option.split prod.split list.split)
  then show ?thesis by (simp only: rx_finditer_def rx_findall_count_def)
qed

section \<open>Meaning\<close>

type_synonym position = "string \<times> string"

definition pos_of :: "cursor \<Rightarrow> position" where
  "pos_of c = (fst c, fst (snd c))"

primrec rx_rel :: "rx \<Rightarrow> (position \<times> position) set" where
  "rx_rel Eps = Id"
| "rx_rel (Sym p) = {((pre, x # post), (x # pre, post)) | pre x post. p x}"
| "rx_rel (Cat a b) = rx_rel a O rx_rel b"
| "rx_rel (Alt a b) = rx_rel a \<union> rx_rel b"
| "rx_rel (Star a) = (rx_rel a)\<^sup>*"
| "rx_rel (LazyStar a) = (rx_rel a)\<^sup>*"
| "rx_rel (Grp i a) = rx_rel a"
| "rx_rel Bol = {(p, p) | p. fst p = []}"
| "rx_rel MBol = {(p, p) | p. fst p = [] \<or> hd (fst p) = CHR 0x0A}"
| "rx_rel Eol = {(p, p) | p. snd p = [] \<or> snd p = nl}"
| "rx_rel WordB = {(p, p) | p. head_word (fst p) \<noteq> head_word (snd p)}"
| "rx_rel (NotAhead a) = {(p, p) | p. p \<notin> Domain (rx_rel a)}"

text \<open>A step moves text from the right of the cursor to its left and changes nothing else.\<close>

definition advances :: "(position \<times> position) set \<Rightarrow> bool" where
  "advances R \<longleftrightarrow> (\<forall>p q. (p, q) \<in> R \<longrightarrow> (\<exists>w. snd p = w @ snd q \<and> fst q = rev w @ fst p))"

lemma advancesD: "advances R \<Longrightarrow> (p, q) \<in> R \<Longrightarrow> \<exists>w. snd p = w @ snd q \<and> fst q = rev w @ fst p"
  by (auto simp: advances_def)

lemma advances_comp: "advances R \<Longrightarrow> advances S \<Longrightarrow> advances (R O S)"
  unfolding advances_def
proof (intro allI impI)
  fix p q
  assume R: "\<forall>p q. (p, q) \<in> R \<longrightarrow> (\<exists>w. snd p = w @ snd q \<and> fst q = rev w @ fst p)"
    and S: "\<forall>p q. (p, q) \<in> S \<longrightarrow> (\<exists>w. snd p = w @ snd q \<and> fst q = rev w @ fst p)"
    and "(p, q) \<in> R O S"
  then obtain y where "(p, y) \<in> R" "(y, q) \<in> S" by blast
  with R S obtain w v where "snd p = w @ snd y" "fst y = rev w @ fst p"
    "snd y = v @ snd q" "fst q = rev v @ fst y" by meson
  then show "\<exists>w. snd p = w @ snd q \<and> fst q = rev w @ fst p"
    by (intro exI[of _ "w @ v"]) simp
qed

lemma advances_rtrancl:
  assumes "advances R"
  shows "advances (R\<^sup>*)"
proof -
  have "\<exists>w. snd p = w @ snd q \<and> fst q = rev w @ fst p" if "(p, q) \<in> R\<^sup>*" for p q
    using that
  proof (induction rule: rtrancl_induct)
    case (step y z)
    then obtain w where "snd p = w @ snd y" "fst y = rev w @ fst p" by blast
    moreover obtain v where "snd y = v @ snd z" "fst z = rev v @ fst y"
      using advancesD[OF assms step.hyps(2)] by blast
    ultimately show ?case by (intro exI[of _ "w @ v"]) simp
  qed simp
  then show ?thesis by (auto simp: advances_def)
qed

lemma rx_rel_advances: "advances (rx_rel r)"
proof (induction r)
  case (Cat a b)
  then show ?case by (simp add: advances_comp)
next
  case (Star a)
  then show ?case by (simp add: advances_rtrancl)
next
  case (LazyStar a)
  then show ?case by (simp add: advances_rtrancl)
qed (auto simp: advances_def)

lemma advances_same_length:
  assumes "advances R" "(p, q) \<in> R" "length (snd p) \<le> length (snd q)"
  shows "q = p"
proof -
  obtain w where "snd p = w @ snd q" "fst q = rev w @ fst p"
    using advancesD[OF assms(1,2)] by blast
  with assms(3) show ?thesis by (simp add: prod_eq_iff)
qed

text \<open>What the matcher of a sub-pattern must do for repetition to be right.\<close>

definition runs_as :: "(cursor \<Rightarrow> cursor list) \<Rightarrow> (position \<times> position) set \<Rightarrow> bool" where
  "runs_as f R \<longleftrightarrow> (\<forall>c. pos_of ` set (f c) = {q. (pos_of c, q) \<in> R})"

lemma runs_asD: "runs_as f R \<Longrightarrow> pos_of ` set (f c) = {q. (pos_of c, q) \<in> R}"
  unfolding runs_as_def by (erule spec)

lemma runs_as_iff: "runs_as f R \<Longrightarrow> q \<in> pos_of ` set (f c) \<longleftrightarrow> (pos_of c, q) \<in> R"
  by (simp only: runs_asD mem_Collect_eq)

lemma runs_as_empty: "runs_as f R \<Longrightarrow> f c = [] \<longleftrightarrow> pos_of c \<notin> Domain R"
proof -
  assume "runs_as f R"
  then have "pos_of ` set (f c) = {} \<longleftrightarrow> {q. (pos_of c, q) \<in> R} = {}"
    by (simp only: runs_asD)
  then show ?thesis by (simp only: image_is_empty set_empty) blast
qed

lemma rx_iter_sound:
  assumes "runs_as f R"
  shows "c' \<in> set (rx_iter g n f c) \<Longrightarrow> (pos_of c, pos_of c') \<in> R\<^sup>*"
proof (induction n arbitrary: c)
  case (Suc n)
  consider "c' = c" | d where "d \<in> set (f c)" "c' \<in> set (rx_iter g n f d)"
    using Suc.prems by (auto simp: Let_def split: if_splits)
  then show ?case
  proof cases
    case 2
    then have "(pos_of c, pos_of d) \<in> R" using runs_as_iff[OF assms] by blast
    with Suc.IH[OF 2(2)] show ?thesis by (rule converse_rtrancl_into_rtrancl[rotated])
  qed simp
qed simp

lemma rx_iter_complete:
  assumes "runs_as f R" "advances R" "length (fst (snd c)) \<le> n" "(pos_of c, q) \<in> R\<^sup>*"
  shows "q \<in> pos_of ` set (rx_iter g n f c)"
  using assms(3,4)
proof (induction n arbitrary: c)
  case 0
  then have "q = pos_of c"
    using advances_same_length[OF advances_rtrancl[OF assms(2)], of "pos_of c" q]
    by (auto simp: pos_of_def)
  then show ?case by simp
next
  case (Suc n)
  have "\<forall>c. x = pos_of c \<longrightarrow> length (fst (snd c)) \<le> Suc n \<longrightarrow> q \<in> pos_of ` set (rx_iter g (Suc n) f c)"
    if "(x, q) \<in> R\<^sup>*" for x
    using that
  proof (induction rule: converse_rtrancl_induct)
    case base
    then show ?case by (auto simp: Let_def)
  next
    case (step x y)
    show ?case
    proof (intro allI impI)
      fix c assume c: "x = pos_of c" and len: "length (fst (snd c)) \<le> Suc n"
      show "q \<in> pos_of ` set (rx_iter g (Suc n) f c)"
      proof (cases "y = x")
        case True
        with step.IH c len show ?thesis by blast
      next
        case False
        obtain d where d: "d \<in> set (f c)" "y = pos_of d"
          using step.hyps(1) c runs_as_iff[OF assms(1)] by blast
        have lt: "length (snd y) < length (snd x)"
          using advances_same_length[OF assms(2) step.hyps(1)] False by fastforce
        then have "length (fst (snd d)) \<le> n" using c d len by (simp add: pos_of_def)
        then have "q \<in> pos_of ` set (rx_iter g n f d)"
          using Suc.IH step.hyps(2) d by blast
        moreover have "length (fst (snd d)) < length (fst (snd c))"
          using lt c d by (simp add: pos_of_def)
        ultimately show ?thesis using d(1) by (cases g; simp add: Let_def; blast)
      qed
    qed
  qed
  with Suc.prems show ?case by blast
qed

lemma rx_iter_runs_as:
  assumes "runs_as f R" "advances R"
  shows "runs_as (\<lambda>c. rx_iter g (length (fst (snd c))) f c) (R\<^sup>*)"
  unfolding runs_as_def
  using rx_iter_sound[OF assms(1)] rx_iter_complete[OF assms order_refl] by blast

lemma rx_run_runs_as: "runs_as (rx_run r) (rx_rel r)"
proof (induction r)
  case (Sym p)
  then show ?case by (force simp: runs_as_def pos_of_def split: list.splits prod.splits)
next
  case (Cat a b)
  have "q \<in> pos_of ` set (rx_run (Cat a b) c) \<longleftrightarrow> (pos_of c, q) \<in> rx_rel (Cat a b)" for q c
  proof -
    have "q \<in> pos_of ` set (rx_run (Cat a b) c) \<longleftrightarrow>
        (\<exists>d\<in>set (rx_run a c). (pos_of d, q) \<in> rx_rel b)"
      by (auto simp: runs_as_iff[OF Cat.IH(2), symmetric])
    also have "\<dots> \<longleftrightarrow> (\<exists>p\<in>pos_of ` set (rx_run a c). (p, q) \<in> rx_rel b)" by auto
    also have "\<dots> \<longleftrightarrow> (\<exists>p. (pos_of c, p) \<in> rx_rel a \<and> (p, q) \<in> rx_rel b)"
      by (simp only: Bex_def runs_as_iff[OF Cat.IH(1)])
    finally show ?thesis by (simp only: rx_rel.simps relcomp_unfold mem_Collect_eq prod.case)
  qed
  then show ?case unfolding runs_as_def by blast
next
  case (Alt a b)
  have "pos_of ` set (rx_run (Alt a b) c) = {q. (pos_of c, q) \<in> rx_rel (Alt a b)}" for c
    by (simp only: rx_run.simps rx_rel.simps set_append image_Un runs_asD[OF Alt.IH(1)]
        runs_asD[OF Alt.IH(2)] Un_iff Collect_disj_eq)
  then show ?case unfolding runs_as_def by blast
next
  case (Star a)
  then show ?case using rx_iter_runs_as[OF Star.IH rx_rel_advances] by simp
next
  case (LazyStar a)
  then show ?case using rx_iter_runs_as[OF LazyStar.IH rx_rel_advances] by simp
next
  case (Grp i a)
  have "pos_of ` set (rx_run (Grp i a) c) = pos_of ` set (rx_run a c)" for c
    by (force simp: pos_of_def image_image split: prod.splits)
  with Grp show ?case by (simp add: runs_as_def)
next
  case (NotAhead a)
  have "pos_of ` set (rx_run (NotAhead a) c) = {q. (pos_of c, q) \<in> rx_rel (NotAhead a)}" for c
    by (cases "pos_of c") (auto simp: runs_as_empty[OF NotAhead.IH])
  then show ?case unfolding runs_as_def by blast
qed (auto simp: runs_as_def pos_of_def)

lemma rx_run_positions:
  "pos_of ` set (rx_run r c) = {q. (pos_of c, q) \<in> rx_rel r}"
  by (rule runs_asD[OF rx_run_runs_as])

lemma rx_run_empty: "rx_run r c = [] \<longleftrightarrow> pos_of c \<notin> Domain (rx_rel r)"
  by (rule runs_as_empty[OF rx_run_runs_as])

lemma rx_match_iff: "rx_match r s \<noteq> None \<longleftrightarrow> ([], s) \<in> Domain (rx_rel r)"
  using rx_run_empty[of r "([], s, [])"] by (cases "rx_run r ([], s, [])") (simp_all add: rx_match_def pos_of_def)

lemma rx_search_from_iff:
  "rx_search_from r pre s \<noteq> None \<longleftrightarrow>
     (\<exists>u v. s = u @ v \<and> (rev u @ pre, v) \<in> Domain (rx_rel r))"
proof (induction r pre s rule: rx_search_from.induct)
  case (1 r pre)
  show ?case
    using rx_run_empty[of r "(pre, [], [])"] by (cases "rx_run r (pre, [], [])") (simp_all add: pos_of_def)
next
  case (2 r pre x xs)
  have now: "rx_run r (pre, x # xs, []) = [] \<longleftrightarrow> (pre, x # xs) \<notin> Domain (rx_rel r)"
    using rx_run_empty[of r "(pre, x # xs, [])"] by (simp add: pos_of_def)
  have split: "(\<exists>u v. x # xs = u @ v \<and> (rev u @ pre, v) \<in> Domain (rx_rel r)) \<longleftrightarrow>
      (pre, x # xs) \<in> Domain (rx_rel r) \<or>
      (\<exists>u v. xs = u @ v \<and> (rev u @ x # pre, v) \<in> Domain (rx_rel r))"
    (is "?l \<longleftrightarrow> ?n \<or> ?r")
  proof
    assume ?l
    then obtain u v where uv: "x # xs = u @ v" "(rev u @ pre, v) \<in> Domain (rx_rel r)" by blast
    then show "?n \<or> ?r" by (cases u) auto
  next
    assume "?n \<or> ?r"
    then show ?l
    proof
      assume ?n
      then show ?l by (intro exI[of _ "[]"] exI[of _ "x # xs"]) simp
    next
      assume ?r
      then obtain u v where "xs = u @ v" "(rev u @ x # pre, v) \<in> Domain (rx_rel r)" by blast
      then show ?l by (intro exI[of _ "x # u"] exI[of _ v]) simp
    qed
  qed
  show ?case
  proof (cases "rx_run r (pre, x # xs, [])")
    case Nil
    with "2.IH" now split show ?thesis by simp
  next
    case (Cons c cs)
    with now have "(pre, x # xs) \<in> Domain (rx_rel r)" by simp
    then have "\<exists>u v. x # xs = u @ v \<and> (rev u @ pre, v) \<in> Domain (rx_rel r)" using split by blast
    with Cons show ?thesis by (simp only: rx_search_from.simps list.case option.distinct simp_thms)
  qed
qed

lemma rx_search_iff:
  "rx_search r s \<noteq> None \<longleftrightarrow> (\<exists>u v. s = u @ v \<and> (rev u, v) \<in> Domain (rx_rel r))"
  using rx_search_from_iff[of r "[]" s] by (simp add: rx_search_def)

lemma rx_rel_lit: "rx_rel (rx_lit s) = {((pre, s @ post), (rev s @ pre, post)) | pre post. True}"
proof (induction s)
  case (Cons x s)
  have "rx_rel (rx_lit (x # s)) = rx_rel (Sym ((=) x)) O rx_rel (rx_lit s)"
    by (simp add: rx_lit_def)
  with Cons show ?case by fastforce
qed (auto simp: rx_lit_def)

lemma rx_search_lit: "rx_search (rx_lit p) s \<noteq> None \<longleftrightarrow> contains p s"
  unfolding rx_search_iff rx_rel_lit contains_def sublist_def by fastforce

text \<open>Text a pattern can consume wherever it stands, to put a match together from its parts.\<close>

definition accepts :: "rx \<Rightarrow> string \<Rightarrow> bool" where
  "accepts r s \<longleftrightarrow> (\<forall>pre post. ((pre, s @ post), (rev s @ pre, post)) \<in> rx_rel r)"

lemma accepts_lit: "accepts (rx_lit s) s"
  by (simp add: accepts_def rx_rel_lit)

lemma accepts_Cat: "accepts a s \<Longrightarrow> accepts b t \<Longrightarrow> accepts (Cat a b) (s @ t)"
  unfolding accepts_def rx_rel.simps by (metis append_assoc relcompI rev_append)

lemma accepts_Eps: "accepts Eps []"
  by (simp add: accepts_def)

lemma accepts_Star_Sym: "\<forall>c\<in>set s. p c \<Longrightarrow> accepts (Star (Sym p)) s"
proof (induction s)
  case (Cons c s)
  have "((pre, (c # s) @ post), (c # pre, s @ post)) \<in> rx_rel (Sym p)" for pre post
    using Cons.prems by simp
  moreover have "((c # pre, s @ post), (rev s @ c # pre, post)) \<in> (rx_rel (Sym p))\<^sup>*" for pre post
    using Cons by (simp add: accepts_def)
  ultimately show ?case
    unfolding accepts_def rx_rel.simps(5) by (metis (no_types, lifting) append.assoc append_Cons append_Nil converse_rtrancl_into_rtrancl rev.simps(2))
qed (simp add: accepts_def)

lemma accepts_plus_Sym:
  assumes "s \<noteq> []" "\<forall>c\<in>set s. p c"
  shows "accepts (rx_plus (Sym p)) s"
proof -
  obtain c t where s: "s = c # t" using assms(1) by (cases s) auto
  have "accepts (Sym p) [c]" using assms(2) s by (simp add: accepts_def)
  moreover have "accepts (Star (Sym p)) t" using assms(2) s by (intro accepts_Star_Sym) simp
  ultimately show ?thesis using accepts_Cat[of "Sym p" "[c]" _ t] by (simp add: rx_plus_def s)
qed

lemma accepts_match: "accepts r s \<Longrightarrow> rx_match (Cat Bol r) (s @ t) \<noteq> None"
proof -
  assume "accepts r s"
  then have "(([], s @ t), (rev s @ [], t)) \<in> rx_rel r" unfolding accepts_def by blast
  moreover have "(([], s @ t), ([], s @ t)) \<in> rx_rel Bol" by simp
  ultimately have "(([], s @ t), (rev s @ [], t)) \<in> rx_rel (Cat Bol r)"
    unfolding rx_rel.simps(3) by (rule relcompI[rotated])
  then show ?thesis unfolding rx_match_iff by blast
qed

end
