(* ===== verification/Runner.thy ===== *)
theory Runner
  imports Suite Harness Regex
begin

text \<open>
  \<^verbatim>\<open>run_all.py\<close>: the sweep. A check script runs as a child process; a reader thread pumps its
  output while the main thread polls it, kills it when it outstays its budget or will not
  exit after its summary, and counts what happened.

  What the child and the clock do is a parameter: \<open>proc_event\<close> lists, in the order in
  which they happened, the lines the reader thread received and the polls of the main
  thread, so the interleaving of the two threads is the order of that list. \<open>watch\<close> is
  the wait loop (\<open>None\<close>: it is still waiting when the events run out), \<open>run_script\<close> the whole
  call, and \<open>sweep_main\<close> the sweep with its counters, its texts and its early stop.
\<close>

section \<open>Watching one process\<close>

definition DEFAULT_SCRIPT_TIMEOUT :: rat where
  "DEFAULT_SCRIPT_TIMEOUT = 300"

definition EXIT_GRACE :: rat where
  "EXIT_GRACE = 15"

definition SUMMARY :: rx where
  \<comment> \<open>\<^verbatim>\<open>^--- .+: \d+ checks passed, \d+ failed\<close>\<close>
  "SUMMARY = rx_cat [Bol, rx_lit ''--- '', rx_plus rx_dot, rx_lit '': '', rx_plus rx_digit,
     rx_lit '' checks passed, '', rx_plus rx_digit, rx_lit '' failed'']"

definition TARGET_GONE :: rx where
  "TARGET_GONE = rx_alt [rx_lit ''VI_ERROR_RSRC_NFOUND'', rx_lit ''VI_ERROR_CONN_LOST'',
     rx_lit ''error_resource_nfound'']"

definition SKIP_LINE :: rx where
  \<comment> \<open>\<^verbatim>\<open>^\s*SKIP \<close> with \<^verbatim>\<open>re.M\<close>\<close>
  "SKIP_LINE = rx_cat [MBol, Star rx_space, rx_lit ''SKIP '']"

datatype signal = SIGTERM | SIGKILL

text \<open>What sending a signal came to: it could not be sent, the process ended within the five
  seconds, or it did not.\<close>

datatype kill_reply = SendFailed | Ended | Survived

fun terminate_by :: "(signal \<Rightarrow> kill_reply) \<Rightarrow> signal list \<Rightarrow> signal list" where
  "terminate_by reply [] = []"
| "terminate_by reply (s # ss) =
     (case reply s of
        SendFailed \<Rightarrow> [s]
      | Ended \<Rightarrow> [s]
      | Survived \<Rightarrow> s # terminate_by reply ss)"

definition terminate :: "(signal \<Rightarrow> kill_reply) \<Rightarrow> signal list" where
  \<comment> \<open>the signals tried, in order\<close>
  "terminate reply = terminate_by reply [SIGTERM, SIGKILL]"

text \<open>
  A line read at a time; a poll that found the process exited with a code; a poll that
  found it running, with the two clock readings made after it.
\<close>

datatype proc_event = OutLine string rat | PollExited int | PollAlive rat rat

record pump_state =
  ps_captured :: "string list"
  ps_reported :: "rat option"

definition pump :: "string \<Rightarrow> rat \<Rightarrow> pump_state \<Rightarrow> pump_state" where
  "pump line now ps =
     ps\<lparr>ps_captured := ps_captured ps @ [line],
        ps_reported := (if ps_reported ps = None \<and> rx_match SUMMARY line \<noteq> None then Some now
                        else ps_reported ps)\<rparr>"

record watched =
  wt_code :: "int option"
  wt_outcome :: string
  wt_pump :: pump_state

fun watch :: "rat \<Rightarrow> proc_event list \<Rightarrow> pump_state \<Rightarrow> watched option" where
  "watch deadline [] ps = None"
| "watch deadline (OutLine line now # es) ps = watch deadline es (pump line now ps)"
| "watch deadline (PollExited rc # es) ps =
     Some \<lparr>wt_code = Some rc, wt_outcome = [], wt_pump = ps\<rparr>"
| "watch deadline (PollAlive t1 t2 # es) ps =
     (if (case ps_reported ps of None \<Rightarrow> False | Some r \<Rightarrow> t1 - r > EXIT_GRACE)
      then Some \<lparr>wt_code = None, wt_outcome = ''hung_at_exit'', wt_pump = ps\<rparr>
      else if t2 > deadline then Some \<lparr>wt_code = None, wt_outcome = ''timeout'', wt_pump = ps\<rparr>
      else watch deadline es ps)"

text \<open>One child: when it started, its events, the lines the reader still gets while it is joined, how
  it takes signals, and whether its report file is there afterwards.\<close>

record child =
  ch_start :: rat
  ch_events :: "proc_event list"
  ch_drained :: "(string \<times> rat) list"
  ch_reply :: "signal \<Rightarrow> kill_reply"
  ch_report_exists :: bool

record script_run =
  sr_code :: "int option"
  sr_output :: string
  sr_outcome :: string
  sr_signals :: "signal list"

definition run_script :: "child \<Rightarrow> rat \<Rightarrow> script_run option" where
  "run_script ch timeout =
     (case watch (ch_start ch + timeout) (ch_events ch) \<lparr>ps_captured = [], ps_reported = None\<rparr> of
        None \<Rightarrow> None
      | Some w \<Rightarrow>
          Some \<lparr>sr_code = (if wt_outcome w \<noteq> [] then None else wt_code w),
                sr_output = concat (ps_captured (fold (\<lambda>(l, t). pump l t) (ch_drained ch) (wt_pump w))),
                sr_outcome = wt_outcome w,
                sr_signals = (if wt_outcome w \<noteq> [] then terminate (ch_reply ch) else [])\<rparr>)"

section \<open>The sweep\<close>

record runner_args =
  ra_protocol :: "string option"
  ra_reports :: "string option"
  ra_soak :: int
  ra_iterations :: int
  ra_sessions :: "int option"
  ra_script_timeout :: rat
  ra_keep_going :: bool
  ra_passthrough :: "string list"
  ra_python :: string      \<comment> \<open>\<^verbatim>\<open>sys.executable\<close>\<close>
  ra_here :: string        \<comment> \<open>\<^verbatim>\<open>HERE\<close>\<close>

record sweep =
  sw_failed :: nat
  sw_ran :: nat
  sw_skipped :: nat
  sw_timedout :: nat
  sw_stuck :: nat
  sw_unreachable :: nat
  sw_abandoned :: "string list"
  sw_wedged :: "string list"
  sw_out :: "string list"

definition put :: "string \<Rightarrow> sweep \<Rightarrow> sweep" where
  "put line sw = sw\<lparr>sw_out := sw_out sw @ [line @ nl]\<rparr>"

definition path_join :: "string \<Rightarrow> string \<Rightarrow> string" where
  \<comment> \<open>\<^verbatim>\<open>str(base / x)\<close> for a posix path\<close>
  "path_join base x =
     (if base = ''.'' then x else if endswith base ''/'' then base @ x else base @ ''/'' @ x)"

definition bar :: string where
  "bar = nl @ replicate 63 (CHR ''='') @ nl"

definition print_kills :: "sweep \<Rightarrow> sweep" where
  "print_kills sw =
     (let sw1 = (if sw_timedout sw = 0 then sw
                 else put (str_nat (sw_timedout sw) @ '' script(s) never finished and were killed: '' @
                        join '', '' (sw_abandoned sw)) sw)
      in if sw_stuck sw = 0 then sw1
         else put (str_nat (sw_stuck sw) @
                '' script(s) finished every check and then would not exit: '' @
                join '', '' (sw_wedged sw)) sw1)"

definition report_path :: "runner_args \<Rightarrow> script \<Rightarrow> string \<Rightarrow> string option" where
  "report_path a s proto =
     map_option (\<lambda>d. path_join d (take (length (s_name s) - 3) (s_name s) @ ''-'' @ proto @ ''.json''))
       (ra_reports a)"

definition script_command :: "runner_args \<Rightarrow> script \<Rightarrow> string \<Rightarrow> py_error + string list" where
  "script_command a s proto =
     (case script_argv s (ra_iterations a) (ra_soak a) [(''sessions'', ra_sessions a)] of
        Inl e \<Rightarrow> Inl e
      | Inr argv \<Rightarrow>
          Inr ([ra_python a, path_join (path_join (ra_here a) ''checks'') (s_name s), ''--protocol'', proto] @
            argv @ (case report_path a s proto of None \<Rightarrow> [] | Some p \<Rightarrow> [''--report'', p]) @
            ra_passthrough a))"

definition count_hung :: "script \<Rightarrow> string \<Rightarrow> bool \<Rightarrow> sweep \<Rightarrow> sweep" where
  "count_hung s tag written sw =
     put (''>>> the results above are complete'' @
          (if written then '' and its JSON report was written'' else []) @
          ''. The process is the finding: something in the VISA '' @
          ''library's teardown did not return. A stack from it '' @
          ''(`sample <pid>` on macOS) is worth more than another run.'')
       (put (''>>> '' @ s_name s @ '' ran every check and printed its results, then '' @
             ''would not exit; killed '' @ fmt_fixed 0 EXIT_GRACE @ ''s later.'')
          (sw\<lparr>sw_stuck := Suc (sw_stuck sw), sw_failed := Suc (sw_failed sw),
              sw_wedged := sw_wedged sw @ [tag]\<rparr>))"

definition count_timeout :: "script \<Rightarrow> string \<Rightarrow> rat \<Rightarrow> bool \<Rightarrow> sweep \<Rightarrow> sweep" where
  "count_timeout s tag budget unwritten sw =
     (let sw1 = put (''>>> '' @ s_name s @ '' was still running after '' @ fmt_fixed 0 budget @ ''s and was '' @
                     ''killed before it finished its checks. Everything above is '' @
                     ''what it managed to report.'')
                  (sw\<lparr>sw_timedout := Suc (sw_timedout sw), sw_failed := Suc (sw_failed sw),
                      sw_abandoned := sw_abandoned sw @ [tag]\<rparr>);
          sw2 = (if unwritten then put (''>>> it wrote no JSON report, so the matrix will show '' @
                                        ''this column as not having run.'') sw1
                 else sw1)
      in put (''>>> raise --script-timeout if this script is legitimately '' @
              ''slow here, or look at what it was doing when it stopped '' @ ''printing.'') sw2)"

definition count_exit :: "int \<Rightarrow> sweep \<Rightarrow> sweep" where
  "count_exit code sw =
     (let sw1 = (if code = 3 then put ''>>> lost the connection to the target'' sw else sw)
      in if code \<noteq> 0 then sw1\<lparr>sw_failed := Suc (sw_failed sw1)\<rparr> else sw1)"

definition count_run :: "runner_args \<Rightarrow> string \<Rightarrow> script \<Rightarrow> rat \<Rightarrow> bool \<Rightarrow> script_run \<Rightarrow> sweep \<Rightarrow> sweep" where
  "count_run a proto s budget exists0 r sw =
     (let tag = s_name s @ '' ['' @ proto @ '']'';
          sw1 = (if sr_outcome r = ''hung_at_exit''
                 then count_hung s tag (report_path a s proto \<noteq> None \<and> exists0) sw
                 else case sr_code r of
                   None \<Rightarrow> count_timeout s tag budget (report_path a s proto \<noteq> None \<and> \<not> exists0) sw
                 | Some code \<Rightarrow> count_exit code sw);
          sw2 = sw1\<lparr>sw_skipped := sw_skipped sw1 + rx_findall_count SKIP_LINE (sr_output r)\<rparr>
      in case sr_code r of
           None \<Rightarrow> sw2
         | Some code \<Rightarrow>
             sw2\<lparr>sw_unreachable :=
               (if code = 3 \<or> (code \<noteq> 0 \<and> rx_search TARGET_GONE (sr_output r) \<noteq> None)
                then Suc (sw_unreachable sw2) else 0)\<rparr>)"

definition stops :: "runner_args \<Rightarrow> script_run \<Rightarrow> sweep \<Rightarrow> bool" where
  "stops a r sw \<longleftrightarrow> sr_code r \<noteq> None \<and> sw_unreachable sw \<ge> 2 \<and> \<not> ra_keep_going a"

definition print_stop :: "sweep \<Rightarrow> sweep" where
  "print_stop sw =
     print_kills
       (put (bar @ str_nat (sw_ran sw) @ '' scripts run, sweep stopped early'')
         (put (bar @ ''>>> the target stopped accepting connections and the last '' @
               str_nat (sw_unreachable sw) @ '' scripts failed every check for that one '' @
               ''reason.'' @ nl @
               ''>>> stopping here. Carrying on would add hundreds of '' @
               ''failures that all say the same thing, under the names of '' @
               ''checks that never ran.'' @ nl @
               ''>>> the instrument likely needs a moment or a power cycle '' @
               ''-- a server with a link or session cap does not always '' @
               ''release them when the client goes away. --keep-going runs '' @
               ''the rest anyway.'') sw))"

definition print_end :: "runner_args \<Rightarrow> sweep \<Rightarrow> sweep" where
  "print_end a sw =
     (let sw1 = put (if sw_failed sw = 0 then ''all scripts passed''
                     else str_nat (sw_failed sw) @ '' script(s) reported failures'')
                  (put (bar @ str_nat (sw_ran sw) @ '' scripts run'') sw);
          sw2 = print_kills sw1;
          sw3 = (if sw_skipped sw = 0 then sw2
                 else put ''lines above for why each one could not run.''
                        (put (str_nat (sw_skipped sw) @
                              '' check(s) were SKIPPED and are not passes -- see the SKIP'') sw2))
      in case ra_reports a of
           None \<Rightarrow> sw3
         | Some d \<Rightarrow> put (''JSON reports written to '' @ d) sw3)"

text \<open>How the sweep ends: with an exit code, with an error of the suite's own tables, or never,
  because a child was never seen to end.\<close>

datatype sweep_end = Returns nat sweep | Breaks py_error sweep | Hangs sweep

type_synonym children = "nat \<Rightarrow> string list \<Rightarrow> child"

fun sweep_loop :: "runner_args \<Rightarrow> children \<Rightarrow> (string \<times> script) list \<Rightarrow> sweep \<Rightarrow> sweep_end" where
  "sweep_loop a world [] sw = Returns (sw_failed sw) (print_end a sw)"
| "sweep_loop a world ((proto, s) # jobs) sw0 =
     (let sw = sw0\<lparr>sw_ran := Suc (sw_ran sw0)\<rparr>
      in case script_command a s proto of
           Inl e \<Rightarrow> Breaks e sw
         | Inr cmd \<Rightarrow>
             (case script_budget s (ra_script_timeout a) (ra_iterations a) (ra_soak a) of
                Inl e \<Rightarrow> Breaks e sw
              | Inr budget \<Rightarrow>
                  (let sw1 = put (bar @ ''=== '' @ s_name s @ '' ['' @ proto @ '']'') sw;
                       ch = world (sw_ran sw) cmd
                   in case run_script ch budget of
                        None \<Rightarrow> Hangs sw1
                      | Some r \<Rightarrow>
                          (let sw2 = count_run a proto s budget (ch_report_exists ch) r
                                       (sw1\<lparr>sw_out := sw_out sw1 @ [sr_output r]\<rparr>)
                           in if stops a r sw2
                              then Returns (if sw_failed sw2 = 0 then 1 else sw_failed sw2) (print_stop sw2)
                              else sweep_loop a world jobs sw2))))"

definition sweep_jobs :: "runner_args \<Rightarrow> (string \<times> script) list" where
  "sweep_jobs a =
     concat (map (\<lambda>proto. map (\<lambda>s. (proto, s)) (for_protocol proto False))
       (case ra_protocol a of None \<Rightarrow> [''hislip'', ''vxi11''] | Some p \<Rightarrow> [p]))"

definition new_sweep :: sweep where
  "new_sweep = \<lparr>sw_failed = 0, sw_ran = 0, sw_skipped = 0, sw_timedout = 0, sw_stuck = 0,
     sw_unreachable = 0, sw_abandoned = [], sw_wedged = [], sw_out = []\<rparr>"

definition sweep_main :: "runner_args \<Rightarrow> children \<Rightarrow> sweep_end" where
  "sweep_main a world = sweep_loop a world (sweep_jobs a) new_sweep"

section \<open>Lemmas: one process\<close>

definition is_poll :: "proc_event \<Rightarrow> bool" where
  "is_poll e \<longleftrightarrow> (case e of OutLine _ _ \<Rightarrow> False | _ \<Rightarrow> True)"

lemma is_poll_simps [simp]: "\<not> is_poll (OutLine l t)" "is_poll (PollExited rc)" "is_poll (PollAlive t1 t2)"
  by (simp_all add: is_poll_def)

text \<open>The clock of a run: a poll that finds the process alive has waited half a second since the
  clock reading before it, which is what waiting with that timeout promises.\<close>

fun ticks :: "rat \<Rightarrow> proc_event list \<Rightarrow> bool" where
  "ticks t [] \<longleftrightarrow> True"
| "ticks t (PollAlive t1 t2 # es) \<longleftrightarrow> t + 1/2 \<le> t2 \<and> ticks t2 es"
| "ticks t (_ # es) \<longleftrightarrow> ticks t es"

lemma watch_None_polls:
  assumes "watch dl es ps = None" "ticks t es"
  shows "length (filter is_poll es) = 0 \<or> t + of_nat (length (filter is_poll es)) / 2 \<le> dl"
  using assms
proof (induction dl es ps arbitrary: t rule: watch.induct)
  case (4 dl t1 t2 es ps)
  have none: "watch dl es ps = None" and le: "t2 \<le> dl" and tick: "t + 1/2 \<le> t2" "ticks t2 es"
    using "4.prems" by (auto split: if_splits option.splits)
  have "length (filter is_poll es) = 0 \<or> t2 + of_nat (length (filter is_poll es)) / 2 \<le> dl"
    using "4.prems" none tick(2) by (intro "4.IH") (auto split: if_splits option.splits)
  then show ?case using le tick(1) by (auto simp: field_simps)
qed simp_all

lemma watch_None_exited: "watch dl es ps = None \<Longrightarrow> PollExited rc \<notin> set es"
  by (induction dl es ps rule: watch.induct) (auto split: if_splits)

definition pump_all :: "(string \<times> rat) list \<Rightarrow> pump_state \<Rightarrow> pump_state" where
  "pump_all ls ps = fold (\<lambda>(l, t). pump l t) ls ps"

lemma pump_captured: "ps_captured (pump_all ls ps) = ps_captured ps @ map fst ls"
  unfolding pump_all_def by (induction ls arbitrary: ps) (auto simp: pump_def)

definition summary_seen :: "pump_state \<Rightarrow> bool" where
  "summary_seen ps \<longleftrightarrow> (\<exists>l\<in>set (ps_captured ps). rx_match SUMMARY l \<noteq> None)"

lemma pump_reported:
  "(ps_reported ps \<noteq> None \<longleftrightarrow> summary_seen ps) \<Longrightarrow>
   ps_reported (pump l t ps) \<noteq> None \<longleftrightarrow> summary_seen (pump l t ps)"
  by (auto simp: pump_def summary_seen_def)

text \<open>What the wait loop can end with.\<close>

lemma watch_Some:
  assumes "watch dl es ps = Some w" "ps_reported ps \<noteq> None \<longleftrightarrow> summary_seen ps"
  shows "(wt_outcome w = [] \<and> wt_code w \<noteq> None \<and> PollExited (the (wt_code w)) \<in> set es) \<or>
         (wt_outcome w = ''hung_at_exit'' \<and> wt_code w = None \<and> summary_seen (wt_pump w)) \<or>
         (wt_outcome w = ''timeout'' \<and> wt_code w = None \<and> (\<exists>t1 t2. PollAlive t1 t2 \<in> set es \<and> t2 > dl))"
  using assms
proof (induction dl es ps rule: watch.induct)
  case (2 dl l now es ps)
  then show ?case using pump_reported[of ps l now] by auto
next
  case (4 dl t1 t2 es ps)
  show ?case
  proof (cases "(case ps_reported ps of None \<Rightarrow> False | Some r \<Rightarrow> t1 - r > EXIT_GRACE) \<or> t2 > dl")
    case True
    then show ?thesis using "4.prems" by (auto split: if_splits option.splits)
  next
    case False
    then show ?thesis using 4 by auto
  qed
qed auto

lemma terminate_cases:
  "terminate reply = (if reply SIGTERM = Survived then [SIGTERM, SIGKILL] else [SIGTERM])"
  by (cases "reply SIGTERM"; cases "reply SIGKILL") (simp_all add: terminate_def)

section \<open>Lemmas: the sweep\<close>

definition bad :: "script_run \<Rightarrow> bool" where
  "bad r \<longleftrightarrow> sr_code r \<noteq> Some 0"

definition gone :: "script_run \<Rightarrow> bool" where
  \<comment> \<open>the script ran to its end and could not reach the target\<close>
  "gone r \<longleftrightarrow> sr_code r = Some 3 \<or>
     (sr_code r \<noteq> None \<and> bad r \<and> rx_search TARGET_GONE (sr_output r) \<noteq> None)"

definition streak_step :: "nat \<Rightarrow> script_run \<Rightarrow> nat" where
  "streak_step u r = (if sr_code r = None then u else if gone r then Suc u else 0)"

definition streak :: "script_run list \<Rightarrow> nat" where
  "streak rs = foldl streak_step 0 rs"

lemma streak_snoc: "streak (rs @ [r]) = streak_step (streak rs) r"
  by (simp add: streak_def)

lemma gone_not_killed: "gone r \<Longrightarrow> sr_code r \<noteq> None \<and> bad r"
  by (auto simp: gone_def bad_def)

text \<open>Two scripts in a row, killed ones left out of account, that could not reach the target.\<close>

definition pair_gone :: "(nat \<Rightarrow> script_run) \<Rightarrow> nat \<Rightarrow> bool" where
  "pair_gone R n \<longleftrightarrow> (\<exists>i<n. gone (R i) \<and> gone (R n) \<and> (\<forall>k. i < k \<and> k < n \<longrightarrow> sr_code (R k) = None))"

lemma pair_gone_cong: "(\<And>i. i \<le> n \<Longrightarrow> R i = S i) \<Longrightarrow> pair_gone R n = pair_gone S n"
  by (simp add: pair_gone_def cong: conj_cong)

definition last_gone :: "script_run list \<Rightarrow> bool" where
  "last_gone rs \<longleftrightarrow> (\<exists>i<length rs. gone (rs ! i) \<and> (\<forall>k. i < k \<and> k < length rs \<longrightarrow> sr_code (rs ! k) = None))"

lemma last_gone_snoc: "last_gone (rs @ [r]) \<longleftrightarrow> gone r \<or> (sr_code r = None \<and> last_gone rs)"
proof
  assume "last_gone (rs @ [r])"
  then obtain i where i: "i < Suc (length rs)" "gone ((rs @ [r]) ! i)"
    and after: "\<And>k. i < k \<Longrightarrow> k < Suc (length rs) \<Longrightarrow> sr_code ((rs @ [r]) ! k) = None"
    unfolding last_gone_def by auto
  show "gone r \<or> (sr_code r = None \<and> last_gone rs)"
  proof (cases "i = length rs")
    case True
    then show ?thesis using i by simp
  next
    case False
    then have lt: "i < length rs" using i by simp
    moreover have "sr_code (rs ! k) = None" if "i < k" "k < length rs" for k
      using after[of k] that by (simp add: nth_append)
    ultimately have "last_gone rs" using i(2) unfolding last_gone_def by (auto simp: nth_append)
    then show ?thesis using after[of "length rs"] lt by simp
  qed
next
  assume "gone r \<or> (sr_code r = None \<and> last_gone rs)"
  then show "last_gone (rs @ [r])"
  proof
    assume "gone r"
    then show ?thesis unfolding last_gone_def by (intro exI[of _ "length rs"]) auto
  next
    assume r: "sr_code r = None \<and> last_gone rs"
    then obtain i where i: "i < length rs" "gone (rs ! i)"
      "\<And>k. i < k \<Longrightarrow> k < length rs \<Longrightarrow> sr_code (rs ! k) = None"
      unfolding last_gone_def by auto
    have "sr_code ((rs @ [r]) ! k) = None" if "i < k" "k < length (rs @ [r])" for k
      using that r i(3)[of k] by (cases "k = length rs") (simp_all add: nth_append)
    then show ?thesis unfolding last_gone_def using i(1,2) by (intro exI[of _ i]) (simp add: nth_append)
  qed
qed

lemma streak_pos: "streak rs > 0 \<longleftrightarrow> last_gone rs"
proof (induction rs rule: rev_induct)
  case Nil
  show ?case by (simp add: streak_def last_gone_def)
next
  case (snoc r rs)
  show ?case using snoc.IH gone_not_killed[of r] by (auto simp: streak_snoc streak_step_def last_gone_snoc)
qed

text \<open>The condition under which the sweep stops after the runs so far.\<close>

definition stop_here :: "script_run list \<Rightarrow> bool" where
  "stop_here rs \<longleftrightarrow> rs \<noteq> [] \<and> sr_code (last rs) \<noteq> None \<and> streak rs \<ge> 2"

lemma stop_here_iff: "stop_here rs \<longleftrightarrow> rs \<noteq> [] \<and> pair_gone ((!) rs) (length rs - 1)"
proof (cases rs rule: rev_cases)
  case (snoc us r)
  have "stop_here rs \<longleftrightarrow> gone r \<and> last_gone us"
    using gone_not_killed[of r] by (auto simp: stop_here_def snoc streak_snoc streak_step_def streak_pos[symmetric])
  also have "\<dots> \<longleftrightarrow> pair_gone ((!) rs) (length us)"
    unfolding pair_gone_def last_gone_def snoc by (auto simp: nth_append)
  finally show ?thesis by (simp add: snoc)
qed (simp add: stop_here_def)

text \<open>What the counters say of the runs so far.\<close>

definition sweep_inv :: "script_run list \<Rightarrow> sweep \<Rightarrow> bool" where
  "sweep_inv rs sw \<longleftrightarrow> sw_ran sw = length rs \<and> sw_failed sw = length (filter bad rs) \<and>
     sw_unreachable sw = streak rs \<and>
     sw_stuck sw = length (filter (\<lambda>r. sr_outcome r = ''hung_at_exit'') rs) \<and>
     sw_timedout sw = length (filter (\<lambda>r. sr_code r = None \<and> sr_outcome r \<noteq> ''hung_at_exit'') rs) \<and>
     sw_skipped sw = sum_list (map (\<lambda>r. rx_findall_count SKIP_LINE (sr_output r)) rs)"

lemma put_sel [simp]:
  "sw_ran (put l sw) = sw_ran sw" "sw_failed (put l sw) = sw_failed sw"
  "sw_unreachable (put l sw) = sw_unreachable sw" "sw_stuck (put l sw) = sw_stuck sw"
  "sw_timedout (put l sw) = sw_timedout sw" "sw_skipped (put l sw) = sw_skipped sw"
  by (simp_all add: put_def)

lemma sweep_inv_counts:
  "sweep_inv rs sw \<Longrightarrow> sw_ran sw = length rs \<and> sw_failed sw = length (filter bad rs)"
  by (simp add: sweep_inv_def)

lemma sweep_inv_put [simp]: "sweep_inv rs (put l sw) = sweep_inv rs sw"
  by (simp add: sweep_inv_def)

lemma sweep_inv_print [simp]:
  "sweep_inv rs (print_kills sw) = sweep_inv rs sw" "sweep_inv rs (print_stop sw) = sweep_inv rs sw"
  "sweep_inv rs (print_end a sw) = sweep_inv rs sw"
proof -
  show kills: "sweep_inv rs (print_kills sw) = sweep_inv rs sw" for sw
    by (simp add: print_kills_def Let_def)
  show "sweep_inv rs (print_stop sw) = sweep_inv rs sw" by (simp add: print_stop_def kills)
  show "sweep_inv rs (print_end a sw) = sweep_inv rs sw"
    by (simp add: print_end_def Let_def kills split: option.split)
qed

text \<open>A run as the process side reports it: killed exactly when there is an outcome.\<close>

definition run_ok :: "script_run \<Rightarrow> bool" where
  "run_ok r \<longleftrightarrow> (sr_outcome r = [] \<longleftrightarrow> sr_code r \<noteq> None) \<and>
     sr_outcome r \<in> {[], ''hung_at_exit'', ''timeout''}"

lemma sweep_inv_count:
  assumes "sweep_inv rs sw" "run_ok r"
  shows "sweep_inv (rs @ [r]) (count_run a proto s b ex r (sw\<lparr>sw_ran := Suc (sw_ran sw), sw_out := out\<rparr>))"
proof (cases "sr_code r")
  case None
  then have "\<not> gone r" "bad r" using gone_not_killed[of r] by (auto simp: bad_def)
  with None show ?thesis
    using assms
    by (simp add: sweep_inv_def count_run_def Let_def count_hung_def count_timeout_def
        streak_snoc streak_step_def put_def)
next
  case (Some code)
  then have "sr_outcome r = []" using assms(2) by (simp add: run_ok_def)
  with Some show ?thesis
    using assms
    by (simp add: sweep_inv_def count_run_def Let_def count_exit_def streak_snoc streak_step_def
        gone_def bad_def put_def)
qed

definition job_run :: "runner_args \<Rightarrow> children \<Rightarrow> nat \<Rightarrow> string \<times> script \<Rightarrow> script_run option" where
  \<comment> \<open>what running a job as the n-th one gives\<close>
  "job_run a world n job =
     (case (script_command a (snd job) (fst job),
            script_budget (snd job) (ra_script_timeout a) (ra_iterations a) (ra_soak a)) of
        (Inr cmd, Inr budget) \<Rightarrow> run_script (world n cmd) budget
      | _ \<Rightarrow> None)"

lemma run_script_ok: "run_script ch b = Some r \<Longrightarrow> run_ok r"
proof -
  assume r: "run_script ch b = Some r"
  then obtain w where w: "watch (ch_start ch + b) (ch_events ch) \<lparr>ps_captured = [], ps_reported = None\<rparr> = Some w"
    and rr: "sr_outcome r = wt_outcome w" "sr_code r = (if wt_outcome w \<noteq> [] then None else wt_code w)"
    by (auto simp: run_script_def split: option.splits)
  show ?thesis
    using watch_Some[OF w] unfolding run_ok_def rr by (auto simp: summary_seen_def)
qed

lemma job_run_ok: "job_run a world n job = Some r \<Longrightarrow> run_ok r"
  by (auto simp: job_run_def intro: run_script_ok split: sum.splits)

text \<open>One turn of the loop, when the job's run is known.\<close>

lemma sweep_loop_turn:
  assumes "job_run a world (Suc (sw_ran sw)) (proto, s) = Some r" "sweep_inv rs sw"
  obtains sw2 where "sweep_inv (rs @ [r]) sw2"
    and "sweep_loop a world ((proto, s) # jobs) sw =
      (if stop_here (rs @ [r]) \<and> \<not> ra_keep_going a
       then Returns (if sw_failed sw2 = 0 then 1 else sw_failed sw2) (print_stop sw2)
       else sweep_loop a world jobs sw2)"
proof -
  obtain cmd b where cmd: "script_command a s proto = Inr cmd"
    and b: "script_budget s (ra_script_timeout a) (ra_iterations a) (ra_soak a) = Inr b"
    and r: "run_script (world (Suc (sw_ran sw)) cmd) b = Some r"
    using assms(1) by (auto simp: job_run_def split: sum.splits)
  let ?out = "sw_out sw @ [(bar @ ''=== '' @ s_name s @ '' ['' @ proto @ '']'') @ nl, sr_output r]"
  let ?sw2 = "count_run a proto s b (ch_report_exists (world (Suc (sw_ran sw)) cmd)) r
    (sw\<lparr>sw_ran := Suc (sw_ran sw), sw_out := ?out\<rparr>)"
  have inv: "sweep_inv (rs @ [r]) ?sw2" by (rule sweep_inv_count[OF assms(2) run_script_ok[OF r]])
  then have "stops a r ?sw2 \<longleftrightarrow> stop_here (rs @ [r]) \<and> \<not> ra_keep_going a"
    by (auto simp: stops_def stop_here_def sweep_inv_def)
  then have "sweep_loop a world ((proto, s) # jobs) sw =
      (if stop_here (rs @ [r]) \<and> \<not> ra_keep_going a
       then Returns (if sw_failed ?sw2 = 0 then 1 else sw_failed ?sw2) (print_stop ?sw2)
       else sweep_loop a world jobs ?sw2)"
    by (simp add: cmd b r put_def Let_def)
  with inv that show ?thesis by blast
qed

lemma stop_here_failed: "stop_here rs \<Longrightarrow> length (filter bad rs) \<noteq> 0"
  unfolding stop_here_iff pair_gone_def
  by (metis (no_types, lifting) diff_less filter_empty_conv gone_not_killed length_0_conv
      length_greater_0_conv nth_mem zero_less_one)

lemma sweep_loop_returns:
  assumes "sweep_loop a world jobs sw = Returns c sw'" "sweep_inv rs sw"
  shows "\<exists>new. length new \<le> length jobs \<and> sweep_inv (rs @ new) sw' \<and> c = length (filter bad (rs @ new)) \<and>
    (\<forall>i<length new. job_run a world (Suc (length rs + i)) (jobs ! i) = Some (new ! i)) \<and>
    (length new < length jobs \<longrightarrow> new \<noteq> [] \<and> stop_here (rs @ new) \<and> \<not> ra_keep_going a) \<and>
    (\<forall>i<length new. Suc i < length new \<longrightarrow> ra_keep_going a \<or> \<not> stop_here (rs @ take (Suc i) new))"
  using assms
proof (induction jobs arbitrary: sw rs)
  case Nil
  then show ?case by (intro exI[of _ "[]"]) (auto simp: sweep_inv_counts)
next
  case (Cons job jobs)
  obtain proto s where job: "job = (proto, s)" by (cases job)
  have ran: "sw_ran sw = length rs" using Cons.prems(2) by (simp add: sweep_inv_def)
  obtain r where r: "job_run a world (Suc (sw_ran sw)) (proto, s) = Some r"
    using Cons.prems(1) by (auto simp: job job_run_def Let_def split: sum.splits option.splits)
  obtain sw2 where inv: "sweep_inv (rs @ [r]) sw2" and
    step: "sweep_loop a world (job # jobs) sw =
      (if stop_here (rs @ [r]) \<and> \<not> ra_keep_going a
       then Returns (if sw_failed sw2 = 0 then 1 else sw_failed sw2) (print_stop sw2)
       else sweep_loop a world jobs sw2)"
    using sweep_loop_turn[OF r Cons.prems(2)] unfolding job by blast
  show ?case
  proof (cases "stop_here (rs @ [r]) \<and> \<not> ra_keep_going a")
    case True
    have "c = length (filter bad (rs @ [r]))" "sweep_inv (rs @ [r]) sw'"
      using Cons.prems(1) True inv stop_here_failed[of "rs @ [r]"] by (auto simp: step sweep_inv_counts split: if_splits)
    then show ?thesis using True r ran by (intro exI[of _ "[r]"]) (auto simp: job)
  next
    case False
    have rest: "sweep_loop a world jobs sw2 = Returns c sw'" using Cons.prems(1) unfolding step if_not_P[OF False] .
    obtain new where new: "length new \<le> length jobs" "sweep_inv ((rs @ [r]) @ new) sw'"
      "c = length (filter bad ((rs @ [r]) @ new))"
      and runs: "\<forall>i<length new. job_run a world (Suc (length (rs @ [r]) + i)) (jobs ! i) = Some (new ! i)"
      and stopped: "length new < length jobs \<longrightarrow> new \<noteq> [] \<and> stop_here ((rs @ [r]) @ new) \<and> \<not> ra_keep_going a"
      and before: "\<forall>i<length new. Suc i < length new \<longrightarrow> ra_keep_going a \<or> \<not> stop_here ((rs @ [r]) @ take (Suc i) new)"
      using Cons.IH[OF rest inv] by blast
    have "job_run a world (Suc (length rs + i)) ((job # jobs) ! i) = Some ((r # new) ! i)"
      if "i < length (r # new)" for i
      using that r ran runs by (cases i) (auto simp: job)
    moreover have "ra_keep_going a \<or> \<not> stop_here (rs @ take (Suc i) (r # new))"
      if "Suc i < length (r # new)" for i
      using that False before by (cases i) (auto simp: Suc_less_eq)
    ultimately show ?thesis
      using new stopped by (intro exI[of _ "r # new"]) auto
  qed
qed

lemma sweep_main_returns:
  assumes "sweep_main a world = Returns c sw"
  shows "\<exists>rs. length rs \<le> length (sweep_jobs a) \<and> sweep_inv rs sw \<and> c = length (filter bad rs) \<and>
    (\<forall>i<length rs. job_run a world (Suc i) (sweep_jobs a ! i) = Some (rs ! i)) \<and>
    (length rs < length (sweep_jobs a) \<longrightarrow> stop_here rs \<and> \<not> ra_keep_going a) \<and>
    (\<forall>n. n < length rs \<longrightarrow> ra_keep_going a \<or> \<not> stop_here (take n rs))"
proof -
  have "sweep_inv [] new_sweep" by (simp add: sweep_inv_def new_sweep_def streak_def)
  from sweep_loop_returns[OF assms[unfolded sweep_main_def] this]
  obtain rs where rs: "length rs \<le> length (sweep_jobs a)" "sweep_inv rs sw" "c = length (filter bad rs)"
    "\<forall>i<length rs. job_run a world (Suc i) (sweep_jobs a ! i) = Some (rs ! i)"
    "length rs < length (sweep_jobs a) \<longrightarrow> stop_here rs \<and> \<not> ra_keep_going a"
    and before: "\<forall>i<length rs. Suc i < length rs \<longrightarrow> ra_keep_going a \<or> \<not> stop_here (take (Suc i) rs)"
    by auto
  have "ra_keep_going a \<or> \<not> stop_here (take n rs)" if "n < length rs" for n
    using that before by (cases n) (auto simp: stop_here_def)
  with rs show ?thesis by blast
qed

lemma sweep_jobs_suite: "(proto, s) \<in> set (sweep_jobs a) \<Longrightarrow> s \<in> set SCRIPTS"
  by (auto simp: sweep_jobs_def for_protocol_def)

text \<open>A child the sweep will see the end of: its clock ticks, and it is polled for longer than its
  budget unless it exits first.\<close>

definition watched_long_enough :: "child \<Rightarrow> rat \<Rightarrow> bool" where
  "watched_long_enough ch timeout \<longleftrightarrow> ticks (ch_start ch) (ch_events ch) \<and>
     ((\<exists>rc. PollExited rc \<in> set (ch_events ch)) \<or>
      (0 < length (filter is_poll (ch_events ch)) \<and> 2 * timeout < of_nat (length (filter is_poll (ch_events ch)))))"

lemma watch_ends:
  assumes "watched_long_enough ch timeout"
  shows "watch (ch_start ch + timeout) (ch_events ch) ps \<noteq> None"
proof
  assume none: "watch (ch_start ch + timeout) (ch_events ch) ps = None"
  show False
    using watch_None_polls[OF none, of "ch_start ch"] watch_None_exited[OF none] assms
    by (auto simp: watched_long_enough_def field_simps)
qed

lemma run_script_ends: "watched_long_enough ch timeout \<Longrightarrow> \<exists>r. run_script ch timeout = Some r"
  using watch_ends[of ch timeout "\<lparr>ps_captured = [], ps_reported = None\<rparr>"] by (auto simp: run_script_def)

lemma sweep_loop_total:
  assumes "\<And>n cmd t. watched_long_enough (world n cmd) t \<or> t \<notin> {ra_script_timeout a, ra_script_timeout a + of_int (ra_soak a)}"
    and "\<forall>(proto, s)\<in>set jobs. s \<in> set SCRIPTS"
  shows "\<exists>c sw'. sweep_loop a world jobs sw = Returns c sw'"
  using assms(2)
proof (induction jobs arbitrary: sw)
  case (Cons job jobs)
  obtain proto s where job: "job = (proto, s)" by (cases job)
  then have s: "s \<in> set SCRIPTS" using Cons.prems by simp
  obtain cmd where cmd: "script_command a s proto = Inr cmd"
    using suite_argv[OF s, of "ra_iterations a" "ra_soak a" "[(''sessions'', ra_sessions a)]"]
    by (auto simp: script_command_def)
  let ?b = "if s_name s = ''08_soak.py'' then ra_script_timeout a + of_int (ra_soak a) else ra_script_timeout a"
  have b: "script_budget s (ra_script_timeout a) (ra_iterations a) (ra_soak a) = Inr ?b"
    by (rule suite_budget[OF s])
  have "watched_long_enough (world (Suc (sw_ran sw)) cmd) ?b" 
    using assms(1)[of "Suc (sw_ran sw)" cmd ?b] by (cases "s_name s = ''08_soak.py''") simp_all
  from run_script_ends[OF this] obtain r where r: "run_script (world (Suc (sw_ran sw)) cmd) ?b = Some r" ..
  have "\<exists>c sw'. sweep_loop a world jobs sw2 = Returns c sw'" for sw2 using Cons by simp
  then show ?case by (simp add: job cmd b r Let_def)
qed simp

definition example_child :: "int \<Rightarrow> string \<Rightarrow> child" where
  \<comment> \<open>used by the examples below: prints a text and exits\<close>
  "example_child rc out = \<lparr>ch_start = 0, ch_events = [OutLine out 1, PollAlive 2 2, PollExited rc],
     ch_drained = [], ch_reply = (\<lambda>_. Survived), ch_report_exists = False\<rparr>"

definition example_args :: runner_args where
  "example_args = \<lparr>ra_protocol = Some ''hislip'', ra_reports = None, ra_soak = 60, ra_iterations = 300,
     ra_sessions = None, ra_script_timeout = 300, ra_keep_going = True, ra_passthrough = [],
     ra_python = ''python3'', ra_here = ''/repo''\<rparr>"

lemma example_child_watched: "watched_long_enough (example_child rc out) t"
  by (simp add: watched_long_enough_def example_child_def)

lemma example_sweep: "\<exists>c sw. sweep_main example_args (\<lambda>_ _. example_child 3 []) = Returns c sw"
  unfolding sweep_main_def
  by (rule sweep_loop_total) (use example_child_watched sweep_jobs_suite in blast)+

section \<open>Properties\<close>

text \<open>The sweep recognises a finished script. The summary line a script's bookkeeping prints at
  the end, whatever its counts and however long it took, is one the runner takes as the sign that every
  check has run, for every script whose name is not empty and fits on a line.\<close>

theorem summary_line_recognised:
  assumes "st_name st \<noteq> []" and "CHR 0x0A \<notin> set (st_name st)"
  shows "ps_reported (pump (summary_line now st @ nl) t \<lparr>ps_captured = [], ps_reported = None\<rparr>) = Some t"
proof -
  have name: "accepts (rx_plus rx_dot) (st_name st)" using assms by (intro accepts_plus_Sym) auto
  have num: "accepts (rx_plus rx_digit) (str_nat n)" for n
    by (intro accepts_plus_Sym) (auto dest: str_nat_digits)
  let ?rest = "(if st_skipped st = [] then [] else '', '' @ str_nat (length (st_skipped st)) @ '' SKIPPED'') @
     '', '' @ fmt_fixed 1 (now - st_started st) @ ''s'' @ nl"
  have "accepts (rx_cat [rx_lit ''--- '', rx_plus rx_dot, rx_lit '': '', rx_plus rx_digit,
      rx_lit '' checks passed, '', rx_plus rx_digit, rx_lit '' failed''])
    (''--- '' @ st_name st @ '': '' @ str_nat (st_ok st) @ '' checks passed, '' @
     str_nat (length (st_failures st)) @ '' failed'' @ [])"
    unfolding rx_cat.simps by (intro accepts_Cat accepts_lit accepts_Eps name num)
  from accepts_match[OF this, of ?rest] have "rx_match SUMMARY (summary_line now st @ nl) \<noteq> None"
    unfolding SUMMARY_def rx_cat.simps summary_line_def append_assoc append_Nil2 append_Nil .
  then show ?thesis by (simp add: pump_def)
qed

theorem summary_line_recognised_witness:
  "ps_reported (pump (summary_line 0 (new_stats ''smoke'' False None 0) @ nl) 7
     \<lparr>ps_captured = [], ps_reported = None\<rparr>) = Some 7"
proof (rule summary_line_recognised)
  have n: "st_name (new_stats ''smoke'' False None 0) = ''smoke''" by code_simp
  show "st_name (new_stats ''smoke'' False None 0) \<noteq> []" unfolding n by simp
  show "CHR 0x0A \<notin> set (st_name (new_stats ''smoke'' False None 0))" unfolding n by simp
qed

text \<open>C13: a script cannot hold up the sweep for longer than its budget. If every poll takes the half
  second it waits, then once the script has exited or more polls have been made than fit into the
  budget, the call has returned. It returns an exit code exactly when the script was not killed; a script is said
  to have hung at exit only if its output has the summary line in it, and to have timed
  out only if the clock passed its deadline; it is signalled exactly when it is given up.\<close>

theorem run_script_returns:
  assumes "watched_long_enough ch timeout"
  shows "\<exists>r. run_script ch timeout = Some r \<and>
    (sr_code r = None \<longleftrightarrow> sr_outcome r = ''hung_at_exit'' \<or> sr_outcome r = ''timeout'') \<and>
    (sr_outcome r = ''hung_at_exit'' \<longrightarrow>
      (\<exists>u l v. sr_output r = u @ l @ v \<and> rx_match SUMMARY l \<noteq> None)) \<and>
    (sr_outcome r = ''timeout'' \<longrightarrow>
      (\<exists>t1 t2. PollAlive t1 t2 \<in> set (ch_events ch) \<and> t2 > ch_start ch + timeout)) \<and>
    (sr_code r = None \<longleftrightarrow> SIGTERM \<in> set (sr_signals r)) \<and>
    (SIGKILL \<in> set (sr_signals r) \<longrightarrow> ch_reply ch SIGTERM = Survived)"
proof -
  let ?ps = "\<lparr>ps_captured = [], ps_reported = None\<rparr>"
  obtain w where w: "watch (ch_start ch + timeout) (ch_events ch) ?ps = Some w"
    using watch_ends[OF assms] by blast
  let ?out = "concat (ps_captured (wt_pump w) @ map fst (ch_drained ch))"
  have r: "run_script ch timeout = Some \<lparr>sr_code = (if wt_outcome w \<noteq> [] then None else wt_code w),
      sr_output = ?out, sr_outcome = wt_outcome w,
      sr_signals = (if wt_outcome w \<noteq> [] then terminate (ch_reply ch) else [])\<rparr>"
    using pump_captured[of "ch_drained ch" "wt_pump w"] by (simp add: run_script_def w pump_all_def)
  have seen: "\<exists>u l v. ?out = u @ l @ v \<and> rx_match SUMMARY l \<noteq> None" if s: "summary_seen (wt_pump w)"
  proof -
    obtain l where "rx_match SUMMARY l \<noteq> None" "l \<in> set (ps_captured (wt_pump w))"
      using s unfolding summary_seen_def by blast
    moreover then obtain xs ys where "ps_captured (wt_pump w) = xs @ l # ys" by (meson split_list)
    ultimately have "rx_match SUMMARY l \<noteq> None" "ps_captured (wt_pump w) = xs @ l # ys" by simp_all
    then show ?thesis
      by (intro exI[of _ "concat xs"] exI[of _ l] exI[of _ "concat ys @ concat (map fst (ch_drained ch))"]) simp
  qed
  show ?thesis
    using watch_Some[OF w] seen by (simp add: r terminate_cases summary_seen_def) auto
qed

theorem run_script_returns_witness: "\<exists>r. run_script (example_child 0 []) 300 = Some r"
  using run_script_returns[OF example_child_watched[of 0 "[]" 300]] by blast

text \<open>C7: the sweep's exit code counts the scripts that did not pass. When the sweep returns, its code
  is the number of scripts it ran that were killed or did not exit with zero; so it is zero
  only if every script of the job list ran and exited with zero. The counts it prints of
  stuck and of abandoned scripts are exact, and together they are the killed ones.\<close>

theorem sweep_exit_code:
  assumes "sweep_main a world = Returns c sw"
  shows "c = sw_failed sw \<and>
    sw_failed sw = card {i. i < sw_ran sw \<and> map_option sr_code (job_run a world (Suc i) (sweep_jobs a ! i)) \<noteq> Some (Some 0)} \<and>
    (c = 0 \<longleftrightarrow> sw_ran sw = length (sweep_jobs a) \<and>
      (\<forall>i<length (sweep_jobs a). map_option sr_code (job_run a world (Suc i) (sweep_jobs a ! i)) = Some (Some 0))) \<and>
    sw_stuck sw + sw_timedout sw =
      card {i. i < sw_ran sw \<and> map_option sr_code (job_run a world (Suc i) (sweep_jobs a ! i)) = Some None}"
proof -
  obtain rs where len: "length rs \<le> length (sweep_jobs a)" and inv: "sweep_inv rs sw"
    and c: "c = length (filter bad rs)"
    and runs: "\<forall>i<length rs. job_run a world (Suc i) (sweep_jobs a ! i) = Some (rs ! i)"
    and stop: "length rs < length (sweep_jobs a) \<longrightarrow> stop_here rs \<and> \<not> ra_keep_going a"
    using sweep_main_returns[OF assms] by blast
  let ?R = "\<lambda>i. map_option sr_code (job_run a world (Suc i) (sweep_jobs a ! i))"
  have ran: "sw_ran sw = length rs" and failed: "sw_failed sw = length (filter bad rs)"
    using sweep_inv_counts[OF inv] by simp_all
  have R: "?R i = Some (sr_code (rs ! i))" if "i < length rs" for i using runs that by simp
  have card_runs: "length (filter p rs) = card {i. i < length rs \<and> q (?R i)}"
    if "\<And>r. p r \<longleftrightarrow> q (Some (sr_code r))" for p q
  proof -
    have "i < length rs \<and> p (rs ! i) \<longleftrightarrow> i < length rs \<and> q (?R i)" for i using R[of i] that by metis
    then show ?thesis unfolding length_filter_conv_card by presburger
  qed
  have "length (filter bad rs) = 0 \<longleftrightarrow> (\<forall>i<length rs. ?R i = Some (Some 0))"
    unfolding length_0_conv filter_empty_conv all_set_conv_all_nth by (simp add: R bad_def)
  then have zero: "c = 0 \<longleftrightarrow> length rs = length (sweep_jobs a) \<and> (\<forall>i<length (sweep_jobs a). ?R i = Some (Some 0))"
    using len stop stop_here_failed[of rs] c by (metis le_neq_implies_less)
  have "sw_stuck sw + sw_timedout sw = length (filter (\<lambda>r. sr_code r = None) rs)"
  proof -
    have ok: "sr_outcome r = ''hung_at_exit'' \<Longrightarrow> sr_code r = None" if r: "r \<in> set rs" for r
    proof -
      obtain i where "i < length rs" "r = rs ! i" using r by (auto simp: in_set_conv_nth)
      then have "run_ok r" using runs job_run_ok by blast
      then show "sr_outcome r = ''hung_at_exit'' \<Longrightarrow> sr_code r = None" by (auto simp: run_ok_def)
    qed
    have "filter (\<lambda>r. sr_outcome r = ''hung_at_exit'') rs =
        filter (\<lambda>r. sr_outcome r = ''hung_at_exit'') (filter (\<lambda>r. sr_code r = None) rs)"
      using ok by (auto simp: filter_filter intro!: filter_cong)
    then show ?thesis
      using inv sum_length_filter_compl[of "\<lambda>r. sr_outcome r = ''hung_at_exit''" "filter (\<lambda>r. sr_code r = None) rs"]
      by (simp add: sweep_inv_def conj_commute)
  qed
  then show ?thesis
    using zero c failed ran card_runs[of bad "\<lambda>x. x \<noteq> Some (Some 0)"]
      card_runs[of "\<lambda>r. sr_code r = None" "\<lambda>x. x = Some None"] by (simp add: bad_def)
qed

theorem sweep_exit_code_witness:
  "\<exists>c sw. sweep_main example_args (\<lambda>_ _. example_child 3 []) = Returns c sw \<and> c = sw_failed sw"
  using example_sweep sweep_exit_code by blast

text \<open>C8: the sweep stops early at the right place and nowhere else. Unless told to keep going, it stops
  after the first script that could not reach the target when the one before it could not
  either, killed scripts, which say nothing about the target, left out of account; otherwise
  it runs every script of the job list.\<close>

theorem sweep_stop_rule:
  assumes "sweep_main a world = Returns c sw"
  shows "sw_ran sw \<le> length (sweep_jobs a) \<and>
    (\<forall>n. Suc n < sw_ran sw \<longrightarrow> ra_keep_going a \<or>
       \<not> pair_gone (\<lambda>i. the (job_run a world (Suc i) (sweep_jobs a ! i))) n) \<and>
    (sw_ran sw < length (sweep_jobs a) \<longrightarrow> \<not> ra_keep_going a \<and> 0 < sw_ran sw \<and>
       pair_gone (\<lambda>i. the (job_run a world (Suc i) (sweep_jobs a ! i))) (sw_ran sw - 1))"
proof -
  obtain rs where len: "length rs \<le> length (sweep_jobs a)" and inv: "sweep_inv rs sw"
    and runs: "\<forall>i<length rs. job_run a world (Suc i) (sweep_jobs a ! i) = Some (rs ! i)"
    and stop: "length rs < length (sweep_jobs a) \<longrightarrow> stop_here rs \<and> \<not> ra_keep_going a"
    and before: "\<forall>n. n < length rs \<longrightarrow> ra_keep_going a \<or> \<not> stop_here (take n rs)"
    using sweep_main_returns[OF assms] by blast
  let ?R = "\<lambda>i. the (job_run a world (Suc i) (sweep_jobs a ! i))"
  have ran: "sw_ran sw = length rs" using sweep_inv_counts[OF inv] by simp
  have same: "pair_gone ((!) us) n \<longleftrightarrow> pair_gone ?R n"
    if "n < length us" "\<And>i. i < length us \<Longrightarrow> us ! i = ?R i" for us n
    by (rule pair_gone_cong) (use that in simp)
  have "ra_keep_going a \<or> \<not> pair_gone ?R n" if n: "Suc n < length rs" for n
  proof -
    have "stop_here (take (Suc n) rs) \<longleftrightarrow> pair_gone ((!) (take (Suc n) rs)) n"
      using n by (auto simp: stop_here_iff)
    also have "\<dots> \<longleftrightarrow> pair_gone ?R n" by (rule same) (use n runs in auto)
    finally show ?thesis using before n by blast
  qed
  moreover have "pair_gone ?R (length rs - 1) \<and> 0 < length rs" if "stop_here rs"
    using that same[of "length rs - 1" rs] runs by (auto simp: stop_here_iff)
  ultimately show ?thesis using len stop ran by auto
qed

theorem sweep_stop_rule_witness:
  "\<exists>c sw. sweep_main example_args (\<lambda>_ _. example_child 3 []) = Returns c sw \<and>
     sw_ran sw = length (sweep_jobs example_args)"
proof -
  obtain c sw where r: "sweep_main example_args (\<lambda>_ _. example_child 3 []) = Returns c sw"
    using example_sweep by blast
  have "ra_keep_going example_args" by (simp add: example_args_def)
  with sweep_stop_rule[OF r] have "sw_ran sw = length (sweep_jobs example_args)" by linarith
  with r show ?thesis by blast
qed

text \<open>The sweep always comes to an end with an exit code. If every child is polled until its
  budget is used up or it exits, then no script name, argument or output makes the sweep raise or
  wait for ever.\<close>

theorem sweep_terminates:
  assumes "\<And>n cmd t. t \<in> {ra_script_timeout a, ra_script_timeout a + of_int (ra_soak a)} \<Longrightarrow>
    watched_long_enough (world n cmd) t"
  shows "\<exists>c sw. sweep_main a world = Returns c sw"
  unfolding sweep_main_def
  by (rule sweep_loop_total) (use assms sweep_jobs_suite in blast)+

theorem sweep_terminates_witness:
  "\<exists>c sw. sweep_main example_args (\<lambda>_ _. example_child 0 []) = Returns c sw"
  by (rule sweep_terminates) (rule example_child_watched)

end
