(* ===== verification/Aggregate.thy ===== *)
theory Aggregate
  imports Harness
begin

text \<open>
  \<^verbatim>\<open>testgear/aggregate.py\<close>: folding script reports into a column, and columns into a matrix.
  A column is the dictionary of \<open>Harness.column\<close>. \<open>merge\<close> folds reports, \<open>build\<close> is the
  join on the stable key, and the properties of \<^verbatim>\<open>Row\<close> and \<^verbatim>\<open>Matrix\<close> are one definition each.
  \<open>render_markdown\<close> is the step summary. A directory is the list of its file names.
\<close>

section \<open>Columns\<close>

definition STATUSES :: "string list" where
  "STATUSES = [''ok'', ''unavailable'', ''errored'', ''not-run'']"

definition NOT_COLUMNS :: "string list" where
  "NOT_COLUMNS = [''index.json'', ''leg.json'', ''plan.json'']"

definition NOT_COLUMN_SUFFIXES :: "string list" where
  "NOT_COLUMN_SUFFIXES = [''.rc.json'']"

definition column_files :: "string list \<Rightarrow> string list" where
  "column_files dir =
     sort (filter (\<lambda>p. endswith p ''.json'' \<and> p \<notin> set NOT_COLUMNS \<and>
                       \<not> list_ex (endswith p) NOT_COLUMN_SUFFIXES) dir)"

definition truthy :: "string option \<Rightarrow> bool" where
  \<comment> \<open>present and not empty\<close>
  "truthy s \<longleftrightarrow> (case s of None \<Rightarrow> False | Some t \<Rightarrow> t \<noteq> [])"

definition get_or :: "'a \<Rightarrow> 'a option \<Rightarrow> 'a" where
  \<comment> \<open>\<^verbatim>\<open>d.get(key, default)\<close>\<close>
  "get_or d x = (case x of None \<Rightarrow> d | Some y \<Rightarrow> y)"

definition result_key :: "rdict \<Rightarrow> string" where
  "result_key r = get_or (d_name r) (d_key r)"

definition merge_entry :: "string \<Rightarrow> rdict \<Rightarrow> rdict" where
  "merge_entry script r =
     r\<lparr>d_name := script @ '': '' @ d_name r, d_key := Some (script @ '': '' @ result_key r)\<rparr>"

definition column_results :: "column \<Rightarrow> rdict list" where
  "column_results c = get_or [] (j_results c)"

text \<open>One turn of the loop in \<^verbatim>\<open>merge\<close>. A report's elapsed entry is a number.\<close>

definition merge_step :: "column \<Rightarrow> column \<Rightarrow> column" where
  "merge_step rep merged =
     (let script = get_or ''?'' (j_script rep);
          m1 = (case (j_elapsed rep, j_elapsed merged) of
                  (Some (Seconds t), Some (PerScript d)) \<Rightarrow>
                    merged\<lparr>j_elapsed := Some (PerScript (dict_set script t d))\<rparr>
                | _ \<Rightarrow> merged);
          m2 = (if get_or [] (j_context m1) = [] then m1\<lparr>j_context := Some (get_or [] (j_context rep))\<rparr>
                else m1);
          m3 = m2\<lparr>j_results := Some (column_results m2 @ map (merge_entry script) (column_results rep))\<rparr>
      in m3\<lparr>j_notes := Some (get_or [] (j_notes m3) @ get_or [] (j_notes rep))\<rparr>)"

definition merge :: "column list \<Rightarrow> string \<Rightarrow> column" where
  "merge reports lab =
     fold merge_step reports
       (empty_column\<lparr>j_label := Some lab, j_results := Some [], j_notes := Some [],
          j_context := Some [], j_elapsed := Some (PerScript [])\<rparr>)"

definition status :: "column \<Rightarrow> string" where
  "status c =
     (case j_status c of
        Some d \<Rightarrow> if d \<in> set STATUSES then d
                  else if column_results c \<noteq> [] then ''ok'' else ''not-run''
      | None \<Rightarrow> if column_results c \<noteq> [] then ''ok'' else ''not-run'')"

definition label :: "column \<Rightarrow> string" where
  "label c = (if truthy (j_label c) then the (j_label c)
              else get_or ''?'' (dict_get (get_or [] (j_context c)) ''backend''))"

definition display_labels :: "column list \<Rightarrow> string list" where
  "display_labels columns =
     (let ns = map label columns
      in map (\<lambda>(n, c). if count_list ns n > 1 \<and> truthy (j_os_label c)
                       then n @ '' ('' @ the (j_os_label c) @ '')'' else n) (zip ns columns))"

section \<open>Rows and the matrix\<close>

record row =
  w_key :: string
  w_name :: string
  w_rule :: string
  w_script :: string
  w_cells :: "rdict option list"
  w_compared :: "nat list"
  w_source :: string

definition row_file :: "row \<Rightarrow> string" where
  "row_file r = fst (partition3 (w_source r) '':'')"

definition row_line :: "row \<Rightarrow> string" where
  "row_line r = snd (snd (partition3 (w_source r) '':''))"

definition row_label :: "row \<Rightarrow> string" where
  "row_label r = (let rest = snd (snd (partition3 (w_key r) '': '')) in or_else rest (w_key r))"

definition cell_outcome :: "rdict option \<Rightarrow> string" where
  "cell_outcome c = (case c of None \<Rightarrow> ''-'' | Some r \<Rightarrow> d_outcome r)"

definition outcomes :: "row \<Rightarrow> string list" where
  "outcomes r = map cell_outcome (w_cells r)"

definition compared_outcomes :: "row \<Rightarrow> string list" where
  "compared_outcomes r = map (\<lambda>i. outcomes r ! i) (w_compared r)"

definition differs :: "row \<Rightarrow> bool" where
  "differs r \<longleftrightarrow> length (remdups (compared_outcomes r)) > 1"

definition row_all_skipped :: "row \<Rightarrow> bool" where
  "row_all_skipped r \<longleftrightarrow> w_compared r \<noteq> [] \<and> set (compared_outcomes r) = {SKIP}"

record matrix =
  m_columns :: "column list"
  m_rows :: "row list"

definition compared :: "matrix \<Rightarrow> nat list" where
  "compared m = filter (\<lambda>i. status (m_columns m ! i) = ''ok'') [0..<length (m_columns m)]"

definition disagreements :: "matrix \<Rightarrow> row list" where
  "disagreements m = filter differs (m_rows m)"

definition all_skipped :: "matrix \<Rightarrow> row list" where
  "all_skipped m = filter row_all_skipped (m_rows m)"

definition unique_to :: "matrix \<Rightarrow> nat \<Rightarrow> row list" where
  "unique_to m i =
     filter (\<lambda>r. outcomes r ! i = FAIL \<and>
                 list_all (\<lambda>j. outcomes r ! j = PASS) (filter (\<lambda>j. j \<noteq> i) (compared m))) (m_rows m)"

definition unique_failures_by_column :: "matrix \<Rightarrow> (nat, row list) dict" where
  "unique_failures_by_column m =
     map (\<lambda>i. (i, unique_to m i))
       (filter (\<lambda>i. filter (\<lambda>j. j \<noteq> i) (compared m) \<noteq> [] \<and> unique_to m i \<noteq> []) (compared m))"

definition shared_failures :: "matrix \<Rightarrow> row list" where
  "shared_failures m =
     (if length (compared m) < 2 then []
      else filter (\<lambda>r. list_all (\<lambda>i. outcomes r ! i = FAIL) (compared m)) (m_rows m))"

definition counts :: "matrix \<Rightarrow> nat \<Rightarrow> string \<Rightarrow> nat" where
  "counts m index outcome =
     length (filter (\<lambda>r. d_outcome r = outcome) (column_results (m_columns m ! index)))"

definition group_of :: "row \<Rightarrow> string" where
  "group_of r = or_else (row_file r) (w_script r)"

definition add_to_group :: "row \<Rightarrow> (string, row list) dict \<Rightarrow> (string, row list) dict" where
  "add_to_group r groups = dict_set (group_of r) (get_or [] (dict_get groups (group_of r)) @ [r]) groups"

definition by_script :: "matrix \<Rightarrow> (string, row list) dict" where
  "by_script m = fold add_to_group (m_rows m) []"

section \<open>The join\<close>

definition lookup_of :: "column \<Rightarrow> (string, rdict) dict" where
  "lookup_of c = dict_of (map (\<lambda>r. (result_key r, r)) (column_results c))"

definition first_truthy :: "(rdict \<Rightarrow> string option) \<Rightarrow> rdict option list \<Rightarrow> string" where
  "first_truthy f cells =
     (case filter (\<lambda>c. truthy (f c)) (List.map_filter (\<lambda>x. x) cells) of
        [] \<Rightarrow> []
      | c # _ \<Rightarrow> the (f c))"

definition make_row :: "(string, rdict) dict list \<Rightarrow> nat list \<Rightarrow> rdict \<Rightarrow> row" where
  "make_row lookups cmp r =
     (let key = result_key r; name = d_name r; (script, _, rest) = partition3 name '': '';
          cells = map (\<lambda>lk. dict_get lk key) lookups
      in \<lparr>w_key = key, w_name = name, w_rule = first_truthy d_rule cells,
          w_script = (if rest = [] then [] else script), w_cells = cells, w_compared = cmp,
          w_source = first_truthy d_source cells\<rparr>)"

fun build_rows ::
  "(string, rdict) dict list \<Rightarrow> nat list \<Rightarrow> string set \<Rightarrow> rdict list \<Rightarrow> row list" where
  "build_rows lookups cmp seen [] = []"
| "build_rows lookups cmp seen (r # rs) =
     (if result_key r \<in> seen then build_rows lookups cmp seen rs
      else make_row lookups cmp r # build_rows lookups cmp (insert (result_key r) seen) rs)"

definition build :: "column list \<Rightarrow> matrix" where
  "build columns =
     (let lookups = map lookup_of columns;
          cmp = filter (\<lambda>i. status (columns ! i) = ''ok'') [0..<length columns]
      in \<lparr>m_columns = columns,
          m_rows = build_rows lookups cmp {} (concat (map column_results columns))\<rparr>)"

section \<open>Markdown\<close>

definition md_cell :: "string \<Rightarrow> string" where
  \<comment> \<open>\<^verbatim>\<open>_CELL.get(o, o)\<close>\<close>
  "md_cell o1 = (if o1 = PASS then ''pass'' else if o1 = FAIL then ''**FAIL**''
                 else if o1 = SKIP then ''skip'' else if o1 = ''-'' then ''&mdash;'' else o1)"

definition md_escape :: "string \<Rightarrow> string" where
  "md_escape text = strip (replace nl '' '' (replace ''|'' [backslash, CHR ''|''] text))"

definition md_row :: "string list \<Rightarrow> string" where
  "md_row cells = ''| '' @ join '' | '' cells @ '' |''"

definition md_table :: "string list \<Rightarrow> string list list \<Rightarrow> string list" where
  "md_table header rs =
     (if rs = [] then []
      else [md_row header, ''|'' @ join ''|'' (replicate (length header) ''---'') @ ''|''] @ map md_row rs)"

definition outcome_rows :: "matrix \<Rightarrow> row list \<Rightarrow> string list list" where
  "outcome_rows m rs =
     map (\<lambda>r. [md_escape (row_label r)] @ map (\<lambda>i. md_cell (outcomes r ! i)) (compared m) @
              [md_escape (w_rule r)]) rs"

definition md_section ::
  "matrix \<Rightarrow> string list \<Rightarrow> nat \<Rightarrow> string \<Rightarrow> row list \<Rightarrow> string \<Rightarrow> string list" where
  "md_section m headers max_rows title rs blurb =
     (if rs = [] then []
      else [''### '' @ title @ '' ('' @ str_nat (length rs) @ '')''] @
           (if blurb = [] then [] else [[], blurb]) @ [[]] @
           md_table headers (outcome_rows m (take max_rows rs)) @
           (if length rs > length (take max_rows rs)
            then [[], ''_'' @ [CHR 0xE2, CHR 0x80, CHR 0xA6] @ ''and '' @
                   str_nat (length rs - length (take max_rows rs)) @ '' more._'']
            else []) @ [[]])"

definition status_note :: "column \<Rightarrow> string" where
  "status_note c =
     (if status c \<noteq> ''ok'' then ''**'' @ status c @ ''** &mdash; '' @ get_or [] (j_reason c)
      else if get_or [] (j_errors c) \<noteq> [] then
        ''ok, but **'' @ str_nat (length (get_or [] (j_errors c))) @ '' script(s) crashed** and '' @
        ''their checks are absent: '' @
        join '', '' (map (\<lambda>e. ''`'' @ e @ ''`'') (get_or [] (j_errors c)))
      else ''ok'')"

definition os_labels :: "column list \<Rightarrow> string list" where
  "os_labels cs = remdups (map (\<lambda>c. the (j_os_label c)) (filter (\<lambda>c. truthy (j_os_label c)) cs))"

definition counts_row :: "matrix \<Rightarrow> bool \<Rightarrow> nat \<Rightarrow> string list" where
  "counts_row m show_os i =
     (let c = m_columns m ! i
      in [md_escape (label c)] @ (if show_os then [get_or [] (j_os_label c)] else []) @
         (if status c = ''ok'' then map (\<lambda>k. str_nat (counts m i k)) [PASS, FAIL, SKIP]
          else replicate 3 ''&mdash;'') @ [md_escape (status_note c)])"

definition render_markdown :: "matrix \<Rightarrow> string \<Rightarrow> nat \<Rightarrow> string" where
  "render_markdown m protocol max_rows =
     (let shown = display_labels (m_columns m);
          show_os = length (os_labels (m_columns m)) > 1;
          header = [''Column''] @ (if show_os then [''OS''] else []) @ [''Pass'', ''Fail'', ''Skip'', ''Status''];
          missing = filter (\<lambda>c. status c \<noteq> ''ok'') (m_columns m);
          headers = [''Check''] @ map (\<lambda>i. md_escape (shown ! i)) (compared m) @ [''Rule''];
          sec = md_section m headers max_rows;
          by_column = unique_failures_by_column m;
          unique_keys = concat (map (\<lambda>(_, rs). map w_key rs) by_column);
          shared = shared_failures m;
          skipped = all_skipped m
      in join nl (
        [''## '' @ protocol, []] @
        md_table header (map (counts_row m show_os) [0..<length (m_columns m)]) @ [[]] @
        (if missing = [] then []
         else [''> '' @ str_nat (length missing) @ '' of '' @ str_nat (length (m_columns m)) @
                '' implementations produced no results, so every row below compares only the rest.'', []]) @
        concat (map (\<lambda>(index, rs).
          let name = label (m_columns m ! index)
          in sec (''Failures unique to '' @ name) rs
               (''Checks '' @ name @ '' fails, on every platform it ran on, that every '' @
                ''other implementation here passes.'')) by_column) @
        sec ''Failures shared by every implementation'' shared
          (''Four independent implementations agreeing on a failure usually means '' @
           ''the check asserts more than the clause requires, or the mock is '' @
           ''wrong. Questions about the suite before questions about the libraries.'') @
        sec ''Where the implementations disagree''
          (filter (\<lambda>r. w_key r \<notin> set unique_keys \<and> r \<notin> set shared) (disagreements m)) [] @
        (if skipped = [] then []
         else [''### Skipped everywhere ('' @ str_nat (length skipped) @ '')'', [],
               ''A skipped check is not a passing one. These are the ones to watch: '' @
               ''the ones that stay skipped run after run are how a gap in coverage '' @
               ''hides in plain sight.'', []] @
              md_table headers (outcome_rows m (take max_rows skipped)) @ [[]]) @
        [''<details><summary>Full matrix ('' @ str_nat (length (m_rows m)) @ '' checks)</summary>'', []] @
        concat (map (\<lambda>(script, rs).
          [''**'' @ or_else (md_escape script) ''checks'' @ ''**'', []] @
          md_table headers (outcome_rows m rs) @ [[]]) (by_script m)) @
        [''</details>'', []]))"

section \<open>Lemmas\<close>

definition example_result :: "string \<Rightarrow> string \<Rightarrow> rdict" where
  \<comment> \<open>used by the examples below\<close>
  "example_result key outcome =
     \<lparr>d_name = key, d_outcome = outcome, d_detail = None, d_duration = None, d_rule = None,
      d_source = None, d_key = Some key\<rparr>"

definition example_columns :: "column list" where
  "example_columns =
     [empty_column\<lparr>j_label := Some ''alpha'', j_results := Some [example_result ''a: x'' PASS]\<rparr>,
      empty_column\<lparr>j_label := Some ''beta'', j_results := Some [example_result ''a: x'' FAIL]\<rparr>,
      empty_column\<lparr>j_label := Some ''gamma'', j_status := Some ''errored''\<rparr>]"

interpretation script_groups: grouped_dict "[]" dict_get dict_set dict_keys group_of add_to_group
  by unfold_locales (simp add: add_to_group_def get_or_def)

lemma make_row_sel:
  "w_key (make_row lk cmp r) = result_key r"
  "w_cells (make_row lk cmp r) = map (\<lambda>l. dict_get l (result_key r)) lk"
  "w_compared (make_row lk cmp r) = cmp"
  by (simp_all add: make_row_def Let_def split: prod.split)

lemma build_rows_keys:
  "first_seen acc (map result_key rs) = acc @ map w_key (build_rows lk cmp (set acc) rs)"
proof (induction rs arbitrary: acc)
  case (Cons r rs)
  show ?case
  proof (cases "result_key r \<in> set acc")
    case True
    with Cons show ?thesis by simp
  next
    case False
    with Cons[of "acc @ [result_key r]"] show ?thesis by (simp add: make_row_sel insert_commute)
  qed
qed simp

lemma build_rows_from:
  "w \<in> set (build_rows lk cmp seen rs) \<Longrightarrow> \<exists>r\<in>set rs. w = make_row lk cmp r"
  by (induction lk cmp seen rs rule: build_rows.induct) (auto split: if_splits)

lemma build_keys:
  "map w_key (m_rows (build columns)) = first_seen [] (map result_key (concat (map column_results columns)))"
  using build_rows_keys[of "[]"] by (simp add: build_def Let_def)

lemma build_row:
  assumes "w \<in> set (m_rows (build columns))"
  shows "w_cells w = map (\<lambda>c. dict_get (lookup_of c) (w_key w)) columns"
    and "w_compared w = compared (build columns)"
  using assms by (auto simp: build_def Let_def compared_def make_row_sel dest!: build_rows_from)

lemma lookup_of_get:
  "dict_get (lookup_of c) k = map_of (rev (map (\<lambda>r. (result_key r, r)) (column_results c))) k"
  by (simp add: lookup_of_def dict_get_of)

lemma lookup_of_Some:
  "dict_get (lookup_of c) k = Some r \<Longrightarrow> r \<in> set (column_results c) \<and> result_key r = k"
  by (auto simp: lookup_of_get dest!: map_of_SomeD)

lemma lookup_of_None:
  "dict_get (lookup_of c) k = None \<longleftrightarrow> (\<forall>r\<in>set (column_results c). result_key r \<noteq> k)"
  by (simp add: lookup_of_get map_of_eq_None_iff image_image) blast

lemma m_columns_build [simp]: "m_columns (build columns) = columns"
  by (simp add: build_def Let_def)

lemma set_compared_build:
  "i \<in> set (compared (build columns)) \<longleftrightarrow> i < length columns \<and> status (columns ! i) = ''ok''"
  by (auto simp: compared_def)

lemma remdups_gt_1: "length (remdups xs) > 1 \<longleftrightarrow> (\<exists>a\<in>set xs. \<exists>b\<in>set xs. a \<noteq> b)"
proof -
  have "length (remdups xs) = card (set xs)" by (simp add: length_remdups_card_conv)
  moreover have "card (set xs) > 1 \<longleftrightarrow> (\<exists>a\<in>set xs. \<exists>b\<in>set xs. a \<noteq> b)"
    using card_le_Suc0_iff_eq[of "set xs"] by (auto simp: not_le[symmetric])
  ultimately show ?thesis by simp
qed

lemma differs_iff:
  "differs w \<longleftrightarrow> (\<exists>i\<in>set (w_compared w). \<exists>j\<in>set (w_compared w). outcomes w ! i \<noteq> outcomes w ! j)"
  unfolding differs_def remdups_gt_1 by (simp add: compared_outcomes_def)

lemma merge_step_results:
  "column_results (merge_step rep m) =
     column_results m @ map (merge_entry (get_or ''?'' (j_script rep))) (column_results rep)"
  by (simp add: merge_step_def Let_def column_results_def get_or_def split: option.split elapsed.split)

lemma fold_merge_results:
  "column_results (fold merge_step reps m) = column_results m @
     concat (map (\<lambda>rep. map (merge_entry (get_or ''?'' (j_script rep))) (column_results rep)) reps)"
  by (induction reps arbitrary: m) (simp_all add: merge_step_results)

lemma merge_results:
  "column_results (merge reps lab) =
     concat (map (\<lambda>rep. map (merge_entry (get_or ''?'' (j_script rep))) (column_results rep)) reps)"
  by (simp add: merge_def fold_merge_results) (simp add: column_results_def get_or_def)

lemma cut_script:
  assumes "\<not> contains '': '' s"
  shows "cut '': '' (s @ '': '' @ k) = Some (s, k)"
  using assms
proof (induction s)
  case (Cons c s)
  have "\<not> contains '': '' s" using Cons.prems by (auto simp: contains_def sublist_Cons_right)
  moreover have "\<not> prefix '': '' (c # s @ '': '' @ k)"
    using Cons.prems by (cases s) (auto simp: contains_def)
  ultimately show ?case using Cons.IH by simp
qed simp

lemma merge_entry_key: "result_key (merge_entry s r) = s @ '': '' @ result_key r"
  by (simp add: merge_entry_def result_key_def get_or_def)

lemma all_skipped_iff:
  "row_all_skipped w \<longleftrightarrow> w_compared w \<noteq> [] \<and> (\<forall>i\<in>set (w_compared w). outcomes w ! i = SKIP)"
  by (cases "w_compared w") (auto simp: row_all_skipped_def compared_outcomes_def)

section \<open>Properties\<close>

text \<open>C4: the matrix is the full outer join of its columns on the stable key. Every key some column
  has a result for gets exactly one row, in the order in which the keys first appear when the
  columns are read left to right; a row has one cell per column; a cell is empty exactly when
  that column has no result of that key, and otherwise holds a result of that column and key.\<close>

theorem build_is_outer_join:
  "map w_key (m_rows (build columns)) =
      first_seen [] (map result_key (concat (map column_results columns))) \<and>
   distinct (map w_key (m_rows (build columns))) \<and>
   (\<forall>w\<in>set (m_rows (build columns)). length (w_cells w) = length columns \<and>
      (\<forall>i<length columns. case w_cells w ! i of
          None \<Rightarrow> \<forall>r\<in>set (column_results (columns ! i)). result_key r \<noteq> w_key w
        | Some r \<Rightarrow> r \<in> set (column_results (columns ! i)) \<and> result_key r = w_key w))"
proof (intro conjI ballI allI impI)
  fix w i assume w: "w \<in> set (m_rows (build columns))" and i: "i < length columns"
  have "w_cells w ! i = dict_get (lookup_of (columns ! i)) (w_key w)"
    using i by (simp add: build_row(1)[OF w])
  then show "case w_cells w ! i of
          None \<Rightarrow> \<forall>r\<in>set (column_results (columns ! i)). result_key r \<noteq> w_key w
        | Some r \<Rightarrow> r \<in> set (column_results (columns ! i)) \<and> result_key r = w_key w"
    using lookup_of_None lookup_of_Some by (auto split: option.split)
qed (simp_all add: build_keys distinct_first_seen build_row(1))

theorem build_is_outer_join_witness:
  "\<exists>w\<in>set (m_rows (build example_columns)). w_key w = ''a: x'' \<and> length (w_cells w) = 3 \<and> w_cells w ! 2 = None"
proof -
  let ?w = "hd (m_rows (build example_columns))"
  have "?w \<in> set (m_rows (build example_columns))" "w_key ?w = ''a: x''" "w_cells ?w ! 2 = None"
    "length example_columns = 3" by code_simp+
  with build_is_outer_join[of example_columns] show ?thesis by metis
qed

text \<open>C5: a column that did not run cannot make a row look like a disagreement. A row differs
  exactly when two columns whose status is ok show different outcomes for it, an absent result
  in an ok column counting as an outcome of its own.\<close>

theorem differs_only_between_ok_columns:
  assumes "w \<in> set (m_rows (build columns))"
  shows "differs w \<longleftrightarrow>
    (\<exists>i<length columns. \<exists>j<length columns. status (columns ! i) = ''ok'' \<and> status (columns ! j) = ''ok'' \<and>
       cell_outcome (dict_get (lookup_of (columns ! i)) (w_key w)) \<noteq>
       cell_outcome (dict_get (lookup_of (columns ! j)) (w_key w)))"
proof -
  have out: "outcomes w ! i = cell_outcome (dict_get (lookup_of (columns ! i)) (w_key w))"
    if "i < length columns" for i
    using that by (simp add: outcomes_def build_row(1)[OF assms])
  have "differs w \<longleftrightarrow>
      (\<exists>i<length columns. status (columns ! i) = ''ok'' \<and>
        (\<exists>j<length columns. status (columns ! j) = ''ok'' \<and> outcomes w ! i \<noteq> outcomes w ! j))"
    unfolding differs_iff build_row(2)[OF assms] Bex_def set_compared_build by blast
  then show ?thesis by (simp add: out cong: conj_cong) blast
qed

theorem differs_only_between_ok_columns_witness: "differs (hd (m_rows (build example_columns)))"
proof -
  have "hd (m_rows (build example_columns)) \<in> set (m_rows (build example_columns))" by code_simp
  from differs_only_between_ok_columns[OF this] show ?thesis
    by (rule iffD2) (rule exI[of _ 0], code_simp)
qed

text \<open>The lists the page is made of do not overlap. A check that one implementation alone fails
  is listed for that column and no other, and it is a disagreement; a failure all share and a
  check all skipped are not disagreements, and no check is in both of those lists.\<close>

theorem standout_lists_disjoint:
  assumes "w \<in> set (m_rows (build columns))"
  shows "(i \<in> set (compared (build columns)) \<and> j \<in> set (compared (build columns)) \<and> i \<noteq> j \<and>
            w \<in> set (unique_to (build columns) i) \<longrightarrow> w \<notin> set (unique_to (build columns) j) \<and> differs w) \<and>
         (w \<in> set (shared_failures (build columns)) \<longrightarrow> \<not> differs w \<and> w \<notin> set (all_skipped (build columns))) \<and>
         (w \<in> set (all_skipped (build columns)) \<longrightarrow> \<not> differs w)"
proof (intro conjI impI)
  let ?m = "build columns"
  have cmp: "w_compared w = compared ?m" by (rule build_row(2)[OF assms])
  assume h: "i \<in> set (compared ?m) \<and> j \<in> set (compared ?m) \<and> i \<noteq> j \<and> w \<in> set (unique_to ?m i)"
  then have fi: "outcomes w ! i = FAIL" and pj: "outcomes w ! j = PASS"
    by (auto simp: unique_to_def list_all_iff)
  then show "w \<notin> set (unique_to ?m j)" by (simp add: unique_to_def)
  show "differs w" unfolding differs_iff cmp
  proof (intro bexI)
    show "outcomes w ! i \<noteq> outcomes w ! j" using fi pj by simp
  qed (use h in auto)
next
  let ?m = "build columns"
  have cmp: "w_compared w = compared ?m" by (rule build_row(2)[OF assms])
  assume "w \<in> set (shared_failures ?m)"
  then have two: "length (compared ?m) \<ge> 2" and f: "\<forall>i\<in>set (compared ?m). outcomes w ! i = FAIL"
    by (auto simp: shared_failures_def list_all_iff split: if_splits)
  show "\<not> differs w" unfolding differs_iff cmp using f by simp
  have "compared ?m \<noteq> []" using two by auto
  then obtain k where "k \<in> set (compared ?m)" by (meson list.set_sel(1))
  then show "w \<notin> set (all_skipped ?m)" using f by (auto simp: all_skipped_def all_skipped_iff cmp)
next
  assume "w \<in> set (all_skipped (build columns))"
  then show "\<not> differs w" by (auto simp: all_skipped_def all_skipped_iff differs_iff)
qed

theorem standout_lists_disjoint_witness:
  "hd (m_rows (build example_columns)) \<notin> set (unique_to (build example_columns) 0)"
proof -
  have "hd (m_rows (build example_columns)) \<in> set (m_rows (build example_columns))" by code_simp
  note t = standout_lists_disjoint[OF this, of 1 0]
  have "1 \<in> set (compared (build example_columns)) \<and> 0 \<in> set (compared (build example_columns)) \<and>
      (1::nat) \<noteq> 0 \<and> hd (m_rows (build example_columns)) \<in> set (unique_to (build example_columns) 1)"
    by code_simp
  with t show ?thesis by blast
qed

text \<open>Grouping the rows by file loses and reorders nothing within a file. The groups are the files
  in the order of their first row, each with exactly the rows of that file in matrix order.\<close>

lemma by_script_groups:
  "by_script m = map (\<lambda>k. (k, filter (\<lambda>w. group_of w = k) (m_rows m)))
     (first_seen [] (map group_of (m_rows m)))"
proof -
  let ?ks = "first_seen [] (map group_of (m_rows m))"
  have keys: "dict_keys (by_script m) = ?ks"
    unfolding by_script_def script_groups.keys_group by (simp add: alist_dict.keys_empty)
  have get: "the (dict_get (by_script m) k) = filter (\<lambda>w. group_of w = k) (m_rows m)"
    if "k \<in> set ?ks" for k
  proof -
    have "filter (\<lambda>w. group_of w = k) (m_rows m) \<noteq> []"
      using that by (auto simp: filter_empty_conv)
    then show ?thesis unfolding by_script_def script_groups.get_group by simp
  qed
  have "by_script m = map (\<lambda>k. (k, the (dict_get (by_script m) k))) ?ks"
    using dict_eq_keys_get[of "by_script m"] by (simp add: keys distinct_first_seen)
  also have "\<dots> = map (\<lambda>k. (k, filter (\<lambda>w. group_of w = k) (m_rows m))) ?ks"
    using get by (intro map_cong) auto
  finally show ?thesis .
qed

text \<open>Folding scripts into a column keeps every result, and keeps results of different scripts
  apart. The merged column has each report's results in order, outcomes and all; and two of
  its results share a key only if they came from the same script under the same key, provided
  script names do not contain the separator. The row label recovers the original key.\<close>

theorem merge_keeps_results_apart:
  assumes "\<not> contains '': '' s" and "\<not> contains '': '' t"
  shows "map d_outcome (column_results (merge reps lab)) =
           concat (map (\<lambda>rep. map d_outcome (column_results rep)) reps) \<and>
         (result_key (merge_entry s a) = result_key (merge_entry t b) \<longleftrightarrow> s = t \<and> result_key a = result_key b) \<and>
         (result_key a \<noteq> [] \<longrightarrow> row_label (make_row lk cmp (merge_entry s a)) = result_key a)"
proof (intro conjI)
  show "map d_outcome (column_results (merge reps lab)) =
      concat (map (\<lambda>rep. map d_outcome (column_results rep)) reps)"
    by (simp add: merge_results map_concat comp_def merge_entry_def)
  show "result_key (merge_entry s a) = result_key (merge_entry t b) \<longleftrightarrow> s = t \<and> result_key a = result_key b"
    using cut_script[OF assms(1), of "result_key a"] cut_script[OF assms(2), of "result_key b"]
    unfolding merge_entry_key by (metis option.inject prod.inject)
  show "result_key a \<noteq> [] \<longrightarrow> row_label (make_row lk cmp (merge_entry s a)) = result_key a"
    using cut_script[OF assms(1), of "result_key a"]
    by (simp add: row_label_def make_row_sel merge_entry_key partition3_def or_else_def Let_def)
qed

theorem merge_keeps_results_apart_witness:
  "result_key (merge_entry ''hislip'' (example_result ''x'' PASS)) \<noteq>
   result_key (merge_entry ''vxi11'' (example_result ''x'' PASS))"
proof -
  have "\<not> contains '': '' ''hislip''" "\<not> contains '': '' ''vxi11''" by code_simp+
  from merge_keeps_results_apart[OF this, of "[]" "[]" "example_result ''x'' PASS" "example_result ''x'' PASS"]
  show ?thesis by simp
qed

text \<open>A cell of a Markdown table cannot break the table it is put in: escaped text holds no
  newline, and every vertical bar in it stands right after a backslash.\<close>

theorem md_escape_safe:
  "CHR 0x0A \<notin> set (md_escape text) \<and>
   (\<forall>u v. md_escape text = u @ ''|'' @ v \<longrightarrow> u \<noteq> [] \<and> last u = backslash)"
proof
  let ?e = "replace nl '' '' (replace ''|'' [backslash, CHR ''|''] text)"
  have no_nl: "CHR 0x0A \<notin> set ?e" by (auto simp: replace_single)
  then show "CHR 0x0A \<notin> set (md_escape text)"
    using set_strip[of ?e] by (auto simp: md_escape_def)
  have bar: "\<forall>u v. replace nl '' '' (replace ''|'' [backslash, CHR ''|''] s) = u @ ''|'' @ v \<longrightarrow>
      u \<noteq> [] \<and> last u = backslash" for s
  proof (induction s)
    case (Cons c s)
    show ?case
      using Cons by (auto simp: replace_single_Cons append_eq_Cons_conv Cons_eq_append_conv split: if_splits)
  qed simp
  obtain p q where pq: "?e = p @ md_escape text @ q" and p: "\<forall>c\<in>set p. is_space c"
    using strip_parts[of ?e] unfolding md_escape_def by blast
  show "\<forall>u v. md_escape text = u @ ''|'' @ v \<longrightarrow> u \<noteq> [] \<and> last u = backslash"
  proof (intro allI impI)
    fix u v assume "md_escape text = u @ ''|'' @ v"
    then have "?e = (p @ u) @ ''|'' @ (v @ q)" using pq by simp
    then have b: "p @ u \<noteq> []" "last (p @ u) = backslash" using bar by blast+
    have "u \<noteq> []"
    proof
      assume "u = []"
      then have "backslash \<in> set p" using b by (metis append_Nil2 last_in_set)
      then have "is_space backslash" using p by blast
      then show False by (simp add: is_space_def)
    qed
    then show "u \<noteq> [] \<and> last u = backslash" using b by simp
  qed
qed

theorem md_escape_safe_witness:
  "CHR 0x0A \<notin> set (md_escape (''a|b'' @ nl)) \<and> last [CHR ''a'', backslash] = backslash"
proof -
  have "md_escape (''a|b'' @ nl) = [CHR ''a'', backslash] @ ''|'' @ ''b''" by code_simp
  with md_escape_safe[of "''a|b'' @ nl"] show ?thesis by blast
qed

end
