(* ===== verification/Backends.thy ===== *)
theory Backends
  imports Prelude
begin

text \<open>
  \<^verbatim>\<open>testgear/backends.py\<close>: which VISA implementations exist, which of them this machine can load,
  and where the one under test came from. The machine is the parameter \<open>machine\<close>: its
  platform, which files exist, which packages import, what git answers. \<open>resolve\<close> reports
  rather than raises; \<open>use_pyvisa_py_tree\<close> changes the interpreter's path and environment,
  which are passed in and returned; \<open>provenance\<close> and \<open>git_commit\<close> build the block that names the
  implementation. Paths are posix paths.
\<close>

section \<open>Backends\<close>

record backend_spec =
  b_id :: string
  b_name :: string
  b_locator :: "string option"
  b_candidates :: "string list"
  b_source :: string
  b_networked :: bool

definition paths :: "string \<Rightarrow> string list \<Rightarrow> string list \<Rightarrow> string list \<Rightarrow> string list" where
  "paths system darwin linux windows =
     (if system = ''Darwin'' then darwin else if system = ''Linux'' then linux
      else if system = ''Windows'' then windows else [])"

definition win :: "string \<Rightarrow> string" where
  \<comment> \<open>a file of the Windows system directory\<close>
  "win f = ''C:'' @ [backslash] @ ''Windows'' @ [backslash] @ ''System32'' @ [backslash] @ f"

definition BACKENDS :: "string \<Rightarrow> (string, backend_spec) dict" where
  "BACKENDS system =
    [(''py'', \<lparr>b_id = ''py'', b_name = ''PyVISA-py'', b_locator = Some ''@py'', b_candidates = [],
        b_source = ''pip install pyvisa-py'', b_networked = True\<rparr>),
     (''ni'', \<lparr>b_id = ''ni'', b_name = ''NI-VISA'', b_locator = None,
        b_candidates = paths system [''/Library/Frameworks/VISA.framework/VISA'']
          [''/usr/lib/x86_64-linux-gnu/libvisa.so'', ''/usr/local/vxipnp/linux/lib64/libvisa.so'',
           ''/usr/lib/libvisa.so''] [win ''visa64.dll'', win ''nivisa64.dll''],
        b_source = ''https://www.ni.com/en/support/downloads/drivers/download.ni-visa.html'',
        b_networked = True\<rparr>),
     (''rs'', \<lparr>b_id = ''rs'', b_name = ''R&S VISA'', b_locator = None,
        b_candidates = paths system [''/Library/Frameworks/RsVisa.framework/RsVisa'']
          [''/usr/lib/librsvisa.so'', ''/usr/local/lib/librsvisa.so''] [win ''RsVisa32.dll''],
        b_source = ''https://www.rohde-schwarz.com/applications/r-s-visa-application-note_56280-148812.html'',
        b_networked = True\<rparr>),
     (''keysight'', \<lparr>b_id = ''keysight'', b_name = ''Keysight IO Libraries'', b_locator = None,
        b_candidates = paths system []
          [''/opt/keysight/iolibs/libktvisa32.so'', ''/usr/lib/libktvisa32.so''] [win ''ktvisa32.dll''],
        b_source = ''https://www.keysight.com/find/iosuite (Windows and Linux only)'',
        b_networked = True\<rparr>),
     (''tek'', \<lparr>b_id = ''tek'', b_name = ''TekVISA'', b_locator = None,
        b_candidates = paths system [] [] [win ''visa32.dll''],
        b_source = ''https://www.tek.com/en/support/software/driver/tekvisa-connectivity-software-v411 (Windows only)'',
        b_networked = True\<rparr>),
     (''sim'', \<lparr>b_id = ''sim'', b_name = ''PyVISA-sim'', b_locator = Some ''@sim'', b_candidates = [],
        b_source = ''pip install pyvisa-sim'', b_networked = False\<rparr>)]"

text \<open>What git did: it ran, or it could not be run or timed out.\<close>

datatype git_end = Ran int string | GitFailed string

record machine =
  mc_system :: string                           \<comment> \<open>\<^verbatim>\<open>platform.system()\<close>\<close>
  mc_release :: string
  mc_python :: string
  mc_exists :: "string \<Rightarrow> bool"
  mc_import :: "string \<Rightarrow> string option"        \<comment> \<open>\<open>None\<close>: imports; else the ImportError\<close>
  mc_pyvisa :: string                           \<comment> \<open>\<^verbatim>\<open>pyvisa.__version__\<close>\<close>
  mc_pyvisa_py :: "string \<times> string \<times> string"   \<comment> \<open>package directory, its parent, version\<close>
  mc_git :: "string list \<Rightarrow> git_end"

record resolved =
  rv_spec :: backend_spec
  rv_locator :: "string option"
  rv_available :: bool
  rv_reason :: string

definition resource_manager :: "resolved \<Rightarrow> py_error + string" where
  \<comment> \<open>the locator pyvisa is asked to load\<close>
  "resource_manager r =
     (if rv_available r then Inr (case rv_locator r of None \<Rightarrow> [] | Some l \<Rightarrow> l)
      else Inl (RuntimeError (b_name (rv_spec r) @ '' is not available here: '' @ rv_reason r)))"

definition path_name :: "string \<Rightarrow> string" where
  \<comment> \<open>\<^verbatim>\<open>Path(p).name\<close>\<close>
  "path_name p = (case filter (\<lambda>c. c \<noteq> [] \<and> c \<noteq> ''.'') (split_on ''/'' p) of [] \<Rightarrow> [] | cs \<Rightarrow> last cs)"

definition is_library_path :: "string \<Rightarrow> bool" where
  "is_library_path s \<longleftrightarrow> CHR ''/'' \<in> set s \<or> backslash \<in> set s \<or> endswith s ''.so'' \<or> endswith s ''.dll''"

definition module_of :: "string \<Rightarrow> string" where
  "module_of locator = (if locator = ''@py'' then ''pyvisa_py'' else ''pyvisa_sim'')"

definition resolve_spec :: "machine \<Rightarrow> backend_spec \<Rightarrow> resolved" where
  "resolve_spec mc spec =
     (let found = (\<lambda>l. \<lparr>rv_spec = spec, rv_locator = Some l, rv_available = True, rv_reason = []\<rparr>);
          missing = (\<lambda>why. \<lparr>rv_spec = spec, rv_locator = None, rv_available = False, rv_reason = why\<rparr>)
      in case b_locator spec of
           Some l \<Rightarrow>
             (case mc_import mc (module_of l) of
                Some e \<Rightarrow> missing (module_of l @ '' is not importable ('' @ e @ '')'')
              | None \<Rightarrow> found l)
         | None \<Rightarrow>
             if b_candidates spec = []
             then missing (''no '' @ b_name spec @ '' build exists for '' @ mc_system mc)
             else case filter (mc_exists mc) (b_candidates spec) of
                    c # _ \<Rightarrow> found c
                  | [] \<Rightarrow> missing (''not installed (looked in '' @ join '', '' (b_candidates spec) @ '')''))"

definition resolve :: "machine \<Rightarrow> string \<Rightarrow> py_error + resolved" where
  "resolve mc spec_id =
     (if is_library_path spec_id then
        (let spec = \<lparr>b_id = path_name spec_id, b_name = ''VISA at '' @ spec_id, b_locator = Some spec_id,
                     b_candidates = [], b_source = [], b_networked = True\<rparr>
         in Inr (if \<not> mc_exists mc spec_id
                 then \<lparr>rv_spec = spec, rv_locator = None, rv_available = False,
                       rv_reason = ''no such file: '' @ spec_id\<rparr>
                 else \<lparr>rv_spec = spec, rv_locator = Some spec_id, rv_available = True, rv_reason = []\<rparr>))
      else case dict_get (BACKENDS (mc_system mc)) spec_id of
             None \<Rightarrow> Inl (KeyError (''unknown backend '' @ py_repr spec_id @ ''; known ids are '' @
                       join '', '' (dict_keys (BACKENDS (mc_system mc)))))
           | Some spec \<Rightarrow> Inr (resolve_spec mc spec))"

fun resolve_all :: "machine \<Rightarrow> string list \<Rightarrow> py_error + resolved list" where
  "resolve_all mc [] = Inr []"
| "resolve_all mc (s # ss) =
     (case resolve mc s of
        Inl e \<Rightarrow> Inl e
      | Inr r \<Rightarrow> (case resolve_all mc ss of Inl e \<Rightarrow> Inl e | Inr rs \<Rightarrow> Inr (r # rs)))"

definition available_ids :: "machine \<Rightarrow> string list" where
  "available_ids mc =
     filter (\<lambda>i. case resolve mc i of Inr r \<Rightarrow> rv_available r | Inl _ \<Rightarrow> False)
       (dict_keys (BACKENDS (mc_system mc)))"

section \<open>Choosing a tree\<close>

record interp =
  in_sys_path :: "string list"
  in_pythonpath :: "string option"
  in_loaded :: "string option"     \<comment> \<open>the tree \<^verbatim>\<open>pyvisa_py\<close> was imported from, if it was\<close>

text \<open>\<open>path\<close> is the tree's path, user directory expanded and links resolved.\<close>

definition use_pyvisa_py_tree :: "(string \<Rightarrow> bool) \<Rightarrow> string \<Rightarrow> interp \<Rightarrow> py_error + interp" where
  "use_pyvisa_py_tree exists0 path st =
     (if \<not> exists0 path then Inl (TreeError (''no such pyvisa-py tree: '' @ path))
      else if \<not> exists0 (path @ ''/pyvisa_py/__init__.py'') then
        Inl (TreeError (path @ '' does not look like a pyvisa-py checkout '' @
               ''(no pyvisa_py/__init__.py in it)''))
      else if in_loaded st \<noteq> None \<and> in_loaded st \<noteq> Some path then
        Inl (TreeError (''pyvisa_py was already imported from '' @ the (in_loaded st) @ '', so switching '' @
               ''to '' @ path @ '' would have no effect. Name the tree before any '' @ ''import of it.''))
      else Inr (st\<lparr>in_sys_path := path # in_sys_path st,
                   in_pythonpath := Some (case in_pythonpath st of
                       None \<Rightarrow> path
                     | Some e \<Rightarrow> if e = [] then path else path @ '':'' @ e)\<rparr>))"

definition pyvisa_py_tree_note :: "string option \<Rightarrow> string option \<Rightarrow> string option" where
  "pyvisa_py_tree_note chosen pythonpath =
     (if chosen \<noteq> None then None
      else case pythonpath of
             None \<Rightarrow> None
           | Some p \<Rightarrow>
               if p = [] then None
               else Some (''PYTHONPATH is set, which takes precedence over any install: '' @ p))"

section \<open>Provenance\<close>

definition git :: "machine \<Rightarrow> string \<Rightarrow> string list \<Rightarrow> int \<times> string" where
  "git mc tree args =
     (case mc_git mc ([''git'', ''-C'', tree] @ args) of
        GitFailed e \<Rightarrow> (1, ''(git failed: '' @ e @ '')'')
      | Ran rc out \<Rightarrow> (rc, strip out))"

definition git_commit :: "machine \<Rightarrow> string \<Rightarrow> (string, string) dict" where
  "git_commit mc tree =
     (let (rc, sha) = git mc tree [''rev-parse'', ''HEAD'']
      in if rc \<noteq> 0
         then [(''pyvisa-py commit'', if startswith sha ''('' then sha else ''(not a git checkout)'')]
         else
           (let (rc2, changes) = git mc tree [''status'', ''--porcelain''];
                dirty = (rc2 = 0 \<and> changes \<noteq> []);
                (rc3, branch) = git mc tree [''rev-parse'', ''--abbrev-ref'', ''HEAD''];
                where0 = (if rc3 = 0 \<and> branch \<noteq> [] \<and> branch \<noteq> ''HEAD'' then branch else ''a detached HEAD'');
                (rc4, described) = git mc tree [''describe'', ''--tags'', ''--abbrev=0''];
                text = (if rc4 = 0 \<and> described \<noteq> [] then
                          (let (rc5, count) = git mc tree [''rev-list'', ''--count'', described @ ''..HEAD''];
                               ahead = (if rc5 = 0 \<and> count \<noteq> ''0''
                                        then '', +'' @ count @ '' commit'' @ (if count = ''1'' then [] else ''s'')
                                        else [])
                           in described @ ahead @ '', on '' @ where0)
                        else ''no tag reachable, on '' @ where0)
            in [(''pyvisa-py commit'', if dirty then sha @ ''-dirty'' else sha),
                (''pyvisa-py described'', if dirty then text @ '' (uncommitted changes)'' else text)]))"

definition pyvisa_version :: "machine \<Rightarrow> string" where
  "pyvisa_version mc =
     (case mc_import mc ''pyvisa'' of
        Some e \<Rightarrow> ''not importable ('' @ e @ '')''
      | None \<Rightarrow> mc_pyvisa mc)"

definition provenance :: "machine \<Rightarrow> resolved \<Rightarrow> (string, string) dict" where
  "provenance mc r =
     (let info = [(''backend'', b_name (rv_spec r)),
                  (''locator'', case rv_locator r of
                                  None \<Rightarrow> ''(unavailable)''
                                | Some l \<Rightarrow> if l = [] then ''(unavailable)'' else l),
                  (''pyvisa'', pyvisa_version mc), (''python'', mc_python mc),
                  (''platform'', mc_system mc @ '' '' @ mc_release mc)]
      in if rv_locator r = Some ''@py'' \<and> mc_import mc ''pyvisa_py'' = None then
           (let (path, tree, version) = mc_pyvisa_py mc
            in dict_set ''pyvisa-py version''
                 (version @ '' (installed metadata, '' @ ''not necessarily this tree)'')
                 (dict_update (dict_set ''pyvisa-py path'' path info) (git_commit mc tree)))
         else info)"

definition describe_environment :: "machine \<Rightarrow> resolved \<Rightarrow> string" where
  "describe_environment mc r =
     join nl (map (\<lambda>(k, v). ''  '' @ k @ '': '' @ v) (provenance mc r))"

section \<open>Lemmas\<close>

lemma BACKENDS_keys: "dict_keys (BACKENDS system) = [''py'', ''ni'', ''rs'', ''keysight'', ''tek'', ''sim'']"
  by (simp add: BACKENDS_def dict_keys_def)

lemma BACKENDS_locator:
  "dict_get (BACKENDS system) i = Some spec \<Longrightarrow> b_locator spec \<in> {None, Some ''@py'', Some ''@sim''}"
  by (auto simp: BACKENDS_def dict_get_def split: if_splits)

lemma BACKENDS_candidates:
  assumes "dict_get (BACKENDS system) i = Some spec"
  shows "[] \<notin> set (b_candidates spec)"
  using assms by (auto simp: BACKENDS_def dict_get_def paths_def win_def split: if_splits)

lemma filter_Cons_mem: "filter p xs = c # cs \<Longrightarrow> c \<in> set xs \<and> p c"
  by (drule arg_cong[where f = set]) auto

text \<open>What can become of a known backend: loaded from a place that is there, or missing with a reason.\<close>

definition outcome_ok :: "machine \<Rightarrow> resolved \<Rightarrow> bool" where
  "outcome_ok mc r \<longleftrightarrow>
     (if rv_available r then
        (\<exists>l. rv_locator r = Some l \<and> l \<noteq> [] \<and> resource_manager r = Inr l \<and>
          ((l = ''@py'' \<or> l = ''@sim'') \<and> mc_import mc (module_of l) = None \<or> mc_exists mc l))
      else rv_locator r = None \<and> rv_reason r \<noteq> [] \<and> (\<exists>m. resource_manager r = Inl (RuntimeError m)))"

lemma resolve_spec_ok:
  assumes "dict_get (BACKENDS system) i = Some spec"
  shows "outcome_ok mc (resolve_spec mc spec)"
proof (cases "b_locator spec")
  case None
  show ?thesis
  proof (cases "filter (mc_exists mc) (b_candidates spec)")
    case Nil
    with None show ?thesis by (simp add: resolve_spec_def outcome_ok_def resource_manager_def)
  next
    case (Cons c cs)
    then have "c \<in> set (b_candidates spec)" "mc_exists mc c" by (auto dest: filter_Cons_mem)
    moreover then have "c \<noteq> []" "b_candidates spec \<noteq> []" using BACKENDS_candidates[OF assms] by auto
    ultimately show ?thesis using None Cons by (simp add: resolve_spec_def outcome_ok_def resource_manager_def)
  qed
next
  case (Some l)
  then have l: "l = ''@py'' \<or> l = ''@sim''" using BACKENDS_locator[OF assms] by auto
  then have "l \<noteq> []" by auto
  with Some l show ?thesis
    by (cases "mc_import mc (module_of l)")
      (simp_all add: resolve_spec_def outcome_ok_def resource_manager_def)
qed

lemma git_commit_fails:
  "git mc tree [''rev-parse'', ''HEAD''] = (rc, sha) \<Longrightarrow> rc \<noteq> 0 \<Longrightarrow>
     \<exists>x. git_commit mc tree = [(''pyvisa-py commit'', ''('' @ x)]"
  by (auto simp: git_commit_def startswith_def prefix_def)

lemma git_commit_works:
  assumes "git mc tree [''rev-parse'', ''HEAD''] = (0, sha)"
    and "git mc tree [''status'', ''--porcelain''] = (rc2, changes)"
  shows "\<exists>text. git_commit mc tree =
    (if rc2 = 0 \<and> changes \<noteq> []
     then [(''pyvisa-py commit'', sha @ ''-dirty''), (''pyvisa-py described'', text @ '' (uncommitted changes)'')]
     else [(''pyvisa-py commit'', sha), (''pyvisa-py described'', text)])"
  by (simp add: git_commit_def assms Let_def split: prod.split)

section \<open>Properties\<close>

text \<open>Asking for a backend reports rather than raises. Only a name that is neither a path nor in the
  table is an error; every other request is answered, and the answer is honest: a backend said to be
  available has a locator that is there (a package that imports or a file that exists) and is
  what the resource manager is built from, and one that is not has a reason and no locator,
  and cannot be opened.\<close>

theorem resolve_reports:
  "case resolve mc i of
     Inl e \<Rightarrow> \<not> is_library_path i \<and> i \<notin> {''py'', ''ni'', ''rs'', ''keysight'', ''tek'', ''sim''}
   | Inr r \<Rightarrow> outcome_ok mc r"
proof (cases "is_library_path i")
  case True
  then have "i \<noteq> []" by (auto simp: is_library_path_def endswith_def)
  with True show ?thesis
    by (cases "mc_exists mc i") (simp_all add: resolve_def outcome_ok_def resource_manager_def Let_def)
next
  case False
  show ?thesis
  proof (cases "dict_get (BACKENDS (mc_system mc)) i")
    case None
    then have "i \<notin> set (dict_keys (BACKENDS (mc_system mc)))"
      by (simp add: dict_get_def dict_keys_def map_of_eq_None_iff)
    with None False show ?thesis by (simp add: resolve_def BACKENDS_keys)
  next
    case (Some spec)
    with False resolve_spec_ok[OF Some] show ?thesis by (simp add: resolve_def)
  qed
qed

text \<open>A tree that was named is the tree under test, or the run does not start. When the switch
  succeeds, the tree exists and is a checkout, it is first on the path of this process and of every
  child, nothing is removed from the path, and no other tree had been imported; otherwise the
  call raises the error for a bad tree.\<close>

theorem tree_is_used_or_refused:
  "case use_pyvisa_py_tree exists0 path st of
     Inl e \<Rightarrow> \<exists>m. e = TreeError m
   | Inr st' \<Rightarrow> exists0 path \<and> exists0 (path @ ''/pyvisa_py/__init__.py'') \<and>
       in_sys_path st' = path # in_sys_path st \<and>
       (\<exists>rest. in_pythonpath st' = Some (path @ rest) \<and>
          (rest = [] \<or> (\<exists>old. in_pythonpath st = Some old \<and> rest = '':'' @ old))) \<and>
       (in_loaded st = None \<or> in_loaded st = Some path)"
  by (auto simp: use_pyvisa_py_tree_def split: option.split)

text \<open>A result can be traced to the commit that produced it. In a git checkout the commit entry is the
  full hash git gave, marked dirty exactly when git reports uncommitted changes, and the entry
  beside it then says so too; outside one the entry says that it is none. The block always
  names the backend and its locator.\<close>

theorem provenance_names_commit:
  assumes "rv_locator r = Some ''@py''" and "mc_import mc ''pyvisa_py'' = None"
    and "mc_pyvisa_py mc = (path, tree, version)"
  shows "dict_get (provenance mc r) ''backend'' = Some (b_name (rv_spec r)) \<and>
    dict_get (provenance mc r) ''locator'' = Some ''@py'' \<and>
    (case git mc tree [''rev-parse'', ''HEAD''] of (rc, sha) \<Rightarrow>
      (case git mc tree [''status'', ''--porcelain''] of (rc2, changes) \<Rightarrow>
        if rc \<noteq> 0 then (\<exists>x. dict_get (provenance mc r) ''pyvisa-py commit'' = Some (''('' @ x))
        else dict_get (provenance mc r) ''pyvisa-py commit'' =
               Some (if rc2 = 0 \<and> changes \<noteq> [] then sha @ ''-dirty'' else sha) \<and>
             (rc2 = 0 \<and> changes \<noteq> [] \<longrightarrow>
               (\<exists>x. dict_get (provenance mc r) ''pyvisa-py described'' = Some (x @ '' (uncommitted changes)'')))))"
proof -
  obtain rc sha where g1: "git mc tree [''rev-parse'', ''HEAD''] = (rc, sha)" by fastforce
  obtain rc2 ch where g2: "git mc tree [''status'', ''--porcelain''] = (rc2, ch)" by fastforce
  have get: "dict_get (provenance mc r) k =
      (if k = ''pyvisa-py version'' then Some (version @ '' (installed metadata, '' @ ''not necessarily this tree)'')
       else case map_of (rev (git_commit mc tree)) k of Some v \<Rightarrow> Some v
         | None \<Rightarrow> if k = ''pyvisa-py path'' then Some path
             else map_of [(''backend'', b_name (rv_spec r)), (''locator'', ''@py''), (''pyvisa'', pyvisa_version mc),
               (''python'', mc_python mc), (''platform'', mc_system mc @ '' '' @ mc_release mc)] k)" for k
    using assms
    by (simp add: provenance_def alist_dict.get_put dict_get_update Let_def cong: option.case_cong)
      (simp add: dict_get_def cong: option.case_cong)
  have tail: "map_of (rev (git_commit mc tree)) k = None"
    if "k \<noteq> ''pyvisa-py commit''" "k \<noteq> ''pyvisa-py described''" for k
    using that git_commit_fails[OF g1] git_commit_works[of mc tree sha, OF _ g2] g1 by (cases "rc = 0") auto
  show ?thesis
  proof (cases "rc = 0")
    case True
    with g1 git_commit_works[of mc tree sha, OF _ g2] obtain said where
      "git_commit mc tree = (if rc2 = 0 \<and> ch \<noteq> []
        then [(''pyvisa-py commit'', sha @ ''-dirty''), (''pyvisa-py described'', said @ '' (uncommitted changes)'')]
        else [(''pyvisa-py commit'', sha), (''pyvisa-py described'', said)])" by auto
    then show ?thesis using True by (simp add: get g1 g2 tail)
  next
    case False
    then obtain x where "git_commit mc tree = [(''pyvisa-py commit'', ''('' @ x)]"
      using git_commit_fails[OF g1] by auto
    then show ?thesis using False by (simp add: get g1 g2 tail)
  qed
qed

theorem provenance_names_commit_witness:
  "\<exists>mc r. rv_locator r = Some ''@py'' \<and> dict_get (provenance mc r) ''pyvisa-py commit'' = Some ''3cc4fe9-dirty''"
proof -
  let ?mc = "\<lparr>mc_system = ''Linux'', mc_release = ''6.1'', mc_python = ''3.12'', mc_exists = (\<lambda>_. False),
    mc_import = (\<lambda>_. None), mc_pyvisa = ''1.14'', mc_pyvisa_py = (''/t/pyvisa_py'', ''/t'', ''0.8''),
    mc_git = (\<lambda>args. if ''--porcelain'' \<in> set args then Ran 0 '' M x.py'' else Ran 0 ''3cc4fe9'')\<rparr>"
  let ?r = "resolve_spec ?mc (the (dict_get (BACKENDS ''Linux'') ''py''))"
  have loc: "rv_locator ?r = Some ''@py''" by code_simp
  have "git ?mc ''/t'' [''rev-parse'', ''HEAD''] = (0, ''3cc4fe9'')"
    "git ?mc ''/t'' [''status'', ''--porcelain''] = (0, ''M x.py'')" by code_simp+
  with provenance_names_commit[of ?r ?mc "''/t/pyvisa_py''" "''/t''" "''0.8''", OF loc]
  have "dict_get (provenance ?mc ?r) ''pyvisa-py commit'' = Some (''3cc4fe9'' @ ''-dirty'')" by simp
  with loc show ?thesis by (intro exI[of _ ?mc] exI[of _ ?r]) simp
qed

end
