(* ===== verification/Legs.thy ===== *)
theory Legs
  imports Aggregate Suite Backends
begin

text \<open>
  The tools that carry results from the legs of a run to the published columns:
  \<^verbatim>\<open>tools/gha_matrix.py\<close> plans the legs, \<^verbatim>\<open>tools/leg_status.py\<close> says what a leg did,
  \<^verbatim>\<open>tools/normalise_reports.py\<close> folds the downloaded artifacts into columns and an index per
  transport, and \<^verbatim>\<open>tools/ci_status.py\<close> computes the verdict.

  A directory is a dictionary from file names to what the files hold. A leg descriptor and a
  leg manifest are the same record, since the manifest is the descriptor updated; it always has
  an id and a backend. An index entry is an \<open>entry\<close>. Reading a file that is not JSON
  raises, as a value of a sum.
\<close>

section \<open>Data\<close>

text \<open>Exit codes: file to column label to script to code. A column's value may be something else
  than a dictionary, which the readers step over.\<close>

datatype column_codes = Codes "(string, int option) dict" | NoCodes

type_synonym exit_codes = "(string, (string, column_codes) dict option) dict"

record leg =
  l_id :: string
  l_backend :: string
  l_runner :: string
  l_runs_on :: string
  l_image :: string
  l_vendor :: bool
  l_full_only :: bool
  l_os_label :: "string option"
  l_order :: "nat option"
  l_label :: "string option"
  l_source :: "string option"
  l_vendor_version :: "string option"
  l_status :: "string option"
  l_reason :: "string option"
  l_flaky :: bool
  l_errors :: "(string \<times> int) list"
  l_exit_codes :: exit_codes
  l_duration :: "rat option"
  l_host :: "string option"
  l_reports :: "string list"

datatype json_file = JReport column | JColumns "column list" | JCodes "(string, column_codes) dict option" | JLeg leg | NotJSON

type_synonym directory = "(string, json_file) dict"

definition stem :: "string \<Rightarrow> string" where
  \<comment> \<open>of a file name that ends in \<^verbatim>\<open>.json\<close>\<close>
  "stem name = take (length name - 5) name"

section \<open>The plan\<close>

definition leg0 :: "string \<Rightarrow> string \<Rightarrow> bool \<Rightarrow> leg" where
  "leg0 i backend vendor = \<lparr>l_id = i, l_backend = backend, l_runner = ''linux'',
     l_runs_on = ''ubuntu-latest'', l_image = backend, l_vendor = vendor, l_full_only = vendor,
     l_os_label = Some ''Linux'', l_order = None, l_label = None, l_source = None,
     l_vendor_version = None, l_status = None, l_reason = None, l_flaky = False, l_errors = [],
     l_exit_codes = [], l_duration = None, l_host = None, l_reports = []\<rparr>"

definition LEGS :: "leg list" where
  "LEGS = [leg0 ''linux-py'' ''py'' False, leg0 ''linux-ni'' ''ni'' True, leg0 ''linux-rs'' ''rs'' True,
     leg0 ''linux-keysight'' ''keysight'' True]"

fun plan_from :: "string \<Rightarrow> string \<Rightarrow> (nat \<times> leg) list \<Rightarrow> py_error + leg list" where
  "plan_from system run_type [] = Inr []"
| "plan_from system run_type ((order, l) # ls) =
     (if run_type \<noteq> ''full'' \<and> l_full_only l then plan_from system run_type ls
      else case dict_get (BACKENDS system) (l_backend l) of
             None \<Rightarrow> Inl (KeyError (l_backend l))
           | Some spec \<Rightarrow>
               (case plan_from system run_type ls of
                  Inl e \<Rightarrow> Inl e
                | Inr rest \<Rightarrow>
                    Inr (l\<lparr>l_order := Some order, l_label := Some (b_name spec),
                           l_source := Some (b_source spec)\<rparr> # rest)))"

definition plan :: "string \<Rightarrow> string \<Rightarrow> py_error + leg list" where
  "plan system run_type = plan_from system run_type (enumerate 0 LEGS)"

definition matrix_outputs :: "string option \<Rightarrow> leg list \<Rightarrow> (string \<times> leg list) list" where
  \<comment> \<open>what \<^verbatim>\<open>--github-output\<close> appends, by name\<close>
  "matrix_outputs runner ls =
     (let sel = (case runner of None \<Rightarrow> ls | Some r \<Rightarrow> filter (\<lambda>l. l_runner l = r) ls)
      in [(''legs'', sel), (''linux-legs'', filter (\<lambda>l. l_runner l = ''linux'') sel)])"

section \<open>What a leg did\<close>

definition OUR_BUG :: "int list" where "OUR_BUG = [2, 5]"

definition LOST_TARGET :: int where "LOST_TARGET = 3"

definition where_of :: "string \<Rightarrow> string \<Rightarrow> string" where
  "where_of script transport = script @ '' ['' @ transport @ '']''"

definition transport_of :: "string \<Rightarrow> string" where
  "transport_of filename = replace ''.rc.json'' [] filename"

definition codes_of_column :: "string \<Rightarrow> string \<times> column_codes \<Rightarrow> (string \<times> string \<times> int option) list" where
  "codes_of_column t x =
     (case snd x of Codes d \<Rightarrow> map (\<lambda>(script, code). (t, script, code)) d | NoCodes \<Rightarrow> [])"

text \<open>Every recorded code in the order in which the loops meet them: transport, script, code.\<close>

definition codes_in :: "exit_codes \<Rightarrow> (string \<times> string \<times> int option) list" where
  "codes_in ec =
     concat (map (\<lambda>x. concat (map (codes_of_column (transport_of (fst x))) (get_or [] (snd x)))) ec)"

definition flat_codes :: "exit_codes \<Rightarrow> (string, int option) dict" where
  "flat_codes ec = fold (\<lambda>(t, s, c). dict_set (where_of s t) c) (codes_in ec) []"

text \<open>A code that means the suite is broken, with where it was recorded.\<close>

definition crash_of :: "'k \<times> int option \<Rightarrow> ('k \<times> int) option" where
  "crash_of x = (case snd x of Some c \<Rightarrow> if c \<in> set OUR_BUG then Some (fst x, c) else None | None \<Rightarrow> None)"

definition classify :: "string list \<Rightarrow> exit_codes \<Rightarrow> string \<times> string \<times> bool \<times> (string \<times> int) list" where
  "classify reports ec =
     (let flat = flat_codes ec;
          errors = List.map_filter crash_of (sort_key fst flat);
          flaky = list_ex (\<lambda>(s, rc). rc = Some LOST_TARGET) flat
      in if reports = [] then (''not-run'', ''the leg produced no report'', flaky, errors)
         else (''ok'',
               if errors = [] then []
               else str_nat (length errors) @ '' script(s) crashed and are missing from this '' @
                    ''column: '' @ join '', '' (map fst errors) @ ''. That is this suite's bug, not a finding about '' @
                    ''the backend.'', flaky, errors))"

record leg_args =
  la_status :: "string option"
  la_reason :: string
  la_vendor_version :: string
  la_duration :: rat
  la_host :: string

fun read_codes :: "directory \<Rightarrow> string list \<Rightarrow> py_error + exit_codes" where
  "read_codes dir [] = Inr []"
| "read_codes dir (name # names0) =
     (case dict_get dir name of
        Some (JCodes cs) \<Rightarrow>
          (case read_codes dir names0 of Inl e \<Rightarrow> Inl e | Inr ec \<Rightarrow> Inr ((name, cs) # ec))
      | _ \<Rightarrow> Inl (ValueError name))"

definition leg_exit_codes :: "directory \<Rightarrow> py_error + exit_codes" where
  "leg_exit_codes dir = read_codes dir (sort (filter (\<lambda>p. endswith p ''.rc.json'') (dict_keys dir)))"

definition leg_tally :: "rdict list \<Rightarrow> string \<Rightarrow> nat" where
  "leg_tally rs outcome = length (filter (\<lambda>r. d_outcome r = outcome) rs)"

definition summarise_column :: "string \<Rightarrow> column \<Rightarrow> string list" where
  "summarise_column name c =
     (let rs = column_results c
      in [''`'' @ stem name @ ''` &mdash; '' @ str_nat (leg_tally rs PASS) @ '' passed, '' @
          str_nat (leg_tally rs FAIL) @ '' failed, '' @ str_nat (leg_tally rs SKIP) @ '' skipped'', []] @
         concat (map (\<lambda>outcome.
           let named = filter (\<lambda>r. d_outcome r = outcome) rs
           in if named = [] then []
              else [''<details><summary>'' @ str_nat (length named) @ '' '' @ outcome @ ''</summary>'' @ nl] @
                   map (\<lambda>r. ''- '' @ replace ''|'' [backslash, CHR ''|''] (d_name r)) named @
                   [nl @ ''</details>'' @ nl]) [FAIL, SKIP]))"

definition columns_of_file :: "json_file \<Rightarrow> column list" where
  "columns_of_file f = (case f of JColumns cs \<Rightarrow> cs | JReport c \<Rightarrow> [c] | _ \<Rightarrow> [])"

definition summarise :: "leg \<Rightarrow> directory \<Rightarrow> string list \<Rightarrow> string" where
  "summarise l dir reports =
     (let out = [''### '' @ get_or (l_id l) (l_label l) @ '' &mdash; '' @
                 (if truthy (l_os_label l) then the (l_os_label l) else get_or [] (l_host l)), []];
          st = get_or [] (l_status l)
      in if st \<noteq> ''ok'' then
           join nl (out @ [''**'' @ st @ ''** &mdash; '' @ get_or [] (l_reason l), []]) @ nl
         else
           join nl (out @
             (if l_errors l = [] then []
              else [''> **'' @ str_nat (length (l_errors l)) @ '' script(s) crashed** and are missing from '' @
                    ''this column: '' @
                    join '', '' (map (\<lambda>(s, rc). ''`'' @ s @ ''` (exit '' @ str_int rc @ '')'') (l_errors l)) @
                    ''. That is this suite's own bug, never a finding about the '' @
                    ''backend -- but the checks those scripts would have run are simply '' @
                    ''absent below, not passing.'', []]) @
             concat (map (\<lambda>p. concat (map (summarise_column p)
               (case dict_get dir p of None \<Rightarrow> [] | Some f \<Rightarrow> columns_of_file f))) reports) @
             (if l_flaky l
              then [''> The target went away at least once (exit 3). Not counted as a '' @
                    ''failure: a flaky bench reported as a library regression wastes '' @
                    ''the next person's afternoon.'', []]
              else []) @
             [''_'' @ (case l_duration l of None \<Rightarrow> ''0'' | Some d \<Rightarrow> fmt_fixed 1 d) @ ''s_'' @ nl]) @ nl)"

text \<open>\<open>leg_status_main\<close>: the manifest written, the line printed and the summary text. No
  directory is an empty one.\<close>

definition leg_status_main :: "leg_args \<Rightarrow> leg \<Rightarrow> directory \<Rightarrow> py_error + leg \<times> string \<times> string" where
  "leg_status_main a l dir =
     (case leg_exit_codes dir of
        Inl e \<Rightarrow> Inl e
      | Inr ec \<Rightarrow>
          (let reports = column_files (dict_keys dir);
               (st, reason, flaky, errors) = classify reports ec;
               (st1, reason1) = (if truthy (la_status a) then (the (la_status a), or_else (la_reason a) reason)
                                 else if la_reason a \<noteq> [] then (st, la_reason a) else (st, reason));
               l1 = (if la_vendor_version a = [] then l else l\<lparr>l_vendor_version := Some (la_vendor_version a)\<rparr>);
               l2 = l1\<lparr>l_status := Some st1, l_reason := Some reason1, l_flaky := flaky, l_errors := errors,
                       l_exit_codes := ec, l_duration := Some (round_to 1 (la_duration a)),
                       l_host := Some (la_host a), l_reports := reports\<rparr>
           in Inr (l2, l_id l @ '': '' @ st1 @ (if reason1 = [] then [] else '' -- '' @ reason1),
                   summarise l2 dir reports)))"

section \<open>Normalising\<close>

definition PROTOCOLS :: "string list" where "PROTOCOLS = [''hislip'', ''vxi11'']"

fun load_files :: "string \<Rightarrow> json_file list \<Rightarrow> py_error + column list" where
  "load_files lab [] = Inr []"
| "load_files lab (f # fs) =
     (case (case f of
              JColumns cs \<Rightarrow> Inr (map (\<lambda>c. if j_label c = None then c\<lparr>j_label := Some lab\<rparr> else c) cs)
            | JReport c \<Rightarrow> Inr [merge [c] lab]
            | _ \<Rightarrow> Inl (ValueError ''not a report'')) of
        Inl e \<Rightarrow> Inl e
      | Inr cs \<Rightarrow> (case load_files lab fs of Inl e \<Rightarrow> Inl e | Inr rest \<Rightarrow> Inr (cs @ rest)))"

definition load_column :: "json_file list \<Rightarrow> string \<Rightarrow> py_error + column option" where
  "load_column files lab =
     (case load_files lab files of
        Inl e \<Rightarrow> Inl e
      | Inr [] \<Rightarrow> Inr None
      | Inr [c] \<Rightarrow> Inr (Some c)
      | Inr (c # cs) \<Rightarrow>
          Inr (Some (c\<lparr>j_results := Some (concat (map column_results (c # cs))),
                       j_notes := Some (concat (map (\<lambda>x. get_or [] (j_notes x)) (c # cs)))\<rparr>)))"

definition script_order :: "string \<Rightarrow> string \<Rightarrow> nat" where
  \<comment> \<open>where a report's script stands in the suite\<close>
  "script_order protocol name =
     (let s = stem name; base = take (length s - length protocol - 1) s;
          order = dict_of (map (\<lambda>(i, x). (take (length (s_name x) - 3) (s_name x), i)) (enumerate 0 SCRIPTS))
      in get_or 999 (dict_get order base))"

definition leg_reports :: "directory \<Rightarrow> string \<Rightarrow> string list" where
  "leg_reports dir protocol =
     (let exact = protocol @ ''.json''
      in if exact \<in> set (dict_keys dir) then [exact]
         else sort_key (script_order protocol)
                (filter (\<lambda>p. endswith (stem p) (''-'' @ protocol)) (column_files (dict_keys dir))))"

record download =
  dl_dirs :: "(string, directory) dict"
  dl_files :: directory

definition leg_root :: "download \<Rightarrow> string \<Rightarrow> directory option" where
  "leg_root src leg_id =
     (case dict_get (dl_dirs src) (''reports-'' @ leg_id) of
        Some d \<Rightarrow> Some d
      | None \<Rightarrow>
          (case dict_get (dl_files src) ''leg.json'' of
             Some (JLeg l) \<Rightarrow> if l_id l = leg_id then Some (dl_files src) else None
           | _ \<Rightarrow> None))"

record entry =
  n_id :: string
  n_backend :: "string option"
  n_label :: "string option"
  n_os_label :: "string option"
  n_order :: nat
  n_file :: "string option"
  n_status :: "string option"
  n_reason :: "string option"
  n_vendor_version :: "string option"
  n_flaky :: bool
  n_exit_codes :: exit_codes
  n_host :: "string option"
  n_errors :: "(string \<times> int) list"

definition new_entry :: "leg \<Rightarrow> entry" where
  "new_entry l = \<lparr>n_id = l_id l, n_backend = Some (l_backend l), n_label = Some (get_or (l_id l) (l_label l)),
     n_os_label = Some (get_or [] (l_os_label l)), n_order = get_or 0 (l_order l),
     n_file = Some (l_id l @ ''.json''), n_status = None, n_reason = None, n_vendor_version = None,
     n_flaky = False, n_exit_codes = [], n_host = None, n_errors = []\<rparr>"

definition carry :: "leg \<Rightarrow> entry \<Rightarrow> entry" where
  \<comment> \<open>the keys of the manifest that are set are copied\<close>
  "carry st e =
     e\<lparr>n_vendor_version := (if truthy (l_vendor_version st) then l_vendor_version st else n_vendor_version e),
       n_flaky := (l_flaky st \<or> n_flaky e),
       n_exit_codes := (if l_exit_codes st \<noteq> [] then l_exit_codes st else n_exit_codes e),
       n_host := (if truthy (l_host st) then l_host st else n_host e),
       n_errors := (if l_errors st \<noteq> [] then l_errors st else n_errors e)\<rparr>"

definition crashed_in :: "string \<Rightarrow> (string \<times> int) list \<Rightarrow> string list" where
  "crashed_in protocol errors = filter (contains protocol) (map fst errors)"

definition crash_reason :: "string list \<Rightarrow> string" where
  "crash_reason crashed = str_nat (length crashed) @ '' script(s) crashed and are missing '' @
     ''from this column: '' @ join '', '' crashed"

definition finish_column :: "string \<Rightarrow> leg option \<Rightarrow> entry \<Rightarrow> column \<Rightarrow> column" where
  "finish_column protocol st e c =
     (let crashed = crashed_in protocol (case st of None \<Rightarrow> [] | Some l \<Rightarrow> l_errors l);
          c1 = c\<lparr>j_status := Some ''ok''\<rparr>;
          c2 = (if crashed = [] then c1
                else c1\<lparr>j_errors := Some crashed, j_reason := Some (crash_reason crashed)\<rparr>);
          c3 = c2\<lparr>j_backend := n_backend e, j_os_label := n_os_label e, j_id := Some (n_id e)\<rparr>
      in if truthy (n_vendor_version e) then c3\<lparr>j_vendor_version := n_vendor_version e\<rparr> else c3)"

definition missing_entry :: "string \<Rightarrow> leg option \<Rightarrow> entry \<Rightarrow> entry" where
  "missing_entry protocol st e =
     (let s = get_or ''not-run'' (case st of None \<Rightarrow> None | Some l \<Rightarrow> l_status l);
          reason = (case st of None \<Rightarrow> None | Some l \<Rightarrow> l_reason l)
      in e\<lparr>n_status := Some (if s = ''ok'' then ''not-run'' else s),
           n_reason := Some (if truthy reason then the reason
                             else ''no '' @ protocol @ '' report in the artifact'')\<rparr>)"

definition ok_entry :: "string \<Rightarrow> leg option \<Rightarrow> entry \<Rightarrow> entry" where
  "ok_entry protocol st e =
     (let crashed = crashed_in protocol (case st of None \<Rightarrow> [] | Some l \<Rightarrow> l_errors l)
      in e\<lparr>n_status := Some ''ok'', n_reason := (if crashed = [] then n_reason e else Some (crash_reason crashed))\<rparr>)"

definition manifest :: "directory \<Rightarrow> py_error + leg option" where
  "manifest dir =
     (case dict_get dir ''leg.json'' of
        None \<Rightarrow> Inr None
      | Some (JLeg l) \<Rightarrow> Inr (Some l)
      | Some _ \<Rightarrow> Inl (ValueError ''leg.json''))"

text \<open>One leg of the plan for one transport: its index entry, and the column file if one is written.\<close>

definition normalise_leg :: "download \<Rightarrow> string \<Rightarrow> leg \<Rightarrow> py_error + entry \<times> (string \<times> column) option" where
  "normalise_leg src protocol l =
     (case leg_root src (l_id l) of
        None \<Rightarrow> Inr ((new_entry l)\<lparr>n_status := Some ''not-run'',
                      n_reason := Some ''the job produced no artifact''\<rparr>, None)
      | Some dir \<Rightarrow>
          (case manifest dir of
             Inl err \<Rightarrow> Inl err
           | Inr st \<Rightarrow>
               (let e = (case st of None \<Rightarrow> new_entry l | Some m \<Rightarrow> carry m (new_entry l));
                    files = List.map_filter (dict_get dir) (leg_reports dir protocol);
                    col = (if get_or ''ok'' (case st of None \<Rightarrow> None | Some m \<Rightarrow> l_status m) = ''ok''
                           then load_column files (the (n_label e)) else Inr None)
                in case col of
                     Inl err \<Rightarrow> Inl err
                   | Inr None \<Rightarrow> Inr (missing_entry protocol st e, None)
                   | Inr (Some c) \<Rightarrow>
                       Inr (ok_entry protocol st e, Some (the (n_file e), finish_column protocol st e c)))))"

fun normalise :: "download \<Rightarrow> string \<Rightarrow> leg list \<Rightarrow> py_error + entry list \<times> (string \<times> column) list" where
  "normalise src protocol [] = Inr ([], [])"
| "normalise src protocol (l # ls) =
     (case normalise_leg src protocol l of
        Inl err \<Rightarrow> Inl err
      | Inr (e, f) \<Rightarrow>
          (case normalise src protocol ls of
             Inl err \<Rightarrow> Inl err
           | Inr (es, fs) \<Rightarrow> Inr (e # es, (case f of None \<Rightarrow> [] | Some x \<Rightarrow> [x]) @ fs)))"

definition normalise_report :: "string \<Rightarrow> entry list \<Rightarrow> string list" where
  \<comment> \<open>the lines printed for one transport\<close>
  "normalise_report protocol index =
     [protocol @ '': '' @ str_nat (length (filter (\<lambda>e. n_status e = Some ''ok'') index)) @ ''/'' @
      str_nat (length index) @ '' columns''] @
     map (\<lambda>e. ''  '' @ get_or [] (n_label e) @ '' ('' @ n_id e @ ''): '' @ get_or [] (n_status e) @ '' -- '' @
              get_or [] (n_reason e)) (filter (\<lambda>e. n_status e \<noteq> Some ''ok'') index)"

definition raw_copies :: "download \<Rightarrow> leg list \<Rightarrow> (string \<times> directory) list" where
  "raw_copies src ls =
     List.map_filter (\<lambda>l. map_option (\<lambda>d. (''reports-'' @ l_id l, d)) (leg_root src (l_id l))) ls"

text \<open>The whole tool: no plan, or an empty one, is exit 4; otherwise every transport in turn.\<close>

fun normalise_all :: "download \<Rightarrow> leg list \<Rightarrow> string list \<Rightarrow> py_error + (string \<times> entry list \<times> (string \<times> column) list) list" where
  "normalise_all src ls [] = Inr []"
| "normalise_all src ls (p # ps) =
     (case normalise src p ls of
        Inl e \<Rightarrow> Inl e
      | Inr out \<Rightarrow> (case normalise_all src ls ps of Inl e \<Rightarrow> Inl e | Inr rest \<Rightarrow> Inr ((p, out) # rest)))"

definition normalise_main ::
  "download \<Rightarrow> leg list option \<Rightarrow> py_error + int \<times> (string \<times> entry list \<times> (string \<times> column) list) list" where
  "normalise_main src ls =
     (case ls of
        None \<Rightarrow> Inr (4, [])
      | Some [] \<Rightarrow> Inr (4, [])
      | Some xs \<Rightarrow> map_sum id (\<lambda>out. (0, out)) (normalise_all src xs PROTOCOLS))"

section \<open>The verdict\<close>

type_synonym indexes = "(string, entry list) dict"

definition entry_codes :: "entry \<Rightarrow> ((string \<times> string) \<times> int option) list" where
  "entry_codes e = map (\<lambda>(t, s, c). ((n_id e, where_of s t), c)) (codes_in (n_exit_codes e))"

definition all_codes :: "indexes \<Rightarrow> ((string \<times> string) \<times> int option) list" where
  "all_codes ix = concat (map entry_codes (concat (map snd ix)))"

definition crashes :: "indexes \<Rightarrow> (string \<times> string, int) dict" where
  "crashes ix = dict_of (List.map_filter crash_of (all_codes ix))"

definition lost :: "indexes \<Rightarrow> (string \<times> string, int) dict" where
  "lost ix = dict_of (List.map_filter (\<lambda>(k, c). case c of
      Some rc \<Rightarrow> if rc \<notin> set OUR_BUG \<and> rc = LOST_TARGET then Some (k, rc) else None | None \<Rightarrow> None) (all_codes ix))"

definition flaky_legs :: "indexes \<Rightarrow> string list" where
  "flaky_legs ix = remdups (map n_id (filter n_flaky (concat (map snd ix))))"

definition annotate :: "string \<Rightarrow> string \<Rightarrow> string" where
  "annotate level message = ''::'' @ level @ ''::'' @ message"

text \<open>The loop over the entries: the lines, and whether an errored leg was met. A leg is
  warned about once per transport.\<close>

fun status_lines :: "(string \<times> entry) list \<Rightarrow> string set \<Rightarrow> string list \<times> bool" where
  "status_lines [] seen = ([], False)"
| "status_lines ((protocol, e) # rest) seen =
     (if n_status e = Some ''errored'' then
        (let (ls, _) = status_lines rest seen
         in (annotate ''error'' (n_id e @ '': '' @ get_or [] (n_reason e)) # ls, True))
      else if n_status e \<noteq> Some ''ok'' \<and> n_status e \<noteq> None \<and> n_id e @ ''/'' @ protocol \<notin> seen then
        (let (ls, b) = status_lines rest (insert (n_id e @ ''/'' @ protocol) seen)
         in (annotate ''warning'' (n_id e @ '' produced no '' @ protocol @ '' column: '' @ get_or [] (n_reason e)) # ls, b))
      else status_lines rest seen)"

definition ci_status_main :: "indexes \<Rightarrow> string list \<times> int" where
  "ci_status_main ix =
     (let cr = sort_key fst (crashes ix); lo = sort_key fst (lost ix);
          (ls, errored) = status_lines (concat (map (\<lambda>(p, es). map (\<lambda>e. (p, e)) es) ix)) {};
          verdict = (if cr \<noteq> [] \<or> errored then 1 else 0)
      in (map (\<lambda>((l, script), code). annotate ''error''
                 (l @ '': '' @ script @ '' exited '' @ str_int code @ ''. The suite itself is broken here, '' @
                  ''which is never a finding about a backend -- and the checks that '' @
                  ''script would have run are absent from the column, not passing.'')) cr @
          map (\<lambda>((l, script), _). annotate ''warning''
                 (l @ '': '' @ script @ '' lost the target (exit 3). Not counted as a '' @ ''failure.'')) lo @
          ls @
          (if flaky_legs ix = [] then []
           else [annotate ''warning'' (''the target went away at least once in: '' @
                   join '', '' (sort (flaky_legs ix)))]) @
          [nl @ ''verdict: '' @ (if verdict = 0 then ''ok'' else ''FAIL'')], verdict))"

section \<open>Lemmas\<close>

lemma BACKENDS_Some: "k \<in> set (dict_keys (BACKENDS system)) \<Longrightarrow> \<exists>spec. dict_get (BACKENDS system) k = Some spec"
  using alist_dict.get_keys[of "BACKENDS system" k] by blast

lemma plan_from_total:
  assumes "\<forall>(i, l)\<in>set ls. l_backend l \<in> set (dict_keys (BACKENDS system))"
  shows "\<exists>out. plan_from system run_type ls = Inr out \<and>
    map l_id out = map (\<lambda>(i, l). l_id l) (filter (\<lambda>(i, l). run_type = ''full'' \<or> \<not> l_full_only l) ls) \<and>
    (\<forall>m\<in>set out. \<exists>l\<in>snd ` set ls. l_vendor m = l_vendor l \<and> l_full_only m = l_full_only l \<and>
       (run_type = ''full'' \<or> \<not> l_full_only l))"
  using assms
proof (induction ls)
  case (Cons x ls)
  obtain i l where x: "x = (i, l)" by (cases x)
  then have "l_backend l \<in> set (dict_keys (BACKENDS system))" using Cons.prems by simp
  from BACKENDS_Some[OF this] obtain spec where "dict_get (BACKENDS system) (l_backend l) = Some spec" ..
  with Cons show ?case by (auto simp: x)
qed simp

text \<open>What one leg's entry and file have to do with each other.\<close>

lemma finish_column_status [simp]: "status (finish_column protocol st e c) = ''ok''"
  by (simp add: finish_column_def status_def STATUSES_def Let_def)

lemma entry_sel [simp]:
  "n_id (new_entry l) = l_id l" "n_id (carry m e) = n_id e" "n_file (carry m e) = n_file e"
  "n_file (new_entry l) = Some (l_id l @ ''.json'')"
  "n_id (missing_entry protocol st e) = n_id e" "n_id (ok_entry protocol st e) = n_id e"
  "n_status (ok_entry protocol st e) = Some ''ok''"
  "n_file (missing_entry protocol st e) = n_file e" "n_file (ok_entry protocol st e) = n_file e"
  by (simp_all add: new_entry_def carry_def missing_entry_def ok_entry_def Let_def)

lemma missing_entry_status: "\<exists>s. n_status (missing_entry protocol st e) = Some s \<and> s \<noteq> ''ok''"
  by (simp add: missing_entry_def Let_def)

lemma missing_entry_reason: "\<exists>s. n_reason (missing_entry protocol st e) = Some s \<and> s \<noteq> []"
  by (simp add: missing_entry_def Let_def truthy_def split: option.split)

lemma normalise_leg_cases:
  assumes "normalise_leg src protocol l = Inr (e, f)"
  shows "n_id e = l_id l \<and> n_file e = Some (l_id l @ ''.json'') \<and>
    (case f of
       Some (name, c) \<Rightarrow> n_status e = Some ''ok'' \<and> name = l_id l @ ''.json'' \<and> status c = ''ok''
     | None \<Rightarrow> (\<exists>s. n_status e = Some s \<and> s \<noteq> ''ok'') \<and> (\<exists>r. n_reason e = Some r \<and> r \<noteq> []))"
  using assms missing_entry_status missing_entry_reason
  by (auto simp: normalise_leg_def Let_def split: option.splits sum.splits)

lemma codes_of_column_iff: "y \<in> set (codes_of_column t x) \<longleftrightarrow> (\<exists>d s c. snd x = Codes d \<and> (s, c) \<in> set d \<and> y = (t, s, c))"
  by (cases "snd x") (auto simp: codes_of_column_def)

definition index_ok :: "leg list \<Rightarrow> entry list \<Rightarrow> (string \<times> column) list \<Rightarrow> bool" where
  "index_ok ls es fs \<longleftrightarrow> map n_id es = map l_id ls \<and> (\<forall>e\<in>set es. n_file e = Some (n_id e @ ''.json'')) \<and>
     map fst fs = map (\<lambda>e. n_id e @ ''.json'') (filter (\<lambda>e. n_status e = Some ''ok'') es) \<and>
     (\<forall>c\<in>snd ` set fs. status c = ''ok'') \<and>
     (\<forall>e\<in>set es. n_status e = Some ''ok'' \<or> (\<exists>s r. n_status e = Some s \<and> n_reason e = Some r \<and> r \<noteq> []))"

lemma normalise_index: "normalise src protocol ls = Inr (es, fs) \<Longrightarrow> index_ok ls es fs"
proof (induction ls arbitrary: es fs)
  case (Cons l ls)
  then obtain e f es' fs' where l: "normalise_leg src protocol l = Inr (e, f)"
    and r: "normalise src protocol ls = Inr (es', fs')"
    and es: "es = e # es'" "fs = (case f of None \<Rightarrow> [] | Some x \<Rightarrow> [x]) @ fs'"
    by (auto split: sum.splits prod.splits)
  from Cons.IH[OF r] normalise_leg_cases[OF l] show ?case
    by (cases f) (auto simp: es index_ok_def)
qed (simp add: index_ok_def)

lemma in_set_concat_map: "x \<in> set xs \<Longrightarrow> y \<in> set (f x) \<Longrightarrow> y \<in> set (concat (map f xs))"
  by auto

lemma codes_in_iff:
  "(t, s, c) \<in> set (codes_in ec) \<longleftrightarrow>
     (\<exists>filename per_file col d. (filename, Some per_file) \<in> set ec \<and> (col, Codes d) \<in> set per_file \<and>
        (s, c) \<in> set d \<and> t = transport_of filename)"
proof
  assume "(t, s, c) \<in> set (codes_in ec)"
  then obtain f pf x where "(f, pf) \<in> set ec" "x \<in> set (get_or [] pf)"
    "(t, s, c) \<in> set (codes_of_column (transport_of f) x)"
    by (auto simp: codes_in_def)
  then show "\<exists>filename per_file col d. (filename, Some per_file) \<in> set ec \<and> (col, Codes d) \<in> set per_file \<and>
        (s, c) \<in> set d \<and> t = transport_of filename"
    by (cases pf; cases x) (auto simp: get_or_def codes_of_column_iff)
next
  assume "\<exists>filename per_file col d. (filename, Some per_file) \<in> set ec \<and> (col, Codes d) \<in> set per_file \<and>
        (s, c) \<in> set d \<and> t = transport_of filename"
  then obtain f pf col d where h: "(f, Some pf) \<in> set ec" "(col, Codes d) \<in> set pf" "(s, c) \<in> set d" "t = transport_of f"
    by blast
  then have "(t, s, c) \<in> set (codes_of_column (transport_of f) (col, Codes d))" by (simp add: codes_of_column_iff)
  with h(2) have "(t, s, c) \<in> set (concat (map (codes_of_column (transport_of (fst (f, Some pf)))) (get_or [] (snd (f, Some pf)))))"
    by (auto simp: get_or_def)
  with h(1) show "(t, s, c) \<in> set (codes_in ec)" unfolding codes_in_def by (rule in_set_concat_map)
qed

definition code_pairs :: "exit_codes \<Rightarrow> (string \<times> int option) list" where
  "code_pairs ec = map (\<lambda>(t, s, c). (where_of s t, c)) (codes_in ec)"

lemma flat_codes_dict: "flat_codes ec = dict_of (code_pairs ec)"
  by (simp add: flat_codes_def dict_of_def dict_update_def code_pairs_def fold_map comp_def case_prod_unfold)

lemma crash_of_iff: "crash_of x = Some (k, c) \<longleftrightarrow> x = (k, Some c) \<and> (c = 2 \<or> c = 5)"
  by (cases x) (auto simp: crash_of_def OUR_BUG_def split: option.split)

lemma set_map_filter: "y \<in> set (List.map_filter f xs) \<longleftrightarrow> (\<exists>x\<in>set xs. f x = Some y)"
  by (induction xs) (auto simp: map_filter_simps split: option.split)

lemma set_map_filter_crash:
  "(k, c) \<in> set (List.map_filter crash_of xs) \<longleftrightarrow> (k, Some c) \<in> set xs \<and> (c = 2 \<or> c = 5)"
  by (auto simp: set_map_filter crash_of_iff)

lemma classify_errors:
  "snd (snd (snd (classify reports ec))) = List.map_filter crash_of (sort_key fst (flat_codes ec))"
  by (simp add: classify_def Let_def)

lemma dict_of_empty: "dict_of xs = [] \<longleftrightarrow> xs = []"
proof
  assume "dict_of xs = []"
  then have "\<forall>k. map_of (rev xs) k = None" using dict_get_of[of xs] by (simp add: dict_get_def)
  then show "xs = []" by (cases xs rule: rev_cases) (auto split: if_splits)
qed (simp add: dict_of_def dict_update_def)

lemma crashes_iff: "crashes ix \<noteq> [] \<longleftrightarrow> (\<exists>k c. (k, Some c) \<in> set (all_codes ix) \<and> (c = 2 \<or> c = 5))"
proof -
  have "crashes ix \<noteq> [] \<longleftrightarrow> set (List.map_filter crash_of (all_codes ix)) \<noteq> {}"
    by (simp add: crashes_def dict_of_empty)
  also have "\<dots> \<longleftrightarrow> (\<exists>k c. (k, c) \<in> set (List.map_filter crash_of (all_codes ix)))"
    by (metis all_not_in_conv surj_pair)
  finally show ?thesis by (simp only: set_map_filter_crash)
qed

lemma sort_key_Nil: "sort_key f xs = [] \<longleftrightarrow> xs = []"
  by (metis length_0_conv length_sort)

lemma status_lines_errored:
  "snd (status_lines xs seen) \<longleftrightarrow> (\<exists>x\<in>set xs. n_status (snd x) = Some ''errored'')"
  by (induction xs seen rule: status_lines.induct) (simp_all add: case_prod_unfold Let_def)

lemma all_codes_iff:
  "(k, c) \<in> set (all_codes ix) \<longleftrightarrow>
     (\<exists>x\<in>set ix. \<exists>e\<in>set (snd x). \<exists>t s. (t, s, c) \<in> set (codes_in (n_exit_codes e)) \<and> k = (n_id e, where_of s t))"
  by (force simp: all_codes_def entry_codes_def)

section \<open>Properties\<close>

text \<open>A run on a branch named by the caller never gets a leg that needs a credential. Whatever the
  platform, planning succeeds; anything but a full run has the pyvisa-py leg alone, which is not a vendor
  leg, and a full run has all four in the order of the table.\<close>

theorem plan_keeps_vendors_out:
  "\<exists>ls. plan system run_type = Inr ls \<and>
     (if run_type = ''full'' then map l_id ls = map l_id LEGS
      else map l_id ls = [''linux-py''] \<and> list_all (\<lambda>l. \<not> l_vendor l) ls)"
proof -
  have "\<forall>(i, l)\<in>set (enumerate 0 LEGS). l_backend l \<in> set (dict_keys (BACKENDS system))"
    by (simp add: LEGS_def leg0_def BACKENDS_keys)
  from plan_from_total[OF this, of run_type] obtain ls where ls: "plan system run_type = Inr ls"
    and ids: "map l_id ls = map (\<lambda>(i, l). l_id l) (filter (\<lambda>(i, l). run_type = ''full'' \<or> \<not> l_full_only l) (enumerate 0 LEGS))"
    and from0: "\<forall>m\<in>set ls. \<exists>l\<in>snd ` set (enumerate 0 LEGS). l_vendor m = l_vendor l \<and> l_full_only m = l_full_only l \<and>
       (run_type = ''full'' \<or> \<not> l_full_only l)"
    unfolding plan_def by blast
  have "\<forall>l\<in>snd ` set (enumerate 0 LEGS). l_vendor l = l_full_only l" by (simp add: LEGS_def leg0_def)
  with from0 have "run_type \<noteq> ''full'' \<Longrightarrow> list_all (\<lambda>l. \<not> l_vendor l) ls" by (auto simp: list_all_iff)
  moreover have "map l_id ls = (if run_type = ''full'' then map l_id LEGS else [''linux-py''])"
    unfolding ids by (simp add: LEGS_def leg0_def)
  ultimately show ?thesis using ls by simp
qed

text \<open>C9: no leg of the plan goes missing from the page. The index has exactly one entry per planned
  leg, in plan order, whatever arrived; an entry says ok exactly when a column file was written for
  it, every written column has the status ok, and an entry that is not ok carries a reason.\<close>

theorem index_covers_plan:
  assumes "normalise src protocol ls = Inr (es, fs)"
  shows "map n_id es = map l_id ls \<and>
    map fst fs = map (\<lambda>e. n_id e @ ''.json'') (filter (\<lambda>e. n_status e = Some ''ok'') es) \<and>
    (\<forall>c\<in>snd ` set fs. status c = ''ok'') \<and>
    (\<forall>e\<in>set es. n_status e = Some ''ok'' \<or> (\<exists>s r. n_status e = Some s \<and> n_reason e = Some r \<and> r \<noteq> []))"
  using normalise_index[OF assms] unfolding index_ok_def by blast

theorem index_covers_plan_witness:
  "\<exists>es fs. normalise \<lparr>dl_dirs = [], dl_files = []\<rparr> ''hislip'' [leg0 ''linux-py'' ''py'' False] = Inr (es, fs) \<and>
     map n_id es = [''linux-py''] \<and> (\<forall>e\<in>set es. \<exists>r. n_reason e = Some r)"
proof -
  obtain es fs where r: "normalise \<lparr>dl_dirs = [], dl_files = []\<rparr> ''hislip'' [leg0 ''linux-py'' ''py'' False] = Inr (es, fs)"
    and "\<forall>e\<in>set es. n_status e = Some ''not-run''"
    by (simp add: normalise_leg_def leg_root_def dict_get_def)
  with index_covers_plan[OF r] show ?thesis by (fastforce simp: leg0_def)
qed

text \<open>C10: the verdict is red for a broken suite and for nothing else: exactly when some leg's setup errored
  or some script of some leg, on any transport and in any column, exited with 2 or 5. Failing
  checks, a lost target and a backend that is not installed never turn it red.\<close>

theorem verdict_iff:
  "snd (ci_status_main ix) =
     (if \<exists>x\<in>set ix. \<exists>e\<in>set (snd x). n_status e = Some ''errored'' \<or>
           (\<exists>t s c. (t, s, Some c) \<in> set (codes_in (n_exit_codes e)) \<and> (c = 2 \<or> c = 5))
      then 1 else 0)"
proof -
  let ?es = "concat (map (\<lambda>(p, es). map (\<lambda>e. (p, e)) es) ix)"
  have v: "snd (ci_status_main ix) = (if crashes ix \<noteq> [] \<or> snd (status_lines ?es {}) then 1 else 0)"
    by (simp add: ci_status_main_def Let_def case_prod_unfold sort_key_Nil)
  have "(\<exists>x\<in>set ?es. n_status (snd x) = Some ''errored'') \<longleftrightarrow>
      (\<exists>x\<in>set ix. \<exists>e\<in>set (snd x). n_status e = Some ''errored'')" by force
  then show ?thesis unfolding v status_lines_errored crashes_iff all_codes_iff
    by (intro if_cong refl) blast
qed

text \<open>A leg's list of crashed scripts is right when no script is recorded twice for a transport: it holds
  exactly the scripts that exited with 2 or 5, with their codes, in order of their names, and the leg is called
  ok exactly when it produced a report.\<close>

theorem classify_lists_crashes:
  assumes "distinct (map fst (code_pairs ec))"
  shows "(case classify reports ec of (st, reason, flaky, errors) \<Rightarrow>
    (st = ''ok'' \<longleftrightarrow> reports \<noteq> []) \<and> sorted (map fst errors) \<and>
    (flaky \<longleftrightarrow> (\<exists>t s. (t, s, Some 3) \<in> set (codes_in ec))) \<and>
    (\<forall>w c. (w, c) \<in> set errors \<longleftrightarrow>
      (\<exists>t s. (t, s, Some c) \<in> set (codes_in ec) \<and> w = where_of s t) \<and> (c = 2 \<or> c = 5)))"
proof -
  have flat: "flat_codes ec = code_pairs ec" by (simp add: flat_codes_dict dict_of_same[OF assms])
  have mem: "(w, c) \<in> set (code_pairs ec) \<longleftrightarrow> (\<exists>t s. (t, s, c) \<in> set (codes_in ec) \<and> w = where_of s t)" for w c
    by (force simp: code_pairs_def)
  have srt: "sorted (map fst (List.map_filter crash_of (sort_key fst xs)))" for xs :: "(string \<times> int option) list"
  proof -
    have "map fst (List.map_filter crash_of ys) = map fst (filter (\<lambda>y. crash_of y \<noteq> None) ys)" for ys :: "(string \<times> int option) list"
      by (induction ys) (auto simp: map_filter_simps crash_of_def split: option.splits if_splits)
    then show ?thesis by (simp add: sorted_filter)
  qed
  have fl: "list_ex (\<lambda>(s, rc). rc = Some LOST_TARGET) (code_pairs ec) \<longleftrightarrow> (\<exists>t s. (t, s, Some 3) \<in> set (codes_in ec))"
    by (force simp: list_ex_iff LOST_TARGET_def code_pairs_def)
  show ?thesis
    using mem srt fl by (simp add: classify_def Let_def flat set_map_filter_crash)
qed

theorem classify_lists_crashes_witness:
  "(''05_lock.py [hislip]'', 2) \<in> set (snd (snd (snd (classify [''hislip.json'']
     [(''hislip.rc.json'', Some [(''PyVISA-py'', Codes [(''05_lock.py'', Some 2)])])]))))"
proof -
  let ?ec = "[(''hislip.rc.json'', Some [(''PyVISA-py'', Codes [(''05_lock.py'', Some (2::int))])])]"
  have "distinct (map fst (code_pairs ?ec))" "codes_in ?ec = [(''hislip'', ''05_lock.py'', Some 2)]"
    "where_of ''05_lock.py'' ''hislip'' = ''05_lock.py [hislip]''" by code_simp+
  with classify_lists_crashes[of ?ec "[''hislip.json'']"] show ?thesis by (auto split: prod.splits)
qed

definition overwritten_codes :: exit_codes where
  "overwritten_codes = [(''hislip.rc.json'', Some [(''PyVISA-py'', Codes [(''05_lock.py'', Some 2)]),
     (''NI-VISA'', Codes [(''05_lock.py'', Some 0)])])]"

text \<open>With two columns in one leg the list can lose a crash. Where two backends were compared
  in one leg, the later column's clean exit of a script overwrites the earlier one's crash: no
  crashed script is listed although one exited with 2, while the verdict computed from the same codes is red.\<close>

theorem classify_loses_crash:
  "(''hislip'', ''05_lock.py'', Some 2) \<in> set (codes_in overwritten_codes) \<and>
   snd (snd (snd (classify [''hislip.json''] overwritten_codes))) = [] \<and>
   snd (ci_status_main [(''hislip'', [(new_entry (leg0 ''linux-py'' ''py'' False))\<lparr>n_status := Some ''ok'',
     n_exit_codes := overwritten_codes\<rparr>])]) = 1"
  by (intro conjI; code_simp)

text \<open>A crash is shown on the column of the transport it happened on. The page finds the crashed scripts of a
  transport by looking for its name in the recorded location; for every script of the suite run
  on a transport that finds it on that transport's column and on no other.\<close>

theorem crash_lands_on_its_transport:
  assumes "s \<in> set (for_protocol t False)" and "t \<in> {''hislip'', ''vxi11''}" and "p \<in> {''hislip'', ''vxi11''}"
  shows "crashed_in p [(where_of (s_name s) t, code)] = (if p = t then [where_of (s_name s) t] else [])"
proof -
  have "list_all (\<lambda>t. list_all (\<lambda>p. list_all (\<lambda>n. (cut p (where_of n t) \<noteq> None) = (p = t)) (names t False))
      [''hislip'', ''vxi11'']) [''hislip'', ''vxi11'']"
    by code_simp
  then have "(cut p (where_of (s_name s) t) \<noteq> None) = (p = t)"
    using assms by (auto simp: list_all_iff names_def)
  then have "contains p (where_of (s_name s) t) = (p = t)" by (simp only: contains_def cut_None_iff not_not)
  then show ?thesis by (simp add: crashed_in_def)
qed

theorem crash_lands_on_its_transport_witness:
  "crashed_in ''vxi11'' [(where_of ''01_smoke.py'' ''hislip'', 2)] = []"
proof -
  have "Script0 ''01_smoke.py'' \<in> set (for_protocol ''hislip'' False)"
    by (simp add: set_for_protocol SCRIPTS_def) (simp add: Script0_def)
  from crash_lands_on_its_transport[OF this, of "''vxi11''" 2] show ?thesis by (simp add: Script0_def)
qed

end
