(* ===== verification/Outcomes.thy ===== *)
theory Outcomes
  imports Legs
begin

text \<open>
  \<^verbatim>\<open>tools/outcomes.py\<close>, which reduces a run to one outcome per check and compares two runs, and
  the loader it shares with the published page, \<^verbatim>\<open>load\<close> of \<^verbatim>\<open>tools/artifact_matrix.py\<close>.
  A path given on the command line is a \<open>run_path\<close>: a report file, or a directory with its index if it
  has one, its files, and its subdirectories.
\<close>

section \<open>Loading the planned columns\<close>

record col_dir =
  cd_name :: string
  cd_index :: "entry list option"
  cd_files :: directory

definition file_entry :: "string \<Rightarrow> entry" where
  "file_entry name = \<lparr>n_id = stem name, n_backend = Some (stem name), n_label = None, n_os_label = None,
     n_order = 0, n_file = Some name, n_status = None, n_reason = None, n_vendor_version = None,
     n_flaky = False, n_exit_codes = [], n_host = None, n_errors = []\<rparr>"

fun index_of :: "'a list \<Rightarrow> 'a \<Rightarrow> nat" where
  \<comment> \<open>the length of the list where there is none\<close>
  "index_of [] x = 0"
| "index_of (y # ys) x = (if x = y then 0 else Suc (index_of ys x))"

definition planned :: "string \<Rightarrow> col_dir \<Rightarrow> entry list" where
  "planned system d =
     (case cd_index d of
        Some es \<Rightarrow> es
      | None \<Rightarrow>
          map file_entry (sort_key (\<lambda>p. (index_of (dict_keys (BACKENDS system)) (stem p), stem p))
            (column_files (dict_keys (cd_files d)))))"

definition spec_of :: "string \<Rightarrow> entry \<Rightarrow> backend_spec option" where
  "spec_of system e = dict_get (BACKENDS system) (get_or (n_id e) (n_backend e))"

definition default_label :: "string \<Rightarrow> entry \<Rightarrow> string" where
  "default_label system e = (case spec_of system e of None \<Rightarrow> n_id e | Some s \<Rightarrow> b_name s)"

definition sort_label :: "string \<Rightarrow> entry \<Rightarrow> string" where
  "sort_label system e = lower (if truthy (n_label e) then the (n_label e) else default_label system e)"

definition dead_column :: "string \<Rightarrow> entry \<Rightarrow> column" where
  "dead_column file e = empty_column\<lparr>j_results := Some [], j_notes := Some [], j_context := Some [],
     j_status := Some ''not-run'',
     j_reason := Some (if truthy (n_reason e) then the (n_reason e) else ''no report at '' @ file)\<rparr>"

definition set_key :: "string option \<Rightarrow> string option \<Rightarrow> string option" where
  \<comment> \<open>\<^verbatim>\<open>if entry.get(key): column[key] = entry[key]\<close>\<close>
  "set_key new old = (if truthy new then new else old)"

definition dress_column :: "string \<Rightarrow> entry \<Rightarrow> column \<Rightarrow> column" where
  "dress_column system e c =
     (let lab = (if truthy (n_label e) then the (n_label e)
                 else if truthy (j_label c) then the (j_label c) else default_label system e)
      in c\<lparr>j_label := Some lab, j_short := Some lab, j_backend := Some (get_or (n_id e) (n_backend e)),
           j_id := set_key (Some (n_id e)) (j_id c), j_os_label := set_key (n_os_label e) (j_os_label c),
           j_vendor_version := set_key (n_vendor_version e) (j_vendor_version c),
           j_status := set_key (n_status e) (j_status c), j_reason := set_key (n_reason e) (j_reason c)\<rparr>)"

definition load_entry :: "string \<Rightarrow> directory \<Rightarrow> entry \<Rightarrow> py_error + column" where
  "load_entry system files e =
     (let file = get_or (n_id e @ ''.json'') (n_file e)
      in case dict_get files file of
           None \<Rightarrow> Inr (dress_column system e (dead_column file e))
         | Some (JReport c) \<Rightarrow> Inr (dress_column system e c)
         | Some (JColumns (c # _)) \<Rightarrow> Inr (dress_column system e c)
         | Some _ \<Rightarrow> Inl (ValueError file))"

fun load_entries :: "string \<Rightarrow> directory \<Rightarrow> entry list \<Rightarrow> py_error + column list" where
  "load_entries system files [] = Inr []"
| "load_entries system files (e # es) =
     (case load_entry system files e of
        Inl err \<Rightarrow> Inl err
      | Inr c \<Rightarrow> (case load_entries system files es of Inl err \<Rightarrow> Inl err | Inr cs \<Rightarrow> Inr (c # cs)))"

definition load :: "string \<Rightarrow> col_dir \<Rightarrow> py_error + column list" where
  "load system d = load_entries system (cd_files d) (sort_key (sort_label system) (planned system d))"

section \<open>Columns of a run, whatever shape it was left in\<close>

datatype run_path =
    RunFile string json_file                \<comment> \<open>stem and content\<close>
  | RunDir col_dir "col_dir list"           \<comment> \<open>the directory, and its subdirectories\<close>

definition column_label :: "column \<Rightarrow> string \<Rightarrow> string" where
  "column_label c fallback =
     (if truthy (j_label c) then the (j_label c)
      else let b = dict_get (get_or [] (j_context c)) ''backend'' in if truthy b then the b else fallback)"

definition label_columns :: "column list \<Rightarrow> string \<Rightarrow> column list" where
  \<comment> \<open>\<^verbatim>\<open>_columns_of\<close>\<close>
  "label_columns cs file =
     map (\<lambda>c. if j_label c = None then c\<lparr>j_label := Some (column_label c file)\<rparr> else c) cs"

definition fold_transport :: "string \<Rightarrow> column \<Rightarrow> (string, column) dict \<Rightarrow> (string, column) dict" where
  "fold_transport sub c by_label =
     (let lab = column_label c sub;
          d = setdefault lab (empty_column\<lparr>j_label := Some lab, j_results := Some [], j_status := Some ''not-run''\<rparr>) by_label;
          m = the (dict_get d lab)
      in if status c = ''ok''
         then dict_set lab (m\<lparr>j_status := Some ''ok'', j_results := Some (column_results m @ column_results c)\<rparr>) d
         else d)"

fun fold_subdirs :: "string \<Rightarrow> col_dir list \<Rightarrow> (string, column) dict \<Rightarrow> py_error + (string, column) dict" where
  "fold_subdirs system [] acc = Inr acc"
| "fold_subdirs system (d # ds) acc =
     (case load system d of
        Inl e \<Rightarrow> Inl e
      | Inr cs \<Rightarrow> fold_subdirs system ds (fold (fold_transport (cd_name d)) cs acc))"

definition split_file :: "string \<Rightarrow> json_file \<Rightarrow> py_error + column list \<times> column list" where
  \<comment> \<open>the columns of a file, and the per-script reports\<close>
  "split_file name f =
     (case f of
        JReport c \<Rightarrow> if j_script c \<noteq> None then Inr ([], [c]) else Inr (label_columns [c] (stem name), [])
      | JColumns xs \<Rightarrow> Inr (label_columns xs (stem name), [])
      | _ \<Rightarrow> Inl (ValueError name))"

fun split_files :: "(string \<times> json_file) list \<Rightarrow> py_error + column list \<times> column list" where
  "split_files [] = Inr ([], [])"
| "split_files ((name, f) # fs) =
     (case split_file name f of
        Inl e \<Rightarrow> Inl e
      | Inr (cs, scripts) \<Rightarrow>
          (case split_files fs of
             Inl e \<Rightarrow> Inl e
           | Inr (cs', scripts') \<Rightarrow> Inr (cs @ cs', scripts @ scripts')))"

definition load_columns :: "string \<Rightarrow> run_path \<Rightarrow> py_error + column list" where
  "load_columns system path =
     (case path of
        RunFile st f \<Rightarrow>
          (case f of
             JReport c \<Rightarrow> Inr (if j_script c \<noteq> None then [merge [c] (column_label c st)] else label_columns [c] st)
           | JColumns cs \<Rightarrow> Inr (label_columns cs st)
           | _ \<Rightarrow> Inl (ValueError st))
      | RunDir d subs \<Rightarrow>
          if cd_index d \<noteq> None then load system d
          else
            (let sub = filter (\<lambda>s. cd_index s \<noteq> None) (sort_key cd_name subs);
                 files = column_files (dict_keys (cd_files d))
             in if sub \<noteq> [] then map_sum id (map snd) (fold_subdirs system sub [])
                else if files = [] then Inl (SystemExitText (cd_name d @ '': no reports here''))
                else case split_files (map (\<lambda>p. (p, the (dict_get (cd_files d) p))) files) of
                       Inl e \<Rightarrow> Inl e
                     | Inr (cs, []) \<Rightarrow> Inr cs
                     | Inr (cs, s # ss) \<Rightarrow>
                         Inr (cs @ [merge (s # ss)
                           (column_label (empty_column\<lparr>j_context := Some (get_or [] (j_context s))\<rparr>) (cd_name d))])))"

section \<open>Outcomes and their comparison\<close>

definition column_outcomes :: "column \<Rightarrow> (string, string) dict" where
  "column_outcomes c = dict_of (map (\<lambda>r. (result_key r, d_outcome r)) (column_results c))"

type_synonym run = "(string, (string, string) dict) dict"

definition add_column :: "column \<Rightarrow> run \<Rightarrow> run" where
  "add_column c run =
     (let lab = label c; r = setdefault lab [] run
      in if status c \<noteq> ''ok'' then r
         else dict_set lab (dict_update (the (dict_get r lab)) (column_outcomes c)) r)"

fun load_run :: "string \<Rightarrow> run_path list \<Rightarrow> run \<Rightarrow> py_error + run" where
  "load_run system [] run = Inr run"
| "load_run system (p # ps) run =
     (case load_columns system p of
        Inl e \<Rightarrow> Inl e
      | Inr cs \<Rightarrow> load_run system ps (fold add_column cs run))"

definition tab :: string where "tab = [CHR 0x09]"

definition as_text :: "string list \<Rightarrow> string" where
  "as_text lines = rstrip_chars {CHR 0x0A} (join nl lines) @ nl"

definition render :: "run \<Rightarrow> string" where
  "render run =
     as_text (concat (map (\<lambda>lab.
       [''== '' @ lab @ '' ==''] @
       (let d = the (dict_get run lab) in map (\<lambda>k. the (dict_get d k) @ tab @ k) (sort (dict_keys d))) @ [[]])
       (sort (dict_keys run))))"

definition REGRESSIONS :: "(string \<times> string) list" where
  "REGRESSIONS = [(PASS, FAIL), (PASS, SKIP)]"

record changes =
  c_regressed :: "string list"
  c_fixed :: "string list"
  c_other :: "string list"
  c_appeared :: "string list"
  c_vanished :: "string list"

definition diff_keys :: "(string, string) dict \<Rightarrow> (string, string) dict \<Rightarrow> changes" where
  "diff_keys a b =
     (let ks = sort (dict_keys a); inb = (\<lambda>k. k \<in> set (dict_keys b));
          av = (\<lambda>k. the (dict_get a k)); bv = (\<lambda>k. the (dict_get b k))
      in \<lparr>c_regressed = filter (\<lambda>k. inb k \<and> (av k, bv k) \<in> set REGRESSIONS) ks,
          c_fixed = filter (\<lambda>k. inb k \<and> av k \<noteq> PASS \<and> bv k = PASS) ks,
          c_other = filter (\<lambda>k. inb k \<and> av k \<noteq> bv k \<and> (av k, bv k) \<notin> set REGRESSIONS \<and> bv k \<noteq> PASS) ks,
          c_appeared = filter (\<lambda>k. k \<notin> set (dict_keys a)) (sort (dict_keys b)),
          c_vanished = filter (\<lambda>k. \<not> inb k) ks\<rparr>)"

definition count_changes :: "changes \<Rightarrow> nat" where
  "count_changes c = length (c_regressed c) + length (c_fixed c) + length (c_other c) +
     length (c_appeared c) + length (c_vanished c)"

definition diff_lines :: "string \<Rightarrow> (string, string) dict \<Rightarrow> (string, string) dict \<Rightarrow> string list" where
  "diff_lines lab a b =
     (let c = diff_keys a b;
          av = (\<lambda>k. the (dict_get a k)); bv = (\<lambda>k. the (dict_get b k));
          arrow = map (\<lambda>k. av k @ '' -> '' @ bv k @ tab @ k)
      in [''== '' @ lab @ '' ==''] @
         concat (map (\<lambda>(title, rs). if rs = [] then [] else [''-- '' @ title @ '' ('' @ str_nat (length rs) @ '')''] @ rs)
           [(''regressed'', arrow (c_regressed c)), (''fixed'', map (\<lambda>k. PASS @ tab @ k) (c_fixed c)),
            (''changed'', arrow (c_other c)), (''new checks'', map (\<lambda>k. bv k @ tab @ k) (c_appeared c)),
            (''gone'', map (\<lambda>k. av k @ tab @ k) (c_vanished c))]) @
         [str_nat (length (c_regressed c)) @ '' regressed, '' @ str_nat (length (c_fixed c)) @ '' fixed, '' @
          str_nat (length (c_other c)) @ '' changed '' @ ''otherwise, '' @ str_nat (length (c_appeared c)) @ '' new, '' @
          str_nat (length (c_vanished c)) @ '' gone; '' @
          str_nat (card (set (dict_keys a) \<inter> set (dict_keys b))) @ '' checks in both'', []])"

definition compare_label :: "run \<Rightarrow> run \<Rightarrow> string \<Rightarrow> string list \<times> nat" where
  "compare_label now before lab =
     (case (dict_get before lab, dict_get now lab) of
        (None, _) \<Rightarrow> ([''== '' @ lab @ '': not in the earlier run ==''], 0)
      | (Some a, None) \<Rightarrow> ([''== '' @ lab @ '': not in this run ==''], 0)
      | (Some a, Some b) \<Rightarrow> (diff_lines lab a b, count_changes (diff_keys a b)))"

definition all_labels :: "run \<Rightarrow> run \<Rightarrow> string list" where
  "all_labels now before = sort (remdups (dict_keys now @ dict_keys before))"

definition compare_runs :: "run \<Rightarrow> run \<Rightarrow> string list \<times> nat" where
  "compare_runs now before =
     (let rs = map (compare_label now before) (all_labels now before)
      in (concat (map fst rs), sum_list (map snd rs)))"

text \<open>\<open>outcomes_main\<close>: the text and the line printed when it went to a file, or the exit status.\<close>

definition outcomes_main :: "string \<Rightarrow> run_path list \<Rightarrow> run_path list \<Rightarrow> string option \<Rightarrow> py_error + int \<times> string \<times> string" where
  "outcomes_main system given against out =
     (case load_run system given [] of
        Inl e \<Rightarrow> Inl e
      | Inr now \<Rightarrow>
          if now = [] then Inr (4, [], [])
          else
            (case (if against = [] then Inr (render now)
                   else case load_run system against [] of
                          Inl e \<Rightarrow> Inl e
                        | Inr before \<Rightarrow> Inr (as_text (fst (compare_runs now before)))) of
               Inl e \<Rightarrow> Inl e
             | Inr t \<Rightarrow>
                 (case out of
                    Some f \<Rightarrow> Inr (0, t, f @ '': '' @ str_nat (sum_list (map (\<lambda>x. length (snd x)) now)) @
                                '' outcomes across '' @ str_nat (length now) @ '' column(s)'')
                  | None \<Rightarrow> Inr (0, t, []))))"

section \<open>Lemmas\<close>

lemma setdefault_keys: "dict_keys (setdefault k v d) = (if k \<in> set (dict_keys d) then dict_keys d else dict_keys d @ [k])"
  by (simp add: setdefault_def dict_keys_def)

lemma setdefault_get:
  "dict_get (setdefault k v d) k' = (if k' = k \<and> dict_get d k = None then Some v else dict_get d k')"
  using alist_dict.get_keys[of d k] by (auto simp: setdefault_def dict_get_def dict_keys_def map_add_def split: option.split)

text \<open>A run as the loader builds it: every label and every key once.\<close>

definition run_ok :: "run \<Rightarrow> bool" where
  "run_ok run \<longleftrightarrow> distinct (dict_keys run) \<and> (\<forall>lab d. dict_get run lab = Some d \<longrightarrow> distinct (dict_keys d))"

lemma distinct_update: "distinct (dict_keys d) \<Longrightarrow> distinct (dict_keys (dict_update d kvs))"
  by (simp add: dict_update_def alist_dict.distinct_keys_fold_put)

lemma add_column_ok: "run_ok run \<Longrightarrow> run_ok (add_column c run)"
proof -
  assume ok: "run_ok run"
  let ?r = "setdefault (label c) [] run"
  have r: "run_ok ?r"
    using ok by (auto simp: run_ok_def setdefault_keys setdefault_get alist_dict.keys_empty split: if_splits)
  have "dict_get ?r (label c) \<noteq> None"
    by (simp add: setdefault_get)
  then obtain d where "dict_get ?r (label c) = Some d" by blast
  with r show ?thesis
    by (auto simp: add_column_def run_ok_def Let_def alist_dict.keys_put alist_dict.get_put
        intro: distinct_update split: if_splits)
qed

lemma load_run_ok: "load_run system ps run = Inr out \<Longrightarrow> run_ok run \<Longrightarrow> run_ok out"
proof (induction ps arbitrary: run)
  case (Cons p ps)
  have "run_ok (fold add_column cs run)" for cs
    using Cons.prems(2) by (induction cs arbitrary: run) (simp_all add: add_column_ok)
  with Cons show ?case by (auto split: sum.splits)
qed simp

lemma run_ok_empty: "run_ok []"
  by (simp add: run_ok_def dict_keys_def dict_get_def)

text \<open>The five kinds of change are the ways two outcomes of a key can differ, each key in one of them.\<close>

lemma dict_get_in_keys: "k \<in> set (dict_keys d) \<longleftrightarrow> dict_get d k \<noteq> None"
  using alist_dict.get_keys[of d k] by simp

lemma diff_keys_exact:
  fixes a b :: "(string, string) dict"
  assumes "distinct (dict_keys a)" "distinct (dict_keys b)"
  defines "c \<equiv> diff_keys a b"
  defines "all \<equiv> c_regressed c @ c_fixed c @ c_other c @ c_appeared c @ c_vanished c"
  shows "distinct all" and "set all = {k. dict_get a k \<noteq> dict_get b k}"
proof -
  have sets: "set (c_regressed c) = {k. dict_get b k \<noteq> None \<and> dict_get a k = Some PASS \<and> (dict_get b k = Some FAIL \<or> dict_get b k = Some SKIP)}"
    "set (c_fixed c) = {k. dict_get a k \<noteq> None \<and> dict_get a k \<noteq> Some PASS \<and> dict_get b k = Some PASS}"
    "set (c_other c) = {k. dict_get a k \<noteq> None \<and> dict_get b k \<noteq> None \<and> dict_get a k \<noteq> dict_get b k \<and>
       dict_get b k \<noteq> Some PASS \<and> \<not> (dict_get a k = Some PASS \<and> (dict_get b k = Some FAIL \<or> dict_get b k = Some SKIP))}"
    "set (c_appeared c) = {k. dict_get a k = None \<and> dict_get b k \<noteq> None}"
    "set (c_vanished c) = {k. dict_get a k \<noteq> None \<and> dict_get b k = None}"
    by (auto simp: c_def diff_keys_def Let_def dict_get_in_keys REGRESSIONS_def)
  have each: "distinct (c_regressed c)" "distinct (c_fixed c)" "distinct (c_other c)" "distinct (c_appeared c)" "distinct (c_vanished c)"
    using assms(1,2) by (simp_all add: c_def diff_keys_def Let_def)
  show "set all = {k. dict_get a k \<noteq> dict_get b k}"
    unfolding all_def set_append sets by auto
  show "distinct all" unfolding all_def distinct_append set_append sets using each by auto
qed

lemma count_changes_exact:
  assumes "distinct (dict_keys a)" "distinct (dict_keys b)"
  shows "count_changes (diff_keys a b) = card {k. dict_get a k \<noteq> dict_get b k}"
proof -
  let ?c = "diff_keys a b"
  let ?all = "c_regressed ?c @ c_fixed ?c @ c_other ?c @ c_appeared ?c @ c_vanished ?c"
  have "count_changes ?c = length ?all" by (simp add: count_changes_def)
  also have "\<dots> = card (set ?all)" using diff_keys_exact(1)[OF assms] by (simp only: distinct_card)
  finally show ?thesis unfolding diff_keys_exact(2)[OF assms] .
qed

lemma load_entries_columns:
  "load_entries system files es = Inr cs \<Longrightarrow>
     length cs = length es \<and> (\<forall>i<length es. load_entry system files (es ! i) = Inr (cs ! i))"
proof (induction es arbitrary: cs)
  case (Cons e es)
  then obtain c cs' where c: "load_entry system files e = Inr c" "load_entries system files es = Inr cs'" "cs = c # cs'"
    by (auto split: sum.splits)
  have "load_entry system files ((e # es) ! i) = Inr (cs ! i)" if "i < length (e # es)" for i
    using that c Cons.IH[OF c(2)] by (cases i) auto
  with c Cons.IH[OF c(2)] show ?case by simp
qed simp

section \<open>Properties\<close>

text \<open>C14: comparing two runs neither misses a change nor invents one. For two runs as they are loaded, the
  number of changes counted is, summed over the columns both runs have, the number of
  checks whose outcome is not the same in both, a check missing from one of them included; each
  such check is listed in exactly one of the five groups.\<close>

theorem compare_counts_changes:
  assumes "load_run system ps [] = Inr now" and "load_run system' qs [] = Inr before"
  shows "snd (compare_runs now before) =
    (\<Sum>lab \<in> set (dict_keys now) \<inter> set (dict_keys before).
       card {k. dict_get (the (dict_get before lab)) k \<noteq> dict_get (the (dict_get now lab)) k})"
proof -
  have ok: "run_ok now" "run_ok before" using assms load_run_ok run_ok_empty by blast+
  let ?n = "\<lambda>lab. card {k. dict_get (the (dict_get before lab)) k \<noteq> dict_get (the (dict_get now lab)) k}"
  let ?I = "set (dict_keys now) \<inter> set (dict_keys before)"
  have one: "snd (compare_label now before lab) = (if lab \<in> ?I then ?n lab else 0)" for lab
  proof (cases "dict_get before lab")
    case (Some a)
    show ?thesis
    proof (cases "dict_get now lab")
      case (Some b)
      have "distinct (dict_keys a)" "distinct (dict_keys b)"
        using ok \<open>dict_get before lab = Some a\<close> Some by (auto simp: run_ok_def)
      with Some \<open>dict_get before lab = Some a\<close> show ?thesis
        by (simp add: compare_label_def count_changes_exact dict_get_in_keys)
    qed (simp add: compare_label_def dict_get_in_keys Some)
  qed (simp add: compare_label_def dict_get_in_keys)
  have labels: "set (all_labels now before) = set (dict_keys now) \<union> set (dict_keys before)"
    "distinct (all_labels now before)" by (simp_all add: all_labels_def)
  have "snd (compare_runs now before) = (\<Sum>lab\<leftarrow>all_labels now before. if lab \<in> ?I then ?n lab else 0)"
    by (simp add: compare_runs_def Let_def comp_def one)
  also have "\<dots> = (\<Sum>lab\<in>set (dict_keys now) \<union> set (dict_keys before). if lab \<in> ?I then ?n lab else 0)"
    using labels by (simp add: sum_list_distinct_conv_sum_set)
  also have "\<dots> = (\<Sum>lab\<in>?I. ?n lab)"
    by (rule sum.mono_neutral_cong_right) auto
  finally show ?thesis .
qed

theorem compare_counts_changes_witness:
  "snd (compare_runs [(''A'', [(''x'', ''PASS'')])] [(''A'', [(''x'', ''FAIL'')])]) = 1"
proof -
  let ?run = "\<lambda>out. RunFile ''A'' (JReport (empty_column\<lparr>j_label := Some ''A'', j_results := Some [example_result ''x'' out]\<rparr>))"
  have l: "load_run ''Linux'' [?run ''PASS''] [] = Inr [(''A'', [(''x'', ''PASS'')])]"
    "load_run ''Linux'' [?run ''FAIL''] [] = Inr [(''A'', [(''x'', ''FAIL'')])]" by code_simp+
  have "{k. dict_get [(''x'', ''FAIL'')] k \<noteq> dict_get [(''x'', ''PASS'')] k} = {''x''}"
    by (auto simp: dict_get_def)
  with compare_counts_changes[OF l] show ?thesis by (simp add: dict_keys_def dict_get_def)
qed

end
