(* ===== verification/Visa.thy ===== *)
theory Visa
  imports Harness Backends
begin

text \<open>
  The part of \<^verbatim>\<open>testgear/visa.py\<close> that talks to an instrument. The instrument, pyvisa's session
  and the library below it are the parameter \<open>'i instr\<close>: functions from the state of the
  instrument to an answer and its next state, so every call that changes it is an explicit step.
  An answer is a value or the exception it raised; what the instrument raises is taken to be a
  subclass of \<^verbatim>\<open>Exception\<close>. \<open>session\<close> is the context manager, with the body of the
  \<^verbatim>\<open>with\<close> statement as its argument.
\<close>

record 'i instr =
  i_query :: "string \<Rightarrow> 'i \<Rightarrow> (exn + string) \<times> 'i"
  i_write :: "string \<Rightarrow> 'i \<Rightarrow> exn option \<times> 'i"
  i_clear :: "'i \<Rightarrow> exn option \<times> 'i"
  i_timeout :: "'i \<Rightarrow> int"
  i_set_timeout :: "int \<Rightarrow> 'i \<Rightarrow> 'i"
  i_set_attr :: "bool \<Rightarrow> 'i \<Rightarrow> unit call_end \<times> 'i"          \<comment> \<open>the overlap attribute\<close>
  i_get_attr :: "'i \<Rightarrow> int option call_end \<times> 'i"
  i_close :: "'i \<Rightarrow> exn option \<times> 'i"

section \<open>The error queue\<close>

definition DESYNC_ERRORS :: "int list" where
  "DESYNC_ERRORS = [-410, -420, -430, -440, -363, -365]"

definition queue_empty :: "string \<Rightarrow> bool" where
  "queue_empty err \<longleftrightarrow> startswith err ''0,'' \<or> startswith err ''+0,''"

fun drain_errors :: "'i instr \<Rightarrow> nat \<Rightarrow> 'i \<Rightarrow> string list \<times> 'i" where
  "drain_errors I 0 s = ([], s)"
| "drain_errors I (Suc limit) s =
     (case i_query I ''SYST:ERR?'' s of
        (Inl e, s') \<Rightarrow> ([], s')
      | (Inr reply, s') \<Rightarrow>
          (let err = strip reply
           in if queue_empty err then ([], s')
              else case drain_errors I limit s' of (found, s'') \<Rightarrow> (err # found, s'')))"

definition error_code :: "string \<Rightarrow> int" where
  "error_code entry = (case py_int (hd (split_on '','' entry)) of None \<Rightarrow> 0 | Some c \<Rightarrow> c)"

definition file_error :: "string \<Rightarrow> string \<Rightarrow> string \<Rightarrow> stats \<Rightarrow> stats" where
  \<comment> \<open>one turn of the loop in \<^verbatim>\<open>check_errors\<close>\<close>
  "file_error caller where0 entry st =
     (let code = error_code entry
      in case dict_get (st_expected_desync st) code of
           Some reason \<Rightarrow>
             stats_note (''instrument reported '' @ entry @ where0 @ '', which this script '' @
               ''provokes on purpose: '' @ reason) st
         | None \<Rightarrow>
             if code \<in> set DESYNC_ERRORS
             then stats_error caller (''instrument reported an I/O desync'' @ where0 @ '': '' @ entry) None [] [] [] st
             else stats_note (''instrument error'' @ where0 @ '': '' @ entry) st)"

definition check_errors :: "'i instr \<Rightarrow> string \<Rightarrow> string \<Rightarrow> 'i \<Rightarrow> stats \<Rightarrow> string list \<times> 'i \<times> stats" where
  "check_errors I caller context st0 st =
     (let where0 = (if context = [] then [] else '' '' @ context);
          (found, s) = drain_errors I 50 st0
      in (found, s, fold (file_error caller where0) found st))"

section \<open>Sessions\<close>

definition is_hislip :: "string \<Rightarrow> bool" where
  "is_hislip resource \<longleftrightarrow> contains ''::hislip'' (lower resource)"

definition set_hislip_overlap :: "visa_env \<Rightarrow> 'i instr \<Rightarrow> bool \<Rightarrow> 'i \<Rightarrow> (exn + bool option) \<times> 'i" where
  "set_hislip_overlap env I overlapped s =
     (case i_set_attr I overlapped s of
        (r, s1) \<Rightarrow>
          (case call_status ''set_attribute'' r of
             Inl e \<Rightarrow> (Inl e, s1)
           | Inr _ \<Rightarrow>
               (case i_get_attr I s1 of
                  (r2, s2) \<Rightarrow>
                    (case call ''get_attribute'' r2 of
                       Inl e \<Rightarrow> (Inl e, s2)
                     | Inr (value, st) \<Rightarrow>
                         if st \<noteq> StatusCode (ve_success env) then (Inr None, s2)
                         else case value of
                                Some (Some v) \<Rightarrow> (Inr (Some (v \<noteq> 0)), s2)
                              | _ \<Rightarrow> (Inr None, s2)))))"

definition Skip :: "string \<Rightarrow> exn" where
  "Skip msg = plain_exn [''Skip'', ''Exception'', ''BaseException''] msg"

definition mode_skip :: "string \<Rightarrow> bool option \<Rightarrow> exn" where
  "mode_skip mode got =
     Skip (''--hislip-mode '' @ mode @ '': the session is '' @
       (case got of None \<Rightarrow> ''in an unknown mode'' | Some b \<Rightarrow> if b then ''overlapped'' else ''synchronized'') @
       '' after asking, so it cannot run in the mode requested'')"

definition in_mode :: "visa_env \<Rightarrow> 'i instr \<Rightarrow> string option \<Rightarrow> string \<Rightarrow> 'i \<Rightarrow> exn option \<times> 'i" where
  \<comment> \<open>the check before the body runs\<close>
  "in_mode env I hislip_mode resource s =
     (case hislip_mode of
        None \<Rightarrow> (None, s)
      | Some mode \<Rightarrow>
          if mode = [] \<or> \<not> is_hislip resource then (None, s)
          else case set_hislip_overlap env I (mode = ''overlapped'') s of
                 (Inl e, s1) \<Rightarrow> (Some e, s1)
               | (Inr got, s1) \<Rightarrow>
                   if got \<noteq> Some (mode = ''overlapped'') then (Some (mode_skip mode got), s1) else (None, s1))"

text \<open>\<open>opened\<close> is what opening the resource gave: an exception, or the state of the open session.\<close>

definition session ::
  "visa_env \<Rightarrow> 'i instr \<Rightarrow> string option \<Rightarrow> string \<Rightarrow> int \<Rightarrow> exn + 'i \<Rightarrow> ('i \<Rightarrow> (exn + 'r) \<times> 'i) \<Rightarrow> (exn + 'r) \<times> 'i option" where
  "session env I hislip_mode resource timeout opened body =
     (case opened of
        Inl e \<Rightarrow> (Inl e, None)
      | Inr s0 \<Rightarrow>
          (let s = i_set_timeout I timeout s0;
               (r, s2) = (case in_mode env I hislip_mode resource s of
                            (Some e, s1) \<Rightarrow> (Inl e, s1)
                          | (None, s1) \<Rightarrow> body s1)
           in (r, Some (snd (i_close I s2)))))"

section \<open>Choosing a large query\<close>

definition supports :: "'i instr \<Rightarrow> string \<Rightarrow> 'i \<Rightarrow> bool \<times> 'i" where
  "supports I query s =
     (case i_query I query s of
        (Inl e, s1) \<Rightarrow> (False, snd (drain_errors I 50 (snd (i_clear I s1))))
      | (Inr reply, s1) \<Rightarrow> if reply = [] then (False, snd (drain_errors I 50 s1)) else (True, s1))"

record recipe =
  rc_commands :: "string list"
  rc_big_query :: string
  rc_note :: string
  rc_timeout :: int

definition PREPARE_RECIPES :: "(string, recipe) dict" where
  "PREPARE_RECIPES =
     [(''34401A'', \<lparr>rc_commands = [''*CLS'', ''CONF:VOLT:DC 10'', ''VOLT:DC:NPLC 0.02'', ''TRIG:SOUR IMM'',
          ''SAMP:COUN 200'', ''INIT''],
        rc_big_query = ''FETC?'', rc_note = ''200 stored readings, about 3.2 kB from FETC?'', rc_timeout = 30000\<rparr>)]"

fun write_all :: "'i instr \<Rightarrow> string list \<Rightarrow> 'i \<Rightarrow> exn option \<times> 'i" where
  "write_all I [] s = (None, s)"
| "write_all I (c # cs) s =
     (case i_write I c s of (Some e, s1) \<Rightarrow> (Some e, s1) | (None, s1) \<Rightarrow> write_all I cs s1)"

definition prepare_instrument :: "'i instr \<Rightarrow> 'i \<Rightarrow> stats \<Rightarrow> (exn + string option) \<times> 'i \<times> stats" where
  "prepare_instrument I s st =
     (case i_query I ''*IDN?'' s of
        (Inl e, s1) \<Rightarrow> (Inr None, s1, st)
      | (Inr reply, s1) \<Rightarrow>
          (let idn = strip reply
           in case filter (\<lambda>(key, r). contains key idn) PREPARE_RECIPES of
                [] \<Rightarrow> (Inr None, s1, stats_note (''--prepare: no recipe for '' @ idn @ '', leaving it alone'') st)
              | (_, r) # _ \<Rightarrow>
                  (let st1 = stats_note (''--prepare: reconfiguring the instrument ('' @ rc_note r @ ''). '' @
                               ''This changes its measurement setup: '' @ join ''; '' (rc_commands r)) st
                   in case write_all I (rc_commands r) s1 of
                        (Some e, s2) \<Rightarrow> (Inl e, s2, st1)
                      | (None, s2) \<Rightarrow>
                          (let (s3, st2) =
                             (if i_timeout I s2 < rc_timeout r
                              then (i_set_timeout I (rc_timeout r) s2,
                                    stats_note (''--prepare: raised the timeout to '' @ str_int (rc_timeout r) @ '' ms'') st1)
                              else (s2, st1))
                           in (Inr (Some (rc_big_query r)), snd (drain_errors I 50 s3), st2)))))"

definition big_query_is_stable :: "'i instr \<Rightarrow> string \<Rightarrow> 'i \<Rightarrow> stats \<Rightarrow> bool \<times> 'i \<times> stats" where
  "big_query_is_stable I query s st =
     (case i_query I query s of
        (Inl e, s1) \<Rightarrow> (False, snd (drain_errors I 50 s1), st)
      | (Inr first, s1) \<Rightarrow>
          (case i_query I query s1 of
             (Inl e, s2) \<Rightarrow> (False, snd (drain_errors I 50 s2), st)
           | (Inr second, s2) \<Rightarrow>
               if first = second then (True, s2, st)
               else (False, s2,
                 stats_note (query @ '' answers differently each time it is asked '' @
                   ''('' @ str_nat (length first) @ '' then '' @ str_nat (length second) @ '' bytes), so it reports instrument '' @
                   ''state rather than a fixed payload. The large-reply checks compare '' @
                   ''lengths only'' @ (if length first = length second then [] else '' and even those disagree'') @
                   '' -- name a stable --big-query to get back a byte-for-byte compare'') st)))"

record big_args =
  ba_prepare :: bool
  ba_big_query :: "string option"

definition resolve_big_query ::
  "'i instr \<Rightarrow> string \<Rightarrow> big_args \<Rightarrow> bool \<Rightarrow> 'i \<Rightarrow> stats \<Rightarrow> (exn + string option) \<times> 'i \<times> stats" where
  \<comment> \<open>\<open>mock\<close>: there is a mock server\<close>
  "resolve_big_query I caller a mock s st =
     (case (if ba_prepare a then prepare_instrument I s st else (Inr None, s, st)) of
        (Inl e, s1, st1) \<Rightarrow> (Inl e, s1, st1)
      | (Inr (Some q), s1, st1) \<Rightarrow> (Inr (Some q), s1, st1)
      | (Inr None, s1, st1) \<Rightarrow>
          if (case ba_big_query a of None \<Rightarrow> True | Some q \<Rightarrow> q = []) \<and> mock then (Inr (Some ''TEST:BIG?''), s1, st1)
          else
            (let query = (case ba_big_query a of None \<Rightarrow> ''*LRN?'' | Some q \<Rightarrow> if q = [] then ''*LRN?'' else q)
             in case supports I query s1 of
                  (True, s2) \<Rightarrow> (Inr (Some query), s2, st1)
                | (False, s2) \<Rightarrow>
                    (Inr None, s2, stats_skip caller (''the large-response checks: '' @ query @ '' is not usable here. Pass '' @
                       ''--big-query to name one that works, or --prepare if this '' @
                       ''instrument has a recipe'') [] [] st1)))"

definition open_fd_count :: "(string \<Rightarrow> nat option) \<Rightarrow> int" where
  \<comment> \<open>how many entries a directory lists, if it can be listed\<close>
  "open_fd_count listing =
     (case listing ''/dev/fd'' of
        Some n \<Rightarrow> int n
      | None \<Rightarrow> (case listing ''/proc/self/fd'' of Some n \<Rightarrow> int n | None \<Rightarrow> -1))"

section \<open>Lemmas\<close>

lemma note_sel [simp]:
  "st_failures (stats_note m st) = st_failures st" "st_skipped (stats_note m st) = st_skipped st"
  "st_results (stats_note m st) = st_results st" "st_notes (stats_note m st) = st_notes st @ [m]"
  "st_expected_desync (stats_note m st) = st_expected_desync st"
  by (simp_all add: stats_note_def say_def)

definition is_finding :: "stats \<Rightarrow> string \<Rightarrow> bool" where
  \<comment> \<open>a desync the script did not declare\<close>
  "is_finding st entry \<longleftrightarrow>
     error_code entry \<in> set DESYNC_ERRORS \<and> dict_get (st_expected_desync st) (error_code entry) = None"

lemma file_error_counts:
  "length (st_failures (file_error c w e st)) = length (st_failures st) + (if is_finding st e then 1 else 0)"
  "length (st_notes (file_error c w e st)) = length (st_notes st) + (if is_finding st e then 0 else 1)"
  "st_expected_desync (file_error c w e st) = st_expected_desync st"
  "length (st_results (file_error c w e st)) = length (st_results st) + (if is_finding st e then 1 else 0)"
  by (auto simp: file_error_def is_finding_def stats_error_def add_fail_def say_def Let_def split: option.splits)

lemma fold_file_error:
  "length (st_failures (fold (file_error c w) es st)) = length (st_failures st) + length (filter (is_finding st) es) \<and>
   length (st_notes (fold (file_error c w) es st)) = length (st_notes st) + length (filter (\<lambda>e. \<not> is_finding st e) es) \<and>
   length (st_results (fold (file_error c w) es st)) = length (st_results st) + length (filter (is_finding st) es)"
proof (induction es arbitrary: st)
  case (Cons e es)
  have "is_finding (file_error c w e st) = is_finding st"
    by (auto simp: is_finding_def file_error_counts fun_eq_iff)
  with Cons[of "file_error c w e st"] show ?case by (simp add: file_error_counts)
qed simp

lemma drain_errors_bound: "length (fst (drain_errors I n s)) \<le> n"
  by (induction I n s rule: drain_errors.induct) (auto simp: Let_def split: prod.splits sum.splits)

lemma drain_errors_nonempty: "e \<in> set (fst (drain_errors I n s)) \<Longrightarrow> \<not> queue_empty e"
  by (induction I n s rule: drain_errors.induct) (auto simp: Let_def split: prod.splits sum.splits if_splits)

section \<open>Properties\<close>

text \<open>Draining empties the instrument's error queue. For an instrument that answers the queue query
  with the oldest entry and removes it, and with a no-error entry once there is none, draining returns the
  entries in order, as many as the limit allows, and leaves the rest of the queue in place; a queue of up to
  the limit is left empty.\<close>

theorem drain_empties_queue:
  fixes q :: "'i \<Rightarrow> string list"
  assumes pop: "\<And>s e es. q s = e # es \<Longrightarrow> \<exists>s'. i_query I ''SYST:ERR?'' s = (Inr e, s') \<and> q s' = es"
    and none: "\<And>s. q s = [] \<Longrightarrow> \<exists>r s'. i_query I ''SYST:ERR?'' s = (Inr r, s') \<and> queue_empty (strip r) \<and> q s' = []"
    and errs: "\<forall>e\<in>set (q s). \<not> queue_empty (strip e)"
  shows "fst (drain_errors I n s) = map strip (take n (q s)) \<and> q (snd (drain_errors I n s)) = drop n (q s)"
  using errs
proof (induction n arbitrary: s)
  case (Suc n)
  show ?case
  proof (cases "q s")
    case Nil
    then obtain r s' where "i_query I ''SYST:ERR?'' s = (Inr r, s')" "queue_empty (strip r)" "q s' = []"
      using none by blast
    with Nil show ?thesis by (simp add: Let_def)
  next
    case (Cons e es)
    then obtain s' where s': "i_query I ''SYST:ERR?'' s = (Inr e, s')" "q s' = es" using pop by blast
    have "\<not> queue_empty (strip e)" using Suc.prems Cons by simp
    moreover have "fst (drain_errors I n s') = map strip (take n es) \<and> q (snd (drain_errors I n s')) = drop n es"
      using Suc.IH[of s'] Suc.prems Cons s'(2) by simp
    ultimately show ?thesis using Cons s'(1) by (simp add: Let_def case_prod_unfold)
  qed
qed simp

definition list_instr :: "string list instr" where
  \<comment> \<open>used by the example: an instrument that is its error queue\<close>
  "list_instr = \<lparr>i_query = (\<lambda>_ s. case s of [] \<Rightarrow> (Inr ''+0,No error'', []) | e # es \<Rightarrow> (Inr e, es)),
     i_write = (\<lambda>_ s. (None, s)), i_clear = (\<lambda>s. (None, [])), i_timeout = (\<lambda>_. 0), i_set_timeout = (\<lambda>_ s. s),
     i_set_attr = (\<lambda>_ s. (Single (StatusCode 0), s)), i_get_attr = (\<lambda>s. (Single (StatusCode 0), s)),
     i_close = (\<lambda>s. (None, s))\<rparr>"

theorem drain_empties_queue_witness:
  "fst (drain_errors list_instr 50 [''-410,x'', ''-113,y'']) = [''-410,x'', ''-113,y'']"
proof -
  have e: "queue_empty (strip ''+0,No error'')" "\<not> queue_empty (strip ''-410,x'')" "\<not> queue_empty (strip ''-113,y'')"
    "map strip (take 50 [''-410,x'', ''-113,y'']) = [''-410,x'', ''-113,y'']" by code_simp+
  have "fst (drain_errors list_instr 50 [''-410,x'', ''-113,y'']) = map strip (take 50 [''-410,x'', ''-113,y''])"
    using drain_empties_queue[of "\<lambda>s. s" list_instr "[''-410,x'', ''-113,y'']" 50] e by (simp add: list_instr_def)
  then show ?thesis unfolding e(4) .
qed

text \<open>Every error the instrument reports is accounted for once. Of the entries drained, exactly those
  whose code means a desync and that the script did not declare beforehand become failures, one result row
  each; every other one becomes a note, and none is lost. At most fifty are read.\<close>

theorem check_errors_accounts:
  "case check_errors I caller context s st of (found, s', st') \<Rightarrow>
     length (st_failures st') = length (st_failures st) + length (filter (is_finding st) found) \<and>
     length (st_results st') = length (st_results st) + length (filter (is_finding st) found) \<and>
     length (st_notes st') = length (st_notes st) + length (filter (\<lambda>e. \<not> is_finding st e) found) \<and>
     length found \<le> 50 \<and> list_all (\<lambda>e. \<not> queue_empty e) found"
  using fold_file_error drain_errors_bound[of I 50 s] drain_errors_nonempty[of _ I 50 s]
  by (auto simp: check_errors_def Let_def list_all_iff split: prod.splits)



text \<open>A run without the large-reply checks says so. Choosing the large query either gives a query, and
  then nothing is recorded as skipped, or records exactly one skip; it never drops the checks silently.\<close>

theorem big_query_never_silent:
  "case resolve_big_query I caller a mock s st of (r, s', st') \<Rightarrow>
     (case r of
        Inr None \<Rightarrow> length (st_skipped st') = Suc (length (st_skipped st)) \<and>
                    length (st_results st') = Suc (length (st_results st))
      | _ \<Rightarrow> st_skipped st' = st_skipped st \<and> st_results st' = st_results st)"
proof -
  have prep: "st_skipped (snd (snd (prepare_instrument I s st))) = st_skipped st \<and>
      st_results (snd (snd (prepare_instrument I s st))) = st_results st"
    by (auto simp: prepare_instrument_def Let_def split: prod.splits sum.splits list.splits option.splits)
  obtain r1 s1 st1 where p: "(if ba_prepare a then prepare_instrument I s st else (Inr None, s, st)) = (r1, s1, st1)"
    by (metis prod_cases3)
  have same: "st_skipped st1 = st_skipped st" "st_results st1 = st_results st"
    using p prep by (auto split: if_splits)
  show ?thesis
    unfolding resolve_big_query_def p using same
    by (auto simp: Let_def stats_skip_def add_skip_def say_def split: sum.splits option.splits prod.splits bool.splits)
qed

end
