(* ===== verification/Script_Run.thy ===== *)
theory Script_Run
  imports Suite Visa Regex
begin

text \<open>
  \<^verbatim>\<open>testgear/script.py\<close> and \<^verbatim>\<open>testgear/cli.py\<close>: how one check script is invoked. \<open>default_args\<close> is what
  the shared parser gives when no option is passed; \<open>open_target\<close> decides what to test and
  against what; \<open>script_main\<close> is \<^verbatim>\<open>_run\<close>: the target, the bookkeeping, the checks inside the module's
  setup, the report written on every way out, and the summary. Its value says how the call
  ended, and \<open>script_process\<close> maps that to the exit code of the process. The module is
  a parameter: its checks, and what its setup records and raises on entry and on exit.
\<close>

section \<open>Arguments\<close>

record cli_args =
  ca_backend :: string
  ca_pyvisa_py :: "string option"
  ca_resource :: "string option"
  ca_protocol :: string
  ca_iterations :: int
  ca_timeout :: int
  ca_verbose :: bool
  ca_report :: "string option"
  ca_html :: "string option"
  ca_big_query :: "string option"
  ca_prepare :: bool
  ca_hislip_mode :: "string option"
  ca_no_proxy :: bool

definition default_args :: "(string \<Rightarrow> string option) \<Rightarrow> string option \<Rightarrow> cli_args" where
  \<comment> \<open>\<open>environ\<close> and the transport the script is for\<close>
  "default_args environ protocol =
     \<lparr>ca_backend = (case environ ''TESTGEAR_BACKEND'' of None \<Rightarrow> ''py'' | Some b \<Rightarrow> b),
      ca_pyvisa_py = environ ''TESTGEAR_PYVISA_PY'', ca_resource = environ ''TESTGEAR_RESOURCE'',
      ca_protocol = (case protocol of
           Some p \<Rightarrow> if p \<noteq> [] then p else (case environ ''TESTGEAR_PROTOCOL'' of None \<Rightarrow> ''hislip'' | Some e \<Rightarrow> e)
         | None \<Rightarrow> (case environ ''TESTGEAR_PROTOCOL'' of None \<Rightarrow> ''hislip'' | Some e \<Rightarrow> e)),
      ca_iterations = 200, ca_timeout = 5000, ca_verbose = False, ca_report = None, ca_html = None,
      ca_big_query = environ ''TESTGEAR_BIG_QUERY'', ca_prepare = False,
      ca_hislip_mode = (case environ ''TESTGEAR_HISLIP_MODE'' of None \<Rightarrow> None | Some m \<Rightarrow> if m = [] then None else Some m),
      ca_no_proxy = False\<rparr>"

definition given :: "string option \<Rightarrow> bool" where
  \<comment> \<open>an option that is set and not empty\<close>
  "given x \<longleftrightarrow> (case x of None \<Rightarrow> False | Some s \<Rightarrow> s \<noteq> [])"

section \<open>The target\<close>

record world =
  wo_machine :: machine
  wo_interp :: interp
  wo_tree :: "string \<Rightarrow> string"                     \<comment> \<open>a tree's path, expanded and resolved\<close>
  wo_server :: "bool \<Rightarrow> string option \<Rightarrow> exn + (string \<Rightarrow> string)"  \<comment> \<open>the mock started so: its resources\<close>

text \<open>What a step of the command line ends in: a value, an exit with messages, or an exception.\<close>

datatype 'a step = Next 'a | Leave int "string list" | Fails exn

definition exn_of :: "py_error \<Rightarrow> exn" where
  "exn_of e =
     (case e of
        KeyError m \<Rightarrow> plain_exn [''KeyError'', ''LookupError'', ''Exception'', ''BaseException''] m
      | ValueError m \<Rightarrow> plain_exn [''ValueError'', ''Exception'', ''BaseException''] m
      | RuntimeError m \<Rightarrow> plain_exn [''RuntimeError'', ''Exception'', ''BaseException''] m
      | TreeError m \<Rightarrow> plain_exn [''TreeError'', ''RuntimeError'', ''Exception'', ''BaseException''] m
      | SkipError m \<Rightarrow> plain_exn [''Skip'', ''Exception'', ''BaseException''] m
      | OSError m \<Rightarrow> plain_exn [''OSError'', ''Exception'', ''BaseException''] m
      | SystemExit c \<Rightarrow> plain_exn [''SystemExit'', ''BaseException''] (str_int c)
      | SystemExitText m \<Rightarrow> plain_exn [''SystemExit'', ''BaseException''] m)"

definition apply_tree :: "cli_args \<Rightarrow> world \<Rightarrow> world step" where
  "apply_tree a w =
     (if \<not> given (ca_pyvisa_py a) then Next w
      else case use_pyvisa_py_tree (mc_exists (wo_machine w)) (wo_tree w (the (ca_pyvisa_py a))) (wo_interp w) of
             Inr st \<Rightarrow> Next (w\<lparr>wo_interp := st\<rparr>)
           | Inl (TreeError m) \<Rightarrow> Leave 4 [''--pyvisa-py: '' @ m]
           | Inl e \<Rightarrow> Fails (exn_of e))"

definition resolve_backend :: "cli_args \<Rightarrow> world \<Rightarrow> (resolved \<times> world) step" where
  "resolve_backend a w0 =
     (case apply_tree a w0 of
        Leave c ls \<Rightarrow> Leave c ls
      | Fails e \<Rightarrow> Fails e
      | Next w \<Rightarrow>
          (case resolve (wo_machine w) (ca_backend a) of
             Inl e \<Rightarrow> Fails (exn_of e)
           | Inr r \<Rightarrow>
               if rv_available r then Next (r, w)
               else Leave 4 ([''backend '' @ py_repr (ca_backend a) @ '' is not available: '' @ rv_reason r] @
                     (if b_source (rv_spec r) = [] then [] else [''  get it from: '' @ b_source (rv_spec r)]) @
                     [''  available here: '' @ join '', '' (available_ids (wo_machine w))])))"

definition run_context :: "cli_args \<Rightarrow> world \<Rightarrow> resolved \<Rightarrow> string \<Rightarrow> (string, string) dict" where
  "run_context a w r resource =
     (let info = dict_set ''resource'' resource (provenance (wo_machine w) r)
      in case pyvisa_py_tree_note (if given (ca_pyvisa_py a) then ca_pyvisa_py a else None)
                (in_pythonpath (wo_interp w)) of
           None \<Rightarrow> info
         | Some note \<Rightarrow> dict_set ''warning'' note info)"

record target =
  tg_backend :: resolved
  tg_resource :: string
  tg_mock :: bool
  tg_hislip_mode :: "string option"     \<comment> \<open>\<^verbatim>\<open>visa.HISLIP_MODE\<close> while the target is open\<close>
  tg_world :: world

definition server_modes :: "string option \<Rightarrow> string option" where
  "server_modes mode = (if mode = Some ''overlapped'' then Some ''prefer-overlapped'' else None)"

definition open_target :: "cli_args \<Rightarrow> world \<Rightarrow> target step" where
  "open_target a w0 =
     (case resolve_backend a w0 of
        Leave c ls \<Rightarrow> Leave c ls
      | Fails e \<Rightarrow> Fails e
      | Next (r, w) \<Rightarrow>
          if given (ca_resource a) then
            Next \<lparr>tg_backend = r, tg_resource = the (ca_resource a), tg_mock = False,
                  tg_hislip_mode = ca_hislip_mode a, tg_world = w\<rparr>
          else if \<not> b_networked (rv_spec r) then
            Leave 4 [b_name (rv_spec r) @ '' does not speak network protocols, so it cannot '' @
                     ''talk to the mock server. Name a --resource it can reach.'']
          else
            (case wo_server w (\<not> ca_no_proxy a) (server_modes (ca_hislip_mode a)) of
               Inl e \<Rightarrow> Fails e
             | Inr resources \<Rightarrow>
                 Next \<lparr>tg_backend = r, tg_resource = resources (ca_protocol a), tg_mock = True,
                       tg_hislip_mode = None, tg_world = w\<rparr>))"

section \<open>A script\<close>

definition LEADING_NUMBER :: rx where
  \<comment> \<open>\<^verbatim>\<open>^\d+_\<close>\<close>
  "LEADING_NUMBER = rx_cat [Bol, rx_plus rx_digit, rx_lit ''_'']"

definition file_stem :: "string \<Rightarrow> string" where
  \<comment> \<open>\<^verbatim>\<open>pathlib.Path(path).stem\<close> of a path that ends in \<^verbatim>\<open>.py\<close>\<close>
  "file_stem path = (let n = path_name path in if endswith n ''.py'' \<and> n \<noteq> ''.py'' then take (length n - 3) n else n)"

definition title_for :: "string \<Rightarrow> string" where
  "title_for path =
     (let s = file_stem path
      in replace ''_'' '' '' (case rx_match LEADING_NUMBER s of None \<Rightarrow> s | Some c \<Rightarrow> fst (snd c)))"

record check_module =
  md_path :: string
  md_checks :: namespace
  md_setup :: "((stat_op list \<times> exn option) \<times> (stat_op list \<times> exn option)) option"
    \<comment> \<open>what entering the setup records and raises, and what leaving it does\<close>

definition only_of :: "string \<Rightarrow> string option" where
  "only_of path = (case dict_get BY_NAME (path_name path) of None \<Rightarrow> None | Some s \<Rightarrow> s_only s)"

definition unregistered_note :: "string \<Rightarrow> string list" where
  "unregistered_note path =
     (if dict_get BY_NAME (path_name path) = None
      then [''note: '' @ path_name path @ '' is not in testgear.suite.SCRIPTS, so it '' @
            ''runs only when invoked directly -- not in run_all.py, '' @ ''compare.py or CI'']
      else [])"

definition run_in_setup ::
  "visa_env \<Rightarrow> string list \<Rightarrow> rat option \<Rightarrow> exn option option \<Rightarrow> check_module \<Rightarrow> string \<Rightarrow> stats \<Rightarrow> run_end" where
  "run_in_setup env base watchdog on_timeout m protocol st =
     (let run = run_checks env base watchdog on_timeout (collect (md_checks m) (Some protocol))
      in case md_setup m of
           None \<Rightarrow> run st
         | Some ((ops, raised), (ops', raised')) \<Rightarrow>
             (case raised of
                Some e \<Rightarrow> Escaped e (apply_ops ops st)
              | None \<Rightarrow>
                  (case run (apply_ops ops st) of
                     Went st1 \<Rightarrow>
                       (case raised' of
                          None \<Rightarrow> Went (apply_ops ops' st1)
                        | Some e \<Rightarrow> Escaped e (apply_ops ops' st1))
                   | Escaped e st1 \<Rightarrow>
                       Escaped (case raised' of None \<Rightarrow> e | Some e' \<Rightarrow> e') (apply_ops ops' st1)
                   | Stuck st1 \<Rightarrow> Stuck st1)))"

text \<open>How a run of a script ended (\<open>None\<close>: it has not), the report it wrote, and its bookkeeping. The
  clock is read when the bookkeeping starts, when the report is built and for the summary.\<close>

record script_result =
  sc_end :: "main_end option"
  sc_report :: "column option"
  sc_stats :: "stats option"

definition script_name :: "string \<Rightarrow> string option \<Rightarrow> string \<Rightarrow> string" where
  "script_name title only protocol = (if given only then title else title @ '' ('' @ protocol @ '')'')"

definition script_main ::
  "visa_env \<Rightarrow> string list \<Rightarrow> (nat \<Rightarrow> rat) \<Rightarrow> rat option \<Rightarrow> exn option option \<Rightarrow> cli_args \<Rightarrow> world \<Rightarrow> string \<Rightarrow> string option \<Rightarrow> check_module \<Rightarrow> script_result" where
  "script_main env base clock watchdog on_timeout a w title only m =
     (if only \<noteq> None \<and> only \<noteq> Some (ca_protocol a)
      then \<lparr>sc_end = Some (Exits 4), sc_report = None, sc_stats = None\<rparr>
      else
        (case open_target a w of
           Leave c ls \<Rightarrow> \<lparr>sc_end = Some (Exits c), sc_report = None, sc_stats = None\<rparr>
         | Fails e \<Rightarrow> \<lparr>sc_end = Some (Throws e), sc_report = None, sc_stats = None\<rparr>
         | Next t \<Rightarrow>
             (let st0 = new_stats (script_name title only (ca_protocol a)) (ca_verbose a)
                          (Some (run_context a (tg_world t) (tg_backend t) (tg_resource t))) (clock 0);
                  report = (\<lambda>st. if given (ca_report a) then Some (stats_report (clock 1) st) else None)
              in case run_in_setup env base watchdog on_timeout m (ca_protocol a) st0 of
                   Went st \<Rightarrow> \<lparr>sc_end = Some (Exits (snd (finish (clock 2) st))), sc_report = report st,
                                sc_stats = Some (fst (finish (clock 2) st))\<rparr>
                 | Escaped e st \<Rightarrow> \<lparr>sc_end = Some (Throws e), sc_report = report st, sc_stats = Some st\<rparr>
                 | Stuck st \<Rightarrow> \<lparr>sc_end = None, sc_report = None, sc_stats = Some st\<rparr>)))"

text \<open>\<^verbatim>\<open>run\<close>: the title from the file name, the transport from the suite, and the exit code.\<close>

definition script_process ::
  "visa_env \<Rightarrow> string list \<Rightarrow> (nat \<Rightarrow> rat) \<Rightarrow> rat option \<Rightarrow> exn option option \<Rightarrow> cli_args \<Rightarrow> world \<Rightarrow> string option \<Rightarrow> check_module \<Rightarrow> int option" where
  "script_process env base clock watchdog on_timeout a w title m =
     map_option (harness_main env)
       (sc_end (script_main env base clock watchdog on_timeout a w
          (if given title then the title else title_for (md_path m)) (only_of (md_path m)) m))"

section \<open>Lemmas\<close>

fun stats_of :: "run_end \<Rightarrow> stats" where
  "stats_of (Went st) = st" | "stats_of (Escaped e st) = st" | "stats_of (Stuck st) = st"

lemma handle_raise_keeps: "stats_inv st \<Longrightarrow> stats_inv (stats_of (handle_raise env base ot f e st))"
  by (auto simp: handle_raise_def Let_def split: option.splits)

lemma run_check_keeps: "stats_inv st \<Longrightarrow> stats_inv (stats_of (run_check env base wd ot f st))"
  by (auto simp: run_check_def Let_def intro!: handle_raise_keeps split: option.splits check_end.splits)

lemma run_checks_keeps: "stats_inv st \<Longrightarrow> stats_inv (stats_of (run_checks env base wd ot fs st))"
proof (induction fs arbitrary: st)
  case (Cons f fs)
  from run_check_keeps[OF Cons.prems, of env base wd ot f] Cons.IH show ?case
    by (cases "run_check env base wd ot f st") simp_all
qed simp

lemma run_in_setup_keeps: "stats_inv st \<Longrightarrow> stats_inv (stats_of (run_in_setup env base wd ot m p st))"
proof -
  assume st: "stats_inv st"
  have r: "stats_inv (stats_of (run_checks env base wd ot fs (apply_ops ops st)))" for fs ops
    by (rule run_checks_keeps) (simp add: st)
  show ?thesis
  proof (cases "md_setup m")
    case None
    then show ?thesis using run_checks_keeps[OF st] by (simp add: run_in_setup_def)
  next
    case (Some x)
    obtain ops raised ops' raised' where x: "x = ((ops, raised), (ops', raised'))" by (metis surj_pair)
    show ?thesis
      using Some st r[of "collect (md_checks m) (Some p)" ops]
      by (cases raised; cases raised'; cases "run_checks env base wd ot (collect (md_checks m) (Some p)) (apply_ops ops st)")
        (simp_all add: run_in_setup_def x)
  qed
qed

lemma finish_sel: "st_failures (fst (finish t st)) = st_failures st" "st_results (fst (finish t st)) = st_results st"
proof -
  have f: "st_failures (fold (\<lambda>e. say (g e)) xs s) = st_failures s" "st_results (fold (\<lambda>e. say (g e)) xs s) = st_results s"
    for g :: "string \<Rightarrow> string" and xs s
    by (induction xs arbitrary: s) (simp_all add: say_def)
  have sa: "st_failures (say l s) = st_failures s" "st_results (say l s) = st_results s" for l s by (simp_all add: say_def)
  show "st_failures (fst (finish t st)) = st_failures st" "st_results (fst (finish t st)) = st_results st"
    by (simp_all add: finish_def Let_def f sa)
qed

lemma harness_main_throws: "harness_main env (Throws e) \<noteq> 0"
  by (simp add: harness_main_def)

lemma as_dict_outcome [simp]: "d_outcome (as_dict r) = r_outcome r"
  by (simp add: as_dict_def)

text \<open>A report whose counts are those of its rows.\<close>

definition report_consistent :: "column \<Rightarrow> bool" where
  "report_consistent c \<longleftrightarrow>
     (let rs = (case j_results c of None \<Rightarrow> [] | Some x \<Rightarrow> x);
          n = (\<lambda>out. Some (length (filter (\<lambda>r. d_outcome r = out) rs)))
      in j_results c \<noteq> None \<and> j_passed c = n PASS \<and> j_failed c = n FAIL \<and> j_skipped c = n SKIP)"

lemma stats_report_consistent: "stats_inv st \<Longrightarrow> report_consistent (stats_report t st)"
  by (simp add: report_consistent_def stats_report_def stats_inv_def tally_def filter_map comp_def Let_def)

lemma script_main_cases:
  assumes "sc_stats (script_main env base clock wd ot a w title only m) = Some st"
  obtains st1 where "stats_inv st1" "st_results st = st_results st1" "st_failures st = st_failures st1"
    "sc_end (script_main env base clock wd ot a w title only m) = None \<or>
     sc_report (script_main env base clock wd ot a w title only m) =
       (if given (ca_report a) then Some (stats_report (clock 1) st1) else None) \<and>
     (sc_end (script_main env base clock wd ot a w title only m) = Some (Exits (if st_failures st1 = [] then 0 else 1)) \<or>
      (\<exists>e. sc_end (script_main env base clock wd ot a w title only m) = Some (Throws e)))"
proof -
  obtain t where t: "open_target a w = Next t" and ok: "only = None \<or> only = Some (ca_protocol a)"
    using assms by (auto simp: script_main_def split: if_splits step.splits)
  let ?st0 = "new_stats (script_name title only (ca_protocol a)) (ca_verbose a)
    (Some (run_context a (tg_world t) (tg_backend t) (tg_resource t))) (clock 0)"
  let ?r = "run_in_setup env base wd ot m (ca_protocol a) ?st0"
  have inv: "stats_inv (stats_of ?r)" by (rule run_in_setup_keeps) (rule new_stats_inv)
  have fin: "snd (finish t' s) = (if st_failures s = [] then 0 else 1)" for t' s by (simp add: finish_def Let_def)
  from ok t assms show thesis
    by (cases ?r; intro that[of "stats_of ?r"] inv) (auto simp: script_main_def Let_def finish_sel fin)
qed

text \<open>Concrete inputs for the instances below.\<close>

definition example_machine :: machine where
  "example_machine = \<lparr>mc_system = ''Linux'', mc_release = ''6.1'', mc_python = ''3.12'', mc_exists = (\<lambda>_. False),
     mc_import = (\<lambda>_. None), mc_pyvisa = ''1.14'', mc_pyvisa_py = (''/t/pyvisa_py'', ''/t'', ''0.8''),
     mc_git = (\<lambda>_. GitFailed ''none'')\<rparr>"

definition example_world :: world where
  "example_world = \<lparr>wo_machine = example_machine,
     wo_interp = \<lparr>in_sys_path = [], in_pythonpath = None, in_loaded = None\<rparr>, wo_tree = (\<lambda>t. t),
     wo_server = (\<lambda>_ _. Inr (\<lambda>p. p))\<rparr>"

definition example_cli :: cli_args where
  "example_cli = (default_args (\<lambda>_. None) None)\<lparr>ca_report := Some ''r.json''\<rparr>"

definition example_module :: check_module where
  "example_module = \<lparr>md_path = ''checks/01_smoke.py'',
     md_checks = [(''c'', (example_check ''a'' (Some 1) (Returned []))\<lparr>cf_name := Some ''a'', cf_protocols := [''hislip'']\<rparr>)],
     md_setup = Some (([], None), ([], None))\<rparr>"

lemma example_opens: "\<exists>t. open_target example_cli example_world = Next t"
proof -
  have "(case open_target example_cli example_world of Next t \<Rightarrow> True | _ \<Rightarrow> False)" by code_simp
  then show ?thesis by (auto split: step.splits)
qed

lemma example_process: "script_process example_env [] (\<lambda>_. 0) (Some 30) None example_cli example_world None example_module = Some 0"
  by code_simp

section \<open>Properties\<close>





text \<open>A session that cannot be put into the mode asked for, opened in a script's setup, ends the script with the
  exit code for a broken suite and not with skipped checks. Whatever the checks are, the process
  exits with 2 and no result row is recorded, although the option's help says the checks skip.\<close>

theorem skip_in_setup_exits_2:
  assumes "md_setup m = Some (([], Some (mode_skip mode got)), leave)" and "open_target a w = Next t"
    and "only_of (md_path m) = None \<or> only_of (md_path m) = Some (ca_protocol a)"
  shows "script_process env base clock wd ot a w title m = Some 2 \<and>
    (\<forall>st. sc_stats (script_main env base clock wd ot a w
       (if given title then the title else title_for (md_path m)) (only_of (md_path m)) m) = Some st \<longrightarrow> st_results st = [])"
proof -
  obtain ops' raised' where l: "leave = (ops', raised')" by (cases leave)
  have none: "st_results (new_stats n v c x) = []" for n v c x
    using new_stats_inv(2)[of n v c x] by (simp add: rows_def)
  have two: "harness_main env (Throws (mode_skip mode got)) = 2"
    by (simp add: harness_main_def mode_skip_def Skip_def plain_exn_def isinstance_def)
  from assms show ?thesis
    by (auto simp: script_process_def script_main_def run_in_setup_def l two apply_ops_def Let_def none)
qed

theorem skip_in_setup_exits_2_witness:
  "script_process example_env [] (\<lambda>_. 0) (Some 30) None example_cli example_world None
     (example_module\<lparr>md_setup := Some (([], Some (mode_skip ''overlapped'' (Some False))), ([], None))\<rparr>) = Some 2"
proof -
  obtain t where t: "open_target example_cli example_world = Next t" by (metis example_opens)
  have "only_of ''checks/01_smoke.py'' = None" by code_simp
  with t skip_in_setup_exits_2[OF _ t, of "example_module\<lparr>md_setup := Some (([], Some (mode_skip ''overlapped'' (Some False))), ([], None))\<rparr>"]
  show ?thesis by (simp add: example_module_def)
qed

text \<open>Every script of the suite has a title of its own that the other tools can read. On each transport it
  runs on, the name it reports under is not empty, fits on a line, does not contain the separator that merged
  keys are built with, and no two scripts of a transport share one.\<close>

theorem suite_titles_usable:
  "list_all (\<lambda>p.
     (let ns = map (\<lambda>s. script_name (title_for (''checks/'' @ s_name s)) (s_only s) p) (for_protocol p False)
      in distinct ns \<and> list_all (\<lambda>n. n \<noteq> [] \<and> CHR 0x0A \<notin> set n \<and> \<not> contains '': '' n) ns)) [''hislip'', ''vxi11'']"
proof -
  have "list_all (\<lambda>p.
     (let ns = map (\<lambda>s. script_name (title_for (''checks/'' @ s_name s)) (s_only s) p) (for_protocol p False)
      in distinct ns \<and> list_all (\<lambda>n. n \<noteq> [] \<and> CHR 0x0A \<notin> set n \<and> cut '': '' n = None) ns)) [''hislip'', ''vxi11'']"
    by code_simp
  then show ?thesis by (simp only: contains_def cut_None_iff)
qed

end
