(* ===== verification/Compare.thy ===== *)
theory Compare
  imports Legs
begin

text \<open>
  \<^verbatim>\<open>compare.py\<close>, which runs the suite once per backend or per tree and lines the results up, and
  \<^verbatim>\<open>tools/merge_reports.py\<close>, which lines up columns that were produced elsewhere. What a child process
  did is a parameter, \<open>ran\<close>; so are the machine, the state of the interpreter and the names of the signals.
\<close>

section \<open>Running one script\<close>

text \<open>What is at the report's path when the child is done.\<close>

datatype report_file = Readable column | Unreadable | Absent

datatype ran = TimedOut | Exited int string string report_file   \<comment> \<open>code, stdout, stderr\<close>

text \<open>\<^verbatim>\<open>str.splitlines\<close> for the line ends of ASCII text.\<close>

definition is_linebreak :: "char \<Rightarrow> bool" where
  "is_linebreak c \<longleftrightarrow> c \<in> {CHR 0x0A, CHR 0x0B, CHR 0x0C, CHR 0x0D, CHR 0x1C, CHR 0x1D, CHR 0x1E}"

fun splitlines_from :: "string \<Rightarrow> string \<Rightarrow> string list" where
  "splitlines_from cur [] = (if cur = [] then [] else [rev cur])"
| "splitlines_from cur (c # cs) =
     (if is_linebreak c
      then rev cur # (case cs of
             d # ds \<Rightarrow> if c = CHR 0x0D \<and> d = CHR 0x0A then splitlines_from [] ds else splitlines_from [] (d # ds)
           | [] \<Rightarrow> [])
      else splitlines_from (c # cur) cs)"

definition splitlines :: "string \<Rightarrow> string list" where
  "splitlines s = splitlines_from [] s"

definition signal_name :: "(int \<Rightarrow> string option) \<Rightarrow> int \<Rightarrow> string" where
  "signal_name signals n = (case signals n of Some s \<Rightarrow> s | None \<Rightarrow> ''signal '' @ str_int n)"

definition no_report_why :: "(int \<Rightarrow> string option) \<Rightarrow> int \<Rightarrow> string \<Rightarrow> string \<Rightarrow> string" where
  "no_report_why signals rc out err =
     (let first = splitlines (strip (if err \<noteq> [] then err else out))
      in if rc < 0 then ''killed by '' @ signal_name signals (- rc)
         else if first \<noteq> [] then last first else ''exit '' @ str_int rc)"

definition one_command :: "string \<Rightarrow> string \<Rightarrow> string \<Rightarrow> string \<Rightarrow> string \<Rightarrow> string option \<Rightarrow> string list \<Rightarrow> string \<Rightarrow> string list" where
  "one_command python checks script protocol backend tree extra out =
     [python, checks @ ''/'' @ script, ''--protocol'', protocol, ''--backend'', backend, ''--report'', out] @ extra @
     (if truthy tree then [''--pyvisa-py'', the tree] else [])"

definition run_one :: "(int \<Rightarrow> string option) \<Rightarrow> string \<Rightarrow> rat \<Rightarrow> ran \<Rightarrow> column option \<times> int option \<times> string list" where
  \<comment> \<open>the report, the exit code, and what is printed\<close>
  "run_one signals script timeout r =
     (case r of
        TimedOut \<Rightarrow> (None, None, [''    '' @ script @ '': timed out after '' @ fmt_fixed 0 timeout @ ''s''])
      | Exited rc out err (Readable c) \<Rightarrow> (Some c, Some rc, [])
      | Exited rc out err file \<Rightarrow>
          (None, Some rc,
           [''    '' @ script @ '': '' @ (if file = Unreadable then ''unreadable report'' else ''no report'') @
            '' ('' @ no_report_why signals rc out err @ '')'']))"

section \<open>Choosing the columns\<close>

record compare_args =
  cm_backends :: "string option"
  cm_pyvisa_py :: "string option"
  cm_trees :: "string option"
  cm_protocol :: string
  cm_scripts :: "string option"
  cm_iterations :: int
  cm_soak :: int
  cm_sessions :: "int option"
  cm_timeout :: rat
  cm_python :: string
  cm_checks :: string
  cm_extra :: "string list"

definition compare_scripts :: "compare_args \<Rightarrow> script list" where
  "compare_scripts a =
     (if truthy (cm_scripts a)
      then map (\<lambda>n. case dict_get BY_NAME n of Some s \<Rightarrow> s | None \<Rightarrow> Script0 n) (split_on '','' (the (cm_scripts a)))
      else for_protocol (cm_protocol a) True)"

type_synonym choice = "string \<times> string \<times> string option"   \<comment> \<open>label, backend, tree\<close>

text \<open>An exit with its messages, an exception, or the columns, with the state of the interpreter.\<close>

datatype chosen = Exit int "string list" | Raise py_error | Columns "choice list" "string list" interp

fun tree_columns :: "machine \<Rightarrow> (string \<Rightarrow> string) \<Rightarrow> string list \<Rightarrow> interp \<Rightarrow> choice list \<Rightarrow> chosen" where
  "tree_columns mc path_of [] st cols = Columns cols [] st"
| "tree_columns mc path_of (pair # ps) st cols =
     (let (lab, _, path) = partition3 pair ''=''
      in if path = [] then Exit 4 [''--pyvisa-py-trees wants label=path, got '' @ py_repr pair]
         else case use_pyvisa_py_tree (mc_exists mc) (path_of path) st of
                Inl (TreeError m) \<Rightarrow> Exit 4 [lab @ '': '' @ m]
              | Inl e \<Rightarrow> Raise e
              | Inr st' \<Rightarrow> tree_columns mc path_of ps st' (cols @ [(lab, ''py'', Some path)]))"

fun backend_columns :: "machine \<Rightarrow> string list \<Rightarrow> interp \<Rightarrow> choice list \<Rightarrow> string list \<Rightarrow> chosen" where
  "backend_columns mc [] st cols lines = Columns cols lines st"
| "backend_columns mc (i # is) st cols lines =
     (case resolve mc i of
        Inl e \<Rightarrow> Raise e
      | Inr r \<Rightarrow>
          if \<not> rv_available r then
            backend_columns mc is st cols (lines @ [''skipping '' @ i @ '': '' @ rv_reason r] @
              (if b_source (rv_spec r) = [] then [] else [''  get it from: '' @ b_source (rv_spec r)]))
          else if \<not> b_networked (rv_spec r) then
            backend_columns mc is st cols (lines @ [''skipping '' @ i @ '': '' @ b_name (rv_spec r) @
              '' does not speak network '' @ ''protocols, so it cannot reach the mock server''])
          else backend_columns mc is st (cols @ [(b_name (rv_spec r), i, None)]) lines)"

definition choose_columns :: "machine \<Rightarrow> (string \<Rightarrow> string) \<Rightarrow> interp \<Rightarrow> compare_args \<Rightarrow> chosen" where
  "choose_columns mc path_of st a =
     (if truthy (cm_trees a) \<and> truthy (cm_pyvisa_py a) then
        Exit 4 [''--pyvisa-py names one tree for every column and --pyvisa-py-trees '' @
                ''names a column per tree; they cannot both be right'']
      else if truthy (cm_trees a) then tree_columns mc path_of (split_on '','' (the (cm_trees a))) st []
      else
        (let wanted = (if truthy (cm_backends a) then split_on '','' (the (cm_backends a))
                       else dict_keys (BACKENDS (mc_system mc)))
         in if truthy (cm_pyvisa_py a) then
              (case use_pyvisa_py_tree (mc_exists mc) (path_of (the (cm_pyvisa_py a))) st of
                 Inl (TreeError m) \<Rightarrow> Exit 4 [m]
               | Inl e \<Rightarrow> Raise e
               | Inr st' \<Rightarrow> backend_columns mc wanted st' [] [])
            else backend_columns mc wanted st [] []))"

section \<open>Running them\<close>

type_synonym codes = "(string, (string, int option) dict) dict"

definition record_code :: "string \<Rightarrow> string \<Rightarrow> int option \<Rightarrow> codes \<Rightarrow> codes" where
  \<comment> \<open>\<^verbatim>\<open>exit_codes.setdefault(label, {})[script] = rc\<close>\<close>
  "record_code lab script rc codes =
     (let d = setdefault lab [] codes in dict_set lab (dict_set script rc (the (dict_get d lab))) d)"

text \<open>\<open>world lab s\<close> is what running that script for that column does.\<close>

fun run_column ::
  "compare_args \<Rightarrow> (int \<Rightarrow> string option) \<Rightarrow> (string list \<Rightarrow> ran) \<Rightarrow> choice \<Rightarrow> script list \<Rightarrow> codes \<Rightarrow> py_error + column list \<times> codes \<times> string list" where
  "run_column a signals world col [] codes = Inr ([], codes, [])"
| "run_column a signals world (lab, backend, tree) (s # ss) codes =
     (case script_argv s (cm_iterations a) (cm_soak a) [(''sessions'', cm_sessions a)] of
        Inl e \<Rightarrow> Inl e
      | Inr argv \<Rightarrow>
          (let cmd = one_command (cm_python a) (cm_checks a) (s_name s) (cm_protocol a) backend tree
                       (argv @ cm_extra a) ''report.json'';
               (rep, rc, lines) = run_one signals (s_name s) (cm_timeout a) (world cmd)
           in case run_column a signals world (lab, backend, tree) ss (record_code lab (s_name s) rc codes) of
                Inl e \<Rightarrow> Inl e
              | Inr (reps, codes', lines') \<Rightarrow>
                  Inr ((case rep of None \<Rightarrow> [] | Some r \<Rightarrow> [r]) @ reps, codes',
                       [''  '' @ s_name s] @ lines @ lines')))"

fun run_columns ::
  "compare_args \<Rightarrow> (int \<Rightarrow> string option) \<Rightarrow> (string list \<Rightarrow> ran) \<Rightarrow> choice list \<Rightarrow> script list \<Rightarrow> codes \<Rightarrow> py_error + column list \<times> codes \<times> string list" where
  "run_columns a signals world [] ss codes = Inr ([], codes, [])"
| "run_columns a signals world (col # cols) ss codes =
     (case run_column a signals world col ss codes of
        Inl e \<Rightarrow> Inl e
      | Inr (reps, codes1, lines1) \<Rightarrow>
          (case run_columns a signals world cols ss codes1 of
             Inl e \<Rightarrow> Inl e
           | Inr (merged, codes2, lines2) \<Rightarrow>
               Inr ((if reps = [] then [] else [merge reps (fst col)]) @ merged, codes2,
                    [nl @ ''=== '' @ fst col @ '' ('' @ cm_protocol a @ '')''] @ lines1 @ lines2)))"

section \<open>The table\<close>

text \<open>The text table of \<^verbatim>\<open>compare.py\<close> (cells of 12, names up to 78) and of \<^verbatim>\<open>merge_reports.py\<close> (14 and 74).\<close>

definition table_width :: "nat \<Rightarrow> matrix \<Rightarrow> nat" where
  "table_width cap m =
     min (if m_rows m = [] then 10 else Max (set (map (\<lambda>r. length (w_name r)) (m_rows m)))) cap"

definition table_lines :: "nat \<Rightarrow> nat \<Rightarrow> string \<Rightarrow> column list \<Rightarrow> string list" where
  "table_lines cell cap same cols =
     (let m = build cols; width = table_width cap m;
          header = join ''  '' (map (\<lambda>c. ljust cell (take cell (get_or [] (j_label c)))) cols)
      in [nl @ ljust width ''check'' @ ''  '' @ header, replicate (width + 2 + length header) (CHR ''-'')] @
         map (\<lambda>r. ljust width (take width (w_name r)) @ ''  '' @ join ''  '' (map (ljust cell) (outcomes r)) @
                  (if differs r then ''<'' else same)) (m_rows m))"

datatype compare_end = CmExit int "string list" | CmRaise py_error
  | CmDone "column list" codes "string list"     \<comment> \<open>exit 0, with what is written and printed\<close>

definition compare_main ::
  "machine \<Rightarrow> (string \<Rightarrow> string) \<Rightarrow> interp \<Rightarrow> (int \<Rightarrow> string option) \<Rightarrow> (string list \<Rightarrow> ran) \<Rightarrow> compare_args \<Rightarrow> compare_end" where
  "compare_main mc path_of st signals world a =
     (case choose_columns mc path_of st a of
        Exit c ls \<Rightarrow> CmExit c ls
      | Raise e \<Rightarrow> CmRaise e
      | Columns cols lines _ \<Rightarrow>
          if cols = [] then CmExit 4 (lines @ [''nothing to compare''])
          else
            (case run_columns a signals world cols (compare_scripts a) [] of
               Inl e \<Rightarrow> CmRaise e
             | Inr (merged, codes, lines2) \<Rightarrow>
                 if merged = [] then CmExit 2 (lines @ lines2 @ [''no reports were produced''])
                 else
                   (let m = build merged
                    in CmDone merged codes
                         (lines @
                          (if length cols = 1
                           then [''only one column ('' @ fst (hd cols) @ ''): this will produce a report, '' @
                                 ''not a comparison. Install another VISA to get a disparity out of it.'']
                           else []) @ lines2 @ table_lines 12 78 '' '' merged @
                          [nl @ str_nat (length (m_rows m)) @ '' checks, '' @ str_nat (length (disagreements m)) @
                           '' where the '' @ ''implementations disagree (marked <)'']))))"

section \<open>Merging reports\<close>

fun read_columns :: "directory \<Rightarrow> string list \<Rightarrow> py_error + column list" where
  "read_columns dir [] = Inr []"
| "read_columns dir (p # ps) =
     (case dict_get dir p of
        Some NotJSON \<Rightarrow> Inl (ValueError p)
      | Some f \<Rightarrow>
          (case read_columns dir ps of
             Inl e \<Rightarrow> Inl e
           | Inr cs \<Rightarrow> Inr (map (\<lambda>c. if j_label c = None then c\<lparr>j_label := Some (stem p)\<rparr> else c) (columns_of_file f) @ cs))
      | None \<Rightarrow> Inl (OSError p))"

definition merge_order :: "directory \<Rightarrow> string list" where
  "merge_order dir = sort_key (\<lambda>p. (stem p \<noteq> ''py'', stem p)) (column_files (dict_keys dir))"

definition merge_reports_main :: "string \<Rightarrow> directory \<Rightarrow> py_error + int \<times> string list" where
  "merge_reports_main name dir =
     (case read_columns dir (merge_order dir) of
        Inl e \<Rightarrow> Inl e
      | Inr [] \<Rightarrow> Inr (4, [''no reports in '' @ name])
      | Inr cols \<Rightarrow>
          (let m = build cols
           in Inr (0, table_lines 14 74 [] cols @
                [nl @ str_nat (length (m_rows m)) @ '' checks across '' @ str_nat (length cols) @ '' implementations, '' @
                 str_nat (length (disagreements m)) @ '' where they disagree (marked <)''])))"

section \<open>Lemmas\<close>

lemma merge_label: "j_label (merge reps lab) = Some lab"
proof -
  have "j_label (merge_step rep m) = j_label m" for rep m
    by (simp add: merge_step_def Let_def split: option.split elapsed.split)
  then have "j_label (fold merge_step reps m) = j_label m" for m
    by (induction reps arbitrary: m) simp_all
  then show ?thesis by (simp add: merge_def)
qed

text \<open>What running one script of one column gives.\<close>

definition script_ran ::
  "compare_args \<Rightarrow> (int \<Rightarrow> string option) \<Rightarrow> (string list \<Rightarrow> ran) \<Rightarrow> choice \<Rightarrow> script \<Rightarrow> column option \<times> int option" where
  "script_ran a signals world col s =
     (let argv = projr (script_argv s (cm_iterations a) (cm_soak a) [(''sessions'', cm_sessions a)]);
          (rep, rc, _) = run_one signals (s_name s) (cm_timeout a)
            (world (one_command (cm_python a) (cm_checks a) (s_name s) (cm_protocol a) (fst (snd col)) (snd (snd col))
               (argv @ cm_extra a) ''report.json''))
      in (rep, rc))"

definition column_events ::
  "compare_args \<Rightarrow> (int \<Rightarrow> string option) \<Rightarrow> (string list \<Rightarrow> ran) \<Rightarrow> script list \<Rightarrow> choice \<Rightarrow> ((string \<times> string) \<times> int option) list" where
  "column_events a signals world ss col = map (\<lambda>s. ((fst col, s_name s), snd (script_ran a signals world col s))) ss"

definition record_all :: "((string \<times> string) \<times> int option) list \<Rightarrow> codes \<Rightarrow> codes" where
  "record_all evs codes = fold (\<lambda>((l, n), rc). record_code l n rc) evs codes"

lemma run_column_result:
  "run_column a signals world col ss codes = Inr (reps, codes', ls) \<Longrightarrow>
     reps = List.map_filter (\<lambda>s. fst (script_ran a signals world col s)) ss \<and>
     codes' = record_all (column_events a signals world ss col) codes"
proof (induction ss arbitrary: codes reps ls)
  case Nil
  then show ?case by (simp add: record_all_def column_events_def map_filter_simps)
next
  case (Cons s ss)
  obtain lab backend tree where col: "col = (lab, backend, tree)" by (cases col)
  obtain argv where argv: "script_argv s (cm_iterations a) (cm_soak a) [(''sessions'', cm_sessions a)] = Inr argv"
    using Cons.prems by (auto simp: col split: sum.splits)
  obtain rep rc l1 where one: "run_one signals (s_name s) (cm_timeout a) (world (one_command (cm_python a) (cm_checks a)
      (s_name s) (cm_protocol a) backend tree (argv @ cm_extra a) ''report.json'')) = (rep, rc, l1)"
    by (metis prod_cases3)
  have sr: "script_ran a signals world col s = (rep, rc)" by (simp add: script_ran_def argv one col)
  obtain reps1 ls1 where rest: "run_column a signals world col ss (record_code lab (s_name s) rc codes) = Inr (reps1, codes', ls1)"
    and reps: "reps = (case rep of None \<Rightarrow> [] | Some r \<Rightarrow> [r]) @ reps1"
    using Cons.prems by (auto simp: col argv one split: sum.splits)
  from Cons.IH[OF rest] show ?case
    by (simp add: reps sr[unfolded col] record_all_def column_events_def map_filter_simps col split: option.split)
qed

lemma run_columns_result:
  "run_columns a signals world cols ss codes = Inr (merged, codes', ls) \<Longrightarrow>
     map j_label merged = map (\<lambda>col. Some (fst col))
       (filter (\<lambda>col. \<exists>s\<in>set ss. fst (script_ran a signals world col s) \<noteq> None) cols) \<and>
     codes' = record_all (concat (map (column_events a signals world ss) cols)) codes"
proof (induction cols arbitrary: codes merged ls)
  case Nil
  then show ?case by (simp add: record_all_def)
next
  case (Cons col cols)
  obtain reps codes1 l1 where one: "run_column a signals world col ss codes = Inr (reps, codes1, l1)"
    using Cons.prems by (auto split: sum.splits)
  obtain merged1 l2 where rest: "run_columns a signals world cols ss codes1 = Inr (merged1, codes', l2)"
    and m: "merged = (if reps = [] then [] else [merge reps (fst col)]) @ merged1"
    using Cons.prems by (auto simp: one split: sum.splits)
  have reps: "reps = List.map_filter (\<lambda>s. fst (script_ran a signals world col s)) ss"
    and codes1: "codes1 = record_all (column_events a signals world ss col) codes"
    using run_column_result[OF one] by auto
  have "reps = [] \<longleftrightarrow> \<not> (\<exists>s\<in>set ss. fst (script_ran a signals world col s) \<noteq> None)"
    unfolding reps by (auto simp: map_filter_def filter_empty_conv)
  with Cons.IH[OF rest] show ?case by (simp add: m merge_label codes1 record_all_def)
qed

definition code_at :: "codes \<Rightarrow> string \<Rightarrow> string \<Rightarrow> int option option" where
  "code_at codes lab script = (case dict_get codes lab of None \<Rightarrow> None | Some d \<Rightarrow> dict_get d script)"

lemma record_code_at:
  "code_at (record_code l n rc codes) l' n' = (if l' = l \<and> n' = n then Some rc else code_at codes l' n')"
proof -
  have sd: "dict_get (setdefault l [] codes) k = (if k = l \<and> dict_get codes l = None then Some [] else dict_get codes k)" for k
    using alist_dict.get_keys[of codes l]
    by (auto simp: setdefault_def dict_get_def dict_keys_def map_add_def split: option.split)
  show ?thesis
    by (cases "dict_get codes l")
      (auto simp: code_at_def record_code_def Let_def alist_dict.get_put sd alist_dict.get_empty split: option.split)
qed

lemma record_all_at:
  "code_at (record_all evs codes) l n = (case map_of (rev evs) (l, n) of Some rc \<Rightarrow> Some rc | None \<Rightarrow> code_at codes l n)"
proof (induction evs arbitrary: codes)
  case (Cons x evs)
  obtain l1 n1 rc where x: "x = ((l1, n1), rc)" by (metis surj_pair)
  have "record_all (x # evs) codes = record_all evs (record_code l1 n1 rc codes)" by (simp add: record_all_def x)
  then show ?case using Cons[of "record_code l1 n1 rc codes"]
    by (auto simp: x record_code_at map_add_def split: option.split)
qed (simp add: record_all_def)

section \<open>Properties\<close>

text \<open>The columns of a comparison are exactly the backends that produced a report, in the order they
  were asked for, and the exit code of every script of every backend is on record, a timeout as none. For
  backends with different names: a backend none of whose scripts left a report has no column, whatever its exit
  codes say.\<close>

theorem compare_columns_and_codes:
  assumes "run_columns a signals world cols ss [] = Inr (merged, codes, ls)"
    and "distinct (map fst cols)" and "distinct (map s_name ss)"
  shows "map j_label merged = map (\<lambda>col. Some (fst col))
      (filter (\<lambda>col. \<exists>s\<in>set ss. fst (script_ran a signals world col s) \<noteq> None) cols) \<and>
    (\<forall>col\<in>set cols. \<forall>s\<in>set ss. code_at codes (fst col) (s_name s) = Some (snd (script_ran a signals world col s)))"
proof (intro conjI ballI)
  let ?evs = "concat (map (column_events a signals world ss) cols)"
  note r = run_columns_result[OF assms(1)]
  show "map j_label merged = map (\<lambda>col. Some (fst col))
      (filter (\<lambda>col. \<exists>s\<in>set ss. fst (script_ran a signals world col s) \<noteq> None) cols)" using r by blast
  fix col s assume cs: "col \<in> set cols" "s \<in> set ss"
  have keys: "map fst ?evs = concat (map (\<lambda>l. map (\<lambda>n. (l, n)) (map s_name ss)) (map fst cols))"
    by (simp add: map_concat comp_def column_events_def)
  have dd: "distinct (concat (map (\<lambda>l. map (\<lambda>n. (l, n)) ns) xs))" if "distinct xs" "distinct ns" for xs ns :: "string list"
    using that by (induction xs) (auto simp: distinct_map inj_on_def)
  have "distinct (map fst ?evs)" unfolding keys by (rule dd[OF assms(2,3)])
  then have d: "distinct (map fst (rev ?evs))" by (simp only: rev_map[symmetric] distinct_rev)
  have "((fst col, s_name s), snd (script_ran a signals world col s)) \<in> set (rev ?evs)"
    using cs by (auto simp: column_events_def)
  then have "map_of (rev ?evs) (fst col, s_name s) = Some (snd (script_ran a signals world col s))"
    by (rule map_of_is_SomeI[OF d])
  with r show "code_at codes (fst col) (s_name s) = Some (snd (script_ran a signals world col s))"
    by (simp add: record_all_at)
qed

definition example_compare :: compare_args where
  \<comment> \<open>used by the example below\<close>
  "example_compare = \<lparr>cm_backends = None, cm_pyvisa_py = None, cm_trees = None, cm_protocol = ''hislip'', cm_scripts = None,
     cm_iterations = 300, cm_soak = 60, cm_sessions = None, cm_timeout = 600, cm_python = ''python'', cm_checks = ''checks'',
     cm_extra = []\<rparr>"

theorem compare_columns_and_codes_witness:
  "\<exists>merged codes ls. run_columns example_compare (\<lambda>_. None) (\<lambda>_. Exited (-11) [] [] Absent)
       [(''NI-VISA'', ''ni'', None)] [Script0 ''01_smoke.py''] [] = Inr (merged, codes, ls) \<and>
     merged = [] \<and> code_at codes ''NI-VISA'' ''01_smoke.py'' = Some (Some (-11))"
proof -
  let ?w = "\<lambda>_. Exited (-11) [] [] Absent"
  let ?col = "(''NI-VISA'', ''ni'', None)"
  obtain merged codes ls where r: "run_columns example_compare (\<lambda>_. None) ?w [?col] [Script0 ''01_smoke.py''] [] = Inr (merged, codes, ls)"
    by (simp add: Script0_def script_argv_def run_one_def)
  have "script_ran example_compare (\<lambda>_. None) ?w ?col (Script0 ''01_smoke.py'') = (None, Some (-11))"
    by (simp add: script_ran_def run_one_def)
  with compare_columns_and_codes[OF r] r show ?thesis by (auto simp: Script0_def)
qed

end
