(* ===== verification/Html.thy ===== *)
theory Html
  imports Prelude
begin

text \<open>
  Escaping text for HTML, and reading off the markup of a page. \<open>esc\<close> is \<^verbatim>\<open>html.escape(str(value))\<close>, the
  \<^verbatim>\<open>_esc\<close> of \<^verbatim>\<open>testgear/report.py\<close> and the \<^verbatim>\<open>esc\<close> of \<^verbatim>\<open>tools/artifact_matrix.py\<close>. \<open>tags\<close> keeps what stands between
  angle brackets, the brackets included, so two pages with equal \<open>tags\<close> differ in their text only. The facts in
  \<open>markup\<close> push \<open>tags\<close> through a page.
\<close>

named_theorems markup \<comment> \<open>the markup of a fragment followed by the rest of the page\<close>

definition esc :: "string \<Rightarrow> string" where
  \<open>esc s = replace [CHR 0x27] ''&#x27;'' (replace [CHR 0x22] ''&quot;'' (replace ''>'' ''&gt;''
     (replace ''<'' ''&lt;'' (replace ''&'' ''&amp;'' s))))\<close>

definition esc_char :: "char \<Rightarrow> string" where
  "esc_char c =
     (if c = CHR ''&'' then ''&amp;'' else if c = CHR ''<'' then ''&lt;'' else if c = CHR ''>'' then ''&gt;''
      else if c = CHR 0x22 then ''&quot;'' else if c = CHR 0x27 then ''&#x27;'' else [c])"

lemma esc_chars: "esc s = concat (map esc_char s)"
  by (induction s) (simp_all add: esc_def replace_single esc_char_def)

lemma esc_Nil [simp]: "esc [] = []"
  by (simp add: esc_chars)

lemma esc_Nil_iff [simp]: "esc s = [] \<longleftrightarrow> s = []"
  by (cases s) (simp_all add: esc_chars esc_char_def)

lemma esc_safe: "c \<in> set (esc s) \<Longrightarrow> c \<notin> {CHR ''<'', CHR ''>'', CHR 0x22, CHR 0x27}"
  by (auto simp: esc_chars esc_char_def split: if_splits)

text \<open>Reading the references back.\<close>

fun unesc :: "string \<Rightarrow> string" where
  "unesc [] = []"
| "unesc (c # cs) =
     (if c \<noteq> CHR ''&'' then c # unesc cs
      else if startswith cs ''amp;'' then CHR ''&'' # unesc (drop 4 cs)
      else if startswith cs ''lt;'' then CHR ''<'' # unesc (drop 3 cs)
      else if startswith cs ''gt;'' then CHR ''>'' # unesc (drop 3 cs)
      else if startswith cs ''quot;'' then CHR 0x22 # unesc (drop 5 cs)
      else if startswith cs ''#x27;'' then CHR 0x27 # unesc (drop 5 cs)
      else c # unesc cs)"

lemma unesc_esc: "unesc (esc s) = s"
  by (induction s) (simp_all add: esc_chars esc_char_def startswith_def)

section \<open>Markup\<close>

fun tags :: "bool \<Rightarrow> string \<Rightarrow> string" where
  "tags inside [] = []"
| "tags inside (c # cs) =
     (if inside then c # tags (c \<noteq> CHR ''>'') cs
      else if c = CHR ''<'' then c # tags True cs else tags False cs)"

lemma tags_text [markup]: "CHR ''<'' \<notin> set s \<Longrightarrow> tags False (s @ rest) = tags False rest"
  by (induction s) auto

lemma tags_attribute: "CHR ''>'' \<notin> set s \<Longrightarrow> tags True (s @ rest) = s @ tags True rest"
  by (induction s) auto

lemma esc_no_bracket [simp]: "CHR ''<'' \<notin> set (esc s)" "CHR ''>'' \<notin> set (esc s)"
  using esc_safe by blast+

lemma str_nat_no_bracket [simp]: "CHR ''<'' \<notin> set (str_nat n)" "CHR ''>'' \<notin> set (str_nat n)"
  using str_nat_digits by (auto simp: is_digit_def)

lemma tags_esc [markup]: "tags False (esc s @ rest) = tags False rest" "tags False (esc s) = []"
  using tags_text[of "esc s"] tags_text[of "esc s" "[]"] by simp_all

lemma tags_esc_attribute [markup]: "tags True (esc s @ rest) = esc s @ tags True rest"
  by (simp add: tags_attribute)

lemma tags_str_nat [markup]: "tags False (str_nat n @ rest) = tags False rest"
  by (simp add: tags_text)

text \<open>Fragments one after the other: each has its own markup and ends outside a tag.\<close>

lemma tags_concat:
  assumes "\<And>x rest. x \<in> set xs \<Longrightarrow> tags False (f x @ rest) = g x @ tags False rest"
  shows "tags False (concat (map f xs) @ rest) = concat (map g xs) @ tags False rest"
  using assms by (induction xs) simp_all

lemma tags_join:
  assumes "\<And>x rest. x \<in> set xs \<Longrightarrow> tags False (f x @ rest) = g x @ tags False rest" and "CHR ''<'' \<notin> set sep"
  shows "tags False (join sep (map f xs) @ rest) = concat (map g xs) @ tags False rest"
  using assms(1)
proof (induction xs)
  case (Cons x xs)
  then show ?case by (cases xs) (simp_all add: tags_text[OF assms(2)])
qed simp

text \<open>\<open>fragment x m\<close>: the fragment \<open>x\<close> has the markup \<open>m\<close>, whatever follows it.\<close>

definition fragment :: "string \<Rightarrow> string \<Rightarrow> bool" where
  "fragment x m \<longleftrightarrow> (\<forall>rest. tags False (x @ rest) = m @ tags False rest)"

lemma fragment_join:
  assumes "list_all2 fragment xs ms" and "CHR ''<'' \<notin> set sep"
  shows "fragment (join sep xs) (concat ms)"
  using assms(1)
proof (induction xs ms rule: list_all2_induct)
  case (Cons x xs m ms)
  then show ?case by (cases xs) (auto simp: fragment_def tags_text[OF assms(2)])
qed (simp add: fragment_def)

lemma fragment_tags: "fragment x m \<Longrightarrow> tags False x = m"
  unfolding fragment_def by (metis append_Nil2 tags.simps(1))

lemma join_without: "list_all (\<lambda>l. c \<notin> set l) ls \<Longrightarrow> c \<notin> set sep \<Longrightarrow> c \<notin> set (join sep ls)"
  by (induction sep ls rule: join.induct) auto

section \<open>Properties\<close>

text \<open>Text put into a page is shown as it is and cannot become markup. No escaped text has an angle bracket or
  a quote in it, and reading the references back gives the text unchanged, so nothing is lost and
  different texts stay different.\<close>

theorem esc_roundtrip:
  "unesc (esc s) = s \<and> set (esc s) \<inter> {CHR ''<'', CHR ''>'', CHR 0x22, CHR 0x27} = {}"
  using unesc_esc esc_safe by blast

end
