(* ===== verification/Report.thy ===== *)
theory Report
  imports Aggregate Html
begin

text \<open>
  \<^verbatim>\<open>testgear/report.py\<close>: the page of one run and the page of a comparison. A report and a run are the
  \<open>column\<close> of \<open>Aggregate\<close>. How the interpreter prints a float is the argument \<open>show\<close>; what it
  prints is escaped like every other text.
\<close>

section \<open>Fragments\<close>

definition STYLE :: string where
  \<open>STYLE = join nl [
     [],
     '':root {'',
     ''  --bg: #ffffff; --fg: #1a1a1a; --muted: #666; --rule: #e0e0e0;'',
     ''  --panel: #f7f7f7; --pass: #1a7f37; --fail: #c1121f; --skip: #b45309;'',
     ''  --pass-bg: #e8f5ec; --fail-bg: #fdeaec; --skip-bg: #fdf3e3;'',
     ''  --mono: ui-monospace, SFMono-Regular, Menlo, Consolas, monospace;'',
     ''}'',
     ''@media (prefers-color-scheme: dark) {'',
     ''  :root {'',
     ''    --bg: #16181c; --fg: #e6e6e6; --muted: #9aa0a6; --rule: #2c3038;'',
     ''    --panel: #1e2127; --pass: #4ade80; --fail: #f87171; --skip: #fbbf24;'',
     ''    --pass-bg: #17301f; --fail-bg: #331a1c; --skip-bg: #322614;'',
     ''  }'',
     ''}'',
     ''* { box-sizing: border-box; }'',
     ''body {'',
     ''  margin: 0; padding: 2rem 1.25rem 4rem; background: var(--bg); color: var(--fg);'',
     ''  font: 15px/1.55 system-ui, -apple-system, "Segoe UI", sans-serif;'',
     ''}'',
     ''main { max-width: 68rem; margin: 0 auto; }'',
     ''h1 { font-size: 1.5rem; margin: 0 0 .25rem; }'',
     ''h2 { font-size: 1.05rem; margin: 2rem 0 .6rem; padding-bottom: .3rem;'',
     ''     border-bottom: 1px solid var(--rule); }'',
     ''.sub { color: var(--muted); margin: 0 0 1.5rem; }'',
     ''.tally { display: flex; gap: .5rem; flex-wrap: wrap; margin: 0 0 1.5rem; }'',
     ''.pill { padding: .3rem .7rem; border-radius: 999px; font-weight: 600;'',
     ''        font-size: .85rem; }'',
     ''.pill.pass { background: var(--pass-bg); color: var(--pass); }'',
     ''.pill.fail { background: var(--fail-bg); color: var(--fail); }'',
     ''.pill.skip { background: var(--skip-bg); color: var(--skip); }'',
     ''.pill.plain { background: var(--panel); color: var(--muted); }'',
     ''.env { background: var(--panel); border: 1px solid var(--rule); border-radius: 8px;'',
     ''       padding: .8rem 1rem; margin: 0 0 1.5rem; font-family: var(--mono);'',
     ''       font-size: .82rem; overflow-x: auto; }'',
     ''.env div { display: flex; gap: .6rem; }'',
     ''.env dt { color: var(--muted); min-width: 12rem; }'',
     ''.warn { color: var(--skip); }'',
     ''.check { border-left: 3px solid var(--rule); padding: .45rem .8rem;'',
     ''         margin: .3rem 0; border-radius: 0 6px 6px 0; }'',
     ''.check.FAIL { border-left-color: var(--fail); background: var(--fail-bg); }'',
     ''.check.SKIP { border-left-color: var(--skip); background: var(--skip-bg); }'',
     ''.check.PASS { border-left-color: var(--pass); }'',
     ''.name { font-weight: 500; }'',
     ''.tag { font-family: var(--mono); font-size: .72rem; font-weight: 700;'',
     ''       letter-spacing: .04em; margin-right: .6rem; }'',
     ''.tag.PASS { color: var(--pass); } .tag.FAIL { color: var(--fail); }'',
     ''.tag.SKIP { color: var(--skip); }'',
     ''.detail { font-family: var(--mono); font-size: .8rem; color: var(--muted);'',
     ''          white-space: pre-wrap; margin-top: .3rem; }'',
     ''.rule { font-size: .75rem; color: var(--muted); margin-left: .5rem; }'',
     ''details > summary { cursor: pointer; color: var(--muted); font-size: .9rem;'',
     ''                    padding: .3rem 0; }'',
     ''table { border-collapse: collapse; width: 100%; font-size: .88rem; }'',
     ''th, td { text-align: left; padding: .45rem .6rem; border-bottom: 1px solid var(--rule); }'',
     ''th { font-weight: 600; color: var(--muted); font-size: .8rem; }'',
     ''td.cell { font-family: var(--mono); font-weight: 700; font-size: .78rem; }'',
     ''td.cell.PASS { color: var(--pass); } td.cell.FAIL { color: var(--fail); }'',
     ''td.cell.SKIP { color: var(--skip); } td.cell.none { color: var(--muted); }'',
     ''tr.differs { background: var(--fail-bg); }'',
     ''tr.differs td:first-child::before { content: "'' @ [CHR 0x5C] @ ''25C6'' @ [CHR 0x5C] @ ''00a0"; color: var(--fail); }'',
     ''.scroll { overflow-x: auto; }'',
     ''footer { margin-top: 3rem; color: var(--muted); font-size: .8rem; }'',
     []]\<close>

definition page :: "string \<Rightarrow> string \<Rightarrow> string" where
  \<open>page title body =
     ''<!doctype html>'' @ nl @ ''<html lang="en">'' @ nl @ ''<head>'' @ nl @
     ''<meta charset="utf-8">'' @ nl @
     ''<meta name="viewport" content="width=device-width, initial-scale=1">'' @ nl @
     ''<title>'' @ esc title @ ''</title>'' @ nl @ ''<style>'' @ STYLE @ ''</style>'' @ nl @
     ''</head>'' @ nl @ ''<body>'' @ nl @ ''<main>'' @ nl @ body @ nl @ ''</main>'' @ nl @ ''</body>'' @ nl @ ''</html>'' @ nl\<close>

definition env_row :: "string \<times> string \<Rightarrow> string" where
  \<open>env_row x = ''<div'' @ (if fst x = ''warning'' then '' class="warn"'' else []) @ ''><dt>'' @ esc (fst x) @
     ''</dt><dd>'' @ esc (snd x) @ ''</dd></div>''\<close>

definition env_block :: "(string, string) dict \<Rightarrow> string" where
  \<open>env_block ctx = ''<div class="env">'' @ concat (map env_row ctx) @ ''</div>''\<close>

definition tally_html :: "nat \<Rightarrow> nat \<Rightarrow> nat \<Rightarrow> string \<Rightarrow> string" where
  \<open>tally_html passed failed skipped extra =
     ''<div class="tally"><span class="pill pass">'' @ str_nat passed @ '' passed</span>'' @
     (if failed = 0 then [] else ''<span class="pill fail">'' @ str_nat failed @ '' failed</span>'') @
     (if skipped = 0 then [] else ''<span class="pill skip">'' @ str_nat skipped @ '' skipped</span>'') @
     (if extra = [] then [] else ''<span class="pill plain">'' @ esc extra @ ''</span>'') @ ''</div>''\<close>

section \<open>One run\<close>

definition shows_rule :: "rdict \<Rightarrow> bool" where
  "shows_rule r \<longleftrightarrow> truthy (d_rule r)"

definition shows_detail :: "rdict \<Rightarrow> bool" where
  "shows_detail r \<longleftrightarrow> truthy (d_detail r) \<and> d_detail r \<noteq> Some (d_name r)"

definition result_block :: "rdict \<Rightarrow> string" where
  \<open>result_block r =
     ''<div class="check '' @ d_outcome r @ ''"><span class="tag '' @ d_outcome r @ ''">'' @ d_outcome r @
     ''</span><span class="name">'' @ esc (d_name r) @ ''</span>'' @
     (if shows_rule r then ''<span class="rule">'' @ esc (the (d_rule r)) @ ''</span>'' else []) @
     (if shows_detail r then ''<div class="detail">'' @ esc (the (d_detail r)) @ ''</div>'' else []) @ ''</div>''\<close>

definition note_block :: "string \<Rightarrow> string" where
  \<open>note_block n = ''<div class="detail">'' @ esc n @ ''</div>''\<close>

definition elapsed_text :: "(rat \<Rightarrow> string) \<Rightarrow> column \<Rightarrow> string" where
  \<comment> \<open>of a run, whose elapsed entry is a number\<close>
  "elapsed_text show c = (case j_elapsed c of Some (Seconds t) \<Rightarrow> show t | _ \<Rightarrow> ''0'')"

definition with_outcome :: "string \<Rightarrow> rdict list \<Rightarrow> rdict list" where
  "with_outcome o1 rs = filter (\<lambda>r. d_outcome r = o1) rs"

definition run_parts :: "(rat \<Rightarrow> string) \<Rightarrow> column \<Rightarrow> string list" where
  \<open>run_parts show c =
     (let rs = column_results c; failures = with_outcome FAIL rs; skips = with_outcome SKIP rs;
          passes = with_outcome PASS rs; notes = get_or [] (j_notes c)
      in [''<h1>'' @ esc (get_or ''run'' (j_script c)) @ ''</h1>'',
          ''<p class="sub">'' @ esc (elapsed_text show c) @ ''s</p>'',
          tally_html (length passes) (length failures) (length skips) [],
          env_block (get_or [] (j_context c))] @
         (if failures = [] then [] else ''<h2>Failures</h2>'' # map result_block failures) @
         (if skips = [] then [] else ''<h2>Skipped &mdash; not passes</h2>'' # map result_block skips) @
         (if passes = [] then []
          else [''<h2>Passed</h2><details><summary>'' @ str_nat (length passes) @ '' checks</summary>'' @
                concat (map result_block passes) @ ''</details>'']) @
         (if notes = [] then []
          else [''<h2>Notes</h2><details><summary>'' @ str_nat (length notes) @ '' notes</summary>'' @
                concat (map note_block notes) @ ''</details>'']))\<close>

definition render_run :: "(rat \<Rightarrow> string) \<Rightarrow> column \<Rightarrow> string" where
  "render_run show c = page (get_or ''run'' (j_script c)) (join nl (run_parts show c))"

section \<open>A comparison\<close>

definition matrix_cell :: "rdict option \<Rightarrow> string" where
  \<open>matrix_cell c =
     (case c of
        None \<Rightarrow> ''<td class="cell none">&mdash;</td>''
      | Some r \<Rightarrow> ''<td class="cell '' @ d_outcome r @ ''">'' @ d_outcome r @ ''</td>'')\<close>

definition matrix_row :: "row \<Rightarrow> string" where
  \<open>matrix_row r =
     ''<tr class="'' @ (if differs r then ''differs'' else []) @ ''"><td>'' @ esc (w_name r) @
     (if w_rule r = [] then [] else ''<span class="rule">'' @ esc (w_rule r) @ ''</span>'') @ ''</td>'' @
     concat (map matrix_cell (w_cells r)) @ ''</tr>''\<close>

definition all_pass :: "row \<Rightarrow> bool" where
  "all_pass r \<longleftrightarrow> set (compared_outcomes r) = {PASS}"

definition head_html :: "column \<Rightarrow> string" where
  "head_html c = ''<th>'' @ esc (label c) @ ''</th>''"

definition env_section :: "column \<Rightarrow> string" where
  "env_section c = ''<h2>'' @ esc (label c) @ ''</h2>'' @ env_block (get_or [] (j_context c))"

definition matrix_body :: "column list \<Rightarrow> string \<Rightarrow> string" where
  \<open>matrix_body runs title =
     (let m = build runs; rs = m_rows m; differing = length (disagreements m)
      in ''<h1>'' @ esc title @ ''</h1>'' @
         ''<p class="sub">'' @ str_nat (length rs) @ '' checks across '' @ str_nat (length runs) @ '' '' @
         (if length runs = 1 then ''backend'' else ''backends'') @ ''. '' @ str_nat differing @ '' disagree.</p>'' @
         tally_html (length (filter all_pass rs)) differing 0 (str_nat (length rs) @ '' checks'') @
         ''<div class="scroll"><table><thead><tr><th>Check</th>'' @
         concat (map head_html runs) @
         ''</tr></thead><tbody>'' @ concat (map matrix_row rs) @ ''</tbody></table></div>'' @
         concat (map env_section runs) @
         ''<footer>Rows marked &#9670; are where the implementations disagree. '' @
         ''A check that fails on one and passes on another is a disparity, which '' @
         ''is a stronger claim than a failure.</footer>'')\<close>

definition render_matrix :: "column list \<Rightarrow> string \<Rightarrow> string" where
  "render_matrix runs title = page title (matrix_body runs title)"

section \<open>The markup of the pages\<close>

text \<open>What a page looks like without its text: which outcomes stand where, and which optional parts are there.\<close>

definition outcome_ok :: "string \<Rightarrow> bool" where
  "outcome_ok o1 \<longleftrightarrow> o1 = PASS \<or> o1 = FAIL \<or> o1 = SKIP"

definition page_markup :: "string \<Rightarrow> string" where
  \<open>page_markup body =
     ''<!doctype html><html lang="en"><head><meta charset="utf-8">'' @
     ''<meta name="viewport" content="width=device-width, initial-scale=1">'' @
     ''<title></title><style></style></head><body><main>'' @ body @ ''</main></body></html>''\<close>

definition env_markup :: "bool list \<Rightarrow> string" where
  \<open>env_markup warns = ''<div class="env">'' @
     concat (map (\<lambda>w. ''<div'' @ (if w then '' class="warn"'' else []) @ ''><dt></dt><dd></dd></div>'') warns) @ ''</div>''\<close>

definition context_skeleton :: "column \<Rightarrow> bool list" where
  "context_skeleton c = map (\<lambda>x. fst x = ''warning'') (get_or [] (j_context c))"

definition tally_markup :: "bool \<Rightarrow> bool \<Rightarrow> bool \<Rightarrow> string" where
  \<open>tally_markup failed skipped extra =
     ''<div class="tally"><span class="pill pass"></span>'' @
     (if failed then ''<span class="pill fail"></span>'' else []) @
     (if skipped then ''<span class="pill skip"></span>'' else []) @
     (if extra then ''<span class="pill plain"></span>'' else []) @ ''</div>''\<close>

lemma outcome_no_bracket:
  "outcome_ok o1 \<Longrightarrow> CHR ''<'' \<notin> set o1" "outcome_ok o1 \<Longrightarrow> CHR ''>'' \<notin> set o1"
  by (auto simp: outcome_ok_def)

lemma style_no_bracket: "CHR ''<'' \<notin> set STYLE"
  unfolding STYLE_def by (rule join_without) (simp_all add: list_all_iff)

lemma tags_page:
  assumes "\<And>rest. tags False (body @ rest) = b @ tags False rest"
  shows "tags False (page title body) = page_markup b"
  by (simp add: page_def page_markup_def markup assms tags_text[OF style_no_bracket])

lemma tags_env [markup]: "tags False (env_block ctx @ rest) = env_markup (map (\<lambda>x. fst x = ''warning'') ctx) @ tags False rest"
proof -
  have "tags False (env_row x @ r) = (''<div'' @ (if fst x = ''warning'' then '' class=\"warn\"'' else []) @
      ''><dt></dt><dd></dd></div>'') @ tags False r" for x r
    by (simp add: env_row_def markup)
  from tags_concat[of ctx env_row, OF this] show ?thesis
    by (simp add: env_block_def env_markup_def comp_def)
qed

lemma tags_tally [markup]:
  "tags False (tally_html p f k extra @ rest) = tally_markup (f \<noteq> 0) (k \<noteq> 0) (extra \<noteq> []) @ tags False rest"
  by (simp add: tally_html_def tally_markup_def markup)

text \<open>A result of a run: its outcome, whether its rule is shown, whether its detail is.\<close>

type_synonym result_skeleton = "string \<times> bool \<times> bool"

definition result_skeleton :: "rdict \<Rightarrow> result_skeleton" where
  "result_skeleton r = (d_outcome r, shows_rule r, shows_detail r)"

definition result_markup :: "result_skeleton \<Rightarrow> string" where
  \<open>result_markup x =
     (let (o1, rule, detail) = x
      in ''<div class="check '' @ o1 @ ''"><span class="tag '' @ o1 @ ''"></span><span class="name"></span>'' @
         (if rule then ''<span class="rule"></span>'' else []) @
         (if detail then ''<div class="detail"></div>'' else []) @ ''</div>'')\<close>

lemma tags_result [markup]:
  "outcome_ok (d_outcome r) \<Longrightarrow> tags False (result_block r @ rest) = result_markup (result_skeleton r) @ tags False rest"
  by (simp add: result_block_def result_markup_def result_skeleton_def markup outcome_no_bracket tags_attribute)

lemma tags_note [markup]: \<open>tags False (note_block n @ rest) = ''<div class="detail"></div>'' @ tags False rest\<close>
  by (simp add: note_block_def markup)

definition results_markup :: "string \<Rightarrow> result_skeleton list \<Rightarrow> string" where
  "results_markup o1 xs = concat (map result_markup (filter (\<lambda>x. fst x = o1) xs))"

definition run_markup :: "bool list \<Rightarrow> result_skeleton list \<Rightarrow> nat \<Rightarrow> string" where
  \<comment> \<open>the context entries, the results, the number of notes\<close>
  \<open>run_markup warns xs notes =
     (let any = (\<lambda>o1. o1 \<in> set (map fst xs))
      in page_markup (''<h1></h1><p class="sub"></p>'' @ tally_markup (any FAIL) (any SKIP) False @ env_markup warns @
         (if any FAIL then ''<h2></h2>'' @ results_markup FAIL xs else []) @
         (if any SKIP then ''<h2></h2>'' @ results_markup SKIP xs else []) @
         (if any PASS then ''<h2></h2><details><summary></summary>'' @ results_markup PASS xs @ ''</details>'' else []) @
         (if notes = 0 then [] else ''<h2></h2><details><summary></summary>'' @
            concat (replicate notes ''<div class="detail"></div>'') @ ''</details>'')))\<close>

lemma tags_results:
  assumes "outcome_ok o1"
  shows "tags False (concat (map result_block (with_outcome o1 rs)) @ rest) = results_markup o1 (map result_skeleton rs) @ tags False rest"
    and "tags False (join nl (map result_block (with_outcome o1 rs)) @ rest) = results_markup o1 (map result_skeleton rs) @ tags False rest"
proof -
  have m: "results_markup o1 (map result_skeleton rs) = concat (map (result_markup \<circ> result_skeleton) (with_outcome o1 rs))"
    by (simp add: results_markup_def with_outcome_def filter_map comp_def) (simp add: result_skeleton_def comp_def)
  have r: "tags False (result_block r @ t) = (result_markup \<circ> result_skeleton) r @ tags False t"
    if "r \<in> set (with_outcome o1 rs)" for r t
    using that assms by (simp add: with_outcome_def tags_result)
  show "tags False (concat (map result_block (with_outcome o1 rs)) @ rest) = results_markup o1 (map result_skeleton rs) @ tags False rest"
    unfolding m by (rule tags_concat) (rule r)
  show "tags False (join nl (map result_block (with_outcome o1 rs)) @ rest) = results_markup o1 (map result_skeleton rs) @ tags False rest"
    unfolding m by (rule tags_join) (simp_all add: r)
qed

definition run_part_markups :: "bool list \<Rightarrow> result_skeleton list \<Rightarrow> nat \<Rightarrow> string list" where
  \<open>run_part_markups warns xs notes =
     (let any = (\<lambda>o1. o1 \<in> set (map fst xs)); sel = (\<lambda>o1. map result_markup (filter (\<lambda>x. fst x = o1) xs))
      in [''<h1></h1>'', ''<p class="sub"></p>'', tally_markup (any FAIL) (any SKIP) False, env_markup warns] @
         (if any FAIL then ''<h2></h2>'' # sel FAIL else []) @
         (if any SKIP then ''<h2></h2>'' # sel SKIP else []) @
         (if any PASS then [''<h2></h2><details><summary></summary>'' @ results_markup PASS xs @ ''</details>''] else []) @
         (if notes = 0 then [] else [''<h2></h2><details><summary></summary>'' @
            concat (replicate notes ''<div class="detail"></div>'') @ ''</details>'']))\<close>

lemma run_markup_parts: "run_markup warns xs notes = page_markup (concat (run_part_markups warns xs notes))"
  by (simp add: run_markup_def run_part_markups_def results_markup_def Let_def)

lemma any_outcome: "o1 \<in> set (map fst (map result_skeleton rs)) \<longleftrightarrow> with_outcome o1 rs \<noteq> []"
  by (auto simp: with_outcome_def filter_empty_conv result_skeleton_def)

lemma blocks_fragments:
  assumes "outcome_ok o1"
  shows "list_all2 fragment (map result_block (with_outcome o1 rs)) (map result_markup (filter (\<lambda>x. fst x = o1) (map result_skeleton rs)))"
  using assms
  by (induction rs) (auto simp: with_outcome_def result_skeleton_def fragment_def tags_result[unfolded result_skeleton_def])

lemma notes_fragment:
  \<open>tags False (concat (map note_block ns) @ rest) = concat (replicate (length ns) ''<div class="detail"></div>'') @ tags False rest\<close>
  by (induction ns) (simp_all add: tags_note)

lemma run_parts_fragments:
  "list_all2 fragment (run_parts show c)
     (run_part_markups (context_skeleton c) (map result_skeleton (column_results c)) (length (get_or [] (j_notes c))))"
proof -
  let ?rs = "column_results c"
  have h: "fragment (''<h1>'' @ esc x @ ''</h1>'') ''<h1></h1>''"
    "fragment (''<p class=\"sub\">'' @ esc x @ ''s</p>'') ''<p class=\"sub\"></p>''"
    "fragment ''<h2>Failures</h2>'' ''<h2></h2>''" "fragment ''<h2>Skipped &mdash; not passes</h2>'' ''<h2></h2>''" for x
    by (simp_all add: fragment_def markup)
  have t: "fragment (tally_html (length (with_outcome PASS ?rs)) (length (with_outcome FAIL ?rs)) (length (with_outcome SKIP ?rs)) [])
      (tally_markup (with_outcome FAIL ?rs \<noteq> []) (with_outcome SKIP ?rs \<noteq> []) False)"
    "fragment (env_block (get_or [] (j_context c))) (env_markup (context_skeleton c))"
    by (simp_all add: fragment_def tags_tally tags_env context_skeleton_def)
  have p: "fragment (''<h2>Passed</h2><details><summary>'' @ str_nat n @ '' checks</summary>'' @
      concat (map result_block (with_outcome PASS ?rs)) @ ''</details>'')
      (''<h2></h2><details><summary></summary>'' @ results_markup PASS (map result_skeleton ?rs) @ ''</details>'')" for n
    using tags_results(1)[of PASS ?rs] by (simp add: fragment_def markup outcome_ok_def)
  have n: "fragment (''<h2>Notes</h2><details><summary>'' @ str_nat n @ '' notes</summary>'' @ concat (map note_block ns) @ ''</details>'')
      (''<h2></h2><details><summary></summary>'' @ concat (replicate (length ns) ''<div class=\"detail\"></div>'') @ ''</details>'')" for n ns
    by (simp add: fragment_def markup notes_fragment)
  show ?thesis
    unfolding run_parts_def run_part_markups_def Let_def any_outcome
    by (intro list_all2_appendI) (auto simp only: list_all2_Cons list_all2_Nil h t p n blocks_fragments outcome_ok_def
        if_True if_False not_not length_0_conv simp_thms split: if_split)
qed

type_synonym row_skeleton = "bool \<times> bool \<times> string option list"

definition row_skeleton :: "row \<Rightarrow> row_skeleton" where
  "row_skeleton r = (differs r, w_rule r \<noteq> [], map (map_option d_outcome) (w_cells r))"

definition cell_markup :: "string option \<Rightarrow> string" where
  \<open>cell_markup c = ''<td class="cell '' @ (case c of None \<Rightarrow> ''none'' | Some o1 \<Rightarrow> o1) @ ''"></td>''\<close>

definition row_markup :: "row_skeleton \<Rightarrow> string" where
  \<open>row_markup x =
     (let (diff, rule, cells) = x
      in ''<tr class="'' @ (if diff then ''differs'' else []) @ ''"><td>'' @
         (if rule then ''<span class="rule"></span>'' else []) @ ''</td>'' @ concat (map cell_markup cells) @ ''</tr>'')\<close>

definition matrix_markup :: "row_skeleton list \<Rightarrow> bool list list \<Rightarrow> string" where
  \<comment> \<open>the rows, and the context entries of each run\<close>
  \<open>matrix_markup xs envs =
     page_markup (''<h1></h1><p class="sub"></p>'' @ tally_markup (True \<in> set (map fst xs)) False True @
       ''<div class="scroll"><table><thead><tr><th></th>'' @ concat (map (\<lambda>_. ''<th></th>'') envs) @
       ''</tr></thead><tbody>'' @ concat (map row_markup xs) @ ''</tbody></table></div>'' @
       concat (map (\<lambda>e. ''<h2></h2>'' @ env_markup e) envs) @ ''<footer></footer>'')\<close>

lemma tags_cell:
  "(\<And>r. c = Some r \<Longrightarrow> outcome_ok (d_outcome r)) \<Longrightarrow>
     tags False (matrix_cell c @ rest) = cell_markup (map_option d_outcome c) @ tags False rest"
  by (cases c) (simp_all add: matrix_cell_def cell_markup_def outcome_no_bracket tags_attribute tags_text)

lemma tags_row:
  assumes "\<And>r. Some r \<in> set (w_cells w) \<Longrightarrow> outcome_ok (d_outcome r)"
  shows "tags False (matrix_row w @ rest) = row_markup (row_skeleton w) @ tags False rest"
proof -
  have "tags False (concat (map matrix_cell (w_cells w)) @ t) = concat (map (cell_markup \<circ> map_option d_outcome) (w_cells w)) @ tags False t" for t
    by (rule tags_concat) (auto intro!: tags_cell simp: assms)
  then show ?thesis by (simp add: matrix_row_def row_markup_def row_skeleton_def markup)
qed

lemma build_cells:
  assumes "w \<in> set (m_rows (build cols))" "Some r \<in> set (w_cells w)"
  shows "\<exists>c\<in>set cols. r \<in> set (column_results c)"
  using assms(2) unfolding build_row(1)[OF assms(1)] by (auto dest!: sym[of "Some r"] lookup_of_Some)

lemma disagreements_any: "True \<in> set (map fst (map row_skeleton (m_rows m))) \<longleftrightarrow> disagreements m \<noteq> []"
  by (auto simp: disagreements_def filter_empty_conv row_skeleton_def)

section \<open>Properties\<close>


text \<open>The page of a comparison has the matrix in it and nothing a report could smuggle in. For reports with the
  three outcomes its markup has one table row per row of the matrix, in order, marked exactly where the implementations
  differ, with one cell per run that shows that run's outcome or the sign for none, and one heading per run;
  the texts have no part in it.\<close>

theorem matrix_page_markup:
  assumes "\<And>c r. c \<in> set runs \<Longrightarrow> r \<in> set (column_results c) \<Longrightarrow> outcome_ok (d_outcome r)"
  shows "tags False (render_matrix runs title) =
    matrix_markup (map row_skeleton (m_rows (build runs))) (map context_skeleton runs)"
proof -
  let ?rows = "m_rows (build runs)"
  have rows: "tags False (concat (map matrix_row ?rows) @ t) = concat (map (row_markup \<circ> row_skeleton) ?rows) @ tags False t" for t
    unfolding comp_def by (rule tags_concat) (meson build_cells assms tags_row)
  have heads: "tags False (concat (map head_html runs) @ t) =
      concat (map (\<lambda>_. ''<th></th>'') runs) @ tags False t" for t
    by (rule tags_concat) (simp add: markup head_html_def)
  have envs: "tags False (concat (map env_section runs) @ t) =
      concat (map (\<lambda>c. ''<h2></h2>'' @ env_markup (context_skeleton c)) runs) @ tags False t" for t
    by (rule tags_concat) (simp add: markup context_skeleton_def env_section_def)
  show ?thesis
    unfolding render_matrix_def matrix_markup_def disagreements_any
    by (rule tags_page, unfold matrix_body_def Let_def) (simp add: markup rows heads envs comp_def)
qed

theorem matrix_page_markup_witness:
  "tags False (render_matrix example_columns ''t'') =
     matrix_markup (map row_skeleton (m_rows (build example_columns))) (map context_skeleton example_columns)"
  by (rule matrix_page_markup)
    (auto simp: example_columns_def column_results_def get_or_def example_result_def outcome_ok_def empty_column_def)

text \<open>The tally over a comparison counts disagreements as failures. A check that every implementation fails is no
  disagreement, so a comparison in which every check fails everywhere shows no pill for failures at all.\<close>

theorem shared_failures_not_tallied:
  "(let c = empty_column\<lparr>j_label := Some ''a'', j_results := Some [example_result ''x'' FAIL]\<rparr>; m = build [c, c]
    in map outcomes (m_rows m) = [[FAIL, FAIL]] \<and> disagreements m = [] \<and>
       tags False (tally_html (length (filter all_pass (m_rows m))) (length (disagreements m)) 0 ''1 checks'') =
         tally_markup False False True)"
  using tags_tally[of _ 0 0 _ "[]"] by (simp add: Let_def) code_simp

end
