(* ===== verification/Page_Assets.thy ===== *)
theory Page_Assets
  imports Html
begin

text \<open>
  The style sheet and the script of the published page, as \<^verbatim>\<open>tools/artifact_matrix.py\<close> has them.
\<close>

definition PAGE_STYLE :: string where
  \<open>PAGE_STYLE = join nl [
     [],
     '':root{'',
     ''  --ground:#F6F8F8; --panel:#FFFFFF; --ink:#0F1719; --muted:#5C6E72;'',
     ''  --rule:#D9E2E3; --rule-soft:#EAF0F0;'',
     ''  --pass:#17795A; --fail:#BE3A2B; --skip:#9C6A12; --accent:#0C7C86;'',
     ''  --fail-wash:#FBF0EE; --skip-wash:#FDF6E8; --stripe:#BE3A2B;'',
     ''  --sans:"IBM Plex Sans",ui-sans-serif,system-ui,sans-serif;'',
     ''  --cond:"IBM Plex Sans Condensed","IBM Plex Sans",ui-sans-serif,system-ui,sans-serif;'',
     ''  --mono:"IBM Plex Mono",ui-monospace,SFMono-Regular,Menlo,monospace;'',
     ''}'',
     ''@media (prefers-color-scheme:dark){:root:not([data-theme="light"]){'',
     ''  --ground:#0D1315; --panel:#141D20; --ink:#DEE9EA; --muted:#8A9CA0;'',
     ''  --rule:#243033; --rule-soft:#1A2427;'',
     ''  --pass:#4FBF95; --fail:#F0796A; --skip:#DCA43A; --accent:#3FB6BF;'',
     ''  --fail-wash:#201616; --skip-wash:#211B0F; --stripe:#F0796A;'',
     ''}}'',
     '':root[data-theme="dark"]{'',
     ''  --ground:#0D1315; --panel:#141D20; --ink:#DEE9EA; --muted:#8A9CA0;'',
     ''  --rule:#243033; --rule-soft:#1A2427;'',
     ''  --pass:#4FBF95; --fail:#F0796A; --skip:#DCA43A; --accent:#3FB6BF;'',
     ''  --fail-wash:#201616; --skip-wash:#211B0F; --stripe:#F0796A;'',
     ''}'',
     ''*{box-sizing:border-box}'',
     ''body{margin:0;background:var(--ground);color:var(--ink);font-family:var(--sans);'',
     ''  font-size:15px;line-height:1.55;-webkit-font-smoothing:antialiased;'',
     ''  overflow-x:hidden}'',
     ''.wrap{max-width:76rem;margin:0 auto;padding:2.5rem 1.25rem 5rem;'',
     ''  display:flex;flex-direction:column;gap:2.5rem}'',
     ''.mast{display:flex;flex-direction:column;gap:.5rem}'',
     ''.lede a{color:inherit;text-decoration-color:var(--accent);'',
     ''  text-underline-offset:.18em}'',
     ''.lede a:hover{color:var(--accent)}'',
     ''h1{font-family:var(--cond);font-weight:700;font-size:clamp(1.7rem,4vw,2.5rem);'',
     ''  margin:0;line-height:1.1;text-wrap:balance;letter-spacing:-.01em}'',
     ''h2.proto{font-family:var(--cond);font-weight:700;font-size:1.4rem;margin:0;'',
     ''  letter-spacing:-.005em}'',
     ''.lede{margin:0;color:var(--muted);max-width:64ch}'',
     ''.spec{font-family:var(--mono);font-size:.76rem;color:var(--muted);'',
     ''  display:flex;flex-wrap:wrap;gap:.35rem 1.4rem;padding-top:.65rem;'',
     ''  border-top:1px solid var(--rule)}'',
     ''.spec b{font-weight:500;color:var(--ink)}'',
     ''.proto-block{display:flex;flex-direction:column;gap:1rem;'',
     ''  padding-top:1.75rem;border-top:2px solid var(--rule)}'',
     ''.cards{display:grid;gap:.9rem;grid-template-columns:repeat(auto-fit,minmax(15rem,1fr))}'',
     ''.card{background:var(--panel);border:1px solid var(--rule);border-radius:3px;'',
     ''  padding:1rem 1.1rem;display:flex;flex-direction:column;gap:.7rem}'',
     ''.card h3{font-family:var(--cond);font-size:1.05rem;font-weight:600;margin:0;'',
     ''  letter-spacing:.01em}'',
     ''.card .ver{font-family:var(--mono);font-size:.72rem;color:var(--muted);'',
     ''  margin-top:-.45rem}'',
     ''/* A column that produced nothing is drawn, dimmed and labelled. It is never'',
     ''   dropped: the gap where a column should be reads as agreement between the'',
     ''   implementations that remain, which is the opposite of what happened. */'',
     ''.card.dead{border-style:dashed;opacity:.75}'',
     ''.card.dead .ver{color:var(--skip)}'',
     ''.card .ver.crashed{color:var(--fail)}'',
     ''.card .ver.os{margin-top:0;letter-spacing:.04em;text-transform:uppercase}'',
     ''th.st .os{display:block;font-family:var(--mono);font-weight:400;'',
     ''  font-size:.62rem;letter-spacing:.06em;text-transform:uppercase;'',
     ''  color:var(--muted)}'',
     ''.counts{display:flex;gap:1.25rem;font-variant-numeric:tabular-nums}'',
     ''.count{display:flex;flex-direction:column;line-height:1.15}'',
     ''.count b{font-family:var(--cond);font-size:1.5rem;font-weight:700}'',
     ''.count span{font-family:var(--cond);font-size:.68rem;letter-spacing:.1em;'',
     ''  text-transform:uppercase;color:var(--muted)}'',
     ''.count.p b{color:var(--pass)} .count.f b{color:var(--fail)} .count.s b{color:var(--skip)}'',
     ''.bar{display:flex;height:5px;border-radius:2px;overflow:hidden;background:var(--rule-soft)}'',
     ''.bar i{display:block}'',
     ''.bar .p{background:var(--pass)} .bar .f{background:var(--fail)} .bar .s{background:var(--skip)}'',
     ''h4{font-family:var(--cond);font-size:.8rem;font-weight:600;letter-spacing:.11em;'',
     ''  text-transform:uppercase;color:var(--muted);margin:0 0 .5rem}'',
     ''.scroll{overflow-x:auto;background:var(--panel);border:1px solid var(--rule);'',
     ''  border-radius:3px}'',
     ''table{border-collapse:collapse;width:100%;font-size:.83rem;min-width:46rem}'',
     ''thead th{position:sticky;top:0;background:var(--panel);z-index:2;'',
     ''  font-family:var(--cond);font-size:.7rem;letter-spacing:.09em;text-transform:uppercase;'',
     ''  color:var(--muted);text-align:left;font-weight:600;'',
     ''  padding:.6rem .75rem;border-bottom:1px solid var(--rule)}'',
     ''thead th.st{text-align:center;width:8rem}'',
     ''td{padding:.4rem .75rem;border-bottom:1px solid var(--rule-soft);vertical-align:top}'',
     ''tr.grp td{background:var(--rule-soft);font-family:var(--cond);font-weight:600;'',
     ''  font-size:.72rem;letter-spacing:.1em;text-transform:uppercase;color:var(--muted);'',
     ''  padding:.5rem .75rem}'',
     ''tr.differs{background:var(--fail-wash)}'',
     ''tr.differs td:first-child{box-shadow:inset 3px 0 0 var(--stripe)}'',
     ''/* The rows the whole exercise is for: pyvisa-py fails and every other'',
     ''   implementation passes. A thicker stripe, because "disagrees with a shipping'',
     ''   implementation of the same spec" is a much stronger claim than "disagrees'',
     ''   with the others somehow". */'',
     ''tr.only-one td:first-child{box-shadow:inset 5px 0 0 var(--fail)}'',
     ''/* The check name links to the line that asserts it. Underlined only on hover:'',
     ''   every row would otherwise be a wall of blue. */'',
     ''a.src{color:var(--muted);text-decoration:none;font-family:var(--mono);'',
     ''  font-size:.68rem;white-space:nowrap}'',
     ''a.src:hover,a.src:focus{color:var(--accent);text-decoration:underline}'',
     ''tr.grp a.src{opacity:1;color:inherit;font-family:inherit;font-size:inherit}'',
     ''.grp-time{float:right;font-family:var(--mono);font-size:.68rem;'',
     ''  color:var(--muted);font-weight:400}'',
     ''tr.allskip{background:var(--skip-wash)}'',
     ''.standouts{margin:.9rem 0 0}'',
     ''details.standout{margin:0 0 .35rem;font-size:.85rem}'',
     ''details.standout > summary{cursor:pointer;font-weight:600}'',
     ''details.standout .lede{margin:.5rem 0 0;color:var(--muted);font-size:.82rem}'',
     ''details.standout dl,details.standout dt{margin-top:.5rem;font-weight:600}'',
     ''details.standout dd{margin:.15rem 0 0;color:var(--muted);'',
     ''  font-family:var(--mono);font-size:.75rem;overflow-wrap:anywhere}'',
     ''details.skipped-all{margin:.9rem 0 0;font-size:.85rem}'',
     ''details.skipped-all summary{cursor:pointer;color:var(--muted)}'',
     ''details.skipped-all dt{margin-top:.5rem;font-weight:600}'',
     ''details.skipped-all dd{margin:.15rem 0 0;color:var(--muted);'',
     ''  overflow-wrap:anywhere}'',
     ''.check{max-width:34rem}'',
     ''.rule{font-family:var(--mono);font-size:.68rem;color:var(--muted);display:block;'',
     ''  margin-top:.1rem}'',
     ''td.st{text-align:center;font-family:var(--mono);font-size:.7rem;font-weight:600;'',
     ''  letter-spacing:.04em;white-space:nowrap}'',
     ''td.PASS{color:var(--pass)} td.FAIL{color:var(--fail)}'',
     ''td.SKIP{color:var(--skip)} td.none{color:var(--muted)}'',
     ''/* A row with detail behind it announces itself with a caret and reacts to'',
     ''   the pointer, so it is discoverable rather than something you have to guess'',
     ''   is clickable. */'',
     ''tr.expandable{cursor:pointer}'',
     ''tr.expandable:hover td{background:var(--rule-soft)}'',
     ''tr.expandable.differs:hover td{background:var(--fail-wash);filter:brightness(.97)}'',
     ''.caret{display:inline-block;width:.85em;margin-right:.35em;color:var(--muted);'',
     ''  transition:transform .12s ease}'',
     ''.caret.spacer{visibility:hidden}'',
     ''tr.expandable[aria-expanded="true"] .caret{transform:rotate(90deg)}'',
     ''tr.detail-row td{padding:0 .75rem .9rem;background:var(--rule-soft)}'',
     ''.detail-block{margin-top:.75rem;border-left:2px solid var(--rule);'',
     ''  padding-left:.85rem}'',
     ''.detail-head{font-size:.78rem;font-weight:600;'',
     ''  letter-spacing:.02em;color:var(--muted);margin-bottom:.15rem}'',
     ''.detail-head .tag{font-family:var(--mono);font-size:.68rem;font-weight:700;'',
     ''  letter-spacing:.05em;margin-right:.45rem}'',
     ''.detail-head .tag.PASS{color:var(--pass)}'',
     ''.detail-head .tag.FAIL{color:var(--fail)}'',
     ''.detail-head .tag.SKIP{color:var(--skip)}'',
     ''.detail-sum{font-size:.82rem;margin-bottom:.4rem;max-width:80ch}'',
     ''.detail-block pre{font-family:var(--mono);font-size:.72rem;line-height:1.5;'',
     ''  margin:0;padding:.6rem .7rem;background:var(--panel);'',
     ''  border:1px solid var(--rule);border-radius:3px;color:var(--ink);'',
     ''  white-space:pre-wrap;overflow-wrap:anywhere;word-break:break-word}'',
     ''code{font-family:var(--mono);font-size:.88em}'',
     ''footer{color:var(--muted);font-size:.78rem;border-top:1px solid var(--rule);'',
     ''  padding-top:1rem;max-width:70ch}'',
     ''a{color:var(--accent)}'',
     '':focus-visible{outline:2px solid var(--accent);outline-offset:2px}'',
     ''@media (max-width:38rem){'',
     ''  /* The grid has to fit the screen. A min-width sized for a laptop turns'',
     ''     every row into a sideways scroll on a phone, and the outcome columns are'',
     ''     the part worth seeing without moving. */'',
     ''  table{min-width:0;font-size:.78rem}'',
     ''  td.check{white-space:normal;overflow-wrap:anywhere}'',
     ''  th.st,td.st{padding-left:.35rem;padding-right:.35rem}'',
     ''  .grp-time{float:none;display:block;margin-top:.15rem}'',
     ''  .wrap{padding-left:.85rem;padding-right:.85rem}'',
     ''  .detail-block pre{font-size:.68rem}'',
     ''}'',
     ''@media (prefers-reduced-motion:reduce){*{animation:none!important;transition:none!important}}'',
     []]\<close>

definition PAGE_SCRIPT :: string where
  \<open>PAGE_SCRIPT = join nl [
     ''<script>'',
     ''(function () {'',
     ''  // Delegated so the handler count does not scale with the table, and so'',
     ''  // keyboard users get the same affordance as the pointer: the rows are'',
     ''  // role="button" and tabbable, which is meaningless without Enter/Space.'',
     ''  function toggle(row) {'',
     ''    var panel = document.getElementById('' @ [CHR 0x27] @ ''d-'' @ [CHR 0x27] @ '' + row.dataset.row);'',
     ''    if (!panel) return;'',
     ''    var open = row.getAttribute('' @ [CHR 0x27] @ ''aria-expanded'' @ [CHR 0x27] @ '') === '' @ [CHR 0x27] @ ''true'' @ [CHR 0x27] @ '';'',
     ''    row.setAttribute('' @ [CHR 0x27] @ ''aria-expanded'' @ [CHR 0x27] @ '', open ? '' @ [CHR 0x27] @ ''false'' @ [CHR 0x27] @ '' : '' @ [CHR 0x27] @ ''true'' @ [CHR 0x27] @ '');'',
     ''    panel.hidden = open;'',
     ''  }'',
     ''  document.addEventListener('' @ [CHR 0x27] @ ''click'' @ [CHR 0x27] @ '', function (e) {'',
     ''    var row = e.target.closest('' @ [CHR 0x27] @ ''tr.expandable'' @ [CHR 0x27] @ '');'',
     ''    if (row) toggle(row);'',
     ''  });'',
     ''  document.addEventListener('' @ [CHR 0x27] @ ''keydown'' @ [CHR 0x27] @ '', function (e) {'',
     ''    if (e.key !== '' @ [CHR 0x27] @ ''Enter'' @ [CHR 0x27] @ '' && e.key !== '' @ [CHR 0x27] @ '' '' @ [CHR 0x27] @ '') return;'',
     ''    var row = e.target.closest && e.target.closest('' @ [CHR 0x27] @ ''tr.expandable'' @ [CHR 0x27] @ '');'',
     ''    if (!row) return;'',
     ''    e.preventDefault();'',
     ''    toggle(row);'',
     ''  });'',
     ''})();'',
     ''</script>'']\<close>

end
