(* ===== verification/Page.thy ===== *)
theory Page
  imports Outcomes Compare Page_Assets "HOL-Library.Multiset"
begin

text \<open>
  \<^verbatim>\<open>tools/artifact_matrix.py\<close>, the published page; its loader is in \<open>Outcomes\<close>. \<open>render_protocol\<close> gives the lines
  of one transport's section, cut into the masthead, the cards, the table and the lists under it. The prose
  file is the record \<open>prose\<close>. Characters beyond ASCII are their UTF-8 bytes.
\<close>

abbreviation mdash :: string where "mdash \<equiv> [CHR 0xE2, CHR 0x80, CHR 0x94]"
abbreviation middot :: string where "middot \<equiv> [CHR 0xC2, CHR 0xB7]"

section \<open>Small parts\<close>

definition is_hex :: "char \<Rightarrow> bool" where
  "is_hex c \<longleftrightarrow> c \<in> set ''0123456789abcdef''"

definition short_sha :: "string \<Rightarrow> string" where
  "short_sha commit =
     (let (head, _, rest) = partition3 commit ''-''
      in if length head = 40 \<and> list_all is_hex head
         then (if rest \<noteq> [] then take 12 head @ ''-'' @ rest else take 12 head)
         else commit)"

definition reason :: "rdict \<Rightarrow> string" where
  "reason r = strip (get_or [] (d_detail r))"

text \<open>\<^verbatim>\<open>str.split()\<close>, on white space.\<close>

fun words_from :: "string \<Rightarrow> string \<Rightarrow> string list" where
  "words_from cur [] = (if cur = [] then [] else [rev cur])"
| "words_from cur (c # cs) =
     (if is_space c then (if cur = [] then words_from [] cs else rev cur # words_from [] cs)
      else words_from (c # cur) cs)"

definition summary_line_of :: "string \<Rightarrow> string" where
  "summary_line_of detail =
     (let lines = filter (\<lambda>l. l \<noteq> []) (map strip (splitlines detail))
      in if detail = [] \<or> lines = [] then []
         else join '' '' (words_from [] (if contains ''Traceback (most recent call last)'' detail then last lines else hd lines)))"

record prose =
  pr_titles :: "(string, string) dict"
  pr_title :: "string option"
  pr_lede :: "string option"
  pr_footer :: "string option"

section \<open>What goes where\<close>

definition hidden :: "matrix \<Rightarrow> string list" where
  "hidden m = map w_key (all_skipped m)"

definition grid :: "matrix \<Rightarrow> (string, row list) dict" where
  \<comment> \<open>the groups of the table\<close>
  "grid m = filter (\<lambda>(s, rs). rs \<noteq> []) (map (\<lambda>(s, rs). (s, filter (\<lambda>r. w_key r \<notin> set (hidden m)) rs)) (by_script m))"

definition unique_keys :: "matrix \<Rightarrow> string list" where
  "unique_keys m = concat (map (\<lambda>(i, rs). map w_key rs) (unique_failures_by_column m))"

definition unique_rows :: "matrix \<Rightarrow> row list" where
  "unique_rows m = filter (\<lambda>r. w_key r \<in> set (unique_keys m)) (m_rows m)"

definition show_os :: "column list \<Rightarrow> bool" where
  "show_os cols \<longleftrightarrow> length (os_labels cols) > 1"

definition first_context :: "column list \<Rightarrow> (string, string) dict" where
  "first_context cols =
     (case filter (\<lambda>c. status c = ''ok'') cols of [] \<Rightarrow> [] | c # _ \<Rightarrow> get_or [] (j_context c))"

definition errors_of :: "column \<Rightarrow> string list" where
  "errors_of c = get_or [] (j_errors c)"

definition short :: "column \<Rightarrow> string" where
  \<comment> \<open>set by the loader\<close>
  "short c = get_or [] (j_short c)"

section \<open>The masthead of a section\<close>

definition lede_counts :: "matrix \<Rightarrow> string" where
  "lede_counts m =
     str_nat (length (m_rows m)) @ '' checks. '' @ str_nat (length (disagreements m)) @ '' differ between '' @
     ''implementations, '' @ str_nat (length (unique_rows m)) @ '' of them failed by exactly one.'' @
     (if shared_failures m = [] then []
      else '' '' @ str_nat (length (shared_failures m)) @ '' are failed by all of them, which is usually the '' @
           ''suite'' @ [CHR 0x27] @ ''s problem rather than theirs.'') @
     (if all_skipped m = [] then []
      else '' '' @ str_nat (length (all_skipped m)) @ '' could not run anywhere and are listed '' @
           ''below the table rather than in it.'')"

definition lede_errors :: "column list \<Rightarrow> string" where
  "lede_errors cols =
     concat (map (\<lambda>(lab, c). if errors_of c = [] then []
       else '' '' @ lab @ '' is missing '' @ str_nat (length (errors_of c)) @ '' script(s) '' @
            ''that crashed ('' @ join '', '' (errors_of c) @ '').'') (zip (display_labels cols) cols))"

definition dead_labels :: "column list \<Rightarrow> string list" where
  "dead_labels cols = map fst (filter (\<lambda>(lab, c). status c \<noteq> ''ok'') (zip (display_labels cols) cols))"

definition lede :: "matrix \<Rightarrow> string" where
  "lede m =
     (if length (compared m) < 2
      then str_nat (length (m_rows m)) @ '' checks from a single implementation. '' @
           ''Nothing was compared, so this section is a report rather than a '' @ ''comparison.''
      else lede_counts m @ lede_errors (m_columns m)) @
     (if filter (\<lambda>c. status c \<noteq> ''ok'') (m_columns m) = [] then []
      else '' '' @ join '', '' (dead_labels (m_columns m)) @ '' produced no results, so the counts above compare only '' @
           ''the rest.'')"

definition section_head :: "string \<Rightarrow> prose \<Rightarrow> matrix \<Rightarrow> string list" where
  \<open>section_head protocol prose m =
     (let ctx = first_context (m_columns m)
      in [''<section class="proto-block" id="'' @ esc protocol @ ''">'',
          ''<h2 class="proto">'' @ esc (get_or protocol (dict_get (pr_titles prose) protocol)) @ ''</h2>'',
          ''<p class="lede">'' @ esc (lede m) @ ''</p>'',
          ''<div class="spec"><span>resource <b>'' @ esc (get_or ''?'' (dict_get ctx ''resource'')) @
          ''</b></span><span>host <b>'' @ esc (get_or ''?'' (dict_get ctx ''platform'')) @ ''</b></span></div>''])\<close>

section \<open>The cards\<close>

definition version_of :: "column \<Rightarrow> string" where
  "version_of c =
     (let v = (if truthy (j_vendor_version c) then the (j_vendor_version c)
               else short_sha (get_or [] (dict_get (get_or [] (j_context c)) ''pyvisa-py commit'')))
      in if startswith (lower v) (lower (short c)) then or_else (strip (drop (length (short c)) v)) v else v)"

definition sub_of :: "column \<Rightarrow> string" where
  "sub_of c = (if status c = ''ok'' then version_of c else status c @ '' '' @ mdash @ '' '' @ get_or [] (j_reason c))"

definition width_of :: "nat \<Rightarrow> nat \<Rightarrow> rat" where
  "width_of n tot = 100 * of_nat n / of_nat tot"

definition card :: "matrix \<Rightarrow> nat \<Rightarrow> string list" where
  \<open>card m i =
     (let c = m_columns m ! i; p = counts m i PASS; f = counts m i FAIL; s = counts m i SKIP;
          tot = max (p + f + s) 1
      in [''<article class="card'' @ (if status c = ''ok'' then [] else '' dead'') @ ''">'',
          ''<h3>'' @ esc (short c) @ ''</h3>''] @
         (if sub_of c = [] then [] else [''<div class="ver">'' @ esc (sub_of c) @ ''</div>'']) @
         (if show_os (m_columns m) \<and> truthy (j_os_label c)
          then [''<div class="ver os">'' @ esc (the (j_os_label c)) @ ''</div>''] else []) @
         (if errors_of c = [] then []
          else [''<div class="ver crashed">'' @ str_nat (length (errors_of c)) @ '' script(s) '' @
                ''crashed &mdash; those checks are absent, not passing</div>'']) @
         (if status c \<noteq> ''ok'' then [''</article>'']
          else [''<div class="counts">'',
                ''<div class="count p"><b>'' @ str_nat p @ ''</b><span>passed</span></div>'',
                ''<div class="count f"><b>'' @ str_nat f @ ''</b><span>failed</span></div>'',
                ''<div class="count s"><b>'' @ str_nat s @ ''</b><span>skipped</span></div>'',
                ''</div>'',
                ''<div class="bar"><i class="p" style="width:'' @ fmt_fixed 1 (width_of p tot) @ ''%"></i>'' @
                ''<i class="f" style="width:'' @ fmt_fixed 1 (width_of f tot) @ ''%"></i>'' @
                ''<i class="s" style="width:'' @ fmt_fixed 1 (width_of s tot) @ ''%"></i></div>'',
                ''</article>'']))\<close>

definition cards :: "matrix \<Rightarrow> string list" where
  \<open>cards m = [''<div class="cards">''] @ concat (map (card m) [0..<length (m_columns m)]) @ [''</div>'']\<close>

section \<open>The table\<close>

definition head_cell :: "column list \<Rightarrow> column \<Rightarrow> string" where
  \<open>head_cell cols c =
     ''<th class="st">'' @ esc (short c) @
     (if show_os cols \<and> truthy (j_os_label c) then ''<span class="os">'' @ esc (the (j_os_label c)) @ ''</span>'' else []) @
     ''</th>''\<close>

definition AttributeError :: "string \<Rightarrow> exn" where
  "AttributeError msg = plain_exn [''AttributeError'', ''Exception'', ''BaseException''] msg"

definition seconds_text :: "rat \<Rightarrow> string" where
  "seconds_text secs = (if secs < 10 then fmt_fixed 1 secs @ ''s'' else fmt_fixed 0 secs @ ''s'')"

definition column_time :: "row list \<Rightarrow> column \<Rightarrow> exn + string list" where
  \<comment> \<open>a number other than zero has no items\<close>
  "column_time rws c =
     (case j_elapsed c of
        None \<Rightarrow> Inr []
      | Some (Seconds t) \<Rightarrow> if t = 0 then Inr [] else Inl (AttributeError ''items'')
      | Some (PerScript d) \<Rightarrow>
          (case filter (\<lambda>(k, v). rws \<noteq> [] \<and> contains k (w_name (hd rws))) d of
             [] \<Rightarrow> Inr []
           | (k, secs) # _ \<Rightarrow> Inr [label c @ '' '' @ seconds_text secs]))"

fun group_times :: "row list \<Rightarrow> column list \<Rightarrow> exn + string list" where
  "group_times rws [] = Inr []"
| "group_times rws (c # cs) =
     (case column_time rws c of
        Inl e \<Rightarrow> Inl e
      | Inr t \<Rightarrow> (case group_times rws cs of Inl e \<Rightarrow> Inl e | Inr ts \<Rightarrow> Inr (t @ ts)))"

definition group_head :: "string \<Rightarrow> nat \<Rightarrow> string \<Rightarrow> string list \<Rightarrow> string" where
  \<open>group_head source_url ncols script tms =
     (let timing = (if tms = [] then []
                    else ''<span class="grp-time">'' @ esc (join ('' '' @ middot @ '' '') tms) @ ''</span>'');
          head = (if source_url \<noteq> [] \<and> script \<noteq> []
                  then ''<a class="src" href="'' @ esc (rstrip_chars {CHR ''/''} source_url) @ ''/'' @ esc script @ ''">'' @
                       esc script @ ''</a>''
                  else esc script)
      in ''<tr class="grp"><td colspan="'' @ str_nat (ncols + 1) @ ''">'' @ head @ timing @ ''</td></tr>'')\<close>

definition row_href :: "string \<Rightarrow> row \<Rightarrow> string" where
  "row_href source_url r =
     (if source_url \<noteq> [] \<and> w_source r \<noteq> []
      then rstrip_chars {CHR ''/''} source_url @ ''/'' @ row_file r @ (if row_line r = [] then [] else ''#L'' @ row_line r)
      else [])"

definition row_name :: "string \<Rightarrow> row \<Rightarrow> string" where
  \<open>row_name source_url r =
     esc (row_label r) @
     (if row_href source_url r = [] then []
      else '' <a class="src" href="'' @ esc (row_href source_url r) @ ''" title="'' @ esc (w_source r) @ ''">[source]</a>'')\<close>

definition cell_html :: "rdict option \<Rightarrow> string" where
  \<open>cell_html c =
     (case c of
        None \<Rightarrow> ''<td class="st none">&mdash;</td>''
      | Some r \<Rightarrow> ''<td class="st '' @ d_outcome r @ ''">'' @ d_outcome r @ ''</td>'')\<close>

definition row_details :: "column list \<Rightarrow> row \<Rightarrow> (string \<times> string \<times> string) list" where
  "row_details cols r =
     concat (map (\<lambda>(c, col). case c of
         None \<Rightarrow> []
       | Some x \<Rightarrow> if reason x = [] then [] else [(short col, d_outcome x, reason x)]) (zip (w_cells r) cols))"

definition row_classes :: "matrix \<Rightarrow> row \<Rightarrow> string list" where
  "row_classes m r =
     (if differs r then [''differs''] else if row_all_skipped r then [''allskip''] else []) @
     (if w_key r \<in> set (unique_keys m) then [''only-one''] else []) @
     (if row_details (m_columns m) r = [] then [] else [''expandable''])"

definition detail_block :: "string \<times> string \<times> string \<Rightarrow> string" where
  \<open>detail_block x =
     (let (who, o1, detail) = x; head = summary_line_of detail
      in ''<div class="detail-block"><div class="detail-head"><span class="tag '' @ o1 @ ''">'' @ o1 @ ''</span> '' @
         esc who @ ''</div>'' @
         (if head \<noteq> [] \<and> head \<noteq> detail then ''<div class="detail-sum">'' @ esc head @ ''</div>'' else []) @
         ''<pre>'' @ esc detail @ ''</pre></div>'')\<close>

definition row_uid :: "string \<Rightarrow> nat \<Rightarrow> string" where
  "row_uid protocol n = protocol @ ''-'' @ str_nat n"

definition table_row :: "string \<Rightarrow> string \<Rightarrow> matrix \<Rightarrow> nat \<times> row \<Rightarrow> string list" where
  \<open>table_row protocol source_url m x =
     (let (n, r) = x; uid = row_uid protocol n; details = row_details (m_columns m) r;
          classes = join '' '' (row_classes m r);
          rule = (if w_rule r = [] then [] else ''<span class="rule">'' @ esc (w_rule r) @ ''</span>'');
          name = row_name source_url r;
          cells = concat (map cell_html (map fst (zip (w_cells r) (m_columns m))))
      in if details \<noteq> [] then
           [''<tr class="'' @ classes @ ''" data-row="'' @ uid @ ''" tabindex="0" role="button" aria-expanded="false" '' @
            ''aria-controls="d-'' @ uid @ ''"><td class="check"><span class="caret" aria-hidden="true">&#9656;</span>'' @
            name @ rule @ ''</td>'' @ cells @ ''</tr>'',
            ''<tr class="detail-row" id="d-'' @ uid @ ''" hidden><td colspan="'' @ str_nat (length (m_columns m) + 1) @ ''">'' @
            concat (map detail_block details) @ ''</td></tr>'']
         else
           [''<tr class="'' @ classes @ ''"><td class="check"><span class="caret spacer"></span>'' @ name @ rule @ ''</td>'' @
            cells @ ''</tr>''])\<close>

text \<open>The rows are numbered through the groups.\<close>

fun number_groups :: "nat \<Rightarrow> (string, row list) dict \<Rightarrow> (string \<times> (nat \<times> row) list) list" where
  "number_groups n [] = []"
| "number_groups n ((s, rs) # gs) = (s, enumerate (Suc n) rs) # number_groups (n + length rs) gs"

fun table_groups :: "string \<Rightarrow> string \<Rightarrow> matrix \<Rightarrow> (string \<times> (nat \<times> row) list) list \<Rightarrow> exn + string list" where
  "table_groups protocol source_url m [] = Inr []"
| "table_groups protocol source_url m ((script, nrs) # gs) =
     (case group_times (map snd nrs) (m_columns m) of
        Inl e \<Rightarrow> Inl e
      | Inr tms \<Rightarrow>
          (case table_groups protocol source_url m gs of
             Inl e \<Rightarrow> Inl e
           | Inr rest \<Rightarrow>
               Inr (group_head source_url (length (m_columns m)) script tms #
                    concat (map (table_row protocol source_url m) nrs) @ rest)))"

section \<open>The lists under the table\<close>

definition reasons_of :: "row \<Rightarrow> string list" where
  "reasons_of r =
     sort (remdups (filter (\<lambda>s. strip s \<noteq> []) (map reason (List.map_filter (\<lambda>c. c) (w_cells r)))))"

definition list_item :: "string \<Rightarrow> row \<Rightarrow> string list" where
  "list_item source_url r =
     [''<dt>'' @ row_name source_url r @ ''</dt>'',
      ''<dd>'' @ or_else (esc (summary_line_of (join '' / '' (reasons_of r)))) ''&mdash;'' @ ''</dd>'']"

definition row_list :: "string \<Rightarrow> row list \<Rightarrow> string list" where
  "row_list source_url rs = [''<dl>''] @ concat (map (list_item source_url) rs) @ [''</dl>'']"

definition plural :: "nat \<Rightarrow> string" where
  "plural n = (if n = 1 then [] else ''s'')"

definition standout :: "string \<Rightarrow> matrix \<Rightarrow> nat \<times> row list \<Rightarrow> string list" where
  \<open>standout source_url m x =
     (let (i, rs) = x; lab = esc (label (m_columns m ! i))
      in [''<details class="standout">'',
          ''<summary>'' @ str_nat (length rs) @ '' failure'' @ plural (length rs) @ '' unique to '' @ lab @ ''</summary>'',
          ''<p class="lede">Checks '' @ lab @ '' fails that every other implementation here passes.</p>''] @
         row_list source_url rs @ [''</details>''])\<close>

definition standouts :: "string \<Rightarrow> matrix \<Rightarrow> string list" where
  \<open>standouts source_url m =
     (let by_column = unique_failures_by_column m; shared = shared_failures m
      in if by_column = [] \<and> shared = [] then []
         else [''<div class="standouts">''] @ concat (map (standout source_url m) by_column) @
              (if shared = [] then []
               else [''<details class="standout">'',
                     ''<summary>'' @ str_nat (length shared) @ '' failure'' @ plural (length shared) @
                     '' shared by every implementation</summary>'',
                     ''<p class="lede">Four independent implementations agreeing on a '' @
                     ''failure usually means the check is asserting more than the '' @
                     ''clause requires, or the mock is wrong. Read these as questions '' @
                     ''about the suite before questions about the libraries.</p>''] @
                    row_list source_url shared @ [''</details>'']) @ [''</div>''])\<close>

definition skipped_item :: "row \<Rightarrow> string list" where
  "skipped_item r =
     [''<dt>'' @ esc (row_label r) @ ''</dt>'',
      ''<dd>'' @ or_else (esc (join '' / '' (reasons_of r))) ''&mdash;'' @ ''</dd>'']"

definition skipped_list :: "matrix \<Rightarrow> string list" where
  \<open>skipped_list m =
     (let rs = all_skipped m
      in if rs = [] then []
         else [''<details class="skipped-all">'',
               ''<summary>'' @ str_nat (length rs) @ '' check'' @ plural (length rs) @ '' no implementation could run</summary>'',
               ''<dl>''] @ concat (map skipped_item rs) @ [''</dl></details>''])\<close>

section \<open>The page\<close>

definition render_protocol :: "string \<Rightarrow> column list \<Rightarrow> prose \<Rightarrow> string \<Rightarrow> exn + string list" where
  \<open>render_protocol protocol cols prose source_url =
     (let m = build cols
      in case table_groups protocol source_url m (number_groups 0 (grid m)) of
           Inl e \<Rightarrow> Inl e
         | Inr rws \<Rightarrow>
             Inr (section_head protocol prose m @ cards m @
               [''<div class="scroll"><table>'',
                ''<thead><tr><th>Check</th>'' @ concat (map (head_cell cols) cols) @ ''</tr></thead><tbody>''] @ rws @
               [''</tbody></table></div>''] @ standouts source_url m @ skipped_list m @ [''</section>'']))\<close>

record page_args =
  pa_reports :: "string list"
  pa_out :: string
  pa_source_url :: string
  pa_full_page :: bool

fun load_sections :: "string \<Rightarrow> (string \<Rightarrow> col_dir) \<Rightarrow> string list \<Rightarrow> py_error + (string \<times> column list) list \<times> string list" where
  \<comment> \<open>the sections, and what is printed\<close>
  "load_sections system dirs [] = Inr ([], [])"
| "load_sections system dirs (pair # pairs) =
     (let (protocol, _, directory) = partition3 pair ''=''
      in case load system (dirs directory) of
           Inl e \<Rightarrow> Inl e
         | Inr cols \<Rightarrow>
             (case load_sections system dirs pairs of
                Inl e \<Rightarrow> Inl e
              | Inr (secs, lines) \<Rightarrow>
                  Inr (if cols = [] then (secs, (''no reports in '' @ directory) # lines) else ((protocol, cols) # secs, lines))))"

fun render_sections :: "prose \<Rightarrow> string \<Rightarrow> (string \<times> column list) list \<Rightarrow> exn + string list" where
  "render_sections prose source_url [] = Inr []"
| "render_sections prose source_url ((protocol, cols) # secs) =
     (case render_protocol protocol cols prose source_url of
        Inl e \<Rightarrow> Inl e
      | Inr ls \<Rightarrow> (case render_sections prose source_url secs of Inl e \<Rightarrow> Inl e | Inr rest \<Rightarrow> Inr (ls @ rest)))"

definition page_head :: "prose \<Rightarrow> bool \<Rightarrow> string list" where
  \<open>page_head prose full =
     (if full
      then [''<!doctype html>'', ''<html lang="en"><head><meta charset="utf-8">'',
            ''<meta name="viewport" content="width=device-width,initial-scale=1">''] else []) @
     [''<title>'' @ esc (get_or ''VISA Conformance Matrix'' (pr_title prose)) @ ''</title>'',
      ''<link rel="stylesheet" href="https://fonts.googleapis.com/css2?'' @
      ''family=IBM+Plex+Mono:wght@400;500;600&family=IBM+Plex+Sans+Condensed:wght@500;600;700'' @
      ''&family=IBM+Plex+Sans:wght@400;500&display=swap">'',
      ''<style>'' @ PAGE_STYLE @ ''</style>''] @
     (if full then [''</head><body>''] else []) @ [''<div class="wrap">'']\<close>

definition mast :: "prose \<Rightarrow> column list \<Rightarrow> string list" where
  \<open>mast prose first =
     (let ctx = first_context first
      in [''<header class="mast">'', ''<h1>'' @ esc (get_or ''VISA Conformance Matrix'' (pr_title prose)) @ ''</h1>'',
          ''<p class="lede">'' @ get_or [] (pr_lede prose) @ ''</p>'',
          ''<div class="spec"><span>pyvisa <b>'' @ esc (get_or ''?'' (dict_get ctx ''pyvisa'')) @
          ''</b></span><span>python <b>'' @ esc (get_or ''?'' (dict_get ctx ''python'')) @ ''</b></span></div>'',
          ''</header>''])\<close>

datatype page_end = PageExit int "string list" | PageWritten string "string list" | PageRaises exn | PageLoadError py_error

definition page_main :: "string \<Rightarrow> (string \<Rightarrow> col_dir) \<Rightarrow> prose \<Rightarrow> page_args \<Rightarrow> page_end" where
  \<open>page_main system dirs prose a =
     (case load_sections system dirs (pa_reports a) of
        Inl e \<Rightarrow> PageLoadError e
      | Inr ([], lines) \<Rightarrow> PageExit 4 lines
      | Inr (secs, lines) \<Rightarrow>
          (case render_sections prose (pa_source_url a) secs of
             Inl e \<Rightarrow> PageRaises e
           | Inr body \<Rightarrow>
               PageWritten (join nl (page_head prose (pa_full_page a) @ mast prose (snd (hd secs)) @ body @ [PAGE_SCRIPT] @
                   (if truthy (pr_footer prose) then [''<footer>'' @ the (pr_footer prose) @ ''</footer>''] else []) @
                   [''</div>''] @ (if pa_full_page a then [''</body></html>''] else [])))
                 (lines @ [pa_out a @ '': '' @ str_nat (length secs) @ '' protocol section(s)''])))\<close>

section \<open>Lemmas\<close>

lemma mset_partition:
  "distinct ks \<Longrightarrow> mset (concat (map (\<lambda>k. filter (\<lambda>w. f w = k) xs) ks)) = filter_mset (\<lambda>w. f w \<in> set ks) (mset xs)"
proof (induction ks)
  case (Cons k ks)
  then have "mset (concat (map (\<lambda>k. filter (\<lambda>w. f w = k) xs) (k # ks))) =
      filter_mset (\<lambda>w. f w = k) (mset xs) + filter_mset (\<lambda>w. f w \<in> set ks) (mset xs)" by simp
  also have "\<dots> = filter_mset (\<lambda>w. f w \<in> set (k # ks)) (mset xs)"
    using Cons.prems by (intro multiset_eqI) auto
  finally show ?case .
qed simp

lemma concat_by_script: "mset (concat (map snd (by_script m))) = mset (m_rows m)"
proof -
  have "map snd (by_script m) = map (\<lambda>k. filter (\<lambda>w. group_of w = k) (m_rows m)) (first_seen [] (map group_of (m_rows m)))"
    by (simp add: by_script_groups comp_def)
  then have "mset (concat (map snd (by_script m))) =
      filter_mset (\<lambda>w. group_of w \<in> set (first_seen [] (map group_of (m_rows m)))) (mset (m_rows m))"
    by (simp only: mset_partition[OF distinct_first_seen[OF distinct.simps(1)[THEN iffD2]]])
  then show ?thesis by (simp flip: mset_filter)
qed

lemma concat_grid: "concat (map snd (grid m)) = filter (\<lambda>r. w_key r \<notin> set (hidden m)) (concat (map snd (by_script m)))"
proof -
  have drop: "concat (map snd (filter (\<lambda>(s, rs). rs \<noteq> []) gs)) = concat (map snd gs)" for gs :: "(string, row list) dict"
    by (induction gs) auto
  show ?thesis unfolding grid_def drop by (simp add: filter_concat comp_def case_prod_unfold)
qed

lemma build_keys_distinct: "distinct (map w_key (m_rows (build cols)))"
  by (simp add: build_keys distinct_first_seen)

lemma hidden_row:
  assumes "r \<in> set (m_rows (build cols))"
  shows "w_key r \<in> set (hidden (build cols)) \<longleftrightarrow> row_all_skipped r"
  using assms build_keys_distinct[of cols]
  by (auto simp: hidden_def all_skipped_def distinct_map inj_on_def)

lemma grid_rows:
  "mset (concat (map snd (grid (build cols)))) + mset (all_skipped (build cols)) = mset (m_rows (build cols))"
proof -
  let ?m = "build cols"
  have "mset (concat (map snd (grid ?m))) = filter_mset (\<lambda>r. w_key r \<notin> set (hidden ?m)) (mset (m_rows ?m))"
    by (simp only: concat_grid mset_filter concat_by_script)
  also have "\<dots> = filter_mset (\<lambda>r. \<not> row_all_skipped r) (mset (m_rows ?m))"
    by (rule filter_mset_cong) (use hidden_row in auto)
  finally show ?thesis
    by (simp add: all_skipped_def)
qed

lemma number_groups_snd: "map snd (concat (map snd (number_groups n gs))) = concat (map snd gs)"
  by (induction n gs rule: number_groups.induct) simp_all

lemma number_groups_fst:
  "map fst (concat (map snd (number_groups n gs))) = [Suc n..<Suc (n + length (concat (map snd gs)))]"
proof (induction n gs rule: number_groups.induct)
  case (2 n s rs gs)
  let ?k = "length (concat (map snd gs))"
  have "[Suc n..<Suc (n + length rs) + ?k] = [Suc n..<Suc (n + length rs)] @ [Suc (n + length rs)..<Suc (n + length rs) + ?k]"
    by (rule upt_add_eq_append) simp
  with 2 show ?case by (simp add: add.assoc del: upt_Suc length_concat)
qed simp

lemma row_uid_inject: "row_uid p a = row_uid p b \<longleftrightarrow> a = b"
  by (simp add: row_uid_def)

text \<open>Columns whose times are kept per script, as merged columns have them.\<close>

definition times_per_script :: "column \<Rightarrow> bool" where
  "times_per_script c \<longleftrightarrow> (\<forall>t. j_elapsed c = Some (Seconds t) \<longrightarrow> t = 0)"

lemma group_times_total: "\<forall>c\<in>set cols. times_per_script c \<Longrightarrow> \<exists>ts. group_times rws cols = Inr ts"
proof (induction cols)
  case (Cons c cols)
  then obtain ts where "group_times rws cols = Inr ts" by auto
  moreover have "\<exists>t. column_time rws c = Inr t"
    using Cons.prems by (auto simp: column_time_def times_per_script_def split: option.split elapsed.split list.split)
  ultimately show ?case by auto
qed simp

lemma table_groups_total:
  assumes "\<forall>c\<in>set (m_columns m). times_per_script c"
  shows "\<exists>ls. table_groups protocol source_url m gs = Inr ls \<and>
    (\<forall>x\<in>set (concat (map snd gs)). set (table_row protocol source_url m x) \<subseteq> set ls)"
proof (induction gs)
  case (Cons g gs)
  obtain script nrs where g: "g = (script, nrs)" by (cases g)
  obtain tms where "group_times (map snd nrs) (m_columns m) = Inr tms" using group_times_total[OF assms] by blast
  moreover obtain ls where "table_groups protocol source_url m gs = Inr ls"
    "\<forall>x\<in>set (concat (map snd gs)). set (table_row protocol source_url m x) \<subseteq> set ls"
    using Cons by blast
  ultimately show ?case by (fastforce simp: g)
qed simp

section \<open>Properties\<close>


text \<open>A section of the page comes out whole. For columns whose times are kept per script, rendering does not raise; every
  row of the table is in the result, with its panel if it has one, and so is a card for every column, and the card
  of a column that did not run names its status and its reason.\<close>

theorem section_renders:
  assumes "\<And>c. c \<in> set cols \<Longrightarrow> times_per_script c"
  shows "\<exists>ls. render_protocol protocol cols prose source_url = Inr ls \<and>
    (\<forall>x\<in>set (concat (map snd (number_groups 0 (grid (build cols))))). set (table_row protocol source_url (build cols) x) \<subseteq> set ls) \<and>
    (\<forall>i<length cols. set (card (build cols) i) \<subseteq> set ls \<and>
      (status (cols ! i) \<noteq> ''ok'' \<longrightarrow>
         ''<div class=\"ver\">'' @ esc (status (cols ! i) @ '' '' @ mdash @ '' '' @ get_or [] (j_reason (cols ! i))) @ ''</div>'' \<in> set ls))"
proof -
  let ?m = "build cols" and ?gs = "number_groups 0 (grid (build cols))"
  obtain ls where ls: "table_groups protocol source_url ?m ?gs = Inr ls"
    "\<forall>x\<in>set (concat (map snd ?gs)). set (table_row protocol source_url ?m x) \<subseteq> set ls"
    using table_groups_total[of ?m protocol source_url ?gs] assms by auto
  have card: "set (card ?m i) \<subseteq> set (cards ?m)" if "i < length cols" for i
    using that by (auto simp: cards_def)
  have dead: "''<div class=\"ver\">'' @ esc (status (cols ! i) @ '' '' @ mdash @ '' '' @ get_or [] (j_reason (cols ! i))) @ ''</div>'' \<in> set (card ?m i)"
    if "status (cols ! i) \<noteq> ''ok''" for i
    using that by (simp add: card_def Let_def sub_of_def)
  let ?out = "section_head protocol prose ?m @ cards ?m @
     [''<div class=\"scroll\"><table>'',
      ''<thead><tr><th>Check</th>'' @ concat (map (head_cell cols) cols) @ ''</tr></thead><tbody>''] @ ls @
     [''</tbody></table></div>''] @ standouts source_url ?m @ skipped_list ?m @ [''</section>'']"
  have r: "render_protocol protocol cols prose source_url = Inr ?out"
    by (simp add: render_protocol_def Let_def ls(1))
  have sub: "set ls \<subseteq> set ?out" "set (cards ?m) \<subseteq> set ?out" by auto
  show ?thesis
  proof (intro exI conjI ballI allI impI, rule r)
    fix x assume "x \<in> set (concat (map snd ?gs))"
    then show "set (table_row protocol source_url ?m x) \<subseteq> set ?out" using ls(2) sub(1) by blast
  next
    fix i assume i: "i < length cols"
    show "set (card ?m i) \<subseteq> set ?out" using card[OF i] sub(2) by blast
    assume "status (cols ! i) \<noteq> ''ok''"
    from dead[OF this] show "''<div class=\"ver\">'' @ esc (status (cols ! i) @ '' '' @ mdash @ '' '' @ get_or [] (j_reason (cols ! i))) @ ''</div>'' \<in> set ?out"
      using card[OF i] sub(2) by blast
  qed
qed

definition example_prose :: prose where
  \<comment> \<open>used by the examples below\<close>
  "example_prose = \<lparr>pr_titles = [], pr_title = None, pr_lede = None, pr_footer = None\<rparr>"

theorem section_renders_witness:
  "\<exists>ls. render_protocol ''hislip'' example_columns example_prose [] = Inr ls \<and>
     ''<div class=\"ver\">'' @ esc (''errored '' @ mdash @ '' '') @ ''</div>'' \<in> set ls"
proof -
  have "times_per_script c" if "c \<in> set example_columns" for c
    using that by (auto simp: example_columns_def times_per_script_def empty_column_def)
  from section_renders[OF this, of example_columns "''hislip''" example_prose "[]"]
  obtain ls where ls: "render_protocol ''hislip'' example_columns example_prose [] = Inr ls"
    and dead: "\<forall>i<length example_columns. status (example_columns ! i) \<noteq> ''ok'' \<longrightarrow>
      ''<div class=\"ver\">'' @ esc (status (example_columns ! i) @ '' '' @ mdash @ '' '' @ get_or [] (j_reason (example_columns ! i))) @ ''</div>'' \<in> set ls"
    by blast
  have "2 < length example_columns" "status (example_columns ! 2) = ''errored''" "get_or [] (j_reason (example_columns ! 2)) = []"
    by (simp_all add: example_columns_def status_def STATUSES_def empty_column_def get_or_def)
  with dead[rule_format, of 2] ls show ?thesis by auto
qed

text \<open>A report straight from a script cannot be drawn. The loader accepts a file that holds a single report, whose elapsed
  time is a number; rendering the section then raises, whatever the columns beside it.\<close>

theorem bare_report_raises:
  "render_protocol ''hislip'' [empty_column\<lparr>j_script := Some ''smoke'', j_elapsed := Some (Seconds 2),
     j_results := Some [example_result ''x'' PASS], j_short := Some ''py''\<rparr>] example_prose [] = Inl (AttributeError ''items'')"
  by code_simp

end
