(* ===== verification/Spec_Rules.thy ===== *)
theory Spec_Rules
  imports Regex Compare
begin

text \<open>
  \<^verbatim>\<open>tools/spec_rules.py\<close>: reading the numbered statements out of the text of a standard, reading the citations out
  of the checks, and matching the two. The text of a document and the sources of the checks are arguments;
  finding and converting the documents is left to the caller. Text is UTF-8, so the section sign is two
  bytes, and where the code counts characters the model counts the bytes that start one.
\<close>

section \<open>Patterns\<close>

abbreviation section_sign :: string where "section_sign \<equiv> [CHR 0xC2, CHR 0xA7]"

fun rx_lazy_upto :: "nat \<Rightarrow> rx \<Rightarrow> rx" where
  \<comment> \<open>\<^verbatim>\<open>r{0,n}?\<close>\<close>
  "rx_lazy_upto 0 r = Eps"
| "rx_lazy_upto (Suc n) r = Alt Eps (Cat r (rx_lazy_upto n r))"

definition rx_ilit :: "string \<Rightarrow> rx" where
  \<comment> \<open>a literal, ignoring case\<close>
  "rx_ilit s = rx_cat (map (\<lambda>x. Sym (\<lambda>c. lower_char c = lower_char x)) s)"

definition is_upper :: "char \<Rightarrow> bool" where
  "is_upper c \<longleftrightarrow> CHR ''A'' \<le> c \<and> c \<le> CHR ''Z''"

definition is_lower :: "char \<Rightarrow> bool" where
  "is_lower c \<longleftrightarrow> CHR ''a'' \<le> c \<and> c \<le> CHR ''z''"

text \<open>One character: a byte that is not a continuation byte and the continuation bytes after it.\<close>

definition rx_char :: "(char \<Rightarrow> bool) \<Rightarrow> rx" where
  "rx_char p = Cat (Sym (\<lambda>c. p c \<and> \<not> is_continuation c)) (Star (Sym is_continuation))"

abbreviation rx_nonspace :: rx where "rx_nonspace \<equiv> rx_char (\<lambda>c. \<not> is_space c)"
abbreviation rx_any :: rx where "rx_any \<equiv> rx_char (\<lambda>c. c \<noteq> CHR 0x0A)"

definition KINDS :: "string list" where
  "KINDS = [''RULE'', ''OBSERVATION'', ''RECOMMENDATION'', ''PERMISSION'']"

definition VXIBUS_RE :: rx where
  "VXIBUS_RE = rx_cat [Bol, Star rx_space, Grp 1 (rx_alt (map rx_lit KINDS)), rx_plus rx_space,
     Grp 2 (rx_cat [rx_opt (Sym is_upper), rx_opt (rx_lit ''.''), rx_digit, Star (Sym (\<lambda>c. is_digit c \<or> c = CHR ''.'')),
                    rx_opt (Sym (\<lambda>c. is_upper c \<or> is_lower c)), rx_opt (Cat (rx_lit ''-'') (Sym is_lower))]),
     Star rx_space, rx_opt (rx_lit '':''), Star rx_space, Eol]"

definition dotted :: rx where
  \<comment> \<open>\<^verbatim>\<open>(?:\.\d+)\<close>\<close>
  "dotted = Cat (rx_lit ''.'') (rx_plus rx_digit)"

definition heading_title :: rx where
  \<comment> \<open>\<^verbatim>\<open>\S.{2,60}?\<close>\<close>
  "heading_title = rx_cat [rx_nonspace, rx_any, rx_any, rx_lazy_upto 58 rx_any]"

definition SECTION_RE :: rx where
  "SECTION_RE = rx_cat [Bol, Star rx_space, Grp 1 (Cat (rx_plus rx_digit) (rx_plus dotted)), rx_plus rx_space,
     Grp 2 heading_title, Star rx_space, Eol]"

definition VXIBUS_SECTION_RE :: rx where
  "VXIBUS_SECTION_RE = rx_cat [Bol,
     Grp 1 (rx_cat [rx_opt (Cat (Sym is_upper) (rx_lit ''.'')), rx_plus rx_digit, rx_plus dotted]),
     rx_opt (rx_lit ''.''), rx_plus rx_space,
     Grp 2 (rx_cat [Sym (\<lambda>c. is_upper c \<or> is_lower c \<or> c = CHR ''_''), LazyStar (Sym (\<lambda>c. c \<noteq> CHR ''.'')),
       Star (rx_cat [rx_lit ''.'', NotAhead (rx_lit ''.''), LazyStar (Sym (\<lambda>c. c \<noteq> CHR ''.''))])]),
     Star rx_space, Eol]"

definition TOC_RE :: rx where
  "TOC_RE = rx_cat [Bol, Star rx_space, Grp 1 (Cat (rx_plus rx_digit) (Star dotted)), rx_plus rx_space,
     Grp 2 (Cat rx_dot (LazyStar rx_dot)), Star rx_space, rx_lit ''...'', Star (rx_lit ''.''), Star rx_space,
     rx_plus rx_digit, Star rx_space, Eol]"

definition CHAPTER_RE :: rx where
  "CHAPTER_RE = rx_cat [Bol, Grp 1 (rx_plus rx_digit), rx_plus rx_space, Grp 2 heading_title, Star rx_space, Eol]"

definition OTHER_INTERFACE :: rx where
  "OTHER_INTERFACE = rx_cat [WordB, rx_alt (map rx_ilit [''GPIB'', ''USB'', ''PXI'', ''ASRL'', ''serial'', ''VXI backplane'',
     ''backplane'', ''VME'', ''mainframe'', ''slot'', ''register'', ''SOCKET resource'', ''INTFC'', ''BACKPLANE'', ''SERVANT'',
     ''MEMACC'', ''BERR'']), WordB]"

definition REGISTER_BASED :: rx where
  "REGISTER_BASED = rx_cat [WordB, rx_lit ''vi'',
     rx_alt (map rx_lit [''In'', ''Out'', ''Move'', ''Map'', ''Unmap'', ''Peek'', ''Poke'', ''MemAlloc'', ''MemFree''] @
       [rx_cat [rx_lit ''Assert'', Alt (rx_lit ''Util'') (rx_lit ''Intr''), rx_lit ''Signal'']]),
     Star (Sym (\<lambda>c. is_upper c \<or> is_lower c \<or> is_digit c)), rx_lit ''()'']"

definition SERVER_SIDE :: rx where
  "SERVER_SIDE = Alt (rx_ilit ''network instrument server SHALL'') (rx_ilit ''the server shall'')"

definition CLIENT_TESTABLE :: rx where
  "CLIENT_TESTABLE = rx_alt [rx_cat [WordB, rx_lit ''vi'', Sym is_upper, rx_plus (Sym is_word)], rx_lit ''VI_ATTR_'',
     rx_lit ''VI_ERROR_'', rx_lit ''VI_SUCCESS'', rx_lit ''VI_WARN_'', rx_cat [WordB, rx_lit ''client shall'', WordB],
     rx_lit ''network instrument client SHALL'']"

definition group_of_match :: "nat \<Rightarrow> cursor \<Rightarrow> string" where
  \<comment> \<open>of a group that took part in the match\<close>
  "group_of_match i c = get_or [] (rx_group i c)"

section \<open>Statements\<close>

record rule =
  ru_spec :: string
  ru_kind :: string
  ru_id :: string
  ru_cite :: string
  ru_section :: string
  ru_section_title :: "string option"
  ru_text :: string
  ru_covered_by :: "string list"
  ru_bucket :: "string option"

definition title_case :: "string \<Rightarrow> string" where
  \<comment> \<open>\<^verbatim>\<open>str.title\<close> of a single word\<close>
  "title_case s = (case s of [] \<Rightarrow> [] | c # cs \<Rightarrow> upper_char c # lower cs)"

definition vxibus_rule :: "string \<Rightarrow> string \<Rightarrow> cursor \<Rightarrow> string list \<Rightarrow> rule" where
  "vxibus_rule spec sec m body =
     (let kind = group_of_match 1 m; ident = rstrip_chars {CHR ''.''} (group_of_match 2 m)
      in \<lparr>ru_spec = spec, ru_kind = kind, ru_id = ident,
          ru_cite = (if kind \<noteq> ''RULE'' then spec @ '' '' @ title_case kind @ '' '' @ ident else spec @ '' '' @ ident),
          ru_section = sec, ru_section_title = None, ru_text = join '' '' body, ru_covered_by = [], ru_bucket = None\<rparr>)"

text \<open>The inner loop: the body collected, at most twelve lines, and the lines after it.\<close>

fun take_body :: "string list \<Rightarrow> string list \<Rightarrow> string list \<times> string list" where
  "take_body body [] = (body, [])"
| "take_body body (l # ls) =
     (if \<not> length body < 12 then (body, l # ls)
      else if rx_match VXIBUS_RE l \<noteq> None then (body, l # ls)
      else if strip l \<noteq> [] then take_body (body @ [strip l]) ls
      else if body \<noteq> [] then (body, l # ls)
      else take_body body ls)"

lemma take_body_shorter: "length (snd (take_body body ls)) \<le> length ls"
  by (induction body ls rule: take_body.induct) auto

definition vxibus_section :: "string \<Rightarrow> string \<Rightarrow> string" where
  "vxibus_section sec line =
     (case rx_match VXIBUS_SECTION_RE line of
        Some h \<Rightarrow> if \<not> contains ''...'' line then group_of_match 1 h else sec
      | None \<Rightarrow> sec)"

function parse_vxibus_from :: "string \<Rightarrow> string \<Rightarrow> string list \<Rightarrow> rule list" where
  "parse_vxibus_from spec sec [] = []"
| "parse_vxibus_from spec sec (l # ls) =
     (let sec' = vxibus_section sec l
      in case rx_match VXIBUS_RE l of
           None \<Rightarrow> parse_vxibus_from spec sec' ls
         | Some m \<Rightarrow>
             vxibus_rule spec sec' m (fst (take_body [] ls)) # parse_vxibus_from spec sec' (snd (take_body [] ls)))"
  by pat_completeness auto
termination
  by (relation "measure (\<lambda>(spec, sec, ls). length ls)") (simp_all add: take_body_shorter le_imp_less_Suc)

definition parse_vxibus :: "string \<Rightarrow> string \<Rightarrow> rule list" where
  "parse_vxibus doc spec = parse_vxibus_from spec ''?'' (splitlines doc)"

text \<open>\<^verbatim>\<open>re.sub(r"\s+", " ", s)\<close>.\<close>

fun collapse :: "bool \<Rightarrow> string \<Rightarrow> string" where
  "collapse in_space [] = []"
| "collapse in_space (c # cs) =
     (if is_space c then (if in_space then collapse True cs else CHR '' '' # collapse True cs)
      else c # collapse False cs)"

definition chapters_of :: "string list \<Rightarrow> (string \<times> string) list" where
  "chapters_of lines =
     concat (map (\<lambda>l. case rx_match TOC_RE l of
         None \<Rightarrow> []
       | Some m \<Rightarrow> if contains ''.'' (group_of_match 1 m) then []
                   else [(group_of_match 1 m, collapse False (group_of_match 2 m))]) lines)"

definition SHALL_RE :: rx where
  "SHALL_RE = rx_cat [WordB, rx_ilit ''shall'', WordB]"

definition section_heading :: "(string \<times> string) list \<Rightarrow> string \<Rightarrow> (string \<times> string) option" where
  \<comment> \<open>the number and title of a heading line\<close>
  "section_heading chapters line =
     (case rx_match SECTION_RE line of
        Some m \<Rightarrow>
          if \<not> endswith (group_of_match 2 m) ''.'' then Some (group_of_match 1 m, strip (group_of_match 2 m))
          else (case rx_match CHAPTER_RE line of
                  Some c \<Rightarrow> if (group_of_match 1 c, collapse False (group_of_match 2 c)) \<in> set chapters
                            then Some (group_of_match 1 c, strip (group_of_match 2 c)) else None
                | None \<Rightarrow> None)
      | None \<Rightarrow>
          (case rx_match CHAPTER_RE line of
             Some c \<Rightarrow> if (group_of_match 1 c, collapse False (group_of_match 2 c)) \<in> set chapters
                       then Some (group_of_match 1 c, strip (group_of_match 2 c)) else None
           | None \<Rightarrow> None))"

definition is_shall_line :: "string \<Rightarrow> bool" where
  "is_shall_line line \<longleftrightarrow> rx_search SHALL_RE line \<noteq> None \<and> char_count (strip line) > 30"

fun parse_shall_from :: "string \<Rightarrow> (string \<times> string) list \<Rightarrow> string \<times> string \<Rightarrow> string list \<Rightarrow> rule list" where
  "parse_shall_from spec chapters sec [] = []"
| "parse_shall_from spec chapters sec (l # ls) =
     (case section_heading chapters l of
        Some sec' \<Rightarrow> parse_shall_from spec chapters sec' ls
      | None \<Rightarrow>
          (if is_shall_line l
           then [\<lparr>ru_spec = spec, ru_kind = ''SHALL'', ru_id = fst sec, ru_cite = spec @ '' '' @ fst sec,
                  ru_section = fst sec, ru_section_title = Some (snd sec), ru_text = strip l, ru_covered_by = [],
                  ru_bucket = None\<rparr>]
           else []) @ parse_shall_from spec chapters sec ls)"

definition parse_shall :: "string \<Rightarrow> string \<Rightarrow> rule list" where
  "parse_shall doc spec = (let lines = splitlines doc in parse_shall_from spec (chapters_of lines) (''?'', []) lines)"

definition triage :: "rule \<Rightarrow> string" where
  "triage r =
     (let t = ru_text r
      in if rx_search REGISTER_BASED t \<noteq> None then ''other interface''
         else if rx_search OTHER_INTERFACE t \<noteq> None \<and>
                 rx_search (rx_alt [rx_ilit ''TCPIP'', rx_ilit ''HiSLIP'', rx_ilit ''VXI-11'']) t = None
         then ''other interface''
         else if rx_search SERVER_SIDE t \<noteq> None then ''server-side''
         else if rx_search CLIENT_TESTABLE t \<noteq> None then ''client-testable''
         else ''prose or definitional'')"

section \<open>Citations\<close>

definition RULE_ARG :: rx where
  "RULE_ARG = rx_cat [rx_lit ''rule'', Star rx_space, rx_lit ''='', Star rx_space, rx_lit [quot],
     Grp 1 (rx_plus (Sym (\<lambda>c. c \<noteq> quot))), rx_lit [quot]]"

definition add_cite :: "string \<times> string \<Rightarrow> (string, string list) dict \<Rightarrow> (string, string list) dict" where
  "add_cite p d = dict_set (fst p) (get_or [] (dict_get d (fst p)) @ [snd p]) d"

definition cites_in :: "string \<times> string \<Rightarrow> (string \<times> string) list" where
  \<comment> \<open>the citations of one file, each with the file's name\<close>
  "cites_in f = map (\<lambda>m. (group_of_match 1 m, fst f)) (rx_finditer RULE_ARG (snd f))"

definition cited_rules :: "(string \<times> string) list \<Rightarrow> (string, string list) dict" where
  \<comment> \<open>the files of the checks directory by name, with their text\<close>
  "cited_rules files = fold add_cite (concat (map cites_in (sort_key fst files))) []"

definition CITE_RE :: rx where
  "CITE_RE = rx_cat [Bol, Star rx_space, Grp 1 (Cat (rx_plus rx_nonspace) (rx_opt (Cat (rx_plus rx_space) (rx_plus rx_digit)))),
     rx_plus rx_space, Grp 2 (Star rx_dot), Eol]"

definition TYPED_RE :: rx where
  "TYPED_RE = rx_cat [Bol, Grp 1 (rx_alt (map rx_lit KINDS)), rx_plus rx_space, Grp 2 (rx_plus rx_nonspace), Eol]"

type_synonym citation = "string \<times> string \<times> string"   \<comment> \<open>document, kind, number\<close>

definition parse_part :: "string \<Rightarrow> string \<Rightarrow> citation list" where
  "parse_part spec part0 =
     (let part = strip part0
      in case rx_match TYPED_RE part of
           Some typed \<Rightarrow> [(spec, group_of_match 1 typed, group_of_match 2 typed)]
         | None \<Rightarrow>
             if startswith part section_sign then [(spec, ''SECTION'', strip (drop 2 part))]
             else if part \<noteq> [] then [(spec, ''UNTYPED'', part)] else [])"

definition parse_cite :: "string \<Rightarrow> citation list" where
  "parse_cite cite =
     (case rx_match CITE_RE cite of
        None \<Rightarrow> []
      | Some m \<Rightarrow> concat (map (parse_part (group_of_match 1 m)) (split_on '','' (group_of_match 2 m))))"

definition covers :: "rule \<Rightarrow> citation \<Rightarrow> bool" where
  "covers r c =
     (case c of (spec, kind, number) \<Rightarrow>
        if ru_spec r \<noteq> spec then False
        else if kind = ''SECTION'' then ru_kind r = ''SHALL'' \<and> ru_section r = number
        else if kind \<in> set KINDS
        then ru_kind r = kind \<and> (ru_id r = number \<or> startswith (ru_id r) (number @ ''-''))
        else False)"

section \<open>Coverage\<close>

datatype style = Vxibus | Shall

definition SPECS :: "(string \<times> string list \<times> style \<times> string) list" where
  "SPECS =
     [(''VPP-4.3'', [''vpp43*.pdf'', ''VPP-4.3*.pdf''], Vxibus, ''The VISA Library''),
      (''VXI-11'', [''vxi-11.pdf'', ''VXI-11.pdf''], Vxibus, ''TCP/IP Instrument Protocol Specification''),
      (''IVI-6.1'', [''IVI-6.1*.pdf'', ''*HiSLIP*.pdf''], Shall, ''HiSLIP'')]"

definition style_of :: "string \<Rightarrow> style option" where
  "style_of spec = map_option (fst \<circ> snd) (map_of SPECS spec)"

definition title_of :: "string \<Rightarrow> string" where
  "title_of spec = get_or [] (map_option (snd \<circ> snd) (map_of SPECS spec))"

text \<open>A document found on disk; what the converter makes of it is \<open>None\<close> when it fails.\<close>

record pdf =
  pdf_name :: string
  pdf_mtime :: rat
  pdf_converted :: "string option"

definition to_text :: "bool \<Rightarrow> pdf \<Rightarrow> (rat \<times> string) option \<Rightarrow> py_error + string" where
  \<comment> \<open>whether the converter is installed; the cached text with its time stamp\<close>
  "to_text have_pdftotext doc cache =
     (case cache of
        Some (t, txt) \<Rightarrow>
          if t \<ge> pdf_mtime doc then Inr txt
          else if \<not> have_pdftotext then Inl (SystemExitText ''pdftotext is not installed (brew install poppler)'')
          else (case pdf_converted doc of None \<Rightarrow> Inl (RuntimeError ''CalledProcessError'') | Some txt' \<Rightarrow> Inr txt')
      | None \<Rightarrow>
          if \<not> have_pdftotext then Inl (SystemExitText ''pdftotext is not installed (brew install poppler)'')
          else (case pdf_converted doc of None \<Rightarrow> Inl (RuntimeError ''CalledProcessError'') | Some txt' \<Rightarrow> Inr txt'))"

text \<open>The machine: what the converter is, what a file pattern finds (sorted), the cache, the checks.\<close>

record library_env =
  le_dir :: string
  le_pdftotext :: bool
  le_glob :: "string \<Rightarrow> pdf list"
  le_cache :: "string \<Rightarrow> (rat \<times> string) option"
  le_checks :: "(string \<times> string) list"

fun first_hit :: "(string \<Rightarrow> pdf list) \<Rightarrow> string list \<Rightarrow> pdf option" where
  "first_hit glob [] = None"
| "first_hit glob (p # ps) = (case glob p of [] \<Rightarrow> first_hit glob ps | doc # _ \<Rightarrow> Some doc)"

definition parse_spec :: "style \<Rightarrow> string \<Rightarrow> string \<Rightarrow> rule list" where
  "parse_spec st txt spec = (case st of Vxibus \<Rightarrow> parse_vxibus txt spec | Shall \<Rightarrow> parse_shall txt spec)"

text \<open>What reading the documents leaves: the statements, the documents found, and what was printed.\<close>

record inventory =
  iv_rules :: "rule list"
  iv_found :: "(string \<times> string) list"
  iv_out :: "string list"
  iv_err :: "string list"

definition empty_inventory :: inventory where
  "empty_inventory = \<lparr>iv_rules = [], iv_found = [], iv_out = [], iv_err = []\<rparr>"

definition read_spec :: "library_env \<Rightarrow> string \<times> string list \<times> style \<times> string \<Rightarrow> inventory \<Rightarrow> py_error + inventory" where
  "read_spec env meta iv =
     (case meta of (spec, patterns, st, title) \<Rightarrow>
       (case first_hit (le_glob env) patterns of
          None \<Rightarrow> Inr (iv\<lparr>iv_err := iv_err iv @ [''!! '' @ spec @ '' not found under '' @ le_dir env @ '' (looked for '' @
                            join '', '' patterns @ '')'']\<rparr>)
        | Some doc \<Rightarrow>
            (case to_text (le_pdftotext env) doc (le_cache env spec) of
               Inl e \<Rightarrow> Inl e
             | Inr txt \<Rightarrow>
                 (let parsed = parse_spec st txt spec
                  in Inr (iv\<lparr>iv_rules := iv_rules iv @ parsed,
                             iv_found := iv_found iv @ [(spec, pdf_name doc)],
                             iv_out := iv_out iv @ [spec @ '': '' @ str_nat (length parsed) @ '' statements from '' @ pdf_name doc]\<rparr>)))))"

fun read_specs :: "library_env \<Rightarrow> (string \<times> string list \<times> style \<times> string) list \<Rightarrow> inventory \<Rightarrow> py_error + inventory" where
  "read_specs env [] iv = Inr iv"
| "read_specs env (m # ms) iv = (case read_spec env m iv of Inl e \<Rightarrow> Inl e | Inr iv' \<Rightarrow> read_specs env ms iv')"

type_synonym typed_cite = "string \<times> citation \<times> string list"

definition typed_cites :: "(string, string list) dict \<Rightarrow> typed_cite list" where
  "typed_cites cites = concat (map (\<lambda>(c, checks). map (\<lambda>part. (c, part, checks)) (parse_cite c)) cites)"

definition mark_covered :: "typed_cite list \<Rightarrow> rule \<Rightarrow> rule" where
  "mark_covered typed r =
     r\<lparr>ru_covered_by := sort (remdups (concat (map (\<lambda>(_, part, checks). if covers r part then checks else []) typed)))\<rparr>"

definition dangling_part :: "(string \<times> string) list \<Rightarrow> rule list \<Rightarrow> typed_cite \<Rightarrow> (string \<times> string \<times> string list) list" where
  "dangling_part found rules c =
     (case c of (cite, (spec, kind, number), checks) \<Rightarrow>
        if spec \<notin> set (map fst found) then []
        else if kind = ''SECTION'' \<and> style_of spec = Some Vxibus then [(cite, ''PROSE'', sort (remdups checks))]
        else if kind = ''UNTYPED'' \<or> \<not> list_ex (\<lambda>r. covers r (spec, kind, number)) rules
        then [(cite, kind, sort (remdups checks))] else [])"

definition dangling_of :: "(string \<times> string) list \<Rightarrow> rule list \<Rightarrow> typed_cite list \<Rightarrow> (string \<times> string \<times> string list) list" where
  "dangling_of found rules typed = concat (map (dangling_part found rules) typed)"

definition dangling_line :: "string \<times> string \<times> string list \<Rightarrow> string list" where
  "dangling_line d =
     (case d of (cite, kind, checks) \<Rightarrow>
        if kind = ''PROSE'' then []
        else [''!! '' @ cite @ '': '' @
              (if kind = ''UNTYPED'' then ''no kind (RULE, '' @ section_sign @ '', ...)'' else ''matches no statement'') @
              '' -- cited by '' @ join '', '' checks])"

definition owed :: "rule \<Rightarrow> bool" where
  "owed r \<longleftrightarrow> \<not> (ru_covered_by r \<noteq> [] \<or> ru_kind r \<notin> {''RULE'', ''SHALL''})"

definition put_bucket :: "rule \<Rightarrow> rule" where
  "put_bucket r = (if owed r then r\<lparr>ru_bucket := Some (triage r)\<rparr> else r)"

definition count_bucket :: "rule \<Rightarrow> (string, nat) dict \<Rightarrow> (string, nat) dict" where
  "count_bucket r d = (if owed r then dict_set (triage r) (get_or 0 (dict_get d (triage r)) + 1) d else d)"

definition buckets_of :: "rule list \<Rightarrow> (string, nat) dict" where
  "buckets_of rules = fold count_bucket rules []"

definition rjust :: "nat \<Rightarrow> string \<Rightarrow> string" where
  "rjust n s = replicate (n - length s) CHR '' '' @ s"

definition covered :: "rule list \<Rightarrow> rule list" where
  "covered rules = filter (\<lambda>r. ru_covered_by r \<noteq> []) rules"

definition of_spec :: "string \<Rightarrow> rule list \<Rightarrow> rule list" where
  "of_spec spec rules = filter (\<lambda>r. ru_spec r = spec) rules"

definition coverage_lines :: "rule list \<Rightarrow> (string \<times> string) list \<Rightarrow> string list" where
  "coverage_lines rules found =
     [[], str_nat (length rules) @ '' normative statements, '' @ str_nat (length (covered rules)) @ '' touched by a check''] @
     map (\<lambda>(b, n). ''    '' @ rjust 4 (str_nat n) @ '' uncovered: '' @ b) (sort_key (\<lambda>(b, n). - int n) (buckets_of rules)) @
     map (\<lambda>(spec, _). ''  '' @ ljust 9 spec @ '' '' @ rjust 3 (str_nat (length (covered (of_spec spec rules)))) @ ''/'' @
                      rjust 3 (str_nat (length (of_spec spec rules))) @ '' covered'') found"

definition in_bucket :: "string \<Rightarrow> rule list \<Rightarrow> nat" where
  "in_bucket b rules = length (filter (\<lambda>r. ru_bucket r = Some b) rules)"


section \<open>The report\<close>

definition report_head :: "rule list \<Rightarrow> string list" where
  "report_head rules =
     [''# Spec coverage'',
      [],
      ''Generated by `tools/spec_rules.py` from local copies of the specs, which'',
      ''are **not** in this repo and must not be. Rule text is excerpted only far'',
      ''enough to say what a rule is about; read the clause in your own copy.'',
      [],
      str_nat (length rules) @ '' normative statements found, '' @ str_nat (length (covered rules)) @ '' currently touched'',
      ''by at least one check.'', [],
      ''That raw ratio is not the interesting one. Most of these requirements'',
      ''bind interfaces a TCPIP client cannot reach, or the instrument server,'',
      ''or state no single observable behaviour. Against the requirements a'',
      ''TCPIP INSTR **client** can actually be held to:'',
      [],
      ''> **'' @ str_nat (length (covered rules)) @ '' of '' @
        str_nat (length (covered rules) + in_bucket ''client-testable'' rules) @ '' covered.**'',
      [],
      ''| spec | document | statements | cited by a check |'',
      ''| --- | --- | --- | --- |'']"

definition spec_line :: "rule list \<Rightarrow> string \<Rightarrow> string" where
  "spec_line rules spec =
     ''| '' @ spec @ '' | '' @ title_of spec @ '' | '' @ str_nat (length (of_spec spec rules)) @ '' | '' @
     str_nat (length (covered (of_spec spec rules))) @ '' |''"

definition bucket_line :: "rule list \<Rightarrow> string \<Rightarrow> string \<Rightarrow> string" where
  "bucket_line rules b meaning = ''| '' @ b @ '' | '' @ str_nat (in_bucket b rules) @ '' | '' @ meaning @ '' |''"

definition report_left :: "rule list \<Rightarrow> string list" where
  "report_left rules =
     [[],
      ''## What is left'',
      [],
      ''The raw count overstates what a client suite owes. Uncovered'',
      ''requirements, triaged:'',
      [],
      ''| bucket | count | meaning |'',
      ''| --- | --- | --- |'',
      bucket_line rules ''client-testable'' ''the actual queue'',
      bucket_line rules ''prose or definitional'' ''no single observable behaviour, or defines a term'',
      bucket_line rules ''other interface'' ''GPIB, USB, PXI, serial, VXI backplane'',
      bucket_line rules ''server-side'' ''binds the instrument server, not the client'',
      [],
      ''Coverage is computed from the `rule=` annotations on the checks, so a'',
      ''check citing no clause counts for nothing here. That is deliberate: the'',
      ''vendor comparison found that every uncited check in its disputed set was'',
      ''the check's own fault, so an uncited check has not earned coverage.'',
      [],
      ''The hand-written gap analysis lives in [`spec-gaps.md`](spec-gaps.md); this file is generated and would'',
      ''overwrite it.'',
      [],
      ''## Cited clauses'',
      [],
      ''| clause | checks |'',
      ''| --- | --- |'']"

definition cite_line :: "(string, string list) dict \<Rightarrow> string \<Rightarrow> string" where
  "cite_line cites cite =
     ''| `'' @ cite @ ''` | '' @ join '', '' (sort (remdups (get_or [] (dict_get cites cite)))) @ '' |''"

definition prose_head :: "string list" where
  "prose_head =
     [[],
      ''## Section citations into VPP-4.3 and VXI-11'',
      [],
      ''These cite prose or a table, which is what a section citation is for,'',
      ''and this tool extracts only the numbered statements from those two'',
      ''documents -- so they are listed, not counted. A section citation'',
      ''never earns the numbered RULEs filed under the same heading.'',
      [],
      ''| citation | checks |'',
      ''| --- | --- |'']"

definition broken_head :: "string list" where
  "broken_head =
     [[],
      ''## Citations that reach nothing'',
      [],
      ''Each of these names a clause in a spec this tool reads but matches no'',
      ''statement it extracted: a number that does not exist, a section with no'',
      ''\"shall\" sentence of its own, or a reference without a kind. Either'',
      ''the citation or the extraction is wrong.'',
      [],
      ''| citation | why | checks |'',
      ''| --- | --- | --- |'']"

definition broken_line :: "string \<times> string \<times> string list \<Rightarrow> string" where
  "broken_line d =
     (case d of (cite, kind, checks) \<Rightarrow>
        ''| `'' @ cite @ ''` | '' @ (if kind = ''UNTYPED'' then ''no kind'' else ''matches no statement'') @ '' | '' @
        join '', '' checks @ '' |'')"

definition prose_line :: "string \<times> string \<times> string list \<Rightarrow> string" where
  "prose_line d = (case d of (cite, _, checks) \<Rightarrow> ''| `'' @ cite @ ''` | '' @ join '', '' checks @ '' |'')"

definition listed :: "string list \<Rightarrow> ('a \<Rightarrow> string) \<Rightarrow> 'a list \<Rightarrow> string list" where
  \<comment> \<open>a table that is left out when it is empty\<close>
  "listed head line xs = (if xs = [] then [] else head @ map line xs)"

definition write_report :: "rule list \<Rightarrow> (string \<times> string) list \<Rightarrow> (string, string list) dict \<Rightarrow> (string \<times> string \<times> string list) list \<Rightarrow> string" where
  "write_report rules found cites dangling =
     join nl (report_head rules @ map (spec_line rules) (map fst found) @ report_left rules @
       map (cite_line cites) (sort (dict_keys cites)) @
       listed prose_head prose_line (sort (filter (\<lambda>d. fst (snd d) = ''PROSE'') dangling)) @
       listed broken_head broken_line (sort (filter (\<lambda>d. fst (snd d) \<noteq> ''PROSE'') dangling))) @ nl"

section \<open>The program\<close>

record spec_args =
  sa_json :: "string option"
  sa_out :: "string option"

text \<open>The exit code, both streams, and what is written to the two files.\<close>

record spec_result =
  sr_code :: int
  sr_out :: "string list"
  sr_err :: "string list"
  sr_json :: "(string \<times> rule list) option"
  sr_report :: "(string \<times> string) option"

definition settled_rules :: "library_env \<Rightarrow> rule list \<Rightarrow> rule list" where
  \<comment> \<open>every statement with the checks that cite it, and its bucket if it is owed\<close>
  "settled_rules env rules = map (put_bucket \<circ> mark_covered (typed_cites (cited_rules (le_checks env)))) rules"

definition written_to :: "string option \<Rightarrow> 'a \<Rightarrow> (string \<times> 'a) option" where
  "written_to path x = (if truthy path then Some (the path, x) else None)"

definition spec_main :: "library_env \<Rightarrow> spec_args \<Rightarrow> py_error + spec_result" where
  "spec_main env args =
     (case read_specs env SPECS empty_inventory of
        Inl e \<Rightarrow> Inl e
      | Inr iv \<Rightarrow>
          if iv_rules iv = []
          then Inr \<lparr>sr_code = 4, sr_out = iv_out iv, sr_err = iv_err iv, sr_json = None, sr_report = None\<rparr>
          else
            let cites = cited_rules (le_checks env);
                dangling = dangling_of (iv_found iv) (iv_rules iv) (typed_cites cites);
                rules = settled_rules env (iv_rules iv)
            in Inr \<lparr>sr_code = 0,
                    sr_out = iv_out iv @ coverage_lines rules (iv_found iv) @
                      (if truthy (sa_json args) then [''inventory written to '' @ the (sa_json args)] else []) @
                      (if truthy (sa_out args) then [''report written to '' @ the (sa_out args)] else []),
                    sr_err = iv_err iv @ concat (map dangling_line dangling),
                    sr_json = written_to (sa_json args) rules,
                    sr_report = written_to (sa_out args) (write_report rules (iv_found iv) cites dangling)\<rparr>)"


section \<open>What is found and what is counted\<close>

text \<open>A heading line as the pair of its kind and number.\<close>

definition heading_of :: "string \<Rightarrow> (string \<times> string) list" where
  "heading_of l =
     (case rx_match VXIBUS_RE l of
        None \<Rightarrow> []
      | Some m \<Rightarrow> [(group_of_match 1 m, rstrip_chars {CHR ''.''} (group_of_match 2 m))])"

lemma take_body_keeps_headings:
  "concat (map heading_of (snd (take_body body ls))) = concat (map heading_of ls)"
  by (induction body ls rule: take_body.induct) (auto simp: heading_of_def split: option.splits)

lemma take_body_bound: "length body \<le> 12 \<Longrightarrow> length (fst (take_body body ls)) \<le> 12"
  by (induction body ls rule: take_body.induct) auto

lemma parse_vxibus_from_headings:
  "map (\<lambda>r. (ru_kind r, ru_id r)) (parse_vxibus_from spec sec ls) = concat (map heading_of ls)"
proof (induction spec sec ls rule: parse_vxibus_from.induct)
  case (2 spec sec l ls)
  then show ?case
    by (cases "rx_match VXIBUS_RE l")
      (simp_all add: Let_def take_body_keeps_headings vxibus_rule_def, simp_all add: heading_of_def)
qed simp

text \<open>C23: Reading a document in the house style of the numbered rules gives exactly one statement per heading line, in the
  order of the text, with the heading's kind and its number less the trailing dots: the body of a statement
  never swallows the next heading.\<close>

theorem vxibus_one_statement_per_heading:
  "map (\<lambda>r. (ru_kind r, ru_id r)) (parse_vxibus doc spec) = concat (map heading_of (splitlines doc))"
  by (simp add: parse_vxibus_def parse_vxibus_from_headings)

lemma covers_section: "covers r (spec, ''SECTION'', n) \<longleftrightarrow> ru_spec r = spec \<and> ru_kind r = ''SHALL'' \<and> ru_section r = n"
  by (auto simp: covers_def)

lemma covers_mark [simp]: "covers (mark_covered typed r) c = covers r c"
  by (simp add: covers_def mark_covered_def split: prod.split)

lemma covered_by_iff:
  "check \<in> set (ru_covered_by (mark_covered typed r)) \<longleftrightarrow>
     (\<exists>(cite, part, checks)\<in>set typed. covers r part \<and> check \<in> set checks)"
  by (force simp: mark_covered_def split: if_splits)

lemma undangled_covers:
  assumes "spec \<in> set (map fst found)" "dangling_part found rules (cite, (spec, kind, number), checks) = []"
  shows "\<exists>r\<in>set rules. covers r (spec, kind, number)"
  using assms by (auto simp: dangling_part_def list_ex_iff split: if_splits)

lemma dangling_part_cite: "d \<in> set (dangling_part found rules (cite, part, checks)) \<Longrightarrow> fst d = cite"
  by (auto simp: dangling_part_def split: prod.splits if_splits)

text \<open>No citation into a document that was read is lost: each part of it either earns a statement, which then names every
  check that carries the citation, or the citation is listed among those that reach nothing.\<close>

theorem citation_counts_or_dangles:
  assumes "(cite, (spec, kind, number), checks) \<in> set (typed_cites cites)" "spec \<in> set (map fst found)"
  shows "(\<exists>r\<in>set rules. covers r (spec, kind, number) \<and>
            set checks \<subseteq> set (ru_covered_by (mark_covered (typed_cites cites) r))) \<or>
         cite \<in> fst ` set (dangling_of found rules (typed_cites cites))"
proof (cases "dangling_part found rules (cite, (spec, kind, number), checks)")
  case Nil
  from undangled_covers[OF assms(2) Nil] obtain r where r: "r \<in> set rules" "covers r (spec, kind, number)" by blast
  with assms(1) have "set checks \<subseteq> set (ru_covered_by (mark_covered (typed_cites cites) r))"
    unfolding subset_iff covered_by_iff by blast
  with r show ?thesis by blast
next
  case (Cons d ds)
  then have "fst d = cite" using dangling_part_cite[of d found rules cite "(spec, kind, number)" checks] by simp
  moreover have "d \<in> set (dangling_of found rules (typed_cites cites))"
    using assms(1) Cons by (force simp: dangling_of_def)
  ultimately show ?thesis by blast
qed

text \<open>The printed buckets and the ones of the report are counted in different ways.\<close>

lemma put_bucket_owed [simp]: "owed (put_bucket r) = owed r"
  by (simp add: put_bucket_def owed_def)

lemma put_bucket_triage [simp]: "triage (put_bucket r) = triage r"
  by (simp add: put_bucket_def triage_def)

lemma put_bucket_covered [simp]: "ru_covered_by (put_bucket r) = ru_covered_by r"
  by (simp add: put_bucket_def)

lemma put_bucket_bucket:
  "ru_bucket r = None \<Longrightarrow> ru_bucket (put_bucket r) = Some b \<longleftrightarrow> owed r \<and> triage r = b"
  by (auto simp: put_bucket_def)

lemma mark_covered_bucket [simp]: "ru_bucket (mark_covered typed r) = ru_bucket r"
  by (simp add: mark_covered_def)

lemma dict_get_buckets:
  "get_or 0 (dict_get (fold count_bucket rules d) b) =
     get_or 0 (dict_get d b) + length (filter (\<lambda>r. owed r \<and> triage r = b) rules)"
  by (induction rules arbitrary: d) (auto simp: count_bucket_def alist_dict.get_put get_or_def)

lemma sum_dict_set_count:
  "sum_list (map snd (dict_set k (get_or 0 (dict_get d k) + 1) d)) = Suc (sum_list (map snd d))"
  by (induction d) (auto simp: dict_set_def dict_get_def get_or_def)

lemma sum_buckets:
  "sum_list (map snd (fold count_bucket rules d)) = sum_list (map snd d) + length (filter owed rules)"
  by (induction rules arbitrary: d) (simp_all add: count_bucket_def sum_dict_set_count[simplified])

lemma parse_vxibus_unbucketed: "r \<in> set (parse_vxibus_from spec sec ls) \<Longrightarrow> ru_bucket r = None"
  by (induction spec sec ls rule: parse_vxibus_from.induct)
    (auto simp: Let_def vxibus_rule_def split: option.splits)

lemma parse_shall_unbucketed: "r \<in> set (parse_shall_from spec ch sec ls) \<Longrightarrow> ru_bucket r = None"
  by (induction spec ch sec ls rule: parse_shall_from.induct) (auto split: option.splits if_splits)

lemma read_specs_unbucketed:
  "read_specs env ms iv = Inr iv' \<Longrightarrow> \<forall>r\<in>set (iv_rules iv). ru_bucket r = None \<Longrightarrow> \<forall>r\<in>set (iv_rules iv'). ru_bucket r = None"
proof (induction env ms iv rule: read_specs.induct)
  case (2 env m ms iv)
  then obtain iv1 where iv1: "read_spec env m iv = Inr iv1" "read_specs env ms iv1 = Inr iv'"
    by (auto split: sum.splits)
  have "\<forall>r\<in>set (iv_rules iv1). ru_bucket r = None"
    using iv1(1) "2.prems"(2)
    by (auto simp: read_spec_def parse_spec_def parse_vxibus_def parse_shall_def Let_def
        dest: parse_vxibus_unbucketed parse_shall_unbucketed split: prod.splits option.splits sum.splits style.splits)
  with "2.IH"[OF iv1(1)] iv1(2) show ?case by blast
qed simp

lemma statements_split:
  "length rs = length (covered rs) + length (filter owed rs) +
     length (filter (\<lambda>r. ru_covered_by r = [] \<and> ru_kind r \<notin> {''RULE'', ''SHALL''}) rs)"
  unfolding covered_def owed_def by (induction rs) auto

text \<open>The totals agree: every statement read is cited, or owed and in one bucket, or of a kind that binds nobody; and the count
  printed for a bucket is the one the report shows, though the two are computed separately.\<close>

theorem coverage_adds_up:
  assumes "read_specs env SPECS empty_inventory = Inr iv"
  shows "length (iv_rules iv) =
           length (covered (settled_rules env (iv_rules iv))) +
           sum_list (map snd (buckets_of (settled_rules env (iv_rules iv)))) +
           length (filter (\<lambda>r. ru_covered_by r = [] \<and> ru_kind r \<notin> {''RULE'', ''SHALL''}) (settled_rules env (iv_rules iv))) \<and>
         in_bucket b (settled_rules env (iv_rules iv)) =
           get_or 0 (dict_get (buckets_of (settled_rules env (iv_rules iv))) b)"
proof (rule conjI)
  let ?R = "settled_rules env (iv_rules iv)"
  have "length (iv_rules iv) = length ?R" by (simp add: settled_rules_def)
  also note statements_split[of ?R]
  finally show "length (iv_rules iv) = length (covered ?R) + sum_list (map snd (buckets_of ?R)) +
      length (filter (\<lambda>r. ru_covered_by r = [] \<and> ru_kind r \<notin> {''RULE'', ''SHALL''}) ?R)"
    by (simp add: buckets_of_def sum_buckets)
next
  let ?m = "mark_covered (typed_cites (cited_rules (le_checks env)))"
  have none: "\<forall>r\<in>set (iv_rules iv). ru_bucket r = None"
    by (rule read_specs_unbucketed[OF assms]) (simp add: empty_inventory_def)
  have "filter (\<lambda>r. ru_bucket (put_bucket (?m r)) = Some b) (iv_rules iv) =
      filter (\<lambda>r. owed (?m r) \<and> triage (?m r) = b) (iv_rules iv)"
    using none by (intro filter_cong) (simp_all add: put_bucket_bucket)
  then show "in_bucket b (settled_rules env (iv_rules iv)) =
      get_or 0 (dict_get (buckets_of (settled_rules env (iv_rules iv))) b)"
    by (simp add: in_bucket_def settled_rules_def buckets_of_def dict_get_buckets filter_map comp_def)
      (simp add: dict_get_def get_or_def)
qed


definition example_env :: library_env where
  "example_env =
     \<lparr>le_dir = ''specs'', le_pdftotext = True,
      le_glob = (\<lambda>p. if p = ''vpp43*.pdf'' then [\<lparr>pdf_name = ''vpp43.pdf'', pdf_mtime = 1, pdf_converted = Some (''RULE 3.2'' @ nl @ ''viOpen SHALL'' @ nl)\<rparr>] else []),
      le_cache = (\<lambda>_. None), le_checks = [(''a.py'', ''rule='' @ [quot] @ ''VPP-4.3 RULE 3.9'' @ [quot])]\<rparr>"

lemma example_cites: "typed_cites (cited_rules (le_checks example_env)) = [(''VPP-4.3 RULE 3.9'', (''VPP-4.3'', ''RULE'', ''3.9''), [''a.py''])]"
  by code_simp


theorem citation_counts_or_dangles_witness:
  "''VPP-4.3 RULE 3.9'' \<in> fst ` set (dangling_of [(''VPP-4.3'', ''vpp43.pdf'')] [] (typed_cites (cited_rules (le_checks example_env))))"
  using citation_counts_or_dangles[of "''VPP-4.3 RULE 3.9''" "''VPP-4.3''" "''RULE''" "''3.9''" "[''a.py'']"
      "cited_rules (le_checks example_env)" "[(''VPP-4.3'', ''vpp43.pdf'')]" "[]"]
  by (simp add: example_cites)

lemma example_read: "isl (read_specs example_env SPECS empty_inventory) = False"
  by code_simp

lemma example_rules:
  "map ru_text (iv_rules (projr (read_specs example_env SPECS empty_inventory))) = [''viOpen SHALL'']"
  by code_simp

theorem coverage_adds_up_witness:
  "length (covered (settled_rules example_env (iv_rules (projr (read_specs example_env SPECS empty_inventory))))) +
     sum_list (map snd (buckets_of (settled_rules example_env (iv_rules (projr (read_specs example_env SPECS empty_inventory)))))) +
     length (filter (\<lambda>r. ru_covered_by r = [] \<and> ru_kind r \<notin> {''RULE'', ''SHALL''})
       (settled_rules example_env (iv_rules (projr (read_specs example_env SPECS empty_inventory))))) = 1"
proof -
  have read: "read_specs example_env SPECS empty_inventory = Inr (projr (read_specs example_env SPECS empty_inventory))"
    using example_read by (simp add: sum.collapse(2))
  have "length (iv_rules (projr (read_specs example_env SPECS empty_inventory))) = 1"
    using arg_cong[OF example_rules, of length] by simp
  with coverage_adds_up[OF read, of "''client-testable''"] show ?thesis by linarith
qed


end
