(* ===== verification/Summary.thy ===== *)
theory Summary
  imports Outcomes
begin

text \<open>
  \<^verbatim>\<open>tools/markdown_summary.py\<close>: the run as Markdown, and the copy that is capped to fit the step summary. The directory of
  columns is the list of its subdirectories; the files written are part of the result.
\<close>

section \<open>Provenance\<close>

definition ran_contexts :: "column list \<Rightarrow> (string, string) dict list" where
  "ran_contexts columns = map (\<lambda>c. get_or [] (j_context c)) (filter (\<lambda>c. status c = ''ok'') columns)"

definition has_commit :: "(string, string) dict \<Rightarrow> bool" where
  "has_commit ctx \<longleftrightarrow> truthy (dict_get ctx ''pyvisa-py commit'')"

definition add_provenance :: "(string, string) dict \<Rightarrow> column list \<Rightarrow> (string, string) dict" where
  "add_provenance prov columns =
     (let ran = ran_contexts columns;
          p = (if prov = [] then (case ran of [] \<Rightarrow> [] | ctx # _ \<Rightarrow> ctx) else prov)
      in if has_commit p then p
         else case filter has_commit ran of
                [] \<Rightarrow> p
              | ctx # _ \<Rightarrow> dict_update p (filter (\<lambda>(k, v). startswith k ''pyvisa-py '') ctx))"

definition PROVENANCE_KEYS :: "string list" where
  "PROVENANCE_KEYS = [''pyvisa'', ''pyvisa-py commit'', ''pyvisa-py described'', ''python'', ''platform'']"

definition provenance_lines :: "(string, string) dict \<Rightarrow> string list" where
  "provenance_lines p =
     (if p = [] then []
      else [''## What was tested'', []] @
           concat (map (\<lambda>k. if truthy (dict_get p k) then [''- **'' @ k @ ''** &mdash; '' @ the (dict_get p k)] else []) PROVENANCE_KEYS) @
           [[]])"

section \<open>The text\<close>

record summary_args =
  su_columns :: string
  su_out :: string
  su_title :: string
  su_subtitle :: string
  su_page_url :: string
  su_step_summary :: "string option"
  su_max_rows :: nat

fun summary_parts ::
  "string \<Rightarrow> nat \<Rightarrow> col_dir list \<Rightarrow> (string, string) dict \<Rightarrow> string list \<Rightarrow> py_error + ((string, string) dict \<times> string list)" where
  "summary_parts system max_rows [] prov parts = Inr (prov, parts)"
| "summary_parts system max_rows (d # ds) prov parts =
     (case load system d of
        Inl e \<Rightarrow> Inl e
      | Inr columns \<Rightarrow>
          if columns = [] then summary_parts system max_rows ds prov parts
          else summary_parts system max_rows ds (add_provenance prov columns)
                 (parts @ [render_markdown (build columns) (cd_name d) max_rows]))"

definition STEP_SUMMARY_LIMIT :: nat where
  "STEP_SUMMARY_LIMIT = 900000"

definition TRUNCATED :: string where
  "TRUNCATED = nl @ nl @ ''_Truncated to fit the step summary. The full report is in this run's artifacts._'' @ nl"

definition capped :: "string \<Rightarrow> string" where
  "capped t = (if char_count t > STEP_SUMMARY_LIMIT then char_take STEP_SUMMARY_LIMIT t @ TRUNCATED else t)"

record summary_end =
  se_code :: int
  se_out :: "string list"
  se_err :: "string list"
  se_files :: "(string \<times> string) list"

definition summary_text :: "summary_args \<Rightarrow> (string, string) dict \<Rightarrow> string list \<Rightarrow> string" where
  "summary_text a prov parts =
     join nl (parts @ provenance_lines prov @
       (if su_page_url a \<noteq> [] then [''[The full matrix, with every failure's detail]('' @ su_page_url a @ '')'', []] else []))"

definition size_line :: "string \<Rightarrow> string \<Rightarrow> string" where
  "size_line path t = path @ '': '' @ str_nat (char_count t) @ '' bytes''"

definition markdown_main :: "string \<Rightarrow> col_dir list \<Rightarrow> summary_args \<Rightarrow> py_error + summary_end" where
  \<comment> \<open>the subdirectories in no particular order\<close>
  "markdown_main system dirs a =
     (let parts = [''# '' @ su_title a, []] @ (if su_subtitle a \<noteq> [] then [su_subtitle a, []] else [])
      in if dirs = []
         then Inr \<lparr>se_code = 4, se_out = [], se_err = [''no protocol directories in '' @ su_columns a], se_files = []\<rparr>
         else case summary_parts system (su_max_rows a) (sort_key cd_name dirs) [] parts of
                Inl e \<Rightarrow> Inl e
              | Inr (prov, all_parts) \<Rightarrow>
                  let t = summary_text a prov all_parts
                  in Inr (if truthy (su_step_summary a)
                          then \<lparr>se_code = 0, se_out = [size_line (su_out a) t, size_line (the (su_step_summary a)) (capped t)], se_err = [],
                                se_files = [(su_out a, t), (the (su_step_summary a), capped t)]\<rparr>
                          else \<lparr>se_code = 0, se_out = [size_line (su_out a) t], se_err = [], se_files = [(su_out a, t)]\<rparr>))"

section \<open>The cap\<close>

lemma TRUNCATED_length: "length TRUNCATED = 83" "char_count TRUNCATED = 83"
  by (simp_all add: TRUNCATED_def char_count_def is_continuation_def)

text \<open>The capped copy is the whole text when that has at most 900000 characters; otherwise it is a prefix of the text of exactly
  that many characters followed by a notice. Either way it has at most 900083 characters, so text in ASCII fits the
  mebibyte of a step summary.\<close>

theorem capped_bounds:
  "(if char_count t \<le> STEP_SUMMARY_LIMIT then capped t = t
    else \<exists>p. prefix p t \<and> char_count p = STEP_SUMMARY_LIMIT \<and> capped t = p @ TRUNCATED) \<and>
   char_count (capped t) \<le> STEP_SUMMARY_LIMIT + 83 \<and> STEP_SUMMARY_LIMIT + 83 < 2 ^ 20"
proof -
  have "\<exists>p. prefix p t \<and> char_count p = STEP_SUMMARY_LIMIT \<and> capped t = p @ TRUNCATED" if "\<not> char_count t \<le> STEP_SUMMARY_LIMIT"
    using that by (intro exI[of _ "char_take STEP_SUMMARY_LIMIT t"]) (simp add: capped_def char_take_prefix char_count_take)
  moreover have "char_count (capped t) \<le> STEP_SUMMARY_LIMIT + 83"
    by (simp add: capped_def char_count_take TRUNCATED_length)
  moreover have "STEP_SUMMARY_LIMIT + 83 < (2 :: nat) ^ 20" by (simp add: STEP_SUMMARY_LIMIT_def)
  ultimately show ?thesis by (auto simp: capped_def)
qed

lemma copies_of_wide: "char_count (concat (replicate n [CHR 0xE2, CHR 0x80, CHR 0x94])) = n"
  "length (concat (replicate n [CHR 0xE2, CHR 0x80, CHR 0x94])) = 3 * n"
  by (induction n) (simp_all add: is_continuation_def)

text \<open>The cap counts characters where the limit of a step summary counts bytes: there is a text the cap passes on unchanged
  that is more than twice as long as a step summary can be.\<close>

theorem cap_counts_characters: "\<exists>t. capped t = t \<and> 2 * 2 ^ 20 < length t"
  by (intro exI[of _ "concat (replicate 900000 [CHR 0xE2, CHR 0x80, CHR 0x94])"])
    (simp add: capped_def copies_of_wide STEP_SUMMARY_LIMIT_def)

section \<open>Provenance\<close>

text \<open>Once the provenance names a commit, later transports do not change it.\<close>

lemma add_provenance_keeps: "has_commit p \<Longrightarrow> add_provenance p columns = p"
  by (auto simp: add_provenance_def Let_def has_commit_def dict_get_def truthy_def)

end
