(* ===== verification/Control.thy ===== *)
theory Control
  imports Prelude "HOL-Library.Word" "HOL-Library.Monad_Syntax"
begin

text \<open>
  The mock server's side of its control channel: the fault knobs of \<^verbatim>\<open>server/src/faults.rs\<close> and the request
  handler of \<^verbatim>\<open>server/src/control.rs\<close>, with the parts of the simulated instrument and of the two protocol
  trackers the handler touches. Integers keep their width. A line on the channel is the JSON value it
  encodes; the text of a decoding error, which is the JSON library's, is a parameter.
\<close>

unbundle bit_operations_syntax

section \<open>JSON values\<close>

datatype json = JNull | JBool bool | JNum int | JStr string | JList "json list" | JObj "(string \<times> json) list"

definition JTrue :: json where "JTrue = JBool True"

section \<open>Fault knobs\<close>

text \<open>An unset optional knob is the largest value of its cell.\<close>

definition UNSET :: "64 word" where "UNSET = - 1"

record faults =
  fa_read_delay_ms :: "32 word"
  fa_write_delay_ms :: "32 word"
  fa_fail_next_write :: bool
  fa_forced_stb :: "64 word"
  fa_drop_after_bytes :: "64 word"
  fa_stall_after_bytes :: "64 word"
  fa_dribble :: bool
  fa_latency_ms :: "32 word"

record fault_config =
  fc_read_delay_ms :: "32 word option"
  fc_write_delay_ms :: "32 word option"
  fc_fail_next_write :: "bool option"
  fc_forced_stb :: "8 word option option"
  fc_drop_after_bytes :: "64 word option option"
  fc_stall_after_bytes :: "64 word option option"
  fc_dribble :: "bool option"
  fc_latency_ms :: "32 word option"

definition faults_new :: faults where
  "faults_new = \<lparr>fa_read_delay_ms = 0, fa_write_delay_ms = 0, fa_fail_next_write = False, fa_forced_stb = UNSET,
     fa_drop_after_bytes = UNSET, fa_stall_after_bytes = UNSET, fa_dribble = False, fa_latency_ms = 0\<rparr>"

definition faults_reset :: "faults \<Rightarrow> faults" where
  "faults_reset f = f\<lparr>fa_read_delay_ms := 0, fa_write_delay_ms := 0, fa_fail_next_write := False,
     fa_forced_stb := UNSET, fa_drop_after_bytes := UNSET, fa_stall_after_bytes := UNSET, fa_dribble := False,
     fa_latency_ms := 0\<rparr>"

definition store :: "'a option \<Rightarrow> 'a \<Rightarrow> 'a" where
  \<comment> \<open>\<^verbatim>\<open>if let Some(v) = config.x { self.x.store(v) }\<close>\<close>
  "store new old = (case new of None \<Rightarrow> old | Some v \<Rightarrow> v)"

definition unwrap_unset :: "64 word option \<Rightarrow> 64 word" where
  "unwrap_unset v = (case v of None \<Rightarrow> UNSET | Some x \<Rightarrow> x)"

definition faults_apply :: "fault_config \<Rightarrow> faults \<Rightarrow> faults" where
  "faults_apply c f =
     \<lparr>fa_read_delay_ms = store (fc_read_delay_ms c) (fa_read_delay_ms f),
      fa_write_delay_ms = store (fc_write_delay_ms c) (fa_write_delay_ms f),
      fa_fail_next_write = store (fc_fail_next_write c) (fa_fail_next_write f),
      fa_forced_stb = store (map_option (\<lambda>v. unwrap_unset (map_option ucast v)) (fc_forced_stb c)) (fa_forced_stb f),
      fa_drop_after_bytes = store (map_option unwrap_unset (fc_drop_after_bytes c)) (fa_drop_after_bytes f),
      fa_stall_after_bytes = store (map_option unwrap_unset (fc_stall_after_bytes c)) (fa_stall_after_bytes f),
      fa_dribble = store (fc_dribble c) (fa_dribble f),
      fa_latency_ms = store (fc_latency_ms c) (fa_latency_ms f)\<rparr>"

definition opt_unset :: "64 word \<Rightarrow> 64 word option" where
  "opt_unset v = (if v = UNSET then None else Some v)"

definition faults_snapshot :: "faults \<Rightarrow> fault_config" where
  "faults_snapshot f =
     \<lparr>fc_read_delay_ms = Some (fa_read_delay_ms f), fc_write_delay_ms = Some (fa_write_delay_ms f),
      fc_fail_next_write = Some (fa_fail_next_write f),
      fc_forced_stb = Some (map_option ucast (opt_unset (fa_forced_stb f))),
      fc_drop_after_bytes = Some (opt_unset (fa_drop_after_bytes f)),
      fc_stall_after_bytes = Some (opt_unset (fa_stall_after_bytes f)),
      fc_dribble = Some (fa_dribble f), fc_latency_ms = Some (fa_latency_ms f)\<rparr>"

definition before_write :: "faults \<Rightarrow> (string + unit) \<times> faults" where
  \<comment> \<open>the failure is injected once; the delay is not modelled\<close>
  "before_write f =
     (if fa_fail_next_write f then (Inl ''injected bus write failure'', f\<lparr>fa_fail_next_write := False\<rparr>)
      else (Inr (), f\<lparr>fa_fail_next_write := False\<rparr>))"

definition forced_stb :: "faults \<Rightarrow> 8 word option" where
  "forced_stb f = map_option ucast (opt_unset (fa_forced_stb f))"

definition drop_after :: "faults \<Rightarrow> 64 word option" where
  "drop_after f = opt_unset (fa_drop_after_bytes f)"

definition stall_after :: "faults \<Rightarrow> 64 word option" where
  "stall_after f = opt_unset (fa_stall_after_bytes f)"

section \<open>The knobs on the wire\<close>

text \<open>Decoding one field: \<open>None\<close> is a decoding error. A number fits its type or is one.\<close>

definition word_of :: "json \<Rightarrow> ('a::len) word option" where
  "word_of j = (case j of JNum n \<Rightarrow> if 0 \<le> n \<and> n < 2 ^ LENGTH('a) then Some (word_of_int n) else None | _ \<Rightarrow> None)"

definition bool_of :: "json \<Rightarrow> bool option" where
  "bool_of j = (case j of JBool b \<Rightarrow> Some b | _ \<Rightarrow> None)"

definition str_of :: "json \<Rightarrow> string option" where
  "str_of j = (case j of JStr s \<Rightarrow> Some s | _ \<Rightarrow> None)"

text \<open>An \<^verbatim>\<open>Option\<close> field: absent and null are both none.\<close>

definition opt_field :: "(json \<Rightarrow> 'a option) \<Rightarrow> json option \<Rightarrow> 'a option option" where
  "opt_field dec v =
     (case v of None \<Rightarrow> Some None | Some JNull \<Rightarrow> Some None | Some j \<Rightarrow> map_option Some (dec j))"

text \<open>With \<^verbatim>\<open>explicit_null\<close> they are told apart.\<close>

definition null_field :: "(json \<Rightarrow> 'a option) \<Rightarrow> json option \<Rightarrow> 'a option option option" where
  "null_field dec v =
     (case v of None \<Rightarrow> Some None | Some JNull \<Rightarrow> Some (Some None) | Some j \<Rightarrow> map_option (\<lambda>x. Some (Some x)) (dec j))"

definition FAULT_FIELDS :: "string list" where
  "FAULT_FIELDS = [''read_delay_ms'', ''write_delay_ms'', ''fail_next_write'', ''forced_stb'', ''drop_after_bytes'',
     ''stall_after_bytes'', ''dribble'', ''latency_ms'']"

definition only_fields :: "string list \<Rightarrow> json \<Rightarrow> (string \<times> json) list option" where
  \<comment> \<open>\<^verbatim>\<open>deny_unknown_fields\<close>, and no field twice\<close>
  "only_fields allowed j =
     (case j of JObj d \<Rightarrow> if set (map fst d) \<subseteq> set allowed \<and> distinct (map fst d) then Some d else None | _ \<Rightarrow> None)"

definition config_of_json :: "json \<Rightarrow> fault_config option" where
  "config_of_json j =
     do {
       d \<leftarrow> only_fields FAULT_FIELDS j;
       read_delay \<leftarrow> opt_field word_of (map_of d ''read_delay_ms'');
       write_delay \<leftarrow> opt_field word_of (map_of d ''write_delay_ms'');
       fail_write \<leftarrow> opt_field bool_of (map_of d ''fail_next_write'');
       stb \<leftarrow> null_field word_of (map_of d ''forced_stb'');
       drop_at \<leftarrow> null_field word_of (map_of d ''drop_after_bytes'');
       stall_at \<leftarrow> null_field word_of (map_of d ''stall_after_bytes'');
       dribble \<leftarrow> opt_field bool_of (map_of d ''dribble'');
       latency \<leftarrow> opt_field word_of (map_of d ''latency_ms'');
       Some \<lparr>fc_read_delay_ms = read_delay, fc_write_delay_ms = write_delay, fc_fail_next_write = fail_write,
             fc_forced_stb = stb, fc_drop_after_bytes = drop_at, fc_stall_after_bytes = stall_at,
             fc_dribble = dribble, fc_latency_ms = latency\<rparr>
     }"

definition json_opt :: "('a \<Rightarrow> json) \<Rightarrow> 'a option \<Rightarrow> json" where
  "json_opt enc v = (case v of None \<Rightarrow> JNull | Some x \<Rightarrow> enc x)"

definition json_word :: "('a::len) word \<Rightarrow> json" where
  "json_word w = JNum (uint w)"

definition json_of_config :: "fault_config \<Rightarrow> json" where
  "json_of_config c = JObj
     [(''read_delay_ms'', json_opt json_word (fc_read_delay_ms c)),
      (''write_delay_ms'', json_opt json_word (fc_write_delay_ms c)),
      (''fail_next_write'', json_opt JBool (fc_fail_next_write c)),
      (''forced_stb'', json_opt (json_opt json_word) (fc_forced_stb c)),
      (''drop_after_bytes'', json_opt (json_opt json_word) (fc_drop_after_bytes c)),
      (''stall_after_bytes'', json_opt (json_opt json_word) (fc_stall_after_bytes c)),
      (''dribble'', json_opt JBool (fc_dribble c)),
      (''latency_ms'', json_opt json_word (fc_latency_ms c))]"

section \<open>The protocol trackers\<close>

record vxi11_faults =
  vf_error_on_proc :: "32 word option"
  vf_error_code :: "32 word option"
  vf_error_once :: "bool option"
  vf_max_recv_size :: "32 word option"
  vf_stale_reply_before_proc :: "32 word option"

definition vxi11_faults0 :: vxi11_faults where
  "vxi11_faults0 = \<lparr>vf_error_on_proc = None, vf_error_code = None, vf_error_once = None, vf_max_recv_size = None,
     vf_stale_reply_before_proc = None\<rparr>"

record vxi11_call =
  vc_proc :: "32 word"
  vc_io_timeout :: "32 word"
  vc_lock_timeout :: "32 word"
  vc_flags :: "32 word"
  vc_term_char :: "8 word option"
  vc_request_size :: "32 word option"

record vxi11_tracker =
  vt_calls :: "(32 word, 32 word) dict"
  vt_faults :: vxi11_faults
  vt_seen :: "vxi11_call list"

definition vxi11_clear :: "vxi11_tracker \<Rightarrow> vxi11_tracker" where
  "vxi11_clear t = t\<lparr>vt_faults := vxi11_faults0, vt_calls := [], vt_seen := []\<rparr>"

definition vxi11_is_armed :: "vxi11_faults \<Rightarrow> bool" where
  "vxi11_is_armed f \<longleftrightarrow> vf_error_on_proc f \<noteq> None \<or> vf_max_recv_size f \<noteq> None \<or> vf_stale_reply_before_proc f \<noteq> None"

record hislip_faults =
  hf_skew_data_end_id :: "32 word option"
  hf_skew_data_id :: "32 word option"
  hf_break_prologue :: "bool option"
  hf_split_data_end_at :: "64 word option"

definition hislip_faults0 :: hislip_faults where
  "hislip_faults0 = \<lparr>hf_skew_data_end_id = None, hf_skew_data_id = None, hf_break_prologue = None,
     hf_split_data_end_at = None\<rparr>"

record hislip_seen =
  hs_from :: string
  hs_message_type :: "8 word"
  hs_control_code :: "8 word"
  hs_message_parameter :: "32 word"
  hs_payload_len :: "64 word"

record hislip_tracker =
  ht_faults :: hislip_faults
  ht_seen :: "hislip_seen list"
  ht_pending :: "64 word \<times> 64 word"

definition hislip_clear :: "hislip_tracker \<Rightarrow> hislip_tracker" where
  "hislip_clear t = t\<lparr>ht_faults := hislip_faults0, ht_seen := []\<rparr>"

definition hislip_armed :: "hislip_faults \<Rightarrow> bool" where
  "hislip_armed f \<longleftrightarrow> hf_skew_data_end_id f \<noteq> None \<or> hf_skew_data_id f \<noteq> None \<or> hf_break_prologue f = Some True \<or>
     hf_split_data_end_at f \<noteq> None"

definition vxi11_faults_of_json :: "json \<Rightarrow> vxi11_faults option" where
  "vxi11_faults_of_json j =
     do {
       d \<leftarrow> only_fields [''error_on_proc'', ''error_code'', ''error_once'', ''max_recv_size'', ''stale_reply_before_proc''] j;
       proc \<leftarrow> opt_field word_of (map_of d ''error_on_proc'');
       code \<leftarrow> opt_field word_of (map_of d ''error_code'');
       once \<leftarrow> opt_field bool_of (map_of d ''error_once'');
       size \<leftarrow> opt_field word_of (map_of d ''max_recv_size'');
       stale \<leftarrow> opt_field word_of (map_of d ''stale_reply_before_proc'');
       Some \<lparr>vf_error_on_proc = proc, vf_error_code = code, vf_error_once = once, vf_max_recv_size = size,
             vf_stale_reply_before_proc = stale\<rparr>
     }"

definition hislip_faults_of_json :: "json \<Rightarrow> hislip_faults option" where
  "hislip_faults_of_json j =
     do {
       d \<leftarrow> only_fields [''skew_data_end_id'', ''skew_data_id'', ''break_prologue'', ''split_data_end_at''] j;
       end_id \<leftarrow> opt_field word_of (map_of d ''skew_data_end_id'');
       data_id \<leftarrow> opt_field word_of (map_of d ''skew_data_id'');
       prologue \<leftarrow> opt_field bool_of (map_of d ''break_prologue'');
       split_at \<leftarrow> opt_field word_of (map_of d ''split_data_end_at'');
       Some \<lparr>hf_skew_data_end_id = end_id, hf_skew_data_id = data_id, hf_break_prologue = prologue,
             hf_split_data_end_at = split_at\<rparr>
     }"

section \<open>The simulated instrument, as far as the channel reaches it\<close>

datatype event =
    WriteEv "8 word" string bool | ReadEv "8 word" string bool | ReadTimeout "8 word" | SerialPoll "8 word" "8 word"
  | Trigger "8 word" | Clear "8 word" | Ren bool | GoToRemote "8 word" | GoToLocal "8 word" | LocalLockout | Ifc
  | UnaddressedWrite string bool | UnaddressedRead

datatype silence = Timeout | EmptyMessage

record device =
  dv_idn :: string
  dv_output :: string
  dv_input :: string
  dv_errors :: "(int \<times> string) list"
  dv_sre :: "8 word"
  dv_ese :: "8 word"
  dv_esr :: "8 word"
  dv_user_stb :: "8 word"
  dv_last_mss :: bool
  dv_remote :: bool
  dv_lockout :: bool
  dv_responses :: "(string, string) dict"
  dv_big_reply_len :: "64 word"
  dv_silence :: silence
  dv_triggers :: "64 word"
  dv_clears :: "64 word"

definition STB_MAV :: "8 word" where "STB_MAV = 0x10"
definition STB_ESB :: "8 word" where "STB_ESB = 0x20"
definition STB_MSS :: "8 word" where "STB_MSS = 0x40"

definition device_stb :: "device \<Rightarrow> 8 word" where
  "device_stb d =
     (let s0 = dv_user_stb d;
          s1 = (if dv_output d \<noteq> [] then s0 OR STB_MAV else s0);
          s2 = (if dv_esr d AND dv_ese d \<noteq> 0 then s1 OR STB_ESB else s1)
      in if s2 AND dv_sre d AND NOT STB_MSS \<noteq> 0 then s2 OR STB_MSS else s2)"

definition set_response :: "string \<Rightarrow> string option \<Rightarrow> device \<Rightarrow> device" where
  "set_response query response d =
     (let key = upper (strip query)
      in case response of
           Some text \<Rightarrow> d\<lparr>dv_responses := dict_set key text (dv_responses d)\<rparr>
         | None \<Rightarrow> d\<lparr>dv_responses := filter (\<lambda>(k, v). k \<noteq> key) (dv_responses d)\<rparr>)"

definition device_reset :: "device \<Rightarrow> device" where
  "device_reset d = d\<lparr>dv_output := [], dv_input := [], dv_errors := [], dv_esr := 0, dv_user_stb := 0\<rparr>"

record bus =
  bu_devices :: "(8 word, device) dict"
  bu_srq_line :: bool
  bu_srq_sent :: nat           \<comment> \<open>broadcasts sent\<close>

definition reset_devices :: "bus \<Rightarrow> bus" where
  "reset_devices b = b\<lparr>bu_devices := map (\<lambda>(p, d). (p, device_reset d)) (bu_devices b), bu_srq_line := False\<rparr>"

definition requests_service :: "device \<Rightarrow> bool" where
  "requests_service d \<longleftrightarrow> device_stb d AND STB_MSS \<noteq> 0"

definition update_srq :: "8 word \<Rightarrow> bus \<Rightarrow> bus" where
  "update_srq pad b =
     (let b1 = (case dict_get (bu_devices b) pad of
                  None \<Rightarrow> b
                | Some d \<Rightarrow>
                    (let mss = requests_service d; rising = (mss \<and> \<not> dv_last_mss d)
                     in b\<lparr>bu_devices := dict_set pad (d\<lparr>dv_last_mss := mss\<rparr>) (bu_devices b),
                          bu_srq_sent := (if rising then Suc (bu_srq_sent b) else bu_srq_sent b)\<rparr>))
      in b1\<lparr>bu_srq_line := list_ex (\<lambda>(p, d). requests_service d) (bu_devices b1)\<rparr>)"

section \<open>Requests\<close>

datatype request =
    Ports | FaultsReq fault_config | Reset | ObservedReq | ClearObserved
  | Respond "8 word" string "string option" | BigReply "8 word" "64 word" | SetStb "8 word" "8 word"
  | Vxi11FaultsReq vxi11_faults | HislipFaultsReq hislip_faults | HislipMessages | Vxi11Calls | Ping

definition request_of :: "string \<Rightarrow> (string \<times> json) list \<Rightarrow> request option" where
  "request_of cmd d =
     (if cmd = ''ports'' then Some Ports
      else if cmd = ''faults'' then map_option FaultsReq (Option.bind (map_of d ''config'') config_of_json)
      else if cmd = ''reset'' then Some Reset
      else if cmd = ''observed'' then Some ObservedReq
      else if cmd = ''clear_observed'' then Some ClearObserved
      else if cmd = ''respond'' then
        (case (Option.bind (map_of d ''pad'') word_of, Option.bind (map_of d ''query'') str_of,
               opt_field str_of (map_of d ''response'')) of
           (Some p, Some q, Some r) \<Rightarrow> Some (Respond p q r) | _ \<Rightarrow> None)
      else if cmd = ''big_reply'' then
        (case (Option.bind (map_of d ''pad'') word_of, Option.bind (map_of d ''bytes'') word_of) of
           (Some p, Some n) \<Rightarrow> Some (BigReply p n) | _ \<Rightarrow> None)
      else if cmd = ''set_stb'' then
        (case (Option.bind (map_of d ''pad'') word_of, Option.bind (map_of d ''bits'') word_of) of
           (Some p, Some n) \<Rightarrow> Some (SetStb p n) | _ \<Rightarrow> None)
      else if cmd = ''vxi11_faults'' then map_option Vxi11FaultsReq (Option.bind (map_of d ''config'') vxi11_faults_of_json)
      else if cmd = ''hislip_faults'' then map_option HislipFaultsReq (Option.bind (map_of d ''config'') hislip_faults_of_json)
      else if cmd = ''hislip_messages'' then Some HislipMessages
      else if cmd = ''vxi11_calls'' then Some Vxi11Calls
      else if cmd = ''ping'' then Some Ping
      else None)"

definition request_of_json :: "json \<Rightarrow> request option" where
  "request_of_json j =
     (case j of
        JObj d \<Rightarrow> (case map_of d ''cmd'' of Some (JStr cmd) \<Rightarrow> request_of cmd d | _ \<Rightarrow> None)
      | _ \<Rightarrow> None)"

record port_info =
  pi_vxi11_port :: "16 word"
  pi_hislip_port :: "16 word"
  pi_control_port :: "16 word"
  pi_vxi11_resource :: string
  pi_hislip_resource :: string

datatype response =
    PortsRsp port_info | FaultsRsp fault_config | EventsRsp "event list" | HislipRsp "hislip_seen list"
  | Vxi11Rsp "vxi11_call list" | OkRsp bool | ErrorRsp string

record control =
  co_ports :: port_info
  co_faults :: faults
  co_observed :: "event list"
  co_bus :: bus
  co_vxi11 :: vxi11_tracker
  co_hislip :: hislip_tracker

definition no_instrument :: "8 word \<Rightarrow> string" where
  "no_instrument pad = ''no instrument at primary address '' @ str_nat (unat pad)"

definition with_device :: "8 word \<Rightarrow> (device \<Rightarrow> device) \<Rightarrow> control \<Rightarrow> response \<times> control" where
  "with_device pad f c =
     (case dict_get (bu_devices (co_bus c)) pad of
        Some d \<Rightarrow> (OkRsp True, c\<lparr>co_bus := (co_bus c)\<lparr>bu_devices := dict_set pad (f d) (bu_devices (co_bus c))\<rparr>\<rparr>)
      | None \<Rightarrow> (ErrorRsp (no_instrument pad), c))"

definition handle :: "request \<Rightarrow> control \<Rightarrow> response \<times> control" where
  "handle r c =
     (case r of
        Ping \<Rightarrow> (OkRsp True, c)
      | Ports \<Rightarrow> (PortsRsp (co_ports c), c)
      | FaultsReq config \<Rightarrow>
          (let f = faults_apply config (co_faults c) in (FaultsRsp (faults_snapshot f), c\<lparr>co_faults := f\<rparr>))
      | Reset \<Rightarrow>
          (OkRsp True, c\<lparr>co_faults := faults_reset (co_faults c), co_vxi11 := vxi11_clear (co_vxi11 c),
             co_hislip := hislip_clear (co_hislip c), co_observed := [], co_bus := reset_devices (co_bus c)\<rparr>)
      | Vxi11FaultsReq config \<Rightarrow> (OkRsp True, c\<lparr>co_vxi11 := (co_vxi11 c)\<lparr>vt_faults := config\<rparr>\<rparr>)
      | HislipFaultsReq config \<Rightarrow> (OkRsp True, c\<lparr>co_hislip := (co_hislip c)\<lparr>ht_faults := config\<rparr>\<rparr>)
      | HislipMessages \<Rightarrow> (HislipRsp (ht_seen (co_hislip c)), c)
      | Vxi11Calls \<Rightarrow> (Vxi11Rsp (vt_seen (co_vxi11 c)), c)
      | ObservedReq \<Rightarrow> (EventsRsp (co_observed c), c)
      | ClearObserved \<Rightarrow> (OkRsp True, c\<lparr>co_observed := []\<rparr>)
      | Respond pad query response \<Rightarrow> with_device pad (set_response query response) c
      | BigReply pad n \<Rightarrow> with_device pad (\<lambda>d. d\<lparr>dv_big_reply_len := n\<rparr>) c
      | SetStb pad bits \<Rightarrow>
          (case dict_get (bu_devices (co_bus c)) pad of
             Some d \<Rightarrow>
               (OkRsp True, c\<lparr>co_bus := update_srq pad ((co_bus c)\<lparr>bu_devices :=
                  dict_set pad (d\<lparr>dv_user_stb := bits\<rparr>) (bu_devices (co_bus c))\<rparr>)\<rparr>)
           | None \<Rightarrow> (ErrorRsp (no_instrument pad), c)))"

section \<open>Answers\<close>

definition json_of_event :: "event \<Rightarrow> json" where
  "json_of_event e = JObj
     (case e of
        WriteEv p s eoi \<Rightarrow> [(''op'', JStr ''write''), (''pad'', json_word p), (''data'', JStr s), (''eoi'', JBool eoi)]
      | ReadEv p s eoi \<Rightarrow> [(''op'', JStr ''read''), (''pad'', json_word p), (''data'', JStr s), (''eoi'', JBool eoi)]
      | ReadTimeout p \<Rightarrow> [(''op'', JStr ''read_timeout''), (''pad'', json_word p)]
      | SerialPoll p s \<Rightarrow> [(''op'', JStr ''serial_poll''), (''pad'', json_word p), (''stb'', json_word s)]
      | Trigger p \<Rightarrow> [(''op'', JStr ''trigger''), (''pad'', json_word p)]
      | Clear p \<Rightarrow> [(''op'', JStr ''clear''), (''pad'', json_word p)]
      | Ren b \<Rightarrow> [(''op'', JStr ''ren''), (''enabled'', JBool b)]
      | GoToRemote p \<Rightarrow> [(''op'', JStr ''go_to_remote''), (''pad'', json_word p)]
      | GoToLocal p \<Rightarrow> [(''op'', JStr ''go_to_local''), (''pad'', json_word p)]
      | LocalLockout \<Rightarrow> [(''op'', JStr ''local_lockout'')]
      | Ifc \<Rightarrow> [(''op'', JStr ''ifc'')]
      | UnaddressedWrite s eoi \<Rightarrow> [(''op'', JStr ''unaddressed_write''), (''data'', JStr s), (''eoi'', JBool eoi)]
      | UnaddressedRead \<Rightarrow> [(''op'', JStr ''unaddressed_read'')])"

definition json_of_seen :: "hislip_seen \<Rightarrow> json" where
  "json_of_seen s = JObj [(''from'', JStr (hs_from s)), (''message_type'', json_word (hs_message_type s)),
     (''control_code'', json_word (hs_control_code s)), (''message_parameter'', json_word (hs_message_parameter s)),
     (''payload_len'', json_word (hs_payload_len s))]"

definition json_of_call :: "vxi11_call \<Rightarrow> json" where
  "json_of_call s = JObj [(''proc'', json_word (vc_proc s)), (''io_timeout'', json_word (vc_io_timeout s)),
     (''lock_timeout'', json_word (vc_lock_timeout s)), (''flags'', json_word (vc_flags s)),
     (''term_char'', json_opt json_word (vc_term_char s)), (''request_size'', json_opt json_word (vc_request_size s))]"

definition json_of_ports :: "port_info \<Rightarrow> json" where
  "json_of_ports p = JObj [(''vxi11_port'', json_word (pi_vxi11_port p)), (''hislip_port'', json_word (pi_hislip_port p)),
     (''control_port'', json_word (pi_control_port p)), (''vxi11_resource'', JStr (pi_vxi11_resource p)),
     (''hislip_resource'', JStr (pi_hislip_resource p))]"

definition json_of_response :: "response \<Rightarrow> json" where
  "json_of_response r =
     (case r of
        PortsRsp p \<Rightarrow> json_of_ports p
      | FaultsRsp c \<Rightarrow> json_of_config c
      | EventsRsp es \<Rightarrow> JObj [(''events'', JList (map json_of_event es))]
      | HislipRsp ms \<Rightarrow> JObj [(''messages'', JList (map json_of_seen ms))]
      | Vxi11Rsp cs \<Rightarrow> JObj [(''calls'', JList (map json_of_call cs))]
      | OkRsp b \<Rightarrow> JObj [(''ok'', JBool b)]
      | ErrorRsp e \<Rightarrow> JObj [(''error'', JStr e)])"

text \<open>One line of the channel.\<close>

definition serve :: "(json \<Rightarrow> string) \<Rightarrow> json \<Rightarrow> control \<Rightarrow> json \<times> control" where
  "serve decode_error line c =
     (case request_of_json line of
        Some r \<Rightarrow> map_prod json_of_response id (handle r c)
      | None \<Rightarrow> (json_of_response (ErrorRsp (''bad request: '' @ decode_error line)), c))"

section \<open>Lemmas\<close>

text \<open>A forced status byte is a byte, or unset.\<close>

definition faults_inv :: "faults \<Rightarrow> bool" where
  "faults_inv f \<longleftrightarrow> fa_forced_stb f = UNSET \<or> unat (fa_forced_stb f) < 256"

lemma unat_byte_less: "unat (b :: 8 word) < 256"
proof -
  have "unat b < 2 ^ LENGTH(8)" by (rule unsigned_less)
  then show ?thesis by simp
qed

lemma unat_ucast_byte: "unat (ucast (b :: 8 word) :: 64 word) = unat b"
  using unat_byte_less[of b] by (subst unsigned_ucast_eq) (simp add: take_bit_nat_eq_self_iff)

lemma ucast_byte_not_unset: "(ucast (b :: 8 word) :: 64 word) \<noteq> UNSET"
proof
  assume "(ucast b :: 64 word) = UNSET"
  then have "unat b = unat UNSET" using unat_ucast_byte[of b] by simp
  also have "\<dots> = 2 ^ 64 - 1" by (simp add: UNSET_def unsigned_minus_1_eq_mask mask_eq_exp_minus_1)
  finally show False using unat_byte_less[of b] by simp
qed

lemma unat_byte: "unat (ucast (b :: 8 word) :: 64 word) < 256"
  by (simp only: unat_ucast_byte unat_byte_less)

lemma byte_roundtrip: "unat w < 256 \<Longrightarrow> ucast (ucast (w :: 64 word) :: 8 word) = w"
proof (rule word_unat_eq_iff[THEN iffD2])
  assume "unat w < 256"
  then have "unat (ucast w :: 8 word) = unat w"
    by (subst unsigned_ucast_eq) (simp add: take_bit_nat_eq_self_iff del: unsigned_take_bit_eq)
  then show "unat (ucast (ucast w :: 8 word) :: 64 word) = unat w" by (simp only: unat_ucast_byte)
qed

lemma faults_inv_new [simp]: "faults_inv faults_new"
  by (simp add: faults_inv_def faults_new_def)

lemma faults_inv_reset [simp]: "faults_inv (faults_reset f)"
  by (simp add: faults_inv_def faults_reset_def)

lemma faults_inv_apply: "faults_inv f \<Longrightarrow> faults_inv (faults_apply c f)"
  using unat_byte
  by (auto simp: faults_inv_def faults_apply_def store_def unwrap_unset_def split: option.splits)

lemma unwrap_opt [simp]: "unwrap_unset (opt_unset v) = v"
  by (simp add: unwrap_unset_def opt_unset_def)

lemma apply_snapshot:
  assumes "faults_inv f"
  shows "faults_apply (faults_snapshot f) g = f"
proof -
  have "unwrap_unset (map_option ucast (map_option (ucast :: 64 word \<Rightarrow> 8 word) (opt_unset (fa_forced_stb f)))) = fa_forced_stb f"
    using assms byte_roundtrip by (auto simp: faults_inv_def unwrap_unset_def opt_unset_def)
  then show ?thesis by (simp add: faults_apply_def faults_snapshot_def store_def)
qed

lemma word_of_json_word [simp]: "word_of (json_word w) = Some w"
  using uint_lt2p[of w] by (simp add: word_of_def json_word_def)

lemma opt_field_word [simp]: "opt_field word_of (Some (json_word w)) = Some (Some w)"
  using word_of_json_word[of w] by (simp add: opt_field_def json_word_def)

lemma opt_field_bool [simp]: "opt_field bool_of (Some (JBool x)) = Some (Some x)"
  by (simp add: opt_field_def bool_of_def)

lemma null_field_word [simp]: "null_field word_of (Some (json_opt json_word v)) = Some (Some v)"
  using word_of_json_word by (cases v) (simp_all add: null_field_def json_opt_def json_word_def)

lemma json_opt_Some [simp]: "json_opt enc (Some x) = enc x"
  by (simp add: json_opt_def)

lemma config_of_snapshot: "config_of_json (json_of_config (faults_snapshot f)) = Some (faults_snapshot f)"
  by (simp add: config_of_json_def json_of_config_def faults_snapshot_def only_fields_def FAULT_FIELDS_def)

text \<open>The abstract reading of the knobs: what each is called on the wire, and its value there.\<close>

definition knob :: "faults \<Rightarrow> string \<Rightarrow> json" where
  "knob f k = (case json_of_config (faults_snapshot f) of JObj d \<Rightarrow> (case map_of d k of None \<Rightarrow> JNull | Some v \<Rightarrow> v) | _ \<Rightarrow> JNull)"

definition NULLABLE :: "string list" where
  "NULLABLE = [''forced_stb'', ''drop_after_bytes'', ''stall_after_bytes'']"

definition knob_after :: "(string \<times> json) list \<Rightarrow> (string \<Rightarrow> json) \<Rightarrow> string \<Rightarrow> json" where
  "knob_after d old k =
     (case map_of d k of
        None \<Rightarrow> old k
      | Some v \<Rightarrow> if v = JNull \<and> k \<notin> set NULLABLE then old k else v)"

lemma word_of_inverse: "word_of j = Some w \<Longrightarrow> json_word w = j"
  by (auto simp: word_of_def json_word_def uint_word_of_int_eq take_bit_int_eq_self_iff split: json.splits if_splits)

lemma bool_of_inverse: "bool_of j = Some b \<Longrightarrow> JBool b = j"
  by (auto simp: bool_of_def split: json.splits)

lemma opt_field_store:
  assumes "opt_field dec v = Some a" and inv: "\<And>j x. dec j = Some x \<Longrightarrow> enc x = j"
  shows "enc (store a old) = (case v of None \<Rightarrow> enc old | Some j \<Rightarrow> if j = JNull then enc old else j)"
  using assms(1) inv by (auto simp: opt_field_def store_def split: option.splits json.splits)

lemma json_opt_unset:
  assumes "v \<noteq> UNSET"
  shows "json_opt json_word (opt_unset v) = json_word v"
  using assms by (simp add: opt_unset_def)

lemma null_field_store:
  fixes old :: "64 word"
  assumes "null_field word_of v = Some a" and "v \<noteq> Some (JNum (2 ^ 64 - 1))"
  shows "json_opt json_word (opt_unset (store (map_option unwrap_unset a) old)) =
    (case v of None \<Rightarrow> json_opt json_word (opt_unset old) | Some j \<Rightarrow> j)"
proof (cases v)
  case None
  then show ?thesis using assms(1) by (auto simp: null_field_def store_def)
next
  case (Some j)
  show ?thesis
  proof (cases "j = JNull")
    case True
    then show ?thesis using assms(1) Some by (auto simp: null_field_def store_def unwrap_unset_def opt_unset_def json_opt_def)
  next
    case False
    then obtain w where w: "word_of j = Some w" "a = Some (Some w)"
      using assms(1) Some by (auto simp: null_field_def split: json.splits)
    have "json_word UNSET = JNum (2 ^ 64 - 1)" by (simp add: json_word_def UNSET_def unsigned_minus_1_eq_mask mask_eq_exp_minus_1)
    then have "w \<noteq> UNSET" using assms(2) Some word_of_inverse[OF w(1)] by auto
    then show ?thesis using Some w word_of_inverse[OF w(1)]
      by (simp add: store_def unwrap_unset_def json_opt_unset)
  qed
qed

lemma null_field_store_byte:
  fixes a :: "8 word option option"
  assumes "null_field word_of v = Some a"
  shows "json_opt json_word (map_option (ucast :: 64 word \<Rightarrow> 8 word) (opt_unset (store (map_option (\<lambda>v. unwrap_unset (map_option ucast v)) a) old))) =
    (case v of None \<Rightarrow> json_opt json_word (map_option (ucast :: 64 word \<Rightarrow> 8 word) (opt_unset old)) | Some j \<Rightarrow> j)"
proof (cases v)
  case None
  then show ?thesis using assms(1) by (auto simp: null_field_def store_def)
next
  case (Some j)
  show ?thesis
  proof (cases "j = JNull")
    case True
    then show ?thesis using assms(1) Some by (auto simp: null_field_def store_def unwrap_unset_def opt_unset_def json_opt_def)
  next
    case False
    then obtain w :: "8 word" where w: "word_of j = Some w" "a = Some (Some w)"
      using assms(1) Some by (auto simp: null_field_def split: json.splits)
    have "ucast (ucast w :: 64 word) = w"
      by (rule word_unat_eq_iff[THEN iffD2]) (subst unsigned_ucast_eq, simp only: unat_ucast_byte, simp add: take_bit_nat_eq_self_iff unat_byte_less)
    then show ?thesis using Some w ucast_byte_not_unset[of w] word_of_inverse[OF w(1)]
      by (simp add: store_def unwrap_unset_def opt_unset_def)
  qed
qed

lemma config_of_json_fields:
  assumes "config_of_json (JObj d) = Some c"
  shows "opt_field word_of (map_of d ''read_delay_ms'') = Some (fc_read_delay_ms c)"
    "opt_field word_of (map_of d ''write_delay_ms'') = Some (fc_write_delay_ms c)"
    "opt_field bool_of (map_of d ''fail_next_write'') = Some (fc_fail_next_write c)"
    "null_field word_of (map_of d ''forced_stb'') = Some (fc_forced_stb c)"
    "null_field word_of (map_of d ''drop_after_bytes'') = Some (fc_drop_after_bytes c)"
    "null_field word_of (map_of d ''stall_after_bytes'') = Some (fc_stall_after_bytes c)"
    "opt_field bool_of (map_of d ''dribble'') = Some (fc_dribble c)"
    "opt_field word_of (map_of d ''latency_ms'') = Some (fc_latency_ms c)"
proof -
  obtain d' where d': "only_fields FAULT_FIELDS (JObj d) = Some d'"
    using assms by (auto simp: config_of_json_def bind_eq_Some_conv)
  then have "d' = d" by (auto simp: only_fields_def split: if_splits)
  note assms[unfolded config_of_json_def d' bind.bind_lunit this]
  then show "opt_field word_of (map_of d ''read_delay_ms'') = Some (fc_read_delay_ms c)"
    "opt_field word_of (map_of d ''write_delay_ms'') = Some (fc_write_delay_ms c)"
    "opt_field bool_of (map_of d ''fail_next_write'') = Some (fc_fail_next_write c)"
    "null_field word_of (map_of d ''forced_stb'') = Some (fc_forced_stb c)"
    "null_field word_of (map_of d ''drop_after_bytes'') = Some (fc_drop_after_bytes c)"
    "null_field word_of (map_of d ''stall_after_bytes'') = Some (fc_stall_after_bytes c)"
    "opt_field bool_of (map_of d ''dribble'') = Some (fc_dribble c)"
    "opt_field word_of (map_of d ''latency_ms'') = Some (fc_latency_ms c)"
    by (auto simp: bind_eq_Some_conv)
qed

text \<open>The wire value of each knob.\<close>

lemma knob_simps:
  "knob f ''read_delay_ms'' = json_word (fa_read_delay_ms f)"
  "knob f ''write_delay_ms'' = json_word (fa_write_delay_ms f)"
  "knob f ''fail_next_write'' = JBool (fa_fail_next_write f)"
  "knob f ''forced_stb'' = json_opt json_word (map_option (ucast :: 64 word \<Rightarrow> 8 word) (opt_unset (fa_forced_stb f)))"
  "knob f ''drop_after_bytes'' = json_opt json_word (opt_unset (fa_drop_after_bytes f))"
  "knob f ''stall_after_bytes'' = json_opt json_word (opt_unset (fa_stall_after_bytes f))"
  "knob f ''dribble'' = JBool (fa_dribble f)"
  "knob f ''latency_ms'' = json_word (fa_latency_ms f)"
  by (simp_all add: knob_def json_of_config_def faults_snapshot_def)

section \<open>Properties\<close>

text \<open>C17: the knobs refine their description. A request that is accepted sets exactly the knobs it names, to the
  values it gives, and leaves every other as it was; a null clears one of the three knobs that can be unset and
  leaves the others alone. So what is read back is what was asked for, for every value but
  the largest one a byte count can have, which stands for unset.\<close>

theorem faults_refine_knobs:
  assumes "config_of_json (JObj d) = Some c"
    and "JNum (2 ^ 64 - 1) \<notin> snd ` set d"
    and "k \<in> set FAULT_FIELDS"
  shows "knob (faults_apply c f) k = knob_after d (knob f) k"
proof -
  have big: "map_of d x \<noteq> Some (JNum (2 ^ 64 - 1))" for x using assms(2) map_of_SomeD by force
  note fields = config_of_json_fields[OF assms(1)]
  note stores = opt_field_store[where enc = json_word, OF fields(1) word_of_inverse] opt_field_store[where enc = json_word, OF fields(2) word_of_inverse]
    opt_field_store[where enc = JBool, OF fields(3) bool_of_inverse] null_field_store_byte[OF fields(4)]
    null_field_store[OF fields(5) big] null_field_store[OF fields(6) big]
    opt_field_store[where enc = JBool, OF fields(7) bool_of_inverse] opt_field_store[where enc = json_word, OF fields(8) word_of_inverse]
  have "list_all (\<lambda>k. knob (faults_apply c f) k = knob_after d (knob f) k) FAULT_FIELDS"
    unfolding FAULT_FIELDS_def list.pred_inject
    by (intro conjI)
      (simp_all add: knob_simps stores faults_apply_def knob_after_def NULLABLE_def del: json.inject(1) split: option.split)
  then show ?thesis using assms(3) by (simp add: list_all_iff)
qed

theorem faults_refine_knobs_witness:
  "\<exists>c. config_of_json (JObj [(''drop_after_bytes'', JNum 64)]) = Some c \<and>
     knob (faults_apply c faults_new) ''drop_after_bytes'' = JNum 64"
proof -
  obtain c where c: "config_of_json (JObj [(''drop_after_bytes'', JNum 64)]) = Some c"
    by (simp add: config_of_json_def only_fields_def FAULT_FIELDS_def opt_field_def null_field_def word_of_def)
  then show ?thesis using faults_refine_knobs[OF c, of "''drop_after_bytes''" faults_new]
    by (simp add: FAULT_FIELDS_def knob_after_def NULLABLE_def)
qed

text \<open>C18: what the server reports can be given back to it. Its report of the knobs is a request it accepts, and
  applying it in any state puts every knob back to what it was when the report was made.\<close>

theorem snapshot_restores:
  assumes "faults_inv f"
  shows "config_of_json (json_of_config (faults_snapshot f)) = Some (faults_snapshot f) \<and>
    faults_apply (faults_snapshot f) g = f"
  using config_of_snapshot apply_snapshot[OF assms] by blast

theorem snapshot_restores_witness:
  "faults_apply (faults_snapshot faults_new) (faults_new\<lparr>fa_dribble := True\<rparr>) = faults_new"
  using snapshot_restores[of faults_new] by simp

section \<open>What a reset leaves behind\<close>

text \<open>A device that requested service when it was reset and is given the same status bits again.\<close>

lemma update_srq_not_rising:
  "dict_get (bu_devices b) pad = Some d \<Longrightarrow> dv_last_mss d \<Longrightarrow> bu_srq_sent (update_srq pad b) = bu_srq_sent b"
  by (simp add: update_srq_def Let_def)

lemma dict_get_reset:
  "dict_get (bu_devices (reset_devices b)) pad = map_option device_reset (dict_get (bu_devices b) pad)"
proof -
  have "map_of (map (\<lambda>(p, d). (p, device_reset d)) ds) pad = map_option device_reset (map_of ds pad)" for ds
    by (induction ds) auto
  then show ?thesis by (simp add: reset_devices_def dict_get_def)
qed

text \<open>A reset keeps each device's memory of having requested service, so the next service request of such a device
  sends no notification: whatever status bits are set first after the reset, none is broadcast.\<close>

theorem reset_swallows_service_request:
  assumes "dict_get (bu_devices (co_bus c)) pad = Some d" "dv_last_mss d"
  shows "bu_srq_sent (co_bus (snd (handle (SetStb pad bits) (snd (handle Reset c))))) = bu_srq_sent (co_bus c)"
  using assms
  by (simp add: handle_def Let_def dict_get_reset)
    (subst update_srq_not_rising[of _ _ "(device_reset d)\<lparr>dv_user_stb := bits\<rparr>"],
     simp_all add: alist_dict.get_put device_reset_def, simp add: reset_devices_def)

definition device_default :: device where
  "device_default =
     \<lparr>dv_idn = ''TestGear,VirtualInstrument,0,1.0'', dv_output = [], dv_input = [], dv_errors = [], dv_sre = 0, dv_ese = 0, dv_esr = 0,
      dv_user_stb = 0, dv_last_mss = False, dv_remote = False, dv_lockout = False, dv_responses = [],
      dv_big_reply_len = 3200, dv_silence = Timeout, dv_triggers = 0, dv_clears = 0\<rparr>"

definition control_at_start :: "port_info \<Rightarrow> 8 word list \<Rightarrow> control" where
  "control_at_start ports pads =
     \<lparr>co_ports = ports, co_faults = faults_new, co_observed = [],
      co_bus = \<lparr>bu_devices = dict_of (map (\<lambda>p. (p, device_default)) pads), bu_srq_line = False, bu_srq_sent = 0\<rparr>,
      co_vxi11 = \<lparr>vt_calls = [], vt_faults = vxi11_faults0, vt_seen = []\<rparr>,
      co_hislip = \<lparr>ht_faults = hislip_faults0, ht_seen = [], ht_pending = (0, 0)\<rparr>\<rparr>"

definition example_ports :: port_info where
  "example_ports = \<lparr>pi_vxi11_port = 1, pi_hislip_port = 2, pi_control_port = 3, pi_vxi11_resource = [], pi_hislip_resource = []\<rparr>"

definition example_requesting :: control where
  \<comment> \<open>the instrument at address 0 has its mask set and requests service\<close>
  "example_requesting =
     (let c = control_at_start example_ports [0]
      in snd (handle (SetStb 0 1) (c\<lparr>co_bus := (co_bus c)\<lparr>bu_devices := [(0, device_default\<lparr>dv_sre := 1\<rparr>)]\<rparr>\<rparr>)))"

theorem reset_swallows_service_request_witness:
  "bu_srq_sent (co_bus (snd (handle (SetStb 0 1) (snd (handle Reset example_requesting))))) = bu_srq_sent (co_bus example_requesting)"
proof -
  have "\<exists>d. dict_get (bu_devices (co_bus example_requesting)) 0 = Some d \<and> dv_last_mss d"
    by (simp add: example_requesting_def control_at_start_def handle_def Let_def update_srq_def alist_dict.get_put dict_get_def
        requests_service_def device_stb_def device_default_def STB_MSS_def dict_set_def)
  then obtain d where "dict_get (bu_devices (co_bus example_requesting)) 0 = Some d" "dv_last_mss d" by blast
  then show ?thesis by (rule reset_swallows_service_request)
qed


end
