(* ===== verification/Server.thy ===== *)
theory Server
  imports Control Visa_Status
begin

text \<open>
  \<^verbatim>\<open>testgear/server.py\<close>: finding and starting the mock server, stopping it, and its control channel from
  the client's side. What the operating system does is the record \<open>'w os\<close> of functions on a state of any
  type; a line read from a pipe or from the channel is the JSON value it holds. The channel commands take the
  exchange of one line, \<open>ask\<close>, as their parameter; \<open>serve\<close> of the server itself is one.
\<close>

section \<open>Finding the binary\<close>

record server_env =
  se_environ :: "string \<Rightarrow> string option"
  se_platform :: string
  se_exists :: "string \<Rightarrow> bool"
  se_cargo :: bool                   \<comment> \<open>cargo is on the path\<close>
  se_build :: "int \<times> string"         \<comment> \<open>what building gives: exit code and stderr\<close>
  se_can_bind :: bool                \<comment> \<open>binding port 111 succeeds\<close>
  se_crate :: string

definition ServerUnavailable :: "string \<Rightarrow> exn" where
  "ServerUnavailable msg = plain_exn [''ServerUnavailable'', ''RuntimeError'', ''Exception'', ''BaseException''] msg"

definition RuntimeErrorExn :: "string \<Rightarrow> exn" where
  "RuntimeErrorExn msg = plain_exn [''RuntimeError'', ''Exception'', ''BaseException''] msg"

definition built_path :: "server_env \<Rightarrow> string \<Rightarrow> string \<Rightarrow> string" where
  "built_path env profile exe = se_crate env @ ''/target/'' @ profile @ ''/testgear-mock-server'' @ exe"

definition binary_path :: "server_env \<Rightarrow> bool \<Rightarrow> (exn + string) \<times> string list" where
  \<comment> \<open>with what is printed\<close>
  "binary_path env build =
     (case se_environ env ''TESTGEAR_MOCK_SERVER'' of
        Some (c # cs) \<Rightarrow>
          (if se_exists env (c # cs) then Inr (c # cs)
           else Inl (ServerUnavailable (''TESTGEAR_MOCK_SERVER='' @ (c # cs) @ '' does not exist'')), [])
      | _ \<Rightarrow>
          (let exe = (if se_platform env = ''win32'' then ''.exe'' else []);
               found = filter (se_exists env) (map (\<lambda>p. built_path env p exe) [''release'', ''debug''])
           in if found \<noteq> [] then (Inr (hd found), [])
              else if \<not> build then (Inl (ServerUnavailable ''the mock server is not built; run: cargo build --release''), [])
              else if \<not> se_cargo env then
                (Inl (ServerUnavailable (''the mock server is not built and cargo is not installed. '' @
                   ''Install Rust (https://rustup.rs) or set TESTGEAR_MOCK_SERVER '' @ ''to a prebuilt binary.'')), [])
              else
                (if fst (se_build env) \<noteq> 0 then Inl (ServerUnavailable (''cargo build failed:'' @ nl @ snd (se_build env)))
                 else Inr (built_path env ''release'' []),
                 [''building the mock server (first run only)...''])))"

section \<open>The server object\<close>

record mock_args =
  ma_pads :: "int list"
  ma_host :: string
  ma_proxy :: bool
  ma_log_level :: "string option"
  ma_portmap :: "bool option"
  ma_hislip_modes :: "string option"

definition default_mock :: mock_args where
  "default_mock = \<lparr>ma_pads = [0, 14, 23], ma_host = ''127.0.0.1'', ma_proxy = True, ma_log_level = None,
     ma_portmap = None, ma_hislip_modes = None\<rparr>"

definition portmap_of :: "server_env \<Rightarrow> bool option \<Rightarrow> bool" where
  "portmap_of env portmap =
     (case portmap of
        Some b \<Rightarrow> b
      | None \<Rightarrow>
          (case se_environ env ''TESTGEAR_PORTMAP'' of
             Some v \<Rightarrow> v \<notin> {[], ''0'', ''false'', ''no''}
           | None \<Rightarrow> se_can_bind env))"

record mock =
  mo_host :: string
  mo_modes :: "string option"
  mo_pads :: "int list"
  mo_proxy :: bool
  mo_portmap :: bool
  mo_log_level :: "string option"
  mo_process :: "nat option"              \<comment> \<open>the child\<close>
  mo_control :: "nat option"              \<comment> \<open>the socket\<close>
  mo_control_file :: "nat option"         \<comment> \<open>the file made of it\<close>
  mo_ports :: "(string \<times> json) list"

definition MockServer :: "server_env \<Rightarrow> mock_args \<Rightarrow> mock" where
  "MockServer env a =
     \<lparr>mo_host = ma_host a, mo_modes = ma_hislip_modes a, mo_pads = ma_pads a, mo_proxy = ma_proxy a,
      mo_portmap = portmap_of env (ma_portmap a), mo_log_level = ma_log_level a, mo_process = None,
      mo_control = None, mo_control_file = None, mo_ports = []\<rparr>"

definition nonempty :: "string option \<Rightarrow> bool" where
  "nonempty s \<longleftrightarrow> s \<noteq> None \<and> s \<noteq> Some []"

definition server_argv :: "string \<Rightarrow> mock \<Rightarrow> string list" where
  "server_argv binary m =
     [binary, ''--host'', mo_host m, ''--pads'', join '','' (map str_int (mo_pads m)), ''--exit-with-parent''] @
     (if mo_proxy m then [] else [''--no-proxy'']) @
     (if mo_portmap m then [''--portmap''] else []) @
     (if nonempty (mo_modes m) then [''--hislip-modes'', the (mo_modes m)] else [])"

section \<open>Starting and stopping\<close>

datatype line = Line json | NotJson | Eof

record 'w os =
  os_popen :: "string list \<Rightarrow> string option \<Rightarrow> 'w \<Rightarrow> (exn + nat) \<times> 'w"     \<comment> \<open>with RUST_LOG\<close>
  os_readline :: "nat \<Rightarrow> 'w \<Rightarrow> line \<times> 'w"                              \<comment> \<open>of the child's output\<close>
  os_stderr :: "nat \<Rightarrow> 'w \<Rightarrow> string \<times> 'w"
  os_connect :: "string \<Rightarrow> int \<Rightarrow> 'w \<Rightarrow> (exn + nat) \<times> 'w"
  os_makefile :: "nat \<Rightarrow> 'w \<Rightarrow> nat \<times> 'w"
  os_close :: "nat \<Rightarrow> 'w \<Rightarrow> 'w"                                       \<comment> \<open>an error is suppressed\<close>
  os_terminate :: "nat \<Rightarrow> 'w \<Rightarrow> 'w"
  os_kill :: "nat \<Rightarrow> 'w \<Rightarrow> 'w"
  os_wait :: "nat \<Rightarrow> 'w \<Rightarrow> bool \<times> 'w"                                \<comment> \<open>for five seconds: has it ended\<close>

definition ports_of :: "line \<Rightarrow> exn + (string \<times> json) list" where
  \<comment> \<open>what \<^verbatim>\<open>json.loads(line)["control_port"]\<close> needs of the announcement\<close>
  "ports_of l =
     (case l of
        Line (JObj d) \<Rightarrow>
          (case map_of d ''control_port'' of
             Some (JNum p) \<Rightarrow> Inr d
           | Some _ \<Rightarrow> Inl (plain_exn [''TypeError'', ''Exception'', ''BaseException''] ''control_port'')
           | None \<Rightarrow> Inl (plain_exn [''KeyError'', ''LookupError'', ''Exception'', ''BaseException''] ''control_port''))
      | Line _ \<Rightarrow> Inl (plain_exn [''TypeError'', ''Exception'', ''BaseException''] ''ports'')
      | _ \<Rightarrow> Inl (plain_exn [''JSONDecodeError'', ''ValueError'', ''Exception'', ''BaseException''] ''ports''))"

definition control_port :: "(string \<times> json) list \<Rightarrow> int" where
  "control_port d = (case map_of d ''control_port'' of Some (JNum p) \<Rightarrow> p | _ \<Rightarrow> 0)"

definition start :: "'w os \<Rightarrow> server_env \<Rightarrow> mock \<Rightarrow> 'w \<Rightarrow> exn option \<times> mock \<times> 'w" where
  \<comment> \<open>the exception it ends with, if any, and the object as it is then\<close>
  "start os env m w0 =
     (case fst (binary_path env True) of
        Inl e \<Rightarrow> (Some e, m, w0)
      | Inr binary \<Rightarrow>
          (case os_popen os (server_argv binary m) (if nonempty (mo_log_level m) then mo_log_level m else None) w0 of
             (Inl e, w1) \<Rightarrow> (Some e, m, w1)
           | (Inr pid, w1) \<Rightarrow>
               (let m1 = m\<lparr>mo_process := Some pid\<rparr>; (l, w2) = os_readline os pid w1
                in if l = Eof then
                     (let (err, w3) = os_stderr os pid w2
                      in (Some (ServerUnavailable (''the mock server exited at startup:'' @ nl @ err)), m1, w3))
                   else case ports_of l of
                     Inl e \<Rightarrow> (Some e, (case l of Line (JObj d) \<Rightarrow> m1\<lparr>mo_ports := d\<rparr> | _ \<Rightarrow> m1), w2)
                   | Inr d \<Rightarrow>
                       (let m2 = m1\<lparr>mo_ports := d\<rparr>
                        in case os_connect os (mo_host m) (control_port d) w2 of
                             (Inl e, w3) \<Rightarrow> (Some e, m2, w3)
                           | (Inr sock, w3) \<Rightarrow>
                               (let (f, w4) = os_makefile os sock w3
                                in (None, m2\<lparr>mo_control := Some sock, mo_control_file := Some f\<rparr>, w4))))))"

definition close_opt :: "'w os \<Rightarrow> nat option \<Rightarrow> 'w \<Rightarrow> 'w" where
  "close_opt os fd w = (case fd of None \<Rightarrow> w | Some n \<Rightarrow> os_close os n w)"

definition stop :: "'w os \<Rightarrow> mock \<Rightarrow> 'w \<Rightarrow> exn option \<times> mock \<times> 'w" where
  "stop os m w0 =
     (let w1 = close_opt os (mo_control_file m) w0; w2 = close_opt os (mo_control m) w1
      in case mo_process m of
           None \<Rightarrow> (None, m, w2)
         | Some pid \<Rightarrow>
             (let (ended, w4) = os_wait os pid (os_terminate os pid w2)
              in if ended then (None, m\<lparr>mo_process := None\<rparr>, w4)
                 else
                   (let (ended2, w6) = os_wait os pid (os_kill os pid w4)
                    in if ended2 then (None, m\<lparr>mo_process := None\<rparr>, w6)
                       else (Some (plain_exn [''TimeoutExpired'', ''SubprocessError'', ''Exception'', ''BaseException''] []), m, w6))))"

text \<open>\<^verbatim>\<open>with mock_server(...) as server:\<close> with the body of the block. What is raised in the block is what the
  statement raises, unless stopping raises.\<close>

definition mock_server ::
  "'w os \<Rightarrow> server_env \<Rightarrow> mock_args \<Rightarrow> (mock \<Rightarrow> 'w \<Rightarrow> (exn + 'r) \<times> 'w) \<Rightarrow> 'w \<Rightarrow> (exn + 'r) \<times> 'w" where
  "mock_server os env a body w0 =
     (case start os env (MockServer env a) w0 of
        (failed, m, w1) \<Rightarrow>
          (let (r, w2) = (case failed of Some e \<Rightarrow> (Inl e, w1) | None \<Rightarrow> body m w1)
           in case stop os m w2 of
                (None, _, w3) \<Rightarrow> (r, w3)
              | (Some e, _, w3) \<Rightarrow> (Inl e, w3)))"

section \<open>Resources\<close>

definition resource :: "mock \<Rightarrow> string \<Rightarrow> py_error + json" where
  "resource m protocol =
     (case (map_of (mo_ports m) ''vxi11_resource'', map_of (mo_ports m) ''hislip_resource'') of
        (Some v, Some h) \<Rightarrow>
          if protocol = ''vxi11'' then Inr v else if protocol = ''hislip'' then Inr h
          else Inl (ValueError (''unknown protocol '' @ py_repr protocol))
      | _ \<Rightarrow> Inl (ValueError (''unknown protocol '' @ py_repr protocol)))"

section \<open>The control channel\<close>

text \<open>\<^verbatim>\<open>repr\<close> of a decoded JSON value.\<close>

fun json_repr :: "json \<Rightarrow> string" where
  "json_repr JNull = ''None''"
| "json_repr (JBool b) = (if b then ''True'' else ''False'')"
| "json_repr (JNum n) = str_int n"
| "json_repr (JStr s) = py_repr s"
| "json_repr (JList js) = ''['' @ join '', '' (map json_repr js) @ '']''"
| "json_repr (JObj d) = ''{'' @ join '', '' (map (\<lambda>x. py_repr (fst x) @ '': '' @ json_repr (snd x)) d) @ ''}''"

definition json_str :: "json \<Rightarrow> string" where
  "json_str j = (case j of JStr s \<Rightarrow> s | _ \<Rightarrow> json_repr j)"

type_synonym 'w ask = "json \<Rightarrow> 'w \<Rightarrow> (exn + line) \<times> 'w"

definition command :: "'w ask \<Rightarrow> mock \<Rightarrow> (string \<times> json) list \<Rightarrow> 'w \<Rightarrow> (exn + json) \<times> 'w" where
  "command ask m request w =
     (if mo_control m = None then (Inl (RuntimeErrorExn ''the server is not running''), w)
      else case ask (JObj request) w of
        (Inl e, w1) \<Rightarrow> (Inl e, w1)
      | (Inr Eof, w1) \<Rightarrow> (Inl (RuntimeErrorExn ''the control channel closed unexpectedly''), w1)
      | (Inr NotJson, w1) \<Rightarrow> (Inl (plain_exn [''JSONDecodeError'', ''ValueError'', ''Exception'', ''BaseException''] []), w1)
      | (Inr (Line reply), w1) \<Rightarrow>
          (case reply of
             JObj d \<Rightarrow>
               (case map_of d ''error'' of
                  Some e \<Rightarrow> (Inl (RuntimeErrorExn (''mock server rejected '' @ json_repr (JObj request) @ '': '' @ json_str e)), w1)
                | None \<Rightarrow> (Inr reply, w1))
           | _ \<Rightarrow> (Inr reply, w1)))"

definition cmd :: "string \<Rightarrow> (string \<times> json) list \<Rightarrow> (string \<times> json) list" where
  "cmd name args = (''cmd'', JStr name) # args"

definition truthy_json :: "json \<Rightarrow> bool" where
  "truthy_json j =
     (case j of JNull \<Rightarrow> False | JBool b \<Rightarrow> b | JNum n \<Rightarrow> n \<noteq> 0 | JStr s \<Rightarrow> s \<noteq> [] | JList js \<Rightarrow> js \<noteq> [] | JObj d \<Rightarrow> d \<noteq> [])"

definition item :: "string \<Rightarrow> json \<Rightarrow> exn + json" where
  \<comment> \<open>\<^verbatim>\<open>reply[key]\<close>\<close>
  "item key j =
     (case j of
        JObj d \<Rightarrow>
          (case map_of d key of
             Some v \<Rightarrow> Inr v
           | None \<Rightarrow> Inl (plain_exn [''KeyError'', ''LookupError'', ''Exception'', ''BaseException''] (py_repr key)))
      | _ \<Rightarrow> Inl (plain_exn [''TypeError'', ''Exception'', ''BaseException''] key))"

definition ping :: "'w ask \<Rightarrow> mock \<Rightarrow> 'w \<Rightarrow> (exn + bool) \<times> 'w" where
  "ping ask m w =
     (case command ask m (cmd ''ping'' []) w of
        (Inl e, w1) \<Rightarrow> (Inl e, w1)
      | (Inr (JObj d), w1) \<Rightarrow> (Inr (case map_of d ''ok'' of None \<Rightarrow> False | Some v \<Rightarrow> truthy_json v), w1)
      | (Inr _, w1) \<Rightarrow> (Inl (plain_exn [''AttributeError'', ''Exception'', ''BaseException''] ''get''), w1))"

definition forget :: "(exn + 'a) \<times> 'w \<Rightarrow> (exn + unit) \<times> 'w" where
  "forget r = (map_sum id (\<lambda>_. ()) (fst r), snd r)"

definition reset :: "'w ask \<Rightarrow> mock \<Rightarrow> 'w \<Rightarrow> (exn + unit) \<times> 'w" where
  "reset ask m w = forget (command ask m (cmd ''reset'' []) w)"

definition faults_disabled :: "(string \<Rightarrow> string option) \<Rightarrow> bool" where
  "faults_disabled environ \<longleftrightarrow>
     (case environ ''TESTGEAR_DISABLE_FAULTS'' of None \<Rightarrow> False | Some v \<Rightarrow> v \<notin> {[], ''0'', ''false''})"

definition set_faults ::
  "'w ask \<Rightarrow> (string \<Rightarrow> string option) \<Rightarrow> mock \<Rightarrow> (string \<times> json) list \<Rightarrow> 'w \<Rightarrow> (exn + json) \<times> 'w" where
  "set_faults ask environ m config w =
     (if faults_disabled environ then command ask m (cmd ''faults'' [(''config'', JObj [])]) w
      else command ask m (cmd ''faults'' [(''config'', JObj config)]) w)"

definition get_list :: "string \<Rightarrow> (exn + json) \<times> 'w \<Rightarrow> (exn + json) \<times> 'w" where
  "get_list key r = (case fst r of Inl e \<Rightarrow> (Inl e, snd r) | Inr j \<Rightarrow> (item key j, snd r))"

definition observed :: "'w ask \<Rightarrow> mock \<Rightarrow> 'w \<Rightarrow> (exn + json) \<times> 'w" where
  "observed ask m w = get_list ''events'' (command ask m (cmd ''observed'' []) w)"

definition clear_observed :: "'w ask \<Rightarrow> mock \<Rightarrow> 'w \<Rightarrow> (exn + unit) \<times> 'w" where
  "clear_observed ask m w = forget (command ask m (cmd ''clear_observed'' []) w)"

definition respond :: "'w ask \<Rightarrow> mock \<Rightarrow> string \<Rightarrow> string option \<Rightarrow> int \<Rightarrow> 'w \<Rightarrow> (exn + unit) \<times> 'w" where
  "respond ask m query response pad w =
     forget (command ask m (cmd ''respond'' [(''pad'', JNum pad), (''query'', JStr query), (''response'', json_opt JStr response)]) w)"

definition big_reply :: "'w ask \<Rightarrow> mock \<Rightarrow> int \<Rightarrow> int \<Rightarrow> 'w \<Rightarrow> (exn + unit) \<times> 'w" where
  "big_reply ask m nbytes pad w = forget (command ask m (cmd ''big_reply'' [(''pad'', JNum pad), (''bytes'', JNum nbytes)]) w)"

definition set_stb :: "'w ask \<Rightarrow> mock \<Rightarrow> int \<Rightarrow> int \<Rightarrow> 'w \<Rightarrow> (exn + unit) \<times> 'w" where
  "set_stb ask m bits pad w = forget (command ask m (cmd ''set_stb'' [(''pad'', JNum pad), (''bits'', JNum bits)]) w)"

definition hislip_messages :: "'w ask \<Rightarrow> mock \<Rightarrow> 'w \<Rightarrow> (exn + json) \<times> 'w" where
  "hislip_messages ask m w = get_list ''messages'' (command ask m (cmd ''hislip_messages'' []) w)"

definition set_hislip_faults ::
  "'w ask \<Rightarrow> (string \<Rightarrow> string option) \<Rightarrow> mock \<Rightarrow> (string \<times> json) list \<Rightarrow> 'w \<Rightarrow> (exn + unit) \<times> 'w" where
  "set_hislip_faults ask environ m config w =
     forget (command ask m (cmd ''hislip_faults'' [(''config'', JObj (if faults_disabled environ then [] else config))]) w)"

definition vxi11_calls :: "'w ask \<Rightarrow> mock \<Rightarrow> 'w \<Rightarrow> (exn + json) \<times> 'w" where
  "vxi11_calls ask m w = get_list ''calls'' (command ask m (cmd ''vxi11_calls'' []) w)"

definition set_vxi11_faults ::
  "'w ask \<Rightarrow> (string \<Rightarrow> string option) \<Rightarrow> mock \<Rightarrow> (string \<times> json) list \<Rightarrow> 'w \<Rightarrow> (exn + unit) \<times> 'w" where
  "set_vxi11_faults ask environ m config w =
     forget (command ask m (cmd ''vxi11_faults'' [(''config'', JObj (if faults_disabled environ then [] else config))]) w)"

section \<open>Faults for the length of a block\<close>

text \<open>The body of the block is an argument; what the cleanup raises is suppressed.\<close>

definition hislip_faults_block ::
  "'w ask \<Rightarrow> (string \<Rightarrow> string option) \<Rightarrow> mock \<Rightarrow> (string \<times> json) list \<Rightarrow> ('w \<Rightarrow> (exn + 'r) \<times> 'w) \<Rightarrow> 'w \<Rightarrow> (exn + 'r) \<times> 'w" where
  "hislip_faults_block ask environ m config body w =
     (case set_hislip_faults ask environ m config w of
        (Inl e, w1) \<Rightarrow> (Inl e, w1)
      | (Inr _, w1) \<Rightarrow> (let (r, w2) = body w1 in (r, snd (set_hislip_faults ask environ m [] w2))))"

definition vxi11_faults_block ::
  "'w ask \<Rightarrow> (string \<Rightarrow> string option) \<Rightarrow> mock \<Rightarrow> (string \<times> json) list \<Rightarrow> ('w \<Rightarrow> (exn + 'r) \<times> 'w) \<Rightarrow> 'w \<Rightarrow> (exn + 'r) \<times> 'w" where
  "vxi11_faults_block ask environ m config body w =
     (case set_vxi11_faults ask environ m config w of
        (Inl e, w1) \<Rightarrow> (Inl e, w1)
      | (Inr _, w1) \<Rightarrow> (let (r, w2) = body w1 in (r, snd (set_vxi11_faults ask environ m [] w2))))"

definition faults_block ::
  "'w ask \<Rightarrow> (string \<Rightarrow> string option) \<Rightarrow> mock \<Rightarrow> (string \<times> json) list \<Rightarrow> ('w \<Rightarrow> (exn + 'r) \<times> 'w) \<Rightarrow> 'w \<Rightarrow> (exn + 'r) \<times> 'w" where
  "faults_block ask environ m config body w =
     (case set_faults ask environ m [] w of
        (Inl e, w1) \<Rightarrow> (Inl e, w1)
      | (Inr before, w1) \<Rightarrow>
          (case set_faults ask environ m config w1 of
             (Inl e, w2) \<Rightarrow> (Inl e, w2)
           | (Inr _, w2) \<Rightarrow>
               (let (r, w3) = body w2
                in (r, case before of JObj d \<Rightarrow> snd (set_faults ask environ m d w3) | _ \<Rightarrow> w3))))"

section \<open>Observation\<close>

definition events_of :: "exn + json \<Rightarrow> exn + json list" where
  \<comment> \<open>iterating over what \<^verbatim>\<open>observed\<close> gave\<close>
  "events_of r =
     (case r of
        Inl e \<Rightarrow> Inl e
      | Inr (JList es) \<Rightarrow> Inr es
      | Inr _ \<Rightarrow> Inl (plain_exn [''TypeError'', ''Exception'', ''BaseException''] ''events''))"

fun writes_of :: "int option \<Rightarrow> json list \<Rightarrow> exn + json list" where
  "writes_of pad [] = Inr []"
| "writes_of pad (e # es) =
     (case item ''op'' e of
        Inl x \<Rightarrow> Inl x
      | Inr op \<Rightarrow>
          (case (if op \<noteq> JStr ''write'' then Inr False
                 else case pad of None \<Rightarrow> Inr True | Some p \<Rightarrow> map_sum id (\<lambda>v. v = JNum p) (item ''pad'' e)) of
             Inl x \<Rightarrow> Inl x
           | Inr take_it \<Rightarrow>
               if \<not> take_it then writes_of pad es
               else case item ''data'' e of
                      Inl x \<Rightarrow> Inl x
                    | Inr v \<Rightarrow> map_sum id ((#) v) (writes_of pad es)))"

definition writes :: "'w ask \<Rightarrow> mock \<Rightarrow> int option \<Rightarrow> 'w \<Rightarrow> (exn + json list) \<times> 'w" where
  "writes ask m pad w =
     (case observed ask m w of
        (r, w1) \<Rightarrow> (case events_of r of Inl e \<Rightarrow> (Inl e, w1) | Inr es \<Rightarrow> (writes_of pad es, w1)))"

fun count_of :: "string \<Rightarrow> int option \<Rightarrow> json list \<Rightarrow> exn + nat" where
  "count_of op pad [] = Inr 0"
| "count_of op pad (e # es) =
     (case item ''op'' e of
        Inl x \<Rightarrow> Inl x
      | Inr v \<Rightarrow>
          (case count_of op pad es of
             Inl x \<Rightarrow> Inl x
           | Inr n \<Rightarrow>
               Inr (if v = JStr op \<and> (pad = None \<or> item ''pad'' e = Inr (JNum (the pad))) then Suc n else n)))"

definition count :: "'w ask \<Rightarrow> mock \<Rightarrow> string \<Rightarrow> int option \<Rightarrow> 'w \<Rightarrow> (exn + nat) \<times> 'w" where
  "count ask m op pad w =
     (case observed ask m w of
        (r, w1) \<Rightarrow> (case events_of r of Inl e \<Rightarrow> (Inl e, w1) | Inr es \<Rightarrow> (count_of op pad es, w1)))"

text \<open>Polling: \<open>readings\<close> are the clock readings, one per turn of the loop; \<open>None\<close> if they run out. The log the
  predicate is given is the value the channel served.\<close>

fun wait_loop :: "'w ask \<Rightarrow> mock \<Rightarrow> (json \<Rightarrow> bool) \<Rightarrow> rat \<Rightarrow> rat list \<Rightarrow> 'w \<Rightarrow> ((exn + bool) \<times> 'w) option" where
  "wait_loop ask m predicate deadline [] w = None"
| "wait_loop ask m predicate deadline (now # readings) w =
     (if \<not> now < deadline then Some (Inr False, w)
      else case observed ask m w of
             (Inl e, w1) \<Rightarrow> Some (Inl e, w1)
           | (Inr events, w1) \<Rightarrow>
               if predicate events then Some (Inr True, w1) else wait_loop ask m predicate deadline readings w1)"

definition wait_for :: "'w ask \<Rightarrow> mock \<Rightarrow> (json \<Rightarrow> bool) \<Rightarrow> rat \<Rightarrow> rat \<Rightarrow> rat list \<Rightarrow> 'w \<Rightarrow> ((exn + bool) \<times> 'w) option" where
  "wait_for ask m predicate timeout started readings w = wait_loop ask m predicate (started + timeout) readings w"

section \<open>The interface of the knobs\<close>

text \<open>
  What the fault block relies on. \<open>snap\<close> is what the server answers when asked to change nothing; given back in any
  state, it puts the knobs to what they were.
\<close>

locale knob_channel =
  fixes ask :: "'w ask" and ok :: "'w \<Rightarrow> bool" and knobs :: "'w \<Rightarrow> 'k" and snap :: "'k \<Rightarrow> (string \<times> json) list"
  assumes asked: "ok w \<Longrightarrow> \<exists>w1. ask (JObj (cmd ''faults'' [(''config'', JObj [])])) w = (Inr (Line (JObj (snap (knobs w)))), w1) \<and>
      ok w1 \<and> knobs w1 = knobs w"
    and restored: "ok w0 \<Longrightarrow> ok w \<Longrightarrow>
      \<exists>w1. ask (JObj (cmd ''faults'' [(''config'', JObj (snap (knobs w0)))])) w = (Inr (Line (JObj (snap (knobs w0)))), w1) \<and>
        ok w1 \<and> knobs w1 = knobs w0"
    and kept: "ok w \<Longrightarrow> ask j w = (r, w1) \<Longrightarrow> ok w1"
    and answers: "ok w \<Longrightarrow> \<exists>j w1. ask req w = (Inr (Line j), w1)"
    and refused: "ok w \<Longrightarrow> ask req w = (Inr (Line (JObj d)), w1) \<Longrightarrow> map_of d ''error'' = Some e \<Longrightarrow> knobs w1 = knobs w"
    and no_error: "map_of (snap k) ''error'' = None"
begin

lemma asked_command:
  assumes "ok w" "mo_control m \<noteq> None"
  shows "\<exists>w1. command ask m (cmd ''faults'' [(''config'', JObj [])]) w = (Inr (JObj (snap (knobs w))), w1) \<and> ok w1 \<and> knobs w1 = knobs w"
  using asked[OF assms(1)] assms(2) no_error by (auto simp: command_def)

lemma restored_command:
  assumes "ok w0" "ok w" "mo_control m \<noteq> None"
  shows "\<exists>w1. command ask m (cmd ''faults'' [(''config'', JObj (snap (knobs w0)))]) w = (Inr (JObj (snap (knobs w0))), w1) \<and>
    ok w1 \<and> knobs w1 = knobs w0"
  using restored[OF assms(1,2)] assms(3) no_error by (auto simp: command_def)

lemma command_kept: "ok w \<Longrightarrow> command ask m req w = (r, w1) \<Longrightarrow> ok w1"
  using kept by (auto simp: command_def split: if_splits sum.splits prod.splits line.splits json.splits option.splits)

lemma command_refused:
  assumes "ok w" "command ask m req w = (Inl e, w1)"
  shows "knobs w1 = knobs w"
proof -
  obtain j w2 where a: "ask (JObj req) w = (Inr (Line j), w2)" using answers[OF assms(1)] by blast
  then show ?thesis using assms(2) refused[OF assms(1), of "JObj req"]
    by (auto simp: command_def split: if_splits json.splits option.splits)
qed

text \<open>Whatever the block does, and however it ends, the knobs are afterwards what they were before it.\<close>

lemma block_restores:
  assumes "ok w" and "mo_control m \<noteq> None" and "\<not> faults_disabled environ"
    and body: "\<And>v. ok v \<Longrightarrow> ok (snd (body v))"
  shows "knobs (snd (faults_block ask environ m config body w)) = knobs w"
proof -
  obtain w1 where w1: "set_faults ask environ m [] w = (Inr (JObj (snap (knobs w))), w1)" "ok w1" "knobs w1 = knobs w"
    using asked_command[OF assms(1,2)] assms(3) by (auto simp: set_faults_def)
  obtain x w2 where w2: "set_faults ask environ m config w1 = (x, w2)" by fastforce
  have ok2: "ok w2" using command_kept[OF w1(2)] w2 assms(3) by (simp add: set_faults_def)
  show ?thesis
  proof (cases x)
    case (Inl e)
    then have "knobs w2 = knobs w1" using command_refused[OF w1(2)] w2 assms(3) by (simp add: set_faults_def)
    with Inl w1 w2 show ?thesis by (simp add: faults_block_def)
  next
    case (Inr j)
    obtain r w3 where w3: "body w2 = (r, w3)" by fastforce
    have "ok w3" using body[OF ok2] w3 by simp
    then have "knobs (snd (set_faults ask environ m (snap (knobs w)) w3)) = knobs w"
      using restored_command[OF assms(1) _ assms(2), of w3] assms(3) by (auto simp: set_faults_def)
    with Inr w1 w2 w3 show ?thesis by (simp add: faults_block_def)
  qed
qed

end

text \<open>The server is such a channel.\<close>

definition served :: "(json \<Rightarrow> string) \<Rightarrow> control ask" where
  "served decode_error line c = (let (r, c1) = serve decode_error line c in (Inr (Line r), c1))"

definition snap_fields :: "faults \<Rightarrow> (string \<times> json) list" where
  "snap_fields f = (case json_of_config (faults_snapshot f) of JObj d \<Rightarrow> d | _ \<Rightarrow> [])"

lemma json_of_snapshot: "json_of_config (faults_snapshot f) = JObj (snap_fields f)"
  by (simp add: snap_fields_def json_of_config_def)

lemma config_of_empty: "config_of_json (JObj []) = Some \<lparr>fc_read_delay_ms = None, fc_write_delay_ms = None,
    fc_fail_next_write = None, fc_forced_stb = None, fc_drop_after_bytes = None, fc_stall_after_bytes = None,
    fc_dribble = None, fc_latency_ms = None\<rparr>"
  by (simp add: config_of_json_def only_fields_def opt_field_def null_field_def)

lemma apply_empty: "config_of_json (JObj []) = Some c \<Longrightarrow> faults_apply c f = f"
  by (auto simp: config_of_empty faults_apply_def store_def)

lemma served_faults:
  "config_of_json j = Some c \<Longrightarrow>
     served err (JObj (cmd ''faults'' [(''config'', j)])) s =
       (Inr (Line (JObj (snap_fields (faults_apply c (co_faults s))))), s\<lparr>co_faults := faults_apply c (co_faults s)\<rparr>)"
  by (simp add: served_def serve_def cmd_def request_of_json_def request_of_def handle_def Let_def json_of_response_def
      json_of_snapshot)

lemma handle_faults_inv: "faults_inv (co_faults c) \<Longrightarrow> faults_inv (co_faults (snd (handle r c)))"
  by (auto simp: handle_def with_device_def Let_def faults_inv_apply split: request.split option.split)

lemma handle_error: "handle r c = (ErrorRsp e, c1) \<Longrightarrow> c1 = c"
  by (auto simp: handle_def with_device_def Let_def split: request.splits option.splits)

lemma response_error:
  "json_of_response r = JObj d \<Longrightarrow> map_of d ''error'' = Some e \<Longrightarrow> \<exists>x. r = ErrorRsp x"
  by (cases r) (auto simp: json_of_response_def json_of_ports_def json_of_config_def)

interpretation mock_knobs: knob_channel "served err" "\<lambda>c. faults_inv (co_faults c)" co_faults snap_fields for err
proof unfold_locales
  fix w :: control assume ok: "faults_inv (co_faults w)"
  obtain c0 where c0: "config_of_json (JObj []) = Some c0" using config_of_empty by blast
  show "\<exists>w1. served err (JObj (cmd ''faults'' [(''config'', JObj [])])) w =
      (Inr (Line (JObj (snap_fields (co_faults w)))), w1) \<and> faults_inv (co_faults w1) \<and> co_faults w1 = co_faults w"
    using ok by (simp add: served_faults[OF c0] apply_empty[OF c0])
next
  fix w0 w :: control assume ok: "faults_inv (co_faults w0)" "faults_inv (co_faults w)"
  have "config_of_json (JObj (snap_fields (co_faults w0))) = Some (faults_snapshot (co_faults w0))"
    using config_of_snapshot[of "co_faults w0"] by (simp add: json_of_snapshot)
  from served_faults[OF this] show "\<exists>w1. served err (JObj (cmd ''faults'' [(''config'', JObj (snap_fields (co_faults w0)))])) w =
      (Inr (Line (JObj (snap_fields (co_faults w0)))), w1) \<and> faults_inv (co_faults w1) \<and> co_faults w1 = co_faults w0"
    using ok by (simp add: apply_snapshot)
next
  fix w w1 :: control and j r assume "faults_inv (co_faults w)" "served err j w = (r, w1)"
  then show "faults_inv (co_faults w1)" using handle_faults_inv[of w]
    by (auto simp: served_def serve_def split: option.splits prod.splits) (metis id_apply snd_conv snd_map_prod)
next
  fix w :: control and req
  show "\<exists>j w1. served err req w = (Inr (Line j), w1)" by (auto simp: served_def split: prod.split)
next
  fix w w1 :: control and req d e
  assume "served err req w = (Inr (Line (JObj d)), w1)" and e: "map_of d ''error'' = Some e"
  then show "co_faults w1 = co_faults w"
    using response_error[OF _ e] handle_error
    by (auto simp: served_def serve_def map_prod_def split: option.splits prod.splits) blast
next
  fix k show "map_of (snap_fields k) ''error'' = None" by (simp add: snap_fields_def json_of_config_def)
qed

section \<open>Properties\<close>

text \<open>C19: a fault armed for a block does not outlive it. Whatever faults are asked for and whatever the block
  does, raising or arming others included, every knob of the mock server is afterwards what it was before the
  block; a request the server rejects arms nothing.\<close>

theorem faults_block_restores:
  assumes "faults_inv (co_faults c)" and "mo_control m \<noteq> None" and "\<not> faults_disabled environ"
    and "\<And>c. faults_inv (co_faults c) \<Longrightarrow> faults_inv (co_faults (snd (body c)))"
  shows "co_faults (snd (faults_block (served err) environ m config body c)) = co_faults c"
  by (rule mock_knobs.block_restores[OF assms])

definition example_control :: control where
  \<comment> \<open>a server as it starts, with one instrument less\<close>
  "example_control = \<lparr>co_ports = \<lparr>pi_vxi11_port = 1, pi_hislip_port = 2, pi_control_port = 3, pi_vxi11_resource = [],
     pi_hislip_resource = []\<rparr>, co_faults = faults_new, co_observed = [],
     co_bus = \<lparr>bu_devices = [], bu_srq_line = False, bu_srq_sent = 0\<rparr>,
     co_vxi11 = \<lparr>vt_calls = [], vt_faults = vxi11_faults0, vt_seen = []\<rparr>,
     co_hislip = \<lparr>ht_faults = hislip_faults0, ht_seen = [], ht_pending = (0, 0)\<rparr>\<rparr>"

definition example_mock :: mock where
  "example_mock = \<lparr>mo_host = ''127.0.0.1'', mo_modes = None, mo_pads = [0], mo_proxy = True, mo_portmap = False,
     mo_log_level = None, mo_process = Some 1, mo_control = Some 2, mo_control_file = Some 3, mo_ports = []\<rparr>"

theorem faults_block_restores_witness:
  "co_faults (snd (faults_block (served (\<lambda>_. [])) (\<lambda>_. None) example_mock [(''dribble'', JTrue)]
     (\<lambda>c. (Inl (RuntimeErrorExn ''x'') :: exn + unit, c)) example_control)) = faults_new"
  using faults_block_restores[of example_control example_mock "\<lambda>_. None" "\<lambda>c. (Inl (RuntimeErrorExn ''x'') :: exn + unit, c)" "\<lambda>_. []"]
  by (simp add: example_control_def example_mock_def faults_disabled_def)

text \<open>With the faults disabled nothing can be armed: setting faults is then a request that changes nothing on
  the server, whatever is asked for.\<close>

theorem disabled_faults_arm_nothing:
  assumes "faults_disabled environ" and "mo_control m \<noteq> None"
  shows "co_faults (snd (set_faults (served err) environ m config c)) = co_faults c \<and>
    vt_faults (co_vxi11 (snd (set_vxi11_faults (served err) environ m config c))) = vxi11_faults0 \<and>
    ht_faults (co_hislip (snd (set_hislip_faults (served err) environ m config c))) = hislip_faults0"
proof (intro conjI)
  obtain c0 where c0: "config_of_json (JObj []) = Some c0" using config_of_empty by blast
  show "co_faults (snd (set_faults (served err) environ m config c)) = co_faults c"
    using assms by (simp add: set_faults_def command_def served_faults[OF c0] apply_empty[OF c0] split: option.split)
  show "vt_faults (co_vxi11 (snd (set_vxi11_faults (served err) environ m config c))) = vxi11_faults0"
    using assms by (auto simp add: set_vxi11_faults_def forget_def command_def served_def serve_def cmd_def request_of_json_def
        request_of_def handle_def json_of_response_def vxi11_faults_of_json_def only_fields_def opt_field_def vxi11_faults0_def)
  show "ht_faults (co_hislip (snd (set_hislip_faults (served err) environ m config c))) = hislip_faults0"
    using assms by (auto simp add: set_hislip_faults_def forget_def command_def served_def serve_def cmd_def request_of_json_def
        request_of_def handle_def json_of_response_def hislip_faults_of_json_def only_fields_def opt_field_def hislip_faults0_def)
qed

theorem disabled_faults_arm_nothing_witness:
  "co_faults (snd (set_faults (served (\<lambda>_. [])) (\<lambda>_. Some ''1'') example_mock [(''dribble'', JTrue)] example_control)) = faults_new"
  using disabled_faults_arm_nothing[of "\<lambda>_. Some ''1''" example_mock "\<lambda>_. []" "[(''dribble'', JTrue)]" example_control]
  by (simp add: example_control_def example_mock_def faults_disabled_def)

text \<open>What is relied on of the operating system: nothing but starting a child adds one, a wait that says the child ended
  is right, and a killed child ends within the time waited for.\<close>

definition os_ok :: "'w os \<Rightarrow> ('w \<Rightarrow> nat set) \<Rightarrow> bool" where
  "os_ok os alive \<longleftrightarrow>
     (\<forall>argv lg w. case os_popen os argv lg w of (Inl e, w1) \<Rightarrow> alive w1 \<subseteq> alive w | (Inr pid, w1) \<Rightarrow> alive w1 \<subseteq> insert pid (alive w)) \<and>
     (\<forall>p w. alive (snd (os_readline os p w)) \<subseteq> alive w \<and> alive (snd (os_stderr os p w)) \<subseteq> alive w \<and>
        alive (snd (os_makefile os p w)) \<subseteq> alive w \<and> alive (os_close os p w) \<subseteq> alive w \<and>
        alive (os_terminate os p w) \<subseteq> alive w \<and> alive (os_kill os p w) \<subseteq> alive w) \<and>
     (\<forall>h p w. alive (snd (os_connect os h p w)) \<subseteq> alive w) \<and>
     (\<forall>p w. case os_wait os p w of (ended, w1) \<Rightarrow> alive w1 \<subseteq> alive w \<and> (ended \<longrightarrow> p \<notin> alive w1)) \<and>
     (\<forall>p w. fst (os_wait os p (os_kill os p w)))"

lemma os_okD:
  assumes "os_ok os alive"
  shows "os_popen os argv lg w = (Inl e, w1) \<Longrightarrow> alive w1 \<subseteq> alive w"
    and "os_popen os argv lg w = (Inr pid, w1) \<Longrightarrow> alive w1 \<subseteq> insert pid (alive w)"
    and "os_readline os p w = (l, w1) \<Longrightarrow> alive w1 \<subseteq> alive w"
    and "os_stderr os p w = (s, w1) \<Longrightarrow> alive w1 \<subseteq> alive w"
    and "os_makefile os p w = (n, w1) \<Longrightarrow> alive w1 \<subseteq> alive w"
    and "os_connect os h q w = (r, w1) \<Longrightarrow> alive w1 \<subseteq> alive w"
    and "os_wait os p w = (ended, w1) \<Longrightarrow> alive w1 \<subseteq> alive w"
    and "os_wait os p w = (True, w1) \<Longrightarrow> p \<notin> alive w1"
    and "alive (os_close os p w) \<subseteq> alive w" and "alive (os_terminate os p w) \<subseteq> alive w"
    and "alive (os_kill os p w) \<subseteq> alive w" and "fst (os_wait os p (os_kill os p w))"
proof -
  note os = assms[unfolded os_ok_def]
  show "os_popen os argv lg w = (Inl e, w1) \<Longrightarrow> alive w1 \<subseteq> alive w"
    and "os_popen os argv lg w = (Inr pid, w1) \<Longrightarrow> alive w1 \<subseteq> insert pid (alive w)"
    using os[THEN conjunct1, rule_format, where argv = argv and lg = lg and w = w] by simp_all
  show "os_readline os p w = (l, w1) \<Longrightarrow> alive w1 \<subseteq> alive w"
    and "os_stderr os p w = (s, w1) \<Longrightarrow> alive w1 \<subseteq> alive w"
    and "os_makefile os p w = (n, w1) \<Longrightarrow> alive w1 \<subseteq> alive w"
    and "alive (os_close os p w) \<subseteq> alive w" and "alive (os_terminate os p w) \<subseteq> alive w"
    and "alive (os_kill os p w) \<subseteq> alive w"
    using os[THEN conjunct2, THEN conjunct1, rule_format, where p = p and w = w] by simp_all
  show "os_connect os h q w = (r, w1) \<Longrightarrow> alive w1 \<subseteq> alive w"
    using os[THEN conjunct2, THEN conjunct2, THEN conjunct1, rule_format, where h = h and p = q and w = w] by simp
  show "os_wait os p w = (ended, w1) \<Longrightarrow> alive w1 \<subseteq> alive w"
    and "os_wait os p w = (True, w1) \<Longrightarrow> p \<notin> alive w1"
    using os[THEN conjunct2, THEN conjunct2, THEN conjunct2, THEN conjunct1, rule_format, where p = p and w = w] by simp_all
  show "fst (os_wait os p (os_kill os p w))" using os by blast
qed

lemma start_alive:
  assumes os: "os_ok os alive" and r: "start os env m w = (r, m1, w1)" and "mo_process m = None"
  shows "alive w1 \<subseteq> alive w \<union> set_option (mo_process m1)"
proof (cases "fst (binary_path env True)")
  case (Inl e)
  with r show ?thesis by (simp add: start_def)
next
  case (Inr binary)
  obtain x w2 where p: "os_popen os (server_argv binary m) (if nonempty (mo_log_level m) then mo_log_level m else None) w = (x, w2)"
    by fastforce
  show ?thesis
  proof (cases x)
    case (Inl e)
    with p have "alive w2 \<subseteq> alive w" using os_okD(1)[OF os] by blast
    with r p Inr Inl show ?thesis by (auto simp: start_def)
  next
    case pid: (Inr pid)
    have w2: "alive w2 \<subseteq> insert pid (alive w)" using os_okD(2)[OF os] p pid by blast
    obtain l w3 where l: "os_readline os pid w2 = (l, w3)" by fastforce
    have w3: "alive w3 \<subseteq> insert pid (alive w)" using os_okD(3)[OF os l] w2 by blast
    have "mo_process m1 = Some pid \<and> alive w1 \<subseteq> alive w3"
    proof (cases "l = Eof")
      case True
      obtain err w4 where e: "os_stderr os pid w3 = (err, w4)" by fastforce
      from os_okD(4)[OF os e] r p pid Inr l True e show ?thesis by (auto simp: start_def Let_def)
    next
      case line: False
      show ?thesis
      proof (cases "ports_of l")
        case (Inl e)
        with r p pid \<open>fst (binary_path env True) = Inr binary\<close> l line show ?thesis
          by (auto simp: start_def Let_def split: line.split json.split)
      next
        case d: (Inr d)
        obtain y w4 where c: "os_connect os (mo_host m) (control_port d) w3 = (y, w4)" by fastforce
        have w4: "alive w4 \<subseteq> alive w3" by (rule os_okD(6)[OF os c])
        show ?thesis
        proof (cases y)
          case (Inl e)
          with w4 r p pid \<open>fst (binary_path env True) = Inr binary\<close> l line d c show ?thesis
            by (auto simp: start_def Let_def)
        next
          case sock: (Inr sock)
          obtain f w5 where f: "os_makefile os sock w4 = (f, w5)" by fastforce
          with os_okD(5)[OF os f] w4 r p pid \<open>fst (binary_path env True) = Inr binary\<close> l line d c sock show ?thesis
            by (auto simp: start_def Let_def)
        qed
      qed
    qed
    with w3 show ?thesis by auto
  qed
qed

lemma close_opt_alive: "os_ok os alive \<Longrightarrow> alive (close_opt os fd w) \<subseteq> alive w"
  by (simp add: close_opt_def os_okD(9) split: option.split)

lemma stop_alive:
  assumes os: "os_ok os alive" and r: "stop os m w = (r, m1, w1)"
  shows "r = None \<and> alive w1 \<subseteq> alive w - set_option (mo_process m)"
proof -
  let ?w2 = "close_opt os (mo_control m) (close_opt os (mo_control_file m) w)"
  have w2: "alive ?w2 \<subseteq> alive w" using close_opt_alive[OF os] by blast
  show ?thesis
  proof (cases "mo_process m")
    case None
    with r w2 show ?thesis by (simp add: stop_def Let_def) blast
  next
    case (Some pid)
    obtain ended w4 where w4: "os_wait os pid (os_terminate os pid ?w2) = (ended, w4)" by fastforce
    have a4: "alive w4 \<subseteq> alive w" using os_okD(7)[OF os w4] os_okD(10)[OF os] w2 by blast
    show ?thesis
    proof (cases ended)
      case True
      with r Some w4 a4 os_okD(8)[OF os] show ?thesis by (auto simp: stop_def Let_def)
    next
      case False
      obtain w6 where w6: "os_wait os pid (os_kill os pid w4) = (True, w6)"
        using os_okD(12)[OF os, of pid w4] by (metis prod.collapse)
      have "alive w6 \<subseteq> alive w" using os_okD(7)[OF os w6] os_okD(11)[OF os] a4 by blast
      with r Some w4 w6 False os_okD(8)[OF os w6] show ?thesis by (auto simp: stop_def Let_def)
    qed
  qed
qed

text \<open>C20: no mock server outlives the block that asked for it. If the operating system runs what it is told to, and a
  killed child ends within the time waited for, then once the statement is left, however the start or the body went,
  the children that run are those that ran before it.\<close>

theorem mock_server_leaves_no_child:
  assumes "os_ok os alive" and "\<And>m w. alive (snd (body m w)) \<subseteq> alive w"
  shows "alive (snd (mock_server os env a body w)) \<subseteq> alive w"
proof -
  obtain failed m w1 where s: "start os env (MockServer env a) w = (failed, m, w1)" by (metis prod_cases3)
  have a1: "alive w1 \<subseteq> alive w \<union> set_option (mo_process m)"
    by (rule start_alive[OF assms(1) s]) (simp add: MockServer_def)
  obtain r w2 where b: "(case failed of Some e \<Rightarrow> (Inl e, w1) | None \<Rightarrow> body m w1) = (r, w2)" by fastforce
  have a2: "alive w2 \<subseteq> alive w1" using b assms(2)[of m w1] by (auto split: option.splits)
  obtain x m2 w3 where t: "stop os m w2 = (x, m2, w3)" by (metis prod_cases3)
  have "x = None" "alive w3 \<subseteq> alive w2 - set_option (mo_process m)" using stop_alive[OF assms(1) t] by auto
  with a1 a2 show ?thesis by (auto simp: mock_server_def s b t)
qed

definition example_os :: "nat set os" where
  \<comment> \<open>an operating system whose state is the set of running children\<close>
  "example_os = \<lparr>os_popen = (\<lambda>argv lg w. (Inr 7, insert 7 w)), os_readline = (\<lambda>p w. (Eof, w)), os_stderr = (\<lambda>p w. (''no'', w)),
     os_connect = (\<lambda>h p w. (Inr 8, w)), os_makefile = (\<lambda>s w. (9, w)), os_close = (\<lambda>f w. w), os_terminate = (\<lambda>p w. w),
     os_kill = (\<lambda>p w. w - {p}), os_wait = (\<lambda>p w. (p \<notin> w, w))\<rparr>"

definition example_server_env :: server_env where
  "example_server_env = \<lparr>se_environ = (\<lambda>_. None), se_platform = ''linux'', se_exists = (\<lambda>_. True), se_cargo = False,
     se_build = (0, []), se_can_bind = False, se_crate = ''server''\<rparr>"

theorem mock_server_leaves_no_child_witness:
  "snd (mock_server example_os example_server_env default_mock (\<lambda>m w. (Inr (), w)) {3}) \<subseteq> {3}"
  using mock_server_leaves_no_child[of example_os "\<lambda>w. w" "\<lambda>m w. (Inr (), w)" example_server_env default_mock "{3}"]
  by (auto simp: os_ok_def example_os_def)

text \<open>Polling for an event ends and does not guess. With clock readings that reach the deadline it returns; true only
  if the predicate held of a log the server served, and false only if the clock had reached the deadline.\<close>

theorem wait_for_ends:
  assumes "\<exists>t\<in>set readings. started + timeout \<le> t"
  shows "\<exists>r w1. wait_for ask m predicate timeout started readings w = Some (r, w1) \<and>
    (r = Inr True \<longrightarrow> (\<exists>v events. observed ask m v = (Inr events, w1) \<and> predicate events)) \<and>
    (r = Inr False \<longrightarrow> (\<exists>t\<in>set readings. started + timeout \<le> t))"
  using assms unfolding wait_for_def
proof (induction readings arbitrary: w)
  case (Cons now readings)
  obtain x w1 where o: "observed ask m w = (x, w1)" by fastforce
  show ?case
  proof (cases "now < started + timeout \<and> (\<exists>events. x = Inr events \<and> \<not> predicate events)")
    case True
    then have "\<exists>t\<in>set readings. started + timeout \<le> t" using Cons.prems by auto
    from Cons.IH[OF this, of w1] True o show ?thesis by (auto 4 4)
  next
    case False
    with o show ?thesis by (cases x) auto
  qed
qed simp

theorem wait_for_ends_witness:
  "\<exists>r w1. wait_for (\<lambda>j (w::nat). (Inr Eof, w)) example_mock (\<lambda>_. True) 5 0 [1, 6] 0 = Some (r, w1)"
  using wait_for_ends[of "[1, 6]" 0 5 "\<lambda>j (w::nat). (Inr Eof, w)" example_mock "\<lambda>_. True" 0] by auto

end
