(* ===== verification/Probe.thy ===== *)
theory Probe
  imports Server Visa
begin

unbundle bit_operations_syntax

text \<open>
  What the scripts under \<^verbatim>\<open>checks/\<close> have in common. The body of a check is a program over a world of any type: an action
  takes the world to a value or an exception and the next world. The VISA library, the resource manager and the
  clock are the parameter \<open>'w client\<close>, which extends the instrument of \<open>Visa\<close> by the calls the checks make; the mock
  server is reached through the functions of \<open>Server\<close>. The numbers and names of pyvisa's constants are parameters too.
\<close>

named_theorems acts \<comment> \<open>unfolding facts for actions\<close>

type_synonym ('w, 'a) act = "'w \<Rightarrow> (exn + 'a) \<times> 'w"

section \<open>Control flow\<close>

definition ret :: "'a \<Rightarrow> ('w, 'a) act" where
  "ret x w = (Inr x, w)"

definition throw :: "exn \<Rightarrow> ('w, 'a) act" where
  "throw e w = (Inl e, w)"

definition andthen :: "('w, 'a) act \<Rightarrow> ('a \<Rightarrow> ('w, 'b) act) \<Rightarrow> ('w, 'b) act" where
  "andthen m f w = (case m w of (Inl e, w1) \<Rightarrow> (Inl e, w1) | (Inr x, w1) \<Rightarrow> f x w1)"

definition lift :: "exn + 'a \<Rightarrow> ('w, 'a) act" where
  \<comment> \<open>a computation that does not touch the world\<close>
  "lift r w = (r, w)"

definition effect :: "('w \<Rightarrow> exn option \<times> 'w) \<Rightarrow> ('w, unit) act" where
  "effect f w = (case f w of (Some e, w1) \<Rightarrow> (Inl e, w1) | (None, w1) \<Rightarrow> (Inr (), w1))"

definition change :: "('w \<Rightarrow> 'w) \<Rightarrow> ('w, unit) act" where
  "change f w = (Inr (), f w)"

definition AssertionError :: "string \<Rightarrow> exn" where
  "AssertionError msg = plain_exn [''AssertionError'', ''Exception'', ''BaseException''] msg"

definition assert_that :: "bool \<Rightarrow> string \<Rightarrow> ('w, unit) act" where
  "assert_that b msg = (if b then ret () else throw (AssertionError msg))"

definition catch :: "string \<Rightarrow> ('w, 'a) act \<Rightarrow> (exn \<Rightarrow> ('w, 'a) act) \<Rightarrow> ('w, 'a) act" where
  \<comment> \<open>\<^verbatim>\<open>try: m  except cls as e: h e\<close>\<close>
  "catch cls m h w =
     (case m w of (Inl e, w1) \<Rightarrow> if isinstance e cls then h e w1 else (Inl e, w1) | (Inr x, w1) \<Rightarrow> (Inr x, w1))"

definition at_exit :: "('w, 'a) act \<Rightarrow> ('w, unit) act \<Rightarrow> ('w, 'a) act" where
  \<comment> \<open>\<^verbatim>\<open>try: m  finally: f\<close>; an exception of \<open>f\<close> replaces what \<open>m\<close> did\<close>
  "at_exit m f w =
     (case m w of (r, w1) \<Rightarrow> (case f w1 of (Inl e, w2) \<Rightarrow> (Inl e, w2) | (Inr _, w2) \<Rightarrow> (r, w2)))"

definition suppressed :: "('w, unit) act \<Rightarrow> ('w, unit) act" where
  \<comment> \<open>\<^verbatim>\<open>with contextlib.suppress(Exception)\<close>\<close>
  "suppressed m = catch ''Exception'' m (\<lambda>_. ret ())"

fun for_each :: "'x list \<Rightarrow> ('x \<Rightarrow> ('w, 'a) act) \<Rightarrow> ('w, 'a list) act" where
  \<comment> \<open>a loop that gathers what its turns gave\<close>
  "for_each [] f = ret []"
| "for_each (x # xs) f = andthen (f x) (\<lambda>y. andthen (for_each xs f) (\<lambda>ys. ret (y # ys)))"

definition for_concat :: "'x list \<Rightarrow> ('x \<Rightarrow> ('w, 'a list) act) \<Rightarrow> ('w, 'a list) act" where
  "for_concat xs f = andthen (for_each xs f) (\<lambda>yss. ret (concat yss))"

section \<open>The library\<close>

text \<open>What an attribute can hold.\<close>

datatype attr_value = AInt int | ABool bool | AStr string | ABytes string | ANone

definition truthy_value :: "attr_value \<Rightarrow> bool" where
  "truthy_value v = (case v of AInt i \<Rightarrow> i \<noteq> 0 | ABool b \<Rightarrow> b | AStr s \<Rightarrow> s \<noteq> [] | ABytes s \<Rightarrow> s \<noteq> [] | ANone \<Rightarrow> False)"

record 'w client = "'w instr" +
  cl_open :: "string \<Rightarrow> 'w \<Rightarrow> exn option \<times> 'w"                         \<comment> \<open>\<^verbatim>\<open>rm.open_resource\<close>\<close>
  cl_resource_info :: "string \<Rightarrow> 'w \<Rightarrow> (exn + string option) \<times> 'w"     \<comment> \<open>the repr of its interface type\<close>
  cl_has :: "string \<Rightarrow> bool"                                        \<comment> \<open>\<^verbatim>\<open>hasattr(lib, name)\<close>\<close>
  cl_get_attribute :: "string \<Rightarrow> 'w \<Rightarrow> attr_value call_end \<times> 'w"
  cl_set_attribute :: "string \<Rightarrow> attr_value \<Rightarrow> 'w \<Rightarrow> unit call_end \<times> 'w"
  cl_set_visa_attribute :: "string \<Rightarrow> attr_value \<Rightarrow> 'w \<Rightarrow> exn option \<times> 'w"
  cl_write :: "string \<Rightarrow> 'w \<Rightarrow> exn option \<times> 'w"                        \<comment> \<open>\<^verbatim>\<open>lib.write\<close>\<close>
  cl_read :: "int \<Rightarrow> 'w \<Rightarrow> string call_end \<times> 'w"
  cl_op :: "string \<Rightarrow> string \<Rightarrow> 'w \<Rightarrow> unit call_end \<times> 'w"              \<comment> \<open>any other operation, with its constant argument\<close>
  cl_chunk_size :: "'w \<Rightarrow> int"
  cl_read_stb :: "'w \<Rightarrow> (exn + int) \<times> 'w"                                  \<comment> \<open>\<^verbatim>\<open>inst.read_stb()\<close>\<close>
  cl_inst_read :: "'w \<Rightarrow> (exn + string) \<times> 'w"                                 \<comment> \<open>\<^verbatim>\<open>inst.read()\<close>\<close>
  cl_read_bytes :: "int \<Rightarrow> 'w \<Rightarrow> (exn + string) \<times> 'w"
  cl_lock :: "string \<Rightarrow> int \<Rightarrow> string option \<Rightarrow> 'w \<Rightarrow> attr_value call_end \<times> 'w"   \<comment> \<open>\<^verbatim>\<open>lib.lock\<close>: kind, timeout, requested key\<close>
  cl_lock_excl :: "int \<Rightarrow> 'w \<Rightarrow> exn option \<times> 'w"
  cl_unlock :: "'w \<Rightarrow> exn option \<times> 'w"                                   \<comment> \<open>\<^verbatim>\<open>inst.unlock()\<close>\<close>
  cl_event :: "string \<Rightarrow> string \<Rightarrow> 'w \<Rightarrow> exn option \<times> 'w"                  \<comment> \<open>\<^verbatim>\<open>inst.enable_event\<close> and its kind, with the mechanism\<close>

text \<open>\<^verbatim>\<open>CTX\<close>, and what the checks use of pyvisa's constants.\<close>

record 'w ctx =
  cx_client :: "'w client"
  cx_env :: visa_env
  cx_code :: "string \<Rightarrow> int"                 \<comment> \<open>the members of \<^verbatim>\<open>StatusCode\<close>; of other enums by qualified name\<close>
  cx_repr_code :: "int \<Rightarrow> string"
  cx_repr_value :: "attr_value \<Rightarrow> string"
  cx_resource :: string
  cx_protocol :: string
  cx_timeout :: int
  cx_hislip_mode :: "string option"       \<comment> \<open>\<^verbatim>\<open>visa.HISLIP_MODE\<close>\<close>
  cx_server :: "mock option"
  cx_ask :: "'w ask"
  cx_environ :: "string \<Rightarrow> string option"
  cx_note :: "string \<Rightarrow> 'w \<Rightarrow> 'w"            \<comment> \<open>\<^verbatim>\<open>CTX["stats"].note\<close>\<close>
  cx_now :: "'w \<Rightarrow> rat"                      \<comment> \<open>\<^verbatim>\<open>time.time()\<close>\<close>
  cx_sleep :: "rat \<Rightarrow> 'w \<Rightarrow> 'w"

definition code :: "'w ctx \<Rightarrow> string \<Rightarrow> status" where
  "code cx name = StatusCode (if name = ''success'' then ve_success (cx_env cx) else cx_code cx name)"

definition repr_status :: "'w ctx \<Rightarrow> status \<Rightarrow> string" where
  "repr_status cx st =
     (case st of StatusCode c \<Rightarrow> cx_repr_code cx c | NOT_IMPLEMENTED \<Rightarrow> ''NotImplementedError (no VISA status)'')"

text \<open>\<^verbatim>\<open>visa.call\<close> of a library operation in the world.\<close>

definition lib_call :: "string \<Rightarrow> ('w \<Rightarrow> 'v call_end \<times> 'w) \<Rightarrow> ('w, 'v option \<times> status) act" where
  "lib_call name f w = (case f w of (r, w1) \<Rightarrow> (call name r, w1))"

definition lib_status :: "string \<Rightarrow> ('w \<Rightarrow> 'v call_end \<times> 'w) \<Rightarrow> ('w, status) act" where
  "lib_status name f = andthen (lib_call name f) (\<lambda>(_, st). ret st)"

definition get_attribute :: "'w ctx \<Rightarrow> string \<Rightarrow> ('w, attr_value option \<times> status) act" where
  "get_attribute cx a = lib_call ''get_attribute'' (cl_get_attribute (cx_client cx) a)"

definition set_attribute :: "'w ctx \<Rightarrow> string \<Rightarrow> attr_value \<Rightarrow> ('w, unit option \<times> status) act" where
  "set_attribute cx a v = lib_call ''set_attribute'' (cl_set_attribute (cx_client cx) a v)"

definition set_visa_attribute :: "'w ctx \<Rightarrow> string \<Rightarrow> attr_value \<Rightarrow> ('w, unit) act" where
  "set_visa_attribute cx a v = effect (cl_set_visa_attribute (cx_client cx) a v)"

definition inst_query :: "'w ctx \<Rightarrow> string \<Rightarrow> ('w, string) act" where
  "inst_query cx q = i_query (cx_client cx) q"

definition inst_write :: "'w ctx \<Rightarrow> string \<Rightarrow> ('w, unit) act" where
  "inst_write cx s = effect (i_write (cx_client cx) s)"

definition lib_write :: "'w ctx \<Rightarrow> string \<Rightarrow> ('w, unit) act" where
  "lib_write cx s = effect (cl_write (cx_client cx) s)"

definition inst_clear :: "'w ctx \<Rightarrow> ('w, unit) act" where
  "inst_clear cx = effect (i_clear (cx_client cx))"

definition set_timeout :: "'w ctx \<Rightarrow> int \<Rightarrow> ('w, unit) act" where
  "set_timeout cx t = change (i_set_timeout (cx_client cx) t)"

definition drained :: "'w ctx \<Rightarrow> ('w, unit) act" where
  \<comment> \<open>\<^verbatim>\<open>visa.drain_errors(inst)\<close>\<close>
  "drained cx = change (\<lambda>w. snd (drain_errors (instr.truncate (cx_client cx)) 50 w))"

text \<open>\<^verbatim>\<open>with visa.session(CTX["backend"], resource, timeout=CTX["timeout"]) as inst\<close>.\<close>

definition session_on :: "'w ctx \<Rightarrow> string \<Rightarrow> ('w, 'r) act \<Rightarrow> ('w, 'r) act" where
  "session_on cx name body w =
     (case cl_open (cx_client cx) name w of
        (Some e, w1) \<Rightarrow> (Inl e, w1)
      | (None, w1) \<Rightarrow>
          (case session (cx_env cx) (instr.truncate (cx_client cx)) (cx_hislip_mode cx) name (cx_timeout cx) (Inr w1) body of
             (r, w2) \<Rightarrow> (r, case w2 of Some w3 \<Rightarrow> w3 | None \<Rightarrow> w1)))"

definition open_inst :: "'w ctx \<Rightarrow> ('w, 'r) act \<Rightarrow> ('w, 'r) act" where
  "open_inst cx = session_on cx (cx_resource cx)"

definition server_or_skip :: "'w ctx \<Rightarrow> string \<Rightarrow> ('w, mock) act" where
  "server_or_skip cx why = (case cx_server cx of None \<Rightarrow> throw (Skip why) | Some m \<Rightarrow> ret m)"

definition value_of :: "attr_value option \<Rightarrow> attr_value" where
  \<comment> \<open>the first component \<^verbatim>\<open>visa.call\<close> returns\<close>
  "value_of v = (case v of None \<Rightarrow> ANone | Some x \<Rightarrow> x)"

definition lib_op :: "'w ctx \<Rightarrow> string \<Rightarrow> string \<Rightarrow> ('w, status) act" where
  \<comment> \<open>\<^verbatim>\<open>visa.status(lib.name, sess, arg)\<close>\<close>
  "lib_op cx name arg = lib_status name (cl_op (cx_client cx) name arg)"

definition inst_read :: "'w ctx \<Rightarrow> ('w, string) act" where
  "inst_read cx = cl_inst_read (cx_client cx)"

definition read_stb :: "'w ctx \<Rightarrow> ('w, int) act" where
  "read_stb cx = cl_read_stb (cx_client cx)"

definition lib_read :: "'w ctx \<Rightarrow> int \<Rightarrow> ('w, string option \<times> status) act" where
  "lib_read cx n = lib_call ''read'' (cl_read (cx_client cx) n)"

definition lib_lock :: "'w ctx \<Rightarrow> string \<Rightarrow> int \<Rightarrow> string option \<Rightarrow> ('w, attr_value option \<times> status) act" where
  \<comment> \<open>\<^verbatim>\<open>visa.call(lib.lock, sess, kind, timeout, key)\<close>\<close>
  "lib_lock cx kind timeout key = lib_call ''lock'' (cl_lock (cx_client cx) kind timeout key)"

definition lib_unlock :: "'w ctx \<Rightarrow> ('w, status) act" where
  "lib_unlock cx = lib_op cx ''unlock'' []"

definition now :: "'w ctx \<Rightarrow> ('w, rat) act" where
  "now cx w = (Inr (cx_now cx w), w)"

definition sleep :: "'w ctx \<Rightarrow> rat \<Rightarrow> ('w, unit) act" where
  "sleep cx t = change (cx_sleep cx t)"

text \<open>A second session to the same resource is a second handle: the same context with another client.\<close>

definition through :: "'w ctx \<Rightarrow> 'w client \<Rightarrow> 'w ctx" where
  "through cx c = cx\<lparr>cx_client := c\<rparr>"

definition repr_list :: "string list \<Rightarrow> string" where
  "repr_list xs = ''['' @ join '', '' xs @ '']''"

definition in_ms :: "rat \<Rightarrow> string" where
  "in_ms t = fmt_fixed 0 (t * 1000) @ ''ms''"

definition drain :: "'w ctx \<Rightarrow> ('w, string list) act" where
  \<comment> \<open>\<^verbatim>\<open>visa.drain_errors(inst)\<close>, with what it returns\<close>
  "drain cx w = (case drain_errors (instr.truncate (cx_client cx)) 50 w of (es, w1) \<Rightarrow> (Inr es, w1))"

definition asked :: "'w ctx \<Rightarrow> string \<Rightarrow> ('w, string) act" where
  "asked cx q = andthen (inst_query cx q) (\<lambda>r. ret (strip r))"

definition timed_out :: "'w ctx \<Rightarrow> exn \<Rightarrow> bool" where
  "timed_out cx exc \<longleftrightarrow> StatusCode (e_code exc) = code cx ''error_timeout''"

definition or_assert :: "string \<Rightarrow> ('w, 'a option) act \<Rightarrow> ('w, 'a) act" where
  \<comment> \<open>what a handler returned from the check, or the assertion after the statement\<close>
  "or_assert msg m = andthen m (\<lambda>r. case r of Some d \<Rightarrow> ret d | None \<Rightarrow> throw (AssertionError msg))"

section \<open>Numbers in hexadecimal\<close>

fun hex_digits :: "nat \<Rightarrow> string" where
  "hex_digits n = (if n < 16 then [hex_char n] else hex_digits (n div 16) @ [hex_char (n mod 16)])"

declare hex_digits.simps [simp del]

definition fmt_hex :: "nat \<Rightarrow> int \<Rightarrow> string" where
  \<comment> \<open>\<^verbatim>\<open>f"{i:#0{width}x}"\<close>\<close>
  "fmt_hex width i =
     (let sign = (if i < 0 then ''-'' else []) @ ''0x'';
          ds = hex_digits (nat \<bar>i\<bar>)
      in sign @ replicate (width - length sign - length ds) CHR ''0'' @ ds)"

section \<open>Laws\<close>

lemma act_simps [acts]:
  "ret x w = (Inr x, w)" "throw e w = (Inl e, w)" "lift r w = (r, w)" "change f w = (Inr (), f w)"
  by (simp_all add: ret_def throw_def lift_def change_def)

lemma andthen_ret [simp, acts]: "andthen (ret x) f = f x"
  by (rule ext) (simp add: andthen_def ret_def)

lemma andthen_throw [simp, acts]: "andthen (throw e) f = throw e"
  by (rule ext) (simp add: andthen_def throw_def)

lemma andthen_assoc: "andthen (andthen m f) g = andthen m (\<lambda>x. andthen (f x) g)"
  by (rule ext) (simp add: andthen_def split: prod.split sum.split)

lemma andthen_Inr_iff: "andthen m f w = (Inr y, w') \<longleftrightarrow> (\<exists>x w1. m w = (Inr x, w1) \<and> f x w1 = (Inr y, w'))"
  by (auto simp: andthen_def split: prod.splits sum.splits)

lemma assert_that_Inr_iff [simp]: "assert_that b msg w = (Inr u, w') \<longleftrightarrow> b \<and> w' = w"
  by (auto simp: assert_that_def ret_def throw_def)

lemma assert_that_cases [acts]:
  "assert_that True msg = ret ()" "assert_that False msg = throw (AssertionError msg)"
  by (simp_all add: assert_that_def)

text \<open>The finaliser runs however the body ended.\<close>

lemma at_exit_world: "snd (at_exit m f w) = snd (f (snd (m w)))"
  by (simp add: at_exit_def split: prod.split sum.split)

lemma through_simps [simp]:
  "cx_client (through cx c) = c" "cx_code (through cx c) = cx_code cx" "cx_env (through cx c) = cx_env cx"
  "cx_hislip_mode (through cx c) = cx_hislip_mode cx" "cx_resource (through cx c) = cx_resource cx"
  "cx_now (through cx c) = cx_now cx" "cx_timeout (through cx c) = cx_timeout cx"
  by (simp_all add: through_def)

lemma session_on_world:
  "cl_open (cx_client cx) name w = (None, w1) \<Longrightarrow>
     \<exists>w2. snd (session_on cx name body w) = snd (i_close (cx_client cx) w2)"
  by (auto simp: session_on_def session_def Let_def instr.truncate_def split: prod.splits)

section \<open>Into the harness\<close>

text \<open>A check as the harness runs it, once it is known what its body does.\<close>

definition check_end_of :: "(exn + string) \<times> 'w \<Rightarrow> check_end" where
  "check_end_of r = (case fst r of Inl e \<Rightarrow> Raised e | Inr detail \<Rightarrow> Returned detail)"

definition verdict :: "(exn + string) \<times> 'w \<Rightarrow> string" where
  "verdict r = (case fst r of Inr _ \<Rightarrow> PASS | Inl e \<Rightarrow> if isinstance e ''Skip'' then SKIP else FAIL)"

lemma verdict_check_outcome:
  assumes "cf_end f = check_end_of r" "timeout_of watchdog f = None" "cf_time f = Some t"
  shows "check_outcome watchdog f = verdict r"
  using assms by (simp add: check_outcome_def run_body_def check_end_of_def verdict_def split: sum.split)

lemma verdict_simps [simp, acts]:
  "verdict (Inr d, w) = PASS" "verdict (Inl (AssertionError m), w) = FAIL" "verdict (Inl (Skip m), w) = SKIP"
  by (simp_all add: verdict_def AssertionError_def Skip_def plain_exn_def isinstance_def)

lemma verdict_PASS_iff: "verdict r = PASS \<longleftrightarrow> (\<exists>d. fst r = Inr d)"
  by (auto simp: verdict_def split: sum.split)

section \<open>A session that can be entered\<close>

text \<open>
  What the verdicts of the checks are relative to: opening the resource and asking for the mode succeed and leave
  the world in \<open>I\<close>, and \<open>I\<close> is kept by the calls a check makes.
\<close>

definition enters :: "'w ctx \<Rightarrow> ('w \<Rightarrow> bool) \<Rightarrow> string \<Rightarrow> 'w \<Rightarrow> bool" where
  "enters cx I name w \<longleftrightarrow>
     (\<exists>w1 w2. cl_open (cx_client cx) name w = (None, w1) \<and>
        in_mode (cx_env cx) (instr.truncate (cx_client cx)) (cx_hislip_mode cx) name
          (i_set_timeout (instr.truncate (cx_client cx)) (cx_timeout cx) w1) = (None, w2) \<and> I w2)"

definition keeps :: "('w \<Rightarrow> bool) \<Rightarrow> ('w, 'a) act \<Rightarrow> ('a \<Rightarrow> bool) \<Rightarrow> bool" where
  \<comment> \<open>from a world in \<open>I\<close> the action returns, keeps \<open>I\<close>, and its value satisfies \<open>P\<close>\<close>
  "keeps I m P \<longleftrightarrow> (\<forall>w. I w \<longrightarrow> (\<exists>x w'. m w = (Inr x, w') \<and> I w' \<and> P x))"

lemma keepsD: "keeps I m P \<Longrightarrow> I w \<Longrightarrow> \<exists>x w'. m w = (Inr x, w') \<and> I w' \<and> P x"
  by (simp add: keeps_def)

lemma keeps_ret: "P x \<Longrightarrow> keeps I (ret x) P"
  by (simp add: keeps_def ret_def)

lemma keeps_andthen:
  assumes "keeps I m P" "\<And>x. P x \<Longrightarrow> keeps I (f x) Q"
  shows "keeps I (andthen m f) Q"
  unfolding keeps_def andthen_def
proof (intro allI impI)
  fix w assume "I w"
  then obtain x w1 where m: "m w = (Inr x, w1)" "I w1" "P x" using keepsD[OF assms(1)] by blast
  then obtain y w2 where "f x w1 = (Inr y, w2)" "I w2" "Q y" using keepsD[OF assms(2)] by blast
  with m show "\<exists>x w'. (case m w of (Inl e, w1) \<Rightarrow> (Inl e, w1) | (Inr x, w1) \<Rightarrow> f x w1) = (Inr x, w') \<and> I w' \<and> Q x" by simp
qed

lemma keeps_weaken: "keeps I m P \<Longrightarrow> (\<And>x. P x \<Longrightarrow> Q x) \<Longrightarrow> keeps I m Q"
  unfolding keeps_def by blast

lemma keeps_for_each:
  "(\<And>x. x \<in> set xs \<Longrightarrow> keeps I (f x) (\<lambda>y. y = g x)) \<Longrightarrow> keeps I (for_each xs f) (\<lambda>ys. ys = map g xs)"
proof (induction xs)
  case (Cons x xs)
  have "keeps I (for_each xs f) (\<lambda>ys. ys = map g xs)" using Cons by simp
  then have "keeps I (andthen (for_each xs f) (\<lambda>ys. ret (y # ys))) (\<lambda>zs. zs = map g (x # xs))" if "y = g x" for y
    by (rule keeps_andthen) (simp add: keeps_ret that)
  with Cons.prems[of x] show ?case by (simp add: keeps_andthen)
qed (simp add: keeps_ret)

lemma keeps_for_concat:
  assumes "\<And>x. x \<in> set xs \<Longrightarrow> keeps I (f x) (\<lambda>y. y = g x)"
  shows "keeps I (for_concat xs f) (\<lambda>ys. ys = concat (map g xs))"
  unfolding for_concat_def by (rule keeps_andthen[OF keeps_for_each[OF assms]]) (simp_all add: keeps_ret)

text \<open>Entering a session runs the body in \<open>I\<close>, and its ending is the ending of the session.\<close>

lemma enters_session:
  assumes "enters cx I name w"
  obtains w2 where "I w2" "fst (session_on cx name body w) = fst (body w2)"
proof -
  obtain w1 w2 where w: "cl_open (cx_client cx) name w = (None, w1)"
    "in_mode (cx_env cx) (instr.truncate (cx_client cx)) (cx_hislip_mode cx) name
       (i_set_timeout (instr.truncate (cx_client cx)) (cx_timeout cx) w1) = (None, w2)" "I w2"
    using assms unfolding enters_def by blast
  have "fst (session_on cx name body w) = fst (body w2)"
    by (cases "body w2") (simp add: session_on_def session_def w(1,2) Let_def)
  with w(3) show thesis by (rule that)
qed

lemma verdict_fst: "fst r = fst r' \<Longrightarrow> verdict r = verdict r'"
  by (simp add: verdict_def)

lemma session_verdict:
  assumes "enters cx I name w" "\<And>w2. I w2 \<Longrightarrow> verdict (body w2) = v"
  shows "verdict (session_on cx name body w) = v"
proof -
  obtain w2 where "I w2" "fst (session_on cx name body w) = fst (body w2)" by (rule enters_session[OF assms(1)])
  with assms(2) verdict_fst show ?thesis by metis
qed

lemma keeps_verdict:
  assumes "keeps I m P" "I w" "\<And>x w1. P x \<Longrightarrow> I w1 \<Longrightarrow> verdict (f x w1) = v"
  shows "verdict (andthen m f w) = v"
  using keepsD[OF assms(1,2)] assms(3) by (auto simp: andthen_def)

lemma assert_verdict:
  "verdict (andthen (assert_that b msg) f w) = (if b then verdict (f () w) else FAIL)"
  by (simp add: assert_that_def andthen_def ret_def throw_def)

section \<open>A library for the witnesses\<close>

text \<open>It answers every call with success, every attribute with one, and has no state.\<close>

definition example_client :: "'w client" where
  "example_client =
     \<lparr>i_query = (\<lambda>q w. (Inr ''a,b'', w)), i_write = (\<lambda>s w. (None, w)), i_clear = (\<lambda>w. (None, w)),
      i_timeout = (\<lambda>w. 2000), i_set_timeout = (\<lambda>t w. w), i_set_attr = (\<lambda>b w. (Single (StatusCode 0), w)),
      i_get_attr = (\<lambda>w. (Tuple (Some 1) (StatusCode 0), w)), i_close = (\<lambda>w. (None, w)),
      cl_open = (\<lambda>name w. (None, w)), cl_resource_info = (\<lambda>name w. (Inr (Some ''tcpip''), w)), cl_has = (\<lambda>_. True),
      cl_get_attribute = (\<lambda>a w. (Tuple (AInt 1) (StatusCode 0), w)),
      cl_set_attribute = (\<lambda>a v w. (Single (StatusCode 0), w)), cl_set_visa_attribute = (\<lambda>a v w. (None, w)),
      cl_write = (\<lambda>s w. (None, w)), cl_read = (\<lambda>n w. (Tuple ''a,b'' (StatusCode 0), w)),
      cl_op = (\<lambda>name arg w. (Single (StatusCode 0), w)), cl_chunk_size = (\<lambda>w. 20480),
      cl_read_stb = (\<lambda>w. (Inr 0, w)), cl_inst_read = (\<lambda>w. (Inr ''a,b'', w)), cl_read_bytes = (\<lambda>n w. (Inr ''a,b'', w)),
      cl_lock = (\<lambda>kind t key w. (Tuple ANone (StatusCode 0), w)), cl_lock_excl = (\<lambda>t w. (None, w)), cl_unlock = (\<lambda>w. (None, w)),
      cl_event = (\<lambda>name mech w. (None, w))\<rparr>"

definition example_ctx :: "'w ctx" where
  "example_ctx =
     \<lparr>cx_client = example_client, cx_env = \<lparr>ve_success = 0, ve_conn_lost = -1073807194, ve_hislip_attr = (\<lambda>_. True)\<rparr>,
      cx_code = (\<lambda>name. if name = ''error_nonsupported_attribute'' then -1073807331 else 1), cx_repr_code = str_int,
      cx_repr_value = (\<lambda>_. ''1''), cx_resource = ''TCPIP0::127.0.0.1::inst0::INSTR'', cx_protocol = ''vxi11'', cx_timeout = 2000,
      cx_hislip_mode = None, cx_server = None, cx_ask = (\<lambda>j w. (Inr Eof, w)), cx_environ = (\<lambda>_. None), cx_note = (\<lambda>s w. w),
      cx_now = (\<lambda>w. 0), cx_sleep = (\<lambda>t w. w)\<rparr>"

lemma example_enters: "enters example_ctx (\<lambda>_. True) name w"
  by (simp add: enters_def in_mode_def example_ctx_def example_client_def)

end
