(* ===== verification/Wire.thy ===== *)
theory Wire
  imports Probe
begin

unbundle bit_operations_syntax

text \<open>
  What the checks that read the proxy's logs share: list comprehensions over decoded JSON, in which every
  subscript can raise, and what the logs hold when the server of \<open>Control\<close> answers.
\<close>

section \<open>Comprehensions over decoded JSON\<close>

definition type_error :: "string \<Rightarrow> exn" where
  "type_error msg = plain_exn [''TypeError'', ''Exception'', ''BaseException''] msg"

definition index_error :: exn where
  "index_error = plain_exn [''IndexError'', ''LookupError'', ''Exception'', ''BaseException''] ''list index out of range''"

fun filter_json :: "(json \<Rightarrow> exn + bool) \<Rightarrow> json list \<Rightarrow> exn + json list" where
  "filter_json p [] = Inr []"
| "filter_json p (j # js) =
     (case p j of
        Inl e \<Rightarrow> Inl e
      | Inr b \<Rightarrow> map_sum id (\<lambda>r. if b then j # r else r) (filter_json p js))"

fun map_json :: "(json \<Rightarrow> exn + 'a) \<Rightarrow> json list \<Rightarrow> exn + 'a list" where
  "map_json f [] = Inr []"
| "map_json f (j # js) =
     (case f j of Inl e \<Rightarrow> Inl e | Inr x \<Rightarrow> map_sum id ((#) x) (map_json f js))"

definition bindr :: "exn + 'a \<Rightarrow> ('a \<Rightarrow> exn + 'b) \<Rightarrow> exn + 'b" where
  "bindr r f = (case r of Inl e \<Rightarrow> Inl e | Inr x \<Rightarrow> f x)"

definition num_of :: "json \<Rightarrow> exn + int" where
  \<comment> \<open>a value used as an operand of integer arithmetic\<close>
  "num_of j = (case j of JNum n \<Rightarrow> Inr n | JBool b \<Rightarrow> Inr (if b then 1 else 0) | _ \<Rightarrow> Inl (type_error ''unsupported operand type(s)''))"

definition num_at :: "string \<Rightarrow> json \<Rightarrow> exn + int" where
  "num_at key j = bindr (item key j) num_of"

lemma filter_json_pure: "(\<And>j. j \<in> set js \<Longrightarrow> p j = Inr (q j)) \<Longrightarrow> filter_json p js = Inr (filter q js)"
  by (induction js) simp_all

lemma map_json_pure: "(\<And>j. j \<in> set js \<Longrightarrow> f j = Inr (g j)) \<Longrightarrow> map_json f js = Inr (map g js)"
  by (induction js) simp_all

lemma bindr_simps [simp]: "bindr (Inr x) f = f x" "bindr (Inl e) f = Inl e"
  by (simp_all add: bindr_def)

lemma bindr_Inr_iff: "bindr r f = Inr y \<longleftrightarrow> (\<exists>x. r = Inr x \<and> f x = Inr y)"
  by (cases r) simp_all

section \<open>The logs of the server\<close>

definition seen_calls :: "control \<Rightarrow> json list" where
  "seen_calls c = map json_of_call (vt_seen (co_vxi11 c))"

definition seen_messages :: "control \<Rightarrow> json list" where
  "seen_messages c = map json_of_seen (ht_seen (co_hislip c))"

lemma served_calls:
  "mo_control m \<noteq> None \<Longrightarrow> vxi11_calls (served err) m c = (Inr (JList (seen_calls c)), c)"
  by (simp add: vxi11_calls_def command_def served_def serve_def cmd_def request_of_json_def request_of_def handle_def Let_def
      json_of_response_def get_list_def item_def seen_calls_def)

lemma served_messages:
  "mo_control m \<noteq> None \<Longrightarrow> hislip_messages (served err) m c = (Inr (JList (seen_messages c)), c)"
  by (simp add: hislip_messages_def command_def served_def serve_def cmd_def request_of_json_def request_of_def handle_def Let_def
      json_of_response_def get_list_def item_def seen_messages_def)

lemma item_call [simp]:
  "item ''proc'' (json_of_call s) = Inr (json_word (vc_proc s))"
  "item ''flags'' (json_of_call s) = Inr (json_word (vc_flags s))"
  "item ''io_timeout'' (json_of_call s) = Inr (json_word (vc_io_timeout s))"
  by (simp_all add: item_def json_of_call_def)

lemma item_seen [simp]:
  "item ''from'' (json_of_seen s) = Inr (JStr (hs_from s))"
  "item ''message_type'' (json_of_seen s) = Inr (json_word (hs_message_type s))"
  "item ''message_parameter'' (json_of_seen s) = Inr (json_word (hs_message_parameter s))"
  by (simp_all add: item_def json_of_seen_def)

lemma num_of_word [simp]: "num_of (json_word u) = Inr (uint u)"
  by (simp add: num_of_def json_word_def)

text \<open>A check that passes has gone through its session: the body returned, and the session was then closed.\<close>

lemma session_on_Inr:
  assumes "session_on cx name body w = (Inr d, w')"
  obtains w1 w2 where "body w1 = (Inr d, w2)" "w' = snd (i_close (cx_client cx) w2)"
proof -
  obtain w0 where o: "cl_open (cx_client cx) name w = (None, w0)"
    using assms by (auto simp: session_on_def split: prod.splits option.splits)
  let ?m = "in_mode (cx_env cx) (instr.truncate (cx_client cx)) (cx_hislip_mode cx) name
    (i_set_timeout (instr.truncate (cx_client cx)) (cx_timeout cx) w0)"
  obtain w1 where m: "?m = (None, w1)"
    using assms o by (cases ?m; cases "fst ?m") (simp_all add: session_on_def session_def Let_def)
  obtain r w2 where b: "body w1 = (r, w2)" by (cases "body w1")
  from assms o m b have "r = Inr d" "w' = snd (i_close (cx_client cx) w2)"
    by (simp_all add: session_on_def session_def Let_def instr.truncate_def)
  with b that show thesis by blast
qed

section \<open>Message faults end with their block\<close>

lemma served_set_hislip:
  "mo_control m \<noteq> None \<Longrightarrow> ht_faults (co_hislip (snd (set_hislip_faults (served err) environ m [] c))) = hislip_faults0"
  by (auto simp: set_hislip_faults_def forget_def command_def served_def serve_def cmd_def request_of_json_def request_of_def handle_def
      Let_def hislip_faults_of_json_def only_fields_def opt_field_def hislip_faults0_def json_of_response_def)

lemma served_set_vxi11:
  "mo_control m \<noteq> None \<Longrightarrow> vt_faults (co_vxi11 (snd (set_vxi11_faults (served err) environ m [] c))) = vxi11_faults0"
  by (auto simp: set_vxi11_faults_def forget_def command_def served_def serve_def cmd_def request_of_json_def request_of_def handle_def
      Let_def vxi11_faults_of_json_def only_fields_def opt_field_def vxi11_faults0_def json_of_response_def)

text \<open>Faults on protocol messages end with the block that armed them: on a running server, once arming has succeeded, the
  block leaves no message fault of its protocol armed, whatever its body does to the server and however it ends.\<close>

theorem message_faults_disarmed:
  assumes "mo_control m \<noteq> None"
  shows "(\<forall>c1. set_hislip_faults (served err) environ m config c = (Inr (), c1) \<longrightarrow>
            \<not> hislip_armed (ht_faults (co_hislip (snd (hislip_faults_block (served err) environ m config body c))))) \<and>
         (\<forall>c1. set_vxi11_faults (served err) environ m config c = (Inr (), c1) \<longrightarrow>
            \<not> vxi11_is_armed (vt_faults (co_vxi11 (snd (vxi11_faults_block (served err) environ m config body' c)))))"
  using served_set_hislip[OF assms] served_set_vxi11[OF assms]
  by (simp add: hislip_faults_block_def vxi11_faults_block_def Let_def hislip_armed_def vxi11_is_armed_def
      hislip_faults0_def vxi11_faults0_def split: prod.split)

theorem message_faults_disarmed_witness:
  "\<not> hislip_armed (ht_faults (co_hislip (snd (hislip_faults_block (served (\<lambda>_. [])) (\<lambda>_. None) example_mock
     [(''break_prologue'', JBool True)] (\<lambda>c. (Inl (type_error []) :: exn + unit, c)) example_control))))"
proof -
  have m: "mo_control example_mock \<noteq> None" by (simp add: example_mock_def)
  have "\<exists>c1. set_hislip_faults (served (\<lambda>_. [])) (\<lambda>_. None) example_mock [(''break_prologue'', JBool True)] example_control = (Inr (), c1)"
    using m by (simp add: set_hislip_faults_def forget_def command_def served_def serve_def cmd_def request_of_json_def request_of_def
        handle_def Let_def hislip_faults_of_json_def only_fields_def opt_field_def bool_of_def faults_disabled_def json_of_response_def)
  with message_faults_disarmed[OF m] show ?thesis by blast
qed

section \<open>A client for the witnesses\<close>

text \<open>It sends one clean write, or one message with the next MessageID, per query; the world is the server itself.\<close>

definition wire_query :: "string \<Rightarrow> control \<Rightarrow> (exn + string) \<times> control" where
  "wire_query q c =
     (Inr ''a,b'',
      c\<lparr>co_vxi11 := (co_vxi11 c)\<lparr>vt_seen := vt_seen (co_vxi11 c) @
           [\<lparr>vc_proc = 11, vc_io_timeout = 4321, vc_lock_timeout = 0, vc_flags = 8, vc_term_char = None, vc_request_size = None\<rparr>]\<rparr>,
        co_hislip := (co_hislip c)\<lparr>ht_seen := ht_seen (co_hislip c) @
           [\<lparr>hs_from = ''client'', hs_message_type = 7, hs_control_code = 0,
             hs_message_parameter = 0xFFFFFF00 + 2 * of_nat (length (ht_seen (co_hislip c))), hs_payload_len = 6\<rparr>]\<rparr>\<rparr>)"

definition wire_client :: "control client" where
  "wire_client =
     \<lparr>i_query = wire_query, i_write = (\<lambda>s w. (None, w)), i_clear = (\<lambda>w. (None, w)),
      i_timeout = (\<lambda>w. 2000), i_set_timeout = (\<lambda>t w. w), i_set_attr = (\<lambda>b w. (Single (StatusCode 0), w)),
      i_get_attr = (\<lambda>w. (Tuple (Some 1) (StatusCode 0), w)), i_close = (\<lambda>w. (None, w)),
      cl_open = (\<lambda>name w. (None, w)), cl_resource_info = (\<lambda>name w. (Inr (Some ''tcpip''), w)), cl_has = (\<lambda>_. True),
      cl_get_attribute = (\<lambda>a w. (Tuple (AInt 1) (StatusCode 0), w)),
      cl_set_attribute = (\<lambda>a v w. (Single (StatusCode 0), w)), cl_set_visa_attribute = (\<lambda>a v w. (None, w)),
      cl_write = (\<lambda>s w. (None, w)), cl_read = (\<lambda>n w. (Tuple ''a,b'' (StatusCode 0), w)),
      cl_op = (\<lambda>name arg w. (Single (StatusCode 0), w)), cl_chunk_size = (\<lambda>w. 20480),
      cl_read_stb = (\<lambda>w. (Inr 0, w)), cl_inst_read = (\<lambda>w. (Inr ''a,b'', w)), cl_read_bytes = (\<lambda>n w. (Inr ''a,b'', w)),
      cl_lock = (\<lambda>kind t key w. (Tuple ANone (StatusCode 0), w)), cl_lock_excl = (\<lambda>t w. (None, w)), cl_unlock = (\<lambda>w. (None, w)),
      cl_event = (\<lambda>name mech w. (None, w))\<rparr>"

definition wire_ctx :: "control ctx" where
  "wire_ctx =
     \<lparr>cx_client = wire_client, cx_env = \<lparr>ve_success = 0, ve_conn_lost = -1073807194, ve_hislip_attr = (\<lambda>_. True)\<rparr>,
      cx_code = (\<lambda>_. 1), cx_repr_code = str_int, cx_repr_value = (\<lambda>_. ''1''),
      cx_resource = ''TCPIP0::127.0.0.1::inst0::INSTR'', cx_protocol = ''vxi11'', cx_timeout = 2000, cx_hislip_mode = None,
      cx_server = Some example_mock, cx_ask = served (\<lambda>_. []), cx_environ = (\<lambda>_. None), cx_note = (\<lambda>s w. w),
      cx_now = (\<lambda>w. 0), cx_sleep = (\<lambda>t w. w)\<rparr>"

lemma wire_reset:
  "reset (cx_ask wire_ctx) example_mock c = (Inr (), snd (handle Reset c))"
  by (simp add: wire_ctx_def reset_def forget_def command_def served_def serve_def cmd_def request_of_json_def request_of_def
      example_mock_def Let_def handle_def json_of_response_def)

lemma wire_reset_logs:
  "vt_seen (co_vxi11 (snd (handle Reset c))) = []" "ht_seen (co_hislip (snd (handle Reset c))) = []"
  by (simp_all add: handle_def vxi11_clear_def hislip_clear_def)

lemma wire_session:
  "session_on wire_ctx name body c = body c"
  by (simp add: session_on_def session_def in_mode_def Let_def wire_ctx_def wire_client_def instr.truncate_def split: prod.split)

lemma wire_server [simp]: "server_or_skip wire_ctx why = ret example_mock"
  by (simp add: server_or_skip_def wire_ctx_def)

lemma wire_ask: "cx_ask wire_ctx = served (\<lambda>_. [])" "mo_control example_mock \<noteq> None"
  by (simp_all add: wire_ctx_def example_mock_def)

lemma wire_inst_query: "inst_query wire_ctx q c = wire_query q c"
  by (simp add: inst_query_def wire_ctx_def wire_client_def)

end
