(* ===== verification/Verify_Faults.thy ===== *)
theory Verify_Faults
  imports Wire
begin

text \<open>
  \<^verbatim>\<open>tools/verify_faults.py\<close>: does each fault knob do anything? Every knob is tried armed and unarmed, and the two outcomes have
  to differ. The clock, the printer and the operating system are arguments; the library and the server are those
  of \<open>Probe\<close>. Keyword arguments of the server's calls are JSON fields.
\<close>

section \<open>Outcomes of an attempt\<close>

record outcome =
  oc_value :: attr_value
  oc_error :: "string option"
  oc_elapsed :: rat

definition failed :: "outcome \<Rightarrow> bool" where
  "failed o1 \<longleftrightarrow> (case oc_error o1 of None \<Rightarrow> False | Some e \<Rightarrow> e \<noteq> [])"

datatype shape = StrOf nat | Plain attr_value

definition shape_of :: "attr_value \<Rightarrow> shape" where
  "shape_of v = (case v of AStr s \<Rightarrow> StrOf (char_count s) | _ \<Rightarrow> Plain v)"

definition signature :: "outcome \<Rightarrow> string \<times> shape" where
  "signature o1 =
     (case oc_error o1 of None \<Rightarrow> [] | Some e \<Rightarrow> e,
      if failed o1 then Plain (oc_value o1) else shape_of (oc_value o1))"

definition in_seconds :: "string \<Rightarrow> rat \<Rightarrow> string" where
  "in_seconds s t = s @ '' in '' @ fmt_fixed 2 t @ ''s''"

definition outcome_repr :: "'w ctx \<Rightarrow> outcome \<Rightarrow> exn + string" where
  "outcome_repr cx o1 =
     (if failed o1 then Inr (in_seconds (the (oc_error o1)) (oc_elapsed o1))
      else let shown = (case oc_value o1 of AStr s \<Rightarrow> s | v \<Rightarrow> cx_repr_value cx v)
           in if char_count shown > 42
              then (case oc_value o1 of
                      AStr s \<Rightarrow> Inr (in_seconds (char_take 39 shown @ ''... ('' @ str_nat (char_count s) @ '' bytes)'') (oc_elapsed o1))
                    | _ \<Rightarrow> Inl (type_error ''object has no len()''))
              else Inr (in_seconds shown (oc_elapsed o1)))"

record 'w tool =
  to_now :: "'w \<Rightarrow> rat"
  to_sleep :: "rat \<Rightarrow> 'w \<Rightarrow> 'w"
  to_print :: "string \<Rightarrow> 'w \<Rightarrow> 'w"
  to_os :: "'w os"
  to_env :: server_env

definition attempt :: "'w tool \<Rightarrow> ('w, attr_value) act \<Rightarrow> ('w, outcome) act" where
  "attempt T fn w =
     (case fn w of
        (Inr v, w1) \<Rightarrow> (Inr \<lparr>oc_value = v, oc_error = None, oc_elapsed = to_now T w1 - to_now T w\<rparr>, w1)
      | (Inl e, w1) \<Rightarrow>
          if isinstance e ''Exception''
          then (Inr \<lparr>oc_value = ANone, oc_error = Some (visa_status e), oc_elapsed = to_now T w1 - to_now T w\<rparr>, w1)
          else (Inl e, w1))"

definition worked :: "outcome \<Rightarrow> outcome \<Rightarrow> bool \<Rightarrow> bool" where
  "worked armed control timing_only =
     (if timing_only then oc_elapsed armed > oc_elapsed control * 3 \<and> oc_elapsed armed > 5 / 100
      else signature armed \<noteq> signature control)"

definition prints :: "'w tool \<Rightarrow> string \<Rightarrow> ('w, unit) act" where
  "prints T s = change (to_print T s)"

definition report_knob :: "'w ctx \<Rightarrow> 'w tool \<Rightarrow> string \<Rightarrow> outcome \<Rightarrow> outcome \<Rightarrow> bool \<Rightarrow> ('w, bool) act" where
  "report_knob cx T name armed control timing_only =
     (let ok = worked armed control timing_only
      in andthen (prints T (''  '' @ (if ok then ''WORKS '' else ''INERT '') @ '' '' @ name)) (\<lambda>_.
         andthen (lift (outcome_repr cx armed)) (\<lambda>a.
         andthen (prints T (''           armed:   '' @ a)) (\<lambda>_.
         andthen (lift (outcome_repr cx control)) (\<lambda>c.
         andthen (prints T (''           control: '' @ c)) (\<lambda>_. ret ok))))))"

section \<open>The program\<close>

definition query_on :: "'w ctx \<Rightarrow> string \<Rightarrow> string \<Rightarrow> ('w, attr_value) act" where
  "query_on cx res q = session_on cx res (andthen (inst_query cx q) (\<lambda>r. ret (AStr r)))"

definition poll_on :: "'w ctx \<Rightarrow> string \<Rightarrow> ('w, attr_value) act" where
  "poll_on cx res = session_on cx res (andthen (cl_read_stb (cx_client cx)) (\<lambda>stb. ret (AInt stb)))"

definition try_knob ::
  "'w ctx \<Rightarrow> 'w tool \<Rightarrow> string \<Rightarrow> (('w, outcome) act \<Rightarrow> ('w, outcome) act) \<Rightarrow> ('w, attr_value) act \<Rightarrow> bool \<Rightarrow> ('w, bool) act" where
  \<comment> \<open>\<open>with <block>: armed = attempt(probe)\<close>, the control, and the report\<close>
  "try_knob cx T name block probe timing_only =
     andthen (block (attempt T probe)) (\<lambda>armed.
     andthen (attempt T probe) (\<lambda>control.
     report_knob cx T name armed control timing_only))"

definition with_faults :: "'w ctx \<Rightarrow> mock \<Rightarrow> (string \<times> json) list \<Rightarrow> ('w, 'r) act \<Rightarrow> ('w, 'r) act" where
  "with_faults cx srv config = faults_block (cx_ask cx) (cx_environ cx) srv config"

definition with_vxi11 :: "'w ctx \<Rightarrow> mock \<Rightarrow> (string \<times> json) list \<Rightarrow> ('w, 'r) act \<Rightarrow> ('w, 'r) act" where
  "with_vxi11 cx srv config = vxi11_faults_block (cx_ask cx) (cx_environ cx) srv config"

definition with_hislip :: "'w ctx \<Rightarrow> mock \<Rightarrow> (string \<times> json) list \<Rightarrow> ('w, 'r) act \<Rightarrow> ('w, 'r) act" where
  "with_hislip cx srv config = hislip_faults_block (cx_ask cx) (cx_environ cx) srv config"

definition resource_at :: "string \<Rightarrow> mock \<Rightarrow> ('w, string) act" where
  "resource_at key srv =
     (case item key (JObj (mo_ports srv)) of
        Inl e \<Rightarrow> throw e | Inr (JStr s) \<Rightarrow> ret s | Inr _ \<Rightarrow> throw (type_error key))"

definition count_writes :: "'w ctx \<Rightarrow> 'w tool \<Rightarrow> mock \<Rightarrow> string \<Rightarrow> (string \<times> json) list option \<Rightarrow> ('w, nat option) act" where
  \<comment> \<open>how many writes reach the instrument when a long command is sent; \<open>None\<close> if something raised\<close>
  "count_writes cx T srv res config =
     catch ''Exception'' (session_on cx res (
       andthen (reset (cx_ask cx) srv) (\<lambda>_.
       andthen (case config of None \<Rightarrow> ret () | Some c \<Rightarrow> set_vxi11_faults (cx_ask cx) (cx_environ cx) srv c) (\<lambda>_.
       andthen (inst_write cx (''TEST:SILENT? '' @ replicate 400 CHR ''x'')) (\<lambda>_.
       andthen (change (to_sleep T (2 / 10))) (\<lambda>_.
       andthen (writes (cx_ask cx) srv None) (\<lambda>ws. ret (Some (length ws))))))))) (\<lambda>_. ret None)"

definition shown_count :: "nat option \<Rightarrow> string" where
  "shown_count n = (case n of None \<Rightarrow> ''None'' | Some k \<Rightarrow> str_nat k)"

definition try_max_recv_size :: "'w ctx \<Rightarrow> 'w tool \<Rightarrow> mock \<Rightarrow> string \<Rightarrow> ('w, bool) act" where
  "try_max_recv_size cx T srv res =
     (let arm = [(''max_recv_size'', JNum 64)] in
      andthen (set_vxi11_faults (cx_ask cx) (cx_environ cx) srv arm) (\<lambda>_.
      andthen (count_writes cx T srv res (Some arm)) (\<lambda>armed.
      andthen (set_vxi11_faults (cx_ask cx) (cx_environ cx) srv []) (\<lambda>_.
      andthen (count_writes cx T srv res None) (\<lambda>control.
      let ok = (case (armed, control) of (Some a, Some c) \<Rightarrow> a > c | _ \<Rightarrow> False) in
      andthen (prints T (''  '' @ (if ok then ''WORKS '' else ''INERT '') @ '' max_recv_size'')) (\<lambda>_.
      andthen (prints T (''           armed:   '' @ shown_count armed @ '' writes reached the instrument'')) (\<lambda>_.
      andthen (prints T (''           control: '' @ shown_count control @ '' writes'')) (\<lambda>_.
      andthen (set_vxi11_faults (cx_ask cx) (cx_environ cx) srv []) (\<lambda>_. ret ok)))))))))"

definition over_vxi11 :: "'w ctx \<Rightarrow> 'w tool \<Rightarrow> mock \<Rightarrow> ('w, (string \<times> bool) list) act" where
  "over_vxi11 cx T srv =
     andthen (resource_at ''vxi11_resource'' srv) (\<lambda>res.
     let big = query_on cx res ''TEST:BIG?''; idn = query_on cx res ''*IDN?'' in
     andthen (big_reply (cx_ask cx) srv 4096 0) (\<lambda>_.
     andthen (try_knob cx T ''drop_after_bytes'' (with_faults cx srv [(''drop_after_bytes'', JNum 64)]) big False) (\<lambda>k1.
     andthen (try_knob cx T ''stall_after_bytes'' (with_faults cx srv [(''stall_after_bytes'', JNum 64)]) big False) (\<lambda>k2.
     andthen (big_reply (cx_ask cx) srv 300 0) (\<lambda>_.
     andthen (try_knob cx T ''dribble'' (with_faults cx srv [(''dribble'', JBool True)]) big True) (\<lambda>k3.
     andthen (try_knob cx T ''latency_ms'' (with_faults cx srv [(''latency_ms'', JNum 250)]) idn True) (\<lambda>k4.
     andthen (prints T (nl @ ''instrument faults (virtual device)'')) (\<lambda>_.
     andthen (try_knob cx T ''read_delay_ms'' (with_faults cx srv [(''read_delay_ms'', JNum 400)]) idn True) (\<lambda>k5.
     andthen (try_knob cx T ''fail_next_write'' (with_faults cx srv [(''fail_next_write'', JBool True)]) idn False) (\<lambda>k6.
     andthen (try_knob cx T ''forced_stb'' (with_faults cx srv [(''forced_stb'', JNum 0x5A)]) (poll_on cx res) False) (\<lambda>k7.
     andthen (prints T (nl @ ''VXI-11 RPC faults (proxy, record level)'')) (\<lambda>_.
     andthen (try_knob cx T ''error_on_proc'' (with_vxi11 cx srv [(''error_on_proc'', JNum 12), (''error_code'', JNum 21)]) idn False) (\<lambda>k8.
     andthen (try_knob cx T ''stale_reply_before_proc'' (with_vxi11 cx srv [(''stale_reply_before_proc'', JNum 12)]) idn False) (\<lambda>k9.
     andthen (try_max_recv_size cx T srv res) (\<lambda>k10.
     ret [(''drop_after_bytes'', k1), (''stall_after_bytes'', k2), (''dribble'', k3), (''latency_ms'', k4), (''read_delay_ms'', k5),
          (''fail_next_write'', k6), (''forced_stb'', k7), (''vxi11 error_on_proc'', k8), (''vxi11 stale_reply'', k9),
          (''vxi11 max_recv_size'', k10)])))))))))))))))"

definition server_message_types :: "'w ctx \<Rightarrow> mock \<Rightarrow> ('w, json list) act" where
  "server_message_types cx srv =
     andthen (hislip_messages (cx_ask cx) srv) (\<lambda>j. lift (
       bindr (events_of (Inr j)) (\<lambda>ms.
       bindr (filter_json (\<lambda>m. map_sum id (\<lambda>f. f = JStr ''server'') (item ''from'' m)) ms) (map_json (item ''message_type'')))))"

definition over_hislip :: "'w ctx \<Rightarrow> 'w tool \<Rightarrow> mock \<Rightarrow> ('w, (string \<times> bool) list) act" where
  "over_hislip cx T srv =
     andthen (resource_at ''hislip_resource'' srv) (\<lambda>res.
     let idn = query_on cx res ''*IDN?'' in
     andthen (try_knob cx T ''skew_data_end_id'' (with_hislip cx srv [(''skew_data_end_id'', JNum 4)]) idn False) (\<lambda>k1.
     andthen (try_knob cx T ''break_prologue'' (with_hislip cx srv [(''break_prologue'', JBool True)]) idn False) (\<lambda>k2.
     andthen (big_reply (cx_ask cx) srv 400000 0) (\<lambda>_.
     andthen (reset (cx_ask cx) srv) (\<lambda>_.
     andthen (suppressed (andthen (query_on cx res ''TEST:BIG?'') (\<lambda>_. ret ()))) (\<lambda>_.
     andthen (server_message_types cx srv) (\<lambda>kinds.
     let reachable = (JNum 6 \<in> set kinds) in
     andthen (prints T (''  '' @ (if reachable then ''WORKS '' else ''UNREACHABLE'') @ '' skew_data_id'')) (\<lambda>_.
     andthen (prints T (if \<not> reachable
       then ''           the server never sends a Data message (only DataEND), so this knob has nothing to act on here''
       else ''           a Data message occurs, so the knob is reachable'')) (\<lambda>_.
     ret [(''hislip skew_data_end_id'', k1), (''hislip break_prologue'', k2), (''hislip skew_data_id'', reachable)])))))))))"

definition inert :: "(string \<times> bool) list \<Rightarrow> string list" where
  "inert results = map fst (filter (\<lambda>(k, ok). \<not> ok) results)"

fun print_all :: "'w tool \<Rightarrow> string list \<Rightarrow> ('w, unit) act" where
  "print_all T [] = ret ()"
| "print_all T (s # ss) = andthen (prints T s) (\<lambda>_. print_all T ss)"

definition finish_verify :: "'w tool \<Rightarrow> (string \<times> bool) list \<Rightarrow> ('w, int \<times> (string \<times> bool) list) act" where
  "finish_verify T results =
     andthen (prints T (nl @ str_nat (length results - length (inert results)) @ ''/'' @ str_nat (length results) @
       '' knobs demonstrably work'')) (\<lambda>_.
     andthen (print_all T (if inert results = [] then []
       else ''INERT or unreachable:'' # map (\<lambda>k. ''  - '' @ k) (inert results))) (\<lambda>_.
     ret (if inert results \<noteq> [] then 1 else 0, results)))"

definition verify_main :: "'w ctx \<Rightarrow> 'w tool \<Rightarrow> resolved \<Rightarrow> ('w, int \<times> (string \<times> bool) list) act" where
  \<comment> \<open>the exit code, and the table it came from; what goes to the error stream is printed too\<close>
  "verify_main cx T backend =
     (if \<not> rv_available backend
      then andthen (prints T (''pyvisa-py unavailable: '' @ rv_reason backend)) (\<lambda>_. ret (4, []))
      else
        andthen (prints T (nl @ ''transport faults (proxy, byte level)'')) (\<lambda>_.
        andthen (mock_server (to_os T) (to_env T) default_mock (over_vxi11 cx T)) (\<lambda>r1.
        andthen (prints T (nl @ ''HiSLIP message faults (proxy, message level)'')) (\<lambda>_.
        andthen (mock_server (to_os T) (to_env T) default_mock (over_hislip cx T)) (\<lambda>r2.
        finish_verify T (r1 @ r2))))))"

section \<open>What the exit code says\<close>

definition knob_names :: "string list" where
  "knob_names =
     [''drop_after_bytes'', ''stall_after_bytes'', ''dribble'', ''latency_ms'', ''read_delay_ms'', ''fail_next_write'', ''forced_stb'',
      ''vxi11 error_on_proc'', ''vxi11 stale_reply'', ''vxi11 max_recv_size'', ''hislip skew_data_end_id'', ''hislip break_prologue'',
      ''hislip skew_data_id'']"

lemma print_all_returns: "\<exists>w1. print_all T ss w = (Inr (), w1)"
  by (induction ss arbitrary: w) (simp_all add: acts andthen_def prints_def)

lemma finish_verify_Inr:
  "finish_verify T results w = (Inr (c, rs), w1) \<Longrightarrow> rs = results \<and> c = (if list_all snd results then 0 else 1)"
proof -
  assume r: "finish_verify T results w = (Inr (c, rs), w1)"
  have "inert results = [] \<longleftrightarrow> list_all snd results"
    by (auto simp: inert_def filter_empty_conv list_all_iff)
  with r show ?thesis by (auto simp: finish_verify_def andthen_Inr_iff acts)
qed

lemma over_vxi11_names: "over_vxi11 cx T srv w = (Inr rs, w1) \<Longrightarrow> map fst rs = take 10 knob_names"
  by (auto simp: over_vxi11_def andthen_Inr_iff acts Let_def knob_names_def)

lemma over_hislip_names: "over_hislip cx T srv w = (Inr rs, w1) \<Longrightarrow> map fst rs = drop 10 knob_names"
  by (auto simp: over_hislip_def andthen_Inr_iff acts Let_def knob_names_def)

lemma mock_server_Inr:
  "mock_server os env a body w = (Inr r, w1) \<Longrightarrow> \<exists>m u v. body m u = (Inr r, v)"
  by (auto simp: mock_server_def split: prod.splits option.splits)

lemma all_true_iff:
  "distinct (map fst rs) \<Longrightarrow> list_all snd rs \<longleftrightarrow> (\<forall>k. k \<in> set (map fst rs) \<longrightarrow> map_of rs k = Some True)"
proof (induction rs)
  case (Cons x rs)
  have "k \<in> set (map fst rs) \<Longrightarrow> k \<noteq> fst x" for k
    using Cons.prems by (metis distinct.simps(2) list.simps(9))
  with Cons show ?case by (cases x) auto
qed simp

text \<open>The verification of the faults cannot end well by leaving something out. If it ends with a table, the table has a
  row for each of the thirteen knobs in the order they are tried, and the exit code is 0 exactly when every row says
  that its knob did something, and 1 otherwise.\<close>

theorem verify_exit_code:
  assumes "rv_available backend" and "verify_main cx T backend w = (Inr (c, results), w1)"
  shows "map fst results = knob_names \<and> c = (if \<forall>k. k \<in> set knob_names \<longrightarrow> map_of results k = Some True then 0 else 1)"
proof -
  from assms have "\<exists>r1 r2 m1 m2 u1 u2 v1 v2 w2. over_vxi11 cx T m1 u1 = (Inr r1, v1) \<and> over_hislip cx T m2 u2 = (Inr r2, v2) \<and>
      finish_verify T (r1 @ r2) w2 = (Inr (c, results), w1)"
    by (auto simp: verify_main_def andthen_Inr_iff dest!: mock_server_Inr) metis
  then obtain r1 r2 m1 m2 u1 u2 v1 v2 w2 where
    r: "over_vxi11 cx T m1 u1 = (Inr r1, v1)" "over_hislip cx T m2 u2 = (Inr r2, v2)" and
    fin: "finish_verify T (r1 @ r2) w2 = (Inr (c, results), w1)" by blast
  have names: "map fst (r1 @ r2) = knob_names"
    using over_vxi11_names[OF r(1)] over_hislip_names[OF r(2)] by (simp del: append_take_drop_id)
       (metis append_take_drop_id)
  have "distinct knob_names" by (simp add: knob_names_def)
  then have "list_all snd (r1 @ r2) \<longleftrightarrow> (\<forall>k. k \<in> set knob_names \<longrightarrow> map_of (r1 @ r2) k = Some True)"
    unfolding names[symmetric] by (rule all_true_iff)
  with fin names show ?thesis by (auto dest!: finish_verify_Inr)
qed

text \<open>A server that acknowledges everything and has logged nothing: every knob is then inert.\<close>

definition quiet_ask :: "unit ask" where
  "quiet_ask j w = (Inr (Line (JObj [(''events'', JList []), (''messages'', JList [])])), w)"

definition quiet_ctx :: "unit ctx" where
  "quiet_ctx = example_ctx\<lparr>cx_ask := quiet_ask\<rparr>"

definition quiet_tool :: "unit tool" where
  "quiet_tool =
     \<lparr>to_now = (\<lambda>w. 0), to_sleep = (\<lambda>t w. w), to_print = (\<lambda>s w. w),
      to_os =
        \<lparr>os_popen = (\<lambda>argv lg w. (Inr 7, w)),
         os_readline = (\<lambda>p w. (Line (JObj [(''control_port'', JNum 5), (''vxi11_resource'', JStr ''V''), (''hislip_resource'', JStr ''H'')]), w)),
         os_stderr = (\<lambda>p w. ([], w)), os_connect = (\<lambda>h p w. (Inr 8, w)), os_makefile = (\<lambda>s w. (9, w)), os_close = (\<lambda>f w. w),
         os_terminate = (\<lambda>p w. w), os_kill = (\<lambda>p w. w), os_wait = (\<lambda>p w. (True, w))\<rparr>,
      to_env = example_server_env\<rparr>"

lemma quiet_command:
  "mo_control m \<noteq> None \<Longrightarrow> command (cx_ask quiet_ctx) m req w = (Inr (JObj [(''events'', JList []), (''messages'', JList [])]), w)"
  by (simp add: command_def quiet_ctx_def quiet_ask_def)

lemma quiet_session: "session_on quiet_ctx name body w = body w"
  by (simp add: session_on_def session_def in_mode_def Let_def quiet_ctx_def example_ctx_def example_client_def instr.truncate_def
      split: prod.split)

abbreviation returns :: "(unit, 'a) act \<Rightarrow> bool" where
  "returns m \<equiv> keeps (\<lambda>_. True) m (\<lambda>_. True)"

lemma returns_simps [simp]:
  "returns (ret x)" "returns (prints T s)" "returns (change f)" "returns (print_all T ss)"
  using print_all_returns[of T ss "()"] by (auto simp: keeps_def acts prints_def)

lemma returns_andthen: "returns m \<Longrightarrow> (\<And>x. returns (g x)) \<Longrightarrow> returns (andthen m g)"
  by (rule keeps_andthen)

lemma quiet_outcomes:
  "keeps (\<lambda>_. True) (attempt quiet_tool (query_on quiet_ctx res q)) (\<lambda>o1. o1 = \<lparr>oc_value = AStr ''a,b'', oc_error = None, oc_elapsed = 0\<rparr>)"
  "keeps (\<lambda>_. True) (attempt quiet_tool (poll_on quiet_ctx res)) (\<lambda>o1. o1 = \<lparr>oc_value = AInt 0, oc_error = None, oc_elapsed = 0\<rparr>)"
  by (simp_all add: keeps_def attempt_def query_on_def poll_on_def quiet_session inst_query_def andthen_def acts)
   (simp_all add: acts quiet_tool_def quiet_ctx_def example_ctx_def example_client_def)

lemma quiet_blocks:
  assumes "mo_control srv \<noteq> None"
  shows "with_faults quiet_ctx srv config m = m" "with_vxi11 quiet_ctx srv config m = m" "with_hislip quiet_ctx srv config m = m"
  by (rule ext, simp add: with_faults_def with_vxi11_def with_hislip_def faults_block_def vxi11_faults_block_def hislip_faults_block_def
      set_faults_def set_vxi11_faults_def set_hislip_faults_def forget_def quiet_command[OF assms] split: prod.split)+

lemma quiet_knob:
  assumes "mo_control srv \<noteq> None" and "\<exists>config. block = with_faults quiet_ctx srv config \<or> block = with_vxi11 quiet_ctx srv config \<or> block = with_hislip quiet_ctx srv config"
    and "\<exists>res q. probe = query_on quiet_ctx res q \<or> probe = poll_on quiet_ctx res"
  shows "returns (try_knob quiet_ctx quiet_tool name block probe timing)"
proof -
  have r: "returns (report_knob quiet_ctx quiet_tool name \<lparr>oc_value = v, oc_error = None, oc_elapsed = 0\<rparr> \<lparr>oc_value = v, oc_error = None, oc_elapsed = 0\<rparr> timing)"
    if "v \<in> {AStr ''a,b'', AInt 0}" for v
    using that by (auto simp: report_knob_def keeps_def Let_def andthen_def acts prints_def outcome_repr_def failed_def quiet_ctx_def example_ctx_def
        char_count_def is_continuation_def)
  have "block (attempt quiet_tool probe) = attempt quiet_tool probe" using assms(2) quiet_blocks[OF assms(1)] by blast
  with assms(3) r show ?thesis
    unfolding try_knob_def by (auto intro!: keeps_andthen[OF quiet_outcomes(1)] keeps_andthen[OF quiet_outcomes(2)])
qed

lemma quiet_requests:
  assumes "mo_control srv \<noteq> None"
  shows "returns (big_reply (cx_ask quiet_ctx) srv n p)" "returns (reset (cx_ask quiet_ctx) srv)"
    "returns (set_vxi11_faults (cx_ask quiet_ctx) env srv config)" "returns (server_message_types quiet_ctx srv)"
    "returns (writes (cx_ask quiet_ctx) srv None)"
  by (simp_all add: keeps_def big_reply_def reset_def set_vxi11_faults_def forget_def server_message_types_def hislip_messages_def writes_def
      observed_def get_list_def item_def andthen_def acts bindr_def events_of_def quiet_command[OF assms])

lemma quiet_count:
  assumes "mo_control srv \<noteq> None"
  shows "returns (count_writes quiet_ctx quiet_tool srv res config)"
proof -
  have "returns (inst_write quiet_ctx s)" for s
    by (simp add: keeps_def inst_write_def effect_def quiet_ctx_def example_ctx_def example_client_def)
  with quiet_requests[OF assms] have "returns (case config of None \<Rightarrow> ret () | Some c \<Rightarrow> set_vxi11_faults (cx_ask quiet_ctx) (cx_environ quiet_ctx) srv c)"
    "\<And>s. returns (inst_write quiet_ctx s)" by (simp_all split: option.split)
  with quiet_requests[OF assms] have "returns (session_on quiet_ctx res (
       andthen (reset (cx_ask quiet_ctx) srv) (\<lambda>_.
       andthen (case config of None \<Rightarrow> ret () | Some c \<Rightarrow> set_vxi11_faults (cx_ask quiet_ctx) (cx_environ quiet_ctx) srv c) (\<lambda>_.
       andthen (inst_write quiet_ctx (''TEST:SILENT? '' @ replicate 400 CHR ''x'')) (\<lambda>_.
       andthen (change (to_sleep quiet_tool (2 / 10))) (\<lambda>_.
       andthen (writes (cx_ask quiet_ctx) srv None) (\<lambda>ws. ret (Some (length ws)))))))))"
    unfolding quiet_session[abs_def] by (intro returns_andthen returns_simps)
  then show ?thesis by (auto simp: keeps_def count_writes_def catch_def)
qed

lemma quiet_bodies:
  assumes "mo_control srv \<noteq> None" "map_of (mo_ports srv) ''vxi11_resource'' = Some (JStr v)" "map_of (mo_ports srv) ''hislip_resource'' = Some (JStr h)"
  shows "returns (over_vxi11 quiet_ctx quiet_tool srv)" "returns (over_hislip quiet_ctx quiet_tool srv)"
proof -
  have r: "resource_at ''vxi11_resource'' srv = ret v" "resource_at ''hislip_resource'' srv = ret h"
    using assms by (simp_all add: resource_at_def item_def)
  have s: "returns (suppressed m)" if "returns m" for m
    using that by (auto simp: keeps_def suppressed_def catch_def)
  have q: "returns (query_on quiet_ctx h q)" for q
    by (simp add: query_on_def keeps_def quiet_session) (simp add: inst_query_def andthen_def acts quiet_ctx_def example_ctx_def example_client_def)
  note steps = returns_andthen returns_simps quiet_requests[OF assms(1)] quiet_knob[OF assms(1)] quiet_count[OF assms(1)] s q
  show "returns (over_vxi11 quiet_ctx quiet_tool srv)"
    unfolding over_vxi11_def r andthen_ret Let_def try_max_recv_size_def by (intro steps; blast)
  show "returns (over_hislip quiet_ctx quiet_tool srv)"
    unfolding over_hislip_def r andthen_ret Let_def by (intro steps; blast)
qed

theorem verify_exit_code_witness:
  "\<exists>c results. verify_main quiet_ctx quiet_tool \<lparr>rv_spec = undefined, rv_locator = None, rv_available = True, rv_reason = []\<rparr> () =
      (Inr (c, results), ()) \<and> map fst results = knob_names"
proof -
  let ?backend = "\<lparr>rv_spec = undefined, rv_locator = None, rv_available = True, rv_reason = []\<rparr>"
  have m: "returns (mock_server (to_os quiet_tool) (to_env quiet_tool) default_mock body)"
    if "\<And>srv. mo_control srv \<noteq> None \<Longrightarrow> map_of (mo_ports srv) ''vxi11_resource'' = Some (JStr ''V'') \<Longrightarrow>
      map_of (mo_ports srv) ''hislip_resource'' = Some (JStr ''H'') \<Longrightarrow> returns (body srv)" for body
    using that
    by (auto simp: keeps_def mock_server_def start_def stop_def Let_def quiet_tool_def example_server_env_def binary_path_def ports_of_def
        close_opt_def control_port_def split: prod.split)
  have "returns (verify_main quiet_ctx quiet_tool ?backend)"
    by (auto simp: verify_main_def finish_verify_def intro!: returns_andthen m quiet_bodies)
  then obtain c results where r: "verify_main quiet_ctx quiet_tool ?backend () = (Inr (c, results), ())"
    by (auto simp: keeps_def)
  with verify_exit_code[of ?backend quiet_ctx quiet_tool "()" c results "()"] show ?thesis by auto
qed

end
