(* ===== verification/Attributes.thy ===== *)
theory Attributes
  imports Probe
begin

text \<open>
  \<^verbatim>\<open>checks/15_required_attributes.py\<close>: the attributes a session is required to have. An attribute is named by the member
  of pyvisa's \<^verbatim>\<open>ResourceAttribute\<close>.
\<close>

section \<open>The lists\<close>

definition ALL_INSTR :: "(string \<times> string) list" where
  "ALL_INSTR =
     [(''VI_ATTR_INTF_TYPE'', ''interface_type''), (''VI_ATTR_INTF_INST_NAME'', ''interface_instrument_name''),
      (''VI_ATTR_TMO_VALUE'', ''timeout_value''), (''VI_ATTR_INTF_NUM'', ''interface_number''),
      (''VI_ATTR_DMA_ALLOW_EN'', ''dma_allow_enabled'')]"

definition UNIVERSALLY_ABSENT :: "(string \<times> string) list" where
  "UNIVERSALLY_ABSENT = [(''VI_ATTR_TRIG_ID'', ''trigger_id'')]"

definition MESSAGE_BASED :: "(string \<times> string) list" where
  "MESSAGE_BASED =
     [(''VI_ATTR_IO_PROT'', ''io_prot''), (''VI_ATTR_SEND_END_EN'', ''send_end_enabled''),
      (''VI_ATTR_SUPPRESS_END_EN'', ''suppress_end_enabled''), (''VI_ATTR_TERMCHAR'', ''termchar''),
      (''VI_ATTR_TERMCHAR_EN'', ''termchar_enabled''), (''VI_ATTR_RD_BUF_OPER_MODE'', ''read_buffer_operation_mode''),
      (''VI_ATTR_WR_BUF_OPER_MODE'', ''write_buffer_operation_mode''), (''VI_ATTR_FILE_APPEND_EN'', ''file_append_enabled'')]"

definition TCPIP_INSTR :: "(string \<times> string) list" where
  "TCPIP_INSTR =
     [(''VI_ATTR_TCPIP_ADDR'', ''tcpip_address''), (''VI_ATTR_TCPIP_HOSTNAME'', ''tcpip_hostname''),
      (''VI_ATTR_TCPIP_IS_HISLIP'', ''tcpip_is_hislip''), (''VI_ATTR_TCPIP_DEVICE_NAME'', ''tcpip_device_name'')]"

definition HISLIP_INSTR :: "(string \<times> string) list" where
  "HISLIP_INSTR =
     [(''VI_ATTR_TCPIP_PORT'', ''tcpip_port''), (''VI_ATTR_TCPIP_NODELAY'', ''tcpip_nodelay''),
      (''VI_ATTR_TCPIP_KEEPALIVE'', ''tcpip_keepalive''),
      (''VI_ATTR_TCPIP_HISLIP_OVERLAP_EN'', ''tcpip_hislip_overlap_enable''),
      (''VI_ATTR_TCPIP_HISLIP_VERSION'', ''tcpip_hislip_version''),
      (''VI_ATTR_TCPIP_HISLIP_MAX_MESSAGE_KB'', ''tcpip_hislip_max_message_kb'')]"

section \<open>Probing\<close>

definition absent_status :: "'w ctx \<Rightarrow> status \<Rightarrow> bool" where
  "absent_status cx st \<longleftrightarrow> st \<in> {code cx ''error_nonsupported_attribute'', NOT_IMPLEMENTED}"

definition stuck_status :: "'w ctx \<Rightarrow> status \<Rightarrow> bool" where
  "stuck_status cx st \<longleftrightarrow>
     st \<in> {code cx ''error_nonsupported_attribute'', code cx ''error_nonsupported_attribute_state'',
           code cx ''error_attribute_read_only'', NOT_IMPLEMENTED}"

definition missing_one :: "'w ctx \<Rightarrow> string \<times> string \<Rightarrow> ('w, string list) act" where
  \<comment> \<open>one turn of the loop\<close>
  "missing_one cx req =
     andthen (get_attribute cx (snd req)) (\<lambda>r. ret (if absent_status cx (snd r) then [fst req] else []))"

definition missing :: "'w ctx \<Rightarrow> (string \<times> string) list \<Rightarrow> ('w, string list) act" where
  "missing cx required = for_concat required (missing_one cx)"

definition read_only_one :: "'w ctx \<Rightarrow> string \<times> string \<Rightarrow> ('w, string list) act" where
  "read_only_one cx req =
     andthen (get_attribute cx (snd req)) (\<lambda>got.
     if absent_status cx (snd got) then ret []
     else andthen (set_attribute cx (snd req) (value_of (fst got))) (\<lambda>set.
       ret (if stuck_status cx (snd set) then [fst req @ '' ('' @ repr_status cx (snd set) @ '')''] else [])))"

definition read_only :: "'w ctx \<Rightarrow> (string \<times> string) list \<Rightarrow> ('w, string list) act" where
  "read_only cx required = for_concat required (read_only_one cx)"

section \<open>The checks\<close>

definition check_trig_id_universally_absent :: "'w ctx \<Rightarrow> ('w, string) act" where
  "check_trig_id_universally_absent cx =
     open_inst cx (andthen (missing cx UNIVERSALLY_ABSENT) (\<lambda>absent.
       ret (if absent = []
            then ''VI_ATTR_TRIG_ID is supported here, which no implementation did when this was written -- worth a look''
            else ''absent, as in every implementation measured'')))"

definition none_absent :: "string list \<Rightarrow> (string \<times> string) list \<Rightarrow> ('w, unit) act" where
  "none_absent absent required =
     assert_that (absent = [])
       (str_nat (length absent) @ '' of '' @ str_nat (length required) @ '' required attributes are unsupported: '' @
        join '', '' absent)"

definition all_present :: "(string \<times> string) list \<Rightarrow> string" where
  "all_present required = ''all '' @ str_nat (length required) @ '' present''"

definition check_all_instr_attributes :: "'w ctx \<Rightarrow> ('w, string) act" where
  "check_all_instr_attributes cx =
     open_inst cx (andthen (missing cx ALL_INSTR) (\<lambda>absent.
       andthen (none_absent absent ALL_INSTR) (\<lambda>_. ret (all_present ALL_INSTR))))"

definition check_message_based_attributes :: "'w ctx \<Rightarrow> ('w, string) act" where
  "check_message_based_attributes cx =
     open_inst cx (andthen (missing cx MESSAGE_BASED) (\<lambda>absent.
       andthen (none_absent absent MESSAGE_BASED) (\<lambda>_.
       andthen (read_only cx MESSAGE_BASED) (\<lambda>stuck.
       if stuck \<noteq> []
       then andthen (change (cx_note cx (''present but not writable, though 5.1.12's attributes are all R/W: '' @ join '', '' stuck)))
              (\<lambda>_. ret (all_present MESSAGE_BASED @ '', '' @ str_nat (length stuck) @ '' read-only''))
       else ret (all_present MESSAGE_BASED)))))"

definition check_tcpip_attributes :: "'w ctx \<Rightarrow> ('w, string) act" where
  "check_tcpip_attributes cx =
     open_inst cx (andthen (missing cx TCPIP_INSTR) (\<lambda>absent.
       andthen (none_absent absent TCPIP_INSTR) (\<lambda>_. ret (all_present TCPIP_INSTR))))"

definition check_hislip_attributes :: "'w ctx \<Rightarrow> ('w, string) act" where
  "check_hislip_attributes cx =
     open_inst cx (andthen (missing cx HISLIP_INSTR) (\<lambda>absent.
       andthen (none_absent absent HISLIP_INSTR) (\<lambda>_. ret (all_present HISLIP_INSTR))))"

definition transport_name :: "bool \<Rightarrow> string" where
  "transport_name hislip = (if hislip then ''HiSLIP'' else ''VXI-11'')"

definition check_is_hislip_correct :: "'w ctx \<Rightarrow> ('w, string) act" where
  "check_is_hislip_correct cx =
     open_inst cx (andthen (get_attribute cx ''tcpip_is_hislip'') (\<lambda>(v, st).
       andthen (assert_that (st = code cx ''success'')
         (''VI_ATTR_TCPIP_IS_HISLIP is not readable ('' @ repr_status cx st @
          ''); 5.1.16 requires it on every TCPIP INSTR session'')) (\<lambda>_.
       let expected = (cx_protocol cx = ''hislip'')
       in andthen (assert_that (truthy_value (value_of v) = expected)
            (''the resource is '' @ py_repr (cx_resource cx) @ '', so 5.1.29/5.1.30 make this '' @ transport_name expected @
             '', but VI_ATTR_TCPIP_IS_HISLIP reads '' @ cx_repr_value cx (value_of v))) (\<lambda>_.
          ret (''the resource is '' @ py_repr (cx_resource cx) @ '', so this is '' @ transport_name expected @
               ''; VI_ATTR_TCPIP_IS_HISLIP reads '' @ cx_repr_value cx (value_of v))))))"

definition check_srq_event_supported :: "'w ctx \<Rightarrow> ('w, string) act" where
  "check_srq_event_supported cx =
     open_inst cx (andthen (lib_status ''enable_event'' (cl_op (cx_client cx) ''enable_event'' ''SRQ, QUEUE'')) (\<lambda>st.
       andthen (if st = code cx ''success''
                then andthen (lib_status ''disable_event'' (cl_op (cx_client cx) ''disable_event'' ''SRQ, QUEUE'')) (\<lambda>_. ret ())
                else ret ()) (\<lambda>_.
       andthen (assert_that (st = code cx ''success'') (''enabling VI_EVENT_SERVICE_REQ returned '' @ repr_status cx st)) (\<lambda>_.
       ret (''viEnableEvent(VI_EVENT_SERVICE_REQ) returned '' @ repr_status cx st)))))"

definition check_interface_type :: "'w ctx \<Rightarrow> ('w, string) act" where
  "check_interface_type cx =
     open_inst cx (andthen (get_attribute cx ''interface_type'') (\<lambda>(v, st).
       andthen (assert_that (st = code cx ''success'') (''VI_ATTR_INTF_TYPE is not readable ('' @ repr_status cx st @ '')'')) (\<lambda>_.
       andthen (assert_that (value_of v = AInt (cx_code cx ''InterfaceType.tcpip''))
         (''expected VI_INTF_TCPIP, got '' @ cx_repr_value cx (value_of v))) (\<lambda>_.
       ret (''VI_ATTR_INTF_TYPE reads '' @ cx_repr_value cx (value_of v))))))"

section \<open>Verdicts\<close>

text \<open>A library whose attributes can be read in any order and written back: \<open>ans\<close> is what each answers.\<close>

definition steady :: "'w ctx \<Rightarrow> ('w \<Rightarrow> bool) \<Rightarrow> (string \<Rightarrow> attr_value option \<times> status) \<Rightarrow> bool" where
  "steady cx I ans \<longleftrightarrow>
     (\<forall>a. keeps I (get_attribute cx a) (\<lambda>r. r = ans a)) \<and>
     (\<forall>a. keeps I (set_attribute cx a (value_of (fst (ans a)))) (\<lambda>_. True))"

lemma missing_steady:
  assumes "steady cx I ans"
  shows "keeps I (missing cx required)
    (\<lambda>absent. absent = concat (map (\<lambda>req. if absent_status cx (snd (ans (snd req))) then [fst req] else []) required))"
  unfolding missing_def
proof (rule keeps_for_concat)
  fix req :: "string \<times> string"
  have "keeps I (get_attribute cx (snd req)) (\<lambda>r. r = ans (snd req))" using assms by (simp add: steady_def)
  then show "keeps I (missing_one cx req) (\<lambda>y. y = (if absent_status cx (snd (ans (snd req))) then [fst req] else []))"
    unfolding missing_one_def by (rule keeps_andthen) (simp add: keeps_ret)
qed

lemma read_only_one_returns:
  assumes "steady cx I ans"
  shows "keeps I (read_only_one cx req) (\<lambda>_. True)"
  unfolding read_only_one_def
proof (rule keeps_andthen)
  show "keeps I (get_attribute cx (snd req)) (\<lambda>r. r = ans (snd req))" using assms by (simp add: steady_def)
  have "keeps I (set_attribute cx (snd req) (value_of (fst (ans (snd req))))) (\<lambda>_. True)"
    using assms by (simp add: steady_def)
  then have "keeps I (andthen (set_attribute cx (snd req) (value_of (fst (ans (snd req))))) (\<lambda>x. ret (h x))) (\<lambda>_. True)" for h :: "unit option \<times> status \<Rightarrow> string list"
    by (rule keeps_andthen) (simp add: keeps_ret)
  then show "keeps I (if absent_status cx (snd got) then ret []
     else andthen (set_attribute cx (snd req) (value_of (fst got))) (\<lambda>set.
       ret (if stuck_status cx (snd set) then [fst req @ '' ('' @ repr_status cx (snd set) @ '')''] else []))) (\<lambda>_. True)"
    if "got = ans (snd req)" for got
    using that by (simp add: keeps_ret)
qed

lemma keeps_for_each_True: "(\<And>x. keeps I (f x) (\<lambda>_. True)) \<Longrightarrow> keeps I (for_each xs f) (\<lambda>_. True)"
proof (induction xs)
  case (Cons x xs)
  then have "keeps I (for_each xs f) (\<lambda>_. True)" by simp
  then have "keeps I (andthen (for_each xs f) (\<lambda>ys. ret (y # ys))) (\<lambda>_. True)" for y
    by (rule keeps_andthen) (simp add: keeps_ret)
  with Cons.prems[of x] show ?case by (simp add: keeps_andthen)
qed (simp add: keeps_ret)

lemma read_only_returns: "steady cx I ans \<Longrightarrow> keeps I (read_only cx required) (\<lambda>_. True)"
  unfolding read_only_def for_concat_def
  by (rule keeps_andthen[OF keeps_for_each_True[OF read_only_one_returns]]) (auto simp: keeps_ret)

lemma absent_none_iff:
  "concat (map (\<lambda>req. if P (snd req) then [fst req] else []) required) = [] \<longleftrightarrow> list_all (\<lambda>req. \<not> P (snd req)) required"
  by (induction required) auto

lemma none_absent_verdict:
  "verdict (andthen (none_absent absent required) f w) = (if absent = [] then verdict (f () w) else FAIL)"
  by (simp add: none_absent_def assert_that_def andthen_def ret_def throw_def)

definition all_supported :: "'w ctx \<Rightarrow> (string \<Rightarrow> attr_value option \<times> status) \<Rightarrow> (string \<times> string) list \<Rightarrow> bool" where
  "all_supported cx ans required =
     list_all (\<lambda>(name, a). snd (ans a) \<noteq> NOT_IMPLEMENTED \<and> snd (ans a) \<noteq> code cx ''error_nonsupported_attribute'') required"

lemma required_verdict:
  assumes "steady cx I ans" "I w" "\<And>w1. I w1 \<Longrightarrow> verdict (f w1) = PASS"
  shows "verdict (andthen (missing cx required) (\<lambda>absent. andthen (none_absent absent required) (\<lambda>_. f)) w) =
    (if all_supported cx ans required then PASS else FAIL)"
  by (rule keeps_verdict[OF missing_steady[OF assms(1)] assms(2)])
    (simp only: none_absent_verdict assms(3), subst absent_none_iff[of "\<lambda>a. absent_status cx (snd (ans a))"],
      auto simp: all_supported_def absent_status_def list_all_iff split: if_splits)

text \<open>The attribute checks say what the library does. On a session that can be entered, with attributes that can be
  read in any order and take back the value they gave, each of the four checks passes if every attribute of its list
  answers with a status other than "not supported", and fails if one does not; a read-only attribute is no
  failure.\<close>

theorem attribute_checks_verdict:
  assumes "enters cx I (cx_resource cx) w" "steady cx I ans" "\<And>t w. I w \<Longrightarrow> I (cx_note cx t w)"
  shows "verdict (check_all_instr_attributes cx w) = (if all_supported cx ans ALL_INSTR then PASS else FAIL) \<and>
    verdict (check_message_based_attributes cx w) = (if all_supported cx ans MESSAGE_BASED then PASS else FAIL) \<and>
    verdict (check_tcpip_attributes cx w) = (if all_supported cx ans TCPIP_INSTR then PASS else FAIL) \<and>
    verdict (check_hislip_attributes cx w) = (if all_supported cx ans HISLIP_INSTR then PASS else FAIL)"
proof (intro conjI)
  let ?tail = "andthen (read_only cx MESSAGE_BASED) (\<lambda>stuck.
       if stuck \<noteq> []
       then andthen (change (cx_note cx (''present but not writable, though 5.1.12's attributes are all R/W: '' @ join '', '' stuck)))
              (\<lambda>_. ret (all_present MESSAGE_BASED @ '', '' @ str_nat (length stuck) @ '' read-only''))
       else ret (all_present MESSAGE_BASED))"
  have "verdict (?tail w1) = PASS" if "I w1" for w1
    by (rule keeps_verdict[OF read_only_returns[OF assms(2)] that]) (simp add: andthen_def change_def ret_def)
  then show "verdict (check_message_based_attributes cx w) = (if all_supported cx ans MESSAGE_BASED then PASS else FAIL)"
    unfolding check_message_based_attributes_def open_inst_def
    by (intro session_verdict[OF assms(1)] required_verdict[OF assms(2)])
qed (unfold check_all_instr_attributes_def check_tcpip_attributes_def check_hislip_attributes_def open_inst_def,
     (intro session_verdict[OF assms(1)] required_verdict[OF assms(2)]; simp add: ret_def)+)

lemma example_steady: "steady example_ctx (\<lambda>_. True) (\<lambda>_. (Some (AInt 1), StatusCode 0))"
  by (simp add: steady_def keeps_def get_attribute_def set_attribute_def lib_call_def call_def example_ctx_def example_client_def)

theorem attribute_checks_verdict_witness:
  "verdict (check_all_instr_attributes example_ctx ()) = PASS \<and> verdict (check_hislip_attributes example_ctx ()) = PASS"
proof -
  have "all_supported (example_ctx :: unit ctx) (\<lambda>_. (Some (AInt 1), StatusCode 0)) required" for required
    by (auto simp: all_supported_def code_def list_all_iff example_ctx_def)
  with attribute_checks_verdict[OF example_enters example_steady, of "()"] show ?thesis by simp
qed

end
