(* ===== verification/Operations.thy ===== *)
theory Operations
  imports Probe
begin

text \<open>
  \<^verbatim>\<open>checks/16_operations.py\<close>: the operations a session must have, and the statuses a read is forbidden to return. The width of
  a pointer and which members pyvisa's \<^verbatim>\<open>ResourceAttribute\<close> has are arguments of the one check that asks.
\<close>

section \<open>The checks\<close>

definition REQUIRED_OPERATIONS :: "string list" where
  "REQUIRED_OPERATIONS = [''read'', ''write'', ''assert_trigger'', ''read_stb'', ''clear'', ''flush'']"

definition check_required_operations :: "'w ctx \<Rightarrow> ('w, string) act" where
  "check_required_operations cx =
     open_inst cx (let missing = filter (\<lambda>name. \<not> cl_has (cx_client cx) name) REQUIRED_OPERATIONS
       in andthen (assert_that (missing = [])
            (''the backend has no '' @ join '', '' missing @ ''; 5.1.72 requires '' @
             str_nat (length REQUIRED_OPERATIONS) @ '' operations of a TCPIP INSTR resource'')) (\<lambda>_.
          ret (''all '' @ str_nat (length REQUIRED_OPERATIONS) @ '' present'')))"

definition probes :: "(string \<times> string) list" where
  "probes = [(''read_stb'', []), (''clear'', []), (''flush'', ''discard_read_buffer''), (''assert_trigger'', ''default'')]"

definition probe_one :: "'w ctx \<Rightarrow> string \<times> string \<Rightarrow> ('w, string list) act" where
  "probe_one cx p =
     andthen (lib_op cx (fst p) (snd p)) (\<lambda>st. ret (if st = NOT_IMPLEMENTED then [fst p] else []))"

definition check_operations_return_status :: "'w ctx \<Rightarrow> ('w, string) act" where
  "check_operations_return_status cx =
     open_inst cx (andthen (for_concat probes (probe_one cx)) (\<lambda>raised.
       andthen (assert_that (raised = [])
         (join '', '' raised @ '' raised a Python exception rather than returning a VISA status. An unimplemented operation owes the '' @
          ''caller VI_ERROR_NSUP_OPER; an exception crossing the VISA boundary cannot be caught by anyone who had no reason to expect it'')) (\<lambda>_.
       andthen (drained cx) (\<lambda>_.
       ret (str_nat (length probes) @ '' operations probed ('' @ join '', '' (map fst probes) @ ''), all returned a status'')))))"

definition restore_end :: "'w ctx \<Rightarrow> ('w, unit) act" where
  \<comment> \<open>the \<^verbatim>\<open>finally\<close> of the next check\<close>
  "restore_end cx =
     andthen (set_attribute cx ''suppress_end_enabled'' (ABool False)) (\<lambda>_.
     andthen (set_attribute cx ''termchar_enabled'' (ABool False)) (\<lambda>_. drained cx))"

definition read_data :: "'w ctx \<Rightarrow> ('w, string option \<times> status) act" where
  "read_data cx = lib_call ''read'' (cl_read (cx_client cx) 4096)"

definition read_length :: "string option \<Rightarrow> string" where
  "read_length data = str_nat (case data of None \<Rightarrow> 0 | Some d \<Rightarrow> length d)"

definition read_suppressed :: "'w ctx \<Rightarrow> ('w, string) act" where
  "read_suppressed cx =
     andthen (set_visa_attribute cx ''termchar_enabled'' (ABool True)) (\<lambda>_.
     andthen (set_visa_attribute cx ''termchar'' (AInt 10)) (\<lambda>_.
     andthen (lib_write cx (''*IDN?'' @ nl)) (\<lambda>_.
     andthen (read_data cx) (\<lambda>r.
     andthen (assert_that (snd r \<noteq> code cx ''success'')
       (''viRead returned VI_SUCCESS with VI_ATTR_SUPPRESS_END_EN set, having read '' @ read_length (fst r) @
        '' bytes. VI_SUCCESS means END terminated the read, and END is exactly what was suppressed'')) (\<lambda>_.
     ret (repr_status cx (snd r)))))))"

definition check_suppress_end_forbids_success :: "'w ctx \<Rightarrow> ('w, string) act" where
  "check_suppress_end_forbids_success cx =
     open_inst cx (andthen (set_attribute cx ''suppress_end_enabled'' (ABool True)) (\<lambda>r.
       if snd r \<noteq> code cx ''success''
       then throw (Skip (''VI_ATTR_SUPPRESS_END_EN is not settable here ('' @ repr_status cx (snd r) @
              ''), so 6.1.4's premise cannot be established''))
       else at_exit (read_suppressed cx) (restore_end cx)))"

definition termchar_round :: "'w ctx \<Rightarrow> ('w, status) act" where
  "termchar_round cx =
     andthen (lib_write cx (''*IDN?'' @ nl)) (\<lambda>_.
     andthen (read_data cx) (\<lambda>r.
     andthen (assert_that (snd r \<noteq> code cx ''success_termination_character_read'')
       (''viRead returned VI_SUCCESS_TERM_CHAR with VI_ATTR_TERMCHAR_EN false, having read '' @ read_length (fst r) @ '' bytes'')) (\<lambda>_.
     ret (snd r))))"

definition check_termchar_off_forbids_term_char_status :: "'w ctx \<Rightarrow> ('w, string) act" where
  "check_termchar_off_forbids_term_char_status cx =
     open_inst cx (andthen (set_visa_attribute cx ''termchar_enabled'' (ABool False)) (\<lambda>_.
       andthen (for_each [0..<3] (\<lambda>_. termchar_round cx)) (\<lambda>sts.
       ret (repr_status cx (last sts)))))"

definition check_clear_flushes_buffers :: "'w ctx \<Rightarrow> ('w, string) act" where
  "check_clear_flushes_buffers cx =
     andthen (server_or_skip cx ''needs the mock server'') (\<lambda>srv.
     andthen (respond (cx_ask cx) srv ''TEST:LINES?'' (Some ''stale-marker'') 0) (\<lambda>_.
     open_inst cx (andthen (inst_query cx ''*IDN?'') (\<lambda>idn0. let idn = strip idn0 in
       andthen (lib_write cx (''TEST:LINES?'' @ nl)) (\<lambda>_.
       andthen (inst_clear cx) (\<lambda>_.
       andthen (inst_query cx ''*IDN?'') (\<lambda>after0. let after = strip after0 in
       andthen (assert_that (after = idn)
         (''after viClear the next query returned '' @ py_repr after @ '' rather than '' @ py_repr idn @
          ''; the uncollected response survived the clear'')) (\<lambda>_.
       ret (''the query after the clear returned '' @ py_repr after)))))))))"

definition ren_modes :: "(string \<times> string) list" where
  "ren_modes =
     [(''VI_GPIB_REN_DEASSERT_GTL'', ''deassert_gtl''), (''VI_GPIB_REN_ASSERT_ADDRESS'', ''asrt_address''),
      (''VI_GPIB_REN_ASSERT_ADDRESS_LLO'', ''asrt_address_llo''), (''VI_GPIB_REN_ADDRESS_GTL'', ''address_gtl'')]"

definition ren_one :: "'w ctx \<Rightarrow> string \<times> string \<Rightarrow> ('w, string list) act" where
  "ren_one cx p =
     andthen (lib_op cx ''gpib_control_ren'' (snd p)) (\<lambda>st.
     ret (if st \<noteq> code cx ''success'' then [fst p @ '' ('' @ repr_status cx st @ '')''] else []))"

definition check_required_ren_modes :: "'w ctx \<Rightarrow> ('w, string) act" where
  "check_required_ren_modes cx =
     open_inst cx (andthen (for_concat ren_modes (ren_one cx)) (\<lambda>refused.
       andthen (lib_op cx ''gpib_control_ren'' ''asrt_address'') (\<lambda>_.
       andthen (assert_that (refused = [])
         (str_nat (length refused) @ '' of the four modes 6.5.6 requires were refused: '' @ join '', '' refused)) (\<lambda>_.
       ret ''all four supported''))))"

definition check_flush_empty_buffer :: "'w ctx \<Rightarrow> ('w, string) act" where
  "check_flush_empty_buffer cx =
     open_inst cx (andthen (lib_op cx ''flush'' ''discard_read_buffer'') (\<lambda>first.
       if first = NOT_IMPLEMENTED then throw (Skip ''viFlush is not implemented on this transport'')
       else andthen (lib_op cx ''flush'' ''discard_read_buffer'') (\<lambda>second.
         andthen (assert_that (second = first)
           (''flushing an already-empty buffer returned '' @ repr_status cx second @ '' where the first flush returned '' @
            repr_status cx first)) (\<lambda>_.
         andthen (inst_query cx ''*IDN?'') (\<lambda>reply.
         andthen (assert_that (strip reply \<noteq> []) ''the session broke after two flushes'') (\<lambda>_.
         ret (repr_status cx second)))))))"

definition check_user_data_consistency :: "nat \<Rightarrow> (string \<Rightarrow> bool) \<Rightarrow> 'w ctx \<Rightarrow> ('w, string) act" where
  "check_user_data_consistency pointer_size has_member cx =
     (let sixty_four = (pointer_size = 8);
          twin_name = (if sixty_four then ''VI_ATTR_USER_DATA_64'' else ''VI_ATTR_USER_DATA_32'');
          twin = (if sixty_four then ''user_data_64'' else ''user_data_32'')
      in if \<not> has_member twin
         then throw (Skip (''pyvisa exposes no '' @ twin_name @ ''; 3.2.7/3.2.8 cannot be checked '' @
                ''through this API, and the gap is pyvisa's rather than a backend's''))
         else open_inst cx (andthen (set_attribute cx ''user_data'' (AInt 0x5A5A)) (\<lambda>r.
           if snd r \<noteq> code cx ''success''
           then throw (Skip (''VI_ATTR_USER_DATA is not writeable here ('' @ repr_status cx (snd r) @ '')''))
           else andthen (get_attribute cx ''user_data'') (\<lambda>plain.
             andthen (get_attribute cx twin) (\<lambda>sized.
             andthen (assert_that (snd sized = code cx ''success'')
               (twin_name @ '' is not readable ('' @ repr_status cx (snd sized) @ '') on a '' @
                (if sixty_four then ''64'' else ''32'') @ ''-bit framework'')) (\<lambda>_.
             andthen (assert_that (snd plain = code cx ''success'' \<and> value_of (fst plain) = value_of (fst sized))
               (''VI_ATTR_USER_DATA reads '' @ cx_repr_value cx (value_of (fst plain)) @ '' but '' @ twin_name @ '' reads '' @
                cx_repr_value cx (value_of (fst sized)) @ ''; they name one storage slot'')) (\<lambda>_.
             ret (cx_repr_value cx (value_of (fst plain)) @ '' through both names''))))))))"

section \<open>Verdicts\<close>

text \<open>A library whose operations answer with the same status whenever they are asked.\<close>

definition steady_ops :: "'w ctx \<Rightarrow> ('w \<Rightarrow> bool) \<Rightarrow> (string \<Rightarrow> string \<Rightarrow> status) \<Rightarrow> bool" where
  "steady_ops cx I st \<longleftrightarrow> (\<forall>name arg. keeps I (lib_op cx name arg) (\<lambda>s. s = st name arg))"

lemma keeps_probe:
  fixes ps :: "(string \<times> string) list"
  assumes "steady_ops cx I st"
  shows "keeps I (for_concat ps (\<lambda>p. andthen (lib_op cx (f p) (snd p)) (\<lambda>s. ret (g p s))))
    (\<lambda>ys. ys = concat (map (\<lambda>p. g p (st (f p) (snd p))) ps))"
proof (rule keeps_for_concat)
  fix p :: "string \<times> string"
  have "keeps I (lib_op cx (f p) (snd p)) (\<lambda>s. s = st (f p) (snd p))" using assms by (simp add: steady_ops_def)
  then show "keeps I (andthen (lib_op cx (f p) (snd p)) (\<lambda>s. ret (g p s))) (\<lambda>y. y = g p (st (f p) (snd p)))"
    by (rule keeps_andthen) (simp add: keeps_ret)
qed

lemma raised_none_iff:
  "concat (map (\<lambda>p. if P p then [h p] else []) ps) = [] \<longleftrightarrow> list_all (\<lambda>p. \<not> P p) ps"
  by (induction ps) auto

lemma probes_verdict:
  assumes "steady_ops cx I st" "I w" "\<And>w1. I w1 \<Longrightarrow> verdict (f w1) = PASS"
  shows "verdict (andthen (for_concat probes (probe_one cx)) (\<lambda>raised. andthen (assert_that (raised = []) (msg raised)) (\<lambda>_. f)) w) =
    (if list_all (\<lambda>p. st (fst p) (snd p) \<noteq> NOT_IMPLEMENTED) probes then PASS else FAIL)"
proof -
  have k: "keeps I (for_concat probes (probe_one cx))
      (\<lambda>ys. ys = concat (map (\<lambda>p. if st (fst p) (snd p) = NOT_IMPLEMENTED then [fst p] else []) probes))"
    unfolding probe_one_def by (rule keeps_probe[OF assms(1)])
  show ?thesis
    by (rule keeps_verdict[OF k assms(2)]) (simp only: assert_verdict assms(3) raised_none_iff)
qed

lemma ren_verdict:
  assumes "steady_ops cx I st" "I w"
  shows "verdict (andthen (for_concat ren_modes (ren_one cx)) (\<lambda>refused.
       andthen (lib_op cx ''gpib_control_ren'' ''asrt_address'') (\<lambda>_.
       andthen (assert_that (refused = []) (msg refused)) (\<lambda>_. ret d))) w) =
    (if list_all (\<lambda>p. st ''gpib_control_ren'' (snd p) = code cx ''success'') ren_modes then PASS else FAIL)"
proof -
  have k: "keeps I (for_concat ren_modes (ren_one cx))
      (\<lambda>ys. ys = concat (map (\<lambda>p. if st ''gpib_control_ren'' (snd p) \<noteq> code cx ''success''
         then [fst p @ '' ('' @ repr_status cx (st ''gpib_control_ren'' (snd p)) @ '')''] else []) ren_modes))"
    unfolding ren_one_def by (rule keeps_probe[OF assms(1)])
  have op: "keeps I (lib_op cx ''gpib_control_ren'' ''asrt_address'') (\<lambda>_. True)"
    using assms(1) unfolding steady_ops_def by (blast intro: keeps_weaken)
  have iff: "(concat (map (\<lambda>p. if st ''gpib_control_ren'' (snd p) \<noteq> code cx ''success''
         then [fst p @ '' ('' @ repr_status cx (st ''gpib_control_ren'' (snd p)) @ '')''] else []) ren_modes) = []) =
      list_all (\<lambda>p. st ''gpib_control_ren'' (snd p) = code cx ''success'') ren_modes"
    by (subst raised_none_iff[of "\<lambda>p. st ''gpib_control_ren'' (snd p) \<noteq> code cx ''success''"]) simp
  show ?thesis
    by (rule keeps_verdict[OF k assms(2)], rule keeps_verdict[OF op], assumption)
      (simp only: assert_verdict iff, simp add: ret_def)
qed

text \<open>The operation checks say what the library does. On a session that can be entered, with operations that answer alike
  whenever they are asked: the presence check passes exactly if the library has every required operation; the check for
  escaping exceptions exactly if none of the probed operations is unimplemented; the check of the remote-enable modes exactly
  if all four succeed.\<close>

theorem operation_checks_verdict:
  assumes "enters cx I (cx_resource cx) w" "steady_ops cx I st" "keeps I (drained cx) (\<lambda>_. True)"
  shows "verdict (check_required_operations cx w) =
           (if list_all (cl_has (cx_client cx)) REQUIRED_OPERATIONS then PASS else FAIL) \<and>
         verdict (check_operations_return_status cx w) =
           (if list_all (\<lambda>p. st (fst p) (snd p) \<noteq> NOT_IMPLEMENTED) probes then PASS else FAIL) \<and>
         verdict (check_required_ren_modes cx w) =
           (if list_all (\<lambda>p. st ''gpib_control_ren'' (snd p) = code cx ''success'') ren_modes then PASS else FAIL)"
proof (intro conjI)
  have "filter (\<lambda>n. \<not> P n) xs = [] \<longleftrightarrow> list_all P xs" for P and xs :: "string list"
    by (induction xs) auto
  then show "verdict (check_required_operations cx w) =
      (if list_all (cl_has (cx_client cx)) REQUIRED_OPERATIONS then PASS else FAIL)"
    unfolding check_required_operations_def open_inst_def Let_def
    by (intro session_verdict[OF assms(1)]) (simp only: assert_verdict, simp add: ret_def)
  show "verdict (check_operations_return_status cx w) =
      (if list_all (\<lambda>p. st (fst p) (snd p) \<noteq> NOT_IMPLEMENTED) probes then PASS else FAIL)"
    unfolding check_operations_return_status_def open_inst_def
    by (intro session_verdict[OF assms(1)] probes_verdict[OF assms(2)] keeps_verdict[OF assms(3)]) (simp_all add: ret_def)
  show "verdict (check_required_ren_modes cx w) =
      (if list_all (\<lambda>p. st ''gpib_control_ren'' (snd p) = code cx ''success'') ren_modes then PASS else FAIL)"
    unfolding check_required_ren_modes_def open_inst_def
    by (intro session_verdict[OF assms(1)] ren_verdict[OF assms(2)])
qed

theorem operation_checks_verdict_witness:
  "verdict (check_required_ren_modes example_ctx ()) = PASS \<and> verdict (check_required_operations example_ctx ()) = PASS"
proof -
  have ops: "steady_ops example_ctx (\<lambda>_. True) (\<lambda>_ _. StatusCode 0)"
    by (simp add: steady_ops_def keeps_def lib_op_def lib_status_def lib_call_def andthen_def ret_def call_def example_ctx_def example_client_def)
  have drain: "keeps (\<lambda>_. True) (drained example_ctx) (\<lambda>_. True)"
    by (simp add: keeps_def drained_def change_def)
  show ?thesis
    using operation_checks_verdict[OF example_enters ops drain, of "()"]
    by (simp add: code_def list_all_iff example_ctx_def example_client_def)
qed

end
