(* ===== verification/Resource_Names.thy ===== *)
theory Resource_Names
  imports Probe Regex
begin

text \<open>
  \<^verbatim>\<open>checks/17_resource_names.py\<close>: how a resource string is parsed and what it selects.
\<close>

section \<open>Opening by name\<close>

definition open_resource :: "'w ctx \<Rightarrow> string \<Rightarrow> ('w, unit) act" where
  "open_resource cx name =
     andthen (effect (cl_open (cx_client cx) name)) (\<lambda>_. set_timeout cx (cx_timeout cx))"

definition close_inst :: "'w ctx \<Rightarrow> ('w, unit) act" where
  "close_inst cx = suppressed (effect (i_close (cx_client cx)))"

definition answers_something :: "'w ctx \<Rightarrow> ('w, unit) act" where
  \<comment> \<open>the query both opening checks make, with the session closed afterwards\<close>
  "answers_something cx =
     at_exit (andthen (inst_query cx ''*IDN?'') (\<lambda>reply.
       assert_that (strip reply \<noteq> []) ''the session opened but answered nothing'')) (close_inst cx)"

section \<open>The checks\<close>

definition check_open_case_insensitive :: "'w ctx \<Rightarrow> ('w, string) act" where
  "check_open_case_insensitive cx =
     (let name = cx_resource cx; shouted = upper name
      in if shouted = name then throw (Skip ''the resource name has no case to change'')
         else andthen (catch ''Exception'' (open_resource cx shouted) (\<lambda>exc.
                throw (AssertionError (py_repr shouted @ '' was refused ('' @ visa_status exc @ '') while '' @ py_repr name @
                  '' opens; 4.3.17 requires the compare to be case-insensitive'')))) (\<lambda>_.
              andthen (answers_something cx) (\<lambda>_. ret shouted)))"

definition rpartition3 :: "string \<Rightarrow> string \<Rightarrow> string \<times> string \<times> string" where
  \<comment> \<open>\<^verbatim>\<open>s.rpartition(sep)\<close>\<close>
  "rpartition3 s sep =
     (case cut (rev sep) (rev s) of None \<Rightarrow> ([], [], s) | Some (a, b) \<Rightarrow> (rev b, sep, rev a))"

definition variants :: "string \<Rightarrow> (string \<times> string) list" where
  "variants name =
     (case partition3 name ''::'' of (head, _, rest) \<Rightarrow>
      case rpartition3 rest ''::'' of (body, _, suff) \<Rightarrow>
        [(''interface prefix'', lower head @ ''::'' @ body @ ''::'' @ suff),
         (''device name'', head @ ''::'' @ lower body @ ''::'' @ suff),
         (''resource class suffix'', head @ ''::'' @ body @ ''::'' @ lower suff),
         (''the whole name'', lower name)])"

definition try_variant :: "'w ctx \<Rightarrow> string \<times> string \<Rightarrow> ('w, (string \<times> string) list) act" where
  \<comment> \<open>one turn of the loop: the label and status of a variant that was refused\<close>
  "try_variant cx v =
     (if snd v = cx_resource cx then ret []
      else andthen (catch ''Exception'' (andthen (open_resource cx (snd v)) (\<lambda>_. ret None)) (\<lambda>exc. ret (Some (visa_status exc)))) (\<lambda>r.
           case r of Some st \<Rightarrow> ret [(fst v, st)] | None \<Rightarrow> andthen (close_inst cx) (\<lambda>_. ret [])))"

definition check_open_lowercase :: "'w ctx \<Rightarrow> ('w, string) act" where
  "check_open_lowercase cx =
     andthen (for_concat (variants (cx_resource cx)) (try_variant cx)) (\<lambda>refused.
     andthen (assert_that (refused = [])
       (''4.3.17 requires a case-insensitive compare, but lowercasing '' @
        join '', '' (map (\<lambda>(label, st). ''the '' @ label @ '' was refused with '' @ st) refused))) (\<lambda>_.
     ret (str_nat (length (variants (cx_resource cx))) @ '' case variants all accepted'')))"

definition not_readable :: "'w ctx \<Rightarrow> status \<Rightarrow> ('w, unit) act" where
  "not_readable cx st =
     assert_that (st = code cx ''success'') (''VI_ATTR_TCPIP_IS_HISLIP is not readable ('' @ repr_status cx st @ '')'')"

definition check_hislip_name_selects_hislip :: "'w ctx \<Rightarrow> ('w, string) act" where
  "check_hislip_name_selects_hislip cx =
     open_inst cx (andthen (get_attribute cx ''tcpip_is_hislip'') (\<lambda>r.
       andthen (not_readable cx (snd r)) (\<lambda>_.
       andthen (assert_that (truthy_value (value_of (fst r)))
         (''the device name in '' @ py_repr (cx_resource cx) @ '' starts with 'hislip' but VI_ATTR_TCPIP_IS_HISLIP reads '' @
          cx_repr_value cx (value_of (fst r)))) (\<lambda>_.
       ret (''VI_ATTR_TCPIP_IS_HISLIP reads '' @ cx_repr_value cx (value_of (fst r)))))))"

definition check_inst_name_selects_vxi11 :: "'w ctx \<Rightarrow> ('w, string) act" where
  "check_inst_name_selects_vxi11 cx =
     open_inst cx (andthen (get_attribute cx ''tcpip_is_hislip'') (\<lambda>r.
       andthen (not_readable cx (snd r)) (\<lambda>_.
       andthen (assert_that (\<not> truthy_value (value_of (fst r)))
         (''the device name in '' @ py_repr (cx_resource cx) @ '' starts with 'inst', which 4.3.7 makes VXI-11, but '' @
          ''VI_ATTR_TCPIP_IS_HISLIP reads '' @ cx_repr_value cx (value_of (fst r)))) (\<lambda>_.
       ret (''VI_ATTR_TCPIP_IS_HISLIP reads '' @ cx_repr_value cx (value_of (fst r)))))))"

definition unreachable_by_short_name :: "mock \<Rightarrow> exn + bool" where
  "unreachable_by_short_name srv =
     (if map_of (mo_ports srv) ''vxi11_port'' = Some (JNum 111) then Inr False
      else case item ''vxi11_resource'' (JObj (mo_ports srv)) of
             Inl e \<Rightarrow> Inl e
           | Inr (JStr s) \<Rightarrow> Inr (\<not> contains ''127.0.0.1::'' s \<and> \<not> mo_portmap srv)
           | Inr _ \<Rightarrow> Inl (plain_exn [''TypeError'', ''Exception'', ''BaseException''] ''in''))"

definition check_omitted_device_name :: "'w ctx \<Rightarrow> ('w, string) act" where
  "check_omitted_device_name cx =
     andthen (server_or_skip cx ''needs the mock server, whose address is known'') (\<lambda>srv.
     andthen (lift (unreachable_by_short_name srv)) (\<lambda>no.
     if no then throw (Skip (''the mock is not serving a portmapper, so a resource string with no port cannot reach it''))
     else let short = ''TCPIP::'' @ mo_host srv @ ''::INSTR''
       in andthen (catch ''Exception'' (open_resource cx short) (\<lambda>exc.
            throw (AssertionError (py_repr short @ '' was refused ('' @ visa_status exc @
              ''); 4.3.8 makes an omitted device name a VXI-11 connection'')))) (\<lambda>_.
          andthen (answers_something cx) (\<lambda>_. ret short))))"

definition octet :: rx where
  \<comment> \<open>\<^verbatim>\<open>\d{1,3}\<close>\<close>
  "octet = rx_cat [rx_digit, rx_opt (Cat rx_digit (rx_opt rx_digit))]"

definition IPV4_RE :: rx where
  "IPV4_RE = rx_cat [WordB, octet, Cat (rx_lit ''.'') octet, Cat (rx_lit ''.'') octet, Cat (rx_lit ''.'') octet, WordB]"

definition check_ipv4_host :: "'w ctx \<Rightarrow> ('w, string) act" where
  "check_ipv4_host cx =
     (let name = cx_resource cx
      in andthen (assert_that (rx_search IPV4_RE name \<noteq> None)
           (''this run is not addressed by IPv4 ('' @ py_repr name @ ''), so 4.3.4's address form is not being exercised'')) (\<lambda>_.
         andthen (session_on cx name (andthen (inst_query cx ''*IDN?'') (\<lambda>reply.
           assert_that (strip reply \<noteq> []) ''the IPv4-addressed session answered nothing''))) (\<lambda>_. ret name)))"

definition no_attribute :: "string \<Rightarrow> exn" where
  "no_attribute name = plain_exn [''AttributeError'', ''Exception'', ''BaseException''] name"

definition check_parse_matches_open :: "'w ctx \<Rightarrow> ('w, string) act" where
  "check_parse_matches_open cx =
     (let name = cx_resource cx
      in andthen (catch ''Exception'' (cl_resource_info (cx_client cx) name) (\<lambda>exc.
           throw (AssertionError (''viParseRsrc refused '' @ py_repr name @ '' ('' @ visa_status exc @ '') although viOpen accepts it'')))) (\<lambda>parsed.
         andthen (assert_that (parsed \<noteq> None) ''viParseRsrc returned nothing'') (\<lambda>_.
         andthen (catch ''Exception'' (cl_resource_info (cx_client cx) (upper name)) (\<lambda>exc.
           throw (AssertionError (''viParseRsrc refused the upper-cased name ('' @ visa_status exc @
             ''); 4.3.20 requires a case-insensitive compare'')))) (\<lambda>shouted.
         andthen (case shouted of None \<Rightarrow> throw (no_attribute ''interface_type'') | Some t \<Rightarrow> ret t) (\<lambda>t.
         andthen (assert_that (parsed = Some t) ''viParseRsrc gave different answers for the same name in different case'') (\<lambda>_.
         ret t))))))"

definition check_set_buf :: "'w ctx \<Rightarrow> ('w, string) act" where
  "check_set_buf cx =
     open_inst cx (andthen (lib_status ''set_buffer'' (cl_op (cx_client cx) ''set_buffer'' ''io_in, 8192'')) (\<lambda>st.
       if st = NOT_IMPLEMENTED
       then throw (AssertionError (''viSetBuf raised a Python exception instead of returning a status; RULE 6.2.3 makes '' @
              ''VI_WARN_NSUP_BUF the answer when the size cannot be set''))
       else andthen (assert_that (st \<in> {code cx ''success'', code cx ''warning_nonsupported_buffer'', code cx ''error_nonsupported_operation''})
              (''viSetBuf returned '' @ repr_status cx st @
               ''; RULE 6.2.3 requires VI_WARN_NSUP_BUF when the receive buffer size cannot be set'')) (\<lambda>_.
            ret (if st = code cx ''error_nonsupported_operation''
                 then repr_status cx st @ '' (viSetBuf unimplemented; the rule asks for VI_WARN_NSUP_BUF)''
                 else repr_status cx st))))"

section \<open>The variants are the same name\<close>

lemma lower_append [simp]: "lower (s @ t) = lower s @ lower t"
  by (simp add: lower_def)

lemma of_char_between: "c \<le> d \<longleftrightarrow> (of_char c :: nat) \<le> of_char d"
  by (simp add: less_eq_char_def)

lemma lower_char_idem [simp]: "lower_char (lower_char c) = lower_char c"
proof (cases "CHR ''A'' \<le> c \<and> c \<le> CHR ''Z''")
  case True
  then have "(of_char c :: nat) \<ge> 65" "(of_char c :: nat) \<le> 90" by (simp_all add: of_char_between)
  then have "\<not> char_of (of_char c + 32 :: nat) \<le> CHR ''Z''" by (simp add: of_char_between)
  with True show ?thesis by (simp add: lower_char_def)
next
  case False
  then have "lower_char c = c" by (auto simp: lower_char_def)
  then show ?thesis by simp
qed

lemma lower_idem [simp]: "lower (lower s) = lower s"
  by (simp add: lower_def)

lemma partition3_Some: "contains sep s \<Longrightarrow> partition3 s sep = (a, x, b) \<Longrightarrow> s = a @ sep @ b \<and> x = sep"
  by (auto simp: partition3_def contains_def cut_None_iff split: option.splits dest!: cut_Some_append)

lemma rpartition3_Some:
  assumes "contains sep s" "rpartition3 s sep = (a, x, b)"
  shows "s = a @ sep @ b"
proof -
  have "cut (rev sep) (rev s) \<noteq> None"
    using assms(1) by (simp add: cut_None_iff contains_def)
  with assms(2) obtain u v where "cut (rev sep) (rev s) = Some (u, v)" "a = rev v" "b = rev u"
    by (auto simp: rpartition3_def split: option.splits)
  with cut_Some_append[of "rev sep" "rev s" u v] show ?thesis
    by (metis append.assoc rev_append rev_rev_ident)
qed

definition two_separators :: "string \<Rightarrow> bool" where
  "two_separators name \<longleftrightarrow> contains ''::'' name \<and> contains ''::'' (snd (snd (partition3 name ''::'')))"

lemma variants_parts:
  assumes "two_separators name"
  obtains head body suff where "name = head @ ''::'' @ body @ ''::'' @ suff"
    "variants name =
       [(''interface prefix'', lower head @ ''::'' @ body @ ''::'' @ suff),
        (''device name'', head @ ''::'' @ lower body @ ''::'' @ suff),
        (''resource class suffix'', head @ ''::'' @ body @ ''::'' @ lower suff),
        (''the whole name'', lower name)]"
proof -
  obtain head x rest where h: "partition3 name ''::'' = (head, x, rest)" by (cases "partition3 name ''::''")
  obtain body y suff where b: "rpartition3 rest ''::'' = (body, y, suff)" by (cases "rpartition3 rest ''::''")
  have "name = head @ ''::'' @ rest" using assms partition3_Some[OF _ h] by (simp add: two_separators_def)
  moreover have "rest = body @ ''::'' @ suff" using assms rpartition3_Some[OF _ b] by (simp add: two_separators_def h)
  ultimately have "name = head @ ''::'' @ body @ ''::'' @ suff" by (simp only:)
  then show thesis by (rule that) (simp only: variants_def h b prod.case)
qed

lemma variants_same_name:
  assumes "two_separators name" "v \<in> set (variants name)"
  shows "lower (snd v) = lower name"
proof -
  obtain head body suff where n: "name = head @ ''::'' @ body @ ''::'' @ suff"
    and v: "variants name =
       [(''interface prefix'', lower head @ ''::'' @ body @ ''::'' @ suff),
        (''device name'', head @ ''::'' @ lower body @ ''::'' @ suff),
        (''resource class suffix'', head @ ''::'' @ body @ ''::'' @ lower suff),
        (''the whole name'', lower name)]"
    using variants_parts[OF assms(1)] .
  have "lower (lower head @ ''::'' @ body @ ''::'' @ suff) = lower name"
    "lower (head @ ''::'' @ lower body @ ''::'' @ suff) = lower name"
    "lower (head @ ''::'' @ body @ ''::'' @ lower suff) = lower name"
    by (simp_all only: n lower_append lower_idem)
  with assms(2) show ?thesis unfolding v by (auto simp del: lower_append)
qed

section \<open>Verdict\<close>

text \<open>A library that decides by the name alone whether it opens a resource: \<open>refuses n\<close> is the exception for a name it does
  not accept.\<close>

definition opens_or_refuses :: "'w ctx \<Rightarrow> ('w \<Rightarrow> bool) \<Rightarrow> string \<Rightarrow> exn option \<Rightarrow> bool" where
  "opens_or_refuses cx I n r =
     (case r of
        None \<Rightarrow> keeps I (open_resource cx n) (\<lambda>_. True)
      | Some e \<Rightarrow> isinstance e ''Exception'' \<and> (\<forall>w. I w \<longrightarrow> (\<exists>w'. open_resource cx n w = (Inl e, w') \<and> I w')))"

definition opens_by_name :: "'w ctx \<Rightarrow> ('w \<Rightarrow> bool) \<Rightarrow> (string \<Rightarrow> exn option) \<Rightarrow> bool" where
  "opens_by_name cx I refuses \<longleftrightarrow>
     (\<forall>n. opens_or_refuses cx I n (refuses n)) \<and>
     keeps I (close_inst cx) (\<lambda>_. True)"

lemma try_variant_by_name:
  assumes "opens_by_name cx I refuses"
  shows "keeps I (try_variant cx v) (\<lambda>r. r = (if snd v = cx_resource cx then [] else
     case refuses (snd v) of None \<Rightarrow> [] | Some e \<Rightarrow> [(fst v, visa_status e)]))"
proof (cases "snd v = cx_resource cx")
  case True
  then show ?thesis by (simp add: try_variant_def keeps_ret)
next
  case False
  have opened: "opens_or_refuses cx I (snd v) (refuses (snd v))" using assms by (simp add: opens_by_name_def)
  let ?r = "case refuses (snd v) of None \<Rightarrow> None | Some e \<Rightarrow> Some (visa_status e)"
  have "keeps I (catch ''Exception'' (andthen (open_resource cx (snd v)) (\<lambda>_. ret None)) (\<lambda>exc. ret (Some (visa_status exc)))) (\<lambda>r. r = ?r)"
  proof (cases "refuses (snd v)")
    case None
    then have "keeps I (open_resource cx (snd v)) (\<lambda>_. True)"
      using opened by (simp add: opens_or_refuses_def)
    then show ?thesis by (fastforce simp: keeps_def catch_def andthen_def ret_def None)
  next
    case (Some e)
    then have "isinstance e ''Exception''" "\<forall>w. I w \<longrightarrow> (\<exists>w'. open_resource cx (snd v) w = (Inl e, w') \<and> I w')"
      using opened by (simp_all add: opens_or_refuses_def)
    then show ?thesis by (fastforce simp: keeps_def catch_def andthen_def ret_def Some)
  qed
  moreover have "keeps I (case r of Some st \<Rightarrow> ret [(fst v, st)] | None \<Rightarrow> andthen (close_inst cx) (\<lambda>_. ret []))
      (\<lambda>x. x = (case refuses (snd v) of None \<Rightarrow> [] | Some e \<Rightarrow> [(fst v, visa_status e)]))" if "r = ?r" for r
  proof -
    have "keeps I (close_inst cx) (\<lambda>_. True)" using assms by (simp add: opens_by_name_def)
    then have "keeps I (andthen (close_inst cx) (\<lambda>_. ret ([] :: (string \<times> string) list))) (\<lambda>x. x = [])" by (rule keeps_andthen) (simp add: keeps_ret)
    with that show ?thesis by (simp add: keeps_ret split: option.split)
  qed
  ultimately have "keeps I (andthen (catch ''Exception'' (andthen (open_resource cx (snd v)) (\<lambda>_. ret None)) (\<lambda>exc. ret (Some (visa_status exc))))
      (\<lambda>r. case r of Some st \<Rightarrow> ret [(fst v, st)] | None \<Rightarrow> andthen (close_inst cx) (\<lambda>_. ret [])))
      (\<lambda>x. x = (case refuses (snd v) of None \<Rightarrow> [] | Some e \<Rightarrow> [(fst v, visa_status e)]))"
    by (rule keeps_andthen)
  with False show ?thesis by (simp add: try_variant_def)
qed

lemma lowercase_verdict:
  assumes "opens_by_name cx I refuses" "I w"
  shows "verdict (check_open_lowercase cx w) =
    (if list_all (\<lambda>v. snd v = cx_resource cx \<or> refuses (snd v) = None) (variants (cx_resource cx)) then PASS else FAIL)"
proof -
  have iff: "concat (map (\<lambda>v. if snd v = n then [] else case refuses (snd v) of None \<Rightarrow> [] | Some e \<Rightarrow> [(fst v, visa_status e)]) vs) = [] \<longleftrightarrow>
      list_all (\<lambda>v. snd v = n \<or> refuses (snd v) = None) vs" for vs :: "(string \<times> string) list" and n
    by (induction vs) (auto split: option.split)
  show ?thesis
    unfolding check_open_lowercase_def
    by (rule keeps_verdict[OF keeps_for_concat[OF try_variant_by_name[OF assms(1)]] assms(2)])
      (simp only: assert_verdict iff, simp add: ret_def)
qed

text \<open>The check of the components of the resource name passes every library that compares names without regard to case:
  each of the four variants is the same name up to case, whatever the name, provided it has the two separators every
  resource name has. It fails a library exactly if that refuses a variant that differs from the name.\<close>

theorem case_variants_verdict:
  assumes "opens_by_name cx I refuses" "I w" "two_separators (cx_resource cx)"
  shows "((\<forall>n. lower n = lower (cx_resource cx) \<longrightarrow> refuses n = None) \<longrightarrow> verdict (check_open_lowercase cx w) = PASS) \<and>
    (verdict (check_open_lowercase cx w) = FAIL \<longleftrightarrow>
       (\<exists>v\<in>set (variants (cx_resource cx)). snd v \<noteq> cx_resource cx \<and> refuses (snd v) \<noteq> None))"
  using variants_same_name[OF assms(3)] unfolding lowercase_verdict[OF assms(1,2)] by (auto simp: list_all_iff)

text \<open>With a device name in lower case, as the mock server's resources have it, the check never varies the device name: a
  library that compares that part case-sensitively passes, and the result reports four accepted variants though
  three were opened.\<close>

theorem lowercase_misses_device_name:
  assumes "cx_resource cx = ''TCPIP0::127.0.0.1::inst0::INSTR''"
    "opens_by_name cx I (\<lambda>n. if contains ''::inst0::'' n then None else Some e)" "I w"
  shows "verdict (check_open_lowercase cx w) = PASS \<and>
    length (filter (\<lambda>v. snd v \<noteq> cx_resource cx) (variants (cx_resource cx))) = 3 \<and>
    (\<exists>n. lower n = lower (cx_resource cx) \<and> \<not> contains ''::inst0::'' n)"
proof -
  have v: "variants ''TCPIP0::127.0.0.1::inst0::INSTR'' =
      [(''interface prefix'', ''tcpip0::127.0.0.1::inst0::INSTR''), (''device name'', ''TCPIP0::127.0.0.1::inst0::INSTR''),
       (''resource class suffix'', ''TCPIP0::127.0.0.1::inst0::instr''), (''the whole name'', ''tcpip0::127.0.0.1::inst0::instr'')]"
    by code_simp
  have c: "contains ''::inst0::'' ''tcpip0::127.0.0.1::inst0::INSTR''" "contains ''::inst0::'' ''TCPIP0::127.0.0.1::inst0::instr''"
    "contains ''::inst0::'' ''tcpip0::127.0.0.1::inst0::instr''" "\<not> contains ''::inst0::'' ''TCPIP0::127.0.0.1::INST0::INSTR''"
    "lower ''TCPIP0::127.0.0.1::INST0::INSTR'' = lower ''TCPIP0::127.0.0.1::inst0::INSTR''"
    by code_simp+
  show ?thesis
    unfolding lowercase_verdict[OF assms(2,3)] assms(1) v using c(4,5) by (auto simp: c(1,2,3))
qed

lemma strict_opens: "opens_by_name example_ctx (\<lambda>_. True) (\<lambda>_. None)"
  by (simp add: opens_by_name_def opens_or_refuses_def keeps_def open_resource_def close_inst_def suppressed_def catch_def andthen_def effect_def
      set_timeout_def change_def example_ctx_def example_client_def)

theorem case_variants_verdict_witness: "verdict (check_open_lowercase example_ctx ()) = PASS"
proof -
  have "two_separators ''TCPIP0::127.0.0.1::inst0::INSTR''" by code_simp
  then have "two_separators (cx_resource (example_ctx :: unit ctx))" by (simp add: example_ctx_def)
  from case_variants_verdict[OF strict_opens _ this] show ?thesis by simp
qed

definition strict_ctx :: "unit ctx" where
  \<comment> \<open>a library that compares the device name case-sensitively\<close>
  "strict_ctx = example_ctx\<lparr>cx_client := example_client\<lparr>cl_open := (\<lambda>name w.
     (if contains ''::inst0::'' name then None else Some (plain_exn [''VisaIOError'', ''Exception'', ''BaseException''] []), w))\<rparr>\<rparr>"

theorem lowercase_misses_device_name_witness: "verdict (check_open_lowercase strict_ctx ()) = PASS"
proof -
  have r: "cx_resource strict_ctx = ''TCPIP0::127.0.0.1::inst0::INSTR''" by (simp add: strict_ctx_def example_ctx_def)
  have "opens_by_name strict_ctx (\<lambda>_. True) (\<lambda>n. if contains ''::inst0::'' n then None
      else Some (plain_exn [''VisaIOError'', ''Exception'', ''BaseException''] []))"
    by (simp add: opens_by_name_def opens_or_refuses_def keeps_def open_resource_def close_inst_def suppressed_def catch_def andthen_def effect_def
      set_timeout_def change_def strict_ctx_def example_ctx_def example_client_def isinstance_def plain_exn_def)
  from lowercase_misses_device_name[OF r this] show ?thesis by simp
qed

end
