(* ===== verification/Session_Lifecycle.thy ===== *)
theory Session_Lifecycle
  imports Resource_Names
begin

unbundle bit_operations_syntax

text \<open>
  \<^verbatim>\<open>checks/12_session_lifecycle.py\<close>: the attributes of a session over its life, and closing it. Bytes an attribute holds are decoded as
  UTF-8, which keeps the bytes of a text.
\<close>

definition RSRC_SPEC_VERSION :: int where "RSRC_SPEC_VERSION = 0x00700200"

definition int_value :: "attr_value \<Rightarrow> int option" where
  \<comment> \<open>the number a value is, if \<^verbatim>\<open>isinstance(value, int)\<close>\<close>
  "int_value v = (case v of AInt i \<Rightarrow> Some i | ABool b \<Rightarrow> Some (if b then 1 else 0) | _ \<Rightarrow> None)"

definition text_value :: "attr_value \<Rightarrow> string" where
  "text_value v = (case v of ABytes s \<Rightarrow> s | AStr s \<Rightarrow> s | AInt i \<Rightarrow> str_int i | ABool b \<Rightarrow> (if b then ''True'' else ''False'') | ANone \<Rightarrow> ''None'')"

definition check_spec_version :: "'w ctx \<Rightarrow> ('w, string) act" where
  "check_spec_version cx = open_inst cx (
     andthen (get_attribute cx ''resource_spec_version'') (\<lambda>(v, st).
     let value = value_of v in
     andthen (assert_that (st = code cx ''success'')
       (''VI_ATTR_RSRC_SPEC_VERSION is not readable ('' @ repr_status cx st @ ''); 3.2.3 gives it a defined value, so it has to be there to have one'')) (\<lambda>_.
     andthen (assert_that (case int_value value of None \<Rightarrow> False | Some i \<Rightarrow> drop_bit 20 i \<ge> 1)
       (''VI_ATTR_RSRC_SPEC_VERSION reads '' @ cx_repr_value cx value @ '', which is not a version number'')) (\<lambda>_.
     ret (case int_value value of None \<Rightarrow> [] | Some i \<Rightarrow>
       fmt_hex 10 i @ (if i = RSRC_SPEC_VERSION then [] else '' (an earlier revision than this document)''))))))"

definition check_queue_length_writeable :: "'w ctx \<Rightarrow> ('w, string) act" where
  "check_queue_length_writeable cx = open_inst cx (
     andthen (set_attribute cx ''max_queue_length'' (AInt 42)) (\<lambda>(_, st).
     andthen (assert_that (st = code cx ''success'')
       (''setting VI_ATTR_MAX_QUEUE_LENGTH on a fresh session returned '' @ repr_status cx st @
        ''; 3.2.5 makes it writeable until viEnableEvent is called'')) (\<lambda>_.
     andthen (get_attribute cx ''max_queue_length'') (\<lambda>(v, get_st).
     let value = value_of v in
     andthen (assert_that (get_st = code cx ''success'' \<and> int_value value = Some 42)
       (''it did not read back as set ('' @ repr_status cx get_st @ '', '' @ cx_repr_value cx value @ '')'')) (\<lambda>_.
     ret (''set to 42 ('' @ repr_status cx st @ ''), read back '' @ cx_repr_value cx value @ '' ('' @ repr_status cx get_st @ '')''))))))"

definition queue_length_fixed :: "'w ctx \<Rightarrow> ('w, string) act" where
  "queue_length_fixed cx =
     andthen (set_attribute cx ''max_queue_length'' (AInt 99)) (\<lambda>(_, st).
     andthen (get_attribute cx ''max_queue_length'') (\<lambda>(v, _).
     let value = value_of v in
     andthen (assert_that (st \<noteq> code cx ''success'')
       (''VI_ATTR_MAX_QUEUE_LENGTH was still writeable after viEnableEvent (it now reads '' @ cx_repr_value cx value @
        ''); 3.2.6 makes it read-only from that point'')) (\<lambda>_.
     andthen (assert_that (int_value value = Some 12)
       (''the write was refused with '' @ repr_status cx st @ '' but the value changed to '' @ cx_repr_value cx value @ '' anyway'')) (\<lambda>_.
     ret (''refused with '' @ repr_status cx st)))))"

definition check_queue_length_readonly :: "'w ctx \<Rightarrow> ('w, string) act" where
  "check_queue_length_readonly cx = open_inst cx (
     andthen (set_attribute cx ''max_queue_length'' (AInt 12)) (\<lambda>(_, before).
     if before = code cx ''error_nonsupported_attribute''
     then throw (Skip ''VI_ATTR_MAX_QUEUE_LENGTH is not supported at all here, so 3.2.6 has nothing to constrain'')
     else
       andthen (effect (cl_event (cx_client cx) ''enable_event'' ''SRQ, QUEUE'')) (\<lambda>_.
       at_exit (queue_length_fixed cx) (suppressed (effect (cl_event (cx_client cx) ''disable_event'' ''SRQ, QUEUE''))))))"

definition check_close_null :: "'w ctx \<Rightarrow> ('w, string) act" where
  "check_close_null cx =
     andthen (lib_op cx ''close'' ''VI_NULL'') (\<lambda>st.
     if st = NOT_IMPLEMENTED then throw (AssertionError ''viClose(VI_NULL) raised instead of returning a status'')
     else
       andthen (assert_that (st = code cx ''warning_null_object'') (''expected VI_WARN_NULL_OBJECT, got '' @ repr_status cx st)) (\<lambda>_.
       ret (''got '' @ repr_status cx st)))"

definition readable_name :: "'w ctx \<Rightarrow> ('w, string) act" where
  "readable_name cx =
     andthen (get_attribute cx ''resource_name'') (\<lambda>(v, st).
     andthen (assert_that (st = code cx ''success'') (''VI_ATTR_RSRC_NAME is not readable ('' @ repr_status cx st @ '')'')) (\<lambda>_.
     ret (text_value (value_of v))))"

definition check_string_attribute_length :: "'w ctx \<Rightarrow> ('w, string) act" where
  "check_string_attribute_length cx = open_inst cx (
     andthen (readable_name cx) (\<lambda>text.
     andthen (assert_that (char_count text < 256)
       (''VI_ATTR_RSRC_NAME came back as '' @ str_nat (char_count text) @ '' characters; 3.4.1 allows at most 256 including the null terminator'')) (\<lambda>_.
     ret (str_nat (char_count text) @ '' characters''))))"

definition wide_termchar :: "attr_value \<Rightarrow> exn" where
  \<comment> \<open>the assertion's message formats the value in hexadecimal, which only a number allows\<close>
  "wide_termchar value =
     (case int_value value of
        None \<Rightarrow> plain_exn [''TypeError'', ''Exception'', ''BaseException''] ''unsupported format string''
      | Some i \<Rightarrow> AssertionError (''a termination character of 0x1FF was accepted and reads back as '' @ text_value value @ '' ('' @ fmt_hex 0 i @
          ''). A termination character is one byte, so the attribute now disagrees with anything that can go on the wire''))"

definition check_unsupported_attribute_state :: "'w ctx \<Rightarrow> ('w, string) act" where
  "check_unsupported_attribute_state cx = open_inst cx (
     andthen (get_attribute cx ''termchar'') (\<lambda>(original, _).
     andthen (set_attribute cx ''termchar'' (AInt 0x1FF)) (\<lambda>(_, st).
     andthen (get_attribute cx ''termchar'') (\<lambda>(v, _).
     let value = value_of v in
     andthen (if value_of original \<noteq> ANone then andthen (set_attribute cx ''termchar'' (value_of original)) (\<lambda>_. ret ()) else ret ()) (\<lambda>_.
     if st \<noteq> code cx ''success'' then ret (''refused outright with '' @ repr_status cx st @ '', which is what 3.4.2 asks for'')
     else
       case int_value value of
         Some i \<Rightarrow> if i \<le> 0xFF then ret (''accepted and masked to '' @ fmt_hex 4 i) else throw (wide_termchar value)
       | None \<Rightarrow> throw (wide_termchar value))))))"

definition reopens :: "'w ctx \<Rightarrow> string \<Rightarrow> ('w, unit) act" where
  "reopens cx name =
     andthen (catch ''Exception'' (effect (cl_open (cx_client cx) name)) (\<lambda>exc.
       throw (AssertionError (''the canonical name '' @ py_repr name @ '' could not be reopened: '' @ visa_status exc)))) (\<lambda>_.
     at_exit
       (andthen (inst_query cx ''*IDN?'') (\<lambda>reply. assert_that (strip reply \<noteq> []) ''the reopened session answered nothing''))
       (close_inst cx))"

definition check_resource_name_roundtrip :: "'w ctx \<Rightarrow> ('w, string) act" where
  "check_resource_name_roundtrip cx =
     andthen (open_inst cx (readable_name cx)) (\<lambda>name.
     if CHR '','' \<in> set (cx_resource cx) \<and> CHR '','' \<notin> set name
     then throw (Skip (''the canonical name '' @ py_repr name @ '' omits the port this mock is listening on, so it cannot be reopened here. '' @
       ''That is about the ephemeral port, not the implementation''))
     else andthen (reopens cx name) (\<lambda>_. ret name))"

section \<open>The check of the termination character puts it back\<close>

text \<open>A library whose attributes are a store: \<open>takes\<close> says which values it takes, \<open>keeps_as\<close> what it then holds.\<close>

definition store_ctx :: "(string \<Rightarrow> attr_value \<Rightarrow> bool) \<Rightarrow> (string \<Rightarrow> attr_value \<Rightarrow> attr_value) \<Rightarrow> (string \<Rightarrow> attr_value) ctx" where
  "store_ctx takes keeps_as = example_ctx\<lparr>cx_client := example_client\<lparr>
     cl_get_attribute := (\<lambda>a w. (Tuple (w a) (StatusCode 0), w)),
     cl_set_attribute := (\<lambda>a v w. if takes a v then (Single (StatusCode 0), w(a := keeps_as a v)) else (Single (StatusCode (- 1)), w))\<rparr>\<rparr>"

lemma store_session: "session_on (store_ctx takes keeps_as) name body w = body w"
  by (simp add: session_on_def session_def in_mode_def Let_def store_ctx_def example_ctx_def example_client_def instr.truncate_def split: prod.split)

lemma store_calls:
  "get_attribute (store_ctx takes keeps_as) a w = (Inr (Some (w a), StatusCode 0), w)"
  "set_attribute (store_ctx takes keeps_as) a v w =
     (if takes a v then (Inr (None, StatusCode 0), w(a := keeps_as a v)) else (Inr (None, StatusCode (- 1)), w))"
  "code (store_ctx takes keeps_as) ''success'' = StatusCode 0"
  by (simp_all add: get_attribute_def set_attribute_def lib_call_def call_def store_ctx_def example_ctx_def example_client_def code_def)

text \<open>The check of an out-of-range termination character leaves the attributes of the session as it found them, whether the library refuses the
  value, cuts it down or keeps it, provided the library takes its own value back; and it passes exactly if the value is
  refused or ends up as a number of one byte.\<close>

theorem termchar_check_restores:
  assumes "w ''termchar'' \<noteq> ANone" "takes ''termchar'' (w ''termchar'')" "keeps_as ''termchar'' (w ''termchar'') = w ''termchar''"
  shows "snd (check_unsupported_attribute_state (store_ctx takes keeps_as) w) = w \<and>
    (verdict (check_unsupported_attribute_state (store_ctx takes keeps_as) w) = PASS \<longleftrightarrow>
       (takes ''termchar'' (AInt 0x1FF) \<longrightarrow> (\<exists>i. int_value (keeps_as ''termchar'' (AInt 0x1FF)) = Some i \<and> i \<le> 0xFF)))"
proof -
  let ?wide = "keeps_as ''termchar'' (AInt 0x1FF)"
  have "verdict (Inl (wide_termchar v), u) = FAIL" for v and u :: "string \<Rightarrow> attr_value"
    by (simp add: wide_termchar_def verdict_def isinstance_def plain_exn_def AssertionError_def split: option.split)
  moreover have "w(''termchar'' := keeps_as ''termchar'' (w ''termchar'')) = w" "w(''termchar'' := w ''termchar'') = w"
    by (simp_all add: assms(3))
  ultimately show ?thesis
    using assms by (cases "int_value ?wide") (auto simp: check_unsupported_attribute_state_def open_inst_def store_session andthen_def store_calls
        acts value_of_def Let_def)
qed

theorem termchar_check_restores_witness:
  "snd (check_unsupported_attribute_state (store_ctx (\<lambda>a v. True) (\<lambda>a v. case v of AInt i \<Rightarrow> AInt (i mod 256) | _ \<Rightarrow> v)) (\<lambda>_. AInt 10)) = (\<lambda>_. AInt 10)"
  using termchar_check_restores[of "\<lambda>_. AInt 10" "\<lambda>a v. True" "\<lambda>a v. case v of AInt i \<Rightarrow> AInt (i mod 256) | _ \<Rightarrow> v"] by simp

end
