(* ===== verification/Vxi11_Flags.thy ===== *)
theory Vxi11_Flags
  imports Wire
begin

unbundle bit_operations_syntax

text \<open>
  \<^verbatim>\<open>checks/14_vxi11_flags.py\<close>: the operation flags and timeouts a client puts on the wire, as the proxy recorded them. The
  order in which a set of sizes is printed is an argument of the one check that prints one.
\<close>

section \<open>Flags\<close>

definition DEVICE_WRITE :: int where "DEVICE_WRITE = 11"
definition DEVICE_READ :: int where "DEVICE_READ = 12"
definition FLAG_WAITLOCK :: int where "FLAG_WAITLOCK = 0x01"
definition FLAG_END :: int where "FLAG_END = 0x08"
definition FLAG_TERMCHRSET :: int where "FLAG_TERMCHRSET = 0x80"

definition RESERVED_BITS :: int where
  "RESERVED_BITS = NOT (FLAG_WAITLOCK OR FLAG_END OR FLAG_TERMCHRSET) AND 0xFFFFFFFF"

section \<open>The checks\<close>

definition NEEDS_MOCK :: string where
  "NEEDS_MOCK = ''needs the mock server: these are wire-level requirements''"

definition call_log :: "'w ctx \<Rightarrow> mock \<Rightarrow> ('w, json list) act" where
  "call_log cx srv = andthen (vxi11_calls (cx_ask cx) srv) (\<lambda>j. lift (events_of (Inr j)))"

definition calls :: "'w ctx \<Rightarrow> mock \<Rightarrow> int \<Rightarrow> ('w, json list) act" where
  "calls cx srv proc =
     andthen (call_log cx srv) (\<lambda>cs. lift (filter_json (\<lambda>c. map_sum id (\<lambda>p. p = JNum proc) (item ''proc'' c)) cs))"

definition last_flags :: "json list \<Rightarrow> ('w, int) act" where
  \<comment> \<open>\<^verbatim>\<open>cs[-1]["flags"]\<close>, of a list that was found not to be empty\<close>
  "last_flags cs = lift (num_at ''flags'' (last cs))"

definition shown_flags :: "int \<Rightarrow> string" where
  "shown_flags flags = ''flags='' @ fmt_hex 6 flags"

definition check_write_end_flag :: "'w ctx \<Rightarrow> ('w, string) act" where
  "check_write_end_flag cx =
     andthen (server_or_skip cx NEEDS_MOCK) (\<lambda>srv.
     open_inst cx (
       andthen (set_visa_attribute cx ''send_end_enabled'' (ABool True)) (\<lambda>_.
       andthen (reset (cx_ask cx) srv) (\<lambda>_.
       andthen (inst_write cx ''*CLS'') (\<lambda>_.
       andthen (calls cx srv DEVICE_WRITE) (\<lambda>writes.
       andthen (assert_that (writes \<noteq> []) ''no device_write reached the server'') (\<lambda>_.
       andthen (last_flags writes) (\<lambda>flags.
       andthen (assert_that (flags AND FLAG_END \<noteq> 0)
         (''the write went out with flags '' @ fmt_hex 6 flags @ '', without the END bit ('' @ fmt_hex 4 FLAG_END @ '')'')) (\<lambda>_.
       ret (shown_flags flags))))))))))"

definition write_unterminated :: "'w ctx \<Rightarrow> mock \<Rightarrow> ('w, string) act" where
  "write_unterminated cx srv =
     andthen (reset (cx_ask cx) srv) (\<lambda>_.
     andthen (lib_write cx ''*CLS'') (\<lambda>_.
     andthen (calls cx srv DEVICE_WRITE) (\<lambda>writes.
     andthen (assert_that (writes \<noteq> []) ''no device_write reached the server'') (\<lambda>_.
     andthen (last_flags writes) (\<lambda>flags.
     andthen (assert_that (flags AND FLAG_END = 0)
       (''VI_ATTR_SEND_END_EN was false but the write still carried the END bit (flags '' @ fmt_hex 6 flags @ '')'')) (\<lambda>_.
     ret (shown_flags flags)))))))"

definition terminate_again :: "'w ctx \<Rightarrow> ('w, unit) act" where
  "terminate_again cx =
     andthen (set_visa_attribute cx ''send_end_enabled'' (ABool True)) (\<lambda>_. lib_write cx nl)"

definition check_write_end_flag_cleared :: "'w ctx \<Rightarrow> ('w, string) act" where
  "check_write_end_flag_cleared cx =
     andthen (server_or_skip cx NEEDS_MOCK) (\<lambda>srv.
     open_inst cx (
       andthen (set_visa_attribute cx ''send_end_enabled'' (ABool False)) (\<lambda>_.
       at_exit (write_unterminated cx srv) (terminate_again cx))))"

definition read_with_termchar :: "'w ctx \<Rightarrow> mock \<Rightarrow> ('w, string) act" where
  "read_with_termchar cx srv =
     andthen (reset (cx_ask cx) srv) (\<lambda>_.
     andthen (inst_query cx ''*IDN?'') (\<lambda>_.
     andthen (calls cx srv DEVICE_READ) (\<lambda>reads.
     andthen (assert_that (reads \<noteq> []) ''no device_read reached the server'') (\<lambda>_.
     andthen (last_flags reads) (\<lambda>flags.
     andthen (assert_that (flags AND FLAG_TERMCHRSET \<noteq> 0)
       (''termchar was enabled but the read went out with flags '' @ fmt_hex 6 flags @ '', without termchrset ('' @
        fmt_hex 4 FLAG_TERMCHRSET @ '')'')) (\<lambda>_.
     andthen (lift (item ''term_char'' (last reads))) (\<lambda>termchar.
     andthen (assert_that (termchar = JNum 10)
       (''termchrset was set but termChar carried '' @ json_repr termchar @ '', not 10'')) (\<lambda>_.
     ret (shown_flags flags @ '' termChar='' @ json_str termchar)))))))))"

definition check_read_termchrset :: "'w ctx \<Rightarrow> ('w, string) act" where
  "check_read_termchrset cx =
     andthen (server_or_skip cx NEEDS_MOCK) (\<lambda>srv.
     open_inst cx (
       andthen (set_visa_attribute cx ''termchar'' (AInt 10)) (\<lambda>_.
       andthen (set_visa_attribute cx ''termchar_enabled'' (ABool True)) (\<lambda>_.
       at_exit (read_with_termchar cx srv) (set_visa_attribute cx ''termchar_enabled'' (ABool False))))))"

definition check_read_termchrset_cleared :: "'w ctx \<Rightarrow> ('w, string) act" where
  "check_read_termchrset_cleared cx =
     andthen (server_or_skip cx NEEDS_MOCK) (\<lambda>srv.
     open_inst cx (
       andthen (set_visa_attribute cx ''termchar_enabled'' (ABool False)) (\<lambda>_.
       andthen (reset (cx_ask cx) srv) (\<lambda>_.
       andthen (inst_query cx ''*IDN?'') (\<lambda>_.
       andthen (calls cx srv DEVICE_READ) (\<lambda>reads.
       andthen (assert_that (reads \<noteq> []) ''no device_read reached the server'') (\<lambda>_.
       andthen (last_flags reads) (\<lambda>flags.
       andthen (assert_that (flags AND FLAG_TERMCHRSET = 0)
         (''termchar was disabled but the read still carried termchrset (flags '' @ fmt_hex 6 flags @ '')'')) (\<lambda>_.
       ret (shown_flags flags))))))))))"

definition is_dirty :: "json \<Rightarrow> exn + bool" where
  "is_dirty c = map_sum id (\<lambda>flags. flags AND RESERVED_BITS \<noteq> 0) (num_at ''flags'' c)"

definition first_flags :: "json list \<Rightarrow> exn + int" where
  \<comment> \<open>evaluated for the message of a failed assertion only\<close>
  "first_flags dirty = (case dirty of [] \<Rightarrow> Inr 0 | c # _ \<Rightarrow> num_at ''flags'' c)"

definition judge_reserved :: "json list \<Rightarrow> ('w, string) act" where
  "judge_reserved seen =
     andthen (assert_that (seen \<noteq> []) ''no device_write or device_read reached the server'') (\<lambda>_.
     andthen (lift (filter_json is_dirty seen)) (\<lambda>dirty.
     andthen (lift (first_flags dirty)) (\<lambda>first.
     andthen (assert_that (dirty = [])
       (str_nat (length dirty) @ '' call(s) set reserved flag bits, e.g. '' @ fmt_hex 10 first @
        ''; B.5.3 requires undefined bits to be sent as zero'')) (\<lambda>_.
     ret (str_nat (length seen) @ '' calls, all reserved bits clear'')))))"

definition check_reserved_bits_zero :: "'w ctx \<Rightarrow> ('w, string) act" where
  "check_reserved_bits_zero cx =
     andthen (server_or_skip cx NEEDS_MOCK) (\<lambda>srv.
     open_inst cx (
       andthen (reset (cx_ask cx) srv) (\<lambda>_.
       andthen (inst_query cx ''*IDN?'') (\<lambda>_.
       andthen (call_log cx srv) judge_reserved))))"

definition other_timeout :: "json \<Rightarrow> exn + bool" where
  "other_timeout c = map_sum id (\<lambda>t. t \<noteq> JNum 4321) (item ''io_timeout'' c)"

definition judge_timeout :: "json list \<Rightarrow> ('w, string) act" where
  "judge_timeout seen =
     andthen (assert_that (seen \<noteq> []) ''no call reached the server'') (\<lambda>_.
     andthen (lift (filter_json other_timeout seen)) (\<lambda>mismatched.
     andthen (assert_that (mismatched = [])
       (''the session timeout was 4321ms but '' @ str_nat (length mismatched) @ '' call(s) carried io_timeout '' @
        (case item ''io_timeout'' (hd mismatched) of Inr t \<Rightarrow> json_str t | Inl _ \<Rightarrow> []) @ ''ms'')) (\<lambda>_.
     ret (''io_timeout=4321ms on '' @ str_nat (length seen) @ '' calls''))))"

definition check_io_timeout_matches :: "'w ctx \<Rightarrow> ('w, string) act" where
  "check_io_timeout_matches cx =
     andthen (server_or_skip cx NEEDS_MOCK) (\<lambda>srv.
     open_inst cx (
       andthen (set_timeout cx 4321) (\<lambda>_.
       andthen (reset (cx_ask cx) srv) (\<lambda>_.
       andthen (inst_query cx ''*IDN?'') (\<lambda>_.
       andthen (call_log cx srv) judge_timeout)))))"

definition asks_for :: "json \<Rightarrow> exn + bool" where
  \<comment> \<open>\<^verbatim>\<open>s and s > 0\<close>\<close>
  "asks_for s = (if \<not> truthy_json s then Inr False else map_sum id (\<lambda>n. 0 < n) (num_of s))"

definition check_request_size :: "(json set \<Rightarrow> string) \<Rightarrow> 'w ctx \<Rightarrow> ('w, string) act" where
  "check_request_size repr_set cx =
     andthen (server_or_skip cx NEEDS_MOCK) (\<lambda>srv.
     open_inst cx (
       andthen (reset (cx_ask cx) srv) (\<lambda>_.
       andthen (inst_query cx ''*IDN?'') (\<lambda>_.
       andthen (calls cx srv DEVICE_READ) (\<lambda>reads.
       andthen (assert_that (reads \<noteq> []) ''no device_read reached the server'') (\<lambda>_.
       andthen (lift (map_json (item ''request_size'') reads)) (\<lambda>sizes.
       andthen (lift (map_json asks_for sizes)) (\<lambda>positive.
       andthen (assert_that (list_all id positive)
         (''a read asked for '' @ repr_set (set sizes) @ '', which cannot return anything'')) (\<lambda>_.
       andthen (lift (map_json num_of sizes)) (\<lambda>ns. \<lambda>w.
       andthen (assert_that (list_all (\<lambda>n. n \<le> cl_chunk_size (cx_client cx) w) ns)
         (''a read asked for '' @ str_int (Max (set ns)) @ '' bytes with a chunk size of '' @
          str_int (cl_chunk_size (cx_client cx) w) @ ''; the surplus has nowhere to go'')) (\<lambda>_.
       ret (''requestSize=['' @ join '', '' (map str_int (sort (remdups ns))) @ ''] chunk_size='' @
            str_int (cl_chunk_size (cx_client cx) w))) w))))))))))"

section \<open>What the reserved bits are\<close>

lemma RESERVED_BITS_value: "RESERVED_BITS = 0xFFFFFF76"
  by (simp add: RESERVED_BITS_def FLAG_WAITLOCK_def FLAG_END_def FLAG_TERMCHRSET_def)

text \<open>A flags word is clean exactly if it is made of the three defined flags.\<close>

definition defined_flags :: "32 word \<Rightarrow> bool" where
  "defined_flags u \<longleftrightarrow> u AND NOT (0x01 OR 0x08 OR 0x80) = 0"

lemma uint_reserved: "uint u AND RESERVED_BITS = uint (u AND 0xFFFFFF76)" for u :: "32 word"
  by (simp add: RESERVED_BITS_value uint_and)

lemma clean_iff: "uint u AND RESERVED_BITS = 0 \<longleftrightarrow> defined_flags u" for u :: "32 word"
proof -
  have "NOT (0x01 OR 0x08 OR 0x80) = (0xFFFFFF76 :: 32 word)" by simp
  then show ?thesis unfolding uint_reserved defined_flags_def by (simp only: uint_0_iff)
qed

lemma dirty_calls:
  "filter_json is_dirty (map json_of_call cs) = Inr (map json_of_call (filter (\<lambda>s. \<not> defined_flags (vc_flags s)) cs))"
  by (induction cs) (simp_all add: is_dirty_def num_at_def clean_iff)

lemma first_flags_calls: "\<exists>n. first_flags (map json_of_call cs) = Inr n"
  by (cases cs) (simp_all add: first_flags_def num_at_def)

lemma judge_reserved_verdict:
  "verdict (judge_reserved (map json_of_call cs) w) =
     (if cs \<noteq> [] \<and> list_all (\<lambda>s. defined_flags (vc_flags s)) cs then PASS else FAIL)"
proof -
  obtain n where n: "first_flags (map json_of_call (filter (\<lambda>s. \<not> defined_flags (vc_flags s)) cs)) = Inr n"
    using first_flags_calls by blast
  have empty: "filter (\<lambda>s. \<not> defined_flags (vc_flags s)) cs = [] \<longleftrightarrow> list_all (\<lambda>s. defined_flags (vc_flags s)) cs"
    by (induction cs) auto
  have lifted: "lift (Inr x) = ret x" for x :: 'b by (rule ext) (simp add: lift_def ret_def)
  have lifted': "lift (Inr x) = ret x" for x :: int by (rule ext) (simp add: lift_def ret_def)
  show ?thesis
    unfolding judge_reserved_def dirty_calls lifted andthen_ret n lifted' assert_verdict
    by (simp add: empty ret_def)
qed

text \<open>C24: A pass of the check for reserved bits is evidence, whatever the library does: when the session was closed the proxy had
  recorded at least one call, and every one it had recorded carried no bit but the three defined ones, at the width of the field
  on the wire.\<close>

theorem reserved_bits_pass_means_clean:
  assumes "cx_ask cx = served err" "check_reserved_bits_zero cx w = (Inr d, w')"
  shows "\<exists>c. w' = snd (i_close (cx_client cx) c) \<and> vt_seen (co_vxi11 c) \<noteq> [] \<and>
    list_all (\<lambda>s. vc_flags s AND NOT (0x01 OR 0x08 OR 0x80) = 0) (vt_seen (co_vxi11 c))"
proof -
  obtain srv where srv: "open_inst cx (andthen (reset (cx_ask cx) srv) (\<lambda>_. andthen (inst_query cx ''*IDN?'') (\<lambda>_.
      andthen (call_log cx srv) judge_reserved))) w = (Inr d, w')"
    using assms(2) by (auto simp: check_reserved_bits_zero_def server_or_skip_def throw_def split: option.splits)
  obtain w1 w2 where body: "andthen (reset (cx_ask cx) srv) (\<lambda>_. andthen (inst_query cx ''*IDN?'') (\<lambda>_.
      andthen (call_log cx srv) judge_reserved)) w1 = (Inr d, w2)" and w': "w' = snd (i_close (cx_client cx) w2)"
    using srv unfolding open_inst_def by (rule session_on_Inr)
  obtain c js c1 where log: "call_log cx srv c = (Inr js, c1)" "judge_reserved js c1 = (Inr d, w2)"
    using body by (auto simp: andthen_Inr_iff)
  have up: "mo_control srv \<noteq> None"
    using log(1) by (auto simp: call_log_def vxi11_calls_def command_def get_list_def andthen_def split: if_splits)
  have js: "js = map json_of_call (vt_seen (co_vxi11 c))" "c1 = c"
    using log(1) served_calls[OF up, of err c] assms(1)
    by (auto simp: call_log_def andthen_def lift_def events_of_def seen_calls_def)
  have "w2 = c1" using log(2) by (auto simp: judge_reserved_def andthen_Inr_iff lift_def ret_def)
  moreover have "verdict (judge_reserved js c1) = PASS" using log(2) by simp
  ultimately have "w2 = c" "vt_seen (co_vxi11 c) \<noteq> []" "list_all (\<lambda>s. defined_flags (vc_flags s)) (vt_seen (co_vxi11 c))"
    using js by (auto simp: judge_reserved_verdict split: if_splits)
  with w' show ?thesis unfolding defined_flags_def by blast
qed

theorem reserved_bits_pass_means_clean_witness:
  "\<exists>c. snd (check_reserved_bits_zero wire_ctx example_control) = snd (i_close (cx_client wire_ctx) c) \<and> vt_seen (co_vxi11 c) \<noteq> [] \<and>
     list_all (\<lambda>s. vc_flags s AND NOT (0x01 OR 0x08 OR 0x80) = 0) (vt_seen (co_vxi11 c))"
proof -
  obtain c where q: "wire_query ''*IDN?'' (snd (handle Reset example_control)) = (Inr ''a,b'', c)"
    and seen: "vt_seen (co_vxi11 c) = [\<lparr>vc_proc = 11, vc_io_timeout = 4321, vc_lock_timeout = 0, vc_flags = 8, vc_term_char = None, vc_request_size = None\<rparr>]"
    by (simp add: wire_query_def wire_reset_logs)
  have "verdict (judge_reserved (map json_of_call (vt_seen (co_vxi11 c))) c) = PASS"
    unfolding judge_reserved_verdict seen by (simp add: defined_flags_def)
  then obtain d where d: "fst (judge_reserved (map json_of_call (vt_seen (co_vxi11 c))) c) = Inr d" by (auto simp: verdict_PASS_iff)
  have "fst (check_reserved_bits_zero wire_ctx example_control) = Inr d"
    using d served_calls[OF wire_ask(2), of "\<lambda>_. []" c]
    by (simp add: check_reserved_bits_zero_def open_inst_def wire_session andthen_def wire_reset[unfolded wire_ask(1)] wire_inst_query q
        call_log_def wire_ask(1) events_of_def lift_def seen_calls_def)
  then have "check_reserved_bits_zero wire_ctx example_control = (Inr d, snd (check_reserved_bits_zero wire_ctx example_control))"
    by (simp add: prod_eq_iff)
  from reserved_bits_pass_means_clean[OF wire_ask(1) this] show ?thesis .
qed

end
