(* ===== verification/Conformance.thy ===== *)
theory Conformance
  imports Wire
begin

unbundle bit_operations_syntax

text \<open>
  \<^verbatim>\<open>checks/conformance.py\<close>: what a VISA implementation must do on the wire, most of it under injected faults, and replacing the mock
  server after a check was abandoned. The two checks that run threads are not modelled.
\<close>

section \<open>Replacing the server\<close>

definition resource_text :: "mock \<Rightarrow> string \<Rightarrow> exn + string" where
  "resource_text m protocol =
     (case resource m protocol of
        Inl e \<Rightarrow> Inl (plain_exn [''ValueError'', ''Exception'', ''BaseException''] (''unknown protocol '' @ py_repr protocol))
      | Inr (JStr r) \<Rightarrow> Inr r
      | Inr _ \<Rightarrow> Inl (type_error ''resource''))"

definition replacement_args :: "mock \<Rightarrow> mock_args" where
  "replacement_args old = default_mock\<lparr>ma_proxy := mo_proxy old, ma_portmap := Some (mo_portmap old), ma_hislip_modes := mo_modes old\<rparr>"

definition FORM_WARNING :: "string \<Rightarrow> string" where
  "FORM_WARNING r = ''      the replacement server uses a different resource form ('' @ r @ ''); checks after this point may not open''"

definition restart_server :: "'w os \<Rightarrow> server_env \<Rightarrow> 'w ctx \<Rightarrow> 'w \<Rightarrow> exn option \<times> 'w ctx \<times> string list \<times> 'w" where
  \<comment> \<open>the exception it ends with, if any, the context as it is then, and what was printed; what stopping raises is suppressed\<close>
  "restart_server os env cx w =
     (case cx_server cx of
        None \<Rightarrow> (None, cx, [], w)
      | Some old \<Rightarrow>
          (case stop os old w of
             (_, old1, w1) \<Rightarrow>
               (case start os env (MockServer env (replacement_args old)) w1 of
                  (Some e, _, w2) \<Rightarrow> (Some e, cx\<lparr>cx_server := Some old1\<rparr>, [], w2)
                | (None, fresh, w2) \<Rightarrow>
                    (case resource_text fresh (cx_protocol cx) of
                       Inl e \<Rightarrow> (Some e, cx\<lparr>cx_server := Some fresh\<rparr>, [], w2)
                     | Inr r \<Rightarrow>
                         (let cx1 = cx\<lparr>cx_server := Some fresh, cx_resource := r\<rparr>
                          in case resource_text old (cx_protocol cx) of
                               Inl e \<Rightarrow> (Some e, cx1, [], w2)
                             | Inr r0 \<Rightarrow> (None, cx1, if (CHR '','' \<in> set r0) \<noteq> (CHR '','' \<in> set r) then [FORM_WARNING r] else [], w2))))))"

definition conf_server :: "'w ctx \<Rightarrow> ('w, mock) act" where
  "conf_server cx = server_or_skip cx ''needs the mock server's fault injection; not available against real hardware''"

definition faulted :: "'w ctx \<Rightarrow> mock \<Rightarrow> (string \<times> json) list \<Rightarrow> ('w, 'r) act \<Rightarrow> ('w, 'r) act" where
  \<comment> \<open>\<^verbatim>\<open>with srv.faults(...)\<close>\<close>
  "faulted cx srv config = faults_block (cx_ask cx) (cx_environ cx) srv config"

section \<open>I/O and status\<close>

definition has_comma :: "string \<Rightarrow> bool" where
  "has_comma s \<longleftrightarrow> CHR '','' \<in> set s"

definition check_query :: "'w ctx \<Rightarrow> ('w, string) act" where
  "check_query cx = open_inst cx (
     andthen (asked cx ''*IDN?'') (\<lambda>reply.
     andthen (assert_that (has_comma reply) (''expected a comma-separated *IDN?, got '' @ py_repr reply)) (\<lambda>_.
     ret reply)))"

definition check_two_queries :: "'w ctx \<Rightarrow> ('w, string) act" where
  "check_two_queries cx = open_inst cx (
     andthen (asked cx ''*IDN?'') (\<lambda>first.
     andthen (asked cx ''*IDN?'') (\<lambda>second.
     andthen (assert_that (first = second)
       (''the same query gave different answers: '' @ py_repr first @ '' then '' @ py_repr second @
        ''. That is a desynchronised message stream, not a slow instrument'')) (\<lambda>_.
     ret (''both queries returned '' @ py_repr first)))))"

definition check_exact_chunk_boundary :: "'w ctx \<Rightarrow> ('w, string) act" where
  "check_exact_chunk_boundary cx =
     andthen (conf_server cx) (\<lambda>srv.
     open_inst cx (\<lambda>w0.
       (let chunk = cl_chunk_size (cx_client cx) w0 in
        andthen (big_reply (cx_ask cx) srv (chunk - 1) 0) (\<lambda>_.
        andthen (now cx) (\<lambda>started.
        andthen (inst_query cx ''TEST:BIG?'') (\<lambda>reply.
        andthen (now cx) (\<lambda>t.
        let elapsed = t - started; n = int (char_count (strip reply)) in
        andthen (assert_that (n = chunk - 1) (''expected '' @ str_int (chunk - 1) @ '' bytes back, got '' @ str_int n)) (\<lambda>_.
        andthen (assert_that (elapsed < of_int (cx_timeout cx) / 1000)
          (''a reply landing exactly on the '' @ str_int chunk @ ''-byte chunk boundary took '' @ fmt_fixed 2 elapsed @
           ''s, which means an extra read was issued and timed out'')) (\<lambda>_.
        ret (str_int chunk @ ''-byte boundary, '' @ in_ms elapsed))))))) w0)))"

definition big_text :: "nat \<Rightarrow> string" where
  \<comment> \<open>what the simulated instrument answers to \<^verbatim>\<open>TEST:BIG?\<close>\<close>
  "big_text n = concat (map (\<lambda>i. str_nat (i mod 10)) [0..<n])"

definition reassembled :: "'w ctx \<Rightarrow> mock \<Rightarrow> nat \<Rightarrow> string \<Rightarrow> ('w, string) act" where
  \<comment> \<open>the large query, compared with what was sent\<close>
  "reassembled cx srv nbytes mismatch = open_inst cx (
     andthen (big_reply (cx_ask cx) srv (int nbytes) 0) (\<lambda>_.
     andthen (asked cx ''TEST:BIG?'') (\<lambda>reply.
     andthen (assert_that (char_count reply = nbytes) (''expected '' @ str_nat nbytes @ '' bytes, got '' @ str_nat (char_count reply))) (\<lambda>_.
     andthen (assert_that (reply = big_text nbytes) mismatch) (\<lambda>_. ret reply)))))"

definition check_large_reply :: "'w ctx \<Rightarrow> ('w, string) act" where
  "check_large_reply cx =
     andthen (conf_server cx) (\<lambda>srv.
     andthen (reassembled cx srv (64 * 1024) ''the reassembled reply does not match what was sent'') (\<lambda>_.
     ret (str_nat (64 * 1024) @ '' bytes'')))"

definition check_dribbled_reply :: "'w ctx \<Rightarrow> ('w, string) act" where
  "check_dribbled_reply cx =
     andthen (conf_server cx) (\<lambda>srv.
     open_inst cx (
       andthen (big_reply (cx_ask cx) srv 200 0) (\<lambda>_.
       andthen (now cx) (\<lambda>plain_started.
       andthen (inst_query cx ''TEST:BIG?'') (\<lambda>_.
       andthen (now cx) (\<lambda>plain_ended.
       andthen (now cx) (\<lambda>started.
       andthen (faulted cx srv [(''dribble'', JBool True)] (asked cx ''TEST:BIG?'')) (\<lambda>reply.
       andthen (now cx) (\<lambda>ended.
       let plain = plain_ended - plain_started; dribbled = ended - started in
       andthen (assert_that (char_count reply = 200)
         (''a 200-byte reply arriving one byte per segment came back as '' @ str_nat (char_count reply) @ '' bytes'')) (\<lambda>_.
       andthen (assert_that (dribbled > max (plain * 3) (5 / 100))
         (''the dribbled read took '' @ in_ms dribbled @ '' against '' @ in_ms plain @
          '' un-dribbled, so the reply did not arrive in separate segments and this check proved nothing'')) (\<lambda>_.
       ret (''200 segments in '' @ in_ms dribbled @ '' vs '' @ in_ms plain))))))))))))"

definition check_read_stb :: "'w ctx \<Rightarrow> ('w, string) act" where
  "check_read_stb cx =
     andthen (conf_server cx) (\<lambda>srv.
     open_inst cx (
       andthen (inst_write cx ''*CLS'') (\<lambda>_.
       andthen (set_stb (cx_ask cx) srv 1 0) (\<lambda>_.
       andthen (inst_write cx ''*SRE 1'') (\<lambda>_.
       andthen (read_stb cx) (\<lambda>stb.
       andthen (assert_that (stb AND 0x40 \<noteq> 0) (''expected MSS set in the status byte, got '' @ fmt_hex 4 stb)) (\<lambda>_.
       andthen (set_stb (cx_ask cx) srv 0 0) (\<lambda>_.
       ret (''stb='' @ fmt_hex 4 stb)))))))))"

section \<open>Error reporting\<close>

definition silent_read :: "'w ctx \<Rightarrow> rat \<Rightarrow> string \<Rightarrow> string \<Rightarrow> ('w, string) act" where
  \<comment> \<open>a read with nothing to read, which must time out within \<open>limit\<close> seconds\<close>
  "silent_read cx limit late returned = open_inst cx (
     andthen (set_timeout cx 1000) (\<lambda>_.
     andthen (inst_write cx ''TEST:SILENT?'') (\<lambda>_.
     andthen (now cx) (\<lambda>started.
     or_assert returned
       (catch ''VisaIOError'' (andthen (inst_read cx) (\<lambda>_. ret None)) (\<lambda>exc.
          andthen (now cx) (\<lambda>t.
          let elapsed = t - started in
          andthen (assert_that (timed_out cx exc) (''expected VI_ERROR_TMO, got '' @ visa_status exc)) (\<lambda>_.
          andthen (assert_that (elapsed < limit) (''a 1000ms timeout took '' @ fmt_fixed 2 elapsed @ ''s'' @ late)) (\<lambda>_.
          ret (Some (''fired in '' @ in_ms elapsed)))))))))))"

definition check_read_timeout :: "'w ctx \<Rightarrow> ('w, string) act" where
  "check_read_timeout cx = silent_read cx 3 '' to fire'' ''a read with nothing to read returned instead of timing out''"

definition check_connection_dropped :: "'w ctx \<Rightarrow> ('w, string) act" where
  "check_connection_dropped cx =
     andthen (conf_server cx) (\<lambda>srv.
     open_inst cx (
       andthen (set_timeout cx 2000) (\<lambda>_.
       andthen (big_reply (cx_ask cx) srv 8192 0) (\<lambda>_.
       andthen (now cx) (\<lambda>started.
       or_assert
         (''a connection dropped mid-reply did not raise; the client returned a truncated message as if it were complete'')
         (faulted cx srv [(''drop_after_bytes'', JNum 64)]
           (catch ''Exception'' (andthen (inst_query cx ''TEST:BIG?'') (\<lambda>_. ret None)) (\<lambda>exc.
              andthen (now cx) (\<lambda>t.
              let elapsed = t - started; lost = is_connection_lost (cx_env cx) exc in
              andthen (assert_that (lost \<or> isinstance exc ''VisaIOError'' \<and> timed_out cx exc)
                (''expected a connection-lost or timeout error, got '' @ visa_status exc)) (\<lambda>_.
              andthen (assert_that (elapsed < 5) (''took '' @ fmt_fixed 2 elapsed @ ''s to notice'')) (\<lambda>_.
              ret (Some (''reported as '' @ visa_status exc @ '' in '' @ in_ms elapsed @
                (if lost then [] else '' (timeout, not connection-lost)''))))))))))))))"

definition check_stalled_connection :: "'w ctx \<Rightarrow> ('w, string) act" where
  "check_stalled_connection cx =
     andthen (conf_server cx) (\<lambda>srv.
     open_inst cx (
       andthen (set_timeout cx 1500) (\<lambda>_.
       andthen (big_reply (cx_ask cx) srv 8192 0) (\<lambda>_.
       andthen (now cx) (\<lambda>started.
       or_assert ''a stalled read returned instead of timing out''
         (faulted cx srv [(''stall_after_bytes'', JNum 64)]
           (catch ''VisaIOError'' (andthen (inst_query cx ''TEST:BIG?'') (\<lambda>_. ret None)) (\<lambda>exc.
              andthen (now cx) (\<lambda>t.
              let elapsed = t - started in
              andthen (assert_that (timed_out cx exc) (''expected a timeout, got '' @ visa_status exc)) (\<lambda>_.
              andthen (assert_that (elapsed < 6)
                (''a 1500ms timeout against a stalled connection took '' @ fmt_fixed 2 elapsed @
                 ''s, which means the deadline is being restarted per read rather than applied to the operation'')) (\<lambda>_.
              ret (Some (''timed out in '' @ in_ms elapsed)))))))))))))"

definition check_recovery_after_timeout :: "'w ctx \<Rightarrow> ('w, string) act" where
  "check_recovery_after_timeout cx = open_inst cx (
     andthen (set_timeout cx 800) (\<lambda>_.
     andthen (inst_write cx ''TEST:SILENT?'') (\<lambda>_.
     andthen (catch ''VisaIOError'' (andthen (inst_read cx) (\<lambda>_. ret ())) (\<lambda>_. ret ())) (\<lambda>_.
     andthen (inst_clear cx) (\<lambda>_.
     andthen (set_timeout cx (cx_timeout cx)) (\<lambda>_.
     andthen (asked cx ''*IDN?'') (\<lambda>reply.
     andthen (assert_that (has_comma reply)
       (''after a timeout and a device clear the session returned '' @ py_repr reply @ ''; the message stream did not resynchronise'')) (\<lambda>_.
     ret (''the query after the timeout returned '' @ py_repr reply)))))))))"

section \<open>Session behaviour\<close>

definition check_parallel_sessions :: "'w ctx \<Rightarrow> 'w client \<Rightarrow> ('w, string) act" where
  "check_parallel_sessions cx b = open_inst cx (open_inst (through cx b) (
     andthen (asked cx ''*IDN?'') (\<lambda>r1.
     andthen (asked (through cx b) ''*IDN?'') (\<lambda>r2.
     andthen (assert_that (r1 = r2) (''two sessions disagreed about *IDN?: '' @ py_repr r1 @ '' vs '' @ py_repr r2)) (\<lambda>_.
     ret (''both sessions returned '' @ py_repr r1))))))"

definition check_close_isolation :: "'w ctx \<Rightarrow> 'w client \<Rightarrow> ('w, string) act" where
  "check_close_isolation cx b = open_inst cx (
     andthen (open_inst (through cx b) (inst_query (through cx b) ''*IDN?'')) (\<lambda>_.
     andthen (asked cx ''*IDN?'') (\<lambda>reply.
     andthen (assert_that (has_comma reply)
       (''closing one session broke another; the ResourceManager is shared per backend and closing it closes every session it owns'')) (\<lambda>_.
     ret (''the surviving session returned '' @ py_repr reply)))))"

definition entry_code :: "string \<Rightarrow> int" where
  "entry_code entry = (case py_int (hd (split_on '','' entry)) of None \<Rightarrow> 0 | Some c \<Rightarrow> c)"

definition check_error_queue_clean :: "'w ctx \<Rightarrow> ('w, string) act" where
  "check_error_queue_clean cx = open_inst cx (
     andthen (drain cx) (\<lambda>_.
     andthen (for_each [0..<5] (\<lambda>_. inst_query cx ''*IDN?'')) (\<lambda>_.
     andthen (drain cx) (\<lambda>left.
     let desync = filter (\<lambda>e. entry_code e \<in> set DESYNC_ERRORS) left in
     andthen (assert_that (desync = []) (''the exchange left I/O errors in the queue: '' @ repr_list (map py_repr desync))) (\<lambda>_.
     ret (if left = [] then ''clean'' else ''non-I/O entries only: '' @ repr_list (map py_repr left)))))))"

definition stripped :: "json \<Rightarrow> exn + string" where
  "stripped j = (case j of JStr s \<Rightarrow> Inr (strip s) | _ \<Rightarrow> Inl (plain_exn [''AttributeError'', ''Exception'', ''BaseException''] ''strip''))"

definition check_observed_traffic :: "'w ctx \<Rightarrow> ('w, string) act" where
  "check_observed_traffic cx =
     andthen (conf_server cx) (\<lambda>srv.
     open_inst cx (
       andthen (clear_observed (cx_ask cx) srv) (\<lambda>_.
       andthen (inst_query cx ''*IDN?'') (\<lambda>_.
       andthen (andthen (writes (cx_ask cx) srv None) (\<lambda>ws. lift (map_json stripped ws))) (\<lambda>ws.
       andthen (assert_that (ws = [''*IDN?''])
         (''one query should put one write on the bus; the instrument saw '' @ repr_list (map py_repr ws))) (\<lambda>_.
       andthen (count (cx_ask cx) srv ''read'' None) (\<lambda>reads.
       andthen (assert_that (reads = 1) (''one query should cause one read; the instrument saw '' @ str_nat reads)) (\<lambda>_.
       ret (''the instrument saw writes '' @ repr_list (map py_repr ws) @ '' and '' @ str_nat reads @ '' read'')))))))))"

section \<open>The replacement takes the place of the old server\<close>

lemma start_None:
  assumes "start os env m w = (None, m', w')"
  shows "mo_process m' \<noteq> None \<and> mo_control m' \<noteq> None \<and> mo_proxy m' = mo_proxy m \<and> mo_portmap m' = mo_portmap m \<and> mo_modes m' = mo_modes m"
  using assms by (auto simp: start_def Let_def split: sum.splits prod.splits if_splits)

text \<open>C27: Replacing the server after a check was abandoned leaves one server. If it succeeds, and a killed child ends within the time
  waited for, the run then talks to a server that runs, that was asked for the same proxy, portmapper and HiSLIP modes,
  and whose address the checks use from then on; of the children that run, the old server is none, and none but
  the replacement is new.\<close>

theorem restart_replaces_server:
  assumes "os_ok os alive" "cx_server cx = Some old" "restart_server os env cx w = (None, cx', out, w')"
  shows "\<exists>fresh. cx_server cx' = Some fresh \<and> mo_process fresh \<noteq> None \<and> mo_control fresh \<noteq> None \<and>
    (mo_proxy fresh, mo_portmap fresh, mo_modes fresh) = (mo_proxy old, mo_portmap old, mo_modes old) \<and>
    resource fresh (cx_protocol cx) = Inr (JStr (cx_resource cx')) \<and>
    alive w' \<subseteq> (alive w - set_option (mo_process old)) \<union> set_option (mo_process fresh)"
proof -
  obtain x old1 w1 where s: "stop os old w = (x, old1, w1)" by (metis prod_cases3)
  let ?m = "MockServer env (replacement_args old)"
  obtain e fresh w2 where f: "start os env ?m w1 = (e, fresh, w2)" by (metis prod_cases3)
  obtain r r0 where ok: "e = None" "resource_text fresh (cx_protocol cx) = Inr r" "resource_text old (cx_protocol cx) = Inr r0"
    and cx': "cx_server cx' = Some fresh" "cx_resource cx' = r" "w' = w2"
    using assms(2,3) s f by (auto simp: restart_server_def Let_def split: option.splits sum.splits)
  have started: "mo_process fresh \<noteq> None \<and> mo_control fresh \<noteq> None \<and> mo_proxy fresh = mo_proxy ?m \<and> mo_portmap fresh = mo_portmap ?m \<and>
      mo_modes fresh = mo_modes ?m"
    using f unfolding ok(1) by (rule start_None)
  have "alive w2 \<subseteq> alive w1 \<union> set_option (mo_process fresh)"
    using assms(1) f by (rule start_alive) (simp add: MockServer_def)
  moreover have "alive w1 \<subseteq> alive w - set_option (mo_process old)" using stop_alive[OF assms(1) s] by simp
  moreover have "resource fresh (cx_protocol cx) = Inr (JStr r)"
    using ok(2) by (auto simp: resource_text_def split: sum.splits json.splits)
  ultimately show ?thesis
    using started cx' by (auto simp: MockServer_def replacement_args_def portmap_of_def)
qed

definition announcing_os :: "nat set os" where
  \<comment> \<open>an operating system whose state is the set of running children, and whose servers say where they listen\<close>
  "announcing_os = example_os\<lparr>os_readline := (\<lambda>p w. (Line (JObj [(''control_port'', JNum 5000),
     (''vxi11_resource'', JStr ''TCPIP0::127.0.0.1::inst0::INSTR''), (''hislip_resource'', JStr ''TCPIP0::127.0.0.1::hislip0::INSTR'')]), w))\<rparr>"

definition old_server :: mock where
  "old_server = (MockServer example_server_env default_mock)\<lparr>mo_process := Some 3, mo_ports :=
     [(''vxi11_resource'', JStr ''TCPIP0::127.0.0.1::inst0::INSTR''), (''hislip_resource'', JStr ''TCPIP0::127.0.0.1::hislip0::INSTR'')]\<rparr>"

theorem restart_replaces_server_witness:
  "\<exists>fresh. cx_server (fst (snd (restart_server announcing_os example_server_env (example_ctx\<lparr>cx_server := Some old_server\<rparr>) {3, 4}))) = Some fresh \<and>
     snd (snd (snd (restart_server announcing_os example_server_env (example_ctx\<lparr>cx_server := Some old_server\<rparr>) {3, 4}))) \<subseteq>
       ({3, 4} - set_option (mo_process old_server)) \<union> set_option (mo_process fresh)"
proof -
  let ?cx = "example_ctx\<lparr>cx_server := Some old_server\<rparr>"
  have os: "os_ok announcing_os (\<lambda>w. w)" by (auto simp: os_ok_def announcing_os_def example_os_def)
  obtain e cx' out w' where r: "restart_server announcing_os example_server_env ?cx {3, 4} = (e, cx', out, w')" by (metis prod_cases4)
  have "e = None"
    using r by (simp add: restart_server_def stop_def close_opt_def start_def binary_path_def ports_of_def control_port_def resource_text_def
        resource_def announcing_os_def example_os_def old_server_def MockServer_def replacement_args_def default_mock_def example_server_env_def
        example_ctx_def Let_def built_path_def split: if_splits)
  with restart_replaces_server[OF os _ r[unfolded \<open>e = None\<close>]] r show ?thesis by auto
qed

end
