(* ===== verification/Vxi11_Conformance.thy ===== *)
theory Vxi11_Conformance
  imports Conformance
begin

unbundle bit_operations_syntax

text \<open>
  \<^verbatim>\<open>checks/vxi11_conformance.py\<close>: VXI-11 clients down at the RPC layer, with a server that misbehaves in records. The check that
  releases a lock from a thread is not modelled. The port nobody listens on is an argument.
\<close>

definition CREATE_LINK :: int where "CREATE_LINK = 10"
definition DEVICE_READ :: int where "DEVICE_READ = 12"
definition MIN_MAX_RECV_SIZE :: int where "MIN_MAX_RECV_SIZE = 1024"
definition LINK_CYCLES :: nat where "LINK_CYCLES = 80"
definition LINK_BUDGET_S :: rat where "LINK_BUDGET_S = 45"

definition vxi11_restart_server :: "'w os \<Rightarrow> server_env \<Rightarrow> 'w ctx \<Rightarrow> 'w \<Rightarrow> exn option \<times> 'w ctx \<times> string list \<times> 'w" where
  \<comment> \<open>the script has its own copy of the function\<close>
  "vxi11_restart_server = restart_server"

definition vxi_server :: "'w ctx \<Rightarrow> ('w, mock) act" where
  "vxi_server cx = server_or_skip cx ''needs the mock server's fault injection''"

definition rpc_faulted :: "'w ctx \<Rightarrow> mock \<Rightarrow> (string \<times> json) list \<Rightarrow> ('w, 'r) act \<Rightarrow> ('w, 'r) act" where
  "rpc_faulted cx srv config = vxi11_faults_block (cx_ask cx) (cx_environ cx) srv config"

definition arm :: "'w ctx \<Rightarrow> mock \<Rightarrow> (string \<times> json) list \<Rightarrow> ('w, unit) act" where
  "arm cx srv config = set_vxi11_faults (cx_ask cx) (cx_environ cx) srv config"

definition visa_or_other :: "(exn \<Rightarrow> ('w, 'a) act) \<Rightarrow> (exn \<Rightarrow> ('w, 'a) act) \<Rightarrow> ('w, 'a) act \<Rightarrow> ('w, 'a) act" where
  \<comment> \<open>\<^verbatim>\<open>except errors.VisaIOError\<close> before \<^verbatim>\<open>except Exception\<close>\<close>
  "visa_or_other h1 h2 m = catch ''Exception'' m (\<lambda>exc. if isinstance exc ''VisaIOError'' then h1 exc else h2 exc)"

definition bytes_of :: "string option \<Rightarrow> ('w, string) act" where
  \<comment> \<open>a method or \<^verbatim>\<open>len\<close> of the data a read gave\<close>
  "bytes_of d = (case d of None \<Rightarrow> throw (type_error ''NoneType'') | Some s \<Rightarrow> ret s)"

definition shown_bytes :: "'w ctx \<Rightarrow> string option \<Rightarrow> string" where
  "shown_bytes cx d = cx_repr_value cx (case d of None \<Rightarrow> ANone | Some s \<Rightarrow> ABytes s)"

section \<open>Read status codes\<close>

definition check_read_end :: "'w ctx \<Rightarrow> ('w, string) act" where
  "check_read_end cx = open_inst cx (
     andthen (set_visa_attribute cx ''termchar_enabled'' (ABool False)) (\<lambda>_.
     andthen (lib_write cx (''*IDN?'' @ nl)) (\<lambda>_.
     andthen (lib_read cx 4096) (\<lambda>(data, st).
     andthen (assert_that (st = code cx ''success'') (''expected VI_SUCCESS, got '' @ repr_status cx st)) (\<lambda>_.
     andthen (assert_that (data \<noteq> None \<and> data \<noteq> Some []) ''no data came back'') (\<lambda>_.
     ret (''got '' @ repr_status cx st @ '' with '' @ str_nat (length (the data)) @ '' bytes'')))))))"

definition check_read_termchar :: "'w ctx \<Rightarrow> ('w, string) act" where
  "check_read_termchar cx =
     andthen (vxi_server cx) (\<lambda>srv.
     andthen (respond (cx_ask cx) srv ''TEST:LINES?'' (Some (''first'' @ nl @ ''second'')) 0) (\<lambda>_.
     open_inst cx (
       andthen (set_visa_attribute cx ''termchar'' (AInt 10)) (\<lambda>_.
       andthen (set_visa_attribute cx ''termchar_enabled'' (ABool True)) (\<lambda>_.
       andthen (at_exit
         (andthen (lib_write cx (''TEST:LINES?'' @ nl)) (\<lambda>_.
          andthen (lib_read cx 4096) (\<lambda>(data, st).
          andthen (assert_that (st = code cx ''success_termination_character_read'')
            (''a read stopping on the termchar with more still to come must report VI_SUCCESS_TERM_CHAR, got '' @ repr_status cx st @
             '' with '' @ shown_bytes cx data)) (\<lambda>_.
          andthen (bytes_of data) (\<lambda>d.
          andthen (assert_that (endswith d nl) (''the read did not stop on the termchar: '' @ shown_bytes cx data)) (\<lambda>_.
          andthen (lib_read cx 4096) (\<lambda>_. ret (data, st))))))))
         (set_visa_attribute cx ''termchar_enabled'' (ABool False))) (\<lambda>(data, st).
       ret (''got '' @ repr_status cx st @ '' with '' @ shown_bytes cx data)))))))"

definition check_read_max_count :: "'w ctx \<Rightarrow> ('w, string) act" where
  "check_read_max_count cx = open_inst cx (
     andthen (lib_write cx (''*IDN?'' @ nl)) (\<lambda>_.
     andthen (lib_read cx 4) (\<lambda>(data, st).
     andthen (assert_that (st = code cx ''success_max_count_read'') (''expected VI_SUCCESS_MAX_CNT, got '' @ repr_status cx st)) (\<lambda>_.
     andthen (bytes_of data) (\<lambda>d.
     andthen (assert_that (length d = 4) (''asked for 4 bytes, got '' @ str_nat (length d))) (\<lambda>_.
     andthen (lib_read cx 4096) (\<lambda>_.
     ret (''asked for 4 bytes, got '' @ str_nat (length d) @ '' with '' @ repr_status cx st))))))))"

definition check_end_beats_count :: "'w ctx \<Rightarrow> ('w, string) act" where
  "check_end_beats_count cx =
     andthen (vxi_server cx) (\<lambda>srv.
     open_inst cx (
       andthen (big_reply (cx_ask cx) srv 64 0) (\<lambda>_.
       andthen (lib_write cx (''TEST:BIG?'' @ nl)) (\<lambda>_.
       andthen (lib_read cx 65) (\<lambda>(data, st).
       andthen (bytes_of data) (\<lambda>d.
       andthen (assert_that (length d = 65) (''expected the whole 65-byte message, got '' @ str_nat (length d))) (\<lambda>_.
       andthen (assert_that (st = code cx ''success'')
         (''a message ending exactly on the requested count must report VI_SUCCESS, got '' @ repr_status cx st @
          ''. Callers loop while the status is max-count, so this costs an extra read that can only time out'')) (\<lambda>_.
       ret (''a 65-byte message read into a 65-byte buffer got '' @ repr_status cx st)))))))))"

definition check_large_reassembly :: "'w ctx \<Rightarrow> ('w, string) act" where
  "check_large_reassembly cx =
     andthen (vxi_server cx) (\<lambda>srv.
     andthen (reassembled cx srv (96 * 1024) ''the reassembled reply does not match'') (\<lambda>reply.
     ret (str_nat (char_count reply) @ '' bytes reassembled intact'')))"

section \<open>Errors\<close>

definition injected_error :: "'w ctx \<Rightarrow> int \<Rightarrow> (exn \<Rightarrow> string) \<Rightarrow> string \<Rightarrow> ('w, string) act" where
  "injected_error cx error_code0 escaped missed =
     andthen (vxi_server cx) (\<lambda>srv.
     open_inst cx (
       or_assert missed
         (rpc_faulted cx srv [(''error_on_proc'', JNum DEVICE_READ), (''error_code'', JNum error_code0)]
           (visa_or_other (\<lambda>exc. ret (Some (''reported as '' @ visa_status exc))) (\<lambda>exc. throw (AssertionError (escaped exc)))
             (andthen (inst_query cx ''*IDN?'') (\<lambda>_. ret None))))))"

definition check_error_21 :: "'w ctx \<Rightarrow> ('w, string) act" where
  "check_error_21 cx =
     injected_error cx 21
       (\<lambda>exc. ''a VXI-11 error reached the caller as '' @ type_name exc @ '' rather than a VisaIOError: '' @ e_msg exc)
       ''an error 21 reply was not reported at all''"

definition check_unknown_error_code :: "'w ctx \<Rightarrow> ('w, string) act" where
  "check_unknown_error_code cx =
     injected_error cx 1234
       (\<lambda>exc. ''an unknown device-defined error code produced '' @ type_name exc @ '': '' @ e_msg exc @ '', not a VISA error'')
       ''an unknown error code was not reported at all''"

definition check_recovery_after_error :: "'w ctx \<Rightarrow> ('w, string) act" where
  "check_recovery_after_error cx =
     andthen (vxi_server cx) (\<lambda>srv.
     open_inst cx (
       andthen (rpc_faulted cx srv [(''error_on_proc'', JNum DEVICE_READ), (''error_code'', JNum 4)]
         (catch ''Exception'' (andthen (inst_query cx ''*IDN?'') (\<lambda>_. ret False)) (\<lambda>_. ret True))) (\<lambda>fired.
       andthen (assert_that fired (''the injected error 4 did not reach the client, so this check never exercised recovery'')) (\<lambda>_.
       andthen (asked cx ''*IDN?'') (\<lambda>reply.
       andthen (assert_that (has_comma reply) (''the session did not recover from a single failed read: '' @ py_repr reply)) (\<lambda>_.
       ret (''the query after the injected error returned '' @ py_repr reply)))))))"

definition check_stale_reply :: "'w ctx \<Rightarrow> ('w, string) act" where
  "check_stale_reply cx =
     andthen (vxi_server cx) (\<lambda>srv.
     open_inst cx (
       andthen (respond (cx_ask cx) srv ''TEST:MARK?'' (Some ''stale-sentinel'') 0) (\<lambda>_.
       andthen (rpc_faulted cx srv [(''stale_reply_before_proc'', JNum DEVICE_READ)]
         (catch ''Exception'' (andthen (asked cx ''*IDN?'') (\<lambda>r. ret (Inr r))) (\<lambda>exc. ret (Inl exc)))) (\<lambda>r.
       andthen (assert_that (case r of Inl _ \<Rightarrow> True | Inr reply \<Rightarrow> has_comma reply)
         (''the injected stale record produced no observable effect at all, so this check did not exercise anything'')) (\<lambda>_.
       andthen (asked cx ''*IDN?'') (\<lambda>after.
       andthen (assert_that (has_comma after)
         (''the stream did not resynchronise after a stale reply, next query gave '' @ py_repr after)) (\<lambda>_.
       ret (case r of
          Inr reply \<Rightarrow> ''the stale record was skipped, query returned '' @ py_repr reply
        | Inl exc \<Rightarrow> ''the stale record was rejected: '' @ type_name exc))))))))"

definition vxi_connection_dropped :: "'w ctx \<Rightarrow> ('w, string) act" where
  "vxi_connection_dropped cx =
     andthen (vxi_server cx) (\<lambda>srv.
     open_inst cx (
       andthen (set_timeout cx 2000) (\<lambda>_.
       andthen (big_reply (cx_ask cx) srv 8192 0) (\<lambda>_.
       andthen (now cx) (\<lambda>started.
       or_assert ''a connection dropped mid-read did not raise''
         (faulted cx srv [(''drop_after_bytes'', JNum 64)]
           (catch ''Exception'' (andthen (inst_query cx ''TEST:BIG?'') (\<lambda>_. ret None)) (\<lambda>exc.
              andthen (now cx) (\<lambda>t.
              andthen (assert_that (t - started < 8) (''took '' @ fmt_fixed 2 (t - started) @ ''s to notice'')) (\<lambda>_.
              ret (Some (visa_status exc @ '' in '' @ in_ms (t - started)))))))))))))"

definition check_zero_max_recv_size :: "'w ctx \<Rightarrow> ('w, string) act" where
  "check_zero_max_recv_size cx =
     andthen (vxi_server cx) (\<lambda>srv.
     andthen (arm cx srv [(''max_recv_size'', JNum 0)]) (\<lambda>_.
     at_exit
       (catch ''VisaIOError''
         (open_inst cx (
           andthen (set_timeout cx 2000) (\<lambda>_.
           andthen (asked cx ''*IDN?'') (\<lambda>reply. ret (''survived, query returned '' @ py_repr reply)))))
         (\<lambda>exc. ret (''refused cleanly with '' @ visa_status exc)))
       (arm cx srv [])))"

definition PAYLOAD :: string where
  "PAYLOAD = concat (replicate 520 ''*CLS;'')"

definition sent_writes :: "'w ctx \<Rightarrow> mock \<Rightarrow> ('w, json list) act" where
  \<comment> \<open>the payload, and what of it reached the instrument\<close>
  "sent_writes cx srv =
     andthen (reset (cx_ask cx) srv) (\<lambda>_.
     andthen (inst_write cx PAYLOAD) (\<lambda>_.
     andthen (sleep cx (15 / 100)) (\<lambda>_.
     writes (cx_ask cx) srv None)))"

definition text_of :: "json \<Rightarrow> exn + string" where
  "text_of j = (case j of JStr s \<Rightarrow> Inr s | _ \<Rightarrow> Inl (type_error ''sequence item: expected str instance''))"

definition check_write_splitting :: "'w ctx \<Rightarrow> ('w, string) act" where
  "check_write_splitting cx =
     andthen (vxi_server cx) (\<lambda>srv.
     andthen (open_inst cx (andthen (sent_writes cx srv) (\<lambda>ws. andthen (drained cx) (\<lambda>_. ret (length ws))))) (\<lambda>plain_writes.
     andthen (arm cx srv [(''max_recv_size'', JNum MIN_MAX_RECV_SIZE)]) (\<lambda>_.
     at_exit
       (open_inst cx (
         andthen (sent_writes cx srv) (\<lambda>ws.
         andthen (lift (map_json text_of ws)) (\<lambda>texts.
         andthen (drained cx) (\<lambda>_.
         andthen (assert_that (contains PAYLOAD (concat texts))
           (''the instrument did not receive the whole message; it saw '' @ str_nat (char_count (concat texts)) @ '' bytes across '' @
            str_nat (length ws) @ '' writes'')) (\<lambda>_.
         andthen (assert_that (length ws > plain_writes)
           (''a maxRecvSize of '' @ str_int MIN_MAX_RECV_SIZE @ '' produced '' @ str_nat (length ws) @ '' write(s) for '' @
            str_nat (length PAYLOAD) @ ''B, the same as the '' @ str_nat plain_writes @
            '' sent without it, so the message was not divided at all'')) (\<lambda>_.
         ret (str_nat (length PAYLOAD) @ ''B arrived in '' @ str_nat (length ws) @ '' writes, against '' @ str_nat plain_writes @ '' unfaulted''))))))))
       (arm cx srv []))))"

definition check_dead_port :: "int \<Rightarrow> 'w ctx \<Rightarrow> ('w, string) act" where
  "check_dead_port dead cx =
     andthen (now cx) (\<lambda>started.
     or_assert ''opening a dead port appeared to succeed''
       (visa_or_other
         (\<lambda>exc. andthen (now cx) (\<lambda>t.
            andthen (assert_that (t - started < 10) (''took '' @ fmt_fixed 1 (t - started) @ ''s to refuse a dead port'')) (\<lambda>_.
            ret (Some (visa_status exc @ '' in '' @ in_ms (t - started))))))
         (\<lambda>exc. throw (AssertionError (''opening a dead port raised '' @ type_name exc @ '': '' @ e_msg exc @ '', not a VisaIOError'')))
         (andthen (effect (cl_open (cx_client cx) (''TCPIP0::127.0.0.1,'' @ str_int dead @ ''::inst0::INSTR''))) (\<lambda>_. ret None))))"

definition check_refused_link :: "'w ctx \<Rightarrow> ('w, string) act" where
  "check_refused_link cx =
     andthen (vxi_server cx) (\<lambda>srv.
     andthen (arm cx srv [(''error_on_proc'', JNum CREATE_LINK), (''error_code'', JNum 9), (''error_once'', JBool False)]) (\<lambda>_.
     at_exit
       (or_assert ''a refused create_link appeared to succeed''
         (visa_or_other
           (\<lambda>exc. ret (Some (''reported as '' @ visa_status exc)))
           (\<lambda>exc. throw (AssertionError (''a refused link raised '' @ type_name exc @ '': '' @ e_msg exc @ '', not a VisaIOError'')))
           (andthen (effect (cl_open (cx_client cx) (cx_resource cx))) (\<lambda>_. ret None))))
       (arm cx srv [])))"

section \<open>Locking\<close>

definition check_lock_state :: "'w ctx \<Rightarrow> ('w, string) act" where
  \<comment> \<open>\<^verbatim>\<open>VI_EXCLUSIVE_LOCK\<close> is 1\<close>
  "check_lock_state cx = open_inst cx (
     andthen (lib_lock cx ''exclusive'' 2000 None) (\<lambda>_.
     andthen (get_attribute cx ''resource_lock_state'') (\<lambda>(state, st).
     andthen (lib_unlock cx) (\<lambda>_.
     andthen (assert_that (st = code cx ''success'') (''VI_ATTR_RSRC_LOCK_STATE is not readable ('' @ repr_status cx st @ '')'')) (\<lambda>_.
     andthen (assert_that (value_of state = AInt 1)
       (''expected VI_EXCLUSIVE_LOCK, got '' @ cx_repr_value cx (value_of state))) (\<lambda>_.
     ret (''read back '' @ cx_repr_value cx (value_of state) @ '' ('' @ repr_status cx st @ '')'')))))))"

definition check_after_failed_lock :: "'w ctx \<Rightarrow> 'w client \<Rightarrow> ('w, string) act" where
  "check_after_failed_lock cx b =
     (let cb = through cx b in
      open_inst cx (open_inst cb (
        andthen (effect (cl_lock_excl (cx_client cx) 2000)) (\<lambda>_.
        andthen (at_exit (suppressed (effect (cl_lock_excl b 200))) (effect (cl_unlock (cx_client cx)))) (\<lambda>_.
        andthen (asked cb ''*IDN?'') (\<lambda>reply.
        andthen (assert_that (has_comma reply) (''session B was left unusable: '' @ py_repr reply)) (\<lambda>_.
        ret (''session B returned '' @ py_repr reply @ '' after its lock attempt failed''))))))))"

section \<open>Session behaviour\<close>

definition check_empty_read_times_out :: "'w ctx \<Rightarrow> ('w, string) act" where
  "check_empty_read_times_out cx = silent_read cx 4 [] ''a read with nothing to read returned''"

definition vxi_recovery_after_timeout :: "'w ctx \<Rightarrow> ('w, string) act" where
  "vxi_recovery_after_timeout cx = open_inst cx (
     andthen (set_timeout cx 800) (\<lambda>_.
     andthen (inst_write cx ''TEST:SILENT?'') (\<lambda>_.
     andthen (catch ''VisaIOError'' (andthen (inst_read cx) (\<lambda>_. ret ())) (\<lambda>_. ret ())) (\<lambda>_.
     andthen (set_timeout cx (cx_timeout cx)) (\<lambda>_.
     andthen (inst_clear cx) (\<lambda>_.
     andthen (asked cx ''*IDN?'') (\<lambda>reply.
     andthen (assert_that (has_comma reply) (''the session did not resynchronise: '' @ py_repr reply)) (\<lambda>_.
     ret (''the query after the timeout returned '' @ py_repr reply)))))))))"

definition check_keepalive :: "'w ctx \<Rightarrow> ('w, string) act" where
  "check_keepalive cx = open_inst cx (
     andthen (set_attribute cx ''tcpip_keepalive'' (ABool True)) (\<lambda>(_, st).
     andthen (get_attribute cx ''tcpip_keepalive'') (\<lambda>(value, get_st).
     andthen (set_attribute cx ''tcpip_keepalive'' (ABool False)) (\<lambda>_.
     andthen (assert_that (st = code cx ''success'') (''setting keepalive returned '' @ repr_status cx st)) (\<lambda>_.
     andthen (assert_that (get_st = code cx ''success'' \<and> truthy_value (value_of value))
       (''keepalive did not read back as on ('' @ repr_status cx get_st @ '', '' @ cx_repr_value cx (value_of value) @ '')'')) (\<lambda>_.
     ret (''set '' @ repr_status cx st @ '', read back '' @ cx_repr_value cx (value_of value) @ '' ('' @ repr_status cx get_st @ '')'')))))))"

definition is_write :: "json \<Rightarrow> exn + bool" where
  "is_write e = map_sum id (\<lambda>op. op = JStr ''write'') (item ''op'' e)"

definition check_send_end_flag :: "'w ctx \<Rightarrow> ('w, string) act" where
  "check_send_end_flag cx =
     andthen (vxi_server cx) (\<lambda>srv.
     open_inst cx (
       andthen (clear_observed (cx_ask cx) srv) (\<lambda>_.
       andthen (set_visa_attribute cx ''send_end_enabled'' (ABool False)) (\<lambda>_.
       at_exit
         (andthen (lib_write cx ''*CLS'') (\<lambda>_.
          andthen (sleep cx (2 / 10)) (\<lambda>_.
          andthen (andthen (observed (cx_ask cx) srv) (\<lambda>j. lift (bindr (events_of (Inr j)) (filter_json is_write)))) (\<lambda>events.
          andthen (assert_that (events \<noteq> []) ''the write never reached the instrument'') (\<lambda>_.
          andthen (lift (item ''eoi'' (last events))) (\<lambda>eoi.
          andthen (assert_that (\<not> truthy_json eoi) ''VI_ATTR_SEND_END_EN was false but the write still carried END'') (\<lambda>_.
          ret (''the instrument saw eoi='' @ json_repr eoi))))))))
         (andthen (set_visa_attribute cx ''send_end_enabled'' (ABool True)) (\<lambda>_.
          andthen (lib_write cx nl) (\<lambda>_. drained cx)))))))"

fun link_cycles :: "nat \<Rightarrow> nat \<Rightarrow> rat \<Rightarrow> 'w ctx \<Rightarrow> ('w, nat) act" where
  \<comment> \<open>the loop, with the cycles left to do and those done; how many were done when it ended\<close>
  "link_cycles 0 i deadline cx = ret i"
| "link_cycles (Suc n) i deadline cx =
     andthen (catch ''Exception'' (open_inst cx (andthen (inst_query cx ''*IDN?'') (\<lambda>_. ret ()))) (\<lambda>exc.
       throw (AssertionError (''open/close cycle '' @ str_nat i @ '' failed with '' @ visa_status exc @
         ''; the server ran out of links, so closing does not destroy them'')))) (\<lambda>_.
     andthen (now cx) (\<lambda>t. if t > deadline then ret (Suc i) else link_cycles n (Suc i) deadline cx))"

definition check_close_destroys_link :: "'w ctx \<Rightarrow> ('w, string) act" where
  "check_close_destroys_link cx =
     andthen (now cx) (\<lambda>t0.
     andthen (link_cycles LINK_CYCLES 0 (t0 + LINK_BUDGET_S) cx) (\<lambda>done.
     if done < LINK_CYCLES then
       ret (str_nat done @ '' sequential open/close cycles in '' @ fmt_fixed 0 LINK_BUDGET_S @ ''s ('' @
         fmt_fixed 0 (LINK_BUDGET_S / of_nat (max done 1) * 1000) @ '' ms each); no leak up to there, but this target is too slow to reach '' @
         str_nat LINK_CYCLES @ '' within the budget, so a cap above '' @ str_nat done @ '' would not have been found'')
     else ret (str_nat LINK_CYCLES @ '' sequential open/close cycles'')))"

section \<open>Which checks notice that their fault did not fire\<close>

definition inert_ctx :: "'w ctx" where
  \<comment> \<open>a server that takes every command and injects nothing, and a client that answers every query\<close>
  "inert_ctx = example_ctx\<lparr>cx_server := Some example_mock, cx_ask := (\<lambda>j w. (Inr (Line (JObj [])), w))\<rparr>"

lemma inert_session: "session_on inert_ctx name body w = body w"
  by (simp add: session_on_def session_def in_mode_def Let_def inert_ctx_def example_ctx_def example_client_def instr.truncate_def split: prod.split)

lemma inert_calls: "inst_query inert_ctx q w = (Inr ''a,b'', w)" "asked inert_ctx q w = (Inr ''a,b'', w)"
  by (simp_all add: asked_def inst_query_def andthen_def ret_def inert_ctx_def example_ctx_def example_client_def strip_def rstrip_def lstrip_def is_space_def)

lemma inert_server: "vxi_server inert_ctx = ret example_mock" "rpc_faulted inert_ctx example_mock config body = body"
  by (simp_all add: vxi_server_def server_or_skip_def rpc_faulted_def inert_ctx_def vxi11_faults_block_def set_vxi11_faults_def forget_def
      command_def example_mock_def fun_eq_iff split: prod.split)

lemma inert_respond: "respond (cx_ask inert_ctx) example_mock q r pad w = (Inr (), w)"
  by (simp add: respond_def forget_def command_def example_mock_def inert_ctx_def)

text \<open>Three of the four checks that inject an error or a stray record fail when the server injects nothing, as a check that rests on
  an injection must. The check of the stale reply passes, and reports that the stale record was skipped: its guard
  against an injection without effect accepts every reply with a comma, which is what an undisturbed query returns.\<close>

theorem stale_reply_passes_without_fault:
  "verdict (check_error_21 inert_ctx w) = FAIL \<and> verdict (check_unknown_error_code inert_ctx w) = FAIL \<and>
   verdict (check_recovery_after_error inert_ctx w) = FAIL \<and>
   fst (check_stale_reply inert_ctx w) = Inr (''the stale record was skipped, query returned '' @ py_repr ''a,b'')"
  by (simp add: check_error_21_def check_unknown_error_code_def check_recovery_after_error_def check_stale_reply_def injected_error_def
      inert_server open_inst_def inert_session or_assert_def visa_or_other_def catch_def andthen_def inert_calls inert_respond acts has_comma_def)

text \<open>The cycles of opening and closing: at least one is made, and no more than asked for.\<close>

lemma link_cycles_bounds: "link_cycles (Suc n) i deadline cx w = (Inr k, w') \<Longrightarrow> i < k \<and> k \<le> i + Suc n"
proof (induction n arbitrary: i w)
  case 0
  then show ?case by (auto simp: andthen_Inr_iff ret_def split: if_splits)
next
  case (Suc n)
  from Suc.prems obtain w1 where "k = Suc i \<or> link_cycles (Suc n) (Suc i) deadline cx w1 = (Inr k, w')"
    unfolding link_cycles.simps(2)[of "Suc n"] andthen_Inr_iff by (auto simp: ret_def split: if_splits)
  with Suc.IH[of "Suc i" w1] show ?case by auto
qed

end
