(* ===== verification/Hislip_Messages.thy ===== *)
theory Hislip_Messages
  imports Wire
begin

unbundle bit_operations_syntax

text \<open>
  \<^verbatim>\<open>checks/11_hislip_messages.py\<close>: what a HiSLIP client does with MessageIDs, read from the proxy's message log and provoked by
  skewed replies. A message parameter is 32 bits wide on the wire and an unbounded integer in the check, which masks
  the differences itself.
\<close>

definition MSG_DATA :: int where "MSG_DATA = 6"
definition MSG_DATA_END :: int where "MSG_DATA_END = 7"
definition MSG_TRIGGER :: int where "MSG_TRIGGER = 12"
definition INITIAL_MESSAGE_ID :: int where "INITIAL_MESSAGE_ID = 0xFFFFFF00"
definition MESSAGE_ID_STEP :: int where "MESSAGE_ID_STEP = 2"

section \<open>Reading the log\<close>

definition wire_server_or_skip :: "'w ctx \<Rightarrow> ('w, mock) act" where
  "wire_server_or_skip cx = server_or_skip cx ''needs the mock server: these are wire-level requirements''"

definition synchronized_server :: "string option \<Rightarrow> 'w ctx \<Rightarrow> ('w, mock) act" where
  \<comment> \<open>the first argument is \<^verbatim>\<open>CTX["args"].hislip_mode\<close>\<close>
  "synchronized_server mode cx =
     andthen (wire_server_or_skip cx) (\<lambda>srv.
     if mode = Some ''overlapped'' then throw (Skip ''a synchronized-mode requirement, and this run is overlapped'')
     else ret srv)"

definition message_log :: "'w ctx \<Rightarrow> mock \<Rightarrow> ('w, json list) act" where
  "message_log cx srv = andthen (hislip_messages (cx_ask cx) srv) (\<lambda>j. lift (events_of (Inr j)))"

definition is_client_data :: "json \<Rightarrow> exn + bool" where
  "is_client_data m =
     bindr (item ''from'' m) (\<lambda>f.
     if f \<noteq> JStr ''client'' then Inr False
     else map_sum id (\<lambda>t. t \<in> {JNum MSG_DATA, JNum MSG_DATA_END, JNum MSG_TRIGGER}) (item ''message_type'' m))"

definition client_ids :: "'w ctx \<Rightarrow> mock \<Rightarrow> ('w, int list) act" where
  "client_ids cx srv =
     andthen (message_log cx srv) (\<lambda>ms.
     lift (bindr (filter_json is_client_data ms) (map_json (num_at ''message_parameter''))))"

definition is_from :: "string \<Rightarrow> json \<Rightarrow> exn + bool" where
  "is_from who m = map_sum id (\<lambda>f. f = JStr who) (item ''from'' m)"

definition server_kinds :: "'w ctx \<Rightarrow> mock \<Rightarrow> ('w, json list) act" where
  "server_kinds cx srv =
     andthen (message_log cx srv) (\<lambda>ms.
     lift (bindr (filter_json (is_from ''server'') ms) (map_json (item ''message_type''))))"

section \<open>The checks\<close>

definition shown_id :: "int \<Rightarrow> string" where
  "shown_id i = fmt_hex 10 i"

fun queries :: "nat \<Rightarrow> 'w ctx \<Rightarrow> ('w, unit) act" where
  \<comment> \<open>\<^verbatim>\<open>for _ in range(n): inst.query("*IDN?")\<close>\<close>
  "queries 0 cx = ret ()"
| "queries (Suc n) cx = andthen (inst_query cx ''*IDN?'') (\<lambda>_. queries n cx)"

definition check_initial_message_id :: "'w ctx \<Rightarrow> ('w, string) act" where
  "check_initial_message_id cx =
     andthen (wire_server_or_skip cx) (\<lambda>srv.
     open_inst cx (
       andthen (reset (cx_ask cx) srv) (\<lambda>_.
       andthen (inst_query cx ''*IDN?'') (\<lambda>_.
       andthen (client_ids cx srv) (\<lambda>ids.
       andthen (assert_that (ids \<noteq> []) ''the client sent no Data, DataEND or Trigger message'') (\<lambda>_.
       andthen (assert_that (hd ids = INITIAL_MESSAGE_ID)
         (''the first MessageID was '' @ shown_id (hd ids) @ '', expected '' @ shown_id INITIAL_MESSAGE_ID)) (\<lambda>_.
       ret (shown_id (hd ids)))))))))"

definition id_steps :: "int list \<Rightarrow> int list" where
  "id_steps ids = map (\<lambda>(a, b). (b - a) AND 0xFFFFFFFF) (zip ids (tl ids))"

definition judge_steps :: "int list \<Rightarrow> ('w, string) act" where
  "judge_steps ids =
     andthen (assert_that (length ids \<ge> 4) (''expected at least 4 messages, saw '' @ str_nat (length ids))) (\<lambda>_.
     andthen (assert_that (list_all (\<lambda>s. s = MESSAGE_ID_STEP) (id_steps ids))
       (''MessageIDs stepped by '' @ repr_list (map str_int (id_steps ids)) @ '', expected '' @ str_int MESSAGE_ID_STEP @
        '' each time: '' @ repr_list (map (\<lambda>i. py_repr (shown_id i)) ids))) (\<lambda>_.
     ret (shown_id (hd ids) @ '' then +'' @ str_int MESSAGE_ID_STEP @ '' x '' @ str_nat (length (id_steps ids)))))"

definition check_message_id_step :: "'w ctx \<Rightarrow> ('w, string) act" where
  "check_message_id_step cx =
     andthen (wire_server_or_skip cx) (\<lambda>srv.
     open_inst cx (
       andthen (reset (cx_ask cx) srv) (\<lambda>_.
       andthen (queries 4 cx) (\<lambda>_.
       andthen (client_ids cx srv) judge_steps))))"

text \<open>Asking under an armed fault: \<open>Inl\<close> is the text for an exception, \<open>Inr\<close> the reply.\<close>

definition ask_faulted ::
  "'w ctx \<Rightarrow> mock \<Rightarrow> (string \<times> json) list \<Rightarrow> string \<Rightarrow> (exn \<Rightarrow> string) \<Rightarrow> ('w, string + string) act" where
  "ask_faulted cx srv config q said =
     hislip_faults_block (cx_ask cx) (cx_environ cx) srv config
       (catch ''Exception'' (andthen (inst_query cx q) (\<lambda>r. ret (Inr r))) (\<lambda>exc. ret (Inl (said exc))))"

definition check_data_end_id_mismatch :: "string option \<Rightarrow> 'w ctx \<Rightarrow> ('w, string) act" where
  "check_data_end_id_mismatch mode cx =
     andthen (synchronized_server mode cx) (\<lambda>srv.
     open_inst cx (
       andthen (set_timeout cx 2000) (\<lambda>_.
       andthen (reset (cx_ask cx) srv) (\<lambda>_.
       andthen (inst_query cx ''*IDN?'') (\<lambda>_.
       andthen (ask_faulted cx srv [(''skew_data_end_id'', JNum 4)] ''*IDN?'' (\<lambda>exc. ''discarded, reported as '' @ visa_status exc)) (\<lambda>r.
       case r of
         Inl detail \<Rightarrow> ret detail
       | Inr reply \<Rightarrow> throw (AssertionError
           (''a DataEND carrying a MessageID four higher than the request's was accepted and its payload returned as '' @
            py_repr (strip reply) @ ''. 3.1.2 rule 1 requires it to be discarded: the client and server '' @
            ''disagree about which request is being answered''))))))))"

definition check_chunked_reply :: "'w ctx \<Rightarrow> ('w, string) act" where
  "check_chunked_reply cx =
     andthen (wire_server_or_skip cx) (\<lambda>srv.
     andthen (big_reply (cx_ask cx) srv 500 0) (\<lambda>_.
     open_inst cx (
       andthen (set_timeout cx 3000) (\<lambda>_.
       andthen (reset (cx_ask cx) srv) (\<lambda>_.
       andthen (hislip_faults_block (cx_ask cx) (cx_environ cx) srv [(''split_data_end_at'', JNum 120)]
         (andthen (inst_query cx ''TEST:BIG?'') (\<lambda>r. ret (strip r)))) (\<lambda>reply.
       andthen (server_kinds cx srv) (\<lambda>kinds.
       andthen (assert_that (JNum MSG_DATA \<in> set kinds)
         ''the reply did not arrive as Data + DataEND, so the chunked path was not exercised'') (\<lambda>_.
       andthen (assert_that (length reply = 500)
         (''a 500-byte reply split across Data and DataEND came back as '' @ str_nat (length reply) @ '' bytes'')) (\<lambda>_.
       ret ''500B across Data + DataEND'')))))))))"

definition check_data_id_mismatch :: "string option \<Rightarrow> 'w ctx \<Rightarrow> ('w, string) act" where
  "check_data_id_mismatch mode cx =
     andthen (synchronized_server mode cx) (\<lambda>srv.
     andthen (respond (cx_ask cx) srv ''TEST:SPLIT?'' (Some (replicate 120 CHR ''A'' @ replicate 380 CHR ''B'')) 0) (\<lambda>_.
     open_inst cx (
       andthen (set_timeout cx 2000) (\<lambda>_.
       andthen (reset (cx_ask cx) srv) (\<lambda>_.
       andthen (ask_faulted cx srv [(''split_data_end_at'', JNum 120), (''skew_data_id'', JNum 6)] ''TEST:SPLIT?''
         (\<lambda>exc. ''the exchange was refused: '' @ visa_status exc)) (\<lambda>r.
       case r of
         Inl detail \<Rightarrow> ret detail
       | Inr reply0 \<Rightarrow>
           let reply = strip reply0 in
           andthen (server_kinds cx srv) (\<lambda>kinds.
           if JNum MSG_DATA \<notin> set kinds
           then throw (Skip (''the reply did not split, so there was no Data message to mis-address and rule 2 was not reached''))
           else andthen (assert_that (CHR ''A'' \<notin> set reply)
               (''the mis-addressed Data chunk was delivered to the caller: '' @ str_nat (length (filter (\<lambda>c. c = CHR ''A'') reply)) @
                '' of its 120 bytes appear in the reply, where 3.1.2 rule 2 requires the chunk to be discarded'')) (\<lambda>_.
             andthen (assert_that (reply \<noteq> []) ''the mis-addressed chunk took the whole reply with it'') (\<lambda>_.
             ret (str_nat (length reply) @ ''B delivered, the 120B mis-addressed chunk dropped''))))))))))"

definition check_recovery_after_mismatch :: "string option \<Rightarrow> 'w ctx \<Rightarrow> ('w, string) act" where
  "check_recovery_after_mismatch mode cx =
     andthen (synchronized_server mode cx) (\<lambda>srv.
     open_inst cx (
       andthen (set_timeout cx 2000) (\<lambda>_.
       andthen (reset (cx_ask cx) srv) (\<lambda>_.
       andthen (inst_query cx ''*IDN?'') (\<lambda>idn0. let idn = strip idn0 in
       andthen (hislip_faults_block (cx_ask cx) (cx_environ cx) srv [(''skew_data_end_id'', JNum 8)]
         (suppressed (andthen (inst_query cx ''*IDN?'') (\<lambda>_. ret ())))) (\<lambda>_.
       andthen (suppressed (inst_clear cx)) (\<lambda>_.
       andthen (inst_query cx ''*IDN?'') (\<lambda>after0. let after = strip after0 in
       andthen (assert_that (after = idn)
         (''after a mismatched MessageID the next query returned '' @ py_repr after @ '', expected '' @ py_repr idn @
          '': the buffered response was not cleared'')) (\<lambda>_.
       ret (''the query after the discarded message returned '' @ py_repr after))))))))))"

definition check_message_id_reset_on_clear :: "'w ctx \<Rightarrow> ('w, string) act" where
  "check_message_id_reset_on_clear cx =
     andthen (wire_server_or_skip cx) (\<lambda>srv.
     open_inst cx (
       andthen (set_timeout cx 3000) (\<lambda>_.
       andthen (reset (cx_ask cx) srv) (\<lambda>_.
       andthen (queries 3 cx) (\<lambda>_.
       andthen (client_ids cx srv) (\<lambda>before.
       andthen (assert_that (length before \<ge> 3) (''expected 3 messages, saw '' @ str_nat (length before))) (\<lambda>_.
       andthen (assert_that (last before \<noteq> INITIAL_MESSAGE_ID) ''the counter had not advanced, so a reset cannot be observed'') (\<lambda>_.
       andthen (inst_clear cx) (\<lambda>_.
       andthen (reset (cx_ask cx) srv) (\<lambda>_.
       andthen (inst_query cx ''*IDN?'') (\<lambda>_.
       andthen (client_ids cx srv) (\<lambda>after.
       andthen (assert_that (after \<noteq> []) ''no message followed the device clear'') (\<lambda>_.
       andthen (assert_that (hd after = INITIAL_MESSAGE_ID)
         (''the first MessageID after a device clear was '' @ shown_id (hd after) @ '', expected '' @ shown_id INITIAL_MESSAGE_ID @
          ''. The server resets too, so a client that keeps counting is out of step from here on'')) (\<lambda>_.
       ret (shown_id (last before) @ '' -> clear -> '' @ shown_id (hd after))))))))))))))))"

definition check_overlap_mode_attribute :: "'w ctx \<Rightarrow> ('w, string) act" where
  "check_overlap_mode_attribute cx =
     open_inst cx (andthen (get_attribute cx ''tcpip_hislip_overlap_enable'') (\<lambda>r.
       andthen (assert_that (snd r = code cx ''success'' \<and> value_of (fst r) \<noteq> ANone)
         (''VI_ATTR_TCPIP_HISLIP_OVERLAP_EN is not readable ('' @ repr_status cx (snd r) @
          ''), so a caller cannot tell which mode the session negotiated'')) (\<lambda>_.
       ret (''overlap_en='' @ cx_repr_value cx (value_of (fst r))))))"

definition check_prologue :: "'w ctx \<Rightarrow> ('w, string) act" where
  "check_prologue cx =
     andthen (wire_server_or_skip cx) (\<lambda>srv.
     open_inst cx (
       andthen (reset (cx_ask cx) srv) (\<lambda>_.
       andthen (inst_query cx ''*IDN?'') (\<lambda>_.
       andthen (message_log cx srv) (\<lambda>ms.
       andthen (lift (filter_json (is_from ''client'') ms)) (\<lambda>client.
       andthen (assert_that (client \<noteq> [])
         (''no client message was recognised, which means the prologue was not ASCII 'HS' -- the parser keys on it'')) (\<lambda>_.
       ret (str_nat (length client) @ '' client messages, all with a valid prologue''))))))))"

section \<open>MessageIDs at their width\<close>

definition is_data_message :: "hislip_seen \<Rightarrow> bool" where
  "is_data_message s \<longleftrightarrow> hs_from s = ''client'' \<and> hs_message_type s \<in> {6, 7, 12}"

definition data_ids :: "control \<Rightarrow> 32 word list" where
  \<comment> \<open>the MessageIDs of the client's data messages in the server's log\<close>
  "data_ids c = map hs_message_parameter (filter is_data_message (ht_seen (co_hislip c)))"

lemma json_word_eq: "json_word (u :: 8 word) = JNum n \<longleftrightarrow> uint u = n"
  by (simp add: json_word_def)

lemma uint_eq_numeral: "uint (u :: 8 word) = 6 \<longleftrightarrow> u = 6" "uint u = 7 \<longleftrightarrow> u = 7" "uint u = 12 \<longleftrightarrow> u = 12"
  by (simp_all add: word_uint_eq_iff)

lemma is_client_data_seen: "is_client_data (json_of_seen s) = Inr (is_data_message s)"
  by (auto simp: is_client_data_def is_data_message_def json_word_eq MSG_DATA_def MSG_DATA_END_def MSG_TRIGGER_def uint_eq_numeral)

lemma ids_of_seen:
  "bindr (filter_json is_client_data (map json_of_seen ms)) (map_json (num_at ''message_parameter'')) =
     Inr (map (uint \<circ> hs_message_parameter) (filter is_data_message ms))"
proof -
  have "filter_json is_client_data (map json_of_seen ms) = Inr (map json_of_seen (filter is_data_message ms))"
    by (induction ms) (simp_all add: is_client_data_seen)
  moreover have "map_json (num_at ''message_parameter'') (map json_of_seen ss) = Inr (map (uint \<circ> hs_message_parameter) ss)" for ss
    by (induction ss) (simp_all add: num_at_def)
  ultimately show ?thesis by simp
qed

lemma masked_difference: "(uint b - uint a) AND 0xFFFFFFFF = uint (b - a)" for a b :: "32 word"
proof -
  have "(0xFFFFFFFF :: int) = mask 32" by (simp add: mask_eq_exp_minus_1)
  then have "(uint b - uint a) AND 0xFFFFFFFF = take_bit 32 (uint b - uint a)" by (simp add: take_bit_eq_mask)
  then show ?thesis by (simp add: uint_word_ariths take_bit_eq_mod)
qed

lemma step_iff: "(uint b - uint a) AND 0xFFFFFFFF = 2 \<longleftrightarrow> b = a + 2" for a b :: "32 word"
proof -
  have "uint (b - a) = 2 \<longleftrightarrow> b - a = 2" by (simp add: word_uint_eq_iff)
  then show ?thesis unfolding masked_difference by (simp add: eq_diff_eq[symmetric] algebra_simps)
qed

lemma id_steps_progression:
  "list_all (\<lambda>s. s = MESSAGE_ID_STEP) (id_steps (map uint us)) \<longleftrightarrow> (\<forall>i. Suc i < length us \<longrightarrow> us ! Suc i = us ! i + 2)"
  for us :: "32 word list"
proof (induction us)
  case (Cons u us)
  show ?case
  proof (cases us)
    case (Cons v vs)
    have "list_all (\<lambda>s. s = MESSAGE_ID_STEP) (id_steps (map uint (u # us))) \<longleftrightarrow>
        v = u + 2 \<and> (\<forall>i. Suc i < length us \<longrightarrow> us ! Suc i = us ! i + 2)"
      using Cons.IH by (simp add: id_steps_def Cons step_iff MESSAGE_ID_STEP_def)
    also have "\<dots> \<longleftrightarrow> (\<forall>i. Suc i < length (u # us) \<longrightarrow> (u # us) ! Suc i = (u # us) ! i + 2)"
      unfolding Cons by (auto simp: nth_Cons split: nat.split)
    finally show ?thesis .
  qed (simp add: id_steps_def)
qed (simp add: id_steps_def)

lemma progression_closed:
  assumes "\<forall>i. Suc i < length us \<longrightarrow> us ! Suc i = us ! i + 2" "i < length us"
  shows "us ! i = us ! 0 + 2 * of_nat i"
  using assms(2)
proof (induction i)
  case (Suc i)
  with assms(1) have "us ! Suc i = us ! i + 2" by blast
  with Suc show ?case by (simp add: algebra_simps)
qed simp

lemma judge_steps_verdict:
  "verdict (judge_steps (map uint us) w) =
     (if 4 \<le> length us \<and> (\<forall>i. Suc i < length us \<longrightarrow> us ! Suc i = us ! i + 2) then PASS else FAIL)"
  for us :: "32 word list"
  unfolding judge_steps_def assert_verdict id_steps_progression by (simp add: ret_def)

text \<open>A pass of the step check is evidence about the wire, whatever the library does: when the session was closed, the
  server's log held at least four data messages of the client, and the MessageID of each was that of the first plus two per
  message in between, in unsigned 32-bit arithmetic with wrap-around.\<close>

theorem message_id_step_pass:
  assumes "cx_ask cx = served err" "check_message_id_step cx w = (Inr d, w')"
  shows "\<exists>c. w' = snd (i_close (cx_client cx) c) \<and> 4 \<le> length (data_ids c) \<and>
    (\<forall>i < length (data_ids c). data_ids c ! i = data_ids c ! 0 + 2 * of_nat i)"
proof -
  obtain srv where srv: "open_inst cx (andthen (reset (cx_ask cx) srv) (\<lambda>_. andthen (queries 4 cx) (\<lambda>_.
      andthen (client_ids cx srv) judge_steps))) w = (Inr d, w')"
    using assms(2) by (auto simp: check_message_id_step_def wire_server_or_skip_def server_or_skip_def throw_def split: option.splits)
  obtain w1 w2 where body: "andthen (reset (cx_ask cx) srv) (\<lambda>_. andthen (queries 4 cx) (\<lambda>_.
      andthen (client_ids cx srv) judge_steps)) w1 = (Inr d, w2)" and w': "w' = snd (i_close (cx_client cx) w2)"
    using srv unfolding open_inst_def by (rule session_on_Inr)
  obtain c ids c1 where log: "client_ids cx srv c = (Inr ids, c1)" "judge_steps ids c1 = (Inr d, w2)"
    using body unfolding andthen_Inr_iff by blast
  have up: "mo_control srv \<noteq> None"
    using log(1) by (auto simp: client_ids_def message_log_def hislip_messages_def command_def get_list_def andthen_def split: if_splits)
  have ids: "ids = map uint (data_ids c)" "c1 = c"
    using log(1) served_messages[OF up, of err c] assms(1)
    by (auto simp: client_ids_def message_log_def andthen_def lift_def events_of_def seen_messages_def ids_of_seen data_ids_def)
  have "w2 = c1" using log(2) by (auto simp: judge_steps_def andthen_Inr_iff ret_def)
  moreover have "verdict (judge_steps ids c1) = PASS" using log(2) by simp
  ultimately have "w2 = c" "4 \<le> length (data_ids c)" "\<forall>i. Suc i < length (data_ids c) \<longrightarrow> data_ids c ! Suc i = data_ids c ! i + 2"
    using ids by (auto simp: judge_steps_verdict split: if_splits)
  with w' progression_closed[of "data_ids c"] show ?thesis by blast
qed

lemma wire_queries: "\<exists>c'. queries n wire_ctx c = (Inr (), c') \<and>
    ht_seen (co_hislip c') = ht_seen (co_hislip c) @
      map (\<lambda>k. \<lparr>hs_from = ''client'', hs_message_type = 7, hs_control_code = 0,
        hs_message_parameter = 0xFFFFFF00 + 2 * of_nat (length (ht_seen (co_hislip c)) + k), hs_payload_len = 6\<rparr>) [0..<n]"
proof (induction n arbitrary: c)
  case (Suc n)
  obtain c1 where q: "inst_query wire_ctx ''*IDN?'' c = (Inr ''a,b'', c1)"
    and s: "ht_seen (co_hislip c1) = ht_seen (co_hislip c) @ [\<lparr>hs_from = ''client'', hs_message_type = 7, hs_control_code = 0,
        hs_message_parameter = 0xFFFFFF00 + 2 * of_nat (length (ht_seen (co_hislip c))), hs_payload_len = 6\<rparr>]"
    by (simp add: wire_inst_query wire_query_def)
  from Suc[of c1] s show ?case
    by (auto simp: andthen_def q upt_conv_Cons map_Suc_upt[symmetric] simp del: upt_Suc)
qed (simp add: ret_def)

theorem message_id_step_pass_witness:
  "\<exists>c. snd (check_message_id_step wire_ctx example_control) = snd (i_close (cx_client wire_ctx) c) \<and> 4 \<le> length (data_ids c) \<and>
    (\<forall>i < length (data_ids c). data_ids c ! i = data_ids c ! 0 + 2 * of_nat i)"
proof -
  obtain c where q: "queries 4 wire_ctx (snd (handle Reset example_control)) = (Inr (), c)"
    and s: "ht_seen (co_hislip c) = map (\<lambda>k. \<lparr>hs_from = ''client'', hs_message_type = 7, hs_control_code = 0,
        hs_message_parameter = 0xFFFFFF00 + 2 * of_nat k, hs_payload_len = 6\<rparr>) [0..<4]"
    using wire_queries[of 4 "snd (handle Reset example_control)"] by (auto simp: wire_reset_logs)
  have ids: "data_ids c = [0xFFFFFF00, 0xFFFFFF02, 0xFFFFFF04, 0xFFFFFF06]"
    by (simp add: data_ids_def s is_data_message_def upt_conv_Cons)
  have "verdict (judge_steps (map uint (data_ids c)) c) = PASS"
    unfolding judge_steps_verdict ids by (auto simp: nth_Cons less_Suc_eq split: nat.split)
  then obtain d where d: "fst (judge_steps (map uint (data_ids c)) c) = Inr d" by (auto simp: verdict_PASS_iff)
  have "fst (check_message_id_step wire_ctx example_control) = Inr d"
    using d served_messages[OF wire_ask(2), of "\<lambda>_. []" c]
    by (simp add: check_message_id_step_def wire_server_or_skip_def open_inst_def wire_session andthen_def wire_reset[unfolded wire_ask(1)] q
        client_ids_def message_log_def wire_ask(1) events_of_def lift_def seen_messages_def ids_of_seen)
      (simp add: data_ids_def)
  then have "check_message_id_step wire_ctx example_control = (Inr d, snd (check_message_id_step wire_ctx example_control))"
    by (simp add: prod_eq_iff)
  from message_id_step_pass[OF wire_ask(1) this] show ?thesis .
qed

end
