(* ===== verification/Hislip_Modes.thy ===== *)
theory Hislip_Modes
  imports Hislip_Messages
begin

unbundle bit_operations_syntax

text \<open>
  \<^verbatim>\<open>checks/18_hislip_modes.py\<close>: synchronized and overlapped mode. Most of these checks start a server of their own that offers the
  modes they need; what starting one takes is the record \<open>'w bench\<close>, with the two options of the script that the checks
  read. A session opened next to another is a second handle.
\<close>

definition MSG_INITIALIZE_RESPONSE :: int where "MSG_INITIALIZE_RESPONSE = 1"
definition MSG_DEVICE_CLEAR_COMPLETE :: int where "MSG_DEVICE_CLEAR_COMPLETE = 8"
definition MSG_DEVICE_CLEAR_ACKNOWLEDGE :: int where "MSG_DEVICE_CLEAR_ACKNOWLEDGE = 9"
definition MSG_ASYNC_DEVICE_CLEAR :: int where "MSG_ASYNC_DEVICE_CLEAR = 19"
definition MSG_ASYNC_STATUS_QUERY :: int where "MSG_ASYNC_STATUS_QUERY = 21"
definition MSG_ASYNC_DEVICE_CLEAR_ACKNOWLEDGE :: int where "MSG_ASYNC_DEVICE_CLEAR_ACKNOWLEDGE = 23"
definition OVERLAPPED :: int where "OVERLAPPED = 1"
definition FIRST_ID :: int where "FIRST_ID = 0xFFFFFF00"
definition STEP :: int where "STEP = 2"
definition BEFORE_FIRST_ID :: int where "BEFORE_FIRST_ID = 0xFFFFFEFE"
definition STB_MAV :: int where "STB_MAV = 0x10"
definition OVERLAP_EN :: string where "OVERLAP_EN = ''tcpip_hislip_overlap_enable''"
definition MAX_MESSAGE_KB :: string where "MAX_MESSAGE_KB = ''tcpip_hislip_max_message_kb''"

record 'w bench =
  bn_os :: "'w os"
  bn_env :: server_env
  bn_no_proxy :: bool                  \<comment> \<open>\<^verbatim>\<open>CTX["args"].no_proxy\<close>\<close>
  bn_big_query :: "string option"      \<comment> \<open>\<^verbatim>\<open>CTX["args"].big_query\<close>\<close>

section \<open>Plumbing\<close>

definition needs_mock :: "'w ctx \<Rightarrow> 'w bench \<Rightarrow> ('w, unit) act" where
  "needs_mock cx B =
     (if cx_server cx = None then throw (Skip ''needs the mock server, to choose which modes the server offers'')
      else if bn_no_proxy B then throw (Skip ''needs the proxy's message log, and this run has --no-proxy'')
      else ret ())"

definition exn_of_error :: "py_error \<Rightarrow> exn" where
  "exn_of_error e =
     (case e of
        ValueError m \<Rightarrow> plain_exn [''ValueError'', ''Exception'', ''BaseException''] m
      | RuntimeError m \<Rightarrow> plain_exn [''RuntimeError'', ''Exception'', ''BaseException''] m
      | _ \<Rightarrow> plain_exn [''Exception'', ''BaseException''] [])"

definition hislip_resource :: "mock \<Rightarrow> ('w, string) act" where
  "hislip_resource srv =
     (case resource srv ''hislip'' of
        Inl e \<Rightarrow> throw (exn_of_error e) | Inr (JStr r) \<Rightarrow> ret r | Inr _ \<Rightarrow> throw (type_error ''resource''))"

definition mode_server :: "'w bench \<Rightarrow> string \<Rightarrow> (mock \<Rightarrow> ('w, 'r) act) \<Rightarrow> ('w, 'r) act" where
  "mode_server B modes = mock_server (bn_os B) (bn_env B) (default_mock\<lparr>ma_hislip_modes := Some modes\<rparr>)"

definition open_at :: "'w ctx \<Rightarrow> string \<Rightarrow> ('w, 'r) act \<Rightarrow> ('w, 'r) act" where
  \<comment> \<open>\<^verbatim>\<open>open_inst(resource)\<close>\<close>
  "open_at cx r = session_on cx (if r = [] then cx_resource cx else r)"

definition offering :: "'w ctx \<Rightarrow> 'w bench \<Rightarrow> string \<Rightarrow> (mock \<Rightarrow> ('w, 'r) act) \<Rightarrow> ('w, 'r) act" where
  "offering cx B modes body =
     andthen (needs_mock cx B) (\<lambda>_.
     mode_server B modes (\<lambda>srv. andthen (hislip_resource srv) (\<lambda>r. open_at cx r (body srv))))"

definition overlap_en :: "'w ctx \<Rightarrow> ('w, bool) act" where
  "overlap_en cx =
     andthen (get_attribute cx OVERLAP_EN) (\<lambda>(value, st).
     andthen (assert_that (st = code cx ''success'' \<and> value_of value \<noteq> ANone)
       (''VI_ATTR_TCPIP_HISLIP_OVERLAP_EN is not readable ('' @ repr_status cx st @ '')'')) (\<lambda>_.
     ret (truthy_value (value_of value))))"

definition set_overlap_en :: "'w ctx \<Rightarrow> bool \<Rightarrow> ('w, status) act" where
  "set_overlap_en cx overlapped = andthen (set_attribute cx OVERLAP_EN (AInt (if overlapped then 1 else 0))) (\<lambda>r. ret (snd r))"

definition mode_name :: "bool \<Rightarrow> string" where
  "mode_name overlapped = (if overlapped then ''overlapped'' else ''synchronized'')"

definition client_says :: "'w ctx \<Rightarrow> ('w, string) act" where
  "client_says cx =
     catch ''AssertionError'' (andthen (overlap_en cx) (\<lambda>m. ret (''the client reports '' @ mode_name m @ '' mode'')))
       (\<lambda>_. ret ''the client's mode attribute is unreadable'')"

definition assert_saying :: "'w ctx \<Rightarrow> bool \<Rightarrow> string \<Rightarrow> ('w, unit) act" where
  \<comment> \<open>an assertion whose message ends with what the client says; the message is only made when it fails\<close>
  "assert_saying cx b msg =
     (if b then ret () else andthen (client_says cx) (\<lambda>s. throw (AssertionError (msg @ ''; '' @ s))))"

definition io_errors_fail :: "'w ctx \<Rightarrow> ('w, 'r) act \<Rightarrow> ('w, 'r) act" where
  "io_errors_fail cx body =
     catch ''VisaIOError'' body (\<lambda>exc.
       andthen (client_says cx) (\<lambda>s. throw (AssertionError (visa_status exc @ '' in an overlapped session; '' @ s))))"

definition repr_mode :: "bool option \<Rightarrow> string" where
  "repr_mode m = (case m of None \<Rightarrow> ''None'' | Some b \<Rightarrow> if b then ''True'' else ''False'')"

definition overlapped_session :: "'w ctx \<Rightarrow> 'w bench \<Rightarrow> (mock option \<Rightarrow> ('w, 'r) act) \<Rightarrow> ('w, 'r) act" where
  "overlapped_session cx B body =
     (if cx_server cx = None then
        open_inst cx (
          andthen (set_hislip_overlap (cx_env cx) (instr.truncate (cx_client cx)) True) (\<lambda>got.
          if got \<noteq> Some True
          then throw (Skip (''the instrument did not agree to overlapped mode (VI_ATTR_TCPIP_HISLIP_OVERLAP_EN reads '' @ repr_mode got @ '' after asking)''))
          else io_errors_fail cx (body None)))
      else offering cx B ''prefer-overlapped'' (\<lambda>srv. io_errors_fail cx (body (Some srv))))"

definition no_server :: exn where
  \<comment> \<open>an attribute of \<^verbatim>\<open>None\<close>\<close>
  "no_server = plain_exn [''AttributeError'', ''Exception'', ''BaseException''] ''NoneType''"

definition overlapped_wire :: "'w ctx \<Rightarrow> 'w bench \<Rightarrow> (mock \<Rightarrow> ('w, 'r) act) \<Rightarrow> ('w, 'r) act" where
  \<comment> \<open>the session of the checks that read the log, which need the mock once they have it\<close>
  "overlapped_wire cx B body =
     overlapped_session cx B (\<lambda>srv.
       andthen (needs_mock cx B) (\<lambda>_. case srv of None \<Rightarrow> throw no_server | Some s \<Rightarrow> body s))"

section \<open>Reading the log\<close>

definition is_message :: "int list \<Rightarrow> string option \<Rightarrow> json \<Rightarrow> exn + bool" where
  "is_message types sender m =
     bindr (item ''message_type'' m) (\<lambda>t.
     if t \<notin> JNum ` set types then Inr False else case sender of None \<Rightarrow> Inr True | Some who \<Rightarrow> is_from who m)"

definition messages :: "'w ctx \<Rightarrow> mock \<Rightarrow> int list \<Rightarrow> string option \<Rightarrow> ('w, json list) act" where
  "messages cx srv types sender = andthen (message_log cx srv) (\<lambda>ms. lift (filter_json (is_message types sender) ms))"

definition params_of :: "json list \<Rightarrow> ('w, int list) act" where
  "params_of ms = lift (map_json (num_at ''message_parameter'') ms)"

definition client_message_ids :: "'w ctx \<Rightarrow> mock \<Rightarrow> ('w, int list) act" where
  "client_message_ids cx srv = andthen (messages cx srv [MSG_DATA, MSG_DATA_END, MSG_TRIGGER] (Some ''client'')) params_of"

definition last_of :: "'a list \<Rightarrow> ('w, 'a) act" where
  "last_of xs = (if xs = [] then throw index_error else ret (last xs))"

definition overlapped_bit :: "json \<Rightarrow> ('w, bool) act" where
  "overlapped_bit m = lift (map_sum id (\<lambda>c. c AND OVERLAPPED \<noteq> 0) (num_at ''control_code'' m))"

definition agreed_mode :: "'w ctx \<Rightarrow> mock \<Rightarrow> string \<Rightarrow> ('w, bool) act" where
  "agreed_mode cx srv what =
     andthen (messages cx srv [MSG_DEVICE_CLEAR_ACKNOWLEDGE] (Some ''server'')) (\<lambda>agreed.
     andthen (assert_that (agreed \<noteq> [])
       (what @ '' did not complete a device clear (no DeviceClearAcknowledge), so the mode was never renegotiated'')) (\<lambda>_.
     overlapped_bit (last agreed)))"

definition status_query_ids :: "'w ctx \<Rightarrow> mock \<Rightarrow> ('w, int list) act" where
  "status_query_ids cx srv = andthen (messages cx srv [MSG_ASYNC_STATUS_QUERY] None) params_of"

fun wait_turns :: "nat \<Rightarrow> 'w ctx \<Rightarrow> mock \<Rightarrow> rat \<Rightarrow> ('w, bool) act \<Rightarrow> ('w, bool option) act" where
  \<comment> \<open>\<^verbatim>\<open>srv.wait_for\<close> with a predicate that asks the server itself; \<open>None\<close> if the turns run out\<close>
  "wait_turns 0 cx srv deadline holds = ret None"
| "wait_turns (Suc n) cx srv deadline holds =
     andthen (now cx) (\<lambda>t.
     if \<not> t < deadline then ret (Some False)
     else andthen (observed (cx_ask cx) srv) (\<lambda>_.
          andthen holds (\<lambda>b.
          if b then ret (Some True)
          else andthen (sleep cx (2 / 100)) (\<lambda>_. wait_turns n cx srv deadline holds))))"

definition wait_for_replies :: "'w ctx \<Rightarrow> mock option \<Rightarrow> nat \<Rightarrow> ('w, unit) act" where
  "wait_for_replies cx srv count0 =
     (case srv of
        None \<Rightarrow> sleep cx (1 / 2)
      | Some s \<Rightarrow>
          andthen (now cx) (\<lambda>started.
          andthen (wait_turns 151 cx s (started + 3)
            (andthen (messages cx s [MSG_DATA_END] (Some ''server'')) (\<lambda>ms. ret (length ms \<ge> count0)))) (\<lambda>_. ret ())))"

definition a_reply :: "'w ctx \<Rightarrow> ('w, string) act" where
  "a_reply cx = andthen (inst_read cx) (\<lambda>r. ret (strip r))"

definition idn_and_opc :: "'w ctx \<Rightarrow> ('w, string \<times> string) act" where
  "idn_and_opc cx = andthen (asked cx ''*IDN?'') (\<lambda>idn. andthen (asked cx ''*OPC?'') (\<lambda>opc. ret (idn, opc)))"

definition reset_if :: "'w ctx \<Rightarrow> mock option \<Rightarrow> ('w, unit) act" where
  "reset_if cx srv = (case srv of None \<Rightarrow> ret () | Some s \<Rightarrow> reset (cx_ask cx) s)"

section \<open>Negotiation\<close>

definition announced_mode :: "'w ctx \<Rightarrow> 'w bench \<Rightarrow> string \<times> bool \<Rightarrow> ('w, string) act" where
  "announced_mode cx B = (\<lambda>(modes, expected).
     offering cx B modes (\<lambda>srv.
       andthen (messages cx srv [MSG_INITIALIZE_RESPONSE] (Some ''server'')) (\<lambda>init.
       andthen (assert_that (init \<noteq> []) ''no InitializeResponse in the log'') (\<lambda>_.
       andthen (overlapped_bit (hd init)) (\<lambda>announced.
       andthen (assert_that (announced = expected) (''suite error: a '' @ modes @ '' server announced '' @ mode_name announced)) (\<lambda>_.
       andthen (overlap_en cx) (\<lambda>got.
       andthen (assert_that (got = expected)
         (''the server started the session '' @ mode_name expected @ '', but VI_ATTR_TCPIP_HISLIP_OVERLAP_EN reads '' @ repr_mode (Some got))) (\<lambda>_.
       ret (modes @ ''='' @ (if got then ''1'' else ''0''))))))))))"

definition check_attribute_defaults_to_server_mode :: "'w ctx \<Rightarrow> 'w bench \<Rightarrow> ('w, string) act" where
  "check_attribute_defaults_to_server_mode cx B =
     andthen (for_each [(''synchronized'', False), (''prefer-synchronized'', False), (''prefer-overlapped'', True)] (announced_mode cx B)) (\<lambda>seen.
     ret (join '', '' seen))"

definition set_to :: "'w ctx \<Rightarrow> bool \<Rightarrow> ('w, string) act" where
  "set_to cx v =
     andthen (set_overlap_en cx v) (\<lambda>st.
     andthen (assert_that (st = code cx ''success'')
       (''setting VI_ATTR_TCPIP_HISLIP_OVERLAP_EN to '' @ (if v then ''1'' else ''0'') @ '' on a server that supports both modes returned '' @
        repr_status cx st)) (\<lambda>_.
     ret (if v then ''1'' else ''0'')))"

definition check_attribute_is_writable :: "'w ctx \<Rightarrow> 'w bench \<Rightarrow> ('w, string) act" where
  "check_attribute_is_writable cx B =
     offering cx B ''prefer-synchronized'' (\<lambda>_.
       andthen (for_each [False, True, False] (set_to cx)) (\<lambda>results.
       ret (''set '' @ repr_list results @ '' against a server with both modes'')))"

definition BOTH_WAYS :: "(string \<times> bool) list" where
  "BOTH_WAYS = [(''prefer-synchronized'', True), (''prefer-overlapped'', False)]"

definition change_asks :: "'w ctx \<Rightarrow> 'w bench \<Rightarrow> string \<times> bool \<Rightarrow> ('w, string) act" where
  "change_asks cx B = (\<lambda>(modes, wanted).
     offering cx B modes (\<lambda>srv.
       andthen (reset (cx_ask cx) srv) (\<lambda>_.
       andthen (set_overlap_en cx wanted) (\<lambda>_.
       andthen (messages cx srv [MSG_ASYNC_DEVICE_CLEAR] (Some ''client'')) (\<lambda>clears.
       andthen (assert_that (clears \<noteq> []) (''changing the attribute to '' @ (if wanted then ''1'' else ''0'') @ '' sent no AsyncDeviceClear'')) (\<lambda>_.
       andthen (messages cx srv [MSG_DEVICE_CLEAR_COMPLETE] (Some ''client'')) (\<lambda>complete.
       andthen (assert_that (complete \<noteq> []) ''the device clear was never completed'') (\<lambda>_.
       andthen (overlapped_bit (last complete)) (\<lambda>asked_for.
       andthen (assert_that (asked_for = wanted)
         (''asked for '' @ mode_name wanted @ '' through the attribute, but DeviceClearComplete requested '' @ mode_name asked_for)) (\<lambda>_.
       ret (modes @ '': asked '' @ mode_name wanted)))))))))))"

definition check_change_runs_device_clear :: "'w ctx \<Rightarrow> 'w bench \<Rightarrow> ('w, string) act" where
  "check_change_runs_device_clear cx B = andthen (for_each BOTH_WAYS (change_asks cx B)) (\<lambda>done. ret (join ''; '' done))"

definition quoted_ids :: "'w ctx \<Rightarrow> 'w ctx \<Rightarrow> mock \<Rightarrow> ('w, int \<times> int \<times> int) act" where
  \<comment> \<open>after a command, a query and a status poll: the client's last id, the server's, and the one quoted\<close>
  "quoted_ids cx ci srv =
     andthen (reset (cx_ask cx) srv) (\<lambda>_.
     andthen (inst_write ci ''*CLS'') (\<lambda>_.
     andthen (inst_query ci ''*IDN?'') (\<lambda>_.
     andthen (read_stb ci) (\<lambda>_.
     andthen (andthen (client_message_ids cx srv) last_of) (\<lambda>mine.
     andthen (andthen (andthen (messages cx srv [MSG_DATA_END] (Some ''server'')) last_of) (\<lambda>m. lift (num_at ''message_parameter'' m))) (\<lambda>theirs.
     andthen (andthen (status_query_ids cx srv) last_of) (\<lambda>quoted.
     ret (mine, theirs, quoted))))))))"

definition change_effective :: "'w ctx \<Rightarrow> 'w bench \<Rightarrow> string \<times> bool \<Rightarrow> ('w, string) act" where
  "change_effective cx B = (\<lambda>(modes, wanted).
     offering cx B modes (\<lambda>srv.
       andthen (set_overlap_en cx wanted) (\<lambda>_.
       andthen (agreed_mode cx srv ''changing the attribute'') (\<lambda>agreed.
       andthen (assert_that (agreed = wanted)
         (''the server agreed to '' @ mode_name agreed @ '' when asked for '' @ mode_name wanted @
          '': either the client asked for the wrong mode (see the handshake check) or the server is wrong'')) (\<lambda>_.
       andthen (overlap_en cx) (\<lambda>got.
       andthen (assert_that (got = wanted)
         (''the server agreed to '' @ mode_name wanted @ '', but VI_ATTR_TCPIP_HISLIP_OVERLAP_EN reads '' @ repr_mode (Some got))) (\<lambda>_.
       andthen (quoted_ids cx cx srv) (\<lambda>(mine, theirs, quoted).
       let expected = (if wanted then theirs else mine) in
       andthen (assert_that (quoted = expected)
         (''in '' @ mode_name wanted @ '' mode the status query should quote '' @ shown_id expected @ '' ('' @
          (if wanted then ''the reply'' else ''the request'') @ ''); it quoted '' @ shown_id quoted)) (\<lambda>_.
       ret (mode_name wanted @ '' in effect''))))))))))"

definition check_change_takes_effect :: "'w ctx \<Rightarrow> 'w bench \<Rightarrow> ('w, string) act" where
  "check_change_takes_effect cx B = andthen (for_each BOTH_WAYS (change_effective cx B)) (\<lambda>done. ret (join ''; '' done))"

definition check_refusal_is_honoured :: "'w ctx \<Rightarrow> 'w bench \<Rightarrow> ('w, string) act" where
  "check_refusal_is_honoured cx B =
     offering cx B ''synchronized'' (\<lambda>srv.
       andthen (reset (cx_ask cx) srv) (\<lambda>_.
       andthen (set_overlap_en cx True) (\<lambda>st.
       andthen (agreed_mode cx srv ''asking for overlapped'') (\<lambda>agreed.
       andthen (assert_that (\<not> agreed) ''suite error: a synchronized-only server agreed to overlapped'') (\<lambda>_.
       andthen (overlap_en cx) (\<lambda>got.
       andthen (assert_that (\<not> got)
         (''the server answered the request with synchronized, but VI_ATTR_TCPIP_HISLIP_OVERLAP_EN reads '' @ repr_mode (Some got) @
          '' (the set returned '' @ repr_status cx st @ '')'')) (\<lambda>_.
       andthen (reset (cx_ask cx) srv) (\<lambda>_.
       andthen (inst_write cx ''*CLS'') (\<lambda>_.
       andthen (inst_query cx ''*IDN?'') (\<lambda>_.
       andthen (read_stb cx) (\<lambda>_.
       andthen (andthen (client_message_ids cx srv) last_of) (\<lambda>mine.
       andthen (andthen (status_query_ids cx srv) last_of) (\<lambda>quoted.
       andthen (assert_that (quoted = mine)
         (''the status query quoted '' @ shown_id quoted @ '', not the client's last MessageID '' @ shown_id mine @
          '': the client is behaving as overlapped against a server that refused it'')) (\<lambda>_.
       ret (''set returned '' @ repr_status cx st @ ''; the session stayed synchronized'')))))))))))))))"

definition clear_keeps :: "'w ctx \<Rightarrow> 'w bench \<Rightarrow> string \<times> bool \<Rightarrow> ('w, string) act" where
  "clear_keeps cx B = (\<lambda>(modes, mode).
     offering cx B modes (\<lambda>srv.
       andthen (set_overlap_en cx mode) (\<lambda>_.
       andthen (overlap_en cx) (\<lambda>start_mode.
       andthen (assert_that (start_mode = mode) (''could not get into '' @ mode_name mode @ '' mode to begin with'')) (\<lambda>_.
       andthen (reset (cx_ask cx) srv) (\<lambda>_.
       andthen (inst_clear cx) (\<lambda>_.
       andthen (messages cx srv [MSG_ASYNC_DEVICE_CLEAR_ACKNOWLEDGE] (Some ''server'')) (\<lambda>proposal.
       andthen (if proposal = [] then ret False else andthen (overlapped_bit (last proposal)) (\<lambda>b. ret (b \<noteq> mode))) (\<lambda>opposite.
       andthen (assert_that opposite ''suite error: the server proposed the session's own mode'') (\<lambda>_.
       andthen (messages cx srv [MSG_DEVICE_CLEAR_COMPLETE] (Some ''client'')) (\<lambda>complete.
       andthen (assert_that (complete \<noteq> []) ''viClear did not complete the device clear'') (\<lambda>_.
       andthen (overlapped_bit (last complete)) (\<lambda>asked_for.
       andthen (assert_that (asked_for = mode)
         (''the session was '' @ mode_name mode @ ''; viClear asked for '' @ mode_name asked_for @
          '', which is the server's proposal, not the caller's choice'')) (\<lambda>_.
       andthen (overlap_en cx) (\<lambda>got.
       andthen (assert_that (got = mode) (''after viClear VI_ATTR_TCPIP_HISLIP_OVERLAP_EN reads '' @ repr_mode (Some got))) (\<lambda>_.
       ret (mode_name mode @ '' kept'')))))))))))))))))"

definition check_clear_keeps_mode :: "'w ctx \<Rightarrow> 'w bench \<Rightarrow> ('w, string) act" where
  "check_clear_keeps_mode cx B = andthen (for_each BOTH_WAYS (clear_keeps cx B)) (\<lambda>done. ret (join ''; '' done))"

definition quotes_by_mode :: "'w ctx \<Rightarrow> mock \<Rightarrow> 'w ctx \<times> bool \<Rightarrow> ('w, unit) act" where
  "quotes_by_mode cx srv = (\<lambda>(ci, overlapped).
     andthen (quoted_ids cx ci srv) (\<lambda>(mine, theirs, quoted).
     let expected = (if overlapped then theirs else mine) in
     assert_that (quoted = expected)
       (''the '' @ mode_name overlapped @ '' session's status query quoted '' @ shown_id quoted @ '', expected '' @ shown_id expected)))"

definition check_modes_are_per_session :: "'w ctx \<Rightarrow> 'w client \<Rightarrow> 'w bench \<Rightarrow> ('w, string) act" where
  "check_modes_are_per_session cx b B =
     (let other = through cx b in
      andthen (needs_mock cx B) (\<lambda>_.
      mode_server B ''prefer-synchronized'' (\<lambda>srv.
        andthen (hislip_resource srv) (\<lambda>r.
        open_at cx r (open_at other r (
          andthen (reset (cx_ask cx) srv) (\<lambda>_.
          andthen (set_overlap_en cx True) (\<lambda>_.
          andthen (agreed_mode cx srv ''switching the first session'') (\<lambda>agreed.
          andthen (assert_that agreed ''the first session did not get into overlapped mode'') (\<lambda>_.
          andthen (overlap_en other) (\<lambda>got.
          andthen (assert_that (\<not> got)
            ''switching one session to overlapped changed the other's VI_ATTR_TCPIP_HISLIP_OVERLAP_EN too'') (\<lambda>_.
          andthen (for_each [(cx, True), (other, False)] (quotes_by_mode cx srv)) (\<lambda>_.
          ret ''one overlapped, one synchronized, side by side'')))))))))))))"

section \<open>Overlapped mode on the wire\<close>

definition expected_ids :: "int list \<Rightarrow> int list" where
  "expected_ids ids = map (\<lambda>i. (FIRST_ID + STEP * int i) AND 0xFFFFFFFF) [0..<length ids]"

definition hex_list :: "int list \<Rightarrow> string" where
  "hex_list ids = repr_list (map (\<lambda>i. py_repr (fmt_hex 0 i)) ids)"

definition judge_ids :: "'w ctx \<Rightarrow> int list \<Rightarrow> ('w, string) act" where
  "judge_ids cx ids =
     andthen (assert_that (length ids \<ge> 3) (''expected 3 client messages, saw '' @ str_nat (length ids))) (\<lambda>_.
     andthen (assert_saying cx (ids = expected_ids ids) (''MessageIDs '' @ hex_list ids @ '', expected '' @ hex_list (expected_ids ids))) (\<lambda>_.
     ret (join '' '' (map shown_id ids))))"

definition check_overlapped_message_ids :: "'w ctx \<Rightarrow> 'w bench \<Rightarrow> ('w, string) act" where
  "check_overlapped_message_ids cx B =
     overlapped_wire cx B (\<lambda>srv.
       andthen (reset (cx_ask cx) srv) (\<lambda>_.
       andthen (inst_write cx ''*CLS'') (\<lambda>_.
       andthen (inst_query cx ''*IDN?'') (\<lambda>_.
       andthen (inst_query cx ''*OPC?'') (\<lambda>_.
       andthen (client_message_ids cx srv) (judge_ids cx))))))"

definition check_overlapped_trigger_id :: "'w ctx \<Rightarrow> 'w bench \<Rightarrow> ('w, string) act" where
  "check_overlapped_trigger_id cx B =
     overlapped_wire cx B (\<lambda>srv.
       andthen (reset (cx_ask cx) srv) (\<lambda>_.
       andthen (inst_write cx ''*CLS'') (\<lambda>_.
       andthen (lib_op cx ''assert_trigger'' ''default'') (\<lambda>st.
       if st \<noteq> code cx ''success'' then throw (Skip (''viAssertTrigger returned '' @ repr_status cx st))
       else
         andthen (inst_write cx ''*CLS'') (\<lambda>_.
         andthen (messages cx srv [MSG_TRIGGER] (Some ''client'')) (\<lambda>triggers.
         andthen (assert_that (triggers \<noteq> []) ''viAssertTrigger sent no Trigger message'') (\<lambda>_.
         andthen (client_message_ids cx srv) (\<lambda>ids.
         andthen (assert_that (ids = expected_ids ids)
           (''MessageIDs '' @ hex_list ids @ '' across write, trigger, write; expected '' @ hex_list (expected_ids ids))) (\<lambda>_.
         ret (join '' '' (map shown_id ids)))))))))))"

definition check_overlapped_ids_reset_on_clear :: "'w ctx \<Rightarrow> 'w bench \<Rightarrow> ('w, string) act" where
  "check_overlapped_ids_reset_on_clear cx B =
     overlapped_wire cx B (\<lambda>srv.
       andthen (reset (cx_ask cx) srv) (\<lambda>_.
       andthen (queries 3 cx) (\<lambda>_.
       andthen (client_message_ids cx srv) (\<lambda>before.
       andthen (inst_clear cx) (\<lambda>_.
       andthen (reset (cx_ask cx) srv) (\<lambda>_.
       andthen (inst_query cx ''*IDN?'') (\<lambda>_.
       andthen (client_message_ids cx srv) (\<lambda>after.
       andthen (if after = [] then throw (AssertionError ''no message followed the device clear'')
         else assert_saying cx (hd after = FIRST_ID)
           (''the first MessageID after a device clear was '' @ shown_id (hd after) @ '', expected '' @ shown_id FIRST_ID)) (\<lambda>_.
       andthen (last_of before) (\<lambda>b.
       ret (shown_id b @ '' -> clear -> '' @ shown_id (hd after))))))))))))"

definition judge_before_first :: "int list \<Rightarrow> int list \<Rightarrow> ('w, string) act" where
  \<comment> \<open>the message of the second assertion subscripts the list it found empty\<close>
  "judge_before_first after_init after_clear =
     andthen (if after_init = [] then throw (AssertionError ''viReadSTB sent no AsyncStatusQuery'')
       else assert_that (last after_init = BEFORE_FIRST_ID)
         (''after initialization the status query quoted '' @ shown_id (last after_init) @ '', expected '' @ shown_id BEFORE_FIRST_ID)) (\<lambda>_.
     andthen (if after_clear \<noteq> [] \<and> last after_clear = BEFORE_FIRST_ID then ret ()
       else andthen (last_of after_clear) (\<lambda>quoted.
         throw (AssertionError (''after a device clear the status query quoted '' @ shown_id quoted @ '', expected '' @ shown_id BEFORE_FIRST_ID)))) (\<lambda>_.
     ret (shown_id BEFORE_FIRST_ID @ '' after init and after clear'')))"

definition check_overlapped_status_query_before_io :: "'w ctx \<Rightarrow> 'w bench \<Rightarrow> ('w, string) act" where
  "check_overlapped_status_query_before_io cx B =
     overlapped_wire cx B (\<lambda>srv.
       andthen (reset (cx_ask cx) srv) (\<lambda>_.
       andthen (read_stb cx) (\<lambda>_.
       andthen (status_query_ids cx srv) (\<lambda>after_init.
       andthen (inst_query cx ''*IDN?'') (\<lambda>_.
       andthen (inst_clear cx) (\<lambda>_.
       andthen (reset (cx_ask cx) srv) (\<lambda>_.
       andthen (read_stb cx) (\<lambda>_.
       andthen (status_query_ids cx srv) (\<lambda>after_clear.
       judge_before_first after_init after_clear)))))))))"

definition check_overlapped_status_query_id :: "'w ctx \<Rightarrow> 'w bench \<Rightarrow> ('w, string) act" where
  "check_overlapped_status_query_id cx B =
     overlapped_wire cx B (\<lambda>srv.
       andthen (reset (cx_ask cx) srv) (\<lambda>_.
       andthen (inst_write cx ''*CLS'') (\<lambda>_.
       andthen (inst_query cx ''*IDN?'') (\<lambda>_.
       andthen (inst_query cx ''*OPC?'') (\<lambda>_.
       andthen (read_stb cx) (\<lambda>_.
       andthen (andthen (andthen (messages cx srv [MSG_DATA_END] (Some ''server'')) last_of) (\<lambda>m. lift (num_at ''message_parameter'' m))) (\<lambda>last_reply.
       andthen (andthen (client_message_ids cx srv) last_of) (\<lambda>last_request.
       andthen (andthen (status_query_ids cx srv) last_of) (\<lambda>quoted.
       andthen (assert_saying cx (quoted = last_reply)
         (''the status query quoted '' @ shown_id quoted @ ''; the last reply delivered was '' @ shown_id last_reply @
          (if quoted = last_request then '' -- that is the client's own last MessageID, the synchronized rule'' else []))) (\<lambda>_.
       ret (''quoted '' @ shown_id quoted)))))))))))"

definition check_overlapped_reply_ids_not_matched :: "'w ctx \<Rightarrow> 'w bench \<Rightarrow> ('w, string) act" where
  "check_overlapped_reply_ids_not_matched cx B =
     overlapped_session cx B (\<lambda>_.
       andthen (inst_write cx ''*CLS'') (\<lambda>_.
       andthen (inst_write cx ''*CLS'') (\<lambda>_.
       andthen (idn_and_opc cx) (\<lambda>(idn, opc).
       andthen (assert_saying cx (idn \<noteq> [] \<and> opc = ''1'')
         (''replies after the counters diverged were '' @ py_repr idn @ '', '' @ py_repr opc)) (\<lambda>_.
       ret (''*IDN? -> '' @ py_repr (char_take 40 idn)))))))"

definition SKEW :: int where "SKEW = 0x1000"

definition shifted :: int where
  "shifted = (FIRST_ID + STEP + SKEW) AND 0xFFFFFFFF"

definition check_overlapped_skewed_reply_delivered :: "'w ctx \<Rightarrow> 'w bench \<Rightarrow> ('w, string) act" where
  "check_overlapped_skewed_reply_delivered cx B =
     overlapped_wire cx B (\<lambda>srv.
       andthen (asked cx ''*IDN?'') (\<lambda>expected.
       andthen (set_timeout cx 2000) (\<lambda>_.
       andthen (reset (cx_ask cx) srv) (\<lambda>_.
       andthen (hislip_faults_block (cx_ask cx) (cx_environ cx) srv [(''skew_data_end_id'', JNum SKEW)]
         (catch ''Exception'' (asked cx ''*IDN?'') (\<lambda>exc.
            andthen (client_says cx) (\<lambda>s.
            throw (AssertionError (''the reply with a shifted MessageID was not delivered ('' @ visa_status exc @ ''); '' @ s)))))) (\<lambda>got.
       andthen (assert_that (got = expected) (''got '' @ py_repr got @ '', expected '' @ py_repr expected)) (\<lambda>_.
       andthen (messages cx srv [MSG_DATA_END] (Some ''server'')) (\<lambda>sent.
       andthen (if sent = [] then ret False else andthen (lift (num_at ''message_parameter'' (last sent))) (\<lambda>n. ret (n = shifted))) (\<lambda>fired.
       andthen (assert_that fired ''the MessageID was not shifted, so the fault did not fire and this proves nothing'') (\<lambda>_.
       ret (''delivered with MessageID '' @ shown_id shifted))))))))))"

definition check_overlapped_chunked_reply :: "'w ctx \<Rightarrow> 'w bench \<Rightarrow> ('w, string) act" where
  "check_overlapped_chunked_reply cx B =
     overlapped_wire cx B (\<lambda>srv.
       andthen (big_reply (cx_ask cx) srv 5000 0) (\<lambda>_.
       andthen (set_attribute cx MAX_MESSAGE_KB (AInt 1)) (\<lambda>(_, st).
       if st \<noteq> code cx ''success'' then throw (Skip (''VI_ATTR_TCPIP_HISLIP_MAX_MESSAGE_KB could not be set ('' @ repr_status cx st @ '')''))
       else
         andthen (reset (cx_ask cx) srv) (\<lambda>_.
         andthen (set_timeout cx 3000) (\<lambda>_.
         andthen (asked cx ''TEST:BIG?'') (\<lambda>reply.
         andthen (messages cx srv [MSG_DATA, MSG_DATA_END] (Some ''server'')) (\<lambda>pieces.
         if length pieces < 2
         then throw (Skip (''the reply arrived in one message: the client did not pass its smaller maximum on to the server, '' @
           ''so the multi-message path was not exercised''))
         else
           andthen (params_of pieces) (\<lambda>ids.
           andthen (assert_that (distinct ids) ''suite error: the server reused an id'') (\<lambda>_.
           andthen (assert_saying cx (char_count reply = 5000)
             (''a 5000-byte reply in '' @ str_nat (length pieces) @ '' messages ('' @ shown_id (hd ids) @ ''..'' @ shown_id (last ids) @
              '') came back as '' @ str_nat (char_count reply) @ '' bytes'')) (\<lambda>_.
           ret (''5000B across '' @ str_nat (length pieces) @ '' messages'')))))))))))"

section \<open>Overlapped mode through the API\<close>

definition SEQUENCE :: "string list" where
  "SEQUENCE = concat (replicate 4 [''*IDN?'', ''*OPC?''])"

definition check_pipelined_queries :: "'w ctx \<Rightarrow> 'w bench \<Rightarrow> ('w, string) act" where
  "check_pipelined_queries cx B =
     overlapped_session cx B (\<lambda>_.
       andthen (idn_and_opc cx) (\<lambda>(idn, opc).
       andthen (for_each SEQUENCE (inst_write cx)) (\<lambda>_.
       andthen (for_each SEQUENCE (\<lambda>_. a_reply cx)) (\<lambda>got.
       andthen (assert_saying cx (got = map (\<lambda>q. if q = ''*IDN?'' then idn else opc) SEQUENCE)
         (str_nat (length SEQUENCE) @ '' pipelined queries came back as '' @ repr_list (map py_repr got))) (\<lambda>_.
       ret (str_nat (length SEQUENCE) @ '' replies in order''))))))"

definition check_send_keeps_buffered_reply :: "'w ctx \<Rightarrow> 'w bench \<Rightarrow> ('w, string) act" where
  "check_send_keeps_buffered_reply cx B =
     overlapped_session cx B (\<lambda>srv.
       andthen (idn_and_opc cx) (\<lambda>(idn, opc).
       andthen (reset_if cx srv) (\<lambda>_.
       andthen (inst_write cx ''*IDN?'') (\<lambda>_.
       andthen (wait_for_replies cx srv 1) (\<lambda>_.
       andthen (inst_write cx ''*OPC?'') (\<lambda>_.
       andthen (a_reply cx) (\<lambda>first.
       andthen (a_reply cx) (\<lambda>second.
       andthen (assert_saying cx (first = idn \<and> second = opc)
         (''after sending a second query with the first reply buffered, the reads returned '' @ py_repr first @ '', '' @ py_repr second)) (\<lambda>_.
       ret ''both replies delivered'')))))))))"

definition check_partial_read_keeps_next_reply :: "'w ctx \<Rightarrow> 'w bench \<Rightarrow> ('w, string) act" where
  \<comment> \<open>\<open>head\<close> is decoded as UTF-8, which is the identity on what an instrument answers in ASCII\<close>
  "check_partial_read_keeps_next_reply cx B =
     overlapped_session cx B (\<lambda>srv.
       andthen (idn_and_opc cx) (\<lambda>(idn, opc).
       andthen (reset_if cx srv) (\<lambda>_.
       andthen (inst_write cx ''*IDN?'') (\<lambda>_.
       andthen (inst_write cx ''*OPC?'') (\<lambda>_.
       andthen (wait_for_replies cx srv 2) (\<lambda>_.
       andthen (cl_read_bytes (cx_client cx) 4) (\<lambda>head.
       andthen (inst_read cx) (\<lambda>rest.
       andthen (a_reply cx) (\<lambda>nxt.
       andthen (assert_that (strip (head @ rest) = idn)
         (''the first reply read in two parts came back as '' @ cx_repr_value cx (ABytes head) @ '' + '' @ py_repr rest @ '', expected '' @ py_repr idn)) (\<lambda>_.
       andthen (assert_saying cx (nxt = opc) (''the reply behind it came back as '' @ py_repr nxt @ '', expected '' @ py_repr opc)) (\<lambda>_.
       ret ''first reply in two reads, second intact'')))))))))))"

definition judge_mav :: "'w ctx \<Rightarrow> int \<Rightarrow> int \<Rightarrow> ('w, string) act" where
  "judge_mav cx pending drained0 =
     andthen (assert_saying cx (pending AND STB_MAV \<noteq> 0)
       (''with one reply unread the status byte was '' @ fmt_hex 4 pending @
        '', MAV clear -- the client quoted the wrong MessageID, or the server computed MAV wrongly'')) (\<lambda>_.
     andthen (assert_saying cx (drained0 AND STB_MAV = 0)
       (''with every reply read the status byte was '' @ fmt_hex 4 drained0 @
        '', MAV still set -- the client quoted the wrong MessageID, or the server computed MAV wrongly'')) (\<lambda>_.
     ret (fmt_hex 4 pending @ '' with a reply pending, '' @ fmt_hex 4 drained0 @ '' after'')))"

definition check_overlapped_mav :: "'w ctx \<Rightarrow> 'w bench \<Rightarrow> ('w, string) act" where
  "check_overlapped_mav cx B =
     overlapped_session cx B (\<lambda>srv.
       andthen (idn_and_opc cx) (\<lambda>(idn, opc).
       andthen (reset_if cx srv) (\<lambda>_.
       andthen (inst_write cx ''*IDN?'') (\<lambda>_.
       andthen (inst_write cx ''*OPC?'') (\<lambda>_.
       andthen (wait_for_replies cx srv 2) (\<lambda>_.
       andthen (a_reply cx) (\<lambda>r1.
       andthen (assert_that (r1 = idn) ''the first reply was not *IDN?'s'') (\<lambda>_.
       andthen (read_stb cx) (\<lambda>pending.
       andthen (a_reply cx) (\<lambda>r2.
       andthen (assert_that (r2 = opc) ''the second reply was not *OPC?'s'') (\<lambda>_.
       andthen (read_stb cx) (judge_mav cx pending))))))))))))"

definition check_clear_discards_buffered_replies :: "'w ctx \<Rightarrow> 'w bench \<Rightarrow> ('w, string) act" where
  "check_clear_discards_buffered_replies cx B =
     overlapped_session cx B (\<lambda>srv.
       andthen (idn_and_opc cx) (\<lambda>(idn, _).
       andthen (reset_if cx srv) (\<lambda>_.
       andthen (for_each [0..<3] (\<lambda>_. inst_write cx ''*OPC?'')) (\<lambda>_.
       andthen (wait_for_replies cx srv 3) (\<lambda>_.
       andthen (inst_clear cx) (\<lambda>_.
       andthen (asked cx ''*IDN?'') (\<lambda>got.
       andthen (assert_saying cx (got = idn)
         (''the first query after a device clear returned '' @ py_repr got @ '', a reply left over from before it'')) (\<lambda>_.
       ret ''stale replies gone''))))))))"

definition big_of :: "'w ctx \<Rightarrow> 'w bench \<Rightarrow> string" where
  "big_of cx B =
     (case bn_big_query B of
        Some (c # q) \<Rightarrow> c # q
      | _ \<Rightarrow> if cx_server cx \<noteq> None then ''TEST:BIG?'' else [])"

definition clear_noting :: "'w ctx \<Rightarrow> ('w, string) act" where
  "clear_noting cx =
     catch ''Exception'' (andthen (inst_clear cx) (\<lambda>_. ret []))
       (\<lambda>exc. ret ('' (viClear itself raised '' @ type_name exc @ '': '' @ e_msg exc @ '')''))"

definition check_clear_mid_reply_leaves_no_residue :: "'w ctx \<Rightarrow> 'w bench \<Rightarrow> ('w, string) act" where
  "check_clear_mid_reply_leaves_no_residue cx B =
     (if big_of cx B = [] then throw (Skip ''needs a large-reply query; name one with --big-query'')
      else overlapped_session cx B (\<lambda>srv.
        andthen (case srv of None \<Rightarrow> ret () | Some s \<Rightarrow> big_reply (cx_ask cx) s 3000 0) (\<lambda>_.
        andthen (asked cx ''*IDN?'') (\<lambda>idn.
        andthen (lib_write cx (big_of cx B @ nl)) (\<lambda>_.
        andthen (lib_read cx 100) (\<lambda>(partial, _).
        andthen (assert_that (case partial of None \<Rightarrow> False | Some p \<Rightarrow> length p = 100)
          (''the partial read got '' @ str_nat (case partial of None \<Rightarrow> 0 | Some p \<Rightarrow> length p) @ '' bytes'')) (\<lambda>_.
        andthen (clear_noting cx) (\<lambda>raised.
        andthen (for_each [0..<3] (\<lambda>_. asked cx ''*IDN?'')) (\<lambda>got.
        andthen (assert_saying cx (got = replicate 3 idn)
          (''after clearing part-way through a reply, *IDN? returned '' @ repr_list (map (\<lambda>g. py_repr (char_take 30 g)) got) @
           '': what was left of the abandoned reply was delivered as an answer to a later query'' @ raised)) (\<lambda>_.
        ret (''the abandoned reply was discarded'' @ raised)))))))))))"

section \<open>Waiting for replies ends\<close>

text \<open>What the loop needs of the clock: a sleep takes at least its time, and no call turns the clock back.\<close>

definition clock_runs :: "'w ctx \<Rightarrow> mock \<Rightarrow> ('w, bool) act \<Rightarrow> bool" where
  "clock_runs cx srv holds \<longleftrightarrow>
     (\<forall>t w. cx_now cx w + t \<le> cx_now cx (cx_sleep cx t w)) \<and>
     (\<forall>w. cx_now cx w \<le> cx_now cx (snd (observed (cx_ask cx) srv w))) \<and> (\<forall>w. cx_now cx w \<le> cx_now cx (snd (holds w)))"

lemma wait_turns_enough:
  assumes "clock_runs cx srv holds" "deadline - cx_now cx w \<le> of_nat n * (2 / 100)"
  shows "fst (wait_turns (Suc n) cx srv deadline holds w) \<noteq> Inr None"
  using assms(2)
proof (induction n arbitrary: w)
  case 0
  then show ?case by (simp add: andthen_def now_def ret_def)
next
  case (Suc n)
  obtain r1 w1 where o: "observed (cx_ask cx) srv w = (r1, w1)" by fastforce
  obtain r2 w2 where h: "holds w1 = (r2, w2)" by fastforce
  let ?w3 = "cx_sleep cx (2 / 100) w2"
  have "cx_now cx w \<le> cx_now cx w1" "cx_now cx w1 \<le> cx_now cx w2" "cx_now cx w2 + 2 / 100 \<le> cx_now cx ?w3"
    using assms(1) o h unfolding clock_runs_def by (metis snd_conv)+
  then have later: "cx_now cx w + 2 / 100 \<le> cx_now cx ?w3" by linarith
  have "deadline - cx_now cx w \<le> of_nat n * (2 / 100) + 2 / 100" using Suc.prems by (simp add: algebra_simps)
  with later have "deadline - cx_now cx ?w3 \<le> of_nat n * (2 / 100)" by linarith
  from Suc.IH[OF this] show ?case
    unfolding wait_turns.simps(2)[of "Suc n"]
    by (simp add: andthen_def[of _ "\<lambda>_. andthen holds _"] andthen_def[of holds] andthen_def[of "now cx"] andthen_def[of "change _"]
        now_def o h acts sleep_def del: wait_turns.simps split: sum.split)
qed

text \<open>C29: Waiting for the replies to arrive ends. If a sleep takes at least the time it is asked for and no call turns the clock back,
  the loop with its 20 ms naps reaches the three seconds it may wait within the 151 turns the model gives it: it
  ends because the replies are there, because the time is up or with an exception, and never by running out of turns.\<close>

theorem wait_for_replies_ends:
  assumes "clock_runs cx srv holds"
  shows "fst (wait_turns 151 cx srv (cx_now cx w + 3) holds w) \<noteq> Inr None"
  using wait_turns_enough[OF assms, of "cx_now cx w + 3" w 150] by simp

theorem wait_for_replies_ends_witness:
  "fst (wait_turns 151 (example_ctx\<lparr>cx_now := id, cx_sleep := (\<lambda>t w. w + t)\<rparr>) example_mock (0 + 3) (ret False) 0) \<noteq> Inr None"
  using wait_for_replies_ends[of "example_ctx\<lparr>cx_now := id, cx_sleep := (\<lambda>t w. w + t)\<rparr>" example_mock "ret False" 0]
  by (simp add: clock_runs_def ret_def observed_def command_def get_list_def example_ctx_def)

section \<open>What a pass says of the overlapped ids\<close>

lemma is_message_seen:
  "is_message [MSG_DATA, MSG_DATA_END, MSG_TRIGGER] (Some ''client'') (json_of_seen s) = Inr (is_data_message s)"
  by (auto simp: is_message_def is_data_message_def is_from_def json_word_eq MSG_DATA_def MSG_DATA_END_def MSG_TRIGGER_def uint_eq_numeral)

lemma served_client_ids:
  assumes "mo_control srv \<noteq> None" "cx_ask cx = served err"
  shows "client_message_ids cx srv c = (Inr (map uint (data_ids c)), c)"
proof -
  have "filter_json (is_message [MSG_DATA, MSG_DATA_END, MSG_TRIGGER] (Some ''client'')) (map json_of_seen ms) =
      Inr (map json_of_seen (filter is_data_message ms))" for ms
    by (induction ms) (simp_all add: is_message_seen)
  moreover have "map_json (num_at ''message_parameter'') (map json_of_seen ss) = Inr (map (uint \<circ> hs_message_parameter) ss)" for ss
    by (induction ss) (simp_all add: num_at_def)
  ultimately show ?thesis
    using served_messages[OF assms(1), of err c]
    by (simp add: client_message_ids_def messages_def message_log_def andthen_def lift_def events_of_def seen_messages_def params_of_def
        data_ids_def assms(2))
qed

lemma expected_word: "(FIRST_ID + STEP * int i) AND 0xFFFFFFFF = uint (0xFFFFFF00 + 2 * of_nat i :: 32 word)"
proof -
  have "(0xFFFFFFFF :: int) = mask 32" by (simp add: mask_eq_exp_minus_1)
  then have "(FIRST_ID + STEP * int i) AND 0xFFFFFFFF = take_bit 32 (0xFFFFFF00 + 2 * int i)"
    by (simp add: take_bit_eq_mask FIRST_ID_def STEP_def)
  also have "\<dots> = uint (word_of_int (0xFFFFFF00 + 2 * int i) :: 32 word)" by (simp only: uint_word_of_int_eq) simp
  also have "(word_of_int (0xFFFFFF00 + 2 * int i) :: 32 word) = 0xFFFFFF00 + 2 * of_nat i" by simp
  finally show ?thesis .
qed

lemma expected_ids_iff:
  "map uint us = expected_ids (map uint us) \<longleftrightarrow> (\<forall>i < length us. us ! i = 0xFFFFFF00 + 2 * of_nat i)" for us :: "32 word list"
  unfolding list_eq_iff_nth_eq word_uint_eq_iff by (simp add: expected_ids_def expected_word)

lemma judge_ids_pass:
  fixes us :: "32 word list"
  assumes "judge_ids cx (map uint us) w = (Inr d, w')"
  shows "w' = w \<and> 3 \<le> length us \<and> (\<forall>i < length us. us ! i = 0xFFFFFF00 + 2 * of_nat i)"
  using assms unfolding judge_ids_def andthen_Inr_iff expected_ids_iff[symmetric]
  by (auto simp: assert_saying_def andthen_def acts split: if_splits prod.splits sum.splits)

lemma offering_Inr:
  assumes "offering cx B modes body w = (Inr d, w')"
  obtains srv w1 w2 where "body srv w1 = (Inr d, w2)" "w' = snd (snd (stop (bn_os B) srv (snd (i_close (cx_client cx) w2))))"
proof -
  obtain r0 w0 where "needs_mock cx B w = (Inr r0, w0)" "mode_server B modes
      (\<lambda>srv. andthen (hislip_resource srv) (\<lambda>r. open_at cx r (body srv))) w0 = (Inr d, w')"
    using assms unfolding offering_def andthen_Inr_iff by blast
  then obtain srv w1 w2 where srv: "andthen (hislip_resource srv) (\<lambda>r. open_at cx r (body srv)) w1 = (Inr d, w2)"
      "w' = snd (snd (stop (bn_os B) srv w2))"
    by (auto simp: mode_server_def mock_server_def Let_def split: prod.splits option.splits)
  then obtain r w3 where "open_at cx r (body srv) w3 = (Inr d, w2)" unfolding andthen_Inr_iff by blast
  then obtain w4 w5 where "body srv w4 = (Inr d, w5)" "w2 = snd (i_close (cx_client cx) w5)"
    unfolding open_at_def by (rule session_on_Inr)
  with srv that show thesis by blast
qed

lemma io_errors_fail_Inr: "io_errors_fail cx body w = (Inr d, w') \<Longrightarrow> body w = (Inr d, w')"
  by (auto simp: io_errors_fail_def catch_def andthen_def throw_def split: prod.splits sum.splits if_splits)

text \<open>C28: A pass of the overlapped-id check is evidence about the wire: before the session was closed and the server stopped, the server's
  log held at least three data messages of the client, and the MessageID of message \<open>i\<close> was 0xFFFFFF00 plus \<open>2 i\<close> in unsigned
  32-bit arithmetic, wrapping to 0 after 128 messages.\<close>

theorem overlapped_ids_pass:
  assumes "cx_ask cx = served err" "check_overlapped_message_ids cx B w = (Inr d, w')"
  shows "\<exists>srv c. w' = snd (snd (stop (bn_os B) srv (snd (i_close (cx_client cx) c)))) \<and> 3 \<le> length (data_ids c) \<and>
    (\<forall>i < length (data_ids c). data_ids c ! i = 0xFFFFFF00 + 2 * of_nat i)"
proof -
  let ?body = "\<lambda>srv. andthen (reset (cx_ask cx) srv) (\<lambda>_. andthen (inst_write cx ''*CLS'') (\<lambda>_. andthen (inst_query cx ''*IDN?'') (\<lambda>_.
      andthen (inst_query cx ''*OPC?'') (\<lambda>_. andthen (client_message_ids cx srv) (judge_ids cx)))))"
  have mock: "cx_server cx \<noteq> None"
  proof
    assume "cx_server cx = None"
    then have "needs_mock cx B = throw (Skip ''needs the mock server, to choose which modes the server offers'')"
      by (simp add: needs_mock_def)
    with \<open>cx_server cx = None\<close> assms(2) show False
      by (auto simp: check_overlapped_message_ids_def overlapped_wire_def overlapped_session_def open_inst_def andthen_Inr_iff throw_def
          elim!: session_on_Inr split: if_splits dest!: io_errors_fail_Inr)
  qed
  have "offering cx B ''prefer-overlapped'' (\<lambda>srv. io_errors_fail cx (andthen (needs_mock cx B) (\<lambda>_. ?body srv))) w = (Inr d, w')"
    using assms(2) unfolding check_overlapped_message_ids_def overlapped_wire_def overlapped_session_def if_not_P[OF mock] option.case .
  then obtain srv w1 w2 where b: "io_errors_fail cx (andthen (needs_mock cx B) (\<lambda>_. ?body srv)) w1 = (Inr d, w2)"
    and w': "w' = snd (snd (stop (bn_os B) srv (snd (i_close (cx_client cx) w2))))"
    by (rule offering_Inr)
  obtain c ids c1 where log: "client_message_ids cx srv c = (Inr ids, c1)" "judge_ids cx ids c1 = (Inr d, w2)"
    using io_errors_fail_Inr[OF b] unfolding andthen_Inr_iff by blast
  have "mo_control srv \<noteq> None"
    using log(1) by (auto simp: client_message_ids_def messages_def message_log_def hislip_messages_def command_def get_list_def andthen_def
        split: if_splits)
  from served_client_ids[OF this assms(1)] log have "judge_ids cx (map uint (data_ids c)) c = (Inr d, w2)" by auto
  from judge_ids_pass[OF this] w' show ?thesis by blast
qed

definition ready_os :: "'w os" where
  \<comment> \<open>every server starts and says where it listens\<close>
  "ready_os = \<lparr>os_popen = (\<lambda>argv lg w. (Inr 7, w)), os_readline = (\<lambda>p w. (Line (JObj [(''control_port'', JNum 5000),
       (''vxi11_resource'', JStr ''TCPIP0::127.0.0.1::inst0::INSTR''), (''hislip_resource'', JStr ''TCPIP0::127.0.0.1::hislip0::INSTR'')]), w)),
     os_stderr = (\<lambda>p w. ([], w)), os_connect = (\<lambda>h p w. (Inr 8, w)), os_makefile = (\<lambda>s w. (9, w)), os_close = (\<lambda>f w. w),
     os_terminate = (\<lambda>p w. w), os_kill = (\<lambda>p w. w), os_wait = (\<lambda>p w. (True, w))\<rparr>"

definition ready_bench :: "'w bench" where
  "ready_bench = \<lparr>bn_os = ready_os, bn_env = example_server_env, bn_no_proxy = False, bn_big_query = None\<rparr>"

definition chatty_ctx :: "control ctx" where
  \<comment> \<open>a client whose writes carry the next MessageID too\<close>
  "chatty_ctx = wire_ctx\<lparr>cx_client := wire_client\<lparr>i_write := (\<lambda>s c. (None, snd (wire_query s c)))\<rparr>\<rparr>"

definition ready_server :: "string \<Rightarrow> mock" where
  "ready_server modes = (MockServer example_server_env (default_mock\<lparr>ma_hislip_modes := Some modes\<rparr>))\<lparr>mo_process := Some 7, mo_control := Some 8,
     mo_control_file := Some 9, mo_ports := [(''control_port'', JNum 5000), (''vxi11_resource'', JStr ''TCPIP0::127.0.0.1::inst0::INSTR''),
       (''hislip_resource'', JStr ''TCPIP0::127.0.0.1::hislip0::INSTR'')]\<rparr>"

lemma ready_start:
  "start ready_os example_server_env (MockServer example_server_env (default_mock\<lparr>ma_hislip_modes := Some modes\<rparr>)) w = (None, ready_server modes, w)"
proof -
  have "\<exists>b. fst (binary_path example_server_env True) = Inr b" by (simp add: binary_path_def example_server_env_def Let_def)
  then show ?thesis by (auto simp: start_def ready_os_def ports_of_def ready_server_def)
qed

lemma ready_stop: "\<exists>m. stop ready_os (ready_server modes) w = (None, m, w)"
  by (simp add: stop_def close_opt_def ready_os_def ready_server_def)

lemma ready_resource: "hislip_resource (ready_server modes) = ret ''TCPIP0::127.0.0.1::hislip0::INSTR''" "mo_control (ready_server modes) \<noteq> None"
  by (simp_all add: hislip_resource_def resource_def ready_server_def)

lemma ready_mode_server: "mode_server ready_bench modes body w = body (ready_server modes) w"
proof -
  obtain r w2 where b: "body (ready_server modes) w = (r, w2)" by fastforce
  obtain m where "stop ready_os (ready_server modes) w2 = (None, m, w2)" using ready_stop[of modes w2] by blast
  with b show ?thesis by (simp add: mode_server_def ready_bench_def mock_server_def ready_start)
qed

lemma chatty_session: "session_on chatty_ctx name body c = body c"
  by (simp add: session_on_def session_def in_mode_def Let_def chatty_ctx_def wire_ctx_def wire_client_def instr.truncate_def split: prod.split)

lemma chatty_needs_mock: "needs_mock chatty_ctx ready_bench = ret ()"
  by (simp add: needs_mock_def chatty_ctx_def wire_ctx_def ready_bench_def)

lemma chatty_fields: "cx_ask chatty_ctx = served (\<lambda>_. [])" "cx_server chatty_ctx = Some example_mock"
  by (simp_all add: chatty_ctx_def wire_ctx_def)

theorem overlapped_ids_pass_witness:
  "\<exists>srv c. snd (check_overlapped_message_ids chatty_ctx ready_bench example_control) =
       snd (snd (stop ready_os srv (snd (i_close wire_client c)))) \<and> 3 \<le> length (data_ids c) \<and>
     (\<forall>i < length (data_ids c). data_ids c ! i = 0xFFFFFF00 + 2 * of_nat i)"
proof -
  let ?srv = "ready_server ''prefer-overlapped''"
  let ?c0 = "snd (handle Reset example_control)"
  let ?c = "snd (wire_query ''*OPC?'' (snd (wire_query ''*IDN?'' (snd (wire_query ''*CLS'' ?c0)))))"
  have reset: "reset (served (\<lambda>_. [])) ?srv c = (Inr (), snd (handle Reset c))" for c
    using ready_resource(2) by (simp add: reset_def forget_def command_def served_def serve_def cmd_def request_of_json_def request_of_def
        Let_def handle_def json_of_response_def)
  have calls: "inst_write chatty_ctx s c = (Inr (), snd (wire_query s c))" "inst_query chatty_ctx s c = (Inr ''a,b'', snd (wire_query s c))" for s c
    by (simp_all add: inst_write_def inst_query_def effect_def chatty_ctx_def wire_client_def wire_query_def)
  have ids: "data_ids ?c = [0xFFFFFF00, 0xFFFFFF02, 0xFFFFFF04]"
    using wire_reset_logs(2)[of example_control] by (simp add: data_ids_def wire_query_def is_data_message_def)
  have exp: "map uint (data_ids ?c) = expected_ids (map uint (data_ids ?c))"
    unfolding expected_ids_iff ids by (auto simp: nth_Cons less_Suc_eq split: nat.split)
  have "\<exists>d. judge_ids chatty_ctx (map uint (data_ids ?c)) ?c = (Inr d, ?c)"
    unfolding judge_ids_def assert_saying_def using exp by (simp add: ids acts)
  then obtain d where "judge_ids chatty_ctx (map uint (data_ids ?c)) ?c = (Inr d, ?c)" by blast
  then have "check_overlapped_message_ids chatty_ctx ready_bench example_control = (Inr d, ?c)"
    unfolding check_overlapped_message_ids_def overlapped_wire_def overlapped_session_def offering_def open_at_def
    by (simp add: chatty_needs_mock chatty_fields ready_mode_server ready_resource chatty_session io_errors_fail_def
        catch_def andthen_def reset calls served_client_ids[OF ready_resource(2) chatty_fields(1)] acts)
  from overlapped_ids_pass[OF chatty_fields(1) this] this show ?thesis
    by (simp add: chatty_ctx_def ready_bench_def wire_client_def)
qed

end
