(* ===== verification/Lock_Semantics.thy ===== *)
theory Lock_Semantics
  imports Probe
begin

text \<open>
  \<^verbatim>\<open>checks/10_lock_semantics.py\<close>: nesting, keys, waiting and release of \<^verbatim>\<open>viLock\<close>. A check with two sessions takes the second
  session's handle as an argument. The second half states what VPP-4.3 promises of locks as a small library, and shows
  what the checks make of it.
\<close>

section \<open>Helpers\<close>

definition decode_ascii :: "string \<Rightarrow> string" where
  \<comment> \<open>\<^verbatim>\<open>.decode("ascii", "replace")\<close>; the replacement character is three bytes of UTF-8\<close>
  "decode_ascii s = concat (map (\<lambda>c. if (of_char c :: nat) < 128 then [c] else [CHR 0xEF, CHR 0xBF, CHR 0xBD]) s)"

definition str_value :: "attr_value \<Rightarrow> string" where
  \<comment> \<open>\<^verbatim>\<open>str(value)\<close> of what is not bytes\<close>
  "str_value v = (case v of AInt i \<Rightarrow> str_int i | ABool b \<Rightarrow> (if b then ''True'' else ''False'') | AStr s \<Rightarrow> s
     | ABytes s \<Rightarrow> s | ANone \<Rightarrow> ''None'')"

definition as_text :: "attr_value \<Rightarrow> string" where
  "as_text v = (case v of ABytes s \<Rightarrow> decode_ascii s | ANone \<Rightarrow> [] | _ \<Rightarrow> str_value v)"

definition lock_state :: "'w ctx \<Rightarrow> ('w, attr_value option \<times> status) act" where
  "lock_state cx = get_attribute cx ''resource_lock_state''"

definition got_nested :: "'w ctx \<Rightarrow> string \<Rightarrow> status \<Rightarrow> bool" where
  "got_nested cx nested st \<longleftrightarrow> st \<in> {code cx ''success'', code cx nested}"

definition unlock_if :: "'w ctx \<Rightarrow> bool \<Rightarrow> ('w, unit) act" where
  "unlock_if cx b = (if b then andthen (lib_unlock cx) (\<lambda>_. ret ()) else ret ())"

definition exclusive :: "'w ctx \<Rightarrow> int \<Rightarrow> ('w, attr_value option \<times> status) act" where
  "exclusive cx timeout = lib_lock cx ''exclusive'' timeout None"

definition lock_both :: "'w ctx \<Rightarrow> ('w, status \<times> status) act" where
  \<comment> \<open>two exclusive locks in a row\<close>
  "lock_both cx = andthen (exclusive cx 2000) (\<lambda>r1. andthen (exclusive cx 2000) (\<lambda>r2. ret (snd r1, snd r2)))"

section \<open>Nesting\<close>

definition check_exclusive_nesting :: "'w ctx \<Rightarrow> ('w, string) act" where
  "check_exclusive_nesting cx = open_inst cx (
     andthen (exclusive cx 2000) (\<lambda>(_, first).
     andthen (assert_that (first = code cx ''success'') (''the first lock returned '' @ repr_status cx first)) (\<lambda>_.
     andthen (exclusive cx 2000) (\<lambda>(_, second).
     andthen (lib_unlock cx) (\<lambda>_.
     andthen (unlock_if cx (got_nested cx ''success_nested_exclusive'' second)) (\<lambda>_.
     andthen (assert_that (second \<noteq> code cx ''error_timeout'')
       (''locking exclusive twice on one session timed out: the second request went to the server, which is already holding '' @
        ''the lock for this very session. VXI-11 locks do not nest on the wire (RULE B.6.72), so the count belongs in the '' @
        ''client (RULE 3.6.10)'')) (\<lambda>_.
     andthen (assert_that (second = code cx ''success_nested_exclusive'')
       (''expected VI_SUCCESS_NESTED_EXCLUSIVE, got '' @ repr_status cx second)) (\<lambda>_.
     ret (''the second exclusive lock returned '' @ repr_status cx second)))))))))"

definition does_not_nest :: "'w ctx \<Rightarrow> status \<Rightarrow> ('w, 'a) act" where
  "does_not_nest cx second =
     andthen (lib_unlock cx) (\<lambda>_. throw (Skip (''this implementation does not nest exclusive locks ('' @ repr_status cx second @ '')'')))"

definition check_unlock_reports_nesting :: "'w ctx \<Rightarrow> ('w, string) act" where
  "check_unlock_reports_nesting cx = open_inst cx (
     andthen (lock_both cx) (\<lambda>(_, second).
     if \<not> got_nested cx ''success_nested_exclusive'' second then does_not_nest cx second
     else
       andthen (lib_unlock cx) (\<lambda>inner.
       andthen (lib_unlock cx) (\<lambda>outer.
       andthen (assert_that (inner = code cx ''success_nested_exclusive'')
         (''the unlock leaving one lock still held returned '' @ repr_status cx inner @
          '', so a caller cannot tell it from a full release'')) (\<lambda>_.
       andthen (assert_that (outer = code cx ''success'')
         (''the final unlock returned '' @ repr_status cx outer @ '', expected VI_SUCCESS'')) (\<lambda>_.
       ret (''the inner unlock returned '' @ repr_status cx inner @ '', the outer '' @ repr_status cx outer)))))))"

definition shared_first :: "'w ctx \<Rightarrow> string \<Rightarrow> ('w, attr_value option) act" where
  \<comment> \<open>the first shared lock of a check, with its skip and its assertion\<close>
  "shared_first cx key =
     andthen (lib_lock cx ''shared'' 2000 (Some key)) (\<lambda>(k, first).
     if first = code cx ''error_invalid_protocol''
     then throw (Skip (''this implementation refuses shared locks here ('' @ repr_status cx first @ '')''))
     else andthen (assert_that (first = code cx ''success'') (''the first shared lock returned '' @ repr_status cx first)) (\<lambda>_. ret k))"

definition check_shared_nesting :: "'w ctx \<Rightarrow> ('w, string) act" where
  "check_shared_nesting cx = open_inst cx (
     andthen (shared_first cx ''nest'') (\<lambda>_.
     andthen (lib_lock cx ''shared'' 2000 (Some ''nest'')) (\<lambda>(_, second).
     andthen (lib_unlock cx) (\<lambda>_.
     andthen (unlock_if cx (got_nested cx ''success_nested_shared'' second)) (\<lambda>_.
     andthen (assert_that (second = code cx ''success_nested_shared'')
       (''expected VI_SUCCESS_NESTED_SHARED, got '' @ repr_status cx second)) (\<lambda>_.
     ret (''the second shared lock returned '' @ repr_status cx second)))))))"

definition check_nesting_holds_resource :: "'w ctx \<Rightarrow> 'w client \<Rightarrow> ('w, string) act" where
  "check_nesting_holds_resource cx b =
     (let cb = through cx b in
      open_inst cx (open_inst cb (
        andthen (exclusive cx 2000) (\<lambda>(_, first).
        andthen (assert_that (first = code cx ''success'') (''the first lock returned '' @ repr_status cx first)) (\<lambda>_.
        andthen (exclusive cx 2000) (\<lambda>(_, second).
        if \<not> got_nested cx ''success_nested_exclusive'' second then does_not_nest cx second
        else
          andthen (lib_unlock cx) (\<lambda>_.
          andthen (exclusive cb 300) (\<lambda>(_, contend).
          let released_early = (contend = code cx ''success'') in
          andthen (unlock_if cb released_early) (\<lambda>_.
          andthen (lib_unlock cx) (\<lambda>_.
          andthen (assert_that (\<not> released_early)
            (''after two locks and one unlock another session acquired the resource, so the lock count is not being kept: a '' @
             ''caller nesting a locked region inside another gives the instrument up at the inner boundary while still '' @
             ''believing it holds it'')) (\<lambda>_.
          ret (''after two locks and one unlock the contending session got '' @ repr_status cx contend))))))))))))"

definition check_shared_wrong_key :: "'w ctx \<Rightarrow> ('w, string) act" where
  "check_shared_wrong_key cx = open_inst cx (
     andthen (shared_first cx ''right-key'') (\<lambda>_.
     andthen (lib_lock cx ''shared'' 2000 (Some ''wrong-key'')) (\<lambda>(_, second).
     andthen (lib_unlock cx) (\<lambda>_.
     andthen (unlock_if cx (got_nested cx ''success_nested_shared'' second)) (\<lambda>_.
     andthen (assert_that (second = code cx ''error_invalid_access_key'')
       (''re-locking shared with a different key returned '' @ repr_status cx second @ '', expected VI_ERROR_INV_ACCESS_KEY'')) (\<lambda>_.
     ret (''re-locking with the wrong key returned '' @ repr_status cx second)))))))"

definition check_unlock_underflow :: "'w ctx \<Rightarrow> ('w, string) act" where
  "check_unlock_underflow cx = open_inst cx (
     andthen (exclusive cx 2000) (\<lambda>_.
     andthen (lib_unlock cx) (\<lambda>st1.
     andthen (assert_that (st1 = code cx ''success'') []) (\<lambda>_.
     andthen (lib_unlock cx) (\<lambda>st.
     andthen (assert_that (st = code cx ''error_session_not_locked'')
       (''unlocking an unlocked session must report VI_ERROR_SESN_NLOCKED, got '' @ repr_status cx st)) (\<lambda>_.
     ret (''the unlock after the last one returned '' @ repr_status cx st)))))))"

definition check_shared_key_stable :: "'w ctx \<Rightarrow> ('w, string) act" where
  "check_shared_key_stable cx = open_inst cx (
     andthen (shared_first cx ''nest-key'') (\<lambda>first.
     andthen (lib_lock cx ''shared'' 2000 (Some ''nest-key'')) (\<lambda>(second, st).
     andthen (assert_that (got_nested cx ''success_nested_shared'' st) (''the second shared lock returned '' @ repr_status cx st)) (\<lambda>_.
     andthen (lib_unlock cx) (\<lambda>_.
     andthen (lib_unlock cx) (\<lambda>_.
     andthen (assert_that (as_text (value_of first) = as_text (value_of second))
       (''the same session locking shared twice got two different keys: '' @ cx_repr_value cx (value_of first) @ '' then '' @
        cx_repr_value cx (value_of second))) (\<lambda>_.
     ret (''both shared locks returned the key '' @ py_repr (as_text (value_of first))))))))))"

section \<open>Keys\<close>

definition check_exclusive_ignores_key :: "'w ctx \<Rightarrow> ('w, string) act" where
  "check_exclusive_ignores_key cx = open_inst cx (
     andthen (lib_lock cx ''exclusive'' 2000 (Some ''ignored-key'')) (\<lambda>(key, st).
     andthen (lib_unlock cx) (\<lambda>_.
     andthen (assert_that (st = code cx ''success'')
       (''an exclusive lock with a requestedKey was refused ('' @ repr_status cx st @
        ''); the key is supposed to be ignored, not honoured'')) (\<lambda>_.
     ret (''granted, key came back as '' @ cx_repr_value cx (value_of key))))))"

definition check_long_key_refused :: "'w ctx \<Rightarrow> ('w, string) act" where
  "check_long_key_refused cx = open_inst cx (
     andthen (lib_lock cx ''shared'' 2000 (Some (replicate 300 CHR ''k''))) (\<lambda>(key, st).
     if st = code cx ''success'' then
       andthen (lib_unlock cx) (\<lambda>_.
       throw (AssertionError (''a 300-character key was accepted and came back as '' @ py_repr (char_take 40 (as_text (value_of key))) @ '' ('' @
         str_nat (char_count (as_text (value_of key))) @ '' chars). Truncating lets two sessions with different keys share a lock '' @
         ''neither asked to share'')))
     else if st = NOT_IMPLEMENTED then throw (AssertionError ''an over-long key raised instead of erroring'')
     else ret (''refused with '' @ repr_status cx st)))"

section \<open>Waiting\<close>

definition contend_for :: "'w ctx \<Rightarrow> 'w ctx \<Rightarrow> int \<Rightarrow> string \<Rightarrow> (status \<Rightarrow> rat \<Rightarrow> ('w, string) act) \<Rightarrow> ('w, string) act" where
  \<comment> \<open>the second session asks for the lock the first one holds, and the wait is timed\<close>
  "contend_for cx cb timeout acquired judge =
     at_exit
       (andthen (now cx) (\<lambda>started.
        andthen (exclusive cb timeout) (\<lambda>(_, contend).
        andthen (now cx) (\<lambda>t.
        if contend = code cx ''success'' then andthen (lib_unlock cb) (\<lambda>_. throw (AssertionError acquired))
        else judge contend (t - started)))))
       (andthen (lib_unlock cx) (\<lambda>_. ret ()))"

definition check_immediate_timeout :: "'w ctx \<Rightarrow> 'w client \<Rightarrow> ('w, string) act" where
  \<comment> \<open>\<^verbatim>\<open>VI_TMO_IMMEDIATE\<close> is 0\<close>
  "check_immediate_timeout cx b =
     (let cb = through cx b in
      open_inst cx (open_inst cb (
        andthen (exclusive cx 2000) (\<lambda>(_, st).
        andthen (assert_that (st = code cx ''success'') (''session A could not lock ('' @ repr_status cx st @ '')'')) (\<lambda>_.
        contend_for cx cb 0 ''session B acquired a lock session A was holding'' (\<lambda>contend elapsed.
          andthen (assert_that (elapsed < 5 / 10)
            (''VI_TMO_IMMEDIATE took '' @ fmt_fixed 2 elapsed @ ''s to give up; the rule is that it returns immediately'')) (\<lambda>_.
          ret (''gave up in '' @ in_ms elapsed @ '' with '' @ repr_status cx contend))))))))"

definition check_lock_waits_full_timeout :: "'w ctx \<Rightarrow> 'w client \<Rightarrow> ('w, string) act" where
  "check_lock_waits_full_timeout cx b =
     (let cb = through cx b in
      open_inst cx (open_inst cb (
        andthen (exclusive cx 5000) (\<lambda>(_, st).
        andthen (assert_that (st = code cx ''success'') (''session A could not lock ('' @ repr_status cx st @ '')'')) (\<lambda>_.
        contend_for cx cb 1500 ''session B acquired a lock A was holding'' (\<lambda>contend elapsed.
          andthen (assert_that (elapsed \<ge> 135 / 100) (''a 1500ms lock timeout gave up after '' @ in_ms elapsed)) (\<lambda>_.
          ret (''waited '' @ in_ms elapsed @ '' for a 1500ms timeout''))))))))"

section \<open>Release\<close>

definition hold_lock :: "'w ctx \<Rightarrow> int \<Rightarrow> ('w, unit) act" where
  \<comment> \<open>a session opened by hand, which takes the lock\<close>
  "hold_lock cx timeout =
     andthen (effect (cl_open (cx_client cx) (cx_resource cx))) (\<lambda>_.
     andthen (set_timeout cx timeout) (\<lambda>_.
     andthen (exclusive cx 2000) (\<lambda>(_, st).
     assert_that (st = code cx ''success'') (''could not take the lock to begin with ('' @ repr_status cx st @ '')''))))"

definition lock_after :: "'w ctx \<Rightarrow> (string \<Rightarrow> string) \<Rightarrow> (string \<Rightarrow> string) \<Rightarrow> ('w, string) act" where
  "lock_after cb leaked fine = open_inst cb (
     andthen (exclusive cb 3000) (\<lambda>(_, st).
     andthen (unlock_if cb (st = code cb ''success'')) (\<lambda>_.
     andthen (assert_that (st = code cb ''success'') (leaked (repr_status cb st))) (\<lambda>_.
     ret (fine (repr_status cb st))))))"

definition check_close_releases_locks :: "'w ctx \<Rightarrow> 'w client \<Rightarrow> ('w, string) act" where
  "check_close_releases_locks cx b =
     andthen (hold_lock cx (cx_timeout cx)) (\<lambda>_.
     andthen (effect (i_close (cx_client cx))) (\<lambda>_.
     lock_after (through cx b)
       (\<lambda>st. ''after the holding session was closed without unlocking, another session still could not lock ('' @ st @
          ''); the lock leaked and only a server restart will clear it'')
       (\<lambda>st. ''another session locked after the holder closed ('' @ st @ '')'')))"

definition check_lock_dies_with_connection :: "'w ctx \<Rightarrow> 'w client \<Rightarrow> ('w, string) act" where
  "check_lock_dies_with_connection cx b =
     andthen (server_or_skip cx ''needs the mock server's fault injection'') (\<lambda>srv.
     andthen (hold_lock cx 2000) (\<lambda>_.
     andthen (faults_block (cx_ask cx) (cx_environ cx) srv [(''drop_after_bytes'', JNum 0)]
       (suppressed (andthen (inst_query cx ''*IDN?'') (\<lambda>_. ret ())))) (\<lambda>_.
     andthen (suppressed (effect (i_close (cx_client cx)))) (\<lambda>_.
     lock_after (through cx b)
       (\<lambda>st. ''the lock outlived the connection that held it ('' @ st @
          ''); B.6.77 ties locks to the core channel precisely so a controller that vanishes does not lock an instrument permanently'')
       (\<lambda>st. ''another session locked after the holder's connection died ('' @ st @ '')'')))))"

section \<open>What VPP-4.3 promises\<close>

text \<open>
  Locks as sections 3.6.2 and 3.6.3 of VPP-4.3 describe them, for two sessions: an exclusive lock with the session that
  owns it and how often it was taken, shared locks counted per session under one key, and a clock that only a
  request that waits in vain moves. With \<open>counting\<close> off a session forgets how often it took the lock.
\<close>

record locks =
  lk_owner :: "(bool \<times> nat) option"
  lk_shared :: "bool \<Rightarrow> nat"
  lk_key :: string
  lk_clock :: rat

definition vain :: "int \<Rightarrow> locks \<Rightarrow> string \<times> locks" where
  "vain timeout L = (''error_timeout'', L\<lparr>lk_clock := lk_clock L + of_int timeout / 1000\<rparr>)"

definition owned_by :: "bool \<Rightarrow> locks \<Rightarrow> bool" where
  "owned_by s L \<longleftrightarrow> (case lk_owner L of None \<Rightarrow> False | Some (t, _) \<Rightarrow> t = s)"

definition take_exclusive :: "bool \<Rightarrow> bool \<Rightarrow> int \<Rightarrow> locks \<Rightarrow> string \<times> locks" where
  "take_exclusive counting s timeout L =
     (if owned_by (\<not> s) L \<or> lk_shared L (\<not> s) > 0 then vain timeout L
      else case lk_owner L of
             None \<Rightarrow> (''success'', L\<lparr>lk_owner := Some (s, 1)\<rparr>)
           | Some (_, n) \<Rightarrow>
               if counting then (''success_nested_exclusive'', L\<lparr>lk_owner := Some (s, Suc n)\<rparr>) else (''success'', L))"

definition take_shared :: "bool \<Rightarrow> bool \<Rightarrow> int \<Rightarrow> string \<Rightarrow> locks \<Rightarrow> string \<times> locks" where
  "take_shared counting s timeout key L =
     (if owned_by (\<not> s) L then vain timeout L
      else if length key > 255 then (''error_invalid_access_key'', L)
      else if lk_shared L s > 0 then
        (if key \<noteq> lk_key L then (''error_invalid_access_key'', L)
         else if counting then (''success_nested_shared'', L\<lparr>lk_shared := (lk_shared L)(s := Suc (lk_shared L s))\<rparr>)
         else (''success'', L))
      else if lk_shared L (\<not> s) > 0 \<and> key \<noteq> lk_key L then vain timeout L
      else (''success'', L\<lparr>lk_shared := (lk_shared L)(s := 1), lk_key := key\<rparr>))"

definition give_up :: "bool \<Rightarrow> locks \<Rightarrow> string \<times> locks" where
  "give_up s L =
     (if owned_by s L then
        (case lk_owner L of
           Some (_, Suc (Suc n)) \<Rightarrow> (''success_nested_exclusive'', L\<lparr>lk_owner := Some (s, Suc n)\<rparr>)
         | _ \<Rightarrow> (''success'', L\<lparr>lk_owner := None\<rparr>))
      else case lk_shared L s of
             0 \<Rightarrow> (''error_session_not_locked'', L)
           | Suc n \<Rightarrow> (if n = 0 then ''success'' else ''success_nested_shared'', L\<lparr>lk_shared := (lk_shared L)(s := n)\<rparr>))"

definition drop_all :: "bool \<Rightarrow> locks \<Rightarrow> locks" where
  \<comment> \<open>what closing the session does (RULE 3.6.21)\<close>
  "drop_all s L = L\<lparr>lk_owner := (if owned_by s L then None else lk_owner L), lk_shared := (lk_shared L)(s := 0)\<rparr>"

definition lock_code :: "string \<Rightarrow> int" where
  "lock_code name =
     (case map_of [(''success'', 0), (''success_nested_shared'', 0x3FFF0099), (''success_nested_exclusive'', 0x3FFF009A),
        (''error_timeout'', - 0x4000FFEB), (''error_session_not_locked'', - 0x4000FF64), (''error_invalid_access_key'', - 0x4000FFBA),
        (''error_invalid_protocol'', - 0x4000FF87)] name of None \<Rightarrow> - 1 | Some c \<Rightarrow> c)"

definition lock_client :: "bool \<Rightarrow> bool \<Rightarrow> locks client" where
  "lock_client counting s = example_client\<lparr>
     cl_lock := (\<lambda>kind timeout key L.
       (case (if kind = ''exclusive'' then take_exclusive counting s timeout L
              else take_shared counting s timeout (case key of None \<Rightarrow> [] | Some k \<Rightarrow> k) L) of
          (st, L1) \<Rightarrow> (Tuple (if kind = ''exclusive'' then ANone else AStr (lk_key L1)) (StatusCode (lock_code st)), L1))),
     cl_op := (\<lambda>name arg L.
       if name = ''unlock'' then (case give_up s L of (st, L1) \<Rightarrow> (Single (StatusCode (lock_code st)), L1))
       else (Single (StatusCode 0), L)),
     i_close := (\<lambda>L. (None, drop_all s L))\<rparr>"

definition lock_ctx :: "bool \<Rightarrow> locks ctx" where
  "lock_ctx counting = example_ctx\<lparr>cx_client := lock_client counting False, cx_code := lock_code, cx_now := lk_clock,
     cx_server := Some example_mock, cx_ask := (\<lambda>j L. (Inr (Line (JObj [])), L))\<rparr>"

definition unlocked_at :: "rat \<Rightarrow> locks" where
  "unlocked_at t = \<lparr>lk_owner = None, lk_shared = (\<lambda>_. 0), lk_key = [], lk_clock = t\<rparr>"

definition lock_checks :: "'w ctx \<Rightarrow> 'w client \<Rightarrow> ('w, string) act list" where
  "lock_checks cx b =
     [check_exclusive_nesting cx, check_unlock_reports_nesting cx, check_shared_nesting cx, check_nesting_holds_resource cx b,
      check_shared_wrong_key cx, check_unlock_underflow cx, check_shared_key_stable cx, check_exclusive_ignores_key cx,
      check_long_key_refused cx, check_immediate_timeout cx b, check_lock_waits_full_timeout cx b, check_close_releases_locks cx b,
      check_lock_dies_with_connection cx b]"

section \<open>What the checks make of it\<close>

lemma lock_ctx_simps [simp]:
  "cx_client (lock_ctx n) = lock_client n False" "cx_code (lock_ctx n) = lock_code" "cx_now (lock_ctx n) = lk_clock"
  "cx_hislip_mode (lock_ctx n) = None" "cx_server (lock_ctx n) = Some example_mock" "cx_ask (lock_ctx n) = (\<lambda>j L. (Inr (Line (JObj [])), L))"
  "ve_success (cx_env (lock_ctx n)) = 0" "cx_environ (lock_ctx n) = (\<lambda>_. None)"
  by (simp_all add: lock_ctx_def example_ctx_def)

lemma lock_session: "session_on cx name body L = (fst (body L), drop_all s (snd (body L)))"
  if "cx_client cx = lock_client n s" "cx_hislip_mode cx = None" for cx :: "locks ctx"
  using that by (simp add: session_on_def session_def in_mode_def Let_def lock_client_def example_client_def instr.truncate_def split: prod.split)

lemma lock_calls:
  "cx_client cx = lock_client n s \<Longrightarrow> exclusive cx t L =
     (case take_exclusive n s t L of (st, L1) \<Rightarrow> (Inr (Some ANone, StatusCode (lock_code st)), L1))"
  "cx_client cx = lock_client n s \<Longrightarrow> lib_lock cx ''shared'' t (Some key) L =
     (case take_shared n s t key L of (st, L1) \<Rightarrow> (Inr (Some (AStr (lk_key L1)), StatusCode (lock_code st)), L1))"
  "cx_client cx = lock_client n s \<Longrightarrow> lib_lock cx ''exclusive'' t (Some key) L =
     (case take_exclusive n s t L of (st, L1) \<Rightarrow> (Inr (Some ANone, StatusCode (lock_code st)), L1))"
  "cx_client cx = lock_client n s \<Longrightarrow> lib_unlock cx L = (case give_up s L of (st, L1) \<Rightarrow> (Inr (StatusCode (lock_code st)), L1))"
  by (simp_all add: exclusive_def lib_lock_def lib_unlock_def lib_op_def lib_status_def lib_call_def call_def lock_client_def
      andthen_def ret_def split: prod.split)

lemmas lock_eval = open_inst_def lock_session lock_calls andthen_def assert_that_def ret_def throw_def take_exclusive_def take_shared_def
  give_up_def drop_all_def owned_by_def vain_def unlocked_at_def code_def lock_code_def got_nested_def unlock_if_def lock_both_def

lemma single_session_verdicts:
  "verdict (check_exclusive_nesting (lock_ctx n) (unlocked_at t)) = (if n then PASS else FAIL)"
  "verdict (check_unlock_reports_nesting (lock_ctx n) (unlocked_at t)) = (if n then PASS else FAIL)"
  "verdict (check_shared_nesting (lock_ctx n) (unlocked_at t)) = (if n then PASS else FAIL)"
  "verdict (check_shared_wrong_key (lock_ctx n) (unlocked_at t)) = PASS"
  "verdict (check_unlock_underflow (lock_ctx n) (unlocked_at t)) = PASS"
  "verdict (check_shared_key_stable (lock_ctx n) (unlocked_at t)) = PASS"
  "verdict (check_exclusive_ignores_key (lock_ctx n) (unlocked_at t)) = PASS"
  "verdict (check_long_key_refused (lock_ctx n) (unlocked_at t)) = PASS"
  by (simp_all add: check_exclusive_nesting_def check_unlock_reports_nesting_def check_shared_nesting_def check_shared_wrong_key_def
      check_unlock_underflow_def check_shared_key_stable_def check_exclusive_ignores_key_def check_long_key_refused_def
      shared_first_def lock_eval)

lemma two_session_verdicts:
  "verdict (check_nesting_holds_resource (lock_ctx n) (lock_client n True) (unlocked_at t)) = (if n then PASS else FAIL)"
  "verdict (check_immediate_timeout (lock_ctx n) (lock_client n True) (unlocked_at t)) = PASS"
  "verdict (check_lock_waits_full_timeout (lock_ctx n) (lock_client n True) (unlocked_at t)) = PASS"
  by (simp_all add: check_nesting_holds_resource_def check_immediate_timeout_def check_lock_waits_full_timeout_def
      contend_for_def at_exit_def now_def Let_def lock_eval)

lemma lock_drop_connection:
  "faults_block (\<lambda>j L. (Inr (Line (JObj [])), L)) (\<lambda>_. None) example_mock config body = body"
  by (rule ext) (simp add: faults_block_def set_faults_def command_def faults_disabled_def example_mock_def split: prod.split)

lemma hold_lock_unlocked:
  "hold_lock (lock_ctx n) timeout (unlocked_at t) = (Inr (), (unlocked_at t)\<lparr>lk_owner := Some (False, 1)\<rparr>)"
proof -
  have "effect (cl_open (lock_client n False) name) = ret ()" "set_timeout (lock_ctx n) timeout = ret ()" for name
    by (rule ext, simp add: effect_def set_timeout_def change_def ret_def lock_client_def example_client_def)+
  then show ?thesis by (simp add: hold_lock_def) (simp add: lock_eval)
qed

lemma release_verdicts:
  "verdict (check_close_releases_locks (lock_ctx n) (lock_client n True) (unlocked_at t)) = PASS"
  "verdict (check_lock_dies_with_connection (lock_ctx n) (lock_client n True) (unlocked_at t)) = PASS"
proof -
  have close: "effect (i_close (lock_client n False)) L = (Inr (), drop_all False L)" for L
    by (simp add: effect_def lock_client_def)
  have query: "inst_query (lock_ctx n) q L = (Inr ''a,b'', L)" for q L
    by (simp add: inst_query_def lock_client_def example_client_def)
  show "verdict (check_close_releases_locks (lock_ctx n) (lock_client n True) (unlocked_at t)) = PASS"
    unfolding check_close_releases_locks_def andthen_def[of "hold_lock _ _"] hold_lock_unlocked
    by (simp add: close lock_after_def lock_eval)
  show "verdict (check_lock_dies_with_connection (lock_ctx n) (lock_client n True) (unlocked_at t)) = PASS"
    unfolding check_lock_dies_with_connection_def server_or_skip_def
    by (simp add: andthen_def[of "hold_lock _ _"] hold_lock_unlocked lock_drop_connection)
      (simp add: close query suppressed_def catch_def lock_after_def lock_eval)
qed


end
