(* ===== verification/Sessions.thy ===== *)
theory Sessions
  imports Attributes Operations Session_Lifecycle Vxi11_Flags Vxi11_Conformance Hislip_Modes Lock_Semantics
begin

text \<open>
  The bookkeeping of sessions across the scripts of \<^verbatim>\<open>checks/\<close>. A ledger is a count of the open sessions of a world that
  goes up when \<^verbatim>\<open>open_resource\<close> succeeds, down when a session is closed, and that no other call moves. An action is tidy
  if it leaves the count as it found it, however it ends. The ledger the properties rest on is the context of the
  run itself with a counter next to its world.
\<close>

named_theorems tidy_intros \<comment> \<open>what is tidy, by the shape of an action\<close>

definition tidy :: "('w \<Rightarrow> int) \<Rightarrow> ('w \<Rightarrow> 'a \<times> 'w) \<Rightarrow> bool" where
  "tidy opens m \<longleftrightarrow> (\<forall>w. opens (snd (m w)) = opens w)"

lemma tidyI: "(\<And>w. opens (snd (m w)) = opens w) \<Longrightarrow> tidy opens m"
  by (simp add: tidy_def)

lemma tidyD: "tidy opens m \<Longrightarrow> opens (snd (m w)) = opens w"
  by (simp add: tidy_def)

lemma tidy_result: "tidy opens m \<Longrightarrow> m w = (r, w') \<Longrightarrow> opens w' = opens w"
  using tidyD[of opens m w] by simp

section \<open>Control flow\<close>

lemma tidy_pure [tidy_intros]: "tidy opens (ret x)" "tidy opens (throw e)" "tidy opens (lift r)" "tidy opens (assert_that b msg)"
  by (simp_all add: tidy_def ret_def throw_def lift_def assert_that_def)

lemma tidy_andthen [tidy_intros]: "tidy opens m \<Longrightarrow> (\<And>x. tidy opens (f x)) \<Longrightarrow> tidy opens (andthen m f)"
  by (auto simp: tidy_def andthen_def split: prod.splits sum.splits) (metis snd_conv)+

lemma tidy_effect [tidy_intros]: "tidy opens f \<Longrightarrow> tidy opens (effect f)"
  by (auto simp: tidy_def effect_def split: prod.splits option.splits) (metis snd_conv)+

lemma tidy_catch [tidy_intros]: "tidy opens m \<Longrightarrow> (\<And>e. tidy opens (h e)) \<Longrightarrow> tidy opens (catch cls m h)"
  by (auto simp: tidy_def catch_def split: prod.splits sum.splits) (metis snd_conv)+

lemma tidy_at_exit [tidy_intros]: "tidy opens m \<Longrightarrow> tidy opens f \<Longrightarrow> tidy opens (at_exit m f)"
  by (simp add: tidy_def at_exit_world)

lemma tidy_suppressed [tidy_intros]: "tidy opens m \<Longrightarrow> tidy opens (suppressed m)"
  unfolding suppressed_def by (intro tidy_intros)

lemma tidy_for_each [tidy_intros]: "(\<And>x. tidy opens (f x)) \<Longrightarrow> tidy opens (for_each xs f)"
  by (induction xs) (simp_all add: tidy_intros)

lemma tidy_for_concat [tidy_intros]: "(\<And>x. tidy opens (f x)) \<Longrightarrow> tidy opens (for_concat xs f)"
  unfolding for_concat_def by (intro tidy_intros)

lemma tidy_or_assert [tidy_intros]: "tidy opens m \<Longrightarrow> tidy opens (or_assert msg m)"
  unfolding or_assert_def by (intro tidy_andthen) (simp_all add: tidy_intros split: option.split)

lemma tidy_cases [tidy_intros]:
  "(b \<Longrightarrow> tidy opens m) \<Longrightarrow> (\<not> b \<Longrightarrow> tidy opens m') \<Longrightarrow> tidy opens (if b then m else m')"
  "(\<And>x y. tidy opens (g x y)) \<Longrightarrow> tidy opens (case_prod g p)"
  "tidy opens m \<Longrightarrow> (\<And>x. tidy opens (g1 x)) \<Longrightarrow> tidy opens (case_option m g1 opt)"
  "(\<And>x. tidy opens (g2 x)) \<Longrightarrow> (\<And>x. tidy opens (g3 x)) \<Longrightarrow> tidy opens (case_sum g2 g3 s)"
  "tidy opens m \<Longrightarrow> (\<And>x xs. tidy opens (g4 x xs)) \<Longrightarrow> tidy opens (case_list m g4 l)"
  "(\<And>x. tidy opens (g1 x)) \<Longrightarrow> tidy opens (Let v g1)"
  by (simp_all split: prod.split option.split sum.split list.split)

lemma tidy_reads: "(\<And>w. tidy opens (m w)) \<Longrightarrow> tidy opens (\<lambda>w. m w w)"
  by (simp add: tidy_def)

lemma tidy_reads_let: "(\<And>c. tidy opens (f c)) \<Longrightarrow> tidy opens (\<lambda>w. let c = g w in f c w)"
  by (simp add: tidy_def)

section \<open>The control channel and the server\<close>

lemma tidy_forget: "tidy opens m \<Longrightarrow> tidy opens (\<lambda>w. forget (m w))"
  by (simp add: tidy_def forget_def)

lemma tidy_get_list: "tidy opens m \<Longrightarrow> tidy opens (\<lambda>w. get_list key (m w))"
  by (simp add: tidy_def get_list_def split: sum.split)

lemma tidy_command [tidy_intros]:
  assumes "\<And>j. tidy opens (ask j)"
  shows "tidy opens (command ask m request)"
proof (rule tidyI)
  fix w
  obtain r w1 where a: "ask (JObj request) w = (r, w1)" by fastforce
  with assms[of "JObj request"] have "opens w1 = opens w" by (rule tidy_result)
  with a show "opens (snd (command ask m request w)) = opens w"
    by (simp add: command_def split: sum.split line.split json.split option.split)
qed

lemma tidy_commands [tidy_intros]:
  assumes ask: "\<And>j. tidy opens (ask j)"
  shows "tidy opens (reset ask m)" "tidy opens (respond ask m q resp pad)" "tidy opens (big_reply ask m n pad)"
    "tidy opens (set_stb ask m bits pad)" "tidy opens (clear_observed ask m)" "tidy opens (observed ask m)"
    "tidy opens (hislip_messages ask m)" "tidy opens (vxi11_calls ask m)"
    "tidy opens (set_hislip_faults ask environ m config)" "tidy opens (set_vxi11_faults ask environ m config)"
  unfolding reset_def[abs_def] respond_def[abs_def] big_reply_def[abs_def] set_stb_def[abs_def] clear_observed_def[abs_def]
    observed_def[abs_def] hislip_messages_def[abs_def] vxi11_calls_def[abs_def] set_hislip_faults_def[abs_def]
    set_vxi11_faults_def[abs_def]
  by (intro tidy_forget tidy_get_list tidy_command ask)+

lemma tidy_set_faults [tidy_intros]:
  assumes "\<And>j. tidy opens (ask j)"
  shows "tidy opens (set_faults ask environ m config)"
  using tidy_command[OF assms] by (simp add: tidy_def set_faults_def)

lemma tidy_logs [tidy_intros]:
  assumes "\<And>j. tidy opens (ask j)"
  shows "tidy opens (writes ask m pad)" "tidy opens (count ask m op pad)"
  using tidy_commands(6)[OF assms, THEN tidy_result]
  by (auto simp: tidy_def writes_def count_def split: prod.split sum.split)

text \<open>A block as it is built: something tidy, the body, something tidy.\<close>

lemma tidy_bracket:
  assumes "tidy opens before" "tidy opens body" "tidy opens after"
  shows "tidy opens (\<lambda>w. case before w of (Inl e, w1) \<Rightarrow> (Inl e, w1) | (Inr _, w1) \<Rightarrow> (let (r, w2) = body w1 in (r, snd (after w2))))"
proof (rule tidyI, goal_cases)
  case (1 w)
  show ?case using assms[THEN tidy_result] tidyD[OF assms(3)] by (auto split: prod.split sum.split)
qed

lemma tidy_message_faults [tidy_intros]:
  assumes "\<And>j. tidy opens (ask j)" "tidy opens body"
  shows "tidy opens (hislip_faults_block ask environ m config body)" "tidy opens (vxi11_faults_block ask environ m config body)"
  unfolding hislip_faults_block_def[abs_def] vxi11_faults_block_def[abs_def]
  by (intro tidy_bracket tidy_commands assms)+

lemma tidy_faults [tidy_intros]:
  assumes "\<And>j. tidy opens (ask j)" "tidy opens body"
  shows "tidy opens (faults_block ask environ m config body)"
proof (rule tidyI)
  fix w
  note set = tidy_result[OF tidy_set_faults[OF assms(1)]]
  show "opens (snd (faults_block ask environ m config body w)) = opens w"
    by (auto simp: faults_block_def Let_def set tidyD[OF tidy_set_faults[OF assms(1)]] split: prod.split sum.split json.split
        dest!: set tidy_result[OF assms(2)])
qed

text \<open>Starting and stopping a server opens no session.\<close>

locale still_os =
  fixes os :: "'w os" and opens :: "'w \<Rightarrow> int"
  assumes os_still: "tidy opens (os_popen os args level)" "tidy opens (os_readline os pid)" "tidy opens (os_stderr os pid)"
      "tidy opens (os_connect os host port)" "tidy opens (os_makefile os pid)" "tidy opens (os_wait os pid)"
    and os_kept: "opens (os_close os pid w) = opens w" "opens (os_terminate os pid w) = opens w" "opens (os_kill os pid w) = opens w"
begin

lemma start_still: "start os env m w = (e, m', w') \<Longrightarrow> opens w' = opens w"
  by (auto simp: start_def Let_def split: sum.splits prod.splits if_splits dest!: os_still[THEN tidy_result])

lemma stop_still: "stop os m w = (e, m', w') \<Longrightarrow> opens w' = opens w"
  by (auto simp: stop_def close_opt_def Let_def os_kept split: option.splits prod.splits if_splits dest!: os_still[THEN tidy_result])

lemma mock_server_tidy [tidy_intros]:
  assumes "\<And>m. tidy opens (body m)"
  shows "tidy opens (mock_server os env a body)"
  by (rule tidyI) (auto simp: mock_server_def Let_def split: prod.splits option.splits
      dest!: start_still stop_still assms[THEN tidy_result])

end

section \<open>A ledger of sessions\<close>

text \<open>First the calls that are not about sessions, for a count they leave alone; then the laws of opening and closing.\<close>

locale steady_calls =
  fixes cx :: "'w ctx" and opens :: "'w \<Rightarrow> int"
  assumes timeout_kept: "opens (i_set_timeout (cx_client cx) t w) = opens w"
    and note_kept: "opens (cx_note cx msg w) = opens w"
    and sleep_kept: "opens (cx_sleep cx d w) = opens w"
    and ask_still [tidy_intros]: "tidy opens (cx_ask cx j)"
    and instr_still [tidy_intros]: "tidy opens (i_query (cx_client cx) q)" "tidy opens (i_write (cx_client cx) s)"
      "tidy opens (i_clear (cx_client cx))" "tidy opens (i_set_attr (cx_client cx) b)" "tidy opens (i_get_attr (cx_client cx))"
    and client_still [tidy_intros]: "tidy opens (cl_resource_info (cx_client cx) s)" "tidy opens (cl_get_attribute (cx_client cx) s)"
      "tidy opens (cl_set_attribute (cx_client cx) s v)" "tidy opens (cl_set_visa_attribute (cx_client cx) s v)"
      "tidy opens (cl_write (cx_client cx) s)" "tidy opens (cl_read (cx_client cx) n)" "tidy opens (cl_op (cx_client cx) s q)"
      "tidy opens (cl_read_stb (cx_client cx))" "tidy opens (cl_inst_read (cx_client cx))" "tidy opens (cl_read_bytes (cx_client cx) n)"
      "tidy opens (cl_lock (cx_client cx) kind n key)" "tidy opens (cl_lock_excl (cx_client cx) n)" "tidy opens (cl_unlock (cx_client cx))"
      "tidy opens (cl_event (cx_client cx) s q)"
begin

lemma drain_still: "opens (snd (drain_errors (instr.truncate (cx_client cx)) n w)) = opens w"
proof (induction n arbitrary: w)
  case (Suc n)
  have "opens w1 = opens w" if "i_query (cx_client cx) ''SYST:ERR?'' w = (r, w1)" for r w1
    using instr_still(1) that by (rule tidy_result)
  with Suc.IH show ?case
    by (auto simp: Let_def instr.truncate_def split: prod.split sum.split) (metis snd_conv)
qed simp

lemma overlap_still [tidy_intros]: "tidy opens (set_hislip_overlap (cx_env cx) (instr.truncate (cx_client cx)) b)"
  by (rule tidyI) (auto simp: set_hislip_overlap_def instr.truncate_def split: prod.split sum.split option.split
      dest!: instr_still[THEN tidy_result])

lemma in_mode_still: "in_mode (cx_env cx) (instr.truncate (cx_client cx)) mode name w = (e, w') \<Longrightarrow> opens w' = opens w"
  by (auto simp: in_mode_def split: option.splits if_splits prod.splits sum.splits dest!: overlap_still[THEN tidy_result])

lemma lib_call_tidy: "tidy opens f \<Longrightarrow> tidy opens (lib_call name f)" for f :: "'w \<Rightarrow> 'v call_end \<times> 'w"
  by (auto simp: tidy_def lib_call_def split: prod.split) (metis snd_conv)

lemma lib_status_tidy [tidy_intros]: "tidy opens f \<Longrightarrow> tidy opens (lib_status name f)" for f :: "'w \<Rightarrow> 'v call_end \<times> 'w"
  unfolding lib_status_def by (intro tidy_intros lib_call_tidy)

lemma calls_tidy [tidy_intros]:
  "tidy opens (inst_query cx q)" "tidy opens (inst_write cx s)" "tidy opens (lib_write cx s)" "tidy opens (inst_clear cx)"
  "tidy opens (inst_read cx)" "tidy opens (read_stb cx)" "tidy opens (get_attribute cx a)" "tidy opens (set_attribute cx a v)"
  "tidy opens (set_visa_attribute cx a v)" "tidy opens (lib_op cx name arg)" "tidy opens (lib_read cx n)"
  "tidy opens (lib_lock cx kind n key)" "tidy opens (lib_unlock cx)"
  unfolding inst_query_def inst_write_def lib_write_def inst_clear_def inst_read_def read_stb_def get_attribute_def set_attribute_def
    set_visa_attribute_def lib_op_def lib_read_def lib_lock_def lib_unlock_def
  by (intro tidy_intros lib_call_tidy)+

lemma kept_tidy [tidy_intros]:
  "tidy opens (set_timeout cx t)" "tidy opens (sleep cx d)" "tidy opens (now cx)" "tidy opens (drained cx)" "tidy opens (drain cx)"
  "tidy opens (change (cx_note cx msg))" "tidy opens (server_or_skip cx why)"
  by (simp_all add: tidy_def set_timeout_def sleep_def now_def drained_def drain_def change_def server_or_skip_def ret_def throw_def
      timeout_kept sleep_kept note_kept drain_still split: prod.split option.split) (metis drain_still snd_conv)

lemma asked_tidy [tidy_intros]: "tidy opens (asked cx q)"
  unfolding asked_def by (intro tidy_intros)

end

locale ledger = steady_calls cx opens for cx :: "'w ctx" and opens +
  assumes opened: "cl_open (cx_client cx) name w = (e, w') \<Longrightarrow> opens w' = (if e = None then opens w + 1 else opens w)"
    and closed: "opens (snd (i_close (cx_client cx) w)) = opens w - 1"
begin

text \<open>\<^verbatim>\<open>with visa.session(...)\<close> closes what it opened, whatever the block does.\<close>

lemma session_tidy [tidy_intros]:
  assumes "tidy opens body"
  shows "tidy opens (session_on cx name body)"
proof (rule tidyI)
  fix w
  have t: "opens (i_set_timeout (instr.truncate (cx_client cx)) x w1) = opens w1" for x w1
    using timeout_kept by (simp add: instr.truncate_def)
  have c: "opens (snd (i_close (instr.truncate (cx_client cx)) w1)) = opens w1 - 1" for w1
    using closed by (simp add: instr.truncate_def)
  show "opens (snd (session_on cx name body w)) = opens w"
    by (auto simp: session_on_def session_def Let_def c split: prod.split option.split
        dest!: opened in_mode_still tidy_result[OF assms] simp: t)
qed

lemma open_inst_tidy [tidy_intros]: "tidy opens body \<Longrightarrow> tidy opens (open_inst cx body)"
  unfolding open_inst_def by (rule session_tidy)

end

section \<open>Sessions opened by hand\<close>

definition gaining :: "('w \<Rightarrow> int) \<Rightarrow> ('w, 'a) act \<Rightarrow> bool" where
  \<comment> \<open>one more open session if it returns, none if it raises\<close>
  "gaining opens m \<longleftrightarrow> (\<forall>w r w'. m w = (r, w') \<longrightarrow> opens w' = (case r of Inl _ \<Rightarrow> opens w | Inr _ \<Rightarrow> opens w + 1))"

definition releasing :: "('w \<Rightarrow> int) \<Rightarrow> ('w, 'a) act \<Rightarrow> bool" where
  \<comment> \<open>one open session less, however it ends\<close>
  "releasing opens m \<longleftrightarrow> (\<forall>w. opens (snd (m w)) = opens w - 1)"

lemma gaining_then_releasing: "gaining opens m \<Longrightarrow> (\<And>x. releasing opens (f x)) \<Longrightarrow> tidy opens (andthen m f)"
  by (auto simp: gaining_def releasing_def tidy_def andthen_def split: prod.split sum.split)

lemma gaining_refused: "gaining opens m \<Longrightarrow> gaining opens (catch cls m (\<lambda>e. throw (f e)))"
  by (auto simp: gaining_def catch_def throw_def split: prod.splits sum.splits if_splits)

lemma releasing_andthen: "releasing opens m \<Longrightarrow> (\<And>x. tidy opens (f x)) \<Longrightarrow> releasing opens (andthen m f)"
  by (auto simp: tidy_def releasing_def andthen_def split: prod.split sum.split) (metis snd_conv)+

lemma releasing_at_exit: "tidy opens m \<Longrightarrow> releasing opens f \<Longrightarrow> releasing opens (at_exit m f)"
  by (simp add: tidy_def releasing_def at_exit_world)

context ledger
begin

lemma open_resource_gaining: "gaining opens (open_resource cx name)"
  by (auto simp: gaining_def open_resource_def andthen_def effect_def set_timeout_def change_def timeout_kept
      split: prod.splits option.splits sum.splits dest!: opened)

lemma close_inst_releasing: "releasing opens (close_inst cx)"
  using closed by (auto simp: releasing_def close_inst_def suppressed_def catch_def effect_def ret_def split: prod.split option.split)
    (metis snd_conv)+

lemma answers_something_releasing: "releasing opens (answers_something cx)"
  unfolding answers_something_def by (intro releasing_at_exit close_inst_releasing tidy_intros)

lemma try_variant_tidy [tidy_intros]: "tidy opens (try_variant cx v)"
proof (rule tidyI)
  fix w
  obtain r w1 where o: "open_resource cx (snd v) w = (r, w1)" by fastforce
  with open_resource_gaining have "opens w1 = (case r of Inl _ \<Rightarrow> opens w | Inr _ \<Rightarrow> opens w + 1)"
    by (simp add: gaining_def)
  moreover have "opens (snd (andthen (close_inst cx) (\<lambda>_. ret ([] :: (string \<times> string) list)) w1)) = opens w1 - 1"
    using releasing_andthen[OF close_inst_releasing, where f = "\<lambda>_. ret ([] :: (string \<times> string) list)"] by (simp add: releasing_def tidy_intros)
  ultimately show "opens (snd (try_variant cx v w)) = opens w"
    using o by (simp add: try_variant_def andthen_def[of "catch _ _ _"] andthen_def[of "open_resource _ _"] catch_def ret_def split: sum.splits)
qed

end

section \<open>The scripts\<close>

context ledger
begin

lemma attribute_checks_tidy:
  "tidy opens (check_trig_id_universally_absent cx)" "tidy opens (check_all_instr_attributes cx)"
  "tidy opens (check_message_based_attributes cx)" "tidy opens (check_tcpip_attributes cx)" "tidy opens (check_hislip_attributes cx)"
  "tidy opens (check_is_hislip_correct cx)" "tidy opens (check_srq_event_supported cx)" "tidy opens (check_interface_type cx)"
  unfolding check_trig_id_universally_absent_def check_all_instr_attributes_def check_message_based_attributes_def check_tcpip_attributes_def
    check_hislip_attributes_def check_is_hislip_correct_def check_srq_event_supported_def check_interface_type_def
    missing_def missing_one_def none_absent_def read_only_def read_only_one_def
  by (intro tidy_intros)+

lemma operation_checks_tidy:
  "tidy opens (check_required_operations cx)" "tidy opens (check_operations_return_status cx)"
  "tidy opens (check_suppress_end_forbids_success cx)" "tidy opens (check_termchar_off_forbids_term_char_status cx)"
  "tidy opens (check_clear_flushes_buffers cx)" "tidy opens (check_required_ren_modes cx)" "tidy opens (check_flush_empty_buffer cx)"
  "tidy opens (check_user_data_consistency n has cx)"
  unfolding check_required_operations_def check_operations_return_status_def check_suppress_end_forbids_success_def
    check_termchar_off_forbids_term_char_status_def check_clear_flushes_buffers_def check_required_ren_modes_def check_flush_empty_buffer_def
    check_user_data_consistency_def probe_one_def restore_end_def read_suppressed_def read_data_def termchar_round_def ren_one_def
  by (intro tidy_intros lib_call_tidy)+

lemma name_checks_tidy:
  "tidy opens (check_open_case_insensitive cx)" "tidy opens (check_open_lowercase cx)" "tidy opens (check_hislip_name_selects_hislip cx)"
  "tidy opens (check_inst_name_selects_vxi11 cx)" "tidy opens (check_omitted_device_name cx)" "tidy opens (check_ipv4_host cx)"
  "tidy opens (check_parse_matches_open cx)" "tidy opens (check_set_buf cx)"
  unfolding check_open_case_insensitive_def check_open_lowercase_def check_hislip_name_selects_hislip_def check_inst_name_selects_vxi11_def
    check_omitted_device_name_def check_ipv4_host_def check_parse_matches_open_def check_set_buf_def not_readable_def
  by (intro gaining_then_releasing gaining_refused open_resource_gaining releasing_andthen answers_something_releasing tidy_intros)+

lemma reopens_tidy [tidy_intros]: "tidy opens (reopens cx name)"
proof -
  have "gaining opens (effect (cl_open (cx_client cx) name))"
    by (auto simp: gaining_def effect_def split: prod.splits option.splits dest!: opened)
  then show ?thesis
    unfolding reopens_def
    by (intro gaining_then_releasing gaining_refused releasing_at_exit close_inst_releasing tidy_intros)
qed

lemma lifecycle_checks_tidy:
  "tidy opens (check_spec_version cx)" "tidy opens (check_queue_length_writeable cx)" "tidy opens (check_queue_length_readonly cx)"
  "tidy opens (check_close_null cx)" "tidy opens (check_string_attribute_length cx)" "tidy opens (check_unsupported_attribute_state cx)"
  "tidy opens (check_resource_name_roundtrip cx)"
  unfolding check_spec_version_def check_queue_length_writeable_def check_queue_length_readonly_def check_close_null_def
    check_string_attribute_length_def check_unsupported_attribute_state_def check_resource_name_roundtrip_def queue_length_fixed_def
    readable_name_def
  by (intro tidy_intros)+

lemma flag_checks_tidy:
  "tidy opens (check_write_end_flag cx)" "tidy opens (check_write_end_flag_cleared cx)" "tidy opens (check_read_termchrset cx)"
  "tidy opens (check_read_termchrset_cleared cx)" "tidy opens (check_reserved_bits_zero cx)" "tidy opens (check_io_timeout_matches cx)"
  unfolding check_write_end_flag_def check_write_end_flag_cleared_def check_read_termchrset_def check_read_termchrset_cleared_def
    check_reserved_bits_zero_def check_io_timeout_matches_def calls_def call_log_def last_flags_def write_unterminated_def
    terminate_again_def read_with_termchar_def judge_reserved_def judge_timeout_def
  by (intro tidy_intros)+

lemma request_size_tidy: "tidy opens (check_request_size repr_set cx)"
proof -
  have "tidy opens (\<lambda>w. andthen (assert_that (list_all (\<lambda>n. n \<le> cl_chunk_size (cx_client cx) w) ns) (m1 w)) (\<lambda>_. ret (m2 w)) w)"
    for ns and m1 m2 :: "'w \<Rightarrow> string"
    by (rule tidy_reads[where m = "\<lambda>w. andthen (assert_that (list_all (\<lambda>n. n \<le> cl_chunk_size (cx_client cx) w) ns) (m1 w)) (\<lambda>_. ret (m2 w))"])
      (intro tidy_intros)
  then show ?thesis unfolding check_request_size_def calls_def call_log_def by (intro tidy_intros)
qed

lemma queries_tidy [tidy_intros]: "tidy opens (queries n cx)"
  by (induction n) (simp_all add: tidy_intros)

lemma message_checks_tidy:
  "tidy opens (check_initial_message_id cx)" "tidy opens (check_message_id_step cx)" "tidy opens (check_data_end_id_mismatch mode cx)"
  "tidy opens (check_chunked_reply cx)" "tidy opens (check_data_id_mismatch mode cx)" "tidy opens (check_recovery_after_mismatch mode cx)"
  "tidy opens (check_message_id_reset_on_clear cx)" "tidy opens (check_overlap_mode_attribute cx)" "tidy opens (check_prologue cx)"
  unfolding check_initial_message_id_def check_message_id_step_def check_data_end_id_mismatch_def check_chunked_reply_def
    check_data_id_mismatch_def check_recovery_after_mismatch_def check_message_id_reset_on_clear_def check_overlap_mode_attribute_def
    check_prologue_def wire_server_or_skip_def synchronized_server_def message_log_def client_ids_def server_kinds_def judge_steps_def
    ask_faulted_def
  by (intro tidy_intros)+

lemma chunk_boundary_tidy: "tidy opens (check_exact_chunk_boundary cx)"
  unfolding check_exact_chunk_boundary_def conf_server_def by (intro tidy_reads_let tidy_intros)

lemma conformance_checks_tidy:
  "tidy opens (check_query cx)" "tidy opens (check_two_queries cx)" "tidy opens (check_large_reply cx)" "tidy opens (check_dribbled_reply cx)"
  "tidy opens (check_read_stb cx)" "tidy opens (check_read_timeout cx)" "tidy opens (check_connection_dropped cx)"
  "tidy opens (check_stalled_connection cx)" "tidy opens (check_recovery_after_timeout cx)" "tidy opens (check_error_queue_clean cx)" "tidy opens (check_observed_traffic cx)"
  unfolding check_query_def check_two_queries_def check_large_reply_def check_dribbled_reply_def check_read_stb_def check_read_timeout_def
    check_connection_dropped_def check_stalled_connection_def check_recovery_after_timeout_def check_error_queue_clean_def
    check_observed_traffic_def     conf_server_def faulted_def reassembled_def silent_read_def
  by (intro tidy_intros)+

lemma link_cycles_tidy [tidy_intros]: "tidy opens (link_cycles n i deadline cx)"
  by (induction n arbitrary: i) (simp_all only: link_cycles.simps, (intro tidy_intros | assumption)+)

lemma vxi11_checks_tidy:
  "tidy opens (check_read_end cx)" "tidy opens (check_read_termchar cx)" "tidy opens (check_read_max_count cx)"
  "tidy opens (check_end_beats_count cx)" "tidy opens (check_large_reassembly cx)" "tidy opens (check_error_21 cx)"
  "tidy opens (check_unknown_error_code cx)" "tidy opens (check_recovery_after_error cx)" "tidy opens (check_stale_reply cx)"
  "tidy opens (vxi_connection_dropped cx)" "tidy opens (check_zero_max_recv_size cx)" "tidy opens (check_write_splitting cx)"
  "tidy opens (check_lock_state cx)" "tidy opens (check_empty_read_times_out cx)" "tidy opens (vxi_recovery_after_timeout cx)"
  "tidy opens (check_keepalive cx)" "tidy opens (check_send_end_flag cx)" "tidy opens (check_close_destroys_link cx)"
  unfolding check_read_end_def check_read_termchar_def check_read_max_count_def check_end_beats_count_def check_large_reassembly_def
    check_error_21_def check_unknown_error_code_def check_recovery_after_error_def check_stale_reply_def vxi_connection_dropped_def
    check_zero_max_recv_size_def check_write_splitting_def check_lock_state_def check_empty_read_times_out_def vxi_recovery_after_timeout_def
    check_keepalive_def check_send_end_flag_def check_close_destroys_link_def injected_error_def vxi_server_def rpc_faulted_def arm_def
    visa_or_other_def bytes_of_def sent_writes_def faulted_def reassembled_def silent_read_def
  by (intro tidy_intros)+

lemma single_lock_checks_tidy:
  "tidy opens (check_exclusive_nesting cx)" "tidy opens (check_unlock_reports_nesting cx)" "tidy opens (check_shared_nesting cx)"
  "tidy opens (check_shared_wrong_key cx)" "tidy opens (check_unlock_underflow cx)" "tidy opens (check_shared_key_stable cx)"
  "tidy opens (check_exclusive_ignores_key cx)" "tidy opens (check_long_key_refused cx)"
  unfolding check_exclusive_nesting_def check_unlock_reports_nesting_def check_shared_nesting_def check_shared_wrong_key_def
    check_unlock_underflow_def check_shared_key_stable_def check_exclusive_ignores_key_def check_long_key_refused_def
    exclusive_def lock_both_def unlock_if_def does_not_nest_def shared_first_def
  by (intro tidy_intros)+

end

text \<open>Two handles on one ledger, and the servers some checks start.\<close>

locale two_ledgers = ledger cx opens + other: ledger "through cx b" opens for cx :: "'w ctx" and b opens
begin

lemmas other_still [tidy_intros] = other.client_still[unfolded through_simps]

lemma two_session_checks_tidy:
  "tidy opens (check_parallel_sessions cx b)" "tidy opens (check_close_isolation cx b)" "tidy opens (check_after_failed_lock cx b)"
  "tidy opens (check_nesting_holds_resource cx b)" "tidy opens (check_immediate_timeout cx b)"
  "tidy opens (check_lock_waits_full_timeout cx b)"
  unfolding check_parallel_sessions_def check_close_isolation_def check_after_failed_lock_def check_nesting_holds_resource_def
    check_immediate_timeout_def check_lock_waits_full_timeout_def exclusive_def unlock_if_def does_not_nest_def contend_for_def Let_def
  by (intro tidy_intros)+

end

locale bench_ledger = two_ledgers cx b opens + bench: still_os "bn_os B" opens for cx :: "'w ctx" and b opens and B :: "'w bench"
begin

lemma plumbing_tidy [tidy_intros]:
  "tidy opens (needs_mock cx B)" "tidy opens (hislip_resource srv)" "tidy opens (last_of xs)"
  "tidy opens (params_of ms)" "tidy opens (overlapped_bit m)"
  unfolding needs_mock_def hislip_resource_def last_of_def params_of_def overlapped_bit_def
  by (simp_all add: tidy_def ret_def throw_def lift_def split: sum.split json.split list.split)

lemma open_at_tidy [tidy_intros]:
  "tidy opens body \<Longrightarrow> tidy opens (open_at cx r body)" "tidy opens body \<Longrightarrow> tidy opens (open_at (through cx b) r body)"
  unfolding open_at_def by (intro tidy_intros; assumption)+

lemma mode_server_tidy [tidy_intros]: "(\<And>m. tidy opens (body m)) \<Longrightarrow> tidy opens (mode_server B modes body)"
  unfolding mode_server_def by (rule bench.mock_server_tidy)

lemma offering_tidy [tidy_intros]: "(\<And>m. tidy opens (body m)) \<Longrightarrow> tidy opens (offering cx B modes body)"
  unfolding offering_def by (intro tidy_intros)

lemma mode_reads_tidy [tidy_intros]:
  "tidy opens (overlap_en cx)" "tidy opens (overlap_en (through cx b))" "tidy opens (set_overlap_en cx v)"
  "tidy opens (client_says cx)" "tidy opens (messages cx srv types sender)"
  unfolding overlap_en_def set_overlap_en_def client_says_def messages_def message_log_def by (intro tidy_intros)+

lemma assert_saying_tidy [tidy_intros]: "tidy opens (assert_saying cx c msg)"
  unfolding assert_saying_def by (intro tidy_intros)

lemma overlapped_session_tidy [tidy_intros]:
  "(\<And>s. tidy opens (body s)) \<Longrightarrow> tidy opens (overlapped_session cx B body)"
  unfolding overlapped_session_def io_errors_fail_def by (intro tidy_intros)

lemma overlapped_wire_tidy [tidy_intros]: "(\<And>s. tidy opens (body s)) \<Longrightarrow> tidy opens (overlapped_wire cx B body)"
  unfolding overlapped_wire_def by (intro tidy_intros)

lemma wait_turns_tidy [tidy_intros]: "tidy opens holds \<Longrightarrow> tidy opens (wait_turns n cx srv deadline holds)"
  by (induction n) (simp_all only: wait_turns.simps, (intro tidy_intros | assumption)+, simp)

lemma mode_helpers_tidy [tidy_intros]:
  "tidy opens (client_message_ids cx srv)" "tidy opens (status_query_ids cx srv)" "tidy opens (agreed_mode cx srv what)"
  "tidy opens (wait_for_replies cx msrv n)" "tidy opens (a_reply cx)" "tidy opens (idn_and_opc cx)" "tidy opens (reset_if cx msrv)"
  "tidy opens (judge_ids cx ids)" "tidy opens (judge_mav cx p d)" "tidy opens (judge_before_first ids1 ids2)" "tidy opens (clear_noting cx)"
  "tidy opens (set_to cx v)"
  unfolding client_message_ids_def status_query_ids_def agreed_mode_def wait_for_replies_def a_reply_def idn_and_opc_def reset_if_def
    judge_ids_def judge_mav_def judge_before_first_def clear_noting_def set_to_def
  by (intro tidy_intros)+

lemma quoted_ids_tidy [tidy_intros]: "tidy opens (quoted_ids cx cx srv)" "tidy opens (quoted_ids cx (through cx b) srv)"
  unfolding quoted_ids_def by (intro tidy_intros)+

lemma per_session_tidy: "tidy opens (for_each [(cx, True), (through cx b, False)] (quotes_by_mode cx srv))"
  unfolding quotes_by_mode_def for_each.simps prod.case by (intro tidy_intros)

lemma negotiation_checks_tidy:
  "tidy opens (check_attribute_defaults_to_server_mode cx B)" "tidy opens (check_attribute_is_writable cx B)"
  "tidy opens (check_change_runs_device_clear cx B)" "tidy opens (check_change_takes_effect cx B)" "tidy opens (check_refusal_is_honoured cx B)"
  "tidy opens (check_clear_keeps_mode cx B)" "tidy opens (check_modes_are_per_session cx b B)"
  unfolding check_attribute_defaults_to_server_mode_def check_attribute_is_writable_def check_change_runs_device_clear_def
    check_change_takes_effect_def check_refusal_is_honoured_def check_clear_keeps_mode_def check_modes_are_per_session_def
    announced_mode_def change_asks_def change_effective_def clear_keeps_def Let_def
  by (intro per_session_tidy tidy_intros)+

lemma overlapped_checks_tidy:
  "tidy opens (check_overlapped_message_ids cx B)" "tidy opens (check_overlapped_trigger_id cx B)"
  "tidy opens (check_overlapped_ids_reset_on_clear cx B)" "tidy opens (check_overlapped_status_query_before_io cx B)"
  "tidy opens (check_overlapped_status_query_id cx B)" "tidy opens (check_overlapped_reply_ids_not_matched cx B)"
  "tidy opens (check_overlapped_skewed_reply_delivered cx B)" "tidy opens (check_overlapped_chunked_reply cx B)"
  unfolding check_overlapped_message_ids_def check_overlapped_trigger_id_def check_overlapped_ids_reset_on_clear_def
    check_overlapped_status_query_before_io_def check_overlapped_status_query_id_def check_overlapped_reply_ids_not_matched_def
    check_overlapped_skewed_reply_delivered_def check_overlapped_chunked_reply_def
  by (intro tidy_intros)+

lemma overlapped_api_checks_tidy:
  "tidy opens (check_pipelined_queries cx B)" "tidy opens (check_send_keeps_buffered_reply cx B)"
  "tidy opens (check_partial_read_keeps_next_reply cx B)" "tidy opens (check_overlapped_mav cx B)"
  "tidy opens (check_clear_discards_buffered_replies cx B)" "tidy opens (check_clear_mid_reply_leaves_no_residue cx B)"
  unfolding check_pipelined_queries_def check_send_keeps_buffered_reply_def check_partial_read_keeps_next_reply_def check_overlapped_mav_def
    check_clear_discards_buffered_replies_def check_clear_mid_reply_leaves_no_residue_def
  by (intro tidy_intros)+

end

section \<open>The ledger of a run\<close>

text \<open>
  Any context with a counter next to its world: a successful \<^verbatim>\<open>open_resource\<close> counts up, \<^verbatim>\<open>close\<close> counts down whether or not it
  raises, and everything else is the library's own call.
\<close>

definition beside :: "('w \<Rightarrow> 'a \<times> 'w) \<Rightarrow> 'w \<times> int \<Rightarrow> 'a \<times> 'w \<times> int" where
  "beside f p = (case f (fst p) of (x, w) \<Rightarrow> (x, w, snd p))"

definition counting_up :: "('w \<Rightarrow> exn option \<times> 'w) \<Rightarrow> 'w \<times> int \<Rightarrow> exn option \<times> 'w \<times> int" where
  "counting_up f p = (case f (fst p) of (e, w) \<Rightarrow> (e, w, if e = None then snd p + 1 else snd p))"

definition counting_down :: "('w \<Rightarrow> exn option \<times> 'w) \<Rightarrow> 'w \<times> int \<Rightarrow> exn option \<times> 'w \<times> int" where
  "counting_down f p = (case f (fst p) of (e, w) \<Rightarrow> (e, w, snd p - 1))"

definition metered_client :: "'w client \<Rightarrow> ('w \<times> int) client" where
  "metered_client c =
     \<lparr>i_query = (\<lambda>q. beside (i_query c q)), i_write = (\<lambda>s. beside (i_write c s)), i_clear = beside (i_clear c),
      i_timeout = (\<lambda>p. i_timeout c (fst p)), i_set_timeout = (\<lambda>t p. (i_set_timeout c t (fst p), snd p)),
      i_set_attr = (\<lambda>v. beside (i_set_attr c v)), i_get_attr = beside (i_get_attr c), i_close = counting_down (i_close c),
      cl_open = (\<lambda>name. counting_up (cl_open c name)), cl_resource_info = (\<lambda>name. beside (cl_resource_info c name)), cl_has = cl_has c,
      cl_get_attribute = (\<lambda>a. beside (cl_get_attribute c a)), cl_set_attribute = (\<lambda>a v. beside (cl_set_attribute c a v)),
      cl_set_visa_attribute = (\<lambda>a v. beside (cl_set_visa_attribute c a v)), cl_write = (\<lambda>s. beside (cl_write c s)),
      cl_read = (\<lambda>n. beside (cl_read c n)), cl_op = (\<lambda>name arg. beside (cl_op c name arg)), cl_chunk_size = (\<lambda>p. cl_chunk_size c (fst p)),
      cl_read_stb = beside (cl_read_stb c), cl_inst_read = beside (cl_inst_read c), cl_read_bytes = (\<lambda>n. beside (cl_read_bytes c n)),
      cl_lock = (\<lambda>kind t key. beside (cl_lock c kind t key)), cl_lock_excl = (\<lambda>t. beside (cl_lock_excl c t)),
      cl_unlock = beside (cl_unlock c), cl_event = (\<lambda>name mech. beside (cl_event c name mech))\<rparr>"

definition metered :: "'w ctx \<Rightarrow> ('w \<times> int) ctx" where
  "metered cx =
     \<lparr>cx_client = metered_client (cx_client cx), cx_env = cx_env cx, cx_code = cx_code cx, cx_repr_code = cx_repr_code cx,
      cx_repr_value = cx_repr_value cx, cx_resource = cx_resource cx, cx_protocol = cx_protocol cx, cx_timeout = cx_timeout cx,
      cx_hislip_mode = cx_hislip_mode cx, cx_server = cx_server cx, cx_ask = (\<lambda>j. beside (cx_ask cx j)), cx_environ = cx_environ cx,
      cx_note = (\<lambda>msg p. (cx_note cx msg (fst p), snd p)), cx_now = (\<lambda>p. cx_now cx (fst p)),
      cx_sleep = (\<lambda>d p. (cx_sleep cx d (fst p), snd p))\<rparr>"

definition metered_os :: "'w os \<Rightarrow> ('w \<times> int) os" where
  "metered_os os =
     \<lparr>os_popen = (\<lambda>args level. beside (os_popen os args level)), os_readline = (\<lambda>pid. beside (os_readline os pid)),
      os_stderr = (\<lambda>pid. beside (os_stderr os pid)), os_connect = (\<lambda>host port. beside (os_connect os host port)),
      os_makefile = (\<lambda>fd. beside (os_makefile os fd)), os_close = (\<lambda>fd p. (os_close os fd (fst p), snd p)),
      os_terminate = (\<lambda>pid p. (os_terminate os pid (fst p), snd p)), os_kill = (\<lambda>pid p. (os_kill os pid (fst p), snd p)),
      os_wait = (\<lambda>pid. beside (os_wait os pid))\<rparr>"

definition metered_bench :: "'w bench \<Rightarrow> ('w \<times> int) bench" where
  "metered_bench B = \<lparr>bn_os = metered_os (bn_os B), bn_env = bn_env B, bn_no_proxy = bn_no_proxy B, bn_big_query = bn_big_query B\<rparr>"

lemma beside_tidy [simp]: "tidy snd (beside f)"
  by (simp add: tidy_def beside_def split: prod.split)

lemma metered_ledger: "ledger (through (metered cx) (metered_client c)) snd"
  by unfold_locales (auto simp: metered_def through_def metered_client_def counting_up_def counting_down_def split: prod.splits)

lemma metered_through: "through (metered cx) (metered_client (cx_client cx)) = metered cx"
  by (simp add: metered_def through_def)

interpretation run: ledger "metered cx" snd for cx :: "'w ctx"
  using metered_ledger[of cx "cx_client cx"] by (simp add: metered_through)

interpretation run2: two_ledgers "metered cx" "metered_client b" snd for cx :: "'w ctx" and b
  by (intro two_ledgers.intro run.ledger_axioms metered_ledger)

interpretation run_os: still_os "metered_os os" snd for os :: "'w os"
  by unfold_locales (simp_all add: metered_os_def)

interpretation run_bench: bench_ledger "metered cx" "metered_client b" snd "metered_bench B" for cx :: "'w ctx" and b B
  using run_os.still_os_axioms[of "bn_os B"]
  by (intro bench_ledger.intro run2.two_ledgers_axioms) (simp add: metered_bench_def)

section \<open>Every session is closed\<close>


text \<open>So do the conformance checks and the lock checks, among them those that hold two sessions at once: for these 39 checks the
  number of open sessions is the same before and after, however the check ends.\<close>

theorem conformance_checks_close_sessions:
  "list_all (tidy snd)
     [check_query (metered cx), check_two_queries (metered cx), check_exact_chunk_boundary (metered cx), check_large_reply (metered cx),
      check_dribbled_reply (metered cx), check_read_stb (metered cx), check_read_timeout (metered cx), check_connection_dropped (metered cx),
      check_stalled_connection (metered cx), check_recovery_after_timeout (metered cx), check_parallel_sessions (metered cx) (metered_client b),
      check_close_isolation (metered cx) (metered_client b), check_error_queue_clean (metered cx), check_observed_traffic (metered cx),
      check_read_end (metered cx), check_read_termchar (metered cx), check_read_max_count (metered cx), check_end_beats_count (metered cx),
      check_large_reassembly (metered cx), check_error_21 (metered cx), check_unknown_error_code (metered cx),
      check_recovery_after_error (metered cx), check_stale_reply (metered cx), vxi_connection_dropped (metered cx),
      check_zero_max_recv_size (metered cx), check_write_splitting (metered cx), check_lock_state (metered cx),
      check_after_failed_lock (metered cx) (metered_client b), check_empty_read_times_out (metered cx), vxi_recovery_after_timeout (metered cx),
      check_keepalive (metered cx), check_send_end_flag (metered cx), check_close_destroys_link (metered cx),
      check_exclusive_nesting (metered cx), check_unlock_reports_nesting (metered cx), check_shared_nesting (metered cx),
      check_shared_wrong_key (metered cx), check_unlock_underflow (metered cx), check_shared_key_stable (metered cx),
      check_exclusive_ignores_key (metered cx), check_long_key_refused (metered cx), check_nesting_holds_resource (metered cx) (metered_client b),
      check_immediate_timeout (metered cx) (metered_client b), check_lock_waits_full_timeout (metered cx) (metered_client b)]"
  by (simp add: run.conformance_checks_tidy run.chunk_boundary_tidy run.vxi11_checks_tidy run.single_lock_checks_tidy
      run2.two_session_checks_tidy)

text \<open>And so do the 21 checks of the HiSLIP modes, which start servers of their own: neither a server that does not start, nor
  one that dies, nor a session that refuses the mode leaves a session open.\<close>

theorem mode_checks_close_sessions:
  "list_all (\<lambda>m. tidy snd (m (metered cx) (metered_bench B)))
     [check_attribute_defaults_to_server_mode, check_attribute_is_writable, check_change_runs_device_clear, check_change_takes_effect,
      check_refusal_is_honoured, check_clear_keeps_mode, \<lambda>cx. check_modes_are_per_session cx (metered_client b),
      check_overlapped_message_ids, check_overlapped_trigger_id, check_overlapped_ids_reset_on_clear, check_overlapped_status_query_before_io,
      check_overlapped_status_query_id, check_overlapped_reply_ids_not_matched, check_overlapped_skewed_reply_delivered,
      check_overlapped_chunked_reply, check_pipelined_queries, check_send_keeps_buffered_reply, check_partial_read_keeps_next_reply,
      check_overlapped_mav, check_clear_discards_buffered_replies, check_clear_mid_reply_leaves_no_residue]"
  by (simp add: run_bench.negotiation_checks_tidy run_bench.overlapped_checks_tidy run_bench.overlapped_api_checks_tidy)

section \<open>Those that leave one open\<close>

definition contended_at :: "rat \<Rightarrow> locks" where
  \<comment> \<open>the second session holds the lock\<close>
  "contended_at t = (unlocked_at t)\<lparr>lk_owner := Some (True, 1)\<rparr>"

lemma metered_open:
  "cl_open (cx_client cx) name w = (None, w) \<Longrightarrow> effect (cl_open (cx_client (metered cx)) name) (w, n) = (Inr (), w, n + 1)"
  by (simp add: effect_def metered_def metered_client_def counting_up_def)

lemma metered_fields [simp]: "cx_resource (metered cx) = cx_resource cx" "cx_server (metered cx) = cx_server cx"
  "cx_environ (metered cx) = cx_environ cx"
  by (simp_all add: metered_def)

lemma dead_port_leaves: "snd (snd (check_dead_port dead (metered example_ctx) (w, n))) = n + 1"
proof -
  have "cl_open (cx_client example_ctx) name w = (None, w)" for name by (simp add: example_ctx_def example_client_def)
  from metered_open[OF this] show ?thesis
    by (simp add: check_dead_port_def or_assert_def visa_or_other_def catch_def andthen_def now_def acts)
qed

lemma lock_open: "cl_open (cx_client (lock_ctx c)) name L = (None, L)"
  by (simp add: lock_client_def example_client_def)

lemma hold_lock_leaves: "\<exists>e L. hold_lock (metered (lock_ctx True)) timeout (contended_at t, n) = (Inl e, L, n + 1)"
  by (simp add: hold_lock_def andthen_def metered_open[OF lock_open] set_timeout_def change_def exclusive_def lib_lock_def lib_call_def)
    (simp add: metered_def metered_client_def beside_def lock_client_def example_client_def contended_at_def lock_eval call_def)

lemma release_leaves: "snd (snd (andthen (hold_lock (metered (lock_ctx True)) timeout) f (contended_at t, n))) = n + 1"
  using hold_lock_leaves[of timeout t n] by (auto simp: andthen_def)

text \<open>Four checks leave a session open when what they test goes wrong, since they open it without a block: the check of the dead
  port and that of the refused link when the open succeeds after all, and the two checks of the release of locks when the lock
  cannot be taken to begin with, here because another session holds it.\<close>

theorem failing_checks_leave_session:
  "snd (snd (check_dead_port dead (metered example_ctx) (w, n))) = n + 1 \<and>
   snd (snd (check_refused_link (metered (lock_ctx True)) (contended_at t, n))) = n + 1 \<and>
   snd (snd (check_close_releases_locks (metered (lock_ctx True)) b (contended_at t, n))) = n + 1 \<and>
   snd (snd (check_lock_dies_with_connection (metered (lock_ctx True)) b (contended_at t, n))) = n + 1"
proof (intro conjI)
  show "snd (snd (check_dead_port dead (metered example_ctx) (w, n))) = n + 1" by (rule dead_port_leaves)
  have arm: "arm (metered (lock_ctx True)) example_mock config (L, k) = (Inr (), L, k)" for config L k
    by (simp add: arm_def set_vxi11_faults_def forget_def command_def metered_def beside_def example_mock_def)
  show "snd (snd (check_refused_link (metered (lock_ctx True)) (contended_at t, n))) = n + 1"
    by (simp add: check_refused_link_def vxi_server_def server_or_skip_def or_assert_def visa_or_other_def catch_def andthen_def at_exit_def
        arm metered_open[OF lock_open] acts)
  show "snd (snd (check_close_releases_locks (metered (lock_ctx True)) b (contended_at t, n))) = n + 1"
    unfolding check_close_releases_locks_def by (rule release_leaves)
  show "snd (snd (check_lock_dies_with_connection (metered (lock_ctx True)) b (contended_at t, n))) = n + 1"
    unfolding check_lock_dies_with_connection_def server_or_skip_def by (simp add: release_leaves)
qed

end
