(* ===== verification/Events.thy ===== *)
theory Events
  imports Probe
begin

text \<open>
  \<^verbatim>\<open>checks/13_events.py\<close>, and releasing an event of \<^verbatim>\<open>testgear/visa.py\<close>: service requests through the event queue and through handlers. What the
  library does for events is the record \<open>'w events\<close>. The list of responses \<^verbatim>\<open>waits\<close> keeps to release them is a variable of its block, so a
  body inside the block runs on the world and that list.
\<close>

section \<open>Events\<close>

record response =
  rp_timed_out :: bool
  rp_context :: "nat option"      \<comment> \<open>the context of its event, if it has one\<close>

record 'w events =
  ev_wait :: "int \<Rightarrow> 'w \<Rightarrow> (exn + response) \<times> 'w"                 \<comment> \<open>\<^verbatim>\<open>inst.wait_on_event(SRQ, timeout, capture_timeout=True)\<close>\<close>
  ev_close :: "nat \<Rightarrow> 'w \<Rightarrow> exn option \<times> 'w"                     \<comment> \<open>\<^verbatim>\<open>visalib.close(context)\<close>\<close>
  ev_forget :: "nat \<Rightarrow> 'w \<Rightarrow> exn option \<times> 'w"                    \<comment> \<open>\<^verbatim>\<open>event.close()\<close>\<close>
  ev_install :: "'w \<Rightarrow> (exn + nat) \<times> 'w"                        \<comment> \<open>a handler that counts its calls\<close>
  ev_uninstall :: "nat \<Rightarrow> 'w \<Rightarrow> exn option \<times> 'w"
  ev_calls :: "'w \<Rightarrow> nat"                                      \<comment> \<open>\<^verbatim>\<open>len(calls)\<close>\<close>
  ev_install_any :: "'w \<Rightarrow> (exn + status option) \<times> 'w"          \<comment> \<open>\<^verbatim>\<open>visa.call(lib.install_visa_handler, sess, SRQ, VI_ANY_HNDLR, None)\<close>\<close>

definition release_event :: "'w events \<Rightarrow> response \<Rightarrow> ('w, unit) act" where
  "release_event E response =
     (case rp_context response of
        None \<Rightarrow> ret ()
      | Some context \<Rightarrow> andthen (suppressed (effect (ev_close E context))) (\<lambda>_. effect (ev_forget E context)))"

definition inside :: "('w, 'a) act \<Rightarrow> ('w \<times> 's, 'a) act" where
  \<comment> \<open>an action in a block that has a variable of its own\<close>
  "inside m p = (case m (fst p) of (r, w) \<Rightarrow> (r, w, snd p))"

definition wait :: "'w events \<Rightarrow> int \<Rightarrow> ('w \<times> response list, response) act" where
  "wait E timeout p =
     (case ev_wait E timeout (fst p) of
        (Inl e, w) \<Rightarrow> (Inl e, w, snd p)
      | (Inr response, w) \<Rightarrow> (Inr response, w, snd p @ [response]))"

fun release_all :: "'w events \<Rightarrow> response list \<Rightarrow> ('w, unit) act" where
  "release_all E [] = ret ()"
| "release_all E (r # rs) = andthen (release_event E r) (\<lambda>_. release_all E rs)"

definition waits :: "'w events \<Rightarrow> ('w \<times> response list, 'a) act \<Rightarrow> ('w, 'a) act" where
  "waits E body w =
     (case body (w, []) of
        (r, w1, taken) \<Rightarrow> (case release_all E taken w1 of (Inl e, w2) \<Rightarrow> (Inl e, w2) | (Inr _, w2) \<Rightarrow> (r, w2)))"

definition event :: "'w ctx \<Rightarrow> string \<Rightarrow> string \<Rightarrow> ('w, unit) act" where
  \<comment> \<open>\<^verbatim>\<open>inst.enable_event(visa.SRQ, mechanism)\<close> and its kind\<close>
  "event cx name mechanism = effect (cl_event (cx_client cx) name (''SRQ, '' @ mechanism))"

fun write_all :: "'w ctx \<Rightarrow> string list \<Rightarrow> ('w, unit) act" where
  "write_all cx [] = ret ()"
| "write_all cx (c # cs) = andthen (inst_write cx c) (\<lambda>_. write_all cx cs)"

definition raise_srq :: "'w ctx \<Rightarrow> ('w, unit) act" where
  "raise_srq cx = write_all cx [''*CLS'', ''*ESE 1'', ''*SRE 32'', ''*OPC'']"

fun write_each :: "'w ctx \<Rightarrow> string list \<Rightarrow> ('w, unit) act" where
  \<comment> \<open>every write suppresses what it raises\<close>
  "write_each cx [] = ret ()"
| "write_each cx (c # cs) = andthen (suppressed (inst_write cx c)) (\<lambda>_. write_each cx cs)"

definition quiet :: "'w ctx \<Rightarrow> ('w, unit) act" where
  "quiet cx = write_each cx [''*CLS'', ''*SRE 0'', ''*ESE 0'']"

section \<open>Mechanisms and handlers\<close>

definition check_enable_handler_without_handler :: "'w ctx \<Rightarrow> ('w, string) act" where
  "check_enable_handler_without_handler cx = open_inst cx (
     andthen (lib_op cx ''enable_event'' ''SRQ, HANDLER, VI_NULL'') (\<lambda>st.
     if st = code cx ''success'' then
       andthen (lib_op cx ''disable_event'' ''SRQ, HANDLER'') (\<lambda>_.
       throw (AssertionError (''viEnableEvent(VI_HNDLR) succeeded with no handler installed; the session is now enabled for a mechanism that '' @
         ''cannot deliver'')))
     else
       andthen (assert_that (st = code cx ''error_handler_not_installed'') (''expected VI_ERROR_HNDLR_NINSTALLED, got '' @ repr_status cx st)) (\<lambda>_.
       ret (''refused with '' @ repr_status cx st))))"

definition check_mutually_exclusive_mechanisms :: "'w ctx \<Rightarrow> ('w, string) act" where
  "check_mutually_exclusive_mechanisms cx = open_inst cx (
     andthen (lib_op cx ''enable_event'' ''SRQ, SUSPEND_HANDLER | HANDLER, VI_NULL'') (\<lambda>st.
     if st = code cx ''success'' then
       andthen (suppressed (andthen (lib_op cx ''disable_event'' ''SRQ, SUSPEND_HANDLER | HANDLER'') (\<lambda>_. ret ()))) (\<lambda>_.
       throw (AssertionError (''VI_SUSPEND_HNDLR | VI_HNDLR was accepted; they are mutually exclusive modes and the caller cannot tell which '' @
         ''is in force'')))
     else
       andthen (assert_that (st = code cx ''error_invalid_mechanism'') (''expected VI_ERROR_INV_MECH, got '' @ repr_status cx st)) (\<lambda>_.
       ret (''refused with '' @ repr_status cx st))))"

definition check_install_any_handler :: "'w ctx \<Rightarrow> 'w events \<Rightarrow> ('w, string) act" where
  "check_install_any_handler cx E = open_inst cx (
     andthen (catch ''Exception'' (andthen (ev_install_any E) (\<lambda>st. ret (Inr st))) (\<lambda>exc. ret (Inl exc))) (\<lambda>r.
     case r of
       Inl exc \<Rightarrow> ret (''refused by raising '' @ type_name exc)
     | Inr None \<Rightarrow> throw (Skip (''this backend's install_visa_handler reports no status code, so there is nothing to check 3.7.24 against''))
     | Inr (Some st) \<Rightarrow>
         if st = NOT_IMPLEMENTED then throw (Skip ''this backend does not expose viInstallHandler directly'')
         else
           andthen (assert_that (st \<noteq> code cx ''success'')
             ''installing VI_ANY_HNDLR as a handler succeeded; it is the uninstall wildcard, not a callable'') (\<lambda>_.
           ret (''refused with '' @ repr_status cx st))))"

section \<open>The queue\<close>

definition queue_off :: "'w ctx \<Rightarrow> ('w, unit) act" where
  "queue_off cx = suppressed (event cx ''disable_event'' ''QUEUE'')"

definition immediate_wait :: "'w ctx \<Rightarrow> 'w events \<Rightarrow> ('w, string) act" where
  \<comment> \<open>\<^verbatim>\<open>VI_TMO_IMMEDIATE\<close> is 0\<close>
  "immediate_wait cx E = waits E (
     andthen (inside (event cx ''enable_event'' ''QUEUE'')) (\<lambda>_.
     at_exit
       (andthen (inside (event cx ''discard_events'' ''QUEUE'')) (\<lambda>_.
        andthen (inside (now cx)) (\<lambda>started.
        andthen (wait E 0) (\<lambda>response.
        andthen (inside (now cx)) (\<lambda>t.
        let elapsed = t - started in
        andthen (assert_that (rp_timed_out response) ''an empty queue returned an event for VI_TMO_IMMEDIATE'') (\<lambda>_.
        andthen (assert_that (elapsed < 25 / 100) (''VI_TMO_IMMEDIATE suspended the caller for '' @ fmt_fixed 2 elapsed @ ''s'')) (\<lambda>_.
        ret (''returned in '' @ in_ms elapsed))))))))
       (inside (queue_off cx))))"

definition check_wait_immediate :: "'w ctx \<Rightarrow> 'w events \<Rightarrow> ('w, string) act" where
  "check_wait_immediate cx E = open_inst cx (immediate_wait cx E)"

fun await_event :: "nat \<Rightarrow> 'w ctx \<Rightarrow> 'w events \<Rightarrow> rat \<Rightarrow> ('w \<times> response list, bool option) act" where
  \<comment> \<open>the loop until the deadline; \<open>None\<close> if the turns run out\<close>
  "await_event 0 cx E deadline = ret None"
| "await_event (Suc n) cx E deadline =
     andthen (inside (now cx)) (\<lambda>t.
     if \<not> t < deadline then ret (Some False)
     else
       andthen (wait E 200) (\<lambda>response.
       if \<not> rp_timed_out response then ret (Some True) else await_event n cx E deadline))"

definition dequeue_disabled :: "nat \<Rightarrow> 'w ctx \<Rightarrow> 'w events \<Rightarrow> ('w, string) act" where
  \<comment> \<open>with the turns its loop gets\<close>
  "dequeue_disabled turns cx E = waits E (
     andthen (inside (event cx ''enable_event'' ''QUEUE'')) (\<lambda>_.
     at_exit
       (andthen (inside (event cx ''discard_events'' ''QUEUE'')) (\<lambda>_.
        andthen (inside (raise_srq cx)) (\<lambda>_.
        andthen (inside (now cx)) (\<lambda>t0.
        andthen (await_event turns cx E (t0 + 5)) (\<lambda>arrived.
        if arrived \<noteq> Some True then throw (Skip ''no service request arrived, so there is nothing queued'')
        else
          andthen (inside (raise_srq cx)) (\<lambda>_.
          andthen (inside (sleep cx (if cx_protocol cx = ''vxi11'' then 25 / 10 else 4 / 10))) (\<lambda>_.
          andthen (inside (event cx ''disable_event'' ''QUEUE'')) (\<lambda>_.
          andthen (wait E 500) (\<lambda>response.
          andthen (assert_that (\<not> rp_timed_out response)
            (''an event queued before the type was disabled could no longer be dequeued; 3.7.21 drains the queue regardless of enabled '' @
             ''state, and the application had already earned that event'')) (\<lambda>_.
          ret ''dequeued after disabling''))))))))))
       (inside (andthen (queue_off cx) (\<lambda>_. quiet cx)))))"

definition check_dequeue_after_disable :: "nat \<Rightarrow> 'w ctx \<Rightarrow> 'w events \<Rightarrow> ('w, string) act" where
  "check_dequeue_after_disable turns cx E = open_inst cx (dequeue_disabled turns cx E)"

definition wait_after_discard :: "'w ctx \<Rightarrow> 'w events \<Rightarrow> ('w, string) act" where
  "wait_after_discard cx E = waits E (
     andthen (inside (event cx ''enable_event'' ''QUEUE'')) (\<lambda>_.
     andthen
       (at_exit
         (andthen (inside (raise_srq cx)) (\<lambda>_.
          andthen (inside (sleep cx (4 / 10))) (\<lambda>_.
          andthen (inside (event cx ''discard_events'' ''QUEUE'')) (\<lambda>_.
          andthen (wait E 300) (\<lambda>response.
          assert_that (rp_timed_out response) ''an event survived viDiscardEvents and was returned by the next viWaitOnEvent'')))))
         (inside (andthen (queue_off cx) (\<lambda>_. quiet cx)))) (\<lambda>_.
     ret ''the wait after viDiscardEvents timed out, as it should'')))"

definition check_discard_events :: "'w ctx \<Rightarrow> 'w events \<Rightarrow> ('w, string) act" where
  "check_discard_events cx E = open_inst cx (wait_after_discard cx E)"

section \<open>Delivery\<close>

definition calls_stop :: "'w ctx \<Rightarrow> 'w events \<Rightarrow> nat \<Rightarrow> ('w, string) act" where
  "calls_stop cx E wrapped =
     andthen (raise_srq cx) (\<lambda>_.
     andthen (sleep cx (5 / 10)) (\<lambda>_.
     andthen (\<lambda>w. assert_that (ev_calls E w \<noteq> 0) ''the handler was never called while installed'' w) (\<lambda>_.
     andthen (event cx ''disable_event'' ''HANDLER'') (\<lambda>_.
     andthen (effect (ev_uninstall E wrapped)) (\<lambda>_.
     andthen (\<lambda>w. (Inr (ev_calls E w), w)) (\<lambda>before.
     andthen (raise_srq cx) (\<lambda>_.
     andthen (sleep cx (7 / 10)) (\<lambda>_.
     andthen (\<lambda>w. assert_that (ev_calls E w = before)
       (''the handler was called '' @ str_int (int (ev_calls E w) - int before) @ '' more time(s) after being uninstalled'') w) (\<lambda>_.
     ret (str_nat before @ '' calls while installed, none after''))))))))))"

definition check_uninstall_stops_delivery :: "'w ctx \<Rightarrow> 'w events \<Rightarrow> ('w, string) act" where
  "check_uninstall_stops_delivery cx E = open_inst cx (
     andthen (ev_install E) (\<lambda>wrapped.
     andthen (event cx ''enable_event'' ''HANDLER'') (\<lambda>_.
     at_exit (calls_stop cx E wrapped)
       (andthen (suppressed (event cx ''disable_event'' ''HANDLER'')) (\<lambda>_.
        andthen (suppressed (effect (ev_uninstall E wrapped))) (\<lambda>_. quiet cx))))))"

definition check_enable_twice :: "'w ctx \<Rightarrow> ('w, string) act" where
  "check_enable_twice cx = open_inst cx (
     andthen (lib_op cx ''enable_event'' ''SRQ, QUEUE, VI_NULL'') (\<lambda>first.
     andthen (lib_op cx ''enable_event'' ''SRQ, QUEUE, VI_NULL'') (\<lambda>second.
     andthen (suppressed (andthen (lib_op cx ''disable_event'' ''SRQ, QUEUE'') (\<lambda>_. ret ()))) (\<lambda>_.
     andthen (assert_that (first = code cx ''success'') (''the first enable returned '' @ repr_status cx first)) (\<lambda>_.
     andthen (assert_that (second \<in> {code cx ''success'', code cx ''success_event_already_enabled''})
       (''the second enable returned '' @ repr_status cx second)) (\<lambda>_.
     ret (repr_status cx second)))))))"

end
