(* ===== verification/Event_Sessions.thy ===== *)
theory Event_Sessions
  imports Sessions Events
begin

text \<open>
  The event checks on the ledgers of \<open>Sessions\<close>: they close the sessions they open, and every event they took from the queue is
  released before its session is closed, which is what \<^verbatim>\<open>waits\<close> is for.
\<close>

section \<open>Blocks with a variable of their own\<close>

lemma tidy_inside: "tidy opens m \<Longrightarrow> tidy (\<lambda>(w, x). opens w + f x) (inside m)"
  by (auto simp: tidy_def inside_def split: prod.split) (metis snd_conv)

context steady_calls
begin

lemma event_tidy [tidy_intros]: "tidy opens (event cx name mech)" "tidy opens (queue_off cx)"
  unfolding event_def queue_off_def by (intro tidy_intros)+

lemma write_all_tidy [tidy_intros]: "tidy opens (write_all cx cs)" "tidy opens (write_each cx cs)"
  by (induction cs) (simp_all add: tidy_intros)

lemma srq_tidy [tidy_intros]: "tidy opens (raise_srq cx)" "tidy opens (quiet cx)"
  unfolding raise_srq_def quiet_def by (intro tidy_intros)+

end

section \<open>The sessions\<close>

locale event_ledger = ledger cx opens for cx :: "'w ctx" and opens +
  fixes E :: "'w events"
  assumes events_still [tidy_intros]: "tidy opens (ev_wait E t)" "tidy opens (ev_close E c)" "tidy opens (ev_forget E c)"
    "tidy opens (ev_install E)" "tidy opens (ev_uninstall E c)" "tidy opens (ev_install_any E)"
begin

lemma release_all_tidy: "tidy opens (release_all E rs)"
  by (induction rs) (simp_all add: release_event_def tidy_intros split: option.split)

lemma waits_tidy [tidy_intros]: "tidy (\<lambda>(w, x). opens w + 0) body \<Longrightarrow> tidy opens (waits E body)"
  using release_all_tidy
  by (auto simp: tidy_def waits_def split: prod.splits sum.splits) (metis (mono_tags, lifting) case_prod_conv add_0_right snd_conv)+

lemma wait_tidy [tidy_intros]: "tidy (\<lambda>(w, x). opens w + 0) (wait E t)"
  by (auto simp: tidy_def wait_def split: prod.splits sum.splits dest!: events_still(1)[THEN tidy_result])

lemma inside_tidy [tidy_intros]: "tidy opens m \<Longrightarrow> tidy (\<lambda>(w, x). opens w + 0) (inside m)"
  by (rule tidy_inside)

lemma await_tidy [tidy_intros]: "tidy (\<lambda>(w, x). opens w + 0) (await_event n cx E deadline)"
  by (induction n) (simp_all only: await_event.simps, (intro tidy_intros | assumption)+)

lemma reads_calls [tidy_intros]: "tidy opens (\<lambda>w. assert_that (P w) (msg w) w)" "tidy opens (\<lambda>w. (Inr (f w), w))"
  by (simp_all add: tidy_def assert_that_def acts)

lemma event_checks_tidy:
  "tidy opens (check_enable_handler_without_handler cx)" "tidy opens (check_mutually_exclusive_mechanisms cx)"
  "tidy opens (check_install_any_handler cx E)" "tidy opens (check_wait_immediate cx E)" "tidy opens (check_dequeue_after_disable turns cx E)"
  "tidy opens (check_discard_events cx E)" "tidy opens (check_uninstall_stops_delivery cx E)" "tidy opens (check_enable_twice cx)"
  unfolding check_enable_handler_without_handler_def check_mutually_exclusive_mechanisms_def check_install_any_handler_def
    check_wait_immediate_def check_dequeue_after_disable_def check_discard_events_def check_uninstall_stops_delivery_def
    check_enable_twice_def immediate_wait_def dequeue_disabled_def wait_after_discard_def calls_stop_def
  by (intro tidy_intros)+

end

text \<open>The library's events with the counter of \<open>metered\<close>: none of their calls opens or closes a session.\<close>

definition metered_events :: "'w events \<Rightarrow> ('w \<times> int) events" where
  "metered_events E =
     \<lparr>ev_wait = (\<lambda>t. beside (ev_wait E t)), ev_close = (\<lambda>c. beside (ev_close E c)), ev_forget = (\<lambda>c. beside (ev_forget E c)),
      ev_install = beside (ev_install E), ev_uninstall = (\<lambda>h. beside (ev_uninstall E h)), ev_calls = (\<lambda>p. ev_calls E (fst p)),
      ev_install_any = beside (ev_install_any E)\<rparr>"

interpretation run_events: event_ledger "metered cx" snd "metered_events E" for cx :: "'w ctx" and E
  by unfold_locales (simp_all add: metered_events_def)

section \<open>The event contexts\<close>

fun held :: "response list \<Rightarrow> int" where
  \<comment> \<open>the responses that hold a context\<close>
  "held [] = 0"
| "held (r # rs) = (if rp_context r = None then 0 else 1) + held rs"

lemma held_append [simp]: "held (rs @ rs') = held rs + held rs'"
  by (induction rs) simp_all

definition pending :: "('w \<Rightarrow> int) \<Rightarrow> 'w \<times> response list \<Rightarrow> int" where
  \<comment> \<open>the contexts beyond those \<^verbatim>\<open>waits\<close> still releases\<close>
  "pending contexts = (\<lambda>(w, taken). contexts w - held taken)"

definition tame :: "'w events \<Rightarrow> bool" where
  \<comment> \<open>closing a context raises \<^verbatim>\<open>Exception\<close>s at most, and forgetting one, which drops a reference, raises nothing\<close>
  "tame E \<longleftrightarrow> (\<forall>c w e. fst (ev_close E c w) = Some e \<longrightarrow> isinstance e ''Exception'') \<and> (\<forall>c w. fst (ev_forget E c w) = None)"

lemma tame_close: "tame E \<Longrightarrow> ev_close E c w = (Some e, w') \<Longrightarrow> isinstance e ''Exception''"
  by (metis fst_conv tame_def)

lemma tame_forget: "tame E \<Longrightarrow> ev_forget E c w = (e, w') \<Longrightarrow> e = None"
  by (metis fst_conv tame_def)

text \<open>The laws of a count of the contexts: it goes up with a wait that gives one and down with \<^verbatim>\<open>viClose\<close>.\<close>

locale context_ledger = steady_calls cx contexts for cx :: "'w ctx" and contexts +
  fixes E :: "'w events"
  assumes waited: "ev_wait E t w = (r, w') \<Longrightarrow> contexts w' = contexts w + (case r of Inl _ \<Rightarrow> 0 | Inr response \<Rightarrow> held [response])"
    and closed: "ev_close E c w = (e, w') \<Longrightarrow> contexts w' = contexts w - 1"
    and forgotten: "ev_forget E c w = (e, w') \<Longrightarrow> contexts w' = contexts w"
begin

lemma release_event_frees: "tame E \<Longrightarrow> \<exists>w'. release_event E r w = (Inr (), w') \<and> contexts w' = contexts w - held [r]"
proof (cases "rp_context r")
  case (Some c)
  assume "tame E"
  obtain e w1 where e: "ev_close E c w = (e, w1)" by fastforce
  obtain e' w2 where e': "ev_forget E c w1 = (e', w2)" by fastforce
  show ?thesis
    using Some e e' closed[OF e] forgotten[OF e'] tame_close[OF \<open>tame E\<close>, of c w] tame_forget[OF \<open>tame E\<close> e'] by (cases e)
      (simp_all add: release_event_def suppressed_def catch_def effect_def andthen_def ret_def)
qed (simp add: release_event_def ret_def)

lemma release_all_frees:
  assumes "tame E"
  shows "\<exists>w'. release_all E rs w = (Inr (), w') \<and> contexts w' = contexts w - held rs"
proof (induction rs arbitrary: w)
  case (Cons r rs)
  obtain w1 where w1: "release_event E r w = (Inr (), w1)" "contexts w1 = contexts w - held [r]" using release_event_frees[OF assms] by blast
  with Cons.IH[of w1] show ?case by (auto simp: andthen_def)
qed (simp add: ret_def)

lemma waits_frees [tidy_intros]:
  assumes "tame E" "tidy (pending contexts) body"
  shows "tidy contexts (waits E body)"
proof (rule tidyI)
  fix w
  obtain r w1 taken where b: "body (w, []) = (r, w1, taken)" by (metis prod_cases3)
  with tidyD[OF assms(2), of "(w, [])"] have "contexts w1 - held taken = contexts w" by (simp add: pending_def)
  with b release_all_frees[OF assms(1), of taken w1] show "contexts (snd (waits E body w)) = contexts w" by (auto simp: waits_def)
qed

lemma wait_pending [tidy_intros]: "tidy (pending contexts) (wait E t)"
  by (auto simp: tidy_def wait_def pending_def split: prod.splits sum.splits dest!: waited)

lemma inside_pending [tidy_intros]: "tidy contexts m \<Longrightarrow> tidy (pending contexts) (inside m)"
  using tidy_inside[of contexts m "\<lambda>x. - held x"] by (simp add: pending_def case_prod_beta)

lemma await_pending [tidy_intros]: "tidy (pending contexts) (await_event n cx E deadline)"
  by (induction n) (simp_all only: await_event.simps, (intro tidy_intros | assumption)+)

lemma bodies_free:
  assumes "tame E"
  shows "tidy contexts (immediate_wait cx E)" "tidy contexts (dequeue_disabled turns cx E)" "tidy contexts (wait_after_discard cx E)"
  unfolding immediate_wait_def dequeue_disabled_def wait_after_discard_def by (intro tidy_intros assms)+

end

text \<open>The count of contexts next to a world, with every other call the library's own.\<close>

definition counted :: "'w ctx \<Rightarrow> ('w \<times> int) ctx" where
  "counted cx = (metered cx)\<lparr>cx_client := metered_client (cx_client cx)\<lparr>i_close := beside (i_close (cx_client cx)),
     cl_open := (\<lambda>name. beside (cl_open (cx_client cx) name))\<rparr>\<rparr>"

definition counted_events :: "'w events \<Rightarrow> ('w \<times> int) events" where
  "counted_events E = (metered_events E)\<lparr>
     ev_wait := (\<lambda>t p. case ev_wait E t (fst p) of (r, w) \<Rightarrow> (r, w, snd p + (case r of Inl _ \<Rightarrow> 0 | Inr response \<Rightarrow> held [response]))),
     ev_close := (\<lambda>c. counting_down (ev_close E c))\<rparr>"

lemma counted_steady: "steady_calls (counted cx) snd"
  by unfold_locales (simp_all add: counted_def metered_def metered_client_def)

interpretation run_contexts: context_ledger "counted cx" snd "counted_events E" for cx :: "'w ctx" and E
  by (intro context_ledger.intro counted_steady, unfold_locales)
    (auto simp: counted_events_def metered_events_def counting_down_def beside_def split: prod.splits sum.splits)

lemma counted_tame: "tame E \<Longrightarrow> tame (counted_events E)"
proof -
  have "fst (ev_close (counted_events E) c p) = fst (ev_close E c (fst p))" "fst (ev_forget (counted_events E) c p) = fst (ev_forget E c (fst p))"
    for c p by (simp_all add: counted_events_def metered_events_def counting_down_def beside_def split: prod.split)
  then show "tame E \<Longrightarrow> tame (counted_events E)" by (simp add: tame_def)
qed

section \<open>Nothing is left behind\<close>

definition example_events :: "locks events" where
  \<comment> \<open>every wait gives an event whose context cannot be closed\<close>
  "example_events =
     \<lparr>ev_wait = (\<lambda>t L. (Inr \<lparr>rp_timed_out = False, rp_context = Some 7\<rparr>, L)), ev_close = (\<lambda>c L. (Some (AssertionError ''closed twice''), L)),
      ev_forget = (\<lambda>c L. (None, L)), ev_install = (\<lambda>L. (Inr 1, L)), ev_uninstall = (\<lambda>h L. (None, L)), ev_calls = (\<lambda>L. 0),
      ev_install_any = (\<lambda>L. (Inr None, L))\<rparr>"



section \<open>Enough turns\<close>

text \<open>The loop that waits for the first event gets at most the turns it is given. If a wait that times out takes at least its 200 ms, 26
  turns see it to its deadline of 5 s.\<close>

lemma await_event_ends:
  assumes "\<And>t w r w'. ev_wait E t w = (Inr r, w') \<Longrightarrow> rp_timed_out r \<Longrightarrow> cx_now cx w + 1 / 5 \<le> cx_now cx w'"
    and "deadline \<le> cx_now cx w + of_nat n / 5"
  shows "fst (await_event (Suc n) cx E deadline (w, taken)) \<noteq> Inr None"
  using assms(2)
proof (induction n arbitrary: w taken)
  case (Suc n)
  obtain r w1 where r: "ev_wait E 200 w = (r, w1)" by fastforce
  show ?case
  proof (cases r)
    case (Inr response)
    have "fst (await_event (Suc n) cx E deadline (w1, taken @ [response])) \<noteq> Inr None" if "rp_timed_out response"
      using that assms(1)[of 200 w response w1] r Inr Suc.prems by (intro Suc.IH) (simp add: field_simps)
    with r Inr show ?thesis
      by (auto simp: await_event.simps(2)[of "Suc n"] andthen_def inside_def now_def wait_def ret_def simp del: await_event.simps)
  qed (use r in \<open>auto simp: andthen_def inside_def now_def wait_def ret_def\<close>)
qed (simp add: andthen_def inside_def now_def ret_def)

end
