(* ===== verification/Remote_Local.thy ===== *)
theory Remote_Local
  imports Probe
begin

text \<open>
  \<^verbatim>\<open>checks/09_remote_local.py\<close>: the remote and local state of an instrument, read back from how fast it answers. The dictionary
  \<^verbatim>\<open>STATE\<close> of the script is a part of the world, reached by the two functions of \<open>'w ren_script\<close>, next to the options
  the script adds. The members of pyvisa's \<^verbatim>\<open>RENLineOperation\<close> are their names; which there are is an argument.
\<close>

section \<open>The script\<close>

definition REMOTE :: string where "REMOTE = ''remote''"
definition LOCAL :: string where "LOCAL = ''local''"

definition EXPECTED_STATE :: "(string \<times> string) list" where
  "EXPECTED_STATE =
     [(''deassert'', LOCAL), (''asrt'', REMOTE), (''deassert_gtl'', LOCAL), (''asrt_address'', REMOTE), (''asrt_llo'', REMOTE),
      (''asrt_address_llo'', REMOTE)]"

definition NOT_OBSERVABLE :: "(string \<times> string) list" where
  "NOT_OBSERVABLE =
     [(''address_gtl'',
       ''GTL leaves REN asserted, so the next addressing returns the device to remote; issuing a query to measure is that addressing'')]"

definition LOCKOUT_ONLY :: "string list" where
  "LOCKOUT_ONLY = [''asrt_llo'', ''asrt_address_llo'']"

definition VXI11_MODES :: "string list" where
  "VXI11_MODES = [''asrt_address'', ''asrt_address_llo'', ''address_gtl'', ''deassert_gtl'']"

text \<open>\<^verbatim>\<open>STATE["threshold"]\<close>: not there, there and \<^verbatim>\<open>None\<close>, or a line, of which the square is kept.\<close>

record 'w ren_script =
  rs_cx :: "'w ctx"
  rs_samples :: int
  rs_settle :: rat
  rs_ratio :: rat
  rs_iterations :: int
  rs_state :: "'w \<Rightarrow> rat option option"
  rs_put :: "rat option \<Rightarrow> 'w \<Rightarrow> 'w"
  rs_stats :: "'w \<Rightarrow> stats"
  rs_put_stats :: "stats \<Rightarrow> 'w \<Rightarrow> 'w"

definition protocols_for :: "string \<Rightarrow> string list" where
  "protocols_for mode = (if mode \<in> set VXI11_MODES then [''vxi11'', ''hislip''] else [''hislip''])"

definition state_check_name :: "string \<times> string \<Rightarrow> string" where
  "state_check_name = (\<lambda>(mode, expected).
     mode @ '' leaves the instrument '' @ expected @
     (if mode \<in> set LOCKOUT_ONLY then '' (local lockout itself is not observable)'' else []))"

definition set_ren :: "'w ren_script \<Rightarrow> string \<Rightarrow> ('w, status) act" where
  "set_ren S mode =
     andthen (lib_op (rs_cx S) ''gpib_control_ren'' mode) (\<lambda>st.
     andthen (sleep (rs_cx S) (rs_settle S)) (\<lambda>_. ret st))"

definition query_rate :: "'w ren_script \<Rightarrow> ('w, rat) act" where
  \<comment> \<open>every caller leaves the count to \<^verbatim>\<open>--samples\<close>\<close>
  "query_rate S =
     andthen (now (rs_cx S)) (\<lambda>start.
     andthen (for_each [0..<nat (rs_samples S)] (\<lambda>_. inst_query (rs_cx S) ''*IDN?'')) (\<lambda>_.
     andthen (now (rs_cx S)) (\<lambda>t. ret (of_int (rs_samples S) / max (t - start) (1 / 10 ^ 6)))))"

definition ren_setup :: "string \<Rightarrow> 'w ren_script \<Rightarrow> ('w, 'r) act \<Rightarrow> ('w, 'r) act" where
  \<comment> \<open>\<^verbatim>\<open>SETUP\<close> around the checks of the script\<close>
  "ren_setup caller S body =
     open_inst (rs_cx S) (
       andthen (inst_query (rs_cx S) ''*IDN?'') (\<lambda>_.
       andthen (drained (rs_cx S)) (\<lambda>_.
       at_exit body (\<lambda>w.
         (case check_errors (instr.truncate (cx_client (rs_cx S))) caller ''at end of run'' w (rs_stats S w) of
            (_, w1, st) \<Rightarrow> (Inr (), rs_put_stats S st w1))))))"

section \<open>Is each operation accepted\<close>

definition ren_accepted :: "'w ren_script \<Rightarrow> string \<Rightarrow> ('w, string) act" where
  "ren_accepted S mode =
     andthen (set_ren S mode) (\<lambda>st.
     andthen (assert_that (st = code (rs_cx S) ''success'') (''got '' @ repr_status (rs_cx S) st)) (\<lambda>_.
     ret (''got '' @ repr_status (rs_cx S) st)))"

definition ren_refused :: "'w ren_script \<Rightarrow> string \<Rightarrow> ('w, string) act" where
  "ren_refused S mode =
     andthen (set_ren S mode) (\<lambda>st.
     andthen (assert_that (st \<in> {code (rs_cx S) ''error_nonsupported_operation'', code (rs_cx S) ''error_invalid_mode''})
       (''got '' @ repr_status (rs_cx S) st)) (\<lambda>_.
     ret (''got '' @ repr_status (rs_cx S) st)))"

text \<open>What is registered: the name, the protocols and the body.\<close>

type_synonym 'w registered = "string \<times> string list \<times> ('w, string) act"

definition acceptance_checks :: "'w ren_script \<Rightarrow> string list \<Rightarrow> 'w registered list" where
  "acceptance_checks S modes =
     concat (map (\<lambda>mode.
       (''REN '' @ mode @ '' is accepted'', protocols_for mode, ren_accepted S mode) #
       (if mode \<notin> set VXI11_MODES then [(''REN '' @ mode @ '' is refused over VXI-11'', [''vxi11''], ren_refused S mode)] else [])) modes)"

section \<open>Reading the state back\<close>

definition goes_local :: "'w ren_script \<Rightarrow> string" where
  \<comment> \<open>the operation that makes the instrument local for the calibration\<close>
  "goes_local S =
     (if ''deassert'' \<notin> set VXI11_MODES \<and> cx_protocol (rs_cx S) = ''hislip'' then ''deassert'' else ''deassert_gtl'')"

definition NO_DIFFERENCE :: string where
  "NO_DIFFERENCE =
     ''this instrument shows no usable throughput difference, so the state cannot be read back from here. A native HiSLIP instrument '' @
     ''has no REN line and lands here''"

definition measure_line :: "'w ren_script \<Rightarrow> ('w, unit) act" where
  "measure_line S =
     andthen (set_ren S ''asrt_address'') (\<lambda>_.
     andthen (query_rate S) (\<lambda>remote_rate.
     andthen (set_ren S (goes_local S)) (\<lambda>_.
     andthen (query_rate S) (\<lambda>local_rate.
     andthen (set_ren S ''asrt_address'') (\<lambda>_.
     let ratio = remote_rate / max local_rate (1 / 10 ^ 6) in
     andthen (change (cx_note (rs_cx S) (''throughput remote '' @ fmt_fixed 0 remote_rate @ ''/s vs local '' @ fmt_fixed 0 local_rate @ ''/s ('' @
       fmt_fixed 1 ratio @ ''x)''))) (\<lambda>_.
     change (rs_put S (if ratio \<ge> rs_ratio S then Some (remote_rate * local_rate) else None))))))))"

definition threshold :: "'w ren_script \<Rightarrow> ('w, rat) act" where
  "threshold S =
     andthen (\<lambda>w. if rs_state S w = None then measure_line S w else (Inr (), w)) (\<lambda>_ w.
     case rs_state S w of Some (Some line) \<Rightarrow> (Inr line, w) | _ \<Rightarrow> (Inl (Skip NO_DIFFERENCE), w))"

definition vote :: "'w ren_script \<Rightarrow> rat \<Rightarrow> ('w, string) act" where
  \<comment> \<open>a rate above the geometric mean is remote; both sides of the comparison are squared\<close>
  "vote S line = andthen (query_rate S) (\<lambda>rate. ret (if rate * rate > line then REMOTE else LOCAL))"

definition majority :: "string list \<Rightarrow> string" where
  \<comment> \<open>\<^verbatim>\<open>max(set(votes), key=votes.count)\<close>, where there is no tie\<close>
  "majority votes = (if length (filter ((=) REMOTE) votes) > length (filter ((=) LOCAL) votes) then REMOTE else LOCAL)"

definition observed_state :: "'w ren_script \<Rightarrow> ('w, string) act" where
  "observed_state S =
     andthen (threshold S) (\<lambda>line. andthen (for_each [0..<(3::nat)] (\<lambda>_. vote S line)) (\<lambda>votes. ret (majority votes)))"

section \<open>Does each operation do what it says\<close>

definition state_check :: "'w ren_script \<Rightarrow> string \<times> string \<Rightarrow> ('w, string) act" where
  "state_check S = (\<lambda>(mode, expected).
     andthen (threshold S) (\<lambda>_.
     andthen (set_ren S (if expected = REMOTE then ''deassert_gtl'' else ''asrt_address'')) (\<lambda>_.
     andthen (observed_state S) (\<lambda>before.
     andthen (set_ren S mode) (\<lambda>_.
     andthen (observed_state S) (\<lambda>after.
     let detail = ''from '' @ before @ '', saw '' @ after in
     andthen (assert_that (after = expected) detail) (\<lambda>_. ret detail)))))))"

definition not_observable_check :: "'w ren_script \<Rightarrow> string \<times> string \<Rightarrow> ('w, string) act" where
  "not_observable_check S = (\<lambda>(mode, reason).
     andthen (threshold S) (\<lambda>_.
     andthen (set_ren S mode) (\<lambda>st.
     andthen (change (cx_note (rs_cx S) (mode @ '' effect not checked: '' @ reason))) (\<lambda>_.
     andthen (assert_that (st = code (rs_cx S) ''success'') (''got '' @ repr_status (rs_cx S) st)) (\<lambda>_.
     ret (''got '' @ repr_status (rs_cx S) st))))))"

definition state_checks :: "'w ren_script \<Rightarrow> 'w registered list" where
  "state_checks S =
     map (\<lambda>p. (state_check_name p, protocols_for (fst p), state_check S p)) EXPECTED_STATE @
     map (\<lambda>p. (fst p @ '' is accepted'', protocols_for (fst p), not_observable_check S p)) NOT_OBSERVABLE"

fun round_trips :: "nat \<Rightarrow> 'w ren_script \<Rightarrow> ('w, unit) act" where
  "round_trips 0 S = ret ()"
| "round_trips (Suc n) S =
     andthen (set_ren S ''deassert_gtl'') (\<lambda>_.
     andthen (observed_state S) (\<lambda>s1.
     andthen (assert_that (s1 = LOCAL) ''repeated deassert_gtl failed to return to local'') (\<lambda>_.
     andthen (set_ren S ''asrt_address'') (\<lambda>_.
     andthen (observed_state S) (\<lambda>s2.
     andthen (assert_that (s2 = REMOTE) ''repeated asrt_address failed to return to remote'') (\<lambda>_.
     round_trips n S))))))"

definition check_round_trips :: "'w ren_script \<Rightarrow> ('w, string) act" where
  "check_round_trips S =
     andthen (threshold S) (\<lambda>_.
     let flips = nat (max 2 (rs_iterations S div 50)) in
     andthen (round_trips flips S) (\<lambda>_. ret (str_nat flips @ '' round trips'')))"

definition check_ends_in_remote :: "'w ren_script \<Rightarrow> ('w, string) act" where
  "check_ends_in_remote S =
     andthen (threshold S) (\<lambda>_.
     andthen (set_ren S ''asrt_address'') (\<lambda>_.
     andthen (observed_state S) (\<lambda>final_state.
     andthen (assert_that (final_state = REMOTE) (''observed '' @ final_state)) (\<lambda>_.
     ret (''observed '' @ final_state)))))"

section \<open>An instrument with two speeds\<close>

text \<open>
  An instrument that answers a query in one time when it is remote and in another when it is local, with a clock that
  runs while it answers and while the script sleeps. How it reacts to an operation is a parameter.
\<close>

record ren_world =
  rw_clock :: rat
  rw_remote :: bool
  rw_line :: "rat option option"
  rw_stats :: stats

definition ren_client :: "(string \<Rightarrow> bool \<Rightarrow> bool) \<Rightarrow> rat \<Rightarrow> rat \<Rightarrow> ren_world client" where
  "ren_client react fast slow = example_client\<lparr>
     i_query := (\<lambda>q w. (Inr ''a,b'', w\<lparr>rw_clock := rw_clock w + (if rw_remote w then fast else slow)\<rparr>)),
     cl_op := (\<lambda>name mode w. (Single (StatusCode 0), if name = ''gpib_control_ren'' then w\<lparr>rw_remote := react mode (rw_remote w)\<rparr> else w))\<rparr>"

definition ren_example :: "string \<Rightarrow> (string \<Rightarrow> bool \<Rightarrow> bool) \<Rightarrow> rat \<Rightarrow> rat \<Rightarrow> int \<Rightarrow> rat \<Rightarrow> rat \<Rightarrow> int \<Rightarrow> ren_world ren_script" where
  "ren_example protocol react fast slow samples settle ratio iterations =
     \<lparr>rs_cx = example_ctx\<lparr>cx_client := ren_client react fast slow, cx_protocol := protocol, cx_now := rw_clock,
        cx_sleep := (\<lambda>t w. w\<lparr>rw_clock := rw_clock w + t\<rparr>)\<rparr>,
      rs_samples = samples, rs_settle = settle, rs_ratio = ratio, rs_iterations = iterations,
      rs_state = rw_line, rs_put = (\<lambda>l w. w\<lparr>rw_line := Some l\<rparr>), rs_stats = rw_stats, rs_put_stats = (\<lambda>st w. w\<lparr>rw_stats := st\<rparr>)\<rparr>"

definition moved :: "ren_world \<Rightarrow> bool \<Rightarrow> rat option option \<Rightarrow> ren_world \<Rightarrow> bool" where
  \<comment> \<open>as before but for the clock, and now in this state with this line\<close>
  "moved w b line w' \<longleftrightarrow> rw_remote w' = b \<and> rw_line w' = line \<and> rw_stats w' = rw_stats w"

definition ren_trusted :: "string \<Rightarrow> (string \<Rightarrow> bool \<Rightarrow> bool) \<Rightarrow> rat \<Rightarrow> rat \<Rightarrow> int \<Rightarrow> bool" where
  \<comment> \<open>what the calibration takes for granted, and times within what the script can measure\<close>
  "ren_trusted protocol react fast slow samples \<longleftrightarrow>
     1 \<le> samples \<and> 1 / 10 ^ 6 \<le> fast \<and> fast \<le> slow \<and> slow \<le> 10 ^ 6 \<and> (\<forall>b. react ''asrt_address'' b) \<and> (\<forall>b. \<not> react ''deassert_gtl'' b) \<and>
     (protocol = ''hislip'' \<longrightarrow> \<not> react ''deassert'' True)"

lemma set_ren_run:
  "\<exists>st w'. set_ren (ren_example protocol react fast slow n settle ratio its) mode w = (Inr st, w') \<and>
     moved w (react mode (rw_remote w)) (rw_line w) w'"
  by (simp add: set_ren_def lib_op_def lib_status_def lib_call_def call_def andthen_def acts sleep_def ren_example_def ren_client_def moved_def)

lemma queries_run:
  "for_each xs (\<lambda>_. inst_query (rs_cx (ren_example protocol react fast slow n settle ratio its)) q) w =
     (Inr (replicate (length xs) ''a,b''), w\<lparr>rw_clock := rw_clock w + of_nat (length xs) * (if rw_remote w then fast else slow)\<rparr>)"
  by (induction xs arbitrary: w) (simp_all add: andthen_def acts inst_query_def ren_example_def ren_client_def algebra_simps)

lemma query_rate_run:
  assumes "1 \<le> n" "1 / 10 ^ 6 \<le> fast" "fast \<le> slow"
  shows "\<exists>w'. query_rate (ren_example protocol react fast slow n settle ratio its) w = (Inr (1 / (if rw_remote w then fast else slow)), w') \<and>
    moved w (rw_remote w) (rw_line w) w'"
proof -
  let ?t = "if rw_remote w then fast else slow"
  have t: "1 / 10 ^ 6 \<le> ?t" using assms by simp
  then have "1 * (1 / 10 ^ 6) \<le> of_int n * ?t" using assms(1) by (intro mult_mono) simp_all
  then have m: "max (of_int n * ?t) (1 / 10 ^ 6) = of_int n * ?t" by simp
  have nn: "(of_nat (nat n) :: rat) = of_int n" using assms(1) by simp
  have "rs_samples (ren_example protocol react fast slow n settle ratio its) = n"
    "cx_now (rs_cx (ren_example protocol react fast slow n settle ratio its)) = rw_clock" by (simp_all add: ren_example_def)
  then show ?thesis
    using m assms(1) by (simp add: query_rate_def andthen_def now_def queries_run acts nn moved_def)
qed

lemma moved_trans: "moved w b line w1 \<Longrightarrow> moved w1 b' line' w2 \<Longrightarrow> moved w b' line' w2"
  by (simp add: moved_def)

lemma vote_run:
  assumes "1 \<le> n" "1 / 10 ^ 6 \<le> fast" "fast < slow"
  shows "\<exists>w'. vote (ren_example protocol react fast slow n settle ratio its) (1 / fast * (1 / slow)) w =
      (Inr (if rw_remote w then REMOTE else LOCAL), w') \<and> moved w (rw_remote w) (rw_line w) w'"
proof -
  have pos: "0 < fast" "0 < slow" using assms by (auto intro: less_le_trans[of 0 "1 / 10 ^ 6"])
  have "1 / fast * (1 / slow) < 1 / fast * (1 / fast)" using pos assms(3) by (simp add: field_simps)
  moreover have "\<not> 1 / fast * (1 / slow) < 1 / slow * (1 / slow)" using pos assms(3) by (simp add: field_simps not_less)
  ultimately show ?thesis
    using query_rate_run[of n fast slow protocol react settle ratio its w] assms by (auto simp: vote_def andthen_def acts)
qed

lemma votes_run:
  assumes "1 \<le> n" "1 / 10 ^ 6 \<le> fast" "fast < slow"
  shows "\<exists>w'. for_each xs (\<lambda>_. vote (ren_example protocol react fast slow n settle ratio its) (1 / fast * (1 / slow))) w =
      (Inr (replicate (length xs) (if rw_remote w then REMOTE else LOCAL)), w') \<and> moved w (rw_remote w) (rw_line w) w'"
proof (induction xs arbitrary: w)
  case (Cons x xs)
  obtain w1 where v: "vote (ren_example protocol react fast slow n settle ratio its) (1 / fast * (1 / slow)) w =
      (Inr (if rw_remote w then REMOTE else LOCAL), w1)" "moved w (rw_remote w) (rw_line w) w1"
    using vote_run[OF assms] by blast
  from Cons[of w1] v show ?case by (auto simp: andthen_def acts moved_def)
qed (simp add: acts moved_def)

lemma majority_same: "majority (replicate 3 (if b then REMOTE else LOCAL)) = (if b then REMOTE else LOCAL)"
  by (simp add: majority_def REMOTE_def LOCAL_def)

text \<open>Once the line is known the state is read back as it is.\<close>

lemma threshold_known: "rs_state S w = Some (Some line) \<Longrightarrow> threshold S w = (Inr line, w)"
  by (simp add: threshold_def andthen_def)

lemma observed_state_run:
  assumes "1 \<le> n" "1 / 10 ^ 6 \<le> fast" "fast < slow" "rw_line w = Some (Some (1 / fast * (1 / slow)))"
  shows "\<exists>w'. observed_state (ren_example protocol react fast slow n settle ratio its) w = (Inr (if rw_remote w then REMOTE else LOCAL), w') \<and>
    moved w (rw_remote w) (rw_line w) w'"
proof -
  let ?S = "ren_example protocol react fast slow n settle ratio its"
  have t: "threshold ?S w = (Inr (1 / fast * (1 / slow)), w)"
    by (rule threshold_known) (simp add: ren_example_def assms(4))
  obtain w' where v: "for_each [0..<(3::nat)] (\<lambda>_. vote ?S (1 / fast * (1 / slow))) w =
      (Inr (replicate 3 (if rw_remote w then REMOTE else LOCAL)), w')" "moved w (rw_remote w) (rw_line w) w'"
    using votes_run[OF assms(1-3), of "[0..<3]" protocol react settle ratio its w] by auto
  then show ?thesis
    unfolding observed_state_def andthen_def[of "threshold ?S"] t by (simp add: andthen_def acts majority_same)
qed

text \<open>The calibration leaves the instrument remote, and knows a line exactly if the speeds differ by the ratio asked for.\<close>

lemma measure_line_run:
  assumes "ren_trusted protocol react fast slow n"
  shows "\<exists>w'. measure_line (ren_example protocol react fast slow n settle ratio its) w = (Inr (), w') \<and>
    moved w True (Some (if ratio \<le> slow / fast then Some (1 / fast * (1 / slow)) else None)) w'"
proof -
  let ?S = "ren_example protocol react fast slow n settle ratio its"
  have T: "1 \<le> n" "1 / 10 ^ 6 \<le> fast" "fast \<le> slow" "slow \<le> 10 ^ 6" "react ''asrt_address'' b" "\<not> react (goes_local ?S) True" for b
    using assms by (auto simp: ren_trusted_def goes_local_def ren_example_def VXI11_MODES_def)
  obtain s1 w1 where 1: "set_ren ?S ''asrt_address'' w = (Inr s1, w1)" "moved w True (rw_line w) w1"
    using set_ren_run T(5) by metis
  obtain w2 where 2: "query_rate ?S w1 = (Inr (1 / fast), w2)" "moved w True (rw_line w) w2"
    using query_rate_run[OF T(1-3), of protocol react settle ratio its w1] 1(2) by (auto simp: moved_def)
  obtain s3 w3 where 3: "set_ren ?S (goes_local ?S) w2 = (Inr s3, w3)" "moved w False (rw_line w) w3"
    using set_ren_run[of protocol react fast slow n settle ratio its "goes_local ?S" w2] 2(2) T(6) by (auto simp: moved_def)
  obtain w4 where 4: "query_rate ?S w3 = (Inr (1 / slow), w4)" "moved w False (rw_line w) w4"
    using query_rate_run[OF T(1-3), of protocol react settle ratio its w3] 3(2) by (auto simp: moved_def)
  obtain s5 w5 where 5: "set_ren ?S ''asrt_address'' w4 = (Inr s5, w5)" "moved w True (rw_line w) w5"
    using set_ren_run[of protocol react fast slow n settle ratio its "''asrt_address''" w4] 4(2) T(5) by (auto simp: moved_def)
  have pos: "0 < fast" "0 < slow" using T(2,3) by (auto intro: less_le_trans[of 0 "1 / 10 ^ 6"])
  then have "1 / 10 ^ 6 \<le> 1 / slow" using T(4) by (simp add: field_simps)
  then have "1 / fast / max (1 / slow) (1 / 10 ^ 6) = slow / fast" by (simp add: field_simps)
  then show ?thesis
    using 1 2 3 4 5 by (simp add: measure_line_def andthen_def acts Let_def moved_def ren_example_def example_ctx_def)
qed

lemma threshold_run:
  assumes "ren_trusted protocol react fast slow n" "rw_line w = None" "ratio \<le> slow / fast"
  shows "\<exists>w'. threshold (ren_example protocol react fast slow n settle ratio its) w = (Inr (1 / fast * (1 / slow)), w') \<and>
    moved w True (Some (Some (1 / fast * (1 / slow)))) w'"
proof -
  let ?S = "ren_example protocol react fast slow n settle ratio its"
  obtain w1 where m: "measure_line ?S w = (Inr (), w1)" "moved w True (Some (Some (1 / fast * (1 / slow)))) w1"
    using measure_line_run[OF assms(1), of settle ratio its w] assms(3) by auto
  have "rs_state ?S = rw_line" by (simp add: ren_example_def)
  with m assms(2) show ?thesis by (simp add: threshold_def andthen_def moved_def)
qed

lemma threshold_skips:
  assumes "ren_trusted protocol react fast slow n" "rw_line w = None" "\<not> ratio \<le> slow / fast"
  shows "\<exists>w'. threshold (ren_example protocol react fast slow n settle ratio its) w = (Inl (Skip NO_DIFFERENCE), w')"
proof -
  let ?S = "ren_example protocol react fast slow n settle ratio its"
  obtain w1 where m: "measure_line ?S w = (Inr (), w1)" "moved w True (Some None) w1"
    using measure_line_run[OF assms(1), of settle ratio its w] assms(3) by auto
  have "rs_state ?S = rw_line" by (simp add: ren_example_def)
  with m assms(2) show ?thesis by (simp add: threshold_def andthen_def moved_def)
qed

text \<open>A step and a look: the operation, then what the oracle says.\<close>

lemma set_and_look:
  assumes "1 \<le> n" "1 / 10 ^ 6 \<le> fast" "fast < slow" "rw_line w = Some (Some (1 / fast * (1 / slow)))"
  shows "\<exists>w'. andthen (set_ren (ren_example protocol react fast slow n settle ratio its) mode)
      (\<lambda>_. observed_state (ren_example protocol react fast slow n settle ratio its)) w =
        (Inr (if react mode (rw_remote w) then REMOTE else LOCAL), w') \<and> moved w (react mode (rw_remote w)) (rw_line w) w'"
proof -
  let ?S = "ren_example protocol react fast slow n settle ratio its"
  obtain st w1 where 1: "set_ren ?S mode w = (Inr st, w1)" "moved w (react mode (rw_remote w)) (rw_line w) w1"
    using set_ren_run by blast
  obtain w2 where "observed_state ?S w1 = (Inr (if rw_remote w1 then REMOTE else LOCAL), w2)" "moved w1 (rw_remote w1) (rw_line w1) w2"
    using observed_state_run[OF assms(1-3), of w1 protocol react settle ratio its] 1(2) assms(4) by (auto simp: moved_def)
  with 1 show ?thesis by (auto simp: andthen_def moved_def)
qed

lemma round_trips_run:
  assumes "1 \<le> n" "1 / 10 ^ 6 \<le> fast" "fast < slow" "\<And>b. react ''asrt_address'' b" "\<And>b. \<not> react ''deassert_gtl'' b"
    "rw_line w = Some (Some (1 / fast * (1 / slow)))"
  shows "\<exists>w'. round_trips k (ren_example protocol react fast slow n settle ratio its) w = (Inr (), w')"
  using assms(6)
proof (induction k arbitrary: w)
  case (Suc k)
  let ?S = "ren_example protocol react fast slow n settle ratio its"
  obtain w1 where 1: "andthen (set_ren ?S ''deassert_gtl'') (\<lambda>_. observed_state ?S) w = (Inr LOCAL, w1)" "moved w False (rw_line w) w1"
    using set_and_look[OF assms(1-3) Suc.prems, of protocol react settle ratio its "''deassert_gtl''"] assms(5) by auto
  obtain w2 where 2: "andthen (set_ren ?S ''asrt_address'') (\<lambda>_. observed_state ?S) w1 = (Inr REMOTE, w2)" "moved w1 True (rw_line w1) w2"
    using set_and_look[OF assms(1-3), of w1 protocol react settle ratio its "''asrt_address''"] 1(2) Suc.prems assms(4) by (auto simp: moved_def)
  have "rw_line w2 = Some (Some (1 / fast * (1 / slow)))" using 1(2) 2(2) Suc.prems by (simp add: moved_def)
  from Suc.IH[OF this] 1(1) 2(1) show ?case
    by (simp add: andthen_assoc[symmetric, of "set_ren ?S _" "\<lambda>_. observed_state ?S"])
      (simp add: andthen_def[of "andthen _ _"] assert_that_def acts)
qed (simp add: acts)

lemma oracle_verdicts:
  assumes "ren_trusted protocol react fast slow samples" "1 < ratio" "rw_line w = None" "expected \<in> {REMOTE, LOCAL}"
    and S_def: "S = ren_example protocol react fast slow samples settle ratio its"
  shows "(ratio \<le> slow / fast \<longrightarrow>
      verdict (state_check S (mode, expected) w) = (if react mode (expected = LOCAL) = (expected = REMOTE) then PASS else FAIL) \<and>
      verdict (check_round_trips S w) = PASS \<and> verdict (check_ends_in_remote S w) = PASS) \<and>
    (\<not> ratio \<le> slow / fast \<longrightarrow>
      verdict (state_check S (mode, expected) w) = SKIP \<and> verdict (check_round_trips S w) = SKIP \<and> verdict (check_ends_in_remote S w) = SKIP)"
proof (intro conjI impI)
  assume r: "ratio \<le> slow / fast"
  have T: "1 \<le> samples" "1 / 10 ^ 6 \<le> fast" "\<And>b. react ''asrt_address'' b" "\<And>b. \<not> react ''deassert_gtl'' b"
    using assms(1) by (auto simp: ren_trusted_def)
  have "0 < fast" using T(2) by (rule less_le_trans[rotated]) simp
  with r have "ratio * fast \<le> slow" by (simp add: field_simps)
  moreover have "1 * fast < ratio * fast" using assms(2) \<open>0 < fast\<close> by (rule mult_strict_right_mono)
  ultimately have lt: "fast < slow" by simp
  obtain w1 where t: "threshold S w = (Inr (1 / fast * (1 / slow)), w1)" "rw_remote w1" "rw_line w1 = Some (Some (1 / fast * (1 / slow)))"
    using threshold_run[OF assms(1,3) r, of settle its] unfolding S_def by (auto simp: moved_def)
  note look = set_and_look[OF T(1,2) lt, of _ protocol react settle ratio its, folded S_def]
  have flat: "andthen (set_ren S m) (\<lambda>_. andthen (observed_state S) f) = andthen (andthen (set_ren S m) (\<lambda>_. observed_state S)) f" for m and f :: "_ \<Rightarrow> (_, string) act"
    by (simp add: andthen_assoc)
  let ?opp = "if expected = REMOTE then ''deassert_gtl'' else ''asrt_address''"
  have opp: "react ?opp b = (expected = LOCAL)" for b using assms(4) T(3,4) by (auto simp: REMOTE_def LOCAL_def)
  obtain w2 where 2: "andthen (set_ren S ?opp) (\<lambda>_. observed_state S) w1 = (Inr (if expected = LOCAL then REMOTE else LOCAL), w2)"
      "rw_remote w2 = (expected = LOCAL)" "rw_line w2 = Some (Some (1 / fast * (1 / slow)))"
    using look[OF t(3), of ?opp] t(3) opp by (auto simp: moved_def)
  obtain w3 where 3: "andthen (set_ren S mode) (\<lambda>_. observed_state S) w2 = (Inr (if react mode (expected = LOCAL) then REMOTE else LOCAL), w3)"
    using look[OF 2(3), of mode] 2(2) by auto
  have "REMOTE \<noteq> LOCAL" by (simp add: REMOTE_def LOCAL_def)
  then have "(if b then REMOTE else LOCAL) = expected \<longleftrightarrow> b = (expected = REMOTE)" for b using assms(4) by auto
  with t 2 3 show "verdict (state_check S (mode, expected) w) = (if react mode (expected = LOCAL) = (expected = REMOTE) then PASS else FAIL)"
    unfolding state_check_def prod.case Let_def flat
    by (simp add: andthen_def[of "threshold S"] andthen_def[of "andthen _ _"] assert_verdict acts)
  have "\<exists>w4. round_trips k S w1 = (Inr (), w4)" for k
    using round_trips_run[where react = react, OF T(1,2) lt T(3,4) t(3)] unfolding S_def .
  then obtain w4 where "round_trips (nat (max 2 (rs_iterations S div 50))) S w1 = (Inr (), w4)" by blast
  then show "verdict (check_round_trips S w) = PASS"
    using t by (simp add: check_round_trips_def Let_def andthen_def acts)
  obtain w5 where "andthen (set_ren S ''asrt_address'') (\<lambda>_. observed_state S) w1 = (Inr REMOTE, w5)"
    using look[OF t(3), of "''asrt_address''"] T(3) by auto
  with t show "verdict (check_ends_in_remote S w) = PASS"
    unfolding check_ends_in_remote_def flat by (simp add: andthen_def[of "threshold S"] andthen_def[of "andthen _ _"] assert_verdict acts)
next
  assume r: "\<not> ratio \<le> slow / fast"
  obtain w1 where t: "threshold S w = (Inl (Skip NO_DIFFERENCE), w1)"
    using threshold_skips[OF assms(1,3) r] unfolding S_def by blast
  then show "verdict (state_check S (mode, expected) w) = SKIP" "verdict (check_round_trips S w) = SKIP" "verdict (check_ends_in_remote S w) = SKIP"
    by (simp_all add: state_check_def check_round_trips_def check_ends_in_remote_def andthen_def[of "threshold S"])
qed

text \<open>C30: The timing oracle tells the truth. Take an instrument that answers in one time when remote and in a longer one when local, within
  what the script can measure, and that obeys the operations the calibration uses, whatever it makes of the others. If the times
  differ by the ratio asked for, the check of an operation passes exactly if, tried from the opposite state, it puts the instrument into
  the state expected of it, and the round trips and the final check pass. If they do not, every one of these checks is
  skipped. The number of samples, the pause and the number of iterations do not matter.\<close>

theorem state_checks_tell_the_state:
  assumes "ren_trusted protocol react fast slow samples" "1 < ratio" "rw_line w = None" "expected \<in> {REMOTE, LOCAL}"
  shows "let S = ren_example protocol react fast slow samples settle ratio its in
    (ratio \<le> slow / fast \<longrightarrow>
      verdict (state_check S (mode, expected) w) = (if react mode (expected = LOCAL) = (expected = REMOTE) then PASS else FAIL) \<and>
      verdict (check_round_trips S w) = PASS \<and> verdict (check_ends_in_remote S w) = PASS) \<and>
    (\<not> ratio \<le> slow / fast \<longrightarrow>
      verdict (state_check S (mode, expected) w) = SKIP \<and> verdict (check_round_trips S w) = SKIP \<and> verdict (check_ends_in_remote S w) = SKIP)"
  using oracle_verdicts[OF assms refl] unfolding Let_def .

theorem state_checks_tell_the_state_witness:
  "verdict (state_check (ren_example ''hislip'' (\<lambda>mode b. if mode = ''asrt_llo'' then b else mode \<notin> {''deassert'', ''deassert_gtl''})
     (1 / 1000) (1 / 10) 6 (5 / 100) 3 100) (''asrt_llo'', REMOTE) \<lparr>rw_clock = 0, rw_remote = False, rw_line = None, rw_stats = new_stats [] False None 0\<rparr>) = FAIL"
proof -
  let ?react = "\<lambda>mode b. if mode = ''asrt_llo'' then b else mode \<notin> {''deassert'', ''deassert_gtl''}"
  have "ren_trusted ''hislip'' ?react (1 / 1000) (1 / 10) 6" by (simp add: ren_trusted_def)
  from state_checks_tell_the_state[OF this, of 3 "\<lparr>rw_clock = 0, rw_remote = False, rw_line = None, rw_stats = new_stats [] False None 0\<rparr>" REMOTE "5 / 100" 100
    "''asrt_llo''"]
  show ?thesis by (simp add: Let_def REMOTE_def LOCAL_def)
qed

end
