(* ===== verification/Bulk_Io.thy ===== *)
theory Bulk_Io
  imports Probe
begin

text \<open>
  \<^verbatim>\<open>checks/02_io.py\<close>: storms of queries, replies read in pieces and on a termination character, and a message written in two parts.
  The script keeps one session and a dictionary of what earlier checks found, which is a record in the world here.
\<close>

section \<open>The script and its state\<close>

record io_state =
  is_idn :: string
  is_big_query :: "string option"
  is_reference :: "string option"
  is_rate :: "rat option"
  is_chunked :: "int \<rightharpoonup> string \<times> status list"
  is_multiline :: "(string \<times> string list \<times> string) option"

record 'w io_script =
  io_cx :: "'w ctx"
  io_iterations :: int
  io_min_query_rate :: rat
  io_big_args :: big_args
  io_state :: "'w \<Rightarrow> io_state"
  io_put :: "io_state \<Rightarrow> 'w \<Rightarrow> 'w"
  io_stats :: "'w \<Rightarrow> stats"
  io_put_stats :: "stats \<Rightarrow> 'w \<Rightarrow> 'w"

definition READ_OK :: "'w ctx \<Rightarrow> status set" where
  "READ_OK cx = {code cx ''success'', code cx ''success_max_count_read'', code cx ''success_termination_character_read''}"

definition CHUNKS :: "int list" where "CHUNKS = [1, 7, 64, 997]"

definition CHUNK_WATCHDOG :: rat where "CHUNK_WATCHDOG = 180"

definition MULTILINE :: string where
  "MULTILINE = ''line-one'' @ [CHR 0x0A] @ ''line-two'' @ [CHR 0x0A] @ ''line-three'' @ [CHR 0x0A]"

definition got_state :: "'w io_script \<Rightarrow> ('w, io_state) act" where
  "got_state S w = (Inr (io_state S w), w)"

definition put_state :: "'w io_script \<Rightarrow> (io_state \<Rightarrow> io_state) \<Rightarrow> ('w, unit) act" where
  "put_state S f = change (\<lambda>w. io_put S (f (io_state S w)) w)"

definition noted :: "'w ctx \<Rightarrow> string \<Rightarrow> ('w, unit) act" where
  "noted cx msg = change (cx_note cx msg)"

definition divided :: "rat \<Rightarrow> rat \<Rightarrow> ('w, rat) act" where
  \<comment> \<open>a quotient of floats\<close>
  "divided x y =
     (if y = 0 then throw (plain_exn [''ZeroDivisionError'', ''ArithmeticError'', ''Exception'', ''BaseException''] ''float division by zero'')
      else ret (x / y))"

definition no_bytes :: exn where
  \<comment> \<open>a method of bytes called on \<^verbatim>\<open>None\<close>\<close>
  "no_bytes = plain_exn [''AttributeError'', ''Exception'', ''BaseException''] ''NoneType''"

definition repr_data :: "'w ctx \<Rightarrow> string option \<Rightarrow> string" where
  "repr_data cx d = cx_repr_value cx (case d of None \<Rightarrow> ANone | Some s \<Rightarrow> ABytes s)"

definition errors_checked :: "'w io_script \<Rightarrow> string \<Rightarrow> string \<Rightarrow> ('w, unit) act" where
  "errors_checked S caller context w =
     (case check_errors (instr.truncate (cx_client (io_cx S))) caller context w (io_stats S w) of
        (_, w1, st) \<Rightarrow> (Inr (), io_put_stats S st w1))"

definition big_query_resolved :: "'w io_script \<Rightarrow> string \<Rightarrow> ('w, string option) act" where
  "big_query_resolved S caller w =
     (case resolve_big_query (instr.truncate (cx_client (io_cx S))) caller (io_big_args S) (cx_server (io_cx S) \<noteq> None) w (io_stats S w) of
        (r, w1, st) \<Rightarrow> (r, io_put_stats S st w1))"

definition io_setup :: "string \<Rightarrow> 'w io_script \<Rightarrow> ('w, 'r) act \<Rightarrow> ('w, 'r) act" where
  \<comment> \<open>\<^verbatim>\<open>SETUP\<close> around the checks of the script\<close>
  "io_setup caller S body =
     open_inst (io_cx S) (
       andthen (asked (io_cx S) ''*IDN?'') (\<lambda>idn.
       andthen (put_state S (\<lambda>s. s\<lparr>is_idn := idn\<rparr>)) (\<lambda>_.
       andthen (drained (io_cx S)) (\<lambda>_.
       andthen (noted (io_cx S) (''instrument: '' @ idn)) (\<lambda>_.
       andthen (big_query_resolved S caller) (\<lambda>q.
       andthen (put_state S (\<lambda>s. s\<lparr>is_big_query := q\<rparr>)) (\<lambda>_.
       at_exit body (errors_checked S caller ''at end of run''))))))))"

definition big_query :: "'w io_script \<Rightarrow> ('w, string) act" where
  "big_query S =
     andthen (got_state S) (\<lambda>s.
     case is_big_query s of
       Some q \<Rightarrow> if q = [] then throw (Skip ''there is no usable large-response query on this instrument'') else ret q
     | None \<Rightarrow> throw (Skip ''there is no usable large-response query on this instrument''))"

definition reference :: "'w io_script \<Rightarrow> ('w, string) act" where
  "reference S =
     andthen (got_state S) (\<lambda>s.
     case is_reference s of
       Some r \<Rightarrow> ret r
     | None \<Rightarrow>
         andthen (big_query S) (\<lambda>q.
         andthen (inst_query (io_cx S) q) (\<lambda>r.
         andthen (put_state S (\<lambda>s. s\<lparr>is_reference := Some r\<rparr>)) (\<lambda>_.
         andthen (noted (io_cx S) (q @ '' returns '' @ str_nat (length r) @ '' bytes'')) (\<lambda>_. ret r)))))"

section \<open>Storms\<close>

definition check_small_query_storm :: "string \<Rightarrow> 'w io_script \<Rightarrow> ('w, string) act" where
  "check_small_query_storm caller S =
     andthen (now (io_cx S)) (\<lambda>t0.
     andthen (for_each [0..<nat (io_iterations S)] (\<lambda>i.
       andthen (asked (io_cx S) ''*IDN?'') (\<lambda>got.
       andthen (got_state S) (\<lambda>s.
       assert_that (got = is_idn s)
         (''iteration '' @ str_nat i @ '' returned '' @ py_repr got @ '', expected '' @ py_repr (is_idn s)))))) (\<lambda>_.
     andthen (now (io_cx S)) (\<lambda>t1.
     let elapsed = t1 - t0 in
     andthen (divided (of_int (io_iterations S)) elapsed) (\<lambda>rate.
     andthen (put_state S (\<lambda>s. s\<lparr>is_rate := Some rate\<rparr>)) (\<lambda>_.
     let detail = str_int (io_iterations S) @ '' queries in '' @ fmt_fixed 2 elapsed @ ''s ('' @ fmt_fixed 0 rate @ ''/s)'' in
     andthen (noted (io_cx S) detail) (\<lambda>_.
     andthen
       (if io_min_query_rate S = 0 then ret ()
        else change (\<lambda>w. io_put_stats S (fst (stats_check caller (rate \<ge> io_min_query_rate S) ''the query rate meets the configured floor'' []
          (fmt_fixed 0 rate @ ''/s against a floor of '' @ fmt_fixed 0 (io_min_query_rate S) @ ''/s'') [] (io_stats S w))) w)) (\<lambda>_.
     ret detail)))))))"

definition check_large_query_storm :: "'w io_script \<Rightarrow> ('w, string) act" where
  "check_large_query_storm S =
     andthen (reference S) (\<lambda>expected.
     let iterations = max 1 (io_iterations S div 10) in
     andthen (now (io_cx S)) (\<lambda>t0.
     andthen (for_each [0..<nat iterations] (\<lambda>i.
       andthen (big_query S) (\<lambda>q.
       andthen (inst_query (io_cx S) q) (\<lambda>got.
       assert_that (got = expected)
         (''read '' @ str_nat i @ '' got '' @ str_nat (length got) @ '' bytes, expected '' @ str_nat (length expected)))))) (\<lambda>_.
     andthen (now (io_cx S)) (\<lambda>t1.
     let elapsed = t1 - t0 in
     andthen (divided (of_int iterations * of_nat (length expected)) elapsed) (\<lambda>rate.
     let throughput = rate / 1024;
         shown = str_int iterations @ '' x '' @ str_nat (length expected) @ ''B in '' @ fmt_fixed 2 elapsed @ ''s ('' @ fmt_fixed 0 throughput in
     andthen (noted (io_cx S) (shown @ '' kB/s)'')) (\<lambda>_.
     ret (shown @ '' KiB/s)'')))))))"

section \<open>Reading in pieces\<close>

text \<open>A loop in an action: what is called again depends on what the action returned.\<close>

lemma andthen_cong [fundef_cong]: "m = m' \<Longrightarrow> (\<And>x. f x = f' x) \<Longrightarrow> andthen m f = andthen m' f'"
  by presburger

lemma piece_missing_less: "n < wanted \<Longrightarrow> d \<noteq> [] \<Longrightarrow> wanted - (n + length d) < wanted - n" for wanted n :: nat
  by (cases d) auto

function read_pieces :: "'w ctx \<Rightarrow> int \<Rightarrow> nat \<Rightarrow> string list \<Rightarrow> status list \<Rightarrow> ('w, string list \<times> status list) act" where
  \<comment> \<open>until as much is there as the whole reply has\<close>
  "read_pieces cx chunk wanted pieces statuses =
     (if length (concat pieces) < wanted then
        andthen (lib_read cx chunk) (\<lambda>(data, st).
        case data of
          None \<Rightarrow> ret (pieces, statuses @ [st])
        | Some d \<Rightarrow>
            if st \<notin> READ_OK cx \<or> d = [] then ret (pieces, statuses @ [st])
            else read_pieces cx chunk wanted (pieces @ [d]) (statuses @ [st]))
      else ret (pieces, statuses))"
  by pat_completeness auto

termination
  by (relation "measure (\<lambda>(cx, chunk, wanted, pieces, statuses). wanted - length (concat pieces))") (auto simp: piece_missing_less)

declare read_pieces.simps [simp del]

definition read_in_chunks :: "'w io_script \<Rightarrow> int \<Rightarrow> ('w, string \<times> status list) act" where
  "read_in_chunks S chunk =
     andthen (got_state S) (\<lambda>s.
     case is_chunked s chunk of
       Some r \<Rightarrow> ret r
     | None \<Rightarrow>
         andthen (reference S) (\<lambda>expected.
         andthen (big_query S) (\<lambda>q.
         andthen (lib_write (io_cx S) (q @ [CHR 0x0A])) (\<lambda>_.
         andthen (read_pieces (io_cx S) chunk (length expected) [] []) (\<lambda>(pieces, statuses).
         andthen (put_state S (\<lambda>s. s\<lparr>is_chunked := (is_chunked s)(chunk \<mapsto> (concat pieces, statuses))\<rparr>)) (\<lambda>_.
         ret (concat pieces, statuses)))))))"

definition chunk_intact :: "'w io_script \<Rightarrow> int \<Rightarrow> ('w, string) act" where
  "chunk_intact S chunk =
     andthen (read_in_chunks S chunk) (\<lambda>(joined, _).
     andthen (reference S) (\<lambda>expected.
     let detail = str_nat (length expected) @ ''B expected, '' @ str_nat (length joined) @ ''B read'' in
     andthen (assert_that (joined = expected) detail) (\<lambda>_. ret detail)))"

definition chunk_final_status :: "'w io_script \<Rightarrow> int \<Rightarrow> ('w, string) act" where
  "chunk_final_status S chunk =
     andthen (read_in_chunks S chunk) (\<lambda>(_, statuses).
     let detail = ''got '' @ (if statuses = [] then py_repr ''nothing'' else repr_status (io_cx S) (last statuses)) in
     andthen (assert_that (statuses \<noteq> [] \<and> last statuses = code (io_cx S) ''success'') detail) (\<lambda>_. ret detail))"

definition chunk_checks :: "'w io_script \<Rightarrow> (string \<times> string \<times> rat \<times> ('w, string) act) list" where
  \<comment> \<open>what is registered: name, rule, watchdog and body\<close>
  "chunk_checks S = concat (map (\<lambda>chunk.
     [(''a large message read '' @ str_int chunk @ ''B at a time is intact'', ''VPP-4.3 RULE 6.1.3'', CHUNK_WATCHDOG, chunk_intact S chunk),
      (''the final '' @ str_int chunk @ ''B chunk reports VI_SUCCESS'', ''VPP-4.3 RULE 6.1.1'', CHUNK_WATCHDOG, chunk_final_status S chunk)])
     CHUNKS)"

section \<open>Reading on the termination character\<close>

definition termchar_turn :: "'w io_script \<Rightarrow> nat \<Rightarrow> ('w, status) act" where
  "termchar_turn S i =
     andthen (lib_write (io_cx S) (''*IDN?'' @ [CHR 0x0A])) (\<lambda>_.
     andthen (lib_read (io_cx S) 4096) (\<lambda>(data, st).
     andthen (assert_that (st \<in> {code (io_cx S) ''success'', code (io_cx S) ''success_termination_character_read''})
       (''read '' @ str_nat i @ '' got '' @ repr_status (io_cx S) st)) (\<lambda>_.
     andthen (got_state S) (\<lambda>s.
     case data of
       None \<Rightarrow> throw no_bytes
     | Some d \<Rightarrow>
         andthen (assert_that (strip d = is_idn s) (''read '' @ str_nat i @ '' got '' @ repr_data (io_cx S) data)) (\<lambda>_.
         andthen (assert_that (suffix [CHR 0x0A] d) (''read '' @ str_nat i @ '' did not stop on the termination character'')) (\<lambda>_.
         ret st))))))"

definition check_termchar_reads :: "'w io_script \<Rightarrow> ('w, string) act" where
  "check_termchar_reads S =
     andthen (set_visa_attribute (io_cx S) ''termchar'' (AInt 10)) (\<lambda>_.
     andthen (set_visa_attribute (io_cx S) ''termchar_enabled'' (ABool True)) (\<lambda>_.
     andthen
       (at_exit (for_each [0..<nat (min (io_iterations S) 50)] (termchar_turn S))
         (set_visa_attribute (io_cx S) ''termchar_enabled'' (ABool False))) (\<lambda>sts.
     ret (''last status '' @ (if sts = [] then ''None'' else repr_status (io_cx S) (last sts))))))"

function read_lines :: "'w ctx \<Rightarrow> nat \<Rightarrow> string list \<Rightarrow> ('w, string list) act" where
  "read_lines cx wanted collected =
     (if length (concat collected) < wanted then
        andthen (lib_read cx 65536) (\<lambda>(data, st).
        case data of
          None \<Rightarrow> ret collected
        | Some d \<Rightarrow>
            if d = [] then ret collected
            else if st = code cx ''success'' then ret (collected @ [d])
            else read_lines cx wanted (collected @ [d]))
      else ret collected)"
  by pat_completeness auto

termination
  by (relation "measure (\<lambda>(cx, wanted, collected). wanted - length (concat collected))") (auto simp: piece_missing_less)

declare read_lines.simps [simp del]

definition multiline_probe :: "'w io_script \<Rightarrow> ('w, string \<times> string) act" where
  \<comment> \<open>the query with a reply of several lines, and that reply\<close>
  "multiline_probe S =
     (case cx_server (io_cx S) of
        Some server \<Rightarrow>
          andthen (respond (cx_ask (io_cx S)) server ''TEST:LINES?'' (Some (rstrip_chars {CHR 0x0A} MULTILINE)) 0) (\<lambda>_.
          ret (''TEST:LINES?'', MULTILINE))
      | None \<Rightarrow>
          andthen (reference S) (\<lambda>expected.
          if CHR 0x0A \<notin> set (butlast expected) then throw (Skip ''no multi-line response is available from this instrument'')
          else andthen (big_query S) (\<lambda>q. ret (q, expected))))"

definition multiline_read :: "'w io_script \<Rightarrow> ('w, string \<times> string list \<times> string) act" where
  "multiline_read S =
     andthen (got_state S) (\<lambda>s.
     case is_multiline s of
       Some r \<Rightarrow> ret r
     | None \<Rightarrow>
         andthen (multiline_probe S) (\<lambda>(probe, expected).
         andthen (set_visa_attribute (io_cx S) ''termchar_enabled'' (ABool True)) (\<lambda>_.
         andthen
           (at_exit
             (andthen (lib_write (io_cx S) (probe @ [CHR 0x0A])) (\<lambda>_. read_lines (io_cx S) (length expected) []))
             (set_visa_attribute (io_cx S) ''termchar_enabled'' (ABool False))) (\<lambda>collected.
         let r = (concat collected, collected, expected) in
         andthen (put_state S (\<lambda>s. s\<lparr>is_multiline := Some r\<rparr>)) (\<lambda>_. ret r)))))"

definition check_multiline_reassembles :: "'w io_script \<Rightarrow> ('w, string) act" where
  "check_multiline_reassembles S =
     andthen (multiline_read S) (\<lambda>(joined, _, expected).
     andthen (assert_that (joined = expected) (''got '' @ py_repr joined)) (\<lambda>_. ret (''got '' @ py_repr joined)))"

definition check_multiline_split :: "'w io_script \<Rightarrow> ('w, string) act" where
  "check_multiline_split S =
     andthen (multiline_read S) (\<lambda>(_, collected, _).
     andthen (assert_that (length collected > 1) (str_nat (length collected) @ '' reads'')) (\<lambda>_.
     ret (str_nat (length collected) @ '' reads'')))"

section \<open>Writing in parts\<close>

definition check_split_write :: "'w io_script \<Rightarrow> ('w, string) act" where
  "check_split_write S =
     andthen (set_visa_attribute (io_cx S) ''send_end_enabled'' (ABool False)) (\<lambda>_.
     at_exit
       (andthen (lib_write (io_cx S) ''*IDN'') (\<lambda>_.
        andthen (set_visa_attribute (io_cx S) ''send_end_enabled'' (ABool True)) (\<lambda>_.
        andthen (lib_write (io_cx S) (''?'' @ [CHR 0x0A])) (\<lambda>_.
        andthen (lib_read (io_cx S) 4096) (\<lambda>(data, _).
        andthen (got_state S) (\<lambda>s.
        andthen (assert_that (case data of None \<Rightarrow> False | Some d \<Rightarrow> strip d = is_idn s) (''got '' @ repr_data (io_cx S) data)) (\<lambda>_.
        ret (''got '' @ repr_data (io_cx S) data))))))))
       (set_visa_attribute (io_cx S) ''send_end_enabled'' (ABool True)))"

definition check_healthy_at_end :: "'w io_script \<Rightarrow> ('w, string) act" where
  "check_healthy_at_end S =
     andthen (asked (io_cx S) ''*IDN?'') (\<lambda>final.
     andthen (got_state S) (\<lambda>s.
     andthen (assert_that (final = is_idn s) (''got '' @ py_repr final)) (\<lambda>_. ret (''got '' @ py_repr final))))"

section \<open>What the two checks of a piecewise read decide\<close>

text \<open>An instrument that answers a query read in one go with \<open>reply\<close> and hands out \<open>sent\<close> when it is read in pieces, cut as
  it likes. As the standard has it, the piece that ends the message comes with \<^verbatim>\<open>VI_SUCCESS\<close>, any other with
  \<^verbatim>\<open>VI_SUCCESS_MAX_CNT\<close>, and when there is nothing left a read times out.\<close>

record stream =
  sm_out :: string
  sm_state :: io_state
  sm_stats :: stats

definition stream_code :: "string \<Rightarrow> int" where
  "stream_code name =
     (case map_of [(''success_max_count_read'', 0x3FFF0006), (''success_termination_character_read'', 0x3FFF0005),
        (''error_timeout'', - 0x4000FFEB)] name of None \<Rightarrow> - 1 | Some c \<Rightarrow> c)"

definition stream_read :: "(int \<Rightarrow> string \<Rightarrow> nat) \<Rightarrow> int \<Rightarrow> stream \<Rightarrow> string call_end \<times> stream" where
  "stream_read portion n w =
     (if sm_out w = [] then (Single (StatusCode (stream_code ''error_timeout'')), w)
      else
        (let k = portion n (sm_out w); rest = drop k (sm_out w)
         in (Tuple (take k (sm_out w)) (StatusCode (if rest = [] then 0 else stream_code ''success_max_count_read'')), w\<lparr>sm_out := rest\<rparr>)))"

definition stream_ctx :: "(int \<Rightarrow> string \<Rightarrow> nat) \<Rightarrow> string \<Rightarrow> string \<Rightarrow> stream ctx" where
  "stream_ctx portion sent reply = example_ctx\<lparr>cx_code := stream_code,
     cx_client := example_client\<lparr>i_query := (\<lambda>q w. (Inr reply, w)), cl_write := (\<lambda>s w. (None, w\<lparr>sm_out := sent\<rparr>)),
       cl_read := stream_read portion\<rparr>\<rparr>"

definition stream_script :: "(int \<Rightarrow> string \<Rightarrow> nat) \<Rightarrow> string \<Rightarrow> string \<Rightarrow> stream io_script" where
  "stream_script portion sent reply =
     \<lparr>io_cx = stream_ctx portion sent reply, io_iterations = 100, io_min_query_rate = 0, io_big_args = \<lparr>ba_prepare = False, ba_big_query = None\<rparr>,
      io_state = sm_state, io_put = (\<lambda>s w. w\<lparr>sm_state := s\<rparr>), io_stats = sm_stats, io_put_stats = (\<lambda>st w. w\<lparr>sm_stats := st\<rparr>)\<rparr>"

lemma stream_codes [simp]:
  "code (stream_ctx portion sent reply) ''success'' = StatusCode 0"
  "code (stream_ctx portion sent reply) ''success_max_count_read'' = StatusCode 0x3FFF0006"
  "code (stream_ctx portion sent reply) ''success_termination_character_read'' = StatusCode 0x3FFF0005"
  by (simp_all add: code_def stream_ctx_def example_ctx_def stream_code_def)

lemma stream_lib_read:
  "lib_read (stream_ctx portion sent reply) n w =
     (if sm_out w = [] then (Inr (None, StatusCode (- 0x4000FFEB)), w)
      else (Inr (Some (take (portion n (sm_out w)) (sm_out w)), StatusCode (if drop (portion n (sm_out w)) (sm_out w) = [] then 0 else 0x3FFF0006)),
            w\<lparr>sm_out := drop (portion n (sm_out w)) (sm_out w)\<rparr>))"
  by (simp add: lib_read_def lib_call_def call_def stream_ctx_def stream_read_def stream_code_def Let_def)

lemma read_pieces_stream:
  assumes portion: "\<And>n rest. rest \<noteq> [] \<Longrightarrow> 1 \<le> portion n rest"
  shows "\<exists>ds ss rest. read_pieces (stream_ctx portion sent reply) chunk wanted pieces statuses w =
       (Inr (pieces @ ds, statuses @ ss), w\<lparr>sm_out := rest\<rparr>) \<and>
     sm_out w = concat ds @ rest \<and> (wanted \<le> length (concat (pieces @ ds)) \<or> rest = []) \<and>
     (length (concat pieces) < wanted \<longrightarrow>
        ss \<noteq> [] \<and> (last ss = StatusCode 0 \<longleftrightarrow> rest = [] \<and> wanted \<le> length (concat (pieces @ ds))))"
proof (induction "length (sm_out w)" arbitrary: w pieces statuses rule: less_induct)
  case less
  let ?cx = "stream_ctx portion sent reply" and ?p = "sm_out w"
  consider "wanted \<le> length (concat pieces)" | "length (concat pieces) < wanted" "?p = []" | "length (concat pieces) < wanted" "?p \<noteq> []"
    by linarith
  then show ?case
  proof cases
    case 1
    then show ?thesis by (intro exI[of _ "[]"] exI[of _ "?p"]) (simp add: read_pieces.simps ret_def)
  next
    case 2
    then show ?thesis
      by (intro exI[of _ "[]"] exI[of _ "[StatusCode (- 0x4000FFEB)]"]) (simp add: read_pieces.simps andthen_def ret_def stream_lib_read)
  next
    case 3
    define d st where "d = take (portion chunk ?p) ?p"
      and "st = StatusCode (if drop (portion chunk ?p) ?p = [] then 0 else 0x3FFF0006)"
    define w1 where "w1 = w\<lparr>sm_out := drop (portion chunk ?p) ?p\<rparr>"
    have d: "d \<noteq> []" and st: "st \<in> READ_OK ?cx" and p: "?p = d @ sm_out w1"
      using 3 portion[of ?p chunk] by (auto simp: d_def st_def w1_def READ_OK_def)
    have unfolded: "read_pieces ?cx chunk wanted pieces statuses w = read_pieces ?cx chunk wanted (pieces @ [d]) (statuses @ [st]) w1"
      using 3 d st by (subst read_pieces.simps) (simp add: andthen_def stream_lib_read d_def st_def w1_def)
    obtain ds ss rest where r: "read_pieces ?cx chunk wanted (pieces @ [d]) (statuses @ [st]) w1 =
         (Inr ((pieces @ [d]) @ ds, (statuses @ [st]) @ ss), w1\<lparr>sm_out := rest\<rparr>)"
      and rest: "sm_out w1 = concat ds @ rest" "wanted \<le> length (concat ((pieces @ [d]) @ ds)) \<or> rest = []"
      and final: "length (concat (pieces @ [d])) < wanted \<longrightarrow>
         ss \<noteq> [] \<and> (last ss = StatusCode 0 \<longleftrightarrow> rest = [] \<and> wanted \<le> length (concat ((pieces @ [d]) @ ds)))"
      using less[of w1 "pieces @ [d]" "statuses @ [st]"] p d by auto
    have stop: "ds = []" "ss = []" "rest = sm_out w1" if "\<not> length (concat (pieces @ [d])) < wanted"
    proof -
      have "(Inr (pieces @ [d], statuses @ [st]), w1) = (Inr ((pieces @ [d]) @ ds, (statuses @ [st]) @ ss), w1\<lparr>sm_out := rest\<rparr>)"
        using r that by (simp add: read_pieces.simps[of _ _ _ "pieces @ [d]"] ret_def)
      then show "ds = []" "ss = []" "rest = sm_out w1" by (simp_all, metis stream.select_convs(1) stream.surjective stream.update_convs(1))
    qed
    have "last (st # ss) = StatusCode 0 \<longleftrightarrow> rest = [] \<and> wanted \<le> length (concat (pieces @ d # ds))"
    proof (cases "length (concat (pieces @ [d])) < wanted")
      case True
      with final show ?thesis by simp
    next
      case False
      with stop show ?thesis by (auto simp: st_def w1_def)
    qed
    moreover have "read_pieces ?cx chunk wanted pieces statuses w = (Inr (pieces @ d # ds, statuses @ st # ss), w\<lparr>sm_out := rest\<rparr>)"
      using unfolded r by (simp add: w1_def)
    moreover have "?p = concat (d # ds) @ rest" using p rest(1) by simp
    ultimately show ?thesis using rest(2) by (intro exI[of _ "d # ds"] exI[of _ "st # ss"] exI[of _ rest]) simp
  qed
qed

definition fresh :: "stream \<Rightarrow> bool" where
  \<comment> \<open>after \<^verbatim>\<open>SETUP\<close> found a query, before the first large read\<close>
  "fresh w \<longleftrightarrow> (\<exists>q. is_big_query (sm_state w) = Some q \<and> q \<noteq> []) \<and> is_reference (sm_state w) = None \<and> (\<forall>c. is_chunked (sm_state w) c = None)"

lemma stream_actions:
  "got_state (stream_script portion sent reply) w = (Inr (sm_state w), w)"
  "put_state (stream_script portion sent reply) f w = (Inr (), w\<lparr>sm_state := f (sm_state w)\<rparr>)"
  "inst_query (stream_ctx portion sent reply) q w = (Inr reply, w)"
  "lib_write (stream_ctx portion sent reply) message w = (Inr (), w\<lparr>sm_out := sent\<rparr>)"
  "noted (stream_ctx portion sent reply) msg w = (Inr (), w)"
  "io_cx (stream_script portion sent reply) = stream_ctx portion sent reply"
  by (simp_all add: got_state_def put_state_def stream_script_def stream_ctx_def inst_query_def lib_write_def effect_def noted_def change_def
      example_ctx_def)

lemma read_in_chunks_stream:
  fixes portion sent reply chunk w
  defines "S \<equiv> stream_script portion sent reply"
  assumes portion: "\<And>n rest. rest \<noteq> [] \<Longrightarrow> 1 \<le> portion n rest" and "reply \<noteq> []" "fresh w"
  obtains joined statuses w' where "read_in_chunks S chunk w = (Inr (joined, statuses), w')"
    "is_reference (sm_state w') = Some reply" "is_chunked (sm_state w') chunk = Some (joined, statuses)"
    "joined = reply \<and> statuses \<noteq> [] \<and> last statuses = StatusCode 0 \<longleftrightarrow> sent = reply"
proof -
  obtain q where q: "is_big_query (sm_state w) = Some q" "q \<noteq> []" and none: "is_reference (sm_state w) = None" "is_chunked (sm_state w) chunk = None"
    using \<open>fresh w\<close> by (auto simp: fresh_def)
  define w1 where "w1 = w\<lparr>sm_state := (sm_state w)\<lparr>is_reference := Some reply\<rparr>, sm_out := sent\<rparr>"
  obtain ds ss rest where r: "read_pieces (stream_ctx portion sent reply) chunk (length reply) [] [] w1 = (Inr (ds, ss), w1\<lparr>sm_out := rest\<rparr>)"
    and rest: "sent = concat ds @ rest" "length reply \<le> length (concat ds) \<or> rest = []"
    and final: "ss \<noteq> []" "last ss = StatusCode 0 \<longleftrightarrow> rest = [] \<and> length reply \<le> length (concat ds)"
    using read_pieces_stream[where portion = portion and sent = sent and reply = reply and chunk = chunk and wanted = "length reply" and pieces = "[]"
        and statuses = "[]" and w = w1, OF portion] \<open>reply \<noteq> []\<close> by (auto simp: w1_def)
  have decides: "concat ds = reply \<and> ss \<noteq> [] \<and> last ss = StatusCode 0 \<longleftrightarrow> sent = reply"
    using rest final by auto
  have "read_in_chunks S chunk w =
      (Inr (concat ds, ss), w1\<lparr>sm_out := rest, sm_state := (sm_state w1)\<lparr>is_chunked := (is_chunked (sm_state w1))(chunk \<mapsto> (concat ds, ss))\<rparr>\<rparr>)"
    using q none r by (simp add: read_in_chunks_def reference_def big_query_def S_def stream_actions andthen_def ret_def w1_def)
  then show ?thesis by (rule that) (use decides in \<open>simp_all add: w1_def\<close>)
qed

text \<open>C32: Reading in pieces and reading at once are held against each other. However the instrument cuts its message into pieces,
  and whatever the size asked for, the two checks of a piecewise read, run one after the other, both pass exactly if the bytes
  delivered in pieces are the bytes of the reply read at once: a byte lost, changed or repeated at a boundary fails one of
  them, and so does a message that goes on after the reply. The read itself always ends.\<close>

theorem chunk_checks_compare_bytes:
  assumes "\<forall>n rest. rest \<noteq> [] \<longrightarrow> 1 \<le> portion n rest" "reply \<noteq> []" "fresh w"
  shows "let S = stream_script portion sent reply; intact = chunk_intact S chunk w; final = chunk_final_status S chunk (snd intact)
         in verdict intact \<in> {PASS, FAIL} \<and> verdict final \<in> {PASS, FAIL} \<and>
            (verdict intact = PASS \<and> verdict final = PASS \<longleftrightarrow> sent = reply)"
proof -
  let ?S = "stream_script portion sent reply"
  obtain joined statuses w' where r: "read_in_chunks ?S chunk w = (Inr (joined, statuses), w')"
    and ref: "is_reference (sm_state w') = Some reply" and kept: "is_chunked (sm_state w') chunk = Some (joined, statuses)"
    and iff: "joined = reply \<and> statuses \<noteq> [] \<and> last statuses = StatusCode 0 \<longleftrightarrow> sent = reply"
    using read_in_chunks_stream[where portion = portion and sent = sent and reply = reply and chunk = chunk and w = w] assms by metis
  have intact: "verdict (chunk_intact ?S chunk w) = (if joined = reply then PASS else FAIL)" "snd (chunk_intact ?S chunk w) = w'"
    using r ref by (simp_all add: chunk_intact_def reference_def andthen_def stream_actions ret_def assert_that_def throw_def Let_def)
  have final: "verdict (chunk_final_status ?S chunk w') = (if statuses \<noteq> [] \<and> last statuses = StatusCode 0 then PASS else FAIL)"
    using kept by (simp add: chunk_final_status_def read_in_chunks_def andthen_def stream_actions ret_def assert_that_def throw_def Let_def)
  show ?thesis using iff by (auto simp: intact final Let_def)
qed

definition example_stream :: stream where
  "example_stream =
     \<lparr>sm_out = [], sm_state = \<lparr>is_idn = ''a,b'', is_big_query = Some ''*LRN?'', is_reference = None, is_rate = None, is_chunked = (\<lambda>_. None),
        is_multiline = None\<rparr>,
      sm_stats = new_stats ''02_io'' False None 0\<rparr>"

theorem chunk_checks_compare_bytes_witness:
  "let S = stream_script (\<lambda>n _. nat (max 1 n)) ''0123456789'' ''0123456789''; intact = chunk_intact S 7 example_stream
   in verdict intact = PASS \<and> verdict (chunk_final_status S 7 (snd intact)) = PASS"
proof -
  have "\<forall>n rest. rest \<noteq> [] \<longrightarrow> 1 \<le> nat (max 1 n)" "fresh example_stream" by (auto simp: fresh_def example_stream_def)
  from chunk_checks_compare_bytes[where portion = "\<lambda>n _. nat (max 1 n)" and reply = "''0123456789''", OF this(1) _ this(2)]
  show ?thesis by (simp add: Let_def)
qed

end
