(* ===== verification/Device_Clear.thy ===== *)
theory Device_Clear
  imports Bulk_Io
begin

text \<open>
  \<^verbatim>\<open>checks/07_clear.py\<close>: a device clear between queries, over a reply nobody collected, and in the middle of one. The script has the same
  session, state and recorder as \<open>Bulk_Io\<close>; the query whose reply is abandoned is an argument.
\<close>

section \<open>The script\<close>

definition clear_setup :: "string \<Rightarrow> 'w io_script \<Rightarrow> ('w, 'r) act \<Rightarrow> ('w, 'r) act" where
  "clear_setup caller S body =
     open_inst (io_cx S) (
       andthen (asked (io_cx S) ''*IDN?'') (\<lambda>idn.
       andthen (put_state S (\<lambda>s. s\<lparr>is_idn := idn\<rparr>)) (\<lambda>_.
       andthen (drained (io_cx S)) (\<lambda>_.
       andthen (change (\<lambda>w. io_put_stats S (expect_desync [- 410, - 420]
         ''clearing the device mid-query discards a query in flight, which is what these checks are testing'' (io_stats S w)) w)) (\<lambda>_.
       andthen (big_query_resolved S caller) (\<lambda>q.
       andthen (put_state S (\<lambda>s. s\<lparr>is_big_query := q\<rparr>)) (\<lambda>_.
       at_exit body (errors_checked S caller ''at end of run''))))))))"

definition cycles :: "'w io_script \<Rightarrow> int" where
  "cycles S = min (io_iterations S) 25"

definition clear_status :: "'w ctx \<Rightarrow> ('w, status) act" where
  "clear_status cx = catch ''Exception'' (lib_op cx ''clear'' []) (\<lambda>exc.
     if isinstance exc ''BadCall'' then throw exc
     else throw (AssertionError (''viClear raised instead of returning a status: '' @ type_name exc @ '': '' @ e_msg exc)))"

definition clear_reference :: "'w io_script \<Rightarrow> string \<Rightarrow> ('w, string) act" where
  \<comment> \<open>\<^verbatim>\<open>reference\<close>, with \<^verbatim>\<open>STATE["big_query"]\<close>\<close>
  "clear_reference S q =
     andthen (got_state S) (\<lambda>s.
     case is_reference s of
       Some r \<Rightarrow> ret r
     | None \<Rightarrow>
         andthen (inst_query (io_cx S) q) (\<lambda>r.
         andthen (put_state S (\<lambda>s. s\<lparr>is_reference := Some r\<rparr>)) (\<lambda>_. ret r)))"

definition clear_and_requery :: "'w io_script \<Rightarrow> nat \<Rightarrow> string \<Rightarrow> ('w, unit) act" where
  "clear_and_requery S i what =
     andthen (clear_status (io_cx S)) (\<lambda>st.
     andthen (assert_that (st = code (io_cx S) ''success'') (''iteration '' @ str_nat i @ '': viClear failed'')) (\<lambda>_.
     andthen (asked (io_cx S) ''*IDN?'') (\<lambda>got.
     andthen (got_state S) (\<lambda>s.
     assert_that (got = is_idn s) (''iteration '' @ str_nat i @ '': '' @ what @ '', got '' @ py_repr got)))))"

section \<open>The checks\<close>

definition check_clear_cycles :: "'w io_script \<Rightarrow> ('w, string) act" where
  "check_clear_cycles S =
     andthen (now (io_cx S)) (\<lambda>t0.
     andthen (for_each [0..<nat (io_iterations S)] (\<lambda>i. clear_and_requery S i ''after clear *IDN? disagreed'')) (\<lambda>_.
     andthen (now (io_cx S)) (\<lambda>t1.
     let elapsed = t1 - t0 in
     andthen (divided (1000 * elapsed) (of_int (io_iterations S))) (\<lambda>each.
     andthen (noted (io_cx S) (str_int (io_iterations S) @ '' clears in '' @ fmt_fixed 2 elapsed @ ''s ('' @ fmt_fixed 1 each @ '' ms each)'')) (\<lambda>_.
     ret (str_int (io_iterations S) @ '' cycles''))))))"

definition stale_probe :: "'w io_script \<Rightarrow> string option \<Rightarrow> string" where
  "stale_probe S stale_query =
     (case stale_query of
        Some q \<Rightarrow> if q \<noteq> [] then q else if cx_server (io_cx S) \<noteq> None then ''TEST:LINES?'' else ''SYST:VERS?''
      | None \<Rightarrow> if cx_server (io_cx S) \<noteq> None then ''TEST:LINES?'' else ''SYST:VERS?'')"

definition abandon_turn :: "'w io_script \<Rightarrow> string \<Rightarrow> string \<Rightarrow> nat \<Rightarrow> ('w, unit) act" where
  "abandon_turn S probe stale_value i =
     andthen (lib_write (io_cx S) (probe @ nl)) (\<lambda>_.
     clear_and_requery S i (''stale data leaked (the abandoned '' @ probe @ '' response was '' @ py_repr stale_value @ '')''))"

definition abandoned_noted :: "'w io_script \<Rightarrow> ('w, unit) act" where
  "abandoned_noted S =
     andthen (drain (io_cx S)) (\<lambda>caused.
     case caused of
       [] \<Rightarrow> ret ()
     | e # _ \<Rightarrow> noted (io_cx S) (str_nat (length caused) @ '' error(s) from the deliberately abandoned queries, e.g. '' @ e))"

definition check_clear_discards_response :: "string option \<Rightarrow> 'w io_script \<Rightarrow> ('w, string) act" where
  "check_clear_discards_response stale_query S =
     (let probe = stale_probe S stale_query in
      andthen (case cx_server (io_cx S) of
          Some server \<Rightarrow> respond (cx_ask (io_cx S)) server ''TEST:LINES?'' (Some ''stale-marker'') 0
        | None \<Rightarrow> ret ()) (\<lambda>_.
      andthen (catch ''Exception'' (asked (io_cx S) probe) (\<lambda>exc.
        andthen (drained (io_cx S)) (\<lambda>_. throw (Skip (''the probe query '' @ probe @ '' is unsupported here''))))) (\<lambda>stale_value.
      andthen (got_state S) (\<lambda>s.
      if stale_value = is_idn s then
        throw (Skip (''the probe query '' @ probe @ '' answers the same as *IDN?, so a leaked reply is indistinguishable from a fresh one''))
      else
        andthen (at_exit (for_each [0..<nat (cycles S)] (abandon_turn S probe stale_value)) (abandoned_noted S)) (\<lambda>_.
        ret (str_int (cycles S) @ '' cycles, each abandoning a '' @ probe @ '' response''))))))"

definition mid_message_turn :: "'w io_script \<Rightarrow> string \<Rightarrow> nat \<Rightarrow> ('w, unit) act" where
  "mid_message_turn S q i =
     andthen (lib_write (io_cx S) (q @ nl)) (\<lambda>_.
     andthen (lib_read (io_cx S) 100) (\<lambda>(partial, _).
     andthen (assert_that (case partial of None \<Rightarrow> False | Some d \<Rightarrow> length d = 100)
       (''iteration '' @ str_nat i @ '': the partial read got '' @ str_nat (case partial of None \<Rightarrow> 0 | Some d \<Rightarrow> length d) @ '' bytes'')) (\<lambda>_.
     clear_and_requery S i ''stream not resynced'')))"

definition check_clear_mid_message :: "'w io_script \<Rightarrow> ('w, string) act" where
  "check_clear_mid_message S =
     andthen (got_state S) (\<lambda>s.
     case is_big_query s of
       None \<Rightarrow> throw (Skip ''there is no usable large-response query here, so no read can be interrupted part-way'')
     | Some q \<Rightarrow>
         if q = [] then throw (Skip ''there is no usable large-response query here, so no read can be interrupted part-way'')
         else
           andthen (clear_reference S q) (\<lambda>r.
           andthen (for_each [0..<nat (cycles S)] (mid_message_turn S q)) (\<lambda>_.
           ret (str_int (cycles S) @ '' cycles, each clearing 100B into a '' @ str_nat (length r) @ ''B response''))))"

definition check_large_reads_intact :: "'w io_script \<Rightarrow> ('w, string) act" where
  "check_large_reads_intact S =
     andthen (got_state S) (\<lambda>s.
     case is_big_query s of
       None \<Rightarrow> throw (Skip ''there is no usable large-response query here'')
     | Some q \<Rightarrow>
         if q = [] then throw (Skip ''there is no usable large-response query here'')
         else
           andthen (clear_reference S q) (\<lambda>expected.
           andthen (inst_query (io_cx S) q) (\<lambda>got.
           andthen (assert_that (got = expected) ''the large query no longer returns its reference value'') (\<lambda>_.
           ret (''the '' @ str_nat (length expected) @ ''B response still matches'')))))"

section \<open>An instrument with an output queue\<close>

text \<open>Replies wait in a queue; a query adds its reply and takes the first. What \<^verbatim>\<open>viClear\<close> does to the queue is a parameter: everything
  is discarded, or nothing.\<close>

record queued =
  qd_replies :: "string list"
  qd_state :: io_state
  qd_stats :: stats

definition queued_client :: "bool \<Rightarrow> (string \<Rightarrow> string) \<Rightarrow> queued client" where
  "queued_client discards answer = example_client\<lparr>
     i_query := (\<lambda>q w. (Inr (hd (qd_replies w @ [answer q])), w\<lparr>qd_replies := tl (qd_replies w @ [answer q])\<rparr>)),
     cl_write := (\<lambda>s w. (None, w\<lparr>qd_replies := qd_replies w @ [answer (butlast s)]\<rparr>)),
     cl_read := (\<lambda>n w.
       case qd_replies w of
         [] \<Rightarrow> (Single (StatusCode (stream_code ''error_timeout'')), w)
       | r # rs \<Rightarrow>
           if length r \<le> nat n then (Tuple r (StatusCode 0), w\<lparr>qd_replies := rs\<rparr>)
           else (Tuple (take (nat n) r) (StatusCode (stream_code ''success_max_count_read'')), w\<lparr>qd_replies := drop (nat n) r # rs\<rparr>)),
     cl_op := (\<lambda>name arg w. (Single (StatusCode 0), if name = ''clear'' \<and> discards then w\<lparr>qd_replies := []\<rparr> else w))\<rparr>"

definition queued_script :: "bool \<Rightarrow> (string \<Rightarrow> string) \<Rightarrow> int \<Rightarrow> queued io_script" where
  "queued_script discards answer iterations =
     \<lparr>io_cx = example_ctx\<lparr>cx_code := stream_code, cx_client := queued_client discards answer\<rparr>, io_iterations = iterations,
      io_min_query_rate = 0, io_big_args = \<lparr>ba_prepare = False, ba_big_query = None\<rparr>,
      io_state = qd_state, io_put = (\<lambda>s w. w\<lparr>qd_state := s\<rparr>), io_stats = qd_stats, io_put_stats = (\<lambda>st w. w\<lparr>qd_stats := st\<rparr>)\<rparr>"

definition ready :: "(string \<Rightarrow> string) \<Rightarrow> string \<Rightarrow> queued \<Rightarrow> bool" where
  \<comment> \<open>after \<^verbatim>\<open>SETUP\<close>: nothing is queued, and the state holds what the instrument answers\<close>
  "ready answer q w \<longleftrightarrow> qd_replies w = [] \<and> is_idn (qd_state w) = strip (answer ''*IDN?'') \<and> is_big_query (qd_state w) = Some q \<and>
     is_reference (qd_state w) \<in> {None, Some (answer q)}"

lemma queued_actions:
  fixes discards answer iterations
  defines "S \<equiv> queued_script discards answer iterations"
  shows "got_state S w = (Inr (qd_state w), w)" "put_state S f w = (Inr (), w\<lparr>qd_state := f (qd_state w)\<rparr>)"
    "inst_query (io_cx S) q w = (Inr (hd (qd_replies w @ [answer q])), w\<lparr>qd_replies := tl (qd_replies w @ [answer q])\<rparr>)"
    "asked (io_cx S) q w = (Inr (strip (hd (qd_replies w @ [answer q]))), w\<lparr>qd_replies := tl (qd_replies w @ [answer q])\<rparr>)"
    "lib_write (io_cx S) message w = (Inr (), w\<lparr>qd_replies := qd_replies w @ [answer (butlast message)]\<rparr>)"
    "noted (io_cx S) msg w = (Inr (), w)" "now (io_cx S) w = (Inr 0, w)" "code (io_cx S) ''success'' = StatusCode 0"
    "clear_status (io_cx S) w = (Inr (StatusCode 0), if discards then w\<lparr>qd_replies := []\<rparr> else w)"
    "cx_server (io_cx S) = None" "io_iterations S = iterations" "cycles S = min iterations 25"
  by (simp_all add: S_def got_state_def put_state_def queued_script_def queued_client_def inst_query_def asked_def lib_write_def effect_def noted_def
      change_def now_def code_def clear_status_def catch_def lib_op_def lib_status_def lib_call_def call_def andthen_def ret_def example_ctx_def cycles_def)

lemma requery_discards:
  "is_idn (qd_state w) = strip (answer ''*IDN?'') \<Longrightarrow>
     clear_and_requery (queued_script True answer iterations) i what w = (Inr (), w\<lparr>qd_replies := []\<rparr>)"
  by (simp add: clear_and_requery_def andthen_def queued_actions assert_that_def ret_def)

lemma requery_keeps:
  "is_idn (qd_state w) = strip (answer ''*IDN?'') \<Longrightarrow>
     fst (clear_and_requery (queued_script False answer iterations) i what w) =
       (let got = strip (hd (qd_replies w @ [answer ''*IDN?''])) in
        if got = strip (answer ''*IDN?'') then Inr ()
        else Inl (AssertionError (''iteration '' @ str_nat i @ '': '' @ what @ '', got '' @ py_repr got)))"
  by (simp add: clear_and_requery_def andthen_def queued_actions assert_that_def ret_def throw_def Let_def)

text \<open>A loop whose turns leave the world alone, and one whose first turn fails.\<close>

lemma for_each_same: "(\<And>x. x \<in> set xs \<Longrightarrow> f x w = (Inr (), w)) \<Longrightarrow> \<exists>us. for_each xs f w = (Inr us, w)"
  by (induction xs) (auto simp: andthen_def ret_def)

lemma for_each_fails: "fst (f x w) = Inl e \<Longrightarrow> fst (for_each (x # xs) f w) = Inl e"
  by (auto simp: andthen_def split: prod.split sum.split)

lemma fst_at_exit: "(\<And>w. fst (f w) = Inr ()) \<Longrightarrow> fst (at_exit m f w) = fst (m w)"
  by (auto simp: at_exit_def split: prod.split sum.split) (metis fst_conv Inr_not_Inl)

lemma abandoned_noted_ends: "fst (abandoned_noted (queued_script d answer its) w) = Inr ()"
  by (simp add: abandoned_noted_def andthen_def drain_def queued_actions ret_def split: prod.split list.split)

lemma abandoned_exit: "fst (at_exit m (abandoned_noted (queued_script d answer its)) w) = fst (m w)"
  by (rule fst_at_exit) (rule abandoned_noted_ends)

lemma verdict_by_end: "verdict r = (case fst r of Inr _ \<Rightarrow> PASS | Inl e \<Rightarrow> if isinstance e ''Skip'' then SKIP else FAIL)"
  by (simp add: verdict_def)

lemma assertion_not_skip [simp]: "\<not> isinstance (AssertionError msg) ''Skip''"
  by (simp add: AssertionError_def isinstance_def plain_exn_def)

definition fails :: "('w, 'a) act \<Rightarrow> 'w \<Rightarrow> bool" where
  "fails m w \<longleftrightarrow> (\<exists>msg. fst (m w) = Inl (AssertionError msg))"

lemma verdict_fails: "fails m w \<Longrightarrow> verdict (m w) = FAIL"
  by (auto simp: fails_def verdict_by_end)

lemma fails_andthen: "fails m w \<Longrightarrow> fails (andthen m f) w"
  by (auto simp: fails_def andthen_def split: prod.split)

lemma fails_after: "m w = (Inr x, w1) \<Longrightarrow> fails (f x) w1 \<Longrightarrow> fails (andthen m f) w"
  by (auto simp: fails_def andthen_def)

lemma first_turn_fails: "0 < n \<Longrightarrow> fails (f 0) w \<Longrightarrow> fails (for_each [0..<n] f) w"
  using for_each_fails[of f 0 w _ "[1..<n]"] by (auto simp: fails_def upt_conv_Cons simp del: for_each.simps)

lemma requery_leaks:
  "is_idn (qd_state w) = strip (answer ''*IDN?'') \<Longrightarrow> strip (hd (qd_replies w @ [answer ''*IDN?''])) \<noteq> strip (answer ''*IDN?'') \<Longrightarrow>
     fails (clear_and_requery (queued_script False answer iterations) i what) w"
  unfolding fails_def requery_keeps Let_def by (simp only: if_False sum.inject) blast

lemma abandon_turns:
  assumes "ready answer q w"
  shows "abandon_turn (queued_script True answer its) probe v i w = (Inr (), w)"
    "strip (answer probe) \<noteq> strip (answer ''*IDN?'') \<Longrightarrow> fails (abandon_turn (queued_script False answer its) probe v i) w"
  using assms unfolding abandon_turn_def
  by (simp_all add: andthen_def queued_actions requery_discards ready_def)
    (rule fails_after, rule queued_actions, rule requery_leaks, simp_all)

lemma lib_read_long:
  "100 < length r \<Longrightarrow> qd_replies w = [r] \<Longrightarrow> lib_read (io_cx (queued_script d answer its)) 100 w =
     (Inr (Some (take 100 r), StatusCode 0x3FFF0006), w\<lparr>qd_replies := [drop 100 r]\<rparr>)"
  by (simp add: lib_read_def lib_call_def call_def queued_script_def queued_client_def stream_code_def)

lemma mid_message_turns:
  assumes "ready answer q w" "100 < length (answer q)"
  shows "mid_message_turn (queued_script True answer its) q i w = (Inr (), w)"
    "strip (drop 100 (answer q)) \<noteq> strip (answer ''*IDN?'') \<Longrightarrow> fails (mid_message_turn (queued_script False answer its) q i) w"
proof -
  let ?w = "w\<lparr>qd_replies := [drop 100 (answer q)]\<rparr>"
  have turn: "mid_message_turn (queued_script d answer its) q i w = clear_and_requery (queued_script d answer its) i ''stream not resynced'' ?w" for d
    using assms by (simp add: mid_message_turn_def andthen_def queued_actions lib_read_long ready_def assert_that_def ret_def)
  show "mid_message_turn (queued_script True answer its) q i w = (Inr (), w)"
    using assms(1) by (simp add: turn requery_discards ready_def)
  assume "strip (drop 100 (answer q)) \<noteq> strip (answer ''*IDN?'')"
  then have "fails (clear_and_requery (queued_script False answer its) i ''stream not resynced'') ?w"
    using assms(1) by (intro requery_leaks) (simp_all add: ready_def)
  then show "fails (mid_message_turn (queued_script False answer its) q i) w" by (simp add: fails_def turn)
qed

lemma turns_pass: "(\<And>i. f i w = (Inr (), w)) \<Longrightarrow> \<exists>us. for_each [0..<n] f w = (Inr us, w)"
  by (rule for_each_same)

lemma reference_ready:
  assumes "ready answer q w"
  obtains w1 where "clear_reference (queued_script d answer its) q w = (Inr (answer q), w1)" "ready answer q w1"
proof (cases "is_reference (qd_state w)")
  case None
  then show ?thesis using assms
    by (intro that[of "w\<lparr>qd_state := (qd_state w)\<lparr>is_reference := Some (answer q)\<rparr>\<rparr>"])
      (simp_all add: clear_reference_def andthen_def queued_actions ready_def ret_def)
next
  case (Some r)
  then show ?thesis using assms by (intro that[of w]) (simp_all add: clear_reference_def andthen_def queued_actions ready_def ret_def)
qed

lemma clear_cycles_verdict:
  assumes "ready answer q w" "0 < its"
  shows "verdict (check_clear_cycles (queued_script d answer its) w) = PASS"
proof -
  let ?S = "queued_script d answer its"
  have "clear_and_requery ?S i what w = (Inr (), w)" for i what
    using assms by (simp add: clear_and_requery_def andthen_def queued_actions ready_def assert_that_def ret_def)
  then have "\<exists>us. for_each [0..<nat its] (\<lambda>i. clear_and_requery ?S i ''after clear *IDN? disagreed'') w = (Inr us, w)"
    by (intro turns_pass)
  then obtain us where "for_each [0..<nat its] (\<lambda>i. clear_and_requery ?S i ''after clear *IDN? disagreed'') w = (Inr us, w)" ..
  with assms(2) show ?thesis
    by (simp add: check_clear_cycles_def andthen_def queued_actions divided_def ret_def)
qed

lemma clear_discards_verdict:
  fixes d answer its stale
  defines "S \<equiv> queued_script d answer its"
  assumes "ready answer q w" "0 < its" "strip (answer (stale_probe S stale)) \<noteq> strip (answer ''*IDN?'')"
  shows "verdict (check_clear_discards_response stale S w) = (if d then PASS else FAIL)"
proof -
  let ?probe = "stale_probe S stale"
  let ?loop = "for_each [0..<nat (cycles S)] (abandon_turn S ?probe (strip (answer ?probe)))"
  have same: "w\<lparr>qd_replies := []\<rparr> = w" using assms(2) by (simp add: ready_def)
  have enter: "check_clear_discards_response stale S w =
      andthen (at_exit ?loop (abandoned_noted S)) (\<lambda>_. ret (str_int (cycles S) @ '' cycles, each abandoning a '' @ ?probe @ '' response'')) w"
    using assms(2,4) by (simp add: same check_clear_discards_response_def andthen_def catch_def queued_actions S_def ready_def ret_def Let_def)
  show ?thesis
  proof (cases d)
    case True
    then have "\<exists>us. ?loop w = (Inr us, w)" using abandon_turns(1)[OF assms(2)] by (intro turns_pass) (simp add: S_def)
    then obtain us where "?loop w = (Inr us, w)" ..
    then have "fst (at_exit ?loop (abandoned_noted S) w) = Inr us" by (simp add: S_def abandoned_exit)
    with enter True show ?thesis by (auto simp: andthen_def ret_def verdict_by_end split: prod.split sum.split)
  next
    case False
    have "fails ?loop w"
      using assms False abandon_turns(2)[OF assms(2)] by (intro first_turn_fails) (simp_all add: S_def queued_actions)
    then have "fails (at_exit ?loop (abandoned_noted S)) w" by (simp add: S_def fails_def abandoned_exit)
    from verdict_fails[OF fails_andthen[OF this]] enter False show ?thesis by simp
  qed
qed

lemma clear_mid_message_verdict:
  assumes "ready answer q w" "0 < its" "q \<noteq> []" "100 < length (answer q)" "strip (drop 100 (answer q)) \<noteq> strip (answer ''*IDN?'')"
  shows "verdict (check_clear_mid_message (queued_script d answer its) w) = (if d then PASS else FAIL)"
proof -
  let ?S = "queued_script d answer its"
  let ?loop = "for_each [0..<nat (cycles ?S)] (mid_message_turn ?S q)"
  obtain w1 where w1: "clear_reference ?S q w = (Inr (answer q), w1)" "ready answer q w1" using assms(1) by (rule reference_ready)
  have enter: "check_clear_mid_message ?S w =
      andthen ?loop (\<lambda>_. ret (str_int (cycles ?S) @ '' cycles, each clearing 100B into a '' @ str_nat (length (answer q)) @ ''B response'')) w1"
    using assms w1 by (simp add: check_clear_mid_message_def andthen_def queued_actions ready_def)
  show ?thesis
  proof (cases d)
    case True
    then have "\<exists>us. ?loop w1 = (Inr us, w1)" using mid_message_turns(1)[OF w1(2) assms(4)] by (intro turns_pass) simp
    then obtain us where "?loop w1 = (Inr us, w1)" ..
    with enter True show ?thesis by (simp add: andthen_def ret_def)
  next
    case False
    have "fails ?loop w1"
      using assms False mid_message_turns(2)[OF w1(2) assms(4)] by (intro first_turn_fails) (simp_all add: queued_actions)
    from verdict_fails[OF fails_andthen[OF this]] enter False show ?thesis by simp
  qed
qed

lemma large_reads_verdict:
  assumes "ready answer q w" "q \<noteq> []"
  shows "verdict (check_large_reads_intact (queued_script d answer its) w) = PASS"
proof -
  obtain w1 where "clear_reference (queued_script d answer its) q w = (Inr (answer q), w1)" "ready answer q w1"
    using assms(1) by (rule reference_ready)
  with assms show ?thesis
    by (simp add: check_large_reads_intact_def andthen_def queued_actions ready_def assert_that_def ret_def)
qed


definition example_queued :: queued where
  "example_queued = \<lparr>qd_replies = [], qd_state = sm_state example_stream, qd_stats = sm_stats example_stream\<rparr>"

definition example_answer :: "string \<Rightarrow> string" where
  "example_answer q = (if q = ''*LRN?'' then replicate 200 CHR ''x'' else if q = ''*IDN?'' then ''a,b'' else ''1999.0'')"


end
