(* ===== verification/Lock_Cycles.thy ===== *)
theory Lock_Cycles
  imports Device_Clear Lock_Semantics
begin

text \<open>
  \<^verbatim>\<open>checks/05_lock.py\<close>: locks taken and released many times, and two sessions in contention. The script holds both sessions for the whole run:
  session A is the context, session B a second client of it. The checks leave locks behind for the next one, so their order matters.
\<close>

section \<open>The script\<close>

record lock_state =
  ls_a_holds :: "bool option"
  ls_shared_key :: "attr_value option"      \<comment> \<open>absent until A took a shared lock\<close>
  ls_released :: bool

record 'w lock_script =
  lc_a :: "'w ctx"
  lc_other :: "'w client"
  lc_iterations :: int
  lc_state :: "'w \<Rightarrow> lock_state"
  lc_put :: "lock_state \<Rightarrow> 'w \<Rightarrow> 'w"
  lc_stats :: "'w \<Rightarrow> stats"
  lc_put_stats :: "stats \<Rightarrow> 'w \<Rightarrow> 'w"

definition lc_b :: "'w lock_script \<Rightarrow> 'w ctx" where
  "lc_b S = through (lc_a S) (lc_other S)"

definition lock_remembered :: "'w lock_script \<Rightarrow> (lock_state \<Rightarrow> lock_state) \<Rightarrow> ('w, unit) act" where
  "lock_remembered S f = change (\<lambda>w. lc_put S (f (lc_state S w)) w)"

definition lock_setup :: "string \<Rightarrow> 'w lock_script \<Rightarrow> ('w, 'r) act \<Rightarrow> ('w, 'r) act" where
  "lock_setup caller S body =
     open_inst (lc_a S) (open_inst (lc_b S) (
       andthen (inst_query (lc_a S) ''*IDN?'') (\<lambda>_.
       andthen (inst_query (lc_b S) ''*IDN?'') (\<lambda>_.
       andthen (drained (lc_a S)) (\<lambda>_.
       at_exit body (\<lambda>w.
         (case check_errors (instr.truncate (cx_client (lc_a S))) caller ''at end of run'' w (lc_stats S w) of
            (_, w1, st) \<Rightarrow> (Inr (), lc_put_stats S st w1))))))))"

definition got :: "'w ctx \<Rightarrow> status \<Rightarrow> ('w, string) act" where
  \<comment> \<open>\<^verbatim>\<open>assert st == StatusCode.success, f"got {st!r}"\<close>, and the same as the detail\<close>
  "got cx st = andthen (assert_that (st = code cx ''success'') (''got '' @ repr_status cx st)) (\<lambda>_. ret (''got '' @ repr_status cx st))"

section \<open>Cycles\<close>

definition exclusive_cycle :: "'w ctx \<Rightarrow> nat \<Rightarrow> ('w, unit) act" where
  "exclusive_cycle cx i =
     andthen (exclusive cx 2000) (\<lambda>(_, st).
     andthen (assert_that (st = code cx ''success'') (''cycle '' @ str_nat i @ '': lock returned '' @ repr_status cx st)) (\<lambda>_.
     andthen (lib_unlock cx) (\<lambda>st.
     assert_that (st = code cx ''success'') (''cycle '' @ str_nat i @ '': unlock returned '' @ repr_status cx st))))"

definition check_exclusive_cycles :: "'w lock_script \<Rightarrow> ('w, string) act" where
  "check_exclusive_cycles S =
     andthen (now (lc_a S)) (\<lambda>t0.
     andthen (for_each [0..<nat (lc_iterations S)] (exclusive_cycle (lc_a S))) (\<lambda>_.
     andthen (now (lc_a S)) (\<lambda>t1.
     let elapsed = t1 - t0 in
     andthen (divided (1000 * elapsed) (of_int (lc_iterations S))) (\<lambda>each.
     andthen (noted (lc_a S) (str_int (lc_iterations S) @ '' cycles in '' @ fmt_fixed 2 elapsed @ ''s ('' @ fmt_fixed 2 each @ '' ms each)'')) (\<lambda>_.
     ret (str_int (lc_iterations S) @ '' cycles''))))))"

definition shared_cycle :: "'w ctx \<Rightarrow> nat \<Rightarrow> ('w, unit) act" where
  "shared_cycle cx i =
     andthen (lib_lock cx ''shared'' 2000 (Some ''stress-shared'')) (\<lambda>(key, st).
     andthen (assert_that (st \<noteq> code cx ''error_invalid_protocol'') (''shared locks are refused on this transport ('' @ repr_status cx st @ '')'')) (\<lambda>_.
     andthen (assert_that (st = code cx ''success'' \<and> as_text (value_of key) = ''stress-shared'')
       (''cycle '' @ str_nat i @ '': '' @ repr_status cx st @ '', key='' @ cx_repr_value cx (value_of key))) (\<lambda>_.
     andthen (lib_unlock cx) (\<lambda>st.
     assert_that (st = code cx ''success'') (''cycle '' @ str_nat i @ '': unlock failed'')))))"

definition check_shared_cycles :: "'w lock_script \<Rightarrow> ('w, string) act" where
  "check_shared_cycles S =
     andthen (for_each [0..<nat (min (lc_iterations S) 50)] (shared_cycle (lc_a S))) (\<lambda>_.
     ret (str_int (lc_iterations S) @ '' cycles''))"

section \<open>The lock state\<close>

definition is_number :: "attr_value \<Rightarrow> int \<Rightarrow> bool" where
  \<comment> \<open>a value compared with an integer; the truth values are 1 and 0\<close>
  "is_number v i \<longleftrightarrow> v = AInt i \<or> v = ABool True \<and> i = 1 \<or> v = ABool False \<and> i = 0"

definition lock_state_is :: "'w ctx \<Rightarrow> int \<Rightarrow> ('w, string) act" where
  "lock_state_is cx expected =
     andthen (get_attribute cx ''resource_lock_state'') (\<lambda>(state, st).
     let detail = ''status '' @ repr_status cx st @ '', value '' @ cx_repr_value cx (value_of state) in
     andthen (assert_that (st = code cx ''success'' \<and> is_number (value_of state) expected) detail) (\<lambda>_. ret detail))"

definition check_lock_state_exclusive :: "'w lock_script \<Rightarrow> ('w, string) act" where
  \<comment> \<open>\<^verbatim>\<open>VI_EXCLUSIVE_LOCK\<close> is 1\<close>
  "check_lock_state_exclusive S = andthen (exclusive (lc_a S) 2000) (\<lambda>_. lock_state_is (lc_a S) 1)"

definition check_lock_state_cleared :: "'w lock_script \<Rightarrow> ('w, string) act" where
  \<comment> \<open>\<^verbatim>\<open>VI_NO_LOCK\<close> is 0\<close>
  "check_lock_state_cleared S = andthen (lib_unlock (lc_a S)) (\<lambda>_. lock_state_is (lc_a S) 0)"

definition check_redundant_unlock :: "'w lock_script \<Rightarrow> ('w, string) act" where
  "check_redundant_unlock S =
     andthen (lib_unlock (lc_a S)) (\<lambda>st.
     andthen (assert_that (st = code (lc_a S) ''error_session_not_locked'') (''got '' @ repr_status (lc_a S) st)) (\<lambda>_.
     ret (''got '' @ repr_status (lc_a S) st)))"

section \<open>Two sessions\<close>

definition check_a_locks :: "'w lock_script \<Rightarrow> ('w, string) act" where
  "check_a_locks S =
     andthen (exclusive (lc_a S) 2000) (\<lambda>(_, st).
     andthen (lock_remembered S (\<lambda>s. s\<lparr>ls_a_holds := Some (st = code (lc_a S) ''success'')\<rparr>)) (\<lambda>_. got (lc_a S) st))"

definition check_b_refused :: "'w lock_script \<Rightarrow> ('w, string) act" where
  "check_b_refused S =
     andthen (now (lc_a S)) (\<lambda>t0.
     andthen (exclusive (lc_b S) 500) (\<lambda>(_, st_b).
     andthen (now (lc_a S)) (\<lambda>t1.
     let waited = t1 - t0 in
     andthen
       (if st_b = code (lc_a S) ''success'' then
          andthen (catch ''Exception'' (andthen (inst_query (lc_b S) ''*IDN?'') (\<lambda>_. ret False)) (\<lambda>_. ret True)) (\<lambda>enforces.
          if enforces then ret ()
          else
            andthen (lib_unlock (lc_b S)) (\<lambda>_.
            throw (Skip (''this server acknowledges a lock but does not enforce it -- session B was granted an exclusive lock while A held one '' @
              ''and could still do I/O''))))
        else ret ()) (\<lambda>_.
     andthen (noted (lc_a S) (''B waited '' @ fmt_fixed 0 (waited * 1000) @ '' ms before being refused'')) (\<lambda>_.
     andthen (assert_that (st_b \<noteq> code (lc_a S) ''success'') (''got '' @ repr_status (lc_a S) st_b)) (\<lambda>_.
     ret (''got '' @ repr_status (lc_a S) st_b)))))))"

definition check_a_unlocks :: "'w lock_script \<Rightarrow> ('w, string) act" where
  "check_a_unlocks S =
     andthen (lib_unlock (lc_a S)) (\<lambda>st.
     andthen (lock_remembered S (\<lambda>s. s\<lparr>ls_a_holds := Some False\<rparr>)) (\<lambda>_. got (lc_a S) st))"

definition check_b_locks_after :: "'w lock_script \<Rightarrow> ('w, string) act" where
  "check_b_locks_after S =
     andthen (exclusive (lc_b S) 2000) (\<lambda>(_, st_b).
     andthen (lib_unlock (lc_b S)) (\<lambda>_. got (lc_a S) st_b))"

definition check_a_shared_lock :: "'w lock_script \<Rightarrow> ('w, string) act" where
  "check_a_shared_lock S =
     andthen (lib_lock (lc_a S) ''shared'' 2000 (Some ''team-key'')) (\<lambda>(key, st).
     andthen (lock_remembered S (\<lambda>s. s\<lparr>ls_shared_key := Some (value_of key)\<rparr>)) (\<lambda>_.
     let detail = ''got '' @ repr_status (lc_a S) st @ '', key '' @ cx_repr_value (lc_a S) (value_of key) in
     andthen (assert_that (st = code (lc_a S) ''success'') detail) (\<lambda>_. ret detail)))"

definition as_key :: "attr_value \<Rightarrow> string option" where
  \<comment> \<open>the key as it is handed to \<^verbatim>\<open>lib.lock\<close> again: a string, bytes or \<^verbatim>\<open>None\<close>\<close>
  "as_key v = (case v of AStr s \<Rightarrow> Some s | ABytes s \<Rightarrow> Some s | _ \<Rightarrow> None)"

definition check_b_joins_shared_lock :: "'w lock_script \<Rightarrow> ('w, string) act" where
  "check_b_joins_shared_lock S w =
     (case ls_shared_key (lc_state S w) of
        None \<Rightarrow> throw (Skip (''the check that takes A's shared lock did not run, so there is no key to join with'')) w
      | Some key \<Rightarrow>
          at_exit
            (andthen (lib_lock (lc_b S) ''shared'' 2000 (as_key key)) (\<lambda>(_, st_b). got (lc_a S) st_b))
            (andthen (lib_unlock (lc_b S)) (\<lambda>_. andthen (lib_unlock (lc_a S)) (\<lambda>_. ret ()))) w)"

section \<open>Cleaning up\<close>

fun unlock_up_to :: "nat \<Rightarrow> 'w ctx \<Rightarrow> ('w, unit) act" where
  "unlock_up_to 0 cx = ret ()"
| "unlock_up_to (Suc n) cx = andthen (lib_unlock cx) (\<lambda>st. if st \<noteq> code cx ''success'' then ret () else unlock_up_to n cx)"

definition release_everything :: "'w lock_script \<Rightarrow> ('w, unit) act" where
  "release_everything S w =
     (if ls_released (lc_state S w) then (Inr (), w)
      else
        andthen (lock_remembered S (\<lambda>s. s\<lparr>ls_released := True\<rparr>)) (\<lambda>_.
        andthen (unlock_up_to 4 (lc_a S)) (\<lambda>_. unlock_up_to 4 (lc_b S))) w)"

definition healthy :: "'w ctx \<Rightarrow> ('w, bool \<times> string) act" where
  "healthy cx = catch ''Exception''
     (andthen (asked cx ''*IDN?'') (\<lambda>reply. ret (reply \<noteq> [], ''the session answered '' @ py_repr reply)))
     (\<lambda>exc. ret (False, ''query was refused ('' @ visa_status exc @ '')''))"

definition check_a_healthy :: "'w lock_script \<Rightarrow> ('w, string) act" where
  "check_a_healthy S =
     andthen (release_everything S) (\<lambda>_.
     andthen (healthy (lc_a S)) (\<lambda>(ok, why). andthen (assert_that ok why) (\<lambda>_. ret why)))"

definition check_b_healthy :: "'w lock_script \<Rightarrow> ('w, string) act" where
  "check_b_healthy S =
     andthen (release_everything S) (\<lambda>_.
     andthen (healthy (lc_b S)) (\<lambda>(ok, why). andthen (assert_that ok why) (\<lambda>_. ret why)))"

section \<open>Two sessions and their locks\<close>

text \<open>The locks of \<open>Lock_Semantics\<close> with an attribute that tells the state of the lock. A server that does not enforce its locks
  acknowledges every request.\<close>

record lock_bench =
  lb_locks :: locks
  lb_state :: lock_state
  lb_stats :: stats

definition lock_number :: "locks \<Rightarrow> int" where
  "lock_number L = (if lk_owner L \<noteq> None then 1 else if lk_shared L False + lk_shared L True > 0 then 2 else 0)"

definition bench_lock :: "bool \<Rightarrow> bool \<Rightarrow> string \<Rightarrow> int \<Rightarrow> string option \<Rightarrow> locks \<Rightarrow> string \<times> locks" where
  "bench_lock enforced s kind timeout key L =
     (if \<not> enforced then (''success'', L)
      else if kind = ''exclusive'' then take_exclusive True s timeout L
      else take_shared True s timeout (case key of None \<Rightarrow> [] | Some k \<Rightarrow> k) L)"

definition bench_client :: "bool \<Rightarrow> bool \<Rightarrow> lock_bench client" where
  "bench_client enforced s = example_client\<lparr>
     cl_lock := (\<lambda>kind timeout key w.
       (case bench_lock enforced s kind timeout key (lb_locks w) of
          (st, L) \<Rightarrow> (Tuple (if kind = ''exclusive'' then ANone else AStr (lk_key L)) (StatusCode (lock_code st)), w\<lparr>lb_locks := L\<rparr>))),
     cl_op := (\<lambda>name arg w.
       if name = ''unlock'' then (case give_up s (lb_locks w) of (st, L) \<Rightarrow> (Single (StatusCode (lock_code st)), w\<lparr>lb_locks := L\<rparr>))
       else (Single (StatusCode 0), w)),
     cl_get_attribute := (\<lambda>a w. (Tuple (AInt (lock_number (lb_locks w))) (StatusCode 0), w))\<rparr>"

definition bench_script :: "bool \<Rightarrow> int \<Rightarrow> lock_bench lock_script" where
  "bench_script enforced iterations =
     \<lparr>lc_a = example_ctx\<lparr>cx_client := bench_client enforced False, cx_code := lock_code, cx_now := (\<lambda>w. lk_clock (lb_locks w))\<rparr>,
      lc_other = bench_client enforced True, lc_iterations = iterations, lc_state = lb_state, lc_put = (\<lambda>s w. w\<lparr>lb_state := s\<rparr>),
      lc_stats = lb_stats, lc_put_stats = (\<lambda>st w. w\<lparr>lb_stats := st\<rparr>)\<rparr>"

text \<open>A script runs its checks one after the other in the same world.\<close>

fun in_order :: "('w, string) act list \<Rightarrow> 'w \<Rightarrow> string list" where
  "in_order [] w = []"
| "in_order (m # ms) w = verdict (m w) # in_order ms (snd (m w))"

definition lock_script_checks :: "'w lock_script \<Rightarrow> ('w, string) act list" where
  \<comment> \<open>those that apply over HiSLIP, in the order of the file\<close>
  "lock_script_checks S = map (\<lambda>m. m S)
     [check_exclusive_cycles, check_shared_cycles, check_lock_state_exclusive, check_lock_state_cleared, check_redundant_unlock, check_a_locks,
      check_b_refused, check_a_unlocks, check_b_locks_after, check_a_shared_lock, check_b_joins_shared_lock, check_a_healthy, check_b_healthy]"

definition passes :: "('w, string) act \<Rightarrow> 'w \<Rightarrow> 'w \<Rightarrow> bool" where
  "passes m w w' \<longleftrightarrow> (\<exists>d. m w = (Inr d, w'))"

lemma in_order_passes: "passes m w w' \<Longrightarrow> in_order (m # ms) w = PASS # in_order ms w'"
  by (auto simp: passes_def)

definition idle :: "string \<Rightarrow> rat \<Rightarrow> locks" where
  \<comment> \<open>nothing is locked; the key is a leftover\<close>
  "idle key t = \<lparr>lk_owner = None, lk_shared = (\<lambda>_. 0), lk_key = key, lk_clock = t\<rparr>"

lemma no_shared [simp]: "(\<lambda>_. 0)(s := 0 :: nat) = (\<lambda>_. 0)"
  by auto

lemma bench_calls:
  fixes enforced iterations
  defines "S \<equiv> bench_script enforced iterations"
  shows "exclusive (lc_a S) t w =
       (case bench_lock enforced False ''exclusive'' t None (lb_locks w) of (st, L) \<Rightarrow> (Inr (Some ANone, StatusCode (lock_code st)), w\<lparr>lb_locks := L\<rparr>))"
    "exclusive (lc_b S) t w =
       (case bench_lock enforced True ''exclusive'' t None (lb_locks w) of (st, L) \<Rightarrow> (Inr (Some ANone, StatusCode (lock_code st)), w\<lparr>lb_locks := L\<rparr>))"
    "lib_lock (lc_a S) ''shared'' t key w =
       (case bench_lock enforced False ''shared'' t key (lb_locks w) of (st, L) \<Rightarrow> (Inr (Some (AStr (lk_key L)), StatusCode (lock_code st)), w\<lparr>lb_locks := L\<rparr>))"
    "lib_lock (lc_b S) ''shared'' t key w =
       (case bench_lock enforced True ''shared'' t key (lb_locks w) of (st, L) \<Rightarrow> (Inr (Some (AStr (lk_key L)), StatusCode (lock_code st)), w\<lparr>lb_locks := L\<rparr>))"
    "lib_unlock (lc_a S) w = (case give_up False (lb_locks w) of (st, L) \<Rightarrow> (Inr (StatusCode (lock_code st)), w\<lparr>lb_locks := L\<rparr>))"
    "lib_unlock (lc_b S) w = (case give_up True (lb_locks w) of (st, L) \<Rightarrow> (Inr (StatusCode (lock_code st)), w\<lparr>lb_locks := L\<rparr>))"
    "get_attribute (lc_a S) a w = (Inr (Some (AInt (lock_number (lb_locks w))), StatusCode 0), w)"
    "now (lc_a S) w = (Inr (lk_clock (lb_locks w)), w)"
    "inst_query (lc_a S) q w = (Inr ''a,b'', w)" "inst_query (lc_b S) q w = (Inr ''a,b'', w)"
    "code (lc_a S) name = StatusCode (if name = ''success'' then 0 else lock_code name)"
    "code (lc_b S) name = StatusCode (if name = ''success'' then 0 else lock_code name)"
    "noted (lc_a S) msg w = (Inr (), w)" "lock_remembered S f w = (Inr (), w\<lparr>lb_state := f (lb_state w)\<rparr>)"
    "lc_state S = lb_state" "lc_iterations S = iterations"
  by (simp_all add: S_def bench_script_def lc_b_def bench_client_def exclusive_def lib_lock_def lib_unlock_def lib_op_def lib_status_def lib_call_def
      call_def get_attribute_def now_def inst_query_def code_def noted_def lock_remembered_def change_def andthen_def ret_def example_ctx_def
      example_client_def through_def split: prod.split)

definition held_by :: "bool \<Rightarrow> string \<Rightarrow> rat \<Rightarrow> locks" where
  "held_by s key t = (idle key t)\<lparr>lk_owner := Some (s, 1)\<rparr>"

definition shared_by :: "(bool \<Rightarrow> nat) \<Rightarrow> string \<Rightarrow> rat \<Rightarrow> locks" where
  "shared_by f key t = (idle key t)\<lparr>lk_shared := f\<rparr>"

lemma lock_moves:
  "bench_lock True s ''exclusive'' n None (idle key t) = (''success'', held_by s key t)"
  "bench_lock True (\<not> s) ''exclusive'' n None (held_by s key t) = (''error_timeout'', held_by s key (t + of_int n / 1000))"
  "bench_lock True True ''exclusive'' n None (held_by False key t) = (''error_timeout'', held_by False key (t + of_int n / 1000))"
  "give_up s (held_by s key t) = (''success'', idle key t)"
  "give_up s (idle key t) = (''error_session_not_locked'', idle key t)"
  "length k \<le> 255 \<Longrightarrow> bench_lock True s ''shared'' n (Some k) (idle key t) = (''success'', shared_by ((\<lambda>_. 0)(s := Suc 0)) k t)"
  "length k \<le> 255 \<Longrightarrow> bench_lock True True ''shared'' n (Some k) (shared_by ((\<lambda>_. 0)(False := Suc 0)) k t) = (''success'', shared_by (\<lambda>_. Suc 0) k t)"
  "give_up False (shared_by ((\<lambda>_. 0)(False := Suc 0)) key t) = (''success'', idle key t)"
  "give_up True (shared_by (\<lambda>_. Suc 0) key t) = (''success'', shared_by ((\<lambda>_. 0)(False := Suc 0)) key t)"
  "bench_lock False s kind n key' L = (''success'', L)"
  by (auto simp: bench_lock_def take_exclusive_def take_shared_def give_up_def owned_by_def vain_def idle_def held_by_def shared_by_def
      split: bool.splits)

lemma lock_reads [simp]:
  "lock_number (idle key t) = 0" "lock_number (held_by s key t) = 1" "lk_key (shared_by f key t) = key"
  "lk_clock (idle key t) = t" "lk_clock (held_by s key t) = t"
  by (simp_all add: lock_number_def idle_def held_by_def shared_by_def)

lemma lock_codes [simp]:
  "lock_code ''success'' = 0" "lock_code ''error_timeout'' = - 0x4000FFEB" "lock_code ''error_session_not_locked'' = - 0x4000FF64"
  "lock_code ''error_invalid_protocol'' = - 0x4000FF87"
    "lock_code ''success_nested_exclusive'' = 0x3FFF009A"
  by (simp_all add: lock_code_def)

lemmas bench_eval = bench_calls lock_moves andthen_def assert_that_def ret_def throw_def Let_def

lemma cycles_idle:
  assumes "lb_locks w = idle key t"
  shows "exclusive_cycle (lc_a (bench_script True its)) i w = (Inr (), w)"
    "shared_cycle (lc_a (bench_script True its)) i w = (Inr (), w\<lparr>lb_locks := idle ''stress-shared'' t\<rparr>)"
proof -
  have "w\<lparr>lb_locks := idle key t\<rparr> = w" using assms by simp
  then show "exclusive_cycle (lc_a (bench_script True its)) i w = (Inr (), w)"
    using assms by (simp add: exclusive_cycle_def bench_eval)
  show "shared_cycle (lc_a (bench_script True its)) i w = (Inr (), w\<lparr>lb_locks := idle ''stress-shared'' t\<rparr>)"
    using assms by (simp add: shared_cycle_def bench_eval as_text_def value_of_def str_value_def)
qed

lemma exclusive_cycles_pass:
  assumes "lb_locks w = idle key t" "0 < its"
  shows "passes (check_exclusive_cycles (bench_script True its)) w w"
proof -
  have "\<exists>us. for_each [0..<nat its] (exclusive_cycle (lc_a (bench_script True its))) w = (Inr us, w)"
    using cycles_idle(1)[OF assms(1)] by (intro turns_pass)
  with assms(2) show ?thesis by (auto simp: passes_def check_exclusive_cycles_def andthen_def bench_calls Let_def divided_def ret_def)
qed

lemma shared_cycles_pass:
  assumes "lb_locks w = idle key t"
  shows "\<exists>w' key'. passes (check_shared_cycles (bench_script True its)) w w' \<and> lb_locks w' = idle key' t \<and> lb_state w' = lb_state w"
proof -
  have "\<exists>us w' key'. for_each xs (shared_cycle (lc_a (bench_script True its))) w = (Inr us, w') \<and> lb_locks w' = idle key' t \<and> lb_state w' = lb_state w"
    for xs
    using assms
  proof (induction xs arbitrary: w key)
    case (Cons x xs)
    from Cons.IH[of "w\<lparr>lb_locks := idle ''stress-shared'' t\<rparr>" "''stress-shared''"] show ?case
      by (auto simp: andthen_def cycles_idle(2)[OF Cons.prems] ret_def)
  qed (auto simp: ret_def)
  then obtain us w' key' where "for_each [0..<nat (min its 50)] (shared_cycle (lc_a (bench_script True its))) w = (Inr us, w')"
      "lb_locks w' = idle key' t" "lb_state w' = lb_state w" by blast
  then show ?thesis by (auto simp: passes_def check_shared_cycles_def andthen_def ret_def bench_calls)
qed

lemma idn_kept: "strip ''a,b'' = ''a,b''"
  by code_simp

lemma lock_state_checks_pass:
  "lb_locks w = idle key t \<Longrightarrow> passes (check_lock_state_exclusive (bench_script True its)) w (w\<lparr>lb_locks := held_by False key t\<rparr>)"
  "lb_locks w = held_by False key t \<Longrightarrow> passes (check_lock_state_cleared (bench_script True its)) w (w\<lparr>lb_locks := idle key t\<rparr>)"
  "lb_locks w = idle key t \<Longrightarrow> passes (check_redundant_unlock (bench_script True its)) w (w\<lparr>lb_locks := idle key t\<rparr>)"
  unfolding passes_def check_lock_state_exclusive_def check_lock_state_cleared_def check_redundant_unlock_def lock_state_is_def
  by (simp_all add: bench_eval value_of_def is_number_def del: append.simps)

lemma contention_checks_pass:
  "lb_locks w = idle key t \<Longrightarrow> passes (check_a_locks (bench_script True its)) w (w\<lparr>lb_locks := held_by False key t, lb_state := (lb_state w)\<lparr>ls_a_holds := Some True\<rparr>\<rparr>)"
  "lb_locks w = held_by False key t \<Longrightarrow> passes (check_b_refused (bench_script True its)) w (w\<lparr>lb_locks := held_by False key (t + 1 / 2)\<rparr>)"
  "lb_locks w = held_by False key t \<Longrightarrow> passes (check_a_unlocks (bench_script True its)) w (w\<lparr>lb_locks := idle key t, lb_state := (lb_state w)\<lparr>ls_a_holds := Some False\<rparr>\<rparr>)"
  "lb_locks w = idle key t \<Longrightarrow> passes (check_b_locks_after (bench_script True its)) w (w\<lparr>lb_locks := idle key t\<rparr>)"
  unfolding passes_def check_a_locks_def check_b_refused_def check_a_unlocks_def check_b_locks_after_def got_def
  by (simp_all add: bench_eval del: append.simps)

lemma shared_checks_pass:
  "lb_locks w = idle key t \<Longrightarrow> passes (check_a_shared_lock (bench_script True its)) w (w\<lparr>lb_locks := shared_by ((\<lambda>_. 0)(False := Suc 0)) ''team-key'' t, lb_state := (lb_state w)\<lparr>ls_shared_key := Some (AStr ''team-key'')\<rparr>\<rparr>)"
  "lb_locks w = shared_by ((\<lambda>_. 0)(False := Suc 0)) ''team-key'' t \<and> ls_shared_key (lb_state w) = Some (AStr ''team-key'') \<Longrightarrow>
     passes (check_b_joins_shared_lock (bench_script True its)) w (w\<lparr>lb_locks := idle ''team-key'' t\<rparr>)"
  unfolding passes_def check_a_shared_lock_def check_b_joins_shared_lock_def got_def at_exit_def as_key_def
  by (simp_all add: bench_eval value_of_def del: append.simps)

lemma release_idle:
  "lb_locks w = idle key t \<Longrightarrow> release_everything (bench_script True its) w = (Inr (), w\<lparr>lb_state := (lb_state w)\<lparr>ls_released := True\<rparr>\<rparr>)"
proof -
  assume w: "lb_locks w = idle key t"
  then have "w\<lparr>lb_locks := idle key t, lb_state := s\<rparr> = w\<lparr>lb_state := s\<rparr>" for s by simp
  with w show ?thesis by (simp add: release_everything_def bench_eval eval_nat_numeral)
qed

lemma healthy_checks_pass:
  assumes "lb_locks w = idle key t"
  shows "passes (check_a_healthy (bench_script True its)) w (w\<lparr>lb_state := (lb_state w)\<lparr>ls_released := True\<rparr>\<rparr>)"
    "passes (check_b_healthy (bench_script True its)) w (w\<lparr>lb_state := (lb_state w)\<lparr>ls_released := True\<rparr>\<rparr>)"
  unfolding passes_def check_a_healthy_def check_b_healthy_def healthy_def
  by (simp_all add: release_idle[OF assms] asked_def catch_def bench_eval idn_kept del: append.simps)



text \<open>What the cleaning up before the last two checks leaves: the loop stops at the first status other than \<^verbatim>\<open>VI_SUCCESS\<close>, which is what
  releasing one of several nested locks returns, so of \<open>n\<close> nested locks with \<open>n > 1\<close> it releases one.\<close>

theorem release_stops_at_nested:
  assumes "lb_locks w = (idle key t)\<lparr>lk_owner := Some (False, n)\<rparr>" "\<not> ls_released (lb_state w)"
  shows "lk_owner (lb_locks (snd (release_everything (bench_script True its) w))) = (if n \<le> 1 then None else Some (False, n - 1))"
  using assms
  by (cases n rule: nat.exhaust; cases "n - 1")
    (simp_all add: release_everything_def bench_calls andthen_def ret_def give_up_def owned_by_def idle_def eval_nat_numeral)

end
