(* ===== verification/Smoke.thy ===== *)
theory Smoke
  imports Lock_Cycles
begin

text \<open>
  \<^verbatim>\<open>checks/01_smoke.py\<close>: every operation once, on one session. Checks hand values on to later ones through \<^verbatim>\<open>STATE\<close>; a field of the record
  below is \<open>None\<close> as long as its key is missing. Two calls of the library that no other script makes this way, writing and reading the status
  byte with their status, are fields of the script.
\<close>

section \<open>The script\<close>

record smoke_state =
  sk_idn :: "string option"
  sk_read :: "string option option"
  sk_short_read :: "string option option"
  sk_exclusive_key :: "attr_value option"
  sk_shared_key :: "attr_value option"
  sk_ren_baseline :: "rat option"

record 'w smoke_script =
  sk_cx :: "'w ctx"
  sk_lib_write :: "string \<Rightarrow> 'w \<Rightarrow> int call_end \<times> 'w"
  sk_lib_read_stb :: "'w \<Rightarrow> int call_end \<times> 'w"
  sk_state :: "'w \<Rightarrow> smoke_state"
  sk_put :: "smoke_state \<Rightarrow> 'w \<Rightarrow> 'w"
  sk_stats :: "'w \<Rightarrow> stats"
  sk_put_stats :: "stats \<Rightarrow> 'w \<Rightarrow> 'w"

definition smoke_remembered :: "'w smoke_script \<Rightarrow> (smoke_state \<Rightarrow> smoke_state) \<Rightarrow> ('w, unit) act" where
  "smoke_remembered S f = change (\<lambda>w. sk_put S (f (sk_state S w)) w)"

definition smoke_recalled :: "'w smoke_script \<Rightarrow> ('w, smoke_state) act" where
  "smoke_recalled S w = (Inr (sk_state S w), w)"

definition missing_key :: "string \<Rightarrow> exn" where
  "missing_key key = plain_exn [''KeyError'', ''LookupError'', ''Exception'', ''BaseException''] (py_repr key)"

definition bytes_and_none :: exn where
  \<comment> \<open>adding bytes and \<^verbatim>\<open>None\<close>\<close>
  "bytes_and_none = plain_exn [''TypeError'', ''Exception'', ''BaseException''] ''NoneType''"

definition recalled_idn :: "'w smoke_script \<Rightarrow> ('w, string) act" where
  "recalled_idn S = andthen (smoke_recalled S) (\<lambda>s. case sk_idn s of None \<Rightarrow> throw (missing_key ''idn'') | Some idn \<Rightarrow> ret idn)"

definition smoke_errors_checked :: "'w smoke_script \<Rightarrow> string \<Rightarrow> string \<Rightarrow> ('w, unit) act" where
  "smoke_errors_checked S caller context w =
     (case check_errors (instr.truncate (cx_client (sk_cx S))) caller context w (sk_stats S w) of
        (_, w1, st) \<Rightarrow> (Inr (), sk_put_stats S st w1))"

definition smoke_rate :: "'w ctx \<Rightarrow> nat \<Rightarrow> ('w, rat) act" where
  "smoke_rate cx n =
     andthen (now cx) (\<lambda>start.
     andthen (for_each [0..<n] (\<lambda>_. inst_query cx ''*IDN?'')) (\<lambda>_.
     andthen (now cx) (\<lambda>t. ret (of_nat n / max (t - start) (1 / 10 ^ 6)))))"

definition smoke_setup :: "string \<Rightarrow> 'w smoke_script \<Rightarrow> ('w, 'r) act \<Rightarrow> ('w, 'r) act" where
  "smoke_setup caller S body = open_inst (sk_cx S) (at_exit body (smoke_errors_checked S caller ''at end of run''))"

section \<open>Reading and writing\<close>

definition check_idn :: "'w smoke_script \<Rightarrow> ('w, string) act" where
  "check_idn S =
     andthen (asked (sk_cx S) ''*IDN?'') (\<lambda>idn.
     andthen (smoke_remembered S (\<lambda>s. s\<lparr>sk_idn := Some idn\<rparr>)) (\<lambda>_.
     andthen (drained (sk_cx S)) (\<lambda>_.
     andthen (assert_that (idn \<noteq> []) ''the instrument answered *IDN? with an empty string'') (\<lambda>_. ret idn))))"

definition check_write_status :: "'w smoke_script \<Rightarrow> ('w, string) act" where
  "check_write_status S = andthen (lib_call ''write'' (sk_lib_write S (''*IDN?'' @ nl))) (\<lambda>(_, st). got (sk_cx S) st)"

definition check_read_status :: "'w smoke_script \<Rightarrow> ('w, string) act" where
  "check_read_status S =
     andthen (lib_read (sk_cx S) 4096) (\<lambda>(data, st).
     andthen (smoke_remembered S (\<lambda>s. s\<lparr>sk_read := Some data\<rparr>)) (\<lambda>_. got (sk_cx S) st))"

definition is_reply :: "'w smoke_script \<Rightarrow> string \<Rightarrow> ('w, string) act" where
  \<comment> \<open>\<^verbatim>\<open>assert got == STATE["idn"].encode(), f"got {got!r}"\<close>\<close>
  "is_reply S data =
     andthen (recalled_idn S) (\<lambda>idn.
     let detail = ''got '' @ repr_data (sk_cx S) (Some data) in
     andthen (assert_that (data = idn) detail) (\<lambda>_. ret detail))"

definition check_read_content :: "'w smoke_script \<Rightarrow> ('w, string) act" where
  "check_read_content S =
     andthen (smoke_recalled S) (\<lambda>s.
     case sk_read s of
       None \<Rightarrow> throw (Skip ''the read did not complete, so there is nothing to compare'')
     | Some None \<Rightarrow> throw no_bytes
     | Some (Some data) \<Rightarrow> is_reply S (strip data))"

definition check_short_read_status :: "'w smoke_script \<Rightarrow> ('w, string) act" where
  "check_short_read_status S =
     andthen (lib_write (sk_cx S) (''*IDN?'' @ nl)) (\<lambda>_.
     andthen (lib_read (sk_cx S) 4) (\<lambda>(data, st).
     andthen (smoke_remembered S (\<lambda>s. s\<lparr>sk_short_read := Some data\<rparr>)) (\<lambda>_.
     let detail = ''got '' @ repr_status (sk_cx S) st in
     andthen (assert_that (st = code (sk_cx S) ''success_max_count_read'') detail) (\<lambda>_. ret detail))))"

definition check_short_read_remainder :: "'w smoke_script \<Rightarrow> ('w, string) act" where
  "check_short_read_remainder S =
     andthen (smoke_recalled S) (\<lambda>s.
     case sk_short_read s of
       None \<Rightarrow> throw (Skip ''the short read did not complete, so there is no remainder'')
     | Some short \<Rightarrow>
         andthen (lib_read (sk_cx S) 4096) (\<lambda>(rest, _).
         case (short, rest) of
           (Some data, Some tail) \<Rightarrow> is_reply S (strip (data @ tail))
         | _ \<Rightarrow> throw bytes_and_none))"

section \<open>Status byte, trigger and clear\<close>

definition smoke_read_stb :: "'w smoke_script \<Rightarrow> ('w, string) act" where
  "smoke_read_stb S =
     andthen (lib_call ''read_stb'' (sk_lib_read_stb S)) (\<lambda>(stb, st).
     andthen
       (if st = code (sk_cx S) ''success'' then
          (case stb of
             Some b \<Rightarrow> noted (sk_cx S) (''status byte = '' @ fmt_hex 4 b)
           | None \<Rightarrow> throw bytes_and_none)
        else ret ()) (\<lambda>_. got (sk_cx S) st))"

definition check_assert_trigger :: "string \<Rightarrow> 'w smoke_script \<Rightarrow> ('w, string) act" where
  "check_assert_trigger caller S =
     at_exit (andthen (lib_op (sk_cx S) ''assert_trigger'' ''default'') (got (sk_cx S)))
       (smoke_errors_checked S caller ''after assert_trigger'')"

definition check_non_default_trigger_protocol :: "'w smoke_script \<Rightarrow> ('w, string) act" where
  "check_non_default_trigger_protocol S =
     andthen (lib_op (sk_cx S) ''assert_trigger'' ''on'') (\<lambda>st.
     if st = code (sk_cx S) ''success'' then
       throw (Skip (''it was accepted ('' @ repr_status (sk_cx S) st @ ''); VPP-4.3 6.1.7 offers VI_ERROR_INV_PROT for this but does not require it, '' @
         ''and this backend refuses it on the other transport''))
     else
       andthen (assert_that (st \<in> {code (sk_cx S) ''error_nonsupported_operation'', code (sk_cx S) ''error_invalid_protocol''})
         (''got '' @ repr_status (sk_cx S) st)) (\<lambda>_.
       ret (''got '' @ repr_status (sk_cx S) st)))"

definition check_clear_status :: "'w smoke_script \<Rightarrow> ('w, string) act" where
  "check_clear_status S = andthen (lib_op (sk_cx S) ''clear'' []) (got (sk_cx S))"

definition check_usable_after_clear :: "'w smoke_script \<Rightarrow> ('w, string) act" where
  "check_usable_after_clear S =
     andthen (asked (sk_cx S) ''*IDN?'') (\<lambda>reply.
     andthen (recalled_idn S) (\<lambda>idn.
     andthen (assert_that (reply = idn) (''got '' @ py_repr reply)) (\<lambda>_. ret (''got '' @ py_repr reply))))"

section \<open>Locks\<close>

definition check_exclusive_lock :: "'w smoke_script \<Rightarrow> ('w, string) act" where
  "check_exclusive_lock S =
     andthen (exclusive (sk_cx S) 2000) (\<lambda>(key, st).
     andthen (smoke_remembered S (\<lambda>s. s\<lparr>sk_exclusive_key := Some (value_of key)\<rparr>)) (\<lambda>_. got (sk_cx S) st))"

definition check_exclusive_lock_key :: "'w smoke_script \<Rightarrow> ('w, string) act" where
  "check_exclusive_lock_key S =
     andthen (smoke_recalled S) (\<lambda>s.
     case sk_exclusive_key s of
       None \<Rightarrow> throw (Skip ''the exclusive lock was not taken, so there is no key'')
     | Some key \<Rightarrow>
         if key \<notin> {AStr [], ANone, ABytes []} then
           throw (Skip (''this implementation returns an access key for an exclusive lock, where VPP-4.3 leaves it unused: '' @ cx_repr_value (sk_cx S) key))
         else ret (''got '' @ cx_repr_value (sk_cx S) key))"

definition check_lock_state_attribute :: "'w smoke_script \<Rightarrow> ('w, string) act" where
  "check_lock_state_attribute S = lock_state_is (sk_cx S) 1"

definition check_unlock_status :: "'w smoke_script \<Rightarrow> ('w, string) act" where
  "check_unlock_status S = andthen (lib_unlock (sk_cx S)) (got (sk_cx S))"

definition smoke_lock_state_cleared :: "'w smoke_script \<Rightarrow> ('w, string) act" where
  "smoke_lock_state_cleared S = lock_state_is (sk_cx S) 0"

definition check_shared_lock :: "'w smoke_script \<Rightarrow> ('w, string) act" where
  "check_shared_lock S =
     andthen (lib_lock (sk_cx S) ''shared'' 2000 (Some ''smoke-key'')) (\<lambda>(key, st).
     andthen (smoke_remembered S (\<lambda>s. s\<lparr>sk_shared_key := Some (value_of key)\<rparr>)) (\<lambda>_.
     andthen
       (if cx_protocol (sk_cx S) = ''vxi11'' then
          noted (sk_cx S) (''shared-lock key is not meaningful over VXI-11, whose device_lock carries no lock type or key; got '' @
            cx_repr_value (sk_cx S) (value_of key))
        else ret ()) (\<lambda>_. got (sk_cx S) st)))"

definition check_shared_lock_key :: "'w smoke_script \<Rightarrow> ('w, string) act" where
  "check_shared_lock_key S =
     andthen (smoke_recalled S) (\<lambda>s.
     case sk_shared_key s of
       None \<Rightarrow> throw (Skip ''the shared lock was not taken, so there is no key'')
     | Some key \<Rightarrow>
         let text = (case key of ABytes b \<Rightarrow> AStr (decode_ascii b) | _ \<Rightarrow> key); detail = ''got '' @ cx_repr_value (sk_cx S) key in
         andthen (assert_that (text = AStr ''smoke-key'') detail) (\<lambda>_. ret detail))"

definition check_unlock_when_unlocked :: "'w smoke_script \<Rightarrow> ('w, string) act" where
  "check_unlock_when_unlocked S =
     andthen (lib_unlock (sk_cx S)) (\<lambda>_.
     andthen (lib_unlock (sk_cx S)) (\<lambda>st.
     andthen (assert_that (st = code (sk_cx S) ''error_session_not_locked'') (''got '' @ repr_status (sk_cx S) st)) (\<lambda>_.
     ret (''got '' @ repr_status (sk_cx S) st))))"

section \<open>Remote and local\<close>

definition VXI11_REN_MODES :: "string list" where
  "VXI11_REN_MODES = [''asrt_address'', ''asrt_address_llo'', ''address_gtl'', ''deassert_gtl'']"

definition ren_baseline :: "'w smoke_script \<Rightarrow> ('w, rat) act" where
  "ren_baseline S =
     andthen (smoke_recalled S) (\<lambda>s.
     case sk_ren_baseline s of
       Some r \<Rightarrow> ret r
     | None \<Rightarrow>
         andthen (smoke_rate (sk_cx S) 8) (\<lambda>r.
         andthen (smoke_remembered S (\<lambda>s. s\<lparr>sk_ren_baseline := Some r\<rparr>)) (\<lambda>_. ret r)))"

definition smoke_ren_accepted :: "'w smoke_script \<Rightarrow> string \<Rightarrow> ('w, string) act" where
  "smoke_ren_accepted S mode =
     andthen (ren_baseline S) (\<lambda>_. andthen (lib_op (sk_cx S) ''gpib_control_ren'' mode) (got (sk_cx S)))"

definition smoke_ren_refused :: "'w smoke_script \<Rightarrow> string \<Rightarrow> ('w, string) act" where
  "smoke_ren_refused S mode =
     andthen (ren_baseline S) (\<lambda>_.
     andthen (lib_op (sk_cx S) ''gpib_control_ren'' mode) (\<lambda>st.
     andthen (assert_that (st \<in> {code (sk_cx S) ''error_nonsupported_operation'', code (sk_cx S) ''error_invalid_mode''})
       (''got '' @ repr_status (sk_cx S) st)) (\<lambda>_.
     ret (''got '' @ repr_status (sk_cx S) st))))"

definition ren_checks :: "'w smoke_script \<Rightarrow> string list \<Rightarrow> (string \<times> string list \<times> ('w, string) act) list" where
  \<comment> \<open>name, protocols and body, for the members of \<^verbatim>\<open>RENLineOperation\<close>\<close>
  "ren_checks S modes = concat (map (\<lambda>mode.
     (let vxi11_can = mode \<in> set VXI11_REN_MODES in
      (''REN '' @ mode @ '' is accepted'', if vxi11_can then [''vxi11'', ''hislip''] else [''hislip''], smoke_ren_accepted S mode) #
      (if \<not> vxi11_can then [(''REN '' @ mode @ '' is refused over VXI-11'', [''vxi11''], smoke_ren_refused S mode)] else []))) modes)"

definition check_throughput_after_ren :: "'w smoke_script \<Rightarrow> ('w, string) act" where
  "check_throughput_after_ren S =
     andthen (lib_op (sk_cx S) ''gpib_control_ren'' (if cx_protocol (sk_cx S) = ''vxi11'' then ''asrt_address'' else ''asrt'')) (\<lambda>_.
     andthen (ren_baseline S) (\<lambda>baseline.
     andthen (smoke_rate (sk_cx S) 8) (\<lambda>restored.
     andthen (noted (sk_cx S) (''query rate '' @ fmt_fixed 0 baseline @ ''/s before the REN walk, '' @ fmt_fixed 0 restored @ ''/s after'')) (\<lambda>_.
     let detail = fmt_fixed 0 baseline @ ''/s -> '' @ fmt_fixed 0 restored @
       ''/s; a large drop means the closing REN assert did not take effect and the instrument was left in local mode'' in
     andthen (assert_that (restored > baseline / 4) detail) (\<lambda>_. ret detail)))))"

definition check_flush :: "'w smoke_script \<Rightarrow> ('w, string) act" where
  "check_flush S =
     andthen (lib_op (sk_cx S) ''flush'' ''discard_read_buffer'') (\<lambda>st.
     andthen (assert_that (st \<in> {code (sk_cx S) ''success'', code (sk_cx S) ''error_nonsupported_operation''})
       (''got '' @ repr_status (sk_cx S) st)) (\<lambda>_.
     ret (''got '' @ repr_status (sk_cx S) st)))"

section \<open>Attributes\<close>

definition COMMON_ATTRIBUTES :: "(string \<times> bool option) list" where
  "COMMON_ATTRIBUTES =
     [(''tcpip_address'', None), (''tcpip_hostname'', None), (''tcpip_device_name'', None), (''send_end_enabled'', None), (''termchar'', None),
      (''termchar_enabled'', None), (''io_prot'', None)]"

definition HISLIP_ATTRIBUTES :: "(string \<times> bool option) list" where
  "HISLIP_ATTRIBUTES =
     [(''tcpip_is_hislip'', Some True), (''tcpip_hislip_version'', None), (''tcpip_hislip_max_message_kb'', None),
      (''tcpip_hislip_overlap_enable'', None)]"

definition is_truth :: "attr_value \<Rightarrow> bool \<Rightarrow> bool" where
  \<comment> \<open>a value compared with a truth value\<close>
  "is_truth v b = is_number v (if b then 1 else 0)"

definition attribute_readable :: "'w smoke_script \<Rightarrow> string \<times> bool option \<Rightarrow> ('w, string) act" where
  "attribute_readable S = (\<lambda>(name, expected).
     andthen (get_attribute (sk_cx S) name) (\<lambda>(v, st).
     let value = value_of v; shown = ''= '' @ cx_repr_value (sk_cx S) value in
     if st \<noteq> code (sk_cx S) ''success'' then throw (AssertionError (''not readable ('' @ repr_status (sk_cx S) st @ '')''))
     else
       case expected of
         None \<Rightarrow> andthen (assert_that (value \<noteq> ANone) shown) (\<lambda>_. ret shown)
       | Some b \<Rightarrow>
           let detail = shown @ '' (wanted '' @ cx_repr_value (sk_cx S) (ABool b) @ '')'' in
           andthen (assert_that (is_truth value b) detail) (\<lambda>_. ret detail)))"

definition smoke_attribute_checks :: "'w smoke_script \<Rightarrow> (string \<times> string \<times> string list \<times> ('w, string) act) list" where
  \<comment> \<open>name, rule, protocols and body\<close>
  "smoke_attribute_checks S = concat (map (\<lambda>(attributes, protocols).
     map (\<lambda>a. (fst a @ '' is readable'', ''VPP-4.3 RULE 5.1.12'', protocols, attribute_readable S a)) attributes)
     [(COMMON_ATTRIBUTES, [''vxi11'', ''hislip'']), (HISLIP_ATTRIBUTES, [''hislip''])])"

definition ROUND_TRIPS :: "(string \<times> bool \<times> string) list" where
  "ROUND_TRIPS =
     [(''tcpip_keepalive'', True, ''keepalive can be turned on''), (''termchar_enabled'', True, ''VI_ATTR_TERMCHAR_EN round trips''),
      (''send_end_enabled'', False, ''VI_ATTR_SEND_END_EN round trips'')]"

definition round_trip :: "'w smoke_script \<Rightarrow> string \<Rightarrow> bool \<Rightarrow> bool \<Rightarrow> ('w, string) act" where
  "round_trip S attribute value first =
     andthen
       (if first then
          andthen (get_attribute (sk_cx S) ''interface_instrument_name'') (\<lambda>(seen, _).
          noted (sk_cx S) (''interface_instrument_name = '' @ cx_repr_value (sk_cx S) (value_of seen)))
        else ret ()) (\<lambda>_.
     andthen (set_attribute (sk_cx S) attribute (ABool value)) (\<lambda>(_, set_st).
     andthen (get_attribute (sk_cx S) attribute) (\<lambda>(read, get_st).
     let detail = ''set '' @ repr_status (sk_cx S) set_st @ '', read back '' @ cx_repr_value (sk_cx S) (value_of read) in
     andthen
       (at_exit (assert_that (set_st = code (sk_cx S) ''success'' \<and> get_st = code (sk_cx S) ''success'' \<and> is_truth (value_of read) value) detail)
         (andthen (set_attribute (sk_cx S) attribute (ABool (\<not> value))) (\<lambda>_. ret ()))) (\<lambda>_.
     ret detail))))"

definition round_trip_checks :: "'w smoke_script \<Rightarrow> (string \<times> ('w, string) act) list" where
  "round_trip_checks S =
     map (\<lambda>(index, attribute, value, label). (label, round_trip S attribute value (index = 0))) (enumerate 0 ROUND_TRIPS)"

definition check_srq_enable_disable :: "'w smoke_script \<Rightarrow> ('w, string) act" where
  "check_srq_enable_disable S =
     andthen (catch ''Exception''
       (andthen (effect (cl_event (cx_client (sk_cx S)) ''enable_event'' ''SRQ, QUEUE'')) (\<lambda>_.
        effect (cl_event (cx_client (sk_cx S)) ''disable_event'' ''SRQ, QUEUE'')))
       (\<lambda>exc. throw (AssertionError (type_name exc @ '': '' @ e_msg exc)))) (\<lambda>_.
     ret ''viEnableEvent and viDisableEvent both returned without raising'')"

section \<open>A failed call leaves its key behind\<close>

definition keeps_state :: "'w smoke_script \<Rightarrow> bool" where
  \<comment> \<open>what is stored under \<^verbatim>\<open>STATE\<close> is what is read from it\<close>
  "keeps_state S \<longleftrightarrow> (\<forall>s w. sk_state S (sk_put S s w) = s)"

lemma smoke_state_actions:
  "smoke_remembered S f w = (Inr (), sk_put S (f (sk_state S w)) w)" "smoke_recalled S w = (Inr (sk_state S w), w)"
  by (simp_all add: smoke_remembered_def change_def smoke_recalled_def)

lemma got_verdict: "verdict (got cx st w) = (if st = code cx ''success'' then PASS else FAIL)" "snd (got cx st w) = w"
  by (simp_all add: got_def assert_that_def andthen_def ret_def throw_def)

lemma failed_read:
  assumes "keeps_state S" "lib_read (sk_cx S) 4096 w = (Inr (None, st), w1)" "st \<noteq> code (sk_cx S) ''success''"
  shows "verdict (check_read_status S w) = FAIL" "fst (check_read_content S (snd (check_read_status S w))) = Inl no_bytes"
  using assms
  by (simp_all add: check_read_status_def check_read_content_def andthen_def smoke_state_actions got_verdict keeps_state_def throw_def)

lemma failed_short_read:
  assumes "keeps_state S" "lib_write (sk_cx S) (''*IDN?'' @ nl) w = (Inr (), w1)" "lib_read (sk_cx S) 4 w1 = (Inr (None, st), w2)"
    and "st \<noteq> code (sk_cx S) ''success_max_count_read''" "\<And>w. \<exists>r w'. lib_read (sk_cx S) 4096 w = (Inr r, w')"
  shows "verdict (check_short_read_status S w) = FAIL"
    "fst (check_short_read_remainder S (snd (check_short_read_status S w))) = Inl bytes_and_none"
proof -
  let ?w = "sk_put S ((sk_state S w2)\<lparr>sk_short_read := Some None\<rparr>) w2"
  have first: "check_short_read_status S w = (Inl (AssertionError (''got '' @ repr_status (sk_cx S) st)), ?w)"
    using assms(2-4) by (simp add: check_short_read_status_def andthen_def smoke_state_actions Let_def assert_that_def throw_def)
  then show "verdict (check_short_read_status S w) = FAIL" by simp
  obtain rest st' w3 where "lib_read (sk_cx S) 4096 ?w = (Inr (rest, st'), w3)" using assms(5)[of ?w] by auto
  then show "fst (check_short_read_remainder S (snd (check_short_read_status S w))) = Inl bytes_and_none"
    using assms(1) by (simp add: first check_short_read_remainder_def andthen_def smoke_state_actions keeps_state_def throw_def)
qed

lemma refused_lock:
  assumes "keeps_state S" "exclusive (sk_cx S) 2000 w = (Inr (None, st), w1)" "st \<noteq> code (sk_cx S) ''success''"
  shows "verdict (check_exclusive_lock S w) = FAIL" "verdict (check_exclusive_lock_key S (snd (check_exclusive_lock S w))) = PASS"
  using assms
  by (simp_all add: check_exclusive_lock_def check_exclusive_lock_key_def andthen_def smoke_state_actions got_verdict keeps_state_def value_of_def ret_def)

text \<open>A check that depends on a failed one is not skipped, although \<^verbatim>\<open>STATE\<close> is there to let it say why it could not run: the value is
  stored before the status is looked at, and a failed call stores \<^verbatim>\<open>None\<close>. After a read that returned no data the check of what was read
  ends with an \<^verbatim>\<open>AttributeError\<close> and fails; after a short read without data the check of the remainder ends with a
  \<^verbatim>\<open>TypeError\<close>; and after a lock that was refused the check that its access key is empty passes. This holds for every library.\<close>

theorem dependent_checks_not_skipped:
  assumes "keeps_state S" "\<forall>w. \<exists>r w'. lib_read (sk_cx S) 4096 w = (Inr r, w')"
  shows "(lib_read (sk_cx S) 4096 w = (Inr (None, st), w1) \<and> st \<noteq> code (sk_cx S) ''success'' \<longrightarrow>
       verdict (check_read_status S w) = FAIL \<and> fst (check_read_content S (snd (check_read_status S w))) = Inl no_bytes) \<and>
    (lib_write (sk_cx S) (''*IDN?'' @ nl) w = (Inr (), w1) \<and> lib_read (sk_cx S) 4 w1 = (Inr (None, st), w2) \<and>
       st \<noteq> code (sk_cx S) ''success_max_count_read'' \<longrightarrow>
       verdict (check_short_read_status S w) = FAIL \<and>
       fst (check_short_read_remainder S (snd (check_short_read_status S w))) = Inl bytes_and_none) \<and>
    (exclusive (sk_cx S) 2000 w = (Inr (None, st), w1) \<and> st \<noteq> code (sk_cx S) ''success'' \<longrightarrow>
       verdict (check_exclusive_lock S w) = FAIL \<and> verdict (check_exclusive_lock_key S (snd (check_exclusive_lock S w))) = PASS)"
  using failed_read[OF assms(1)] failed_short_read[OF assms(1)] refused_lock[OF assms(1)] assms(2) by blast

text \<open>A library that answers every read and every lock with a timeout.\<close>

definition mute_script :: "smoke_state smoke_script" where
  "mute_script =
     \<lparr>sk_cx = example_ctx\<lparr>cx_client := example_client\<lparr>cl_read := (\<lambda>n w. (Single (StatusCode (- 0x4000FFEB)), w)),
        cl_lock := (\<lambda>kind t key w. (Single (StatusCode (- 0x4000FFEB)), w))\<rparr>\<rparr>,
      sk_lib_write = (\<lambda>s w. (Tuple 6 (StatusCode 0), w)), sk_lib_read_stb = (\<lambda>w. (Tuple 0 (StatusCode 0), w)),
      sk_state = id, sk_put = (\<lambda>s _. s), sk_stats = (\<lambda>_. new_stats ''01_smoke'' False None 0), sk_put_stats = (\<lambda>_ w. w)\<rparr>"

definition fresh_smoke :: smoke_state where
  "fresh_smoke = \<lparr>sk_idn = None, sk_read = None, sk_short_read = None, sk_exclusive_key = None, sk_shared_key = None, sk_ren_baseline = None\<rparr>"

theorem dependent_checks_not_skipped_witness:
  "fst (check_read_content mute_script (snd (check_read_status mute_script fresh_smoke))) = Inl no_bytes \<and>
   fst (check_short_read_remainder mute_script (snd (check_short_read_status mute_script fresh_smoke))) = Inl bytes_and_none \<and>
   verdict (check_exclusive_lock_key mute_script (snd (check_exclusive_lock mute_script fresh_smoke))) = PASS"
proof -
  have calls: "lib_read (sk_cx mute_script) n w = (Inr (None, StatusCode (- 0x4000FFEB)), w)"
    "exclusive (sk_cx mute_script) n w = (Inr (None, StatusCode (- 0x4000FFEB)), w)"
    "lib_write (sk_cx mute_script) m w = (Inr (), w)" for n m w
    by (simp_all add: lib_read_def exclusive_def lib_lock_def lib_call_def call_def lib_write_def effect_def mute_script_def example_client_def)
  have "keeps_state mute_script" by (simp add: keeps_state_def mute_script_def)
  then show ?thesis
    using dependent_checks_not_skipped[of mute_script fresh_smoke "StatusCode (- 0x4000FFEB)" fresh_smoke fresh_smoke]
    by (simp add: calls) (simp add: code_def mute_script_def example_ctx_def)
qed

end
