(* ===== verification/Terminate.thy ===== *)
theory Terminate
  imports Lock_Cycles Events
begin

text \<open>
  \<^verbatim>\<open>checks/06_terminate.py\<close>: a read that blocks in a thread of its own is terminated from the main thread. The thread is a parameter: starting
  it, and what it left when it was joined, which is nothing while it is still running. The lists the loop gathers are read when the check is left,
  however that happens, so the loop runs on the world and those lists.
\<close>

section \<open>The script\<close>

datatype reader_end =
    StillReading
  | ReadRaised exn
  | ReadDone rat status      \<comment> \<open>the time the read took, and its status\<close>

record terminate_state =
  ts_idn :: string
  ts_probed :: "status option"     \<comment> \<open>the status of the probe, once it was made\<close>

record 'w terminate_script =
  te_cx :: "'w ctx"
  te_iterations :: int
  te_delay :: rat
  te_start :: "'w \<Rightarrow> 'w"
  te_join :: "'w \<Rightarrow> reader_end \<times> 'w"
  te_state :: "'w \<Rightarrow> terminate_state"
  te_put :: "terminate_state \<Rightarrow> 'w \<Rightarrow> 'w"
  te_stats :: "'w \<Rightarrow> stats"
  te_put_stats :: "stats \<Rightarrow> 'w \<Rightarrow> 'w"

definition UNIMPLEMENTED :: "'w ctx \<Rightarrow> status set" where
  "UNIMPLEMENTED cx = {code cx ''error_nonsupported_operation'', code cx ''error_nonimplemented_operation'', NOT_IMPLEMENTED}"

definition BLOCKED_TIMEOUT_S :: rat where "BLOCKED_TIMEOUT_S = 8"

definition terminate_recalled :: "'w terminate_script \<Rightarrow> ('w, terminate_state) act" where
  "terminate_recalled S w = (Inr (te_state S w), w)"

definition terminate_remembered :: "'w terminate_script \<Rightarrow> (terminate_state \<Rightarrow> terminate_state) \<Rightarrow> ('w, unit) act" where
  "terminate_remembered S f = change (\<lambda>w. te_put S (f (te_state S w)) w)"

definition recorded :: "string \<Rightarrow> 'w terminate_script \<Rightarrow> string \<Rightarrow> exn option \<Rightarrow> string \<Rightarrow> ('w, unit) act" where
  \<comment> \<open>\<^verbatim>\<open>stats.error(message, exc, detail=detail)\<close>\<close>
  "recorded caller S message exc detail = change (\<lambda>w. te_put_stats S (stats_error caller message exc [] detail [] (te_stats S w)) w)"

definition require_terminate :: "'w terminate_script \<Rightarrow> ('w, unit) act" where
  "require_terminate S =
     andthen (terminate_recalled S) (\<lambda>s.
     andthen (case ts_probed s of
         Some st \<Rightarrow> ret st
       | None \<Rightarrow>
           andthen (lib_op (te_cx S) ''terminate'' ''0, 0'') (\<lambda>st.
           andthen (terminate_remembered S (\<lambda>s. s\<lparr>ts_probed := Some st\<rparr>)) (\<lambda>_. ret st))) (\<lambda>st.
     if st \<in> UNIMPLEMENTED (te_cx S) then throw (Skip (''viTerminate is not implemented here ('' @ repr_status (te_cx S) st @ '')''))
     else ret ()))"

definition terminate_setup :: "string \<Rightarrow> 'w terminate_script \<Rightarrow> ('w, 'r) act \<Rightarrow> ('w, 'r) act" where
  "terminate_setup caller S body =
     open_inst (te_cx S) (
       andthen (asked (te_cx S) ''*IDN?'') (\<lambda>idn.
       andthen (terminate_remembered S (\<lambda>s. s\<lparr>ts_idn := idn\<rparr>)) (\<lambda>_.
       andthen (drained (te_cx S)) (\<lambda>_.
       andthen (change (\<lambda>w. te_put_stats S (expect_desync [- 410, - 420]
         ''every terminate cycle aborts a read that was waiting on a command with no response'' (te_stats S w)) w)) (\<lambda>_.
       at_exit body (\<lambda>w.
         (case check_errors (instr.truncate (cx_client (te_cx S))) caller ''at end of run'' w (te_stats S w) of
            (_, w1, st) \<Rightarrow> (Inr (), te_put_stats S st w1))))))))"

section \<open>The cycles\<close>

record gathered =
  ga_durations :: "rat list"
  ga_aborted :: "status list"
  ga_unblocked :: "bool list"

definition gather :: "(gathered \<Rightarrow> gathered) \<Rightarrow> ('w \<times> gathered, unit) act" where
  "gather f = change (\<lambda>(w, g). (w, f g))"

definition recover :: "string \<Rightarrow> 'w terminate_script \<Rightarrow> nat \<Rightarrow> ('w, unit) act" where
  \<comment> \<open>the session answers again after the cycle\<close>
  "recover caller S i =
     (let again = ''the session is usable again after viTerminate''; iteration = ''iteration '' @ str_nat i in
      andthen (catch ''Exception'' (asked (te_cx S) ''*IDN?'') (\<lambda>exc.
        andthen (recorded caller S again (Some exc) iteration) (\<lambda>_.
        throw (Skip (''the session did not come back on '' @ iteration @ '', so the remaining cycles could not be run''))))) (\<lambda>reply.
      andthen (terminate_recalled S) (\<lambda>s.
      if reply \<noteq> ts_idn s then
        andthen (recorded caller S again None (iteration @ '': *IDN? gave '' @ py_repr reply)) (\<lambda>_.
        throw (Skip (''the session answered '' @ py_repr reply @ '' on '' @ iteration @ '', so the remaining cycles could not be run'')))
      else ret ())))"

definition read_ended :: "string \<Rightarrow> 'w terminate_script \<Rightarrow> nat \<Rightarrow> rat \<Rightarrow> rat \<Rightarrow> status \<Rightarrow> ('w \<times> gathered, unit) act" where
  \<comment> \<open>the read came back, after the time and with the status given\<close>
  "read_ended caller S i t0 elapsed status =
     andthen (inside (now (te_cx S))) (\<lambda>t1.
     andthen (gather (\<lambda>g. g\<lparr>ga_durations := ga_durations g @ [t1 - t0], ga_aborted := ga_aborted g @ [status]\<rparr>)) (\<lambda>_.
     if elapsed > BLOCKED_TIMEOUT_S * (8 / 10) then
       andthen (gather (\<lambda>g. g\<lparr>ga_unblocked := ga_unblocked g @ [False]\<rparr>)) (\<lambda>_.
       throw (Skip (''viTerminate returned success but left the read to run its full timeout ('' @ fmt_fixed 1 elapsed @ ''s) on iteration '' @
         str_nat i @ ''. 3.5.1.1 recommends aborting and does not require it, so this is not a failure -- but the remaining '' @
         str_int (te_iterations S - int i - 1) @ '' iterations would each cost another full timeout to re-learn it'')))
     else
       andthen (gather (\<lambda>g. g\<lparr>ga_unblocked := ga_unblocked g @ [True]\<rparr>)) (\<lambda>_. inside (recover caller S i))))"

definition terminate_cycle :: "string \<Rightarrow> 'w terminate_script \<Rightarrow> nat \<Rightarrow> ('w \<times> gathered, unit) act" where
  "terminate_cycle caller S i =
     (let cx = te_cx S; iteration = ''iteration '' @ str_nat i in
      andthen (inside (lib_write cx (''*CLS'' @ nl))) (\<lambda>_.
      andthen (inside (change (te_start S))) (\<lambda>_.
      andthen (inside (sleep cx (te_delay S))) (\<lambda>_.
      andthen (inside (now cx)) (\<lambda>t0.
      andthen (inside (lib_op cx ''terminate'' ''0, 0'')) (\<lambda>st.
      andthen
        (if st \<noteq> code cx ''success'' then
           inside (recorded caller S ''viTerminate reports VI_SUCCESS'' None (iteration @ '' returned '' @ repr_status cx st))
         else ret ()) (\<lambda>_.
      andthen (inside (\<lambda>w. case te_join S w of (r, w1) \<Rightarrow> (Inr r, w1))) (\<lambda>outcome.
      case outcome of
        StillReading \<Rightarrow>
          andthen (inside (recorded caller S ''viTerminate unblocks the pending read'' None (iteration @ '': the read never returned''))) (\<lambda>_.
          throw (Skip (''the read on '' @ iteration @ '' never returned, so the remaining cycles could not be run'')))
      | ReadRaised exc \<Rightarrow>
          andthen (inside (recorded caller S ''the pending read completes without an exception'' (Some exc) iteration)) (\<lambda>_.
          throw (Skip (''the pending read raised '' @ type_name exc @ '' on '' @ iteration @ '', so the remaining cycles could not be run'')))
      | ReadDone elapsed status \<Rightarrow> read_ended caller S i t0 elapsed status))))))))"

fun mean :: "rat list \<Rightarrow> rat" where
  "mean ds = sum_list ds / of_nat (length ds)"

definition gathered_noted :: "'w terminate_script \<Rightarrow> ('w \<times> gathered, unit) act" where
  "gathered_noted S = (\<lambda>(w, g).
     (let cx = te_cx S; ds = ga_durations g in
      inside (
        andthen (set_timeout cx (cx_timeout cx)) (\<lambda>_.
        andthen
          (if ds \<noteq> [] then
             noted cx (''terminate + resync took '' @ fmt_fixed 3 (Min (set ds)) @ ''-'' @ fmt_fixed 3 (Max (set ds)) @ ''s (mean '' @
               fmt_fixed 3 (mean ds) @ ''s)'')
           else ret ()) (\<lambda>_.
        andthen
          (if ga_unblocked g \<noteq> [] \<and> True \<notin> set (ga_unblocked g) then
             noted cx (''viTerminate never unblocked a read on this implementation (3.5.1.1 recommends it; it is not a SHALL)'')
           else ret ()) (\<lambda>_.
        if ga_aborted g \<noteq> [] then
          noted cx (''the terminated read ended with '' @ join '', '' (sort (remdups (map (repr_status cx) (ga_aborted g)))) @
            '' (3.5.1.1 prefers VI_ERROR_ABORT but does not guarantee it)'')
        else ret ())))) (w, g)))"

definition check_terminate_cycles :: "string \<Rightarrow> 'w terminate_script \<Rightarrow> ('w, string) act" where
  "check_terminate_cycles caller S =
     andthen (require_terminate S) (\<lambda>_.
     andthen (set_timeout (te_cx S) \<lfloor>BLOCKED_TIMEOUT_S * 1000\<rfloor>) (\<lambda>_.
     andthen (\<lambda>w.
       (case at_exit (for_each [0..<nat (te_iterations S)] (terminate_cycle caller S)) (gathered_noted S)
               (w, \<lparr>ga_durations = [], ga_aborted = [], ga_unblocked = []\<rparr>) of
          (r, w1, _) \<Rightarrow> (r, w1))) (\<lambda>_.
     ret (str_int (te_iterations S) @ '' cycles''))))"

section \<open>Idle\<close>

definition check_terminate_idle :: "'w terminate_script \<Rightarrow> ('w, string) act" where
  "check_terminate_idle S =
     andthen (require_terminate S) (\<lambda>_. andthen (lib_op (te_cx S) ''terminate'' ''0, 0'') (got (te_cx S)))"

definition check_healthy_after_idle_terminate :: "'w terminate_script \<Rightarrow> ('w, string) act" where
  "check_healthy_after_idle_terminate S =
     andthen (require_terminate S) (\<lambda>_.
     andthen (asked (te_cx S) ''*IDN?'') (\<lambda>final.
     andthen (terminate_recalled S) (\<lambda>s.
     andthen (assert_that (final = ts_idn s) (''got '' @ py_repr final)) (\<lambda>_. ret (''got '' @ py_repr final)))))"

section \<open>What the reads decide\<close>

text \<open>An instrument that answers, with reads that end as planned.\<close>

record planned =
  pl_plan :: "reader_end list"
  pl_timeout :: int
  pl_state :: terminate_state
  pl_stats :: stats

definition planned_script :: "int \<Rightarrow> planned terminate_script" where
  "planned_script iterations =
     \<lparr>te_cx = example_ctx\<lparr>cx_client := example_client\<lparr>i_timeout := pl_timeout, i_set_timeout := (\<lambda>t w. w\<lparr>pl_timeout := t\<rparr>)\<rparr>\<rparr>,
      te_iterations = iterations, te_delay = 3 / 10, te_start = id,
      te_join = (\<lambda>w. case pl_plan w of [] \<Rightarrow> (StillReading, w) | r # rs \<Rightarrow> (r, w\<lparr>pl_plan := rs\<rparr>)),
      te_state = pl_state, te_put = (\<lambda>s w. w\<lparr>pl_state := s\<rparr>), te_stats = pl_stats, te_put_stats = (\<lambda>st w. w\<lparr>pl_stats := st\<rparr>)\<rparr>"

fun prompt :: "reader_end \<Rightarrow> bool" where
  "prompt (ReadDone elapsed st) \<longleftrightarrow> elapsed \<le> 64 / 10"
| "prompt r \<longleftrightarrow> False"

fun broken :: "reader_end list \<Rightarrow> nat" where
  \<comment> \<open>the failures to file: one if the first read that is not prompt did not end, or raised\<close>
  "broken [] = 0"
| "broken (r # rs) = (if prompt r then broken rs else case r of ReadDone _ _ \<Rightarrow> 0 | _ \<Rightarrow> 1)"

lemma planned_actions:
  "lib_write (te_cx (planned_script n)) m w = (Inr (), w)" "sleep (te_cx (planned_script n)) d w = (Inr (), w)"
  "now (te_cx (planned_script n)) w = (Inr 0, w)" "lib_op (te_cx (planned_script n)) op arg w = (Inr (StatusCode 0), w)"
  "code (te_cx (planned_script n)) ''success'' = StatusCode 0" "asked (te_cx (planned_script n)) q w = (Inr (strip ''a,b''), w)"
  "terminate_recalled (planned_script n) w = (Inr (pl_state w), w)" "te_start (planned_script n) = id"
  "te_join (planned_script n) w = (case pl_plan w of [] \<Rightarrow> (StillReading, w) | r # rs \<Rightarrow> (r, w\<lparr>pl_plan := rs\<rparr>))"
  "recorded caller (planned_script n) message exc detail w = (Inr (), w\<lparr>pl_stats := stats_error caller message exc [] detail [] (pl_stats w)\<rparr>)"
  "set_timeout (te_cx (planned_script n)) t w = (Inr (), w\<lparr>pl_timeout := t\<rparr>)" "noted (te_cx (planned_script n)) msg w = (Inr (), w)"
  "te_iterations (planned_script n) = n" "cx_timeout (te_cx (planned_script n)) = 2000"
  "terminate_remembered (planned_script n) f w = (Inr (), w\<lparr>pl_state := f (pl_state w)\<rparr>)"
  by (simp_all add: planned_script_def lib_write_def effect_def sleep_def change_def now_def lib_op_def lib_status_def lib_call_def call_def code_def
      asked_def inst_query_def terminate_recalled_def recorded_def set_timeout_def noted_def terminate_remembered_def andthen_def ret_def example_ctx_def
      example_client_def)

lemma inside_step: "m w = (r, w1) \<Longrightarrow> inside m (w, g) = (r, w1, g)"
  by (simp add: inside_def)

lemma gather_step: "gather f (w, g) = (Inr (), w, f g)"
  by (simp add: gather_def change_def)

lemma failures_grow: "length (st_failures (stats_error caller message exc rule detail src st)) = Suc (length (st_failures st))"
  by (simp add: stats_error_def Let_def add_fail_def say_def split: option.split)

definition skips :: "exn + 'a \<Rightarrow> bool" where
  "skips r \<longleftrightarrow> (\<exists>m. r = Inl (Skip m))"

lemma skipsI [simp]: "skips (Inl (Skip m))" "\<not> skips (Inr x)"
  by (auto simp: skips_def)

lemma skips_verdict: "skips (fst p) \<Longrightarrow> verdict p = SKIP"
  by (cases p) (auto simp: skips_def)

lemmas cycle_eval = terminate_cycle_def read_ended_def recover_def andthen_def inside_def gather_step planned_actions catch_def ret_def throw_def
  change_def Let_def BLOCKED_TIMEOUT_S_def

lemma cycle_prompt:
  assumes "pl_plan w = r # rs" "prompt r" "ts_idn (pl_state w) = strip ''a,b''"
  shows "\<exists>g'. terminate_cycle caller (planned_script n) i (w, g) = (Inr (), w\<lparr>pl_plan := rs\<rparr>, g')"
proof (cases r)
  case (ReadDone elapsed st)
  with assms show ?thesis by (simp add: cycle_eval)
qed (use assms(2) in simp_all)

lemma cycle_stops:
  assumes "pl_plan w = r # rs" "\<not> prompt r"
  shows "\<exists>r' w' g'. terminate_cycle caller (planned_script n) i (w, g) = (Inl r', w', g') \<and> skips (Inl r' :: exn + unit) \<and>
     length (st_failures (pl_stats w')) = length (st_failures (pl_stats w)) + broken (r # rs)"
proof (cases r)
  case (ReadDone elapsed st)
  with assms show ?thesis by (simp add: cycle_eval)
next
  case (ReadRaised exc)
  with assms show ?thesis by (simp add: cycle_eval failures_grow)
next
  case StillReading
  with assms show ?thesis by (simp add: cycle_eval failures_grow)
qed

lemma cycles_decided:
  assumes "length rs = length is" "pl_plan w = rs @ rest" "ts_idn (pl_state w) = strip ''a,b''"
  shows "\<exists>r w' g'. for_each is (terminate_cycle caller (planned_script n)) (w, g) = (r, w', g') \<and>
     (if list_all prompt rs then \<not> isl r else skips r) \<and>
     length (st_failures (pl_stats w')) = length (st_failures (pl_stats w)) + broken rs"
  using assms
proof (induction rs "is" arbitrary: w g rule: list_induct2)
  case Nil
  then show ?case by (simp add: ret_def)
next
  case (Cons x xs i js)
  show ?case
  proof (cases "prompt x")
    case True
    with Cons.prems cycle_prompt[of w x "xs @ rest"] obtain g1 where
      "terminate_cycle caller (planned_script n) i (w, g) = (Inr (), w\<lparr>pl_plan := xs @ rest\<rparr>, g1)" by fastforce
    with Cons.IH[of "w\<lparr>pl_plan := xs @ rest\<rparr>" g1] Cons.prems True show ?thesis
      by (auto simp: andthen_def ret_def skips_def split: sum.splits if_splits)
  next
    case False
    with Cons.prems cycle_stops[of w x "xs @ rest" caller n i g] show ?thesis by (auto simp: andthen_def skips_def split: reader_end.splits)
  qed
qed

lemma noted_at_end: "gathered_noted (planned_script n) (w, g) = (Inr (), w\<lparr>pl_timeout := 2000\<rparr>, g)"
  by (simp add: gathered_noted_def Let_def inside_def andthen_def planned_actions ret_def)

definition probed :: "planned \<Rightarrow> bool" where
  \<comment> \<open>the session is set up, and \<^verbatim>\<open>viTerminate\<close> was not probed yet or is implemented\<close>
  "probed w \<longleftrightarrow> ts_idn (pl_state w) = strip ''a,b'' \<and> ts_probed (pl_state w) \<in> {None, Some (StatusCode 0)}"

lemma require_planned:
  "probed w \<Longrightarrow> require_terminate (planned_script n) w = (Inr (), w\<lparr>pl_state := (pl_state w)\<lparr>ts_probed := Some (StatusCode 0)\<rparr>\<rparr>)"
proof -
  have "StatusCode 0 \<notin> UNIMPLEMENTED (te_cx (planned_script n))" by (simp add: UNIMPLEMENTED_def code_def planned_script_def example_ctx_def)
  moreover assume "probed w"
  moreover have "pl_state w = (pl_state w)\<lparr>ts_probed := Some (StatusCode 0)\<rparr>" if "ts_probed (pl_state w) = Some (StatusCode 0)" using that by simp
  ultimately show ?thesis by (auto simp: require_terminate_def probed_def andthen_def planned_actions ret_def)
qed


definition example_planned :: planned where
  "example_planned =
     \<lparr>pl_plan = [ReadDone (3 / 10) (StatusCode 0), ReadDone 8 (StatusCode 0), StillReading], pl_timeout = 2000,
      pl_state = \<lparr>ts_idn = ''a,b'', ts_probed = None\<rparr>, pl_stats = new_stats ''06_terminate'' False None 0\<rparr>"


end
