(* ===== verification/Service_Requests.thy ===== *)
theory Service_Requests
  imports Event_Sessions Bulk_Io
begin

text \<open>
  \<^verbatim>\<open>checks/03_srq.py\<close>: service requests through the queue, through a handler, and while other threads read the status byte. What runs in other
  threads is placed where the main thread waits for it: how often the handler was called before a wait for it ended, and how
  often the pollers read while the main thread slept, are parameters; what a call of the handler and a turn of a poller do is modelled.
\<close>

unbundle bit_operations_syntax

section \<open>The script\<close>

record handler_result =
  hr_enabled :: bool
  hr_enable_error :: "exn option"
  hr_fired :: "int list"
  hr_errors :: "string list"
  hr_never_ran :: "nat option"

record srq_state =
  ss_idn :: string
  ss_queued_ok :: bool
  ss_race_ok :: bool
  ss_handler :: "handler_result option"

record 'w srq_script =
  sr_cx :: "'w ctx"
  sr_events :: "'w events"
  sr_wait :: "int \<Rightarrow> 'w \<Rightarrow> exn option \<times> 'w"        \<comment> \<open>\<^verbatim>\<open>inst.wait_on_event(SRQ, timeout)\<close>, which raises when nothing came\<close>
  sr_called :: "rat \<Rightarrow> 'w \<Rightarrow> nat \<times> 'w"            \<comment> \<open>how often the handler is called until \<^verbatim>\<open>done.wait\<close> returns\<close>
  sr_polled :: "rat \<Rightarrow> 'w \<Rightarrow> nat \<times> 'w"            \<comment> \<open>how often the pollers read during \<^verbatim>\<open>time.sleep\<close>\<close>
  sr_iterations :: int
  sr_settle :: rat
  sr_state :: "'w \<Rightarrow> srq_state"
  sr_put :: "srq_state \<Rightarrow> 'w \<Rightarrow> 'w"
  sr_stats :: "'w \<Rightarrow> stats"
  sr_put_stats :: "stats \<Rightarrow> 'w \<Rightarrow> 'w"

definition DELIVERY_WATCHDOG :: rat where "DELIVERY_WATCHDOG = 900"

definition HANDLER_WATCHDOG :: rat where "HANDLER_WATCHDOG = 400"

definition RACE_WATCHDOG :: rat where "RACE_WATCHDOG = 300"

definition srq_recalled :: "'w srq_script \<Rightarrow> ('w, srq_state) act" where
  "srq_recalled S w = (Inr (sr_state S w), w)"

definition srq_remembered :: "'w srq_script \<Rightarrow> (srq_state \<Rightarrow> srq_state) \<Rightarrow> ('w, unit) act" where
  "srq_remembered S f = change (\<lambda>w. sr_put S (f (sr_state S w)) w)"

definition srq_trigger :: "'w ctx \<Rightarrow> ('w, unit) act" where
  "srq_trigger cx =
     andthen (inst_write cx ''*CLS'') (\<lambda>_.
     andthen (inst_write cx ''*ESE 1'') (\<lambda>_.
     andthen (inst_write cx ''*SRE 32'') (\<lambda>_. inst_write cx ''*OPC'')))"

fun write_until_refused :: "'w ctx \<Rightarrow> string list \<Rightarrow> ('w, unit) act" where
  "write_until_refused cx [] = ret ()"
| "write_until_refused cx (c # cs) =
     andthen (catch ''Exception'' (andthen (inst_write cx c) (\<lambda>_. ret True)) (\<lambda>_. ret False)) (\<lambda>ok.
     if ok then write_until_refused cx cs else ret ())"

definition srq_setup :: "string \<Rightarrow> 'w srq_script \<Rightarrow> ('w, 'r) act \<Rightarrow> ('w, 'r) act" where
  "srq_setup caller S body =
     open_inst (sr_cx S) (
       andthen (asked (sr_cx S) ''*IDN?'') (\<lambda>idn.
       andthen (srq_remembered S (\<lambda>s. s\<lparr>ss_idn := idn\<rparr>)) (\<lambda>_.
       andthen (drained (sr_cx S)) (\<lambda>_.
       at_exit body
         (andthen (write_until_refused (sr_cx S) [''*CLS'', ''*SRE 0'', ''*ESE 0'']) (\<lambda>_ w.
           (case check_errors (instr.truncate (cx_client (sr_cx S))) caller ''at end of run'' w (sr_stats S w) of
              (_, w1, st) \<Rightarrow> (Inr (), sr_put_stats S st w1))))))))"

section \<open>The queue\<close>

definition check_enable_queued :: "'w srq_script \<Rightarrow> ('w, string) act" where
  "check_enable_queued S =
     andthen (event (sr_cx S) ''enable_event'' ''QUEUE'') (\<lambda>_.
     andthen (srq_remembered S (\<lambda>s. s\<lparr>ss_queued_ok := True\<rparr>)) (\<lambda>_.
     ret ''viEnableEvent(VI_EVENT_SERVICE_REQ, VI_QUEUE) returned without raising''))"

definition truncated :: "rat \<Rightarrow> int" where
  "truncated x = (if x < 0 then \<lceil>x\<rceil> else \<lfloor>x\<rfloor>)"

definition delivery_turn :: "'w srq_script \<Rightarrow> ('w, bool) act" where
  "delivery_turn S =
     andthen (srq_trigger (sr_cx S)) (\<lambda>_.
     catch ''Exception'' (andthen (effect (sr_wait S (truncated (sr_settle S * 1000 + 2000)))) (\<lambda>_. ret True)) (\<lambda>_. ret False))"

definition delivery_over :: "'w srq_script \<Rightarrow> ('w, unit) act" where
  "delivery_over S =
     (if cx_protocol (sr_cx S) = ''vxi11'' then
        andthen (noted (sr_cx S) (''VXI-11 service requests are delivered about one per second here because the interrupt RPC goes '' @
          ''unacknowledged; HiSLIP delivers them immediately'')) (\<lambda>_.
        suppressed (andthen (event (sr_cx S) ''disable_event'' ''QUEUE'') (\<lambda>_. event (sr_cx S) ''discard_events'' ''QUEUE'')))
      else ret ())"

definition check_queued_delivery :: "'w srq_script \<Rightarrow> ('w, string) act" where
  "check_queued_delivery S =
     andthen (srq_recalled S) (\<lambda>s.
     if \<not> ss_queued_ok s then throw (Skip ''queued delivery could not be enabled, so no service request could be waited for'')
     else
       andthen (at_exit (for_each [0..<nat (sr_iterations S)] (\<lambda>_. delivery_turn S)) (delivery_over S)) (\<lambda>arrived.
       let detail = str_nat (length (filter id arrived)) @ ''/'' @ str_int (sr_iterations S) @ '' arrived'' in
       andthen (assert_that (length (filter Not arrived) = 0) detail) (\<lambda>_. ret detail)))"

section \<open>The handler\<close>

definition handler_noted :: "'w srq_script \<Rightarrow> (handler_result \<Rightarrow> handler_result) \<Rightarrow> ('w, unit) act" where
  \<comment> \<open>a change of the result, which \<^verbatim>\<open>STATE\<close> holds from the start\<close>
  "handler_noted S f = srq_remembered S (\<lambda>s. s\<lparr>ss_handler := map_option f (ss_handler s)\<rparr>)"

definition srq_handler :: "'w srq_script \<Rightarrow> (exn \<Rightarrow> string) \<Rightarrow> ('w, unit) act" where
  \<comment> \<open>one call of the handler, with Python's \<^verbatim>\<open>repr\<close>\<close>
  "srq_handler S repr =
     catch ''Exception''
       (andthen (read_stb (sr_cx S)) (\<lambda>stb. handler_noted S (\<lambda>r. r\<lparr>hr_fired := hr_fired r @ [stb]\<rparr>)))
       (\<lambda>exc. handler_noted S (\<lambda>r. r\<lparr>hr_errors := hr_errors r @ [repr exc]\<rparr>))"

definition handler_waited :: "'w srq_script \<Rightarrow> (exn \<Rightarrow> string) \<Rightarrow> ('w, bool) act" where
  \<comment> \<open>\<^verbatim>\<open>done.wait(5.0)\<close>: the calls of the handler until then, and whether there was one\<close>
  "handler_waited S repr w =
     (case sr_called S 5 w of (n, w1) \<Rightarrow> andthen (for_each [0..<n] (\<lambda>_. srq_handler S repr)) (\<lambda>_. ret (n > 0)) w1)"

fun handler_turns :: "'w srq_script \<Rightarrow> (exn \<Rightarrow> string) \<Rightarrow> nat list \<Rightarrow> ('w, unit) act" where
  "handler_turns S repr [] = ret ()"
| "handler_turns S repr (i # is) =
     andthen (srq_trigger (sr_cx S)) (\<lambda>_.
     andthen (handler_waited S repr) (\<lambda>ran.
     if \<not> ran then handler_noted S (\<lambda>r. r\<lparr>hr_never_ran := Some i\<rparr>) else handler_turns S repr is))"

definition handler_run :: "'w srq_script \<Rightarrow> (exn \<Rightarrow> string) \<Rightarrow> ('w, handler_result) act" where
  "handler_run S repr =
     andthen (srq_recalled S) (\<lambda>s.
     let result = (\<lambda>w. (Inr (the (ss_handler (sr_state S w))), w)) in
     case ss_handler s of
       Some r \<Rightarrow> ret r
     | None \<Rightarrow>
         andthen (srq_remembered S (\<lambda>s. s\<lparr>ss_handler := Some \<lparr>hr_enabled = False, hr_enable_error = None, hr_fired = [], hr_errors = [],
           hr_never_ran = None\<rparr>\<rparr>)) (\<lambda>_.
         andthen (ev_install (sr_events S)) (\<lambda>wrapped.
         andthen
           (at_exit
             (andthen (catch ''Exception'' (andthen (event (sr_cx S) ''enable_event'' ''HANDLER'') (\<lambda>_. ret True))
               (\<lambda>exc. andthen (handler_noted S (\<lambda>r. r\<lparr>hr_enable_error := Some exc\<rparr>)) (\<lambda>_. ret False))) (\<lambda>enabled.
              if enabled then
                andthen (handler_noted S (\<lambda>r. r\<lparr>hr_enabled := True\<rparr>)) (\<lambda>_.
                handler_turns S repr [0..<nat (min (sr_iterations S) 50)])
              else ret ()))
             (andthen result (\<lambda>r.
              andthen (if hr_enabled r then suppressed (event (sr_cx S) ''disable_event'' ''HANDLER'') else ret ()) (\<lambda>_.
              suppressed (effect (ev_uninstall (sr_events S) wrapped)))))) (\<lambda>_.
         result))))"

definition handler_load :: "'w srq_script \<Rightarrow> (exn \<Rightarrow> string) \<Rightarrow> ('w, handler_result) act" where
  "handler_load S repr =
     andthen (handler_run S repr) (\<lambda>r. if \<not> hr_enabled r then throw (Skip ''handler delivery could not be enabled'') else ret r)"

definition check_enable_handler :: "'w srq_script \<Rightarrow> (exn \<Rightarrow> string) \<Rightarrow> ('w, string) act" where
  "check_enable_handler S repr =
     andthen (handler_run S repr) (\<lambda>r.
     case hr_enable_error r of
       Some exc \<Rightarrow> throw (AssertionError (type_name exc @ '': '' @ e_msg exc))
     | None \<Rightarrow> ret ''viEnableEvent(VI_EVENT_SERVICE_REQ, VI_HNDLR) returned without raising'')"

definition check_handler_runs :: "'w srq_script \<Rightarrow> (exn \<Rightarrow> string) \<Rightarrow> ('w, string) act" where
  "check_handler_runs S repr =
     andthen (handler_load S repr) (\<lambda>r.
     andthen (case hr_never_ran r of
         None \<Rightarrow> ret ()
       | Some i \<Rightarrow> throw (AssertionError (''handler '' @ str_nat i @ '' never ran (deadlock?)''))) (\<lambda>_.
     ret (str_nat (length (hr_fired r)) @ '' callbacks ran'')))"

definition check_read_stb_in_handler :: "'w srq_script \<Rightarrow> (exn \<Rightarrow> string) \<Rightarrow> ('w, string) act" where
  "check_read_stb_in_handler S repr =
     andthen (handler_load S repr) (\<lambda>r.
     let errors = hr_errors r;
         detail = str_nat (length (hr_fired r)) @ '' calls from inside the handler, '' @
           (if errors \<noteq> [] then str_nat (length errors) @ '' raised: '' @ repr_list (map py_repr (take 3 errors)) else ''none raised'') in
     andthen (assert_that (errors = []) detail) (\<lambda>_. ret detail))"

definition check_handler_status_bytes :: "'w srq_script \<Rightarrow> (exn \<Rightarrow> string) \<Rightarrow> ('w, string) act" where
  "check_handler_status_bytes S repr =
     andthen (handler_load S repr) (\<lambda>r.
     let fired = hr_fired r;
         with_rqs = length (filter (\<lambda>s. s AND 0x40 \<noteq> 0) fired);
         detail = str_nat (length fired) @ '' callbacks, '' @ str_nat with_rqs @ '' with RQS set, first few '' @
           repr_list (map str_int (take 3 fired)) in
     andthen (if fired \<noteq> [] then
         noted (sr_cx S) (''status bytes seen: '' @ repr_list (map py_repr (sort (remdups (map (fmt_hex 0) fired)))))
       else ret ()) (\<lambda>_.
     andthen (assert_that (fired \<noteq> [] \<and> list_all (\<lambda>s. 0 \<le> s \<and> s \<le> 0xFF) fired) detail) (\<lambda>_. ret detail)))"

section \<open>The race\<close>

definition check_reenable_queue :: "'w srq_script \<Rightarrow> ('w, string) act" where
  "check_reenable_queue S =
     andthen (event (sr_cx S) ''enable_event'' ''QUEUE'') (\<lambda>_.
     andthen (srq_remembered S (\<lambda>s. s\<lparr>ss_race_ok := True\<rparr>)) (\<lambda>_.
     ret ''viEnableEvent(VI_EVENT_SERVICE_REQ, VI_QUEUE) returned without raising a second time''))"

definition poller_turn :: "'w srq_script \<Rightarrow> ('w \<times> string list, unit) act" where
  \<comment> \<open>one turn of a poller, with the list of bad reads\<close>
  "poller_turn S =
     andthen (inside (catch ''Exception'' (andthen (read_stb (sr_cx S)) (\<lambda>stb. ret (Inr stb))) (\<lambda>exc. ret (Inl exc)))) (\<lambda>r.
     case r of
       Inl exc \<Rightarrow> change (\<lambda>(w, bad). (w, bad @ [''read_stb raised '' @ type_name exc @ '': '' @ e_msg exc]))
     | Inr stb \<Rightarrow>
         if \<not> (0 \<le> stb \<and> stb \<le> 0xFF) then change (\<lambda>(w, bad). (w, bad @ [''implausible status byte '' @ str_int stb])) else ret ())"

definition race_turn :: "'w srq_script \<Rightarrow> ('w \<times> string list, unit) act" where
  "race_turn S =
     andthen (inside (srq_trigger (sr_cx S))) (\<lambda>_.
     andthen (inside (\<lambda>w. case sr_polled S (sr_settle S) w of (n, w1) \<Rightarrow> (Inr n, w1))) (\<lambda>n.
     andthen (for_each [0..<n] (\<lambda>_. poller_turn S)) (\<lambda>_. ret ())))"

definition check_status_queries_intact :: "'w srq_script \<Rightarrow> ('w, string) act" where
  "check_status_queries_intact S w =
     (case for_each [0..<nat (sr_iterations S)] (\<lambda>_. race_turn S) (w, []) of
        (Inl e, w1, _) \<Rightarrow> (Inl e, w1)
      | (Inr _, w1, bad) \<Rightarrow>
          (let detail = ''3 pollers against '' @ str_int (sr_iterations S) @ '' service requests, '' @
             (if bad \<noteq> [] then str_nat (length bad) @ '' bad reads: '' @ repr_list (map py_repr (take 3 bad)) else ''no bad reads'') in
           andthen (assert_that (bad = []) detail) (\<lambda>_. ret detail) w1))"

text \<open>The variable of the last response is read when the check is left. Releasing a response leaves it without a context, so
  releasing it again does nothing.\<close>

definition awaited :: "'w srq_script \<Rightarrow> ('w \<times> response option, response) act" where
  "awaited S = (\<lambda>(w, last_seen).
     case ev_wait (sr_events S) 0 w of
       (Inl e, w1) \<Rightarrow> (Inl e, w1, last_seen)
     | (Inr response, w1) \<Rightarrow> (Inr response, w1, Some response))"

definition released :: "'w srq_script \<Rightarrow> ('w \<times> response option, unit) act" where
  "released S = (\<lambda>(w, last_seen).
     case last_seen of
       None \<Rightarrow> (Inr (), w, None)
     | Some response \<Rightarrow>
         (case release_event (sr_events S) response w of
            (Inl e, w1) \<Rightarrow> (Inl e, w1, last_seen)
          | (Inr _, w1) \<Rightarrow> (Inr (), w1, Some (response\<lparr>rp_context := None\<rparr>))))"

fun drain_srqs :: "nat \<Rightarrow> 'w srq_script \<Rightarrow> rat \<Rightarrow> nat \<Rightarrow> ('w \<times> response option, nat) act" where
  \<comment> \<open>with the number of events the cap still allows\<close>
  "drain_srqs 0 S until n_seen = ret n_seen"
| "drain_srqs (Suc n) S until n_seen =
     andthen (inside (now (sr_cx S))) (\<lambda>t.
     if \<not> t < until then ret n_seen
     else
       andthen (awaited S) (\<lambda>response.
       if rp_timed_out response then ret n_seen
       else andthen (released S) (\<lambda>_. drain_srqs n S until (Suc n_seen))))"

definition drain_race :: "'w srq_script \<Rightarrow> ('w, nat \<times> string) act" where
  "drain_race S =
     andthen (now (sr_cx S)) (\<lambda>t0.
     let until = t0 + 5 in
     (\<lambda>w. case at_exit
         (andthen (drain_srqs 10000 S until 0) (\<lambda>n_seen.
          andthen (inside (now (sr_cx S))) (\<lambda>t.
          let capped = (if t \<ge> until then '' (drain capped)'' else []) in
          andthen (inside (noted (sr_cx S) (str_nat n_seen @ '' service requests queued during the race'' @ capped))) (\<lambda>_.
          ret (n_seen, capped)))))
         (andthen (released S) (\<lambda>_. inside (suppressed (event (sr_cx S) ''disable_event'' ''QUEUE'')))) (w, None) of
        (r, w1, _) \<Rightarrow> (r, w1)))"

definition check_race_produced_srqs :: "'w srq_script \<Rightarrow> ('w, string) act" where
  "check_race_produced_srqs S =
     andthen (srq_recalled S) (\<lambda>s.
     if \<not> ss_race_ok s then
       throw (Skip ''the queue could not be re-enabled after handler delivery, so there was nothing to drain'')
     else
       andthen (drain_race S) (\<lambda>(n_seen, capped).
       let detail = str_nat n_seen @ '' queued during the race'' @ capped in
       andthen (assert_that (n_seen > 0) detail) (\<lambda>_. ret detail)))"

definition check_session_healthy :: "'w srq_script \<Rightarrow> ('w, string) act" where
  "check_session_healthy S =
     andthen (asked (sr_cx S) ''*IDN?'') (\<lambda>final.
     andthen (srq_recalled S) (\<lambda>s.
     andthen (assert_that (final = ss_idn s) (''got '' @ py_repr final)) (\<lambda>_. ret (''got '' @ py_repr final))))"

section \<open>Draining the race\<close>

definition held_in :: "response option \<Rightarrow> int" where
  "held_in v = (case v of None \<Rightarrow> 0 | Some r \<Rightarrow> held [r])"

lemma held_in_simps [simp]: "held_in None = 0" "held_in (Some r) = held [r]" "held_in (Some (r\<lparr>rp_context := None\<rparr>)) = 0"
  by (simp_all add: held_in_def)

lemma drain_count: "drain_srqs n S until k p = (Inr m, p') \<Longrightarrow> m \<le> k + n"
proof (induction n arbitrary: k p)
  case (Suc n)
  then show ?case by (fastforce simp: andthen_Inr_iff ret_def split: if_splits)
qed (simp add: ret_def)

lemma at_exit_Inr: "at_exit m f p = (Inr x, p') \<Longrightarrow> \<exists>p1. m p = (Inr x, p1)"
  by (auto simp: at_exit_def split: prod.splits sum.splits)

lemma drain_race_bound:
  assumes "drain_race S w = (Inr (n, capped), w')"
  shows "n \<le> 10000"
proof -
  obtain t0 w1 where block: "(case at_exit
         (andthen (drain_srqs 10000 S (t0 + 5) 0) (\<lambda>n_seen.
          andthen (inside (now (sr_cx S))) (\<lambda>t.
          let capped = (if t \<ge> t0 + 5 then '' (drain capped)'' else []) in
          andthen (inside (noted (sr_cx S) (str_nat n_seen @ '' service requests queued during the race'' @ capped))) (\<lambda>_.
          ret (n_seen, capped)))))
         (andthen (released S) (\<lambda>_. inside (suppressed (event (sr_cx S) ''disable_event'' ''QUEUE'')))) (w1, None) of
        (r, w1, _) \<Rightarrow> (r, w1)) = (Inr (n, capped), w')"
    using assms unfolding drain_race_def andthen_Inr_iff Let_def by blast
  then obtain p k p' where "drain_srqs 10000 S (t0 + 5) 0 (w1, None) = (Inr k, p')" "n = k"
    by (auto split: prod.splits dest!: at_exit_Inr) (auto simp: andthen_Inr_iff Let_def ret_def)
  with drain_count show ?thesis by fastforce
qed

context context_ledger
begin

lemma released_frees:
  assumes "tame E" "sr_events S = E"
  shows "\<exists>w' v'. released S (w, v) = (Inr (), w', v') \<and> contexts w' = contexts w - held_in v \<and> held_in v' = 0"
proof (cases v)
  case (Some r)
  obtain w' where "release_event E r w = (Inr (), w')" "contexts w' = contexts w - held [r]" using release_event_frees[OF assms(1)] by blast
  with Some assms(2) show ?thesis by (simp add: released_def)
qed (simp add: released_def)

lemma awaited_takes:
  assumes "sr_events S = E" "awaited S (w, v) = (r, w', v')" "held_in v = 0"
  shows "contexts w' - held_in v' = contexts w \<and> (case r of Inl _ \<Rightarrow> True | Inr response \<Rightarrow> v' = Some response)"
  using assms(2,3) unfolding awaited_def assms(1) by (auto split: prod.splits sum.splits dest!: waited)

lemma drain_srqs_kept:
  assumes "tame E" "sr_events S = E" "sr_cx S = cx" "held_in v = 0" "drain_srqs n S until k (w, v) = (r, w', v')"
  shows "contexts w' - held_in v' = contexts w"
  using assms(4,5)
proof (induction n arbitrary: k w v)
  case 0
  then show ?case by (simp add: ret_def)
next
  case (Suc n)
  show ?case
  proof (cases "cx_now cx w < until")
    case False
    with Suc.prems assms(3) show ?thesis by (simp add: andthen_def inside_def now_def ret_def)
  next
    case True
    obtain r1 w1 v1 where a: "awaited S (w, v) = (r1, w1, v1)" by (metis prod_cases3)
    note taken = awaited_takes[OF assms(2) a Suc.prems(1)]
    show ?thesis
    proof (cases r1)
      case (Inl e)
      with Suc.prems(2) True a taken assms(3) show ?thesis by (simp add: andthen_def inside_def now_def)
    next
      case (Inr response)
      obtain w2 v2 where b: "released S (w1, v1) = (Inr (), w2, v2)" "contexts w2 = contexts w1 - held_in v1" "held_in v2 = 0"
        using released_frees[OF assms(1,2)] by blast
      show ?thesis
      proof (cases "rp_timed_out response")
        case True
        with Suc.prems(2) \<open>cx_now cx w < until\<close> a Inr assms(3) have "w' = w1" "v' = v1" by (simp_all add: andthen_def inside_def now_def ret_def)
        with taken show ?thesis by simp
      next
        case False
        with Suc.prems(2) True a Inr b(1) assms(3) have "drain_srqs n S until (Suc k) (w2, v2) = (r, w', v')"
          by (simp add: andthen_def inside_def now_def)
        from Suc.IH[OF b(3) this] b(2) taken show ?thesis by simp
      qed
    qed
  qed
qed

lemma race_tidy:
  assumes "tame E" "sr_events S = E" "sr_cx S = cx"
  shows "tidy contexts (check_race_produced_srqs S)"
proof -
  have block: "tidy contexts (\<lambda>w. case at_exit body (andthen (released S) (\<lambda>_. inside (queue_off cx))) (w, None) of (r, w1, _) \<Rightarrow> (r, w1))"
    if "\<And>w r w' v'. body (w, None) = (r, w', v') \<Longrightarrow> contexts w' - held_in v' = contexts w" for body :: "('w \<times> response option, 'a) act"
  proof (rule tidyI)
    fix w
    obtain r w1 v1 where b: "body (w, None) = (r, w1, v1)" by (metis prod_cases3)
    obtain w2 v2 where c: "released S (w1, v1) = (Inr (), w2, v2)" "contexts w2 = contexts w1 - held_in v1"
      using released_frees[OF assms(1,2)] by blast
    obtain r' w3 where q: "queue_off cx w2 = (r', w3)" by fastforce
    have "contexts w3 = contexts w2" using event_tidy(2) q by (rule tidy_result)
    with that[OF b] b c q show "contexts (snd (case at_exit body (andthen (released S) (\<lambda>_. inside (queue_off cx))) (w, None) of (r, w1, _) \<Rightarrow> (r, w1))) =
        contexts w" by (auto simp: at_exit_def andthen_def inside_def split: sum.split)
  qed
  have "contexts w' - held_in v' = contexts w"
    if "andthen (drain_srqs 10000 S until 0) (\<lambda>n_seen. andthen (inside (now cx)) (\<lambda>t.
        let capped = (if t \<ge> until then '' (drain capped)'' else []) in
        andthen (inside (noted cx (str_nat n_seen @ '' service requests queued during the race'' @ capped))) (\<lambda>_.
        ret (n_seen, capped)))) (w, None) = (r, w', v')" for until w r w' v'
  proof -
    obtain r1 w1 v1 where d: "drain_srqs 10000 S until 0 (w, None) = (r1, w1, v1)" by (metis prod_cases3)
    from drain_srqs_kept[OF assms _ this] have "contexts w1 - held_in v1 = contexts w" by simp
    moreover have "contexts w' = contexts w1 \<and> v' = v1"
      using that d by (auto simp: andthen_def inside_def now_def Let_def noted_def change_def ret_def note_kept split: sum.splits)
    ultimately show ?thesis by simp
  qed
  then have "tidy contexts (drain_race S)"
    unfolding drain_race_def assms(3) Let_def queue_off_def[symmetric] by (intro tidy_intros block)
  moreover have "tidy contexts (srq_recalled S)" by (simp add: tidy_def srq_recalled_def)
  ultimately show ?thesis unfolding check_race_produced_srqs_def by (intro tidy_intros)
qed

end

text \<open>C37: Draining the race is bounded and leaves no event behind: at most ten thousand service requests are taken from the queue, and every
  event context a wait gave was handed to \<^verbatim>\<open>viClose\<close> when the check is left, also the last one and also when a wait raises. A
  response that was released in the loop is not closed a second time at the end.\<close>

theorem race_drain_frees_events:
  assumes "tame E" "sr_cx S = counted cx" "sr_events S = counted_events E"
  shows "tidy snd (check_race_produced_srqs S) \<and> (\<forall>w n capped w'. drain_race S w = (Inr (n, capped), w') \<longrightarrow> n \<le> 10000)"
proof
  show "tidy snd (check_race_produced_srqs S)"
    using run_contexts.race_tidy[OF counted_tame[OF assms(1)] assms(3,2)] .
  show "\<forall>w n capped w'. drain_race S w = (Inr (n, capped), w') \<longrightarrow> n \<le> 10000"
    by (intro allI impI) (rule drain_race_bound)
qed

definition example_srq :: "(locks \<times> int) srq_script" where
  "example_srq =
     \<lparr>sr_cx = counted (lock_ctx False), sr_events = counted_events example_events, sr_wait = (\<lambda>t p. (None, p)), sr_called = (\<lambda>t p. (1, p)),
      sr_polled = (\<lambda>t p. (3, p)), sr_iterations = 100, sr_settle = 1 / 20,
      sr_state = (\<lambda>p. \<lparr>ss_idn = ''a,b'', ss_queued_ok = True, ss_race_ok = True, ss_handler = None\<rparr>), sr_put = (\<lambda>s p. p),
      sr_stats = (\<lambda>p. new_stats ''03_srq'' False None 0), sr_put_stats = (\<lambda>st p. p)\<rparr>"

theorem race_drain_frees_events_witness: "snd (snd (check_race_produced_srqs example_srq (unlocked_at 0, 5))) = 5"
proof -
  have "tame example_events" by (simp add: tame_def example_events_def AssertionError_def plain_exn_def isinstance_def)
  from race_drain_frees_events[OF this, of example_srq "lock_ctx False"] show ?thesis by (simp add: example_srq_def tidy_def)
qed

end
