(* ===== verification/Soak.thy ===== *)
theory Soak
  imports Lock_Cycles Events
begin

text \<open>
  \<^verbatim>\<open>checks/08_soak.py\<close>: a random mix of operations until a deadline. The random numbers are a parameter that picks one of a number of choices; so is
  the number of requests the handler of \<^verbatim>\<open>--srq-thread\<close> counted. The tally and the time of the last report are read when the check is left, so the loop
  runs on the world and these variables, and it gets a number of turns.
\<close>

section \<open>The script\<close>

record soak_state =
  so_idn :: string
  so_big_query :: "string option"
  so_stable :: bool
  so_big :: "string option"
  so_in_flight :: "(string \<times> rat \<times> nat) option"

record 'w soak_script =
  so_cx :: "'w ctx"
  so_events :: "'w events"
  so_choice :: "nat \<Rightarrow> 'w \<Rightarrow> nat \<times> 'w"       \<comment> \<open>\<^verbatim>\<open>rng.choice\<close> among so many, as an index\<close>
  so_handled :: "'w \<Rightarrow> nat"
  so_ren_operations :: "string list"      \<comment> \<open>the members of \<^verbatim>\<open>RENLineOperation\<close>\<close>
  so_big_args :: big_args
  so_duration :: rat
  so_trigger :: bool
  so_srq_thread :: bool
  so_state :: "'w \<Rightarrow> soak_state"
  so_put :: "soak_state \<Rightarrow> 'w \<Rightarrow> 'w"
  so_stats :: "'w \<Rightarrow> stats"
  so_put_stats :: "stats \<Rightarrow> 'w \<Rightarrow> 'w"

definition ren_modes :: "'w soak_script \<Rightarrow> string list" where
  "ren_modes S =
     (if cx_protocol (so_cx S) = ''vxi11'' then [''asrt_address'', ''asrt_address_llo'', ''address_gtl'', ''deassert_gtl'']
      else so_ren_operations S)"

definition soak_recalled :: "'w soak_script \<Rightarrow> ('w, soak_state) act" where
  "soak_recalled S w = (Inr (so_state S w), w)"

definition soak_remembered :: "'w soak_script \<Rightarrow> (soak_state \<Rightarrow> soak_state) \<Rightarrow> ('w, unit) act" where
  "soak_remembered S f = change (\<lambda>w. so_put S (f (so_state S w)) w)"

definition soak_error :: "string \<Rightarrow> 'w soak_script \<Rightarrow> string \<Rightarrow> exn option \<Rightarrow> string \<Rightarrow> ('w, unit) act" where
  \<comment> \<open>\<^verbatim>\<open>stats.error(message, exc, detail=detail)\<close>\<close>
  "soak_error caller S message exc detail = change (\<lambda>w. so_put_stats S (stats_error caller message exc [] detail [] (so_stats S w)) w)"

definition on_stats :: "'w soak_script \<Rightarrow> ('w \<Rightarrow> stats \<Rightarrow> (exn + 'a) \<times> 'w \<times> stats) \<Rightarrow> ('w, 'a) act" where
  \<comment> \<open>a function of \<^verbatim>\<open>testgear.visa\<close> that is given the recorder\<close>
  "on_stats S f w = (case f w (so_stats S w) of (r, w1, st) \<Rightarrow> (r, so_put_stats S st w1))"

definition soak_setup :: "string \<Rightarrow> 'w soak_script \<Rightarrow> ('w, 'r) act \<Rightarrow> ('w, 'r) act" where
  "soak_setup caller S body =
     (let I = instr.truncate (cx_client (so_cx S)) in
      open_inst (so_cx S) (
        andthen (asked (so_cx S) ''*IDN?'') (\<lambda>idn.
        andthen (soak_remembered S (\<lambda>s. s\<lparr>so_idn := idn\<rparr>)) (\<lambda>_.
        andthen (on_stats S (resolve_big_query I caller (so_big_args S) (cx_server (so_cx S) \<noteq> None))) (\<lambda>big_query.
        andthen (soak_remembered S (\<lambda>s. s\<lparr>so_big_query := big_query\<rparr>)) (\<lambda>_.
        let usable = (case big_query of None \<Rightarrow> False | Some q \<Rightarrow> q \<noteq> []) in
        andthen (if usable then on_stats S (\<lambda>w st. case big_query_is_stable I (the big_query) w st of (b, w1, st1) \<Rightarrow> (Inr b, w1, st1)) else ret False) (\<lambda>stable.
        andthen (soak_remembered S (\<lambda>s. s\<lparr>so_stable := stable\<rparr>)) (\<lambda>_.
        andthen (if usable then andthen (inst_query (so_cx S) (the big_query)) (\<lambda>r. ret (Some r)) else ret None) (\<lambda>big.
        andthen (soak_remembered S (\<lambda>s. s\<lparr>so_big := big\<rparr>)) (\<lambda>_.
        andthen (drained (so_cx S)) (\<lambda>_.
        andthen (change (\<lambda>w. so_put_stats S (expect_desync [- 410, - 420]
          ''the operation mix includes device clear and a deliberately partial read, both of which abandon a query in flight'' (so_stats S w)) w)) (\<lambda>_.
        at_exit body
          (andthen (on_stats S (\<lambda>w st. case check_errors I caller ''at end of run'' w st of (_, w1, st1) \<Rightarrow> (Inr (), w1, st1))) (\<lambda>_.
           andthen (catch ''Exception'' (andthen (inst_write (so_cx S) ''*CLS'') (\<lambda>_. ret True)) (\<lambda>_. ret False)) (\<lambda>ok.
           if ok then suppressed (inst_write (so_cx S) ''*SRE 0'') else ret ())))))))))))))))"

definition SOAK_SLACK_S :: rat where "SOAK_SLACK_S = 120"

definition soak_watchdog :: "'w soak_script \<Rightarrow> rat" where
  "soak_watchdog S = so_duration S + SOAK_SLACK_S"

definition in_flight :: "'w soak_script \<Rightarrow> 'w \<Rightarrow> string" where
  "in_flight S w =
     (case so_in_flight (so_state S w) of
        None \<Rightarrow> ''it had not started an operation''
      | Some (op, started, n) \<Rightarrow>
          ''blocked in the '' @ py_repr op @ '' operation for '' @ fmt_fixed 0 (cx_now (so_cx S) w - started) @ ''s, '' @ str_nat n @ '' operations in'')"

section \<open>The operations\<close>

definition chosen :: "'w soak_script \<Rightarrow> 'a list \<Rightarrow> ('w, 'a) act" where
  "chosen S xs w = (case so_choice S (length xs) w of (i, w1) \<Rightarrow> (Inr (xs ! (i mod length xs)), w1))"

definition big_reply_is_wrong :: "soak_state \<Rightarrow> string \<Rightarrow> bool" where
  "big_reply_is_wrong s reply \<longleftrightarrow>
     (if so_stable s then so_big s \<noteq> Some reply else (case so_big s of None \<Rightarrow> True | Some big \<Rightarrow> length reply \<noteq> length big))"

definition not_iterable :: exn where
  \<comment> \<open>extending a bytearray by \<^verbatim>\<open>None\<close>\<close>
  "not_iterable = plain_exn [''TypeError'', ''Exception'', ''BaseException''] ''NoneType''"

fun partial_turns :: "nat \<Rightarrow> 'w soak_script \<Rightarrow> string \<Rightarrow> ('w, string \<times> bool) act" where
  \<comment> \<open>what was collected, and whether the message ended\<close>
  "partial_turns 0 S collected = ret (collected, False)"
| "partial_turns (Suc n) S collected =
     andthen (chosen S [1, 13, 512, 8192]) (\<lambda>size.
     andthen (lib_read (so_cx S) size) (\<lambda>(data, st).
     if (data = None \<or> data = Some []) \<and> st \<noteq> code (so_cx S) ''success'' then ret (collected, False)
     else
       case data of
         None \<Rightarrow> throw not_iterable
       | Some d \<Rightarrow>
           if st = code (so_cx S) ''success'' then ret (collected @ d, True) else partial_turns n S (collected @ d)))"

definition soak_partial_read :: "string \<Rightarrow> 'w soak_script \<Rightarrow> ('w, unit) act" where
  "soak_partial_read caller S =
     andthen (soak_recalled S) (\<lambda>s.
     andthen (lib_write (so_cx S) (the (so_big_query s) @ nl)) (\<lambda>_.
     andthen (partial_turns (length (the (so_big s)) + 64) S []) (\<lambda>(collected, ended).
     andthen (if \<not> ended then andthen (lib_op (so_cx S) ''clear'' []) (\<lambda>_. ret ()) else ret ()) (\<lambda>_.
     if big_reply_is_wrong s collected then soak_error caller S ''a chunked read reassembled incorrectly'' None [] else ret ()))))"

definition soak_lock :: "string \<Rightarrow> 'w soak_script \<Rightarrow> ('w, unit) act" where
  "soak_lock caller S =
     andthen (chosen S ([''exclusive''] @ (if cx_protocol (so_cx S) = ''hislip'' then [''shared''] else []))) (\<lambda>kind.
     andthen (lib_lock (so_cx S) kind 1000 None) (\<lambda>(_, st).
     if st = code (so_cx S) ''success'' then andthen (lib_unlock (so_cx S)) (\<lambda>_. ret ())
     else if st \<noteq> code (so_cx S) ''error_timeout'' then
       soak_error caller S ''viLock succeeds or times out under the soak mix'' None (''got '' @ repr_status (so_cx S) st)
     else ret ()))"

definition soak_op :: "string \<Rightarrow> 'w soak_script \<Rightarrow> string \<Rightarrow> ('w, unit) act" where
  "soak_op caller S op =
     (if op = ''query'' then
        andthen (asked (so_cx S) ''*IDN?'') (\<lambda>reply.
        andthen (soak_recalled S) (\<lambda>s.
        if reply \<noteq> so_idn s then soak_error caller S ''*IDN? answers correctly under the soak mix'' None (''returned '' @ py_repr reply) else ret ()))
      else if op = ''big_query'' then
        andthen (soak_recalled S) (\<lambda>s.
        andthen (inst_query (so_cx S) (the (so_big_query s))) (\<lambda>reply.
        if big_reply_is_wrong s reply then
          soak_error caller S (if so_stable s then ''large query returned the wrong bytes'' else ''large query returned the wrong number of bytes'') None []
        else ret ()))
      else if op = ''partial_read'' then soak_partial_read caller S
      else if op = ''read_stb'' then
        andthen (read_stb (so_cx S)) (\<lambda>stb.
        if \<not> (0 \<le> stb \<and> stb \<le> 0xFF) then
          soak_error caller S ''read_stb returns a plausible status byte under the soak mix'' None (''got '' @ str_int stb)
        else ret ())
      else if op = ''trigger'' then andthen (lib_op (so_cx S) ''assert_trigger'' ''default'') (\<lambda>_. ret ())
      else if op = ''ren'' then
        andthen (chosen S (ren_modes S)) (\<lambda>mode.
        andthen (lib_op (so_cx S) ''gpib_control_ren'' mode) (\<lambda>st.
        if st \<noteq> code (so_cx S) ''success'' then
          soak_error caller S (''REN '' @ mode @ '' is accepted under the soak mix'') None (''got '' @ repr_status (so_cx S) st)
        else ret ()))
      else if op = ''lock'' then soak_lock caller S
      else if op = ''clear'' then
        andthen (lib_op (so_cx S) ''clear'' []) (\<lambda>st.
        if st \<noteq> code (so_cx S) ''success'' then soak_error caller S ''viClear failed'' None [] else ret ())
      else if op = ''flush'' then andthen (lib_op (so_cx S) ''flush'' ''discard_read_buffer'') (\<lambda>_. ret ())
      else if op = ''attr'' then
        andthen (get_attribute (so_cx S) (if cx_protocol (so_cx S) = ''hislip'' then ''tcpip_hislip_max_message_kb'' else ''tcpip_address'')) (\<lambda>_. ret ())
      else if op = ''srq'' then write_all (so_cx S) [''*CLS'', ''*ESE 1'', ''*SRE 32'', ''*OPC'']
      else ret ())"

definition operations :: "'w soak_script \<Rightarrow> soak_state \<Rightarrow> string list" where
  "operations S s =
     [''query'', ''query'', ''query'', ''read_stb'', ''ren'', ''lock'', ''clear'', ''flush'', ''attr''] @
     (case so_big s of None \<Rightarrow> [] | Some big \<Rightarrow> if big = [] then [] else [''big_query'', ''partial_read'']) @
     (if so_srq_thread S then [''srq''] else []) @ (if so_trigger S then [''trigger''] else [])"

section \<open>The loop\<close>

record soak_vars =
  sv_tally :: "(string, nat) dict"
  sv_last_report :: rat

definition tallied :: "soak_vars \<Rightarrow> nat" where
  "tallied v = sum_list (map snd (sv_tally v))"

definition raw_clear :: "'w ctx \<Rightarrow> ('w, unit) act" where
  \<comment> \<open>\<^verbatim>\<open>lib.clear(sess)\<close>, whose status is not looked at\<close>
  "raw_clear cx w = (case cl_op (cx_client cx) ''clear'' [] w of (Raises e, w1) \<Rightarrow> (Inl e, w1) | (_, w1) \<Rightarrow> (Inr (), w1))"

definition after_exception :: "string \<Rightarrow> 'w soak_script \<Rightarrow> string \<Rightarrow> nat \<Rightarrow> exn \<Rightarrow> ('w, bool) act" where
  \<comment> \<open>whether the loop goes on\<close>
  "after_exception caller S op done exc =
     andthen (soak_error caller S (''the '' @ op @ '' operation never raises under the soak mix'') (Some exc) []) (\<lambda>_.
     if is_connection_lost (cx_env (so_cx S)) exc \<or> contains ''onnection'' (e_msg exc) then
       andthen (noted (so_cx S) (''connection lost after '' @ str_nat done @ '' operations, stopping'')) (\<lambda>_. ret False)
     else catch ''Exception'' (andthen (raw_clear (so_cx S)) (\<lambda>_. ret True)) (\<lambda>_. ret False))"

definition progress :: "'w soak_script \<Rightarrow> rat \<Rightarrow> ('w \<times> soak_vars, unit) act" where
  "progress S deadline = (\<lambda>(w, v).
     if cx_now (so_cx S) w - sv_last_report v \<ge> 15 then
       (Inr (),
        let w1 = cx_note (so_cx S) (str_nat (tallied v) @ '' operations, '' @ str_nat (length (st_failures (so_stats S w))) @ '' failures, '' @
              fmt_fixed 0 (deadline - cx_now (so_cx S) w) @ ''s left'') w
        in (w1, v\<lparr>sv_last_report := cx_now (so_cx S) w1\<rparr>))
     else (Inr (), w, v))"

definition soak_turn :: "string \<Rightarrow> 'w soak_script \<Rightarrow> string list \<Rightarrow> rat \<Rightarrow> ('w \<times> soak_vars, bool) act" where
  "soak_turn caller S ops deadline =
     andthen (inside (chosen S ops)) (\<lambda>op.
     andthen (change (\<lambda>(w, v). (w, v\<lparr>sv_tally := dict_set op (Suc (case dict_get (sv_tally v) op of None \<Rightarrow> 0 | Some n \<Rightarrow> n)) (sv_tally v)\<rparr>))) (\<lambda>_.
     andthen (\<lambda>(w, v). (Inr (tallied v), w, v)) (\<lambda>done.
     andthen (inside (andthen (now (so_cx S)) (\<lambda>t. soak_remembered S (\<lambda>s. s\<lparr>so_in_flight := Some (op, t, done)\<rparr>)))) (\<lambda>_.
     andthen (inside (catch ''Exception'' (andthen (soak_op caller S op) (\<lambda>_. ret True)) (after_exception caller S op done))) (\<lambda>go_on.
     if go_on then andthen (progress S deadline) (\<lambda>_. ret True) else ret False)))))"

fun soak_loop :: "nat \<Rightarrow> string \<Rightarrow> 'w soak_script \<Rightarrow> string list \<Rightarrow> rat \<Rightarrow> ('w \<times> soak_vars, bool) act" where
  \<comment> \<open>\<open>False\<close> if the turns run out\<close>
  "soak_loop 0 caller S ops deadline = ret False"
| "soak_loop (Suc n) caller S ops deadline =
     andthen (inside (now (so_cx S))) (\<lambda>t.
     if \<not> t < deadline then ret True
     else andthen (soak_turn caller S ops deadline) (\<lambda>go_on. if go_on then soak_loop n caller S ops deadline else ret True))"

definition soak_over :: "'w soak_script \<Rightarrow> nat option \<Rightarrow> ('w \<times> soak_vars, unit) act" where
  "soak_over S wrapped = (\<lambda>(w, v).
     inside (
       andthen (noted (so_cx S) (''operation mix: '' @ join '', '' (map (\<lambda>(k, n). k @ ''='' @ str_nat n) (sort_key fst (sv_tally v))))) (\<lambda>_.
       case wrapped of
         None \<Rightarrow> ret ()
       | Some h \<Rightarrow>
           andthen (\<lambda>w. noted (so_cx S) (str_nat (so_handled S w) @ '' service requests handled'') w) (\<lambda>_.
           andthen (suppressed (event (so_cx S) ''disable_event'' ''HANDLER'')) (\<lambda>_.
           suppressed (effect (ev_uninstall (so_events S) h))))))
     (w, v))"

definition check_soak :: "nat \<Rightarrow> string \<Rightarrow> 'w soak_script \<Rightarrow> ('w, string option) act" where
  \<comment> \<open>\<open>None\<close> if the turns run out\<close>
  "check_soak turns caller S =
     andthen (if so_srq_thread S then
         andthen (ev_install (so_events S)) (\<lambda>h. andthen (event (so_cx S) ''enable_event'' ''HANDLER'') (\<lambda>_. ret (Some h)))
       else ret None) (\<lambda>wrapped.
     andthen (soak_recalled S) (\<lambda>s.
     andthen (now (so_cx S)) (\<lambda>t0.
     andthen (now (so_cx S)) (\<lambda>last.
     \<lambda>w. (case at_exit (soak_loop turns caller S (operations S s) (t0 + so_duration S)) (soak_over S wrapped) (w, \<lparr>sv_tally = [], sv_last_report = last\<rparr>) of
          (r, w1, v) \<Rightarrow> (map_sum id (\<lambda>ended. if ended then Some (str_nat (tallied v) @ '' operations'') else None) r, w1))))))"

definition check_healthy_after_soak :: "'w soak_script \<Rightarrow> ('w, string) act" where
  "check_healthy_after_soak S =
     andthen (catch ''Exception'' (asked (so_cx S) ''*IDN?'') (\<lambda>exc.
       let status = visa_status exc in
       andthen (catch ''Exception'' (andthen (inst_clear (so_cx S)) (\<lambda>_. asked (so_cx S) ''*IDN?'')) (\<lambda>after.
         throw (AssertionError (''the session did not answer after the soak ('' @ status @ '') and a device clear did not revive it ('' @
           visa_status after @ ''); it is wedged, not desynchronised'')))) (\<lambda>recovered.
       throw (AssertionError (''the session did not answer after the soak ('' @ status @ ''), though a device clear revived it and it then returned '' @
         py_repr recovered @ ''; the soak left the message flow desynchronised rather than dead''))))) (\<lambda>final.
     andthen (soak_recalled S) (\<lambda>s.
     andthen (assert_that (final = so_idn s) (''got '' @ py_repr final)) (\<lambda>_. ret (''got '' @ py_repr final))))"

section \<open>The mix never ends the check\<close>

named_theorems calm_intros \<comment> \<open>what raises no \<^verbatim>\<open>Exception\<close>\<close>

definition calm :: "('w, 'a) act \<Rightarrow> bool" where
  \<comment> \<open>an action that lets no \<^verbatim>\<open>Exception\<close> out\<close>
  "calm m \<longleftrightarrow> (\<forall>w e w'. m w = (Inl e, w') \<longrightarrow> \<not> isinstance e ''Exception'')"

lemma calm_pure [calm_intros]: "calm (ret x)" "calm (change f)" "calm (now cx)" "calm (noted cx msg)" "calm (soak_recalled S)" "calm (soak_remembered S g)"
    "calm (soak_error caller S message exc detail)" "calm (chosen S xs)" "calm (\<lambda>(w, v). (Inr (h v), w, v))"
  by (auto simp: calm_def ret_def change_def now_def noted_def soak_recalled_def soak_remembered_def soak_error_def chosen_def split: prod.splits)

lemma calm_andthen [calm_intros]: "calm m \<Longrightarrow> (\<And>x. calm (f x)) \<Longrightarrow> calm (andthen m f)"
  by (fastforce simp: calm_def andthen_def split: prod.splits sum.splits)

lemma calm_catch [calm_intros]: "(\<And>e. calm (h e)) \<Longrightarrow> calm (catch ''Exception'' m h)"
  by (fastforce simp: calm_def catch_def split: prod.splits sum.splits if_splits)

lemma calm_suppressed [calm_intros]: "calm (suppressed m)"
  unfolding suppressed_def by (intro calm_intros)

lemma calm_inside [calm_intros]: "calm m \<Longrightarrow> calm (inside m)"
  by (fastforce simp: calm_def inside_def split: prod.splits)

lemma calm_at_exit [calm_intros]: "calm m \<Longrightarrow> calm f \<Longrightarrow> calm (at_exit m f)"
  by (fastforce simp: calm_def at_exit_def split: prod.splits sum.splits)

lemma calm_cases [calm_intros]:
  "(b \<Longrightarrow> calm m) \<Longrightarrow> (\<not> b \<Longrightarrow> calm m') \<Longrightarrow> calm (if b then m else m')" "calm m \<Longrightarrow> (\<And>x. calm (g x)) \<Longrightarrow> calm (case_option m g opt)"
  by (simp_all split: option.split)

lemma calm_noted [calm_intros]: "calm (\<lambda>w. noted cx (msg w) w)"
  by (simp add: calm_def noted_def change_def)

lemma calm_pair: "(\<And>w v. calm (m w v)) \<Longrightarrow> calm (\<lambda>(w, v). m w v (w, v))"
  by (simp add: calm_def)

lemma progress_calm [calm_intros]: "calm (progress S deadline)"
  by (simp add: calm_def progress_def Let_def)

lemma soak_turn_calm [calm_intros]: "calm (soak_turn caller S ops deadline)"
  unfolding soak_turn_def after_exception_def by (intro calm_intros)

lemma soak_loop_calm [calm_intros]: "calm (soak_loop n caller S ops deadline)"
  by (induction n) (simp_all add: calm_intros)

lemma soak_over_calm [calm_intros]: "calm (soak_over S wrapped)"
  unfolding soak_over_def by (rule calm_pair) (intro calm_intros)

lemma calm_block:
  assumes "calm m"
  shows "calm (\<lambda>w. case m (w, v) of (r, w1, v1) \<Rightarrow> (map_sum id (f v1) r, w1))"
proof -
  have "\<not> isinstance e ''Exception''" if "(case m (w, v) of (r, w1, v1) \<Rightarrow> (map_sum id (f v1) r, w1)) = (Inl e, w')" for w e w'
  proof -
    obtain r w1 v1 where "m (w, v) = (r, w1, v1)" by (metis prod_cases3)
    with that assms[unfolded calm_def, rule_format, of "(w, v)"] show ?thesis by (cases r) auto
  qed
  then show ?thesis by (simp add: calm_def)
qed

lemma check_soak_calm: "\<not> so_srq_thread S \<Longrightarrow> calm (check_soak turns caller S)"
  unfolding check_soak_def by (simp only: if_False) (intro calm_intros calm_block)

text \<open>The turns are a bound on the model, not on the program: when every turn that goes on takes at least some time, the loop is left within as many
  turns as fit into what is left until the deadline.\<close>

lemma soak_loop_ends:
  assumes "\<And>w v w' v'. soak_turn caller S ops deadline (w, v) = (Inr True, w', v') \<Longrightarrow> cx_now (so_cx S) w + \<delta> \<le> cx_now (so_cx S) w'"
  shows "deadline \<le> cx_now (so_cx S) w + of_nat n * \<delta> \<Longrightarrow> fst (soak_loop (Suc n) caller S ops deadline (w, v)) \<noteq> Inr False"
proof (induction n arbitrary: w v)
  case 0
  then show ?case by (simp add: andthen_def inside_def now_def ret_def)
next
  case (Suc n)
  show ?case
  proof (cases "soak_turn caller S ops deadline (w, v)")
    case (fields r w' v')
    have "fst (soak_loop (Suc n) caller S ops deadline (w', v')) \<noteq> Inr False" if "r = Inr True"
      using that fields assms[of w v w' v'] Suc.prems by (intro Suc.IH) (simp add: algebra_simps)
    with fields show ?thesis by (subst soak_loop.simps(2)) (auto simp: andthen_def inside_def now_def ret_def split: sum.split)
  qed
qed

lemma soak_returns:
  assumes "\<And>ops deadline w v w' v'. soak_turn caller S ops deadline (w, v) = (Inr True, w', v') \<Longrightarrow> cx_now (so_cx S) w + \<delta> \<le> cx_now (so_cx S) w'"
    and "\<not> so_srq_thread S" "so_duration S \<le> of_nat n * \<delta>"
  shows "fst (check_soak (Suc n) caller S w) \<noteq> Inr None"
proof -
  let ?ops = "operations S (so_state S w)" and ?d = "cx_now (so_cx S) w + so_duration S"
  let ?v = "\<lparr>sv_tally = [], sv_last_report = cx_now (so_cx S) w\<rparr>"
  have "fst (soak_loop (Suc n) caller S ?ops ?d (w, ?v)) \<noteq> Inr False"
    using assms(1,3) by (intro soak_loop_ends) simp_all
  then show ?thesis using assms(2)
    by (auto simp: check_soak_def andthen_def ret_def soak_recalled_def now_def at_exit_def map_sum_def simp del: soak_loop.simps
        split: prod.splits sum.splits)
qed

text \<open>A library whose connection is gone: every call of an instrument raises.\<close>

definition gone :: exn where
  "gone = plain_exn [''ConnectionResetError'', ''ConnectionError'', ''OSError'', ''Exception'', ''BaseException''] ''Connection reset by peer''"

definition gone_script :: "rat \<Rightarrow> (soak_state \<times> stats) soak_script" where
  "gone_script duration =
     \<lparr>so_cx = example_ctx\<lparr>cx_client := example_client\<lparr>i_query := (\<lambda>q w. (Inl gone, w))\<rparr>\<rparr>,
      so_events = \<lparr>ev_wait = (\<lambda>t w. (Inl gone, w)), ev_close = (\<lambda>c w. (Some gone, w)), ev_forget = (\<lambda>c w. (None, w)),
        ev_install = (\<lambda>w. (Inl gone, w)), ev_uninstall = (\<lambda>h w. (Some gone, w)), ev_calls = (\<lambda>w. 0), ev_install_any = (\<lambda>w. (Inl gone, w))\<rparr>,
      so_choice = (\<lambda>n w. (0, w)), so_handled = (\<lambda>w. 0), so_ren_operations = [''asrt''], so_big_args = \<lparr>ba_prepare = False, ba_big_query = None\<rparr>,
      so_duration = duration, so_trigger = False, so_srq_thread = False, so_state = fst, so_put = (\<lambda>s w. (s, snd w)), so_stats = snd,
      so_put_stats = (\<lambda>st w. (fst w, st))\<rparr>"

lemma gone_actions:
  "chosen (gone_script d) (x # xs) w = (Inr x, w)" "asked (so_cx (gone_script d)) q w = (Inl gone, w)" "now (so_cx (gone_script d)) w = (Inr 0, w)"
  "soak_remembered (gone_script d) f w = (Inr (), f (fst w), snd w)" "noted (so_cx (gone_script d)) msg w = (Inr (), w)"
  "soak_error caller (gone_script d) message exc detail w = (Inr (), fst w, stats_error caller message exc [] detail [] (snd w))"
  "soak_recalled (gone_script d) w = (Inr (fst w), w)" "\<not> so_srq_thread (gone_script d)" "so_duration (gone_script d) = d"
  by (simp_all add: gone_script_def chosen_def asked_def inst_query_def now_def soak_remembered_def soak_error_def soak_recalled_def noted_def change_def
      andthen_def example_ctx_def)

lemma gone_exn: "isinstance gone ''Exception''" "contains ''onnection'' (e_msg gone)"
  by (simp_all add: gone_def plain_exn_def isinstance_def) code_simp

lemma gone_turn:
  "sv_tally v = [] \<Longrightarrow> \<exists>w' v'. soak_turn caller (gone_script d) (''query'' # ops) deadline (w, v) = (Inr False, w', v') \<and> tallied v' = 1"
  by (simp add: soak_turn_def soak_op_def after_exception_def andthen_def inside_def gone_actions catch_def gone_exn ret_def change_def tallied_def
      dict_set_def dict_get_def)

lemma gone_soak:
  assumes "0 < d"
  shows "\<exists>w'. check_soak (Suc turns) caller (gone_script d) w = (Inr (Some ''1 operations''), w')"
proof -
  have ops: "operations (gone_script d) s = ''query'' # tl (operations (gone_script d) s)" for s by (simp add: operations_def)
  let ?v = "\<lparr>sv_tally = [], sv_last_report = 0\<rparr>"
  obtain w' v' where turn: "soak_turn caller (gone_script d) (operations (gone_script d) (fst w)) d (w, ?v) = (Inr False, w', v')" "tallied v' = 1"
    using gone_turn[of ?v caller d "tl (operations (gone_script d) (fst w))" d w] ops[of "fst w"] by auto
  have "soak_loop (Suc turns) caller (gone_script d) (operations (gone_script d) (fst w)) d (w, ?v) = (Inr True, w', v')"
    using assms turn(1) by (simp add: andthen_def inside_def gone_actions ret_def)
  moreover have "soak_over (gone_script d) None (w', v') = (Inr (), w', v')"
    by (simp add: soak_over_def inside_def andthen_def gone_actions ret_def)
  moreover have "str_nat 1 @ '' operations'' = ''1 operations''" by code_simp
  ultimately show ?thesis
    using turn(2) by (simp add: check_soak_def andthen_def gone_actions ret_def at_exit_def del: soak_loop.simps)
qed



end
