(* ===== verification/Threads.thy ===== *)
theory Threads
  imports Probe
begin

text \<open>
  Threads of a check. A thread is what is left of it: nothing, or one call of the library and what the thread does with the result until its next
  call. A run of several threads is the order of their calls. A worker of the scripts opens a session of its own, makes its calls and files what
  is wrong in a list that all workers share; opening and closing a session are one step each.
\<close>

section \<open>Threads and their runs\<close>

datatype 'w thread = Stopped | Running "'w \<Rightarrow> 'w thread \<times> 'w"

fun resume :: "'w thread \<Rightarrow> 'w \<Rightarrow> 'w thread \<times> 'w" where
  "resume Stopped w = (Stopped, w)"
| "resume (Running f) w = f w"

definition turn_of :: "nat \<Rightarrow> 'w thread list \<times> 'w \<Rightarrow> 'w thread list \<times> 'w" where
  "turn_of i = (\<lambda>(ts, w). if i < length ts then (case resume (ts ! i) w of (t, w1) \<Rightarrow> (ts[i := t], w1)) else (ts, w))"

definition scheduled :: "nat list \<Rightarrow> 'w thread list \<times> 'w \<Rightarrow> 'w thread list \<times> 'w" where
  "scheduled order = fold turn_of order"

definition alive :: "'w thread \<Rightarrow> bool" where
  "alive t = (case t of Stopped \<Rightarrow> False | Running _ \<Rightarrow> True)"

text \<open>A thread keeps a property of the world if each of its calls does, whatever ran in between.\<close>

inductive thread_keeps :: "('w \<Rightarrow> bool) \<Rightarrow> 'w thread \<Rightarrow> bool" for P where
  stopped: "thread_keeps P Stopped"
| running: "(\<And>w. P w \<Longrightarrow> P (snd (f w)) \<and> thread_keeps P (fst (f w))) \<Longrightarrow> thread_keeps P (Running f)"

inductive_simps thread_keeps_simps [simp]: "thread_keeps P Stopped" "thread_keeps P (Running f)"

lemma resume_keeps: "thread_keeps P t \<Longrightarrow> P w \<Longrightarrow> P (snd (resume t w)) \<and> thread_keeps P (fst (resume t w))"
  by (cases t) auto

lemma turn_keeps:
  assumes "\<forall>t \<in> set ts. thread_keeps P t" "P w"
  shows "P (snd (turn_of i (ts, w))) \<and> (\<forall>t \<in> set (fst (turn_of i (ts, w))). thread_keeps P t)"
proof (cases "i < length ts")
  case True
  with assms have "thread_keeps P (ts ! i)" by simp
  from resume_keeps[OF this assms(2)] True assms show ?thesis
    by (auto simp: turn_of_def split: prod.splits dest!: set_update_subset_insert[THEN subsetD])
qed (use assms in \<open>simp add: turn_of_def\<close>)

lemma scheduled_keeps:
  "\<forall>t \<in> set ts. thread_keeps P t \<Longrightarrow> P w \<Longrightarrow> P (snd (scheduled order (ts, w)))"
proof (induction order arbitrary: ts w)
  case (Cons i order)
  obtain ts1 w1 where t: "turn_of i (ts, w) = (ts1, w1)" by fastforce
  with turn_keeps[OF Cons.prems, of i] Cons.IH[of ts1 w1] show ?case by (simp add: scheduled_def)
qed (simp add: scheduled_def)

text \<open>A thread that stops within so many calls, whatever the world is when it makes them.\<close>

fun ends_in :: "nat \<Rightarrow> 'w thread \<Rightarrow> bool" where
  "ends_in 0 t = (t = Stopped)"
| "ends_in (Suc n) t = (\<forall>w. ends_in n (fst (resume t w)))"

lemma ends_in_Stopped [simp]: "ends_in n Stopped"
  by (induction n) auto

lemma ends_in_mono: "ends_in n t \<Longrightarrow> n \<le> m \<Longrightarrow> ends_in m t"
proof (induction n t arbitrary: m rule: ends_in.induct)
  case (2 n t)
  then obtain k where "m = Suc k" "n \<le> k" by (cases m) auto
  with 2 show ?case by simp
qed simp

lemma turn_length [simp]: "length (fst (turn_of i p)) = length (fst p)"
  by (cases p) (simp add: turn_of_def split: prod.split)

lemma turn_other: "j \<noteq> i \<Longrightarrow> fst (turn_of i p) ! j = fst p ! j"
  by (cases p) (simp add: turn_of_def split: prod.split)

lemma scheduled_stops:
  "i < length ts \<Longrightarrow> ends_in n (ts ! i) \<Longrightarrow> n \<le> count_list order i \<Longrightarrow> fst (scheduled order (ts, w)) ! i = Stopped"
proof (induction order arbitrary: ts w n)
  case (Cons j order)
  obtain ts1 w1 where t: "turn_of j (ts, w) = (ts1, w1)" by fastforce
  then have len: "i < length ts1" using turn_length[of j "(ts, w)"] Cons.prems(1) by simp
  have run: "scheduled (j # order) (ts, w) = scheduled order (ts1, w1)" by (simp add: scheduled_def t)
  show ?case
  proof (cases "j = i")
    case True
    with t Cons.prems(1) have ts1: "ts1 ! i = fst (resume (ts ! i) w)" by (auto simp: turn_of_def split: prod.splits)
    have "ends_in (n - 1) (ts1 ! i)" using Cons.prems(2) ts1 by (cases n) simp_all
    then show ?thesis unfolding run using Cons.prems(3) True by (intro Cons.IH[OF len]) auto
  next
    case False
    then have "ts1 ! i = ts ! i" using turn_other[of i j "(ts, w)"] t by simp
    then show ?thesis unfolding run using Cons.prems(2,3) False by (intro Cons.IH[OF len]) auto
  qed
qed (simp add: scheduled_def)

lemma scheduled_length: "length (fst (scheduled order p)) = length (fst p)"
proof (induction order arbitrary: p)
  case (Cons i order)
  from Cons.IH[of "turn_of i p"] show ?case by (simp add: scheduled_def)
qed (simp add: scheduled_def)

section \<open>Workers with a session of their own\<close>

type_synonym 'w worker = "('w \<times> string list) thread"

definition call_then :: "('w, 'a) act \<Rightarrow> (exn + 'a \<Rightarrow> string list \<times> 'w worker) \<Rightarrow> 'w worker" where
  \<comment> \<open>a call, and what is filed and done next, given how it ended\<close>
  "call_then m k = Running (\<lambda>(w, problems). case m w of (r, w1) \<Rightarrow> case k r of (msgs, t) \<Rightarrow> (t, w1, problems @ msgs))"

definition entering :: "'w ctx \<Rightarrow> ('w, unit) act" where
  \<comment> \<open>up to the body of the session; a session that is not in its mode is closed again\<close>
  "entering cx w =
     (let I = instr.truncate (cx_client cx) in
      case cl_open (cx_client cx) (cx_resource cx) w of
        (Some e, w1) \<Rightarrow> (Inl e, w1)
      | (None, w1) \<Rightarrow>
          (case in_mode (cx_env cx) I (cx_hislip_mode cx) (cx_resource cx) (i_set_timeout I (cx_timeout cx) w1) of
             (Some e, w2) \<Rightarrow> (Inl e, snd (i_close I w2))
           | (None, w2) \<Rightarrow> (Inr (), w2)))"

definition leaving :: "'w ctx \<Rightarrow> ('w, unit) act" where
  "leaving cx = change (\<lambda>w. snd (i_close (instr.truncate (cx_client cx)) w))"

text \<open>The two steps are the session of a check, with the body in between.\<close>

lemma session_split:
  "open_inst cx body w = andthen (entering cx) (\<lambda>_ w. case body w of (r, w1) \<Rightarrow> (r, snd (leaving cx w1))) w"
  by (simp add: open_inst_def session_on_def session_def entering_def leaving_def andthen_def change_def Let_def split: prod.split option.split)

definition report_of :: "string \<Rightarrow> exn \<Rightarrow> string list" where
  "report_of who exc = (if isinstance exc ''Exception'' then [who @ type_name exc @ '': '' @ e_msg exc] else [])"

definition leave_with :: "'w ctx \<Rightarrow> string list \<Rightarrow> 'w worker" where
  "leave_with cx msgs = call_then (leaving cx) (\<lambda>_. (msgs, Stopped))"

definition failed_with :: "'w ctx \<Rightarrow> string \<Rightarrow> exn \<Rightarrow> 'w worker" where
  \<comment> \<open>the session is closed before the exception is caught\<close>
  "failed_with cx who exc = leave_with cx (report_of who exc)"

definition in_session :: "'w ctx \<Rightarrow> string \<Rightarrow> 'w worker \<Rightarrow> 'w worker" where
  "in_session cx who body = call_then (entering cx) (\<lambda>r. case r of Inl e \<Rightarrow> (report_of who e, Stopped) | Inr _ \<Rightarrow> ([], body))"

definition or_fail :: "'w ctx \<Rightarrow> string \<Rightarrow> ('w, 'a) act \<Rightarrow> ('a \<Rightarrow> string list \<times> 'w worker) \<Rightarrow> 'w worker" where
  \<comment> \<open>a call whose exception ends the worker\<close>
  "or_fail cx who m k = call_then m (\<lambda>r. case r of Inl e \<Rightarrow> ([], failed_with cx who e) | Inr x \<Rightarrow> k x)"

section \<open>What a worker keeps, and when it stops\<close>

lemma call_then_keeps:
  assumes "\<And>w ps. P (w, ps) \<Longrightarrow> case m w of (r, w1) \<Rightarrow> P (w1, ps @ fst (k r)) \<and> thread_keeps P (snd (k r))"
  shows "thread_keeps P (call_then m k)"
  unfolding call_then_def using assms by (auto simp: case_prod_beta)

lemma call_then_within: "(\<And>r. ends_in n (snd (k r))) \<Longrightarrow> ends_in (Suc n) (call_then m k)"
  by (simp add: call_then_def case_prod_beta)

declare ends_in.simps(2) [simp del]

lemma leave_within: "ends_in (Suc n) (leave_with cx msgs)"
  unfolding leave_with_def by (rule call_then_within) simp

lemma failed_within: "ends_in (Suc n) (failed_with cx who e)"
  by (simp add: failed_with_def leave_within)

lemma or_fail_within: "(\<And>x. ends_in (Suc n) (snd (k x))) \<Longrightarrow> ends_in (Suc (Suc n)) (or_fail cx who m k)"
  unfolding or_fail_def by (rule call_then_within) (auto simp: failed_within split: sum.split)

lemma in_session_within: "ends_in n body \<Longrightarrow> ends_in (Suc n) (in_session cx who body)"
  unfolding in_session_def by (rule call_then_within) (auto split: sum.split)

text \<open>Calls that succeed from a set of worlds and stay in it.\<close>

definition serves :: "('w \<Rightarrow> bool) \<Rightarrow> ('a \<Rightarrow> bool) \<Rightarrow> ('w, 'a) act \<Rightarrow> bool" where
  "serves J good m \<longleftrightarrow> (\<forall>w. J w \<longrightarrow> (\<exists>x w'. m w = (Inr x, w') \<and> good x \<and> J w'))"

definition clean :: "('w \<Rightarrow> bool) \<Rightarrow> 'w \<times> string list \<Rightarrow> bool" where
  "clean J p \<longleftrightarrow> J (fst p) \<and> snd p = []"

lemma call_clean:
  assumes "serves J good m" "\<And>x. good x \<Longrightarrow> fst (k (Inr x)) = [] \<and> thread_keeps (clean J) (snd (k (Inr x)))"
  shows "thread_keeps (clean J) (call_then m k)"
proof (rule call_then_keeps)
  fix w ps assume "clean J (w, ps)"
  moreover from this assms(1) obtain x w' where "m w = (Inr x, w')" "good x" "J w'" by (auto simp: serves_def clean_def)
  ultimately show "case m w of (r, w1) \<Rightarrow> clean J (w1, ps @ fst (k r)) \<and> thread_keeps (clean J) (snd (k r))"
    using assms(2) by (simp add: clean_def)
qed

lemma or_fail_clean:
  assumes "serves J good m" "\<And>x. good x \<Longrightarrow> fst (k x) = [] \<and> thread_keeps (clean J) (snd (k x))"
  shows "thread_keeps (clean J) (or_fail cx who m k)"
  unfolding or_fail_def using assms by (auto intro: call_clean)

lemma leave_clean: "serves J (\<lambda>_. True) (leaving cx) \<Longrightarrow> thread_keeps (clean J) (leave_with cx [])"
  unfolding leave_with_def by (erule call_clean) simp

lemma in_session_clean:
  "serves J (\<lambda>_. True) (entering cx) \<Longrightarrow> thread_keeps (clean J) body \<Longrightarrow> thread_keeps (clean J) (in_session cx who body)"
  unfolding in_session_def by (erule call_clean) simp

end
