(* ===== verification/Concurrency.thy ===== *)
theory Concurrency
  imports Smoke Events Threads
begin

text \<open>
  \<^verbatim>\<open>checks/04_concurrency.py\<close>: threads that share one session, sessions in parallel, and sessions opened and closed in a row. A thread is the library
  call it makes next; a step of the load is one call of one thread with what the thread does until its next call. The order of the calls
  while the main thread sleeps is a parameter, and the theorem about it holds for every order.
\<close>

section \<open>The script\<close>

record counts =
  co_sync :: nat
  co_stb :: nat
  co_lock :: nat
  co_ren :: nat
  co_lock_timeout :: nat

record load_result =
  lr_problems :: "string list"
  lr_counts :: "counts option"        \<comment> \<open>absent while the dictionary is empty\<close>
  lr_alive :: "string list"
  lr_final :: "string option"
  lr_duration :: "rat option"         \<comment> \<open>absent until the threads are started\<close>
  lr_workers :: "nat option"

record churn_result =
  ch_base_threads :: int
  ch_base_fds :: int
  ch_cycles :: int
  ch_completed :: nat
  ch_error :: "exn option"
  ch_measured :: bool                 \<comment> \<open>the two counts below mean something only then\<close>
  ch_threads :: int
  ch_fds :: int

record conc_state =
  cs_idn :: string
  cs_load :: "load_result option"
  cs_churn :: "churn_result option"

datatype duty = Querying | Polling | Locking | Unlocking | Driving | Dead

record 'w conc_script =
  cc_cx :: "'w ctx"
  cc_threads :: int
  cc_sessions :: int
  cc_iterations :: int
  cc_schedule :: "rat \<Rightarrow> 'w \<Rightarrow> nat list \<times> 'w"          \<comment> \<open>the threads in the order of their calls, until they are stopped\<close>
  cc_alive :: "'w \<Rightarrow> string list"                    \<comment> \<open>the names of those that do not stop\<close>
  cc_client :: "nat \<Rightarrow> 'w client"                     \<comment> \<open>the session a worker opens\<close>
  cc_calls :: "'w \<Rightarrow> nat list"                       \<comment> \<open>the session workers in the order of their calls, until they were waited for\<close>
  cc_active_count :: "'w \<Rightarrow> int"
  cc_listing :: "'w \<Rightarrow> string \<Rightarrow> nat option"
  cc_state :: "'w \<Rightarrow> conc_state"
  cc_put :: "conc_state \<Rightarrow> 'w \<Rightarrow> 'w"
  cc_stats :: "'w \<Rightarrow> stats"
  cc_put_stats :: "stats \<Rightarrow> 'w \<Rightarrow> 'w"

definition PARALLEL_WATCHDOG :: rat where "PARALLEL_WATCHDOG = 300"

definition ren_mode :: "string \<Rightarrow> string" where
  "ren_mode protocol = (if protocol = ''vxi11'' then ''asrt_address'' else ''asrt'')"

definition conc_recalled :: "'w conc_script \<Rightarrow> ('w, conc_state) act" where
  "conc_recalled S w = (Inr (cc_state S w), w)"

definition conc_remembered :: "'w conc_script \<Rightarrow> (conc_state \<Rightarrow> conc_state) \<Rightarrow> ('w, unit) act" where
  "conc_remembered S f = change (\<lambda>w. cc_put S (f (cc_state S w)) w)"

definition conc_setup :: "'w conc_script \<Rightarrow> ('w, 'r) act \<Rightarrow> ('w, 'r) act" where
  "conc_setup S body =
     andthen (open_inst (cc_cx S) (
       andthen (asked (cc_cx S) ''*IDN?'') (\<lambda>idn.
       andthen (conc_remembered S (\<lambda>s. s\<lparr>cs_idn := idn\<rparr>)) (\<lambda>_. drained (cc_cx S))))) (\<lambda>_. body)"

section \<open>The threads\<close>

record shared_load =
  lo_problems :: "string list"
  lo_counts :: counts
  lo_duties :: "duty list"

definition problem :: "string \<Rightarrow> ('w \<times> shared_load, unit) act" where
  "problem msg = change (\<lambda>(w, l). (w, l\<lparr>lo_problems := lo_problems l @ [msg]\<rparr>))"

definition bump :: "(counts \<Rightarrow> counts) \<Rightarrow> ('w \<times> shared_load, unit) act" where
  "bump f = change (\<lambda>(w, l). (w, l\<lparr>lo_counts := f (lo_counts l)\<rparr>))"

definition attempted :: "('w, 'a) act \<Rightarrow> ('w \<times> shared_load, exn + 'a) act" where
  \<comment> \<open>a call whose \<^verbatim>\<open>Exception\<close> is caught\<close>
  "attempted m = inside (catch ''Exception'' (andthen m (\<lambda>x. ret (Inr x))) (\<lambda>exc. ret (Inl exc)))"

definition sync_worker :: "'w conc_script \<Rightarrow> string \<Rightarrow> ('w \<times> shared_load, duty) act" where
  "sync_worker S idn =
     andthen (attempted (asked (cc_cx S) ''*IDN?'')) (\<lambda>r.
     case r of
       Inl exc \<Rightarrow> andthen (problem (''query raised '' @ type_name exc @ '': '' @ e_msg exc)) (\<lambda>_. ret Querying)
     | Inr reply \<Rightarrow>
         andthen (if reply \<noteq> idn then problem (''query returned '' @ py_repr reply) else ret ()) (\<lambda>_.
         andthen (bump (\<lambda>c. c\<lparr>co_sync := Suc (co_sync c)\<rparr>)) (\<lambda>_. ret Querying)))"

definition stb_worker :: "'w conc_script \<Rightarrow> ('w \<times> shared_load, duty) act" where
  "stb_worker S =
     andthen (attempted (read_stb (cc_cx S))) (\<lambda>r.
     case r of
       Inl exc \<Rightarrow> andthen (problem (''read_stb raised '' @ type_name exc @ '': '' @ e_msg exc)) (\<lambda>_. ret Polling)
     | Inr stb \<Rightarrow>
         andthen (if \<not> (0 \<le> stb \<and> stb \<le> 0xFF) then problem (''implausible status byte '' @ str_int stb) else ret ()) (\<lambda>_.
         andthen (bump (\<lambda>c. c\<lparr>co_stb := Suc (co_stb c)\<rparr>)) (\<lambda>_. ret Polling)))"

definition lock_worker :: "'w conc_script \<Rightarrow> ('w \<times> shared_load, duty) act" where
  \<comment> \<open>up to the call of \<^verbatim>\<open>viUnlock\<close>\<close>
  "lock_worker S =
     andthen (inside (exclusive (cc_cx S) 2000)) (\<lambda>(_, st).
     if st = code (cc_cx S) ''error_timeout'' then andthen (bump (\<lambda>c. c\<lparr>co_lock_timeout := Suc (co_lock_timeout c)\<rparr>)) (\<lambda>_. ret Locking)
     else if st \<noteq> code (cc_cx S) ''success'' then andthen (problem (''lock failed with '' @ repr_status (cc_cx S) st)) (\<lambda>_. ret Locking)
     else ret Unlocking)"

definition unlock_worker :: "'w conc_script \<Rightarrow> ('w \<times> shared_load, duty) act" where
  \<comment> \<open>the rest of the turn of a lock worker\<close>
  "unlock_worker S =
     andthen (inside (lib_unlock (cc_cx S))) (\<lambda>st.
     if st = code (cc_cx S) ''error_timeout'' then andthen (bump (\<lambda>c. c\<lparr>co_lock_timeout := Suc (co_lock_timeout c)\<rparr>)) (\<lambda>_. ret Locking)
     else
       andthen (if st \<noteq> code (cc_cx S) ''success'' then problem (''unlock failed with '' @ repr_status (cc_cx S) st) else ret ()) (\<lambda>_.
       andthen (bump (\<lambda>c. c\<lparr>co_lock := Suc (co_lock c)\<rparr>)) (\<lambda>_. ret Locking)))"

definition ren_worker :: "'w conc_script \<Rightarrow> ('w \<times> shared_load, duty) act" where
  "ren_worker S =
     andthen (inside (lib_op (cc_cx S) ''gpib_control_ren'' (ren_mode (cx_protocol (cc_cx S))))) (\<lambda>st.
     andthen (if st \<noteq> code (cc_cx S) ''success'' then problem (''REN failed with '' @ repr_status (cc_cx S) st) else ret ()) (\<lambda>_.
     andthen (bump (\<lambda>c. c\<lparr>co_ren := Suc (co_ren c)\<rparr>)) (\<lambda>_. ret Driving)))"

definition worker_call :: "'w conc_script \<Rightarrow> string \<Rightarrow> duty \<Rightarrow> ('w \<times> shared_load, duty) act" where
  "worker_call S idn d =
     (case d of Querying \<Rightarrow> sync_worker S idn | Polling \<Rightarrow> stb_worker S | Locking \<Rightarrow> lock_worker S | Unlocking \<Rightarrow> unlock_worker S
      | Driving \<Rightarrow> ren_worker S | Dead \<Rightarrow> ret Dead)"

definition worker_step :: "'w conc_script \<Rightarrow> string \<Rightarrow> nat \<Rightarrow> 'w \<times> shared_load \<Rightarrow> 'w \<times> shared_load" where
  \<comment> \<open>the next call of a thread; one that raises ends the thread\<close>
  "worker_step S idn i = (\<lambda>(w, l).
     if i < length (lo_duties l) then
       (case worker_call S idn (lo_duties l ! i) (w, l) of
          (r, w1, l1) \<Rightarrow> (w1, l1\<lparr>lo_duties := (lo_duties l1)[i := case r of Inl _ \<Rightarrow> Dead | Inr d \<Rightarrow> d]\<rparr>))
     else (w, l))"

definition workers :: "'w conc_script \<Rightarrow> duty list" where
  "workers S = Querying # map (\<lambda>index. [Polling, Locking, Driving] ! (index mod 3)) [0..<nat (cc_threads S)]"

definition no_counts :: counts where
  "no_counts = \<lparr>co_sync = 0, co_stb = 0, co_lock = 0, co_ren = 0, co_lock_timeout = 0\<rparr>"

definition fresh_load :: "'w conc_script \<Rightarrow> shared_load" where
  "fresh_load S = \<lparr>lo_problems = [], lo_counts = no_counts, lo_duties = workers S\<rparr>"

definition load_noted :: "'w conc_script \<Rightarrow> (load_result \<Rightarrow> load_result) \<Rightarrow> ('w, unit) act" where
  "load_noted S f = conc_remembered S (\<lambda>s. s\<lparr>cs_load := map_option f (cs_load s)\<rparr>)"

definition saturated :: "string \<Rightarrow> 'w conc_script \<Rightarrow> string \<Rightarrow> ('w, unit) act" where
  \<comment> \<open>the session of the load\<close>
  "saturated caller S idn =
     (let cx = cc_cx S; duration = max 2 (of_int (cc_iterations S) / 100) in
      andthen (load_noted S (\<lambda>r. r\<lparr>lr_counts := Some no_counts, lr_duration := Some duration, lr_workers := Some (length (workers S))\<rparr>)) (\<lambda>_ w.
      case cc_schedule S duration w of (order, w1) \<Rightarrow>
      case fold (worker_step S idn) order (w1, fresh_load S) of (w2, l) \<Rightarrow>
      let c = lo_counts l in
      andthen (load_noted S (\<lambda>r. r\<lparr>lr_problems := lo_problems l, lr_counts := Some c, lr_alive := cc_alive S w2\<rparr>)) (\<lambda>_.
      andthen (noted cx (''in '' @ fmt_fixed 0 duration @ ''s: '' @ str_nat (co_sync c) @ '' queries, '' @ str_nat (co_stb c) @ '' status queries, '' @
        str_nat (co_lock c) @ '' lock cycles, '' @ str_nat (co_ren c) @ '' REN ops'')) (\<lambda>_.
      andthen (if co_lock_timeout c \<noteq> 0 then noted cx (str_nat (co_lock_timeout c) @
          '' lock attempts timed out: expected, an exclusive lock waits for the saturated sync channel to go idle'') else ret ()) (\<lambda>_.
      andthen (asked cx ''*IDN?'') (\<lambda>final.
      andthen (load_noted S (\<lambda>r. r\<lparr>lr_final := Some final\<rparr>)) (\<lambda>_ w3.
      case check_errors (instr.truncate (cx_client cx)) caller ''after single-session concurrency'' w3 (cc_stats S w3) of
        (_, w4, st) \<Rightarrow> (Inr (), cc_put_stats S st w4)))))) w2))"

definition concurrent_load :: "string \<Rightarrow> 'w conc_script \<Rightarrow> ('w, load_result) act" where
  \<comment> \<open>the result is published before the session is opened\<close>
  "concurrent_load caller S =
     andthen (conc_recalled S) (\<lambda>s.
     case cs_load s of
       Some r \<Rightarrow> ret r
     | None \<Rightarrow>
         andthen (conc_remembered S (\<lambda>s. s\<lparr>cs_load := Some \<lparr>lr_problems = [], lr_counts = None, lr_alive = [], lr_final = None,
           lr_duration = None, lr_workers = None\<rparr>\<rparr>)) (\<lambda>_.
         andthen (open_inst (cc_cx S) (saturated caller S (cs_idn s))) (\<lambda>_ w. (Inr (the (cs_load (cc_state S w))), w))))"

definition present :: "string \<Rightarrow> 'a option \<Rightarrow> ('w, 'a) act" where
  \<comment> \<open>a key of the result\<close>
  "present key v = (case v of None \<Rightarrow> throw (missing_key key) | Some x \<Rightarrow> ret x)"

definition check_workers_stopped :: "string \<Rightarrow> 'w conc_script \<Rightarrow> ('w, string) act" where
  "check_workers_stopped caller S =
     andthen (concurrent_load caller S) (\<lambda>r.
     andthen (present ''workers'' (lr_workers r)) (\<lambda>n.
     let detail = str_nat n @ '' workers, still running: '' @ (if lr_alive r = [] then ''None'' else repr_list (map py_repr (lr_alive r))) in
     andthen (assert_that (lr_alive r = []) detail) (\<lambda>_. ret detail)))"

definition check_no_interference :: "string \<Rightarrow> 'w conc_script \<Rightarrow> ('w, string) act" where
  "check_no_interference caller S =
     andthen (concurrent_load caller S) (\<lambda>r.
     andthen (present ''workers'' (lr_workers r)) (\<lambda>n.
     andthen (present ''duration'' (lr_duration r)) (\<lambda>duration.
     let ps = lr_problems r;
         detail = str_nat n @ '' workers over '' @ fmt_fixed 0 duration @ ''s, '' @
           (if ps \<noteq> [] then str_nat (length ps) @ '' problems: '' @ repr_list (map py_repr (take 3 ps)) else ''no problems'') in
     andthen (assert_that (ps = []) detail) (\<lambda>_. ret detail))))"

definition check_both_channels_driven :: "string \<Rightarrow> 'w conc_script \<Rightarrow> ('w, string) act" where
  "check_both_channels_driven caller S =
     andthen (concurrent_load caller S) (\<lambda>r.
     andthen (present ''sync'' (lr_counts r)) (\<lambda>c.
     let detail = str_nat (co_sync c) @ '' queries, '' @ str_nat (co_stb c) @ '' status queries'' in
     andthen (assert_that (co_sync c > 0 \<and> co_stb c > 0) detail) (\<lambda>_. ret detail)))"

definition check_healthy_after_load :: "string \<Rightarrow> 'w conc_script \<Rightarrow> ('w, string) act" where
  "check_healthy_after_load caller S =
     andthen (concurrent_load caller S) (\<lambda>r.
     andthen (conc_recalled S) (\<lambda>s.
     let detail = ''got '' @ (case lr_final r of None \<Rightarrow> ''None'' | Some final \<Rightarrow> py_repr final) in
     andthen (assert_that (lr_final r = Some (cs_idn s)) detail) (\<lambda>_. ret detail)))"

section \<open>Sessions in parallel\<close>

definition release_then :: "'w ctx \<Rightarrow> bool \<Rightarrow> string \<Rightarrow> exn + 'a \<Rightarrow> ('a \<Rightarrow> string list \<times> 'w worker) \<Rightarrow> string list \<times> 'w worker" where
  \<comment> \<open>the \<^verbatim>\<open>finally\<close> of a turn, and what comes after it, given how the block ended\<close>
  "release_then local needs_lock who outcome k =
     (let after = (case outcome of Inl e \<Rightarrow> ([], failed_with local who e) | Inr x \<Rightarrow> k x) in
      if needs_lock then ([], or_fail local who (effect (cl_unlock (cx_client local))) (\<lambda>_. after)) else after)"

definition session_block :: "'w ctx \<Rightarrow> bool \<Rightarrow> string \<Rightarrow> (string \<Rightarrow> string list \<times> 'w worker) \<Rightarrow> 'w worker" where
  "session_block local needs_lock who k =
     call_then (asked local ''*IDN?'') (\<lambda>r.
     case r of
       Inl e \<Rightarrow> release_then local needs_lock who (Inl e) k
     | Inr reply \<Rightarrow> ([], call_then (read_stb local) (\<lambda>r. release_then local needs_lock who (map_sum id (\<lambda>_. reply) r) k)))"

definition session_turn :: "'w ctx \<Rightarrow> bool \<Rightarrow> nat \<Rightarrow> string \<Rightarrow> 'w worker \<Rightarrow> 'w worker" where
  "session_turn local needs_lock index idn next =
     (let who = ''session '' @ str_nat index @ '': '';
          block = session_block local needs_lock who (\<lambda>reply.
            if reply \<noteq> idn then ([''session '' @ str_nat index @ '' got '' @ py_repr reply], leave_with local []) else ([], next))
      in if needs_lock then or_fail local who (effect (cl_lock_excl (cx_client local) 10000)) (\<lambda>_. ([], block)) else block)"

fun session_turns :: "nat \<Rightarrow> 'w ctx \<Rightarrow> bool \<Rightarrow> nat \<Rightarrow> string \<Rightarrow> 'w worker" where
  "session_turns 0 local needs_lock index idn = leave_with local []"
| "session_turns (Suc n) local needs_lock index idn = session_turn local needs_lock index idn (session_turns n local needs_lock index idn)"

definition turns_of :: "'w conc_script \<Rightarrow> nat" where
  "turns_of S = nat (max 5 (cc_iterations S div 20))"

definition session_worker :: "'w conc_script \<Rightarrow> string \<Rightarrow> nat \<Rightarrow> 'w worker" where
  \<comment> \<open>a thread with a session of its own\<close>
  "session_worker S idn index =
     (let local = through (cc_cx S) (cc_client S index) in
      in_session local (''session '' @ str_nat index @ '': '') (session_turns (turns_of S) local (cx_protocol (cc_cx S) = ''vxi11'') index idn))"

definition session_workers :: "'w conc_script \<Rightarrow> string \<Rightarrow> 'w worker list" where
  "session_workers S idn = map (session_worker S idn) [0..<nat (cc_sessions S)]"

definition parallel_sessions :: "'w conc_script \<Rightarrow> ('w, string) act" where
  \<comment> \<open>whether the threads have stopped is not looked at\<close>
  "parallel_sessions S =
     andthen (sleep (cc_cx S) 1) (\<lambda>_.
     andthen (conc_recalled S) (\<lambda>s.
     andthen (now (cc_cx S)) (\<lambda>t0.
     andthen (\<lambda>w. case scheduled (cc_calls S w) (session_workers S (cs_idn s), w, []) of (_, w1, ps) \<Rightarrow> (Inr ps, w1)) (\<lambda>ps.
     andthen (now (cc_cx S)) (\<lambda>t1.
     andthen (noted (cc_cx S) (str_int (cc_sessions S) @ '' parallel sessions in '' @ fmt_fixed 1 (t1 - t0) @ ''s'')) (\<lambda>_.
     let detail = str_int (cc_sessions S) @ '' sessions; '' @ repr_list (map py_repr (take 3 ps)) in
     andthen (assert_that (ps = []) detail) (\<lambda>_. ret detail)))))))"

definition parallel_checks :: "'w conc_script \<Rightarrow> (string \<times> string \<times> string list \<times> rat \<times> ('w, string) act) list" where
  \<comment> \<open>name, rule, protocols, watchdog and body\<close>
  "parallel_checks S =
     [(''parallel sessions to one instrument do not interfere'', ''VPP-4.3 RULE 3.6.1'', [''hislip''], PARALLEL_WATCHDOG, parallel_sessions S),
      (''parallel sessions to one instrument do not interfere (locked, as VXI-11 requires)'', ''VPP-4.3 RULE 3.6.1'', [''vxi11''], PARALLEL_WATCHDOG,
       parallel_sessions S)]"

section \<open>Churn\<close>

definition churn_noted :: "'w conc_script \<Rightarrow> (churn_result \<Rightarrow> churn_result) \<Rightarrow> ('w, unit) act" where
  "churn_noted S f = conc_remembered S (\<lambda>s. s\<lparr>cs_churn := map_option f (cs_churn s)\<rparr>)"

definition churned :: "'w conc_script \<Rightarrow> ('w, churn_result) act" where
  "churned S w = (Inr (the (cs_churn (cc_state S w))), w)"

definition churn_cycle :: "'w conc_script \<Rightarrow> ('w, unit) act" where
  "churn_cycle S =
     andthen (open_inst (cc_cx S) (andthen (inst_query (cc_cx S) ''*IDN?'') (\<lambda>_. ret ()))) (\<lambda>_.
     churn_noted S (\<lambda>r. r\<lparr>ch_completed := Suc (ch_completed r)\<rparr>))"

definition churn_measured :: "'w conc_script \<Rightarrow> ('w, unit) act" where
  "churn_measured S =
     andthen (sleep (cc_cx S) 1) (\<lambda>_.
     andthen (\<lambda>w. churn_noted S (\<lambda>r. r\<lparr>ch_threads := cc_active_count S w, ch_fds := open_fd_count (cc_listing S w), ch_measured := True\<rparr>) w) (\<lambda>_.
     andthen (churned S) (\<lambda>r.
     noted (cc_cx S) (''after '' @ str_nat (ch_completed r) @ '' cycles: '' @ str_int (ch_threads r) @ '' threads, '' @ str_int (ch_fds r) @ '' fds''))))"

definition churn :: "'w conc_script \<Rightarrow> ('w, churn_result) act" where
  "churn S =
     andthen (conc_recalled S) (\<lambda>s.
     case cs_churn s of
       Some r \<Rightarrow> ret r
     | None \<Rightarrow>
         let n = max 10 (cc_iterations S div 10) in
         andthen (change (\<lambda>w. cc_put S (s\<lparr>cs_churn := Some \<lparr>ch_base_threads = cc_active_count S w, ch_base_fds = open_fd_count (cc_listing S w),
           ch_cycles = n, ch_completed = 0, ch_error = None, ch_measured = False, ch_threads = 0, ch_fds = 0\<rparr>\<rparr>) w)) (\<lambda>_.
         andthen (catch ''Exception'' (andthen (for_each [0..<nat n] (\<lambda>_. churn_cycle S)) (\<lambda>_. ret ())) (\<lambda>exc.
           andthen (churn_noted S (\<lambda>r. r\<lparr>ch_error := Some exc\<rparr>)) (\<lambda>_.
           andthen (churned S) (\<lambda>r.
           noted (cc_cx S) (''the churn stopped after '' @ str_nat (ch_completed r) @ ''/'' @ str_int (ch_cycles r) @
             '' cycles, so the leak deltas below cover only those''))))) (\<lambda>_.
         andthen (churn_measured S) (\<lambda>_. churned S))))"

definition check_churn_completes :: "'w conc_script \<Rightarrow> ('w, string) act" where
  "check_churn_completes S =
     andthen (churn S) (\<lambda>r.
     let cycles_done = str_nat (ch_completed r) @ ''/'' @ str_int (ch_cycles r) @ '' cycles'' in
     case ch_error r of
       Some exc \<Rightarrow> throw (AssertionError (cycles_done @ '': '' @ type_name exc @ '': '' @ e_msg exc))
     | None \<Rightarrow> ret cycles_done)"

definition measured_churn :: "'w conc_script \<Rightarrow> ('w, churn_result) act" where
  "measured_churn S =
     andthen (churn S) (\<lambda>r.
     if \<not> ch_measured r then
       throw (Skip (''the churn did not finish ('' @ str_nat (ch_completed r) @ ''/'' @ str_int (ch_cycles r) @ '' cycles), so nothing was counted afterwards''))
     else ret r)"

definition check_no_thread_leak :: "'w conc_script \<Rightarrow> ('w, string) act" where
  "check_no_thread_leak S =
     andthen (measured_churn S) (\<lambda>r.
     let leaked = ch_threads r - ch_base_threads r; detail = str_nat (ch_completed r) @ '' cycles, delta '' @ str_int leaked in
     andthen (assert_that (leaked \<le> 1) detail) (\<lambda>_. ret detail))"

definition check_no_fd_leak :: "'w conc_script \<Rightarrow> ('w, string) act" where
  "check_no_fd_leak S =
     andthen (measured_churn S) (\<lambda>r.
     if ch_base_fds r < 0 then throw (Skip ''this platform exposes no open-descriptor count'')
     else
       let leaked = ch_fds r - ch_base_fds r; detail = str_nat (ch_completed r) @ '' cycles, delta '' @ str_int leaked in
       andthen (assert_that (leaked \<le> 2) detail) (\<lambda>_. ret detail))"

section \<open>Every order of the calls\<close>

text \<open>What the load relies on: from every world of a set the library answers each call as the thread wants it and stays in the set.\<close>

definition answers_well :: "'w conc_script \<Rightarrow> string \<Rightarrow> ('w \<Rightarrow> bool) \<Rightarrow> bool" where
  "answers_well S idn J \<longleftrightarrow> (\<forall>w. J w \<longrightarrow>
     (\<exists>w'. asked (cc_cx S) ''*IDN?'' w = (Inr idn, w') \<and> J w') \<and>
     (\<exists>stb w'. read_stb (cc_cx S) w = (Inr stb, w') \<and> 0 \<le> stb \<and> stb \<le> 0xFF \<and> J w') \<and>
     (\<exists>key st w'. exclusive (cc_cx S) 2000 w = (Inr (key, st), w') \<and> st \<in> {code (cc_cx S) ''success'', code (cc_cx S) ''error_timeout''} \<and> J w') \<and>
     (\<exists>st w'. lib_unlock (cc_cx S) w = (Inr st, w') \<and> st \<in> {code (cc_cx S) ''success'', code (cc_cx S) ''error_timeout''} \<and> J w') \<and>
     (\<exists>w'. lib_op (cc_cx S) ''gpib_control_ren'' (ren_mode (cx_protocol (cc_cx S))) w = (Inr (code (cc_cx S) ''success''), w') \<and> J w'))"

definition assigned :: "nat \<Rightarrow> duty set" where
  \<comment> \<open>the calls thread \<open>i\<close> is there to make\<close>
  "assigned i = (if i = 0 then {Querying} else if i mod 3 = 1 then {Polling} else if i mod 3 = 2 then {Locking, Unlocking} else {Driving})"

definition manned :: "duty list \<Rightarrow> bool" where
  "manned ds \<longleftrightarrow> (\<forall>i < length ds. ds ! i \<in> assigned i)"

lemma workers_manned: "manned (workers S)"
  unfolding manned_def
proof (intro allI impI)
  fix i assume "i < length (workers S)"
  then show "workers S ! i \<in> assigned i"
  proof (cases i)
    case (Suc k)
    have "k mod 3 = 0 \<or> k mod 3 = 1 \<or> k mod 3 = 2" by presburger
    with Suc \<open>i < length (workers S)\<close> show ?thesis
      by (auto simp: workers_def assigned_def mod_Suc)
  qed (simp add: workers_def assigned_def)
qed

lemma manned_update: "manned ds \<Longrightarrow> d \<in> assigned i \<Longrightarrow> manned (ds[i := d])"
  by (cases "i < length ds") (auto simp: manned_def nth_list_update)

lemmas call_eval = attempted_def andthen_def inside_def catch_def ret_def problem_def bump_def change_def

lemma good_call:
  assumes "answers_well S idn J" "J w" "d \<in> assigned i"
  shows "\<exists>d' w' l'. worker_call S idn d (w, l) = (Inr d', w', l') \<and> J w' \<and> d' \<in> assigned i \<and> lo_problems l' = lo_problems l \<and> lo_duties l' = lo_duties l \<and>
     co_sync (lo_counts l') = co_sync (lo_counts l) + (if i = 0 then 1 else 0) \<and>
     co_stb (lo_counts l') = co_stb (lo_counts l) + (if i mod 3 = 1 then 1 else 0)"
proof (cases d)
  case Querying
  then show ?thesis using assms unfolding answers_well_def worker_call_def
    by (fastforce simp: sync_worker_def call_eval assigned_def split: if_splits)
next
  case Polling
  then show ?thesis using assms unfolding answers_well_def worker_call_def
    by (fastforce simp: stb_worker_def call_eval assigned_def split: if_splits)
next
  case Locking
  then show ?thesis using assms unfolding answers_well_def worker_call_def
    by (fastforce simp: lock_worker_def call_eval assigned_def split: if_splits)
next
  case Unlocking
  then show ?thesis using assms unfolding answers_well_def worker_call_def
    by (fastforce simp: unlock_worker_def call_eval assigned_def split: if_splits)
next
  case Driving
  then show ?thesis using assms unfolding answers_well_def worker_call_def
    by (fastforce simp: ren_worker_def call_eval assigned_def split: if_splits)
qed (use assms(3) in \<open>simp add: assigned_def split: if_splits\<close>)

lemma good_step:
  assumes "answers_well S idn J" "J w" "manned (lo_duties l)"
  shows "\<exists>w' l'. worker_step S idn i (w, l) = (w', l') \<and> J w' \<and> manned (lo_duties l') \<and> lo_problems l' = lo_problems l \<and>
     length (lo_duties l') = length (lo_duties l) \<and>
     co_sync (lo_counts l') = co_sync (lo_counts l) + (if i < length (lo_duties l) \<and> i = 0 then 1 else 0) \<and>
     co_stb (lo_counts l') = co_stb (lo_counts l) + (if i < length (lo_duties l) \<and> i mod 3 = 1 then 1 else 0)"
proof (cases "i < length (lo_duties l)")
  case True
  then have "lo_duties l ! i \<in> assigned i" using assms(3) by (simp add: manned_def)
  from good_call[OF assms(1,2) this, of l] obtain d w' l' where
    "worker_call S idn (lo_duties l ! i) (w, l) = (Inr d, w', l')" "J w'" "d \<in> assigned i" "lo_problems l' = lo_problems l" "lo_duties l' = lo_duties l"
    "co_sync (lo_counts l') = co_sync (lo_counts l) + (if i = 0 then 1 else 0)" "co_stb (lo_counts l') = co_stb (lo_counts l) + (if i mod 3 = 1 then 1 else 0)"
    by blast
  with True assms(3) show ?thesis by (simp add: worker_step_def manned_update)
qed (use assms in \<open>simp add: worker_step_def\<close>)

definition calls :: "nat \<Rightarrow> (nat \<Rightarrow> bool) \<Rightarrow> nat list \<Rightarrow> nat" where
  \<comment> \<open>how many calls of an order are by a thread of that kind\<close>
  "calls n kind order = length (filter (\<lambda>i. i < n \<and> kind i) order)"

lemma good_fold:
  assumes "answers_well S idn J"
  shows "J w \<Longrightarrow> manned (lo_duties l) \<Longrightarrow>
    \<exists>w' l'. fold (worker_step S idn) order (w, l) = (w', l') \<and> J w' \<and> manned (lo_duties l') \<and> lo_problems l' = lo_problems l \<and>
     length (lo_duties l') = length (lo_duties l) \<and>
     co_sync (lo_counts l') = co_sync (lo_counts l) + calls (length (lo_duties l)) (\<lambda>i. i = 0) order \<and>
     co_stb (lo_counts l') = co_stb (lo_counts l) + calls (length (lo_duties l)) (\<lambda>i. i mod 3 = 1) order"
proof (induction order arbitrary: w l)
  case (Cons i order)
  from good_step[OF assms Cons.prems, of i] obtain w1 l1 where 1: "worker_step S idn i (w, l) = (w1, l1)" "J w1" "manned (lo_duties l1)"
    "lo_problems l1 = lo_problems l" "length (lo_duties l1) = length (lo_duties l)"
    "co_sync (lo_counts l1) = co_sync (lo_counts l) + (if i < length (lo_duties l) \<and> i = 0 then 1 else 0)"
    "co_stb (lo_counts l1) = co_stb (lo_counts l) + (if i < length (lo_duties l) \<and> i mod 3 = 1 then 1 else 0)" by blast
  from Cons.IH[OF 1(2,3)] 1 show ?case by (auto simp: calls_def)
qed (simp add: calls_def)

lemma fresh_facts [simp]:
  "lo_duties (fresh_load S) = workers S" "lo_problems (fresh_load S) = []"
  "co_sync (lo_counts (fresh_load S)) = 0" "co_stb (lo_counts (fresh_load S)) = 0"
  by (simp_all add: fresh_load_def no_counts_def)


definition example_load :: "unit conc_script" where
  "example_load =
     \<lparr>cc_cx = example_ctx\<lparr>cx_client := example_client\<lparr>i_query := (\<lambda>s w. (Inr ''idn'', w)), cl_read_stb := (\<lambda>w. (Inr 64, w)),
        cl_lock := (\<lambda>kind t key w. (Tuple ANone (StatusCode 0), w)), cl_op := (\<lambda>name arg w. (Single (StatusCode 0), w))\<rparr>\<rparr>,
      cc_threads = 4, cc_sessions = 3, cc_iterations = 200, cc_schedule = (\<lambda>_ w. ([0, 1, 2, 0, 3, 2, 4], w)), cc_alive = (\<lambda>_. []),
      cc_client = (\<lambda>_. example_client), cc_calls = (\<lambda>_. []), cc_active_count = (\<lambda>_. 1), cc_listing = (\<lambda>_ _. None),
      cc_state = (\<lambda>_. \<lparr>cs_idn = ''idn'', cs_load = None, cs_churn = None\<rparr>), cc_put = (\<lambda>_ w. w),
      cc_stats = (\<lambda>_. new_stats ''04_concurrency'' False None 0), cc_put_stats = (\<lambda>_ w. w)\<rparr>"

lemma example_answers: "answers_well example_load ''idn'' (\<lambda>_. True)"
  by (simp add: answers_well_def example_load_def asked_def inst_query_def read_stb_def exclusive_def lib_lock_def lib_unlock_def lib_op_def
    lib_call_def lib_status_def call_def code_def example_ctx_def example_env_def andthen_def ret_def strip_def lstrip_def rstrip_def is_space_def)


section \<open>A load whose session does not open\<close>

text \<open>
  The result of the load is put into \<^verbatim>\<open>STATE\<close> before its session is opened. When opening raises, the first check that asks for the load
  reports it; the next two find the half-filled dictionary and end in a \<^verbatim>\<open>KeyError\<close>, and the last one reads it as a reply that never came.
\<close>

theorem half_filled_load_misleads:
  fixes S :: "'w conc_script"
  assumes "\<And>s w. cc_state S (cc_put S s w) = s" "\<And>w. cc_state S (f w) = cc_state S w"
    and "\<And>w (body :: ('w, unit) act). open_inst (cc_cx S) body w = (Inl exc, f w)"
    and "cs_load (cc_state S w) = None"
  shows "\<exists>w'. check_workers_stopped caller S w = (Inl exc, w') \<and>
    check_no_interference caller S w' = (Inl (missing_key ''workers''), w') \<and>
    check_both_channels_driven caller S w' = (Inl (missing_key ''sync''), w') \<and>
    check_healthy_after_load caller S w' = (Inl (AssertionError ''got None''), w')"
  using assms
  by (simp add: check_workers_stopped_def check_no_interference_def check_both_channels_driven_def check_healthy_after_load_def
    concurrent_load_def conc_recalled_def conc_remembered_def andthen_def change_def ret_def present_def throw_def assert_that_def Let_def)

section \<open>Sessions in parallel, in every order\<close>

definition session_served :: "('w \<Rightarrow> bool) \<Rightarrow> string \<Rightarrow> 'w ctx \<Rightarrow> bool" where
  \<comment> \<open>the calls of a worker succeed, and the identification is the expected one\<close>
  "session_served J idn local \<longleftrightarrow> serves J (\<lambda>_. True) (entering local) \<and> serves J (\<lambda>_. True) (leaving local) \<and>
     serves J (\<lambda>reply. reply = idn) (asked local ''*IDN?'') \<and> serves J (\<lambda>_. True) (read_stb local) \<and>
     serves J (\<lambda>_. True) (effect (cl_lock_excl (cx_client local) 10000)) \<and> serves J (\<lambda>_. True) (effect (cl_unlock (cx_client local)))"

lemma session_block_clean:
  assumes "session_served J idn local" "fst (k idn) = []" "thread_keeps (clean J) (snd (k idn))"
  shows "thread_keeps (clean J) (session_block local needs_lock who k)"
proof -
  have "fst (release_then local needs_lock who (Inr idn) k) = [] \<and> thread_keeps (clean J) (snd (release_then local needs_lock who (Inr idn) k))"
    using assms by (auto simp: release_then_def Let_def session_served_def intro: or_fail_clean)
  then have "thread_keeps (clean J) (call_then (read_stb local) (\<lambda>r. release_then local needs_lock who (map_sum id (\<lambda>_. idn) r) k))"
    using assms(1) by (intro call_clean[where good = "\<lambda>_. True"]) (simp_all add: session_served_def)
  then show ?thesis
    unfolding session_block_def using assms(1) by (intro call_clean[where good = "\<lambda>reply. reply = idn"]) (simp_all add: session_served_def)
qed

lemma session_turn_clean:
  assumes "session_served J idn local" "thread_keeps (clean J) next"
  shows "thread_keeps (clean J) (session_turn local needs_lock index idn next)"
proof -
  have block: "thread_keeps (clean J) (session_block local needs_lock who (\<lambda>reply. if reply \<noteq> idn then (msg reply, leave_with local []) else ([], next)))"
    for who msg by (rule session_block_clean[OF assms(1)]) (simp_all add: assms(2))
  have "serves J (\<lambda>_. True) (effect (cl_lock_excl (cx_client local) 10000))" using assms(1) by (simp add: session_served_def)
  then have "thread_keeps (clean J) (or_fail local who (effect (cl_lock_excl (cx_client local) 10000)) (\<lambda>_. ([],
      session_block local needs_lock who (\<lambda>reply. if reply \<noteq> idn then (msg reply, leave_with local []) else ([], next)))))" for who msg
    by (rule or_fail_clean) (simp add: block)
  with block show ?thesis unfolding session_turn_def Let_def by (simp only: split: if_split) blast
qed

lemma session_worker_clean:
  assumes "session_served J idn (through (cc_cx S) (cc_client S index))"
  shows "thread_keeps (clean J) (session_worker S idn index)"
proof -
  have "thread_keeps (clean J) (session_turns n (through (cc_cx S) (cc_client S index)) needs_lock index idn)" for n needs_lock
    by (induction n) (use assms in \<open>auto simp: session_served_def intro: leave_clean session_turn_clean\<close>)
  then show ?thesis using assms by (auto simp: session_worker_def Let_def session_served_def intro: in_session_clean)
qed

lemma release_within:
  "(\<And>x. ends_in (Suc n) (snd (k x))) \<Longrightarrow> ends_in (Suc (Suc n)) (snd (release_then local needs_lock who r k))"
  by (auto simp: release_then_def Let_def failed_within split: sum.split intro!: or_fail_within ends_in_mono[of "Suc n" _ "Suc (Suc n)"])

lemma session_block_within:
  assumes "\<And>x. ends_in (Suc n) (snd (k x))"
  shows "ends_in (Suc (Suc (Suc (Suc n)))) (session_block local needs_lock who k)"
proof -
  have release: "ends_in (Suc (Suc n)) (snd (release_then local needs_lock who r k))" for r by (rule release_within[OF assms])
  have "ends_in (Suc (Suc (Suc n))) (snd (release_then local needs_lock who r k))" for r by (rule ends_in_mono[OF release]) simp
  moreover have "ends_in (Suc (Suc (Suc n))) (call_then (read_stb local) (\<lambda>r. release_then local needs_lock who (map_sum id (\<lambda>_. reply) r) k))" for reply
    by (rule call_then_within[OF release])
  ultimately show ?thesis unfolding session_block_def by (intro call_then_within) (simp split: sum.split)
qed

lemma session_turn_within:
  assumes "ends_in (Suc n) next"
  shows "ends_in (Suc (Suc (Suc (Suc (Suc n))))) (session_turn local needs_lock index idn next)"
proof -
  have block: "ends_in (Suc (Suc (Suc (Suc n)))) (session_block local needs_lock who (\<lambda>reply. if reply \<noteq> idn then (msg reply, leave_with local []) else ([], next)))"
    for who msg using assms by (intro session_block_within) (simp add: leave_within)
  then have longer: "ends_in (Suc (Suc (Suc (Suc (Suc n))))) (session_block local needs_lock who (\<lambda>reply. if reply \<noteq> idn then (msg reply, leave_with local []) else ([], next)))"
    for who msg by (rule ends_in_mono) simp
  have "ends_in (Suc (Suc (Suc (Suc (Suc n))))) (or_fail local who (effect (cl_lock_excl (cx_client local) 10000)) (\<lambda>_. ([],
      session_block local needs_lock who (\<lambda>reply. if reply \<noteq> idn then (msg reply, leave_with local []) else ([], next)))))" for who msg
    by (rule or_fail_within) (simp add: block)
  with longer show ?thesis unfolding session_turn_def Let_def by (simp only: split: if_split) blast
qed

lemma session_worker_within: "ends_in (4 * turns_of S + 2) (session_worker S idn index)"
proof -
  have "ends_in (Suc (4 * n)) (session_turns n local needs_lock index idn)" for n local needs_lock
  proof (induction n)
    case (Suc n)
    from session_turn_within[OF this] show ?case by (simp add: eval_nat_numeral)
  qed (simp add: leave_within)
  from in_session_within[OF this] show ?thesis unfolding session_worker_def Let_def by simp
qed

text \<open>The check of the sessions in parallel passes for every order of the calls in which no call goes wrong; when the order is long enough, every
  worker has stopped by itself.\<close>

theorem parallel_sessions_pass:
  assumes "\<And>i. i < nat (cc_sessions S) \<Longrightarrow> session_served J idn (through (cc_cx S) (cc_client S i))" "J w"
    and "scheduled order (session_workers S idn, w, []) = (ts, w', problems)"
  shows "J w' \<and> problems = [] \<and>
    (\<forall>i < nat (cc_sessions S). 4 * turns_of S + 2 \<le> count_list order i \<longrightarrow> \<not> alive (ts ! i))"
proof -
  have "\<forall>t \<in> set (session_workers S idn). thread_keeps (clean J) t"
    unfolding session_workers_def using session_worker_clean[OF assms(1)] by auto
  moreover have "clean J (w, [])" using assms(2) by (simp add: clean_def)
  ultimately have "clean J (snd (scheduled order (session_workers S idn, w, [])))" by (rule scheduled_keeps)
  moreover have "ts ! i = Stopped" if "i < nat (cc_sessions S)" "4 * turns_of S + 2 \<le> count_list order i" for i
    using scheduled_stops[of i "session_workers S idn" "4 * turns_of S + 2" order "(w, [])"] that assms(3) session_worker_within[of S idn i]
    by (simp add: session_workers_def)
  ultimately show ?thesis using assms(3) by (simp add: clean_def alive_def)
qed

text \<open>It also passes when no worker ever comes back: the threads are waited for and then forgotten, and a session that hangs files nothing.\<close>

theorem hung_sessions_pass:
  assumes "cc_calls S (cx_sleep (cc_cx S) 1 w) = []"
  shows "\<exists>detail w'. parallel_sessions S w = (Inr detail, w')"
  using assms by (simp add: parallel_sessions_def andthen_def sleep_def change_def conc_recalled_def now_def scheduled_def noted_def assert_that_def ret_def Let_def)

end
