(* ===== verification/Vendor_Store.thy ===== *)
theory Vendor_Store
  imports Probe Regex
begin

text \<open>
  \<^verbatim>\<open>tools/upload_vendor.py\<close> and \<^verbatim>\<open>tools/fetch_vendor.py\<close>: the installers of the vendors and the manifest that names them, in a bucket. The bucket
  is reached through boto3, a parameter on a world of any type; the files the tools write locally stand beside it. A file that holds JSON
  is the document it holds. The hash is a parameter. The progress lines are left out, but for what evaluating them raises.
\<close>

section \<open>What both tools use\<close>

datatype blob = JsonText json | Bytes string

record 'w boto =
  s3_installed :: bool
  s3_get :: "string \<Rightarrow> string \<Rightarrow> 'w \<Rightarrow> (exn + blob) \<times> 'w"           \<comment> \<open>\<^verbatim>\<open>get_object\<close>: bucket and key\<close>
  s3_download :: "string \<Rightarrow> string \<Rightarrow> 'w \<Rightarrow> (exn + blob) \<times> 'w"
  s3_upload :: "string \<Rightarrow> string \<Rightarrow> blob \<Rightarrow> 'w \<Rightarrow> exn option \<times> 'w"
  s3_put :: "string \<Rightarrow> string \<Rightarrow> blob \<Rightarrow> 'w \<Rightarrow> exn option \<times> 'w"
  digest :: "blob \<Rightarrow> string"                                     \<comment> \<open>SHA-256, in hexadecimal\<close>
  st_size :: "blob \<Rightarrow> nat"

record 'w desk =
  dk_files :: "(string, blob) dict"
  dk_s3 :: 'w

definition on_s3 :: "('w, 'a) act \<Rightarrow> ('w desk, 'a) act" where
  "on_s3 m d = (case m (dk_s3 d) of (r, w) \<Rightarrow> (r, d\<lparr>dk_s3 := w\<rparr>))"

definition write_file :: "string \<Rightarrow> blob \<Rightarrow> ('w desk, unit) act" where
  "write_file path x = change (\<lambda>d. d\<lparr>dk_files := dict_set path x (dk_files d)\<rparr>)"

definition unlink :: "string \<Rightarrow> ('w desk, unit) act" where
  "unlink path = change (\<lambda>d. d\<lparr>dk_files := filter (\<lambda>f. fst f \<noteq> path) (dk_files d)\<rparr>)"

definition MANIFEST_KEY :: string where "MANIFEST_KEY = ''manifest.json''"

definition TypeErr :: exn where
  "TypeErr = plain_exn [''TypeError'', ''Exception'', ''BaseException''] []"

definition AttributeErr :: exn where
  "AttributeErr = plain_exn [''AttributeError'', ''Exception'', ''BaseException''] []"

definition KeyErr :: "string \<Rightarrow> exn" where
  "KeyErr key = plain_exn [''KeyError'', ''LookupError'', ''Exception'', ''BaseException''] (py_repr key)"

definition ImportErr :: exn where
  "ImportErr = plain_exn [''ModuleNotFoundError'', ''ImportError'', ''Exception'', ''BaseException''] (''No module named '' @ py_repr ''boto3'')"

definition ValueErr :: exn where
  "ValueErr = plain_exn [''JSONDecodeError'', ''ValueError'', ''Exception'', ''BaseException''] []"

fun loads :: "blob \<Rightarrow> exn + json" where
  "loads (JsonText j) = Inr j"
| "loads (Bytes s) = Inl ValueErr"

fun truth :: "json \<Rightarrow> bool" where
  "truth JNull = False"
| "truth (JBool b) = b"
| "truth (JNum n) = (n \<noteq> 0)"
| "truth (JStr s) = (s \<noteq> [])"
| "truth (JList xs) = (xs \<noteq> [])"
| "truth (JObj kvs) = (kvs \<noteq> [])"

fun got_key :: "json \<Rightarrow> string \<Rightarrow> json \<Rightarrow> exn + json" where
  \<comment> \<open>\<^verbatim>\<open>j.get(key, default)\<close>\<close>
  "got_key (JObj kvs) key dflt = Inr (case dict_get kvs key of None \<Rightarrow> dflt | Some v \<Rightarrow> v)"
| "got_key _ key dflt = Inl AttributeErr"

fun items :: "json \<Rightarrow> exn + json list" where
  \<comment> \<open>what a loop over a value sees\<close>
  "items (JList xs) = Inr xs"
| "items (JObj kvs) = Inr (map (\<lambda>kv. JStr (fst kv)) kvs)"
| "items (JStr s) = Inr (map (\<lambda>c. JStr [c]) s)"
| "items _ = Inl TypeErr"

definition pathlib_name :: "string \<Rightarrow> string" where
  \<comment> \<open>\<^verbatim>\<open>Path(p).name\<close>\<close>
  "pathlib_name p = (case filter (\<lambda>part. part \<noteq> [] \<and> part \<noteq> ''.'') (split_on ''/'' p) of [] \<Rightarrow> [] | parts \<Rightarrow> last parts)"

definition path_suffix :: "string \<Rightarrow> string" where
  \<comment> \<open>\<^verbatim>\<open>Path(name).suffix\<close>\<close>
  "path_suffix name =
     (let tail = takeWhile (\<lambda>c. c \<noteq> CHR ''.'') (rev name); stem = length name - Suc (length tail) in
      if CHR ''.'' \<in> set name \<and> tail \<noteq> [] \<and> 0 < stem then drop stem name else [])"

section \<open>Fetching\<close>

record fetch_args =
  fa_backend :: string
  fa_os_name :: string
  fa_bucket :: string
  fa_into :: string
  fa_print_install :: "string option"
  fa_print_version :: "string option"

definition SystemExit4 :: exn where
  "SystemExit4 = plain_exn [''SystemExit'', ''BaseException''] ''4''"

definition s3_client :: "'w boto \<Rightarrow> ('w desk, unit) act" where
  "s3_client B = (if s3_installed B then ret () else throw SystemExit4)"

fun find_entry :: "json list \<Rightarrow> string \<Rightarrow> string \<Rightarrow> exn + json option" where
  "find_entry [] backend os_name = Inr None"
| "find_entry (entry # rest) backend os_name =
     (case got_key entry ''backend'' JNull of
        Inl e \<Rightarrow> Inl e
      | Inr b \<Rightarrow>
          if b = JStr backend \<and> got_key entry ''os'' JNull = Inr (JStr os_name) then Inr (Some entry)
          else find_entry rest backend os_name)"

definition find_artifact :: "json \<Rightarrow> string \<Rightarrow> string \<Rightarrow> exn + json option" where
  "find_artifact manifest backend os_name =
     (case got_key manifest ''artifacts'' (JList []) of
        Inl e \<Rightarrow> Inl e
      | Inr artifacts \<Rightarrow> (case items artifacts of Inl e \<Rightarrow> Inl e | Inr entries \<Rightarrow> find_entry entries backend os_name))"

definition key_of :: "json \<Rightarrow> exn + string" where
  \<comment> \<open>\<^verbatim>\<open>entry["key"]\<close>, where a path is wanted\<close>
  "key_of entry =
     (case entry of
        JObj kvs \<Rightarrow> (case dict_get kvs ''key'' of None \<Rightarrow> Inl (KeyErr ''key'') | Some (JStr k) \<Rightarrow> Inr k | Some _ \<Rightarrow> Inl TypeErr)
      | _ \<Rightarrow> Inl TypeErr)"

definition fetched :: "fetch_args \<Rightarrow> json \<Rightarrow> ('w desk, int) act" where
  \<comment> \<open>the file is what the manifest says it is\<close>
  "fetched args entry =
     andthen (lift (got_key entry ''vendor_version'' (JStr (fa_backend args)))) (\<lambda>_.
     andthen (case fa_print_install args of
         None \<Rightarrow> ret ()
       | Some path \<Rightarrow> if path = [] then ret ()
           else andthen (lift (got_key entry ''install'' (JObj []))) (\<lambda>install. write_file path (JsonText install))) (\<lambda>_.
     andthen (case fa_print_version args of
         None \<Rightarrow> ret ()
       | Some path \<Rightarrow> if path = [] then ret ()
           else
             andthen (lift (got_key entry ''vendor_version'' JNull)) (\<lambda>version.
             if \<not> truth version then ret ()
             else (case version of JStr v \<Rightarrow> write_file path (Bytes v) | _ \<Rightarrow> throw TypeErr))) (\<lambda>_.
     ret 0)))"

definition fetch_entry :: "'w boto \<Rightarrow> fetch_args \<Rightarrow> json \<Rightarrow> ('w desk, int) act" where
  "fetch_entry B args entry =
     andthen (lift (key_of entry)) (\<lambda>key.
     let dest = fa_into args @ ''/'' @ fa_backend args @ ''/'' @ pathlib_name key in
     andthen (on_s3 (s3_download B (fa_bucket args) key)) (\<lambda>x.
     andthen (write_file dest x) (\<lambda>_.
     andthen (lift (got_key entry ''sha256'' (JStr []))) (\<lambda>want.
     if truth want \<and> JStr (digest B x) \<noteq> want then andthen (unlink dest) (\<lambda>_. ret 1)
     else fetched args entry))))"

definition fetch_main :: "'w boto \<Rightarrow> fetch_args \<Rightarrow> ('w desk, int) act" where
  "fetch_main B args =
     andthen (s3_client B) (\<lambda>_.
     andthen (on_s3 (s3_get B (fa_bucket args) MANIFEST_KEY)) (\<lambda>body.
     andthen (lift (loads body)) (\<lambda>manifest.
     andthen (lift (find_artifact manifest (fa_backend args) (fa_os_name args))) (\<lambda>entry.
     case entry of None \<Rightarrow> ret 3 | Some entry \<Rightarrow> fetch_entry B args entry))))"

section \<open>Uploading\<close>

definition first_match :: "(rx \<times> (cursor \<Rightarrow> string)) list \<Rightarrow> string \<Rightarrow> string" where
  "first_match patterns txt =
     (case List.map_filter (\<lambda>(pattern, render). map_option render (rx_search pattern txt)) patterns of [] \<Rightarrow> [] | v # _ \<Rightarrow> v)"

definition grp :: "nat \<Rightarrow> cursor \<Rightarrow> string" where
  "grp i m = (case rx_group i m of None \<Rightarrow> ''None'' | Some s \<Rightarrow> s)"

definition rx_year :: rx where "rx_year = rx_cat [rx_lit ''20'', rx_digit, rx_digit]"
definition rx_version_char :: rx where "rx_version_char = Sym (\<lambda>c. is_digit c \<or> c = CHR ''.'')"

record vendor_rule =
  ru_match :: "string \<Rightarrow> bool"
  ru_reject :: "string \<Rightarrow> bool"
  ru_install :: json
  ru_version :: "string \<Rightarrow> string"

definition ni_linux :: vendor_rule where
  "ni_linux =
     \<lparr>ru_match = (\<lambda>name. path_suffix name \<in> {''.zip'', ''.deb''}),
      ru_reject = (\<lambda>name. contains ''arm'' (lower name)),
      ru_install = JObj [(''kind'', JStr ''apt-repo-deb''), (''package'', JStr ''ni-visa'')],
      ru_version = first_match [(rx_cat [Grp 1 rx_year, rx_lit ''Q'', Grp 2 (Sym (\<lambda>c. c \<in> set ''1234''))],
        \<lambda>m. ''NI-VISA '' @ grp 1 m @ '' Q'' @ grp 2 m)]\<rparr>"

definition rs_linux :: vendor_rule where
  "rs_linux =
     \<lparr>ru_match = (\<lambda>name. path_suffix name = ''.deb'' \<and> contains ''amd64'' name),
      ru_reject = (\<lambda>name. \<not> contains ''amd64'' name),
      ru_install = JObj [(''kind'', JStr ''deb'')],
      ru_version = first_match [(rx_cat [rx_lit ''rsvisa'', Sym (\<lambda>c. c \<in> set ''_-''), Grp 1 (rx_plus rx_version_char)],
        \<lambda>m. ''R&S VISA '' @ grp 1 m)]\<rparr>"

definition keysight_linux :: vendor_rule where
  "keysight_linux =
     \<lparr>ru_match = (\<lambda>name. path_suffix name \<in> {''.gz'', ''.tgz'', ''.deb'', ''.run''}),
      ru_reject = (\<lambda>name. contains ''arm'' (lower name) \<or> contains ''i386'' name),
      ru_install = JObj [(''kind'', JStr ''bitrock-run''),
        (''args'', JList [JStr ''--mode'', JStr ''unattended'', JStr ''--unattendedmodeui'', JStr ''none'']),
        (''enable_components'', JStr ''iio,iom,lan,interfaces''),
        (''library'', JStr ''/opt/keysight/iolibs/libktvisa32.so''),
        (''applied_by'', JStr ''docker/Dockerfile'')],
      ru_version = first_match
        [(rx_cat [rx_lit ''IOLibrariesSuite-'', Grp 1 (Cat rx_digit (Star rx_version_char)), rx_lit ''-''], \<lambda>m. ''Keysight IO Libraries '' @ grp 1 m),
         (Grp 1 rx_year, \<lambda>m. ''Keysight IO Libraries '' @ grp 1 m)]\<rparr>"

definition RULES :: "((string \<times> string) \<times> vendor_rule) list" where
  "RULES = [((''ni'', ''linux''), ni_linux), ((''rs'', ''linux''), rs_linux), ((''keysight'', ''linux''), keysight_linux)]"

text \<open>A directory lists its entries, those that are no files without contents.\<close>

type_synonym vendor_dir = "(string, (string, blob option) dict) dict"

record installer =
  in_backend :: string
  in_os :: string
  in_name :: string
  in_contents :: blob
  in_rule :: vendor_rule

definition claimed :: "(string \<times> string) \<times> vendor_rule \<Rightarrow> string \<times> blob option \<Rightarrow> installer option" where
  "claimed r f =
     (case (r, f) of (((backend, os_name), rule), (name, contents)) \<Rightarrow>
      case contents of
        None \<Rightarrow> None
      | Some x \<Rightarrow>
          if name = ''README.md'' \<or> ru_reject rule name \<or> \<not> ru_match rule name then None
          else Some \<lparr>in_backend = backend, in_os = os_name, in_name = name, in_contents = x, in_rule = rule\<rparr>)"

definition discover :: "vendor_dir \<Rightarrow> installer list" where
  "discover tree =
     concat (map (\<lambda>r. case dict_get tree (fst (fst r)) of
         None \<Rightarrow> []
       | Some directory \<Rightarrow> List.map_filter (claimed r) (sort_key fst directory)) RULES)"

record upload_args =
  ua_bucket :: string
  ua_dry_run :: bool
  ua_vendor_version :: "string list"
  ua_manifest_out :: "string option"

fun overrides_of :: "string list \<Rightarrow> (string, string) dict \<Rightarrow> (string, string) dict option" where
  \<comment> \<open>nothing if a pair has no version\<close>
  "overrides_of [] d = Some d"
| "overrides_of (pair # pairs) d =
     (case partition3 pair ''='' of (backend, _, version) \<Rightarrow>
      if version = [] then None else overrides_of pairs (dict_set backend version d))"

type_synonym manifest_entries = "((string \<times> string), (string, json) dict) dict"

definition named :: "json \<Rightarrow> exn + (string \<times> string) \<times> (string, json) dict" where
  \<comment> \<open>an entry of the manifest with its names; one that is no string is refused here rather than when the names are sorted\<close>
  "named a =
     (case a of
        JObj kvs \<Rightarrow>
          (case (dict_get kvs ''backend'', dict_get kvs ''os'') of
             (None, _) \<Rightarrow> Inl (KeyErr ''backend'')
           | (_, None) \<Rightarrow> Inl (KeyErr ''os'')
           | (Some (JStr b), Some (JStr os_name)) \<Rightarrow> Inr ((b, os_name), kvs)
           | _ \<Rightarrow> Inl TypeErr)
      | _ \<Rightarrow> Inl TypeErr)"

fun by_key_of :: "json list \<Rightarrow> manifest_entries \<Rightarrow> exn + manifest_entries" where
  "by_key_of [] d = Inr d"
| "by_key_of (a # as) d = (case named a of Inl e \<Rightarrow> Inl e | Inr (k, kvs) \<Rightarrow> by_key_of as (dict_set k kvs d))"

definition storage_key :: "installer \<Rightarrow> string" where
  "storage_key i = ''drivers/'' @ in_backend i @ ''/'' @ in_os i @ ''/'' @ in_name i"

definition version_for :: "(string, string) dict \<Rightarrow> (string, json) dict \<Rightarrow> installer \<Rightarrow> json" where
  "version_for overrides entry i =
     (case dict_get overrides (in_backend i) of
        Some v \<Rightarrow> JStr v
      | None \<Rightarrow>
          (case dict_get entry ''vendor_version'' of
             Some v \<Rightarrow> if truth v then v else JStr (ru_version (in_rule i) (in_name i))
           | None \<Rightarrow> JStr (ru_version (in_rule i) (in_name i))))"

definition install_for :: "(string, json) dict \<Rightarrow> installer \<Rightarrow> json" where
  "install_for entry i =
     (case dict_get entry ''install'' of Some v \<Rightarrow> if truth v then v else ru_install (in_rule i) | None \<Rightarrow> ru_install (in_rule i))"

definition updated_entry :: "'w boto \<Rightarrow> (string, string) dict \<Rightarrow> (string, json) dict \<Rightarrow> installer \<Rightarrow> (string, json) dict" where
  "updated_entry B overrides entry i =
     dict_set ''dest'' (JStr (''vendor/'' @ in_backend i @ ''/''))
       (dict_update entry
         [(''backend'', JStr (in_backend i)), (''os'', JStr (in_os i)), (''arch'', JStr ''x86_64''), (''key'', JStr (storage_key i)),
          (''sha256'', JStr (digest B (in_contents i))), (''bytes'', JNum (int (st_size B (in_contents i)))),
          (''vendor_version'', version_for overrides entry i), (''install'', install_for entry i)])"

definition upload_one :: "'w boto \<Rightarrow> upload_args \<Rightarrow> (string, string) dict \<Rightarrow> manifest_entries \<Rightarrow> installer \<Rightarrow> ('w desk, manifest_entries) act" where
  "upload_one B args overrides by_key i =
     (let k = (in_backend i, in_os i);
          entry = updated_entry B overrides (case dict_get by_key k of None \<Rightarrow> [] | Some kvs \<Rightarrow> kvs) i in
      andthen (lift (got_key (case dict_get entry ''install'' of None \<Rightarrow> JNull | Some v \<Rightarrow> v) ''verified'' JNull)) (\<lambda>_.
      andthen (if ua_dry_run args then ret ()
         else effect (\<lambda>d. case s3_upload B (ua_bucket args) (storage_key i) (in_contents i) (dk_s3 d) of (r, w) \<Rightarrow> (r, d\<lparr>dk_s3 := w\<rparr>))) (\<lambda>_.
      ret (dict_set k entry by_key))))"

fun upload_all :: "'w boto \<Rightarrow> upload_args \<Rightarrow> (string, string) dict \<Rightarrow> manifest_entries \<Rightarrow> installer list \<Rightarrow> ('w desk, manifest_entries) act" where
  "upload_all B args overrides by_key [] = ret by_key"
| "upload_all B args overrides by_key (i # is) =
     andthen (upload_one B args overrides by_key i) (\<lambda>by_key. upload_all B args overrides by_key is)"

definition new_manifest :: json where
  "new_manifest = JObj [(''version'', JNum 1), (''artifacts'', JList [])]"

definition read_manifest :: "'w boto \<Rightarrow> upload_args \<Rightarrow> ('w desk, json) act" where
  \<comment> \<open>whatever goes wrong counts as no manifest\<close>
  "read_manifest B args =
     (if ua_dry_run args then ret new_manifest
      else if \<not> s3_installed B then throw ImportErr
      else catch ''Exception''
        (andthen (on_s3 (s3_get B (ua_bucket args) MANIFEST_KEY)) (\<lambda>body. lift (loads body)))
        (\<lambda>_. ret new_manifest))"

fun with_artifacts :: "json \<Rightarrow> manifest_entries \<Rightarrow> json" where
  \<comment> \<open>the entries in the order of their names\<close>
  "with_artifacts (JObj kvs) by_key = JObj (dict_set ''artifacts'' (JList (map (\<lambda>e. JObj (snd e)) (sort_key fst by_key))) kvs)"
| "with_artifacts j by_key = j"

definition publish :: "'w boto \<Rightarrow> upload_args \<Rightarrow> json \<Rightarrow> ('w desk, unit) act" where
  "publish B args manifest =
     (let out = (case ua_manifest_out args of None \<Rightarrow> [] | Some path \<Rightarrow> path) in
      andthen (if out \<noteq> [] \<or> ua_dry_run args then write_file (if out \<noteq> [] then out else ''manifest.json'') (JsonText manifest) else ret ()) (\<lambda>_.
      if ua_dry_run args then ret ()
      else effect (\<lambda>d. case s3_put B (ua_bucket args) MANIFEST_KEY (JsonText manifest) (dk_s3 d) of (r, w) \<Rightarrow> (r, d\<lparr>dk_s3 := w\<rparr>))))"

definition upload_found :: "'w boto \<Rightarrow> upload_args \<Rightarrow> (string, string) dict \<Rightarrow> installer list \<Rightarrow> ('w desk, int) act" where
  "upload_found B args overrides found =
     andthen (read_manifest B args) (\<lambda>manifest.
     andthen (lift (got_key manifest ''artifacts'' (JList []))) (\<lambda>artifacts.
     andthen (lift (items artifacts)) (\<lambda>entries.
     andthen (lift (by_key_of entries [])) (\<lambda>by_key.
     andthen (upload_all B args overrides by_key found) (\<lambda>by_key.
     andthen (publish B args (with_artifacts manifest by_key)) (\<lambda>_. ret 0))))))"

definition upload_main :: "'w boto \<Rightarrow> upload_args \<Rightarrow> vendor_dir option \<Rightarrow> ('w desk, int) act" where
  \<comment> \<open>with what is under the directory of installers, if there is one\<close>
  "upload_main B args tree =
     (case overrides_of (ua_vendor_version args) [] of
        None \<Rightarrow> ret 4
      | Some overrides \<Rightarrow>
          (case tree of
             None \<Rightarrow> ret 4
           | Some tree \<Rightarrow> if discover tree = [] then ret 3 else upload_found B args overrides (discover tree)))"

section \<open>What is uploaded can be fetched\<close>

text \<open>What is relied on of the store: a key holds what was last put there, and the calls do not fail.\<close>

definition object_store :: "'w boto \<Rightarrow> string \<Rightarrow> ('w \<Rightarrow> string \<Rightarrow> blob option) \<Rightarrow> bool" where
  "object_store B bucket contents \<longleftrightarrow> s3_installed B \<and>
     (\<forall>w k x. contents w k = Some x \<longrightarrow> s3_get B bucket k w = (Inr x, w) \<and> s3_download B bucket k w = (Inr x, w)) \<and>
     (\<forall>w k. contents (snd (s3_get B bucket k w)) = contents w) \<and>
     (\<forall>w k x. \<exists>w'. s3_upload B bucket k x w = (None, w') \<and> contents w' = (contents w)(k \<mapsto> x)) \<and>
     (\<forall>w k x. \<exists>w'. s3_put B bucket k x w = (None, w') \<and> contents w' = (contents w)(k \<mapsto> x))"

definition describes :: "'w boto \<Rightarrow> (string, json) dict \<Rightarrow> installer \<Rightarrow> bool" where
  "describes B entry i \<longleftrightarrow> dict_get entry ''backend'' = Some (JStr (in_backend i)) \<and> dict_get entry ''os'' = Some (JStr (in_os i)) \<and>
     dict_get entry ''key'' = Some (JStr (storage_key i)) \<and> dict_get entry ''sha256'' = Some (JStr (digest B (in_contents i)))"

lemma dict_get_set [simp]: "dict_get (dict_set k v d) k' = (if k' = k then Some v else dict_get d k')"
  by (rule alist_dict.get_put)

lemma updated_entry_describes: "describes B (updated_entry B overrides entry i) i"
  by (simp add: describes_def updated_entry_def dict_update_def)

abbreviation place :: "installer \<Rightarrow> string \<times> string" where
  "place i \<equiv> (in_backend i, in_os i)"

lemma upload_one_entry:
  assumes "upload_one B args overrides by_key i d = (Inr by_key', d')"
  shows "\<exists>entry. describes B entry i \<and> by_key' = dict_set (place i) entry by_key"
proof -
  have "by_key' = dict_set (place i) (updated_entry B overrides (case dict_get by_key (place i) of None \<Rightarrow> [] | Some kvs \<Rightarrow> kvs) i) by_key"
    using assms by (auto simp: upload_one_def Let_def andthen_Inr_iff ret_def)
  then show ?thesis using updated_entry_describes by blast
qed

lemma upload_one_stores:
  assumes "object_store B (ua_bucket args) contents" "\<not> ua_dry_run args" "upload_one B args overrides by_key i d = (Inr by_key', d')"
  shows "\<exists>entry. describes B entry i \<and> by_key' = dict_set (place i) entry by_key \<and>
    contents (dk_s3 d') = (contents (dk_s3 d))(storage_key i \<mapsto> in_contents i)"
proof -
  obtain w' where w': "s3_upload B (ua_bucket args) (storage_key i) (in_contents i) (dk_s3 d) = (None, w')"
      "contents w' = (contents (dk_s3 d))(storage_key i \<mapsto> in_contents i)"
    using assms(1) unfolding object_store_def by blast
  then have "dk_s3 d' = w'"
    using assms(2,3) by (auto simp: upload_one_def Let_def andthen_def lift_def effect_def ret_def split: sum.splits)
  with w'(2) upload_one_entry[OF assms(3)] show ?thesis by blast
qed

definition latest :: "('a \<Rightarrow> bool) \<Rightarrow> 'a list \<Rightarrow> 'a option" where
  "latest P xs = find P (rev xs)"

lemma latest_simps [simp]: "latest P [] = None" "latest P (x # xs) = (case latest P xs of None \<Rightarrow> if P x then Some x else None | Some y \<Rightarrow> Some y)"
proof -
  have "find P (ys @ [x]) = (case find P ys of None \<Rightarrow> if P x then Some x else None | Some y \<Rightarrow> Some y)" for ys by (induction ys) auto
  then show "latest P (x # xs) = (case latest P xs of None \<Rightarrow> if P x then Some x else None | Some y \<Rightarrow> Some y)" by (simp add: latest_def)
qed (simp add: latest_def)

lemma latest_Some: "latest P xs = Some x \<Longrightarrow> x \<in> set xs \<and> P x"
  by (induction xs) (auto split: option.splits if_splits)

lemma latest_None: "latest P xs = None \<longleftrightarrow> (\<forall>x \<in> set xs. \<not> P x)"
  by (induction xs) (auto split: option.splits)

lemma upload_all_stores:
  assumes "object_store B (ua_bucket args) contents" "\<not> ua_dry_run args"
  shows "upload_all B args overrides by_key is d = (Inr by_key', d') \<Longrightarrow>
    (\<forall>k. case latest (\<lambda>i. place i = k) is of
        None \<Rightarrow> dict_get by_key' k = dict_get by_key k
      | Some i \<Rightarrow> (\<exists>entry. dict_get by_key' k = Some entry \<and> describes B entry i)) \<and>
    (\<forall>key. contents (dk_s3 d') key = (case latest (\<lambda>i. storage_key i = key) is of None \<Rightarrow> contents (dk_s3 d) key | Some i \<Rightarrow> Some (in_contents i)))"
proof (induction "is" arbitrary: by_key d)
  case (Cons i "is")
  obtain bk d1 where 1: "upload_one B args overrides by_key i d = (Inr bk, d1)" "upload_all B args overrides bk is d1 = (Inr by_key', d')"
    using Cons.prems by (auto simp: andthen_Inr_iff)
  from upload_one_stores[OF assms 1(1)] obtain entry where entry: "describes B entry i" "bk = dict_set (place i) entry by_key"
    "contents (dk_s3 d1) = (contents (dk_s3 d))(storage_key i \<mapsto> in_contents i)" by blast
  note IH = Cons.IH[OF 1(2)]
  show ?case
  proof (intro conjI allI)
    show "case latest (\<lambda>i. place i = k) (i # is) of
        None \<Rightarrow> dict_get by_key' k = dict_get by_key k
      | Some i \<Rightarrow> (\<exists>entry. dict_get by_key' k = Some entry \<and> describes B entry i)" for k
      using IH[THEN conjunct1, THEN spec, of k] entry(1,2) by (auto split: option.splits)
    show "contents (dk_s3 d') key =
        (case latest (\<lambda>i. storage_key i = key) (i # is) of None \<Rightarrow> contents (dk_s3 d) key | Some i \<Rightarrow> Some (in_contents i))" for key
      using IH[THEN conjunct2, THEN spec, of key] entry(3) by (auto split: option.splits)
  qed
qed (auto simp: ret_def)

text \<open>Every entry carries the names it is found by, and no two entries are found by the same.\<close>

definition labelled :: "manifest_entries \<Rightarrow> bool" where
  "labelled d \<longleftrightarrow> distinct (map fst d) \<and>
     (\<forall>(k, e) \<in> set d. dict_get e ''backend'' = Some (JStr (fst k)) \<and> dict_get e ''os'' = Some (JStr (snd k)))"

lemma labelled_set:
  assumes "labelled d" "dict_get e ''backend'' = Some (JStr (fst k))" "dict_get e ''os'' = Some (JStr (snd k))"
  shows "labelled (dict_set k e d)"
proof -
  have "set (AList.update k e d) \<subseteq> insert (k, e) (set d)" by (induction d) auto
  with assms show ?thesis by (auto simp: labelled_def dict_set_def distinct_update)
qed

lemma by_key_labelled: "labelled d \<Longrightarrow> by_key_of as d = Inr d' \<Longrightarrow> labelled d'"
proof (induction as d rule: by_key_of.induct)
  case (2 a as d)
  then obtain k kvs where a: "named a = Inr (k, kvs)" "by_key_of as (dict_set k kvs d) = Inr d'" by (auto split: sum.splits)
  then have "labelled (dict_set k kvs d)"
    using 2(2) by (auto simp: named_def split: json.splits option.splits intro!: labelled_set)
  with 2(1)[OF a(1) refl] a(2) show ?case by simp
qed simp

lemma upload_all_labelled: "upload_all B args overrides by_key is d = (Inr by_key', d') \<Longrightarrow> labelled by_key \<Longrightarrow> labelled by_key'"
proof (induction "is" arbitrary: by_key d)
  case (Cons i "is")
  obtain bk d1 where 1: "upload_one B args overrides by_key i d = (Inr bk, d1)" "upload_all B args overrides bk is d1 = (Inr by_key', d')"
    using Cons.prems(1) by (auto simp: andthen_Inr_iff)
  from upload_one_entry[OF 1(1)] Cons.prems(2) have "labelled bk" by (auto simp: describes_def intro!: labelled_set)
  with Cons.IH[OF 1(2)] show ?case by blast
qed (simp add: ret_def)

lemma find_labelled:
  "\<forall>(k, e) \<in> set d. dict_get e ''backend'' = Some (JStr (fst k)) \<and> dict_get e ''os'' = Some (JStr (snd k)) \<Longrightarrow>
    find_entry (map (\<lambda>e. JObj (snd e)) d) b os_name = Inr (map_option JObj (dict_get d (b, os_name)))"
  by (induction d) (auto simp: dict_get_def)

lemma find_published:
  assumes "labelled by_key"
  shows "find_artifact (with_artifacts (JObj kvs) by_key) b os_name = Inr (map_option JObj (dict_get by_key (b, os_name)))"
proof -
  have "dict_get (sort_key fst by_key) = dict_get by_key"
    unfolding dict_get_def using assms by (subst map_of_inject_set) (auto simp: labelled_def distinct_map)
  moreover have "\<forall>(k, e) \<in> set (sort_key fst by_key). dict_get e ''backend'' = Some (JStr (fst k)) \<and> dict_get e ''os'' = Some (JStr (snd k))"
    using assms by (simp add: labelled_def)
  ultimately show ?thesis by (simp add: find_artifact_def find_labelled)
qed

section \<open>The installers that are found\<close>

definition plain_tree :: "vendor_dir \<Rightarrow> bool" where
  \<comment> \<open>the names in a directory are distinct and are file names\<close>
  "plain_tree tree \<longleftrightarrow> (\<forall>(backend, directory) \<in> set tree. distinct (map fst directory) \<and>
     (\<forall>name \<in> fst ` set directory. name \<noteq> [] \<and> name \<noteq> ''.'' \<and> CHR ''/'' \<notin> set name))"

lemma discovered:
  assumes "i \<in> set (discover tree)"
  obtains directory where "(in_backend i, directory) \<in> set tree" "dict_get tree (in_backend i) = Some directory" "(in_name i, Some (in_contents i)) \<in> set directory"
    "((in_backend i, in_os i), in_rule i) \<in> set RULES"
proof -
  from assms obtain r directory f where r: "r \<in> set RULES" "dict_get tree (fst (fst r)) = Some directory" "f \<in> set directory" "claimed r f = Some i"
    by (auto simp: discover_def List.map_filter_def split: option.splits dest!: sym[of "Some _"])
  then have "in_backend i = fst (fst r)" "(place i, in_rule i) = r" "f = (in_name i, Some (in_contents i))"
    by (auto simp: claimed_def split: prod.splits option.splits if_splits)
  with r show ?thesis by (intro that[of directory]) (auto simp: dict_get_def dest: map_of_SomeD)
qed

lemma rule_places: "(k, r) \<in> set RULES \<Longrightarrow> k \<in> {(''ni'', ''linux''), (''rs'', ''linux''), (''keysight'', ''linux'')}"
  by (auto simp: RULES_def)

lemma storage_key_inj:
  assumes "plain_tree tree" "i \<in> set (discover tree)" "j \<in> set (discover tree)" "storage_key i = storage_key j"
  shows "in_contents i = in_contents j"
proof -
  obtain di where di: "dict_get tree (in_backend i) = Some di" "(in_name i, Some (in_contents i)) \<in> set di" "(place i, in_rule i) \<in> set RULES"
      "(in_backend i, di) \<in> set tree"
    using discovered[OF assms(2)] by metis
  obtain dj where dj: "dict_get tree (in_backend j) = Some dj" "(in_name j, Some (in_contents j)) \<in> set dj" "(place j, in_rule j) \<in> set RULES"
    using discovered[OF assms(3)] by metis
  have "in_backend i = in_backend j \<and> in_name i = in_name j"
    using assms(4) rule_places[OF di(3)] rule_places[OF dj(3)] by (auto simp: storage_key_def)
  with di dj assms(1) have "distinct (map fst di)" "dj = di" "in_name i = in_name j" by (auto simp: plain_tree_def)
  with di(2) dj(2) show ?thesis by (metis map_of_is_SomeI option.inject)
qed

lemma cut_none: "CHR ''/'' \<notin> set s \<Longrightarrow> cut ''/'' s = None"
  by (induction s) (auto simp: startswith_def)

lemma name_of_key:
  assumes "plain_tree tree" "i \<in> set (discover tree)"
  shows "pathlib_name (storage_key i) = in_name i"
proof -
  obtain di where di: "(in_backend i, di) \<in> set tree" "(in_name i, Some (in_contents i)) \<in> set di" "(place i, in_rule i) \<in> set RULES"
    using discovered[OF assms(2)] by metis
  with assms(1) have name: "in_name i \<noteq> []" "in_name i \<noteq> ''.''" "CHR ''/'' \<notin> set (in_name i)" by (force simp: plain_tree_def)+
  have "split_on ''/'' (storage_key i) = [''drivers'', in_backend i, in_os i, in_name i]"
    using rule_places[OF di(3)] by (auto simp: storage_key_def split_on.simps cut_none[OF name(3)] startswith_def)
  with name show ?thesis by (simp add: pathlib_name_def)
qed

section \<open>The round trip\<close>

lemma upload_main_stores:
  assumes "object_store B (ua_bucket args) contents" "\<not> ua_dry_run args" "upload_main B args (Some tree) d = (Inr 0, d')"
  obtains kvs old by_key where "labelled old" "labelled by_key"
    "contents (dk_s3 d') MANIFEST_KEY = Some (JsonText (with_artifacts (JObj kvs) by_key))"
    "\<And>k. case latest (\<lambda>i. place i = k) (discover tree) of
        None \<Rightarrow> dict_get by_key k = dict_get old k
      | Some i \<Rightarrow> (\<exists>entry. dict_get by_key k = Some entry \<and> describes B entry i)"
    "\<And>key. key \<noteq> MANIFEST_KEY \<Longrightarrow> contents (dk_s3 d') key =
        (case latest (\<lambda>i. storage_key i = key) (discover tree) of None \<Rightarrow> contents (dk_s3 d) key | Some i \<Rightarrow> Some (in_contents i))"
    "\<And>m artifacts. contents (dk_s3 d) MANIFEST_KEY = Some (JsonText m) \<Longrightarrow> got_key m ''artifacts'' (JList []) = Inr (JList artifacts) \<Longrightarrow> by_key_of artifacts [] = Inr old"
proof -
  from assms(3) obtain overrides where found: "upload_found B args overrides (discover tree) d = (Inr 0, d')"
    by (auto simp: upload_main_def ret_def split: option.splits if_splits)
  then obtain m d1 artifacts entries old by_key d2 where
    read: "read_manifest B args d = (Inr m, d1)" "got_key m ''artifacts'' (JList []) = Inr artifacts" "items artifacts = Inr entries"
      "by_key_of entries [] = Inr old" and
    up: "upload_all B args overrides old (discover tree) d1 = (Inr by_key, d2)" and
    pub: "publish B args (with_artifacts m by_key) d2 = (Inr (), d')"
    by (auto simp: upload_found_def andthen_Inr_iff lift_def ret_def)
  obtain kvs where m: "m = JObj kvs" using read(2) by (cases m) auto
  have lab: "labelled old" using by_key_labelled[of "[]", OF _ read(4)] by (simp add: labelled_def)
  have s3: "s3_installed B" "\<And>w k. contents (snd (s3_get B (ua_bucket args) k w)) = contents w" using assms(1) by (simp_all add: object_store_def)
  have d1: "contents (dk_s3 d1) = contents (dk_s3 d)"
    using read(1) assms(2) s3(1) s3(2)[of MANIFEST_KEY "dk_s3 d"]
    by (auto simp: read_manifest_def catch_def andthen_def on_s3_def lift_def ret_def split: prod.splits sum.splits if_splits)
  obtain w where put: "s3_put B (ua_bucket args) MANIFEST_KEY (JsonText (with_artifacts m by_key)) (dk_s3 d2) = (None, w)"
      "contents w = (contents (dk_s3 d2))(MANIFEST_KEY \<mapsto> JsonText (with_artifacts m by_key))"
    using assms(1) unfolding object_store_def by blast
  with pub assms(2) have "dk_s3 d' = w"
    by (auto simp: publish_def Let_def andthen_def write_file_def change_def effect_def ret_def split: if_splits option.splits)
  with put(2) have pub': "contents (dk_s3 d') = (contents (dk_s3 d2))(MANIFEST_KEY \<mapsto> JsonText (with_artifacts m by_key))" by simp
  note stored = upload_all_stores[OF assms(1,2) up, unfolded d1]
  show ?thesis
  proof (rule that[of old by_key kvs])
    show "labelled by_key" by (rule upload_all_labelled[OF up lab])
    show "by_key_of artifacts' [] = Inr old"
      if "contents (dk_s3 d) MANIFEST_KEY = Some (JsonText m')" "got_key m' ''artifacts'' (JList []) = Inr (JList artifacts')" for m' artifacts'
    proof -
      have "s3_get B (ua_bucket args) MANIFEST_KEY (dk_s3 d) = (Inr (JsonText m'), dk_s3 d)" using assms(1) that(1) by (simp add: object_store_def)
      then have "m = m'" using read(1) assms(2) s3(1) by (simp add: read_manifest_def catch_def andthen_def on_s3_def lift_def)
      with that(2) read(2) have "artifacts = JList artifacts'" by simp
      with read(3,4) show ?thesis by simp
    qed
  qed (use lab pub' m stored d1 in auto)
qed

lemma fetch_described:
  assumes "object_store B (fa_bucket fa) contents" "contents (dk_s3 d) MANIFEST_KEY = Some (JsonText m)"
    "find_artifact m (fa_backend fa) (fa_os_name fa) = Inr (Some (JObj entry))" "describes B entry i"
    "contents (dk_s3 d) (storage_key i) = Some (in_contents i)" "fa_print_install fa = None" "fa_print_version fa = None"
  shows "\<exists>d'. fetch_main B fa d = (Inr 0, d') \<and>
    dict_get (dk_files d') (fa_into fa @ ''/'' @ fa_backend fa @ ''/'' @ pathlib_name (storage_key i)) = Some (in_contents i)"
proof -
  have "s3_installed B" "s3_get B (fa_bucket fa) MANIFEST_KEY (dk_s3 d) = (Inr (JsonText m), dk_s3 d)"
    "s3_download B (fa_bucket fa) (storage_key i) (dk_s3 d) = (Inr (in_contents i), dk_s3 d)"
    using assms(1,2,5) by (simp_all add: object_store_def)
  with assms(3,4,6,7) show ?thesis
    by (simp add: fetch_main_def s3_client_def fetch_entry_def fetched_def key_of_def describes_def andthen_def on_s3_def lift_def ret_def
        write_file_def change_def Let_def)
qed


definition example_boto :: "(string, blob) dict boto" where
  "example_boto =
     \<lparr>s3_installed = True,
      s3_get = (\<lambda>bucket k w. (case dict_get w k of None \<Rightarrow> Inl (KeyErr k) | Some x \<Rightarrow> Inr x, w)),
      s3_download = (\<lambda>bucket k w. (case dict_get w k of None \<Rightarrow> Inl (KeyErr k) | Some x \<Rightarrow> Inr x, w)),
      s3_upload = (\<lambda>bucket k x w. (None, dict_set k x w)), s3_put = (\<lambda>bucket k x w. (None, dict_set k x w)),
      digest = (\<lambda>x. case x of Bytes s \<Rightarrow> rev s | JsonText _ \<Rightarrow> []), st_size = (\<lambda>x. case x of Bytes s \<Rightarrow> length s | JsonText _ \<Rightarrow> 0)\<rparr>"

definition example_tree :: vendor_dir where
  "example_tree = [(''rs'', [(''rsvisa_5.12_amd64.deb'', Some (Bytes ''deb'')), (''README.md'', Some (Bytes ''x'')), (''old'', None)])]"

definition example_desk :: "(string, blob) dict desk" where
  "example_desk = \<lparr>dk_files = [], dk_s3 = [(''manifest.json'', JsonText (JObj [(''version'', JNum 1),
     (''artifacts'', JList [JObj [(''backend'', JStr ''ni''), (''os'', JStr ''linux''), (''key'', JStr ''drivers/ni/linux/a.zip'')]])]))]\<rparr>"

definition example_upload :: upload_args where
  "example_upload = \<lparr>ua_bucket = ''b'', ua_dry_run = False, ua_vendor_version = [], ua_manifest_out = None\<rparr>"

definition example_fetch :: fetch_args where
  "example_fetch = \<lparr>fa_backend = ''rs'', fa_os_name = ''linux'', fa_bucket = ''b'', fa_into = ''vendor'', fa_print_install = None, fa_print_version = None\<rparr>"

lemma example_store: "object_store example_boto ''b'' dict_get"
  by (auto simp: object_store_def example_boto_def)

lemma example_uploaded: "fst (upload_main example_boto example_upload (Some example_tree) example_desk) = Inr 0"
  by code_simp

lemma example_found: "map (\<lambda>i. (place i, in_name i, in_contents i)) (discover example_tree) = [((''rs'', ''linux''), ''rsvisa_5.12_amd64.deb'', Bytes ''deb'')]"
  by code_simp


section \<open>Two ways to lose what is known\<close>

text \<open>An installer that replaces another keeps the version of the one it replaces: the version in the manifest goes before the one its own name
  carries, while the key and the checksum are those of the new file.\<close>

theorem replaced_installer_keeps_version:
  assumes "ru_version (in_rule i) (in_name i) \<noteq> []"
  shows "let entry = updated_entry B [] (updated_entry B [] [] i) j in
    dict_get entry ''key'' = Some (JStr (storage_key j)) \<and> dict_get entry ''sha256'' = Some (JStr (digest B (in_contents j))) \<and>
    dict_get entry ''vendor_version'' = Some (JStr (ru_version (in_rule i) (in_name i)))"
  using assms by (simp add: updated_entry_def dict_update_def version_for_def alist_dict.get_empty Let_def)

text \<open>A manifest that cannot be read, for whatever reason, counts as none: the upload goes on as if the bucket were empty and replaces it.\<close>

theorem unread_manifest_is_dropped:
  assumes "s3_installed B" "\<not> ua_dry_run args" "s3_get B (ua_bucket args) MANIFEST_KEY (dk_s3 d) = (Inl e, dk_s3 d)" "isinstance e ''Exception''"
  shows "upload_found B args overrides found d =
    andthen (upload_all B args overrides [] found) (\<lambda>by_key. andthen (publish B args (with_artifacts new_manifest by_key)) (\<lambda>_. ret 0)) d"
  using assms
  by (simp add: upload_found_def read_manifest_def andthen_def catch_def on_s3_def lift_def ret_def new_manifest_def dict_get_def)

end
