(* ===== verification/Threaded_Conformance.thy ===== *)
theory Threaded_Conformance
  imports Conformance Vxi11_Conformance Threads
begin

text \<open>
  The checks of \<^verbatim>\<open>checks/conformance.py\<close> and \<^verbatim>\<open>checks/vxi11_conformance.py\<close> that run threads: four workers with a session each, polling or holding a
  lock, and a lock that is released from another thread while a session waits for it. The order of the workers' calls until they were waited
  for is a parameter; so is a call beside which another thread runs.
\<close>

record 'w crew =
  cw_cx :: "'w ctx"
  cw_client :: "nat \<Rightarrow> 'w client"          \<comment> \<open>the session a worker opens\<close>
  cw_calls :: "'w \<Rightarrow> nat list"

definition bad_reply :: "string \<Rightarrow> string list" where
  "bad_reply reply = (if has_comma reply then [] else [''bad reply '' @ py_repr reply])"

fun polling_worker :: "nat \<Rightarrow> 'w ctx \<Rightarrow> 'w worker" where
  "polling_worker 0 cx = leave_with cx []"
| "polling_worker (Suc n) cx =
     or_fail cx [] (asked cx ''*IDN?'') (\<lambda>reply. (bad_reply reply,
     or_fail cx [] (read_stb cx) (\<lambda>_. ([], polling_worker n cx))))"

fun locking_worker :: "nat \<Rightarrow> 'w ctx \<Rightarrow> 'w worker" where
  "locking_worker 0 cx = leave_with cx []"
| "locking_worker (Suc n) cx =
     or_fail cx [] (effect (cl_lock_excl (cx_client cx) 10000)) (\<lambda>_. ([],
     call_then (asked cx ''*IDN?'') (\<lambda>r.
       (case r of Inl _ \<Rightarrow> [] | Inr reply \<Rightarrow> bad_reply reply,
        or_fail cx [] (effect (cl_unlock (cx_client cx))) (\<lambda>_. ([], case r of Inl e \<Rightarrow> failed_with cx [] e | Inr _ \<Rightarrow> locking_worker n cx))))))"

definition crew_workers :: "'w crew \<Rightarrow> ('w ctx \<Rightarrow> 'w worker) \<Rightarrow> 'w worker list" where
  "crew_workers C body = map (\<lambda>i. let cx = through (cw_cx C) (cw_client C i) in in_session cx [] (body cx)) [0..<4]"

definition crew_check :: "'w crew \<Rightarrow> ('w ctx \<Rightarrow> 'w worker) \<Rightarrow> string \<Rightarrow> string \<Rightarrow> ('w, string) act" where
  "crew_check C body wrong fine w =
     (case scheduled (cw_calls C w) (crew_workers C body, w, []) of (ts, w1, errors_seen) \<Rightarrow>
      let n = length (filter alive ts) in
      andthen (assert_that (n = 0) (str_nat n @ '' worker threads never finished'')) (\<lambda>_.
      andthen (assert_that (errors_seen = []) (wrong @ repr_list (map py_repr (take 3 errors_seen)))) (\<lambda>_. ret fine)) w1)"

definition check_concurrent_sessions :: "'w crew \<Rightarrow> ('w, string) act" where
  "check_concurrent_sessions C =
     crew_check C (polling_worker 20) ''concurrent sessions desynchronised: '' ''4 sessions x 20 query+poll cycles''"

definition check_locked_concurrency :: "'w crew \<Rightarrow> ('w, string) act" where
  "check_locked_concurrency C =
     crew_check C (locking_worker 10) ''locked concurrent queries still interleaved: '' ''4 sessions x 10 locked query cycles''"

definition release_later :: "'w ctx \<Rightarrow> ('w, unit) act" where
  "release_later cx = andthen (sleep cx 1) (\<lambda>_. effect (cl_unlock (cx_client cx)))"

definition check_lock_waits :: "'w ctx \<Rightarrow> 'w client \<Rightarrow> (('w, unit) act \<Rightarrow> ('w, unit) act \<Rightarrow> ('w, unit) act) \<Rightarrow> (rat \<Rightarrow> 'w \<Rightarrow> 'w) \<Rightarrow> ('w, string) act" where
  \<comment> \<open>\<open>beside m f\<close> is the call \<open>f\<close> with \<open>m\<close> in a thread beside it, and \<open>waited\<close> the wait for that thread\<close>
  "check_lock_waits cx b beside waited =
     (let cb = through cx b in
      open_inst cx (open_inst cb (
        andthen (effect (cl_lock_excl (cx_client cx) 2000)) (\<lambda>_.
        andthen (now cx) (\<lambda>started.
        andthen (beside (release_later cx) (effect (cl_lock_excl b 5000))) (\<lambda>_.
        andthen (now cx) (\<lambda>t.
        andthen (effect (cl_unlock b)) (\<lambda>_.
        andthen (change (waited 2)) (\<lambda>_.
        andthen (assert_that (t - started \<ge> 8 / 10)
          (''viLock returned after '' @ fmt_fixed 2 (t - started) @ ''s while the lock was still held; it did not wait'')) (\<lambda>_.
        ret (''waited '' @ fmt_fixed 2 (t - started) @ ''s for a lock released at 1.00s'')))))))))))"

section \<open>The workers in every order\<close>

definition crew_served :: "('w \<Rightarrow> bool) \<Rightarrow> 'w ctx \<Rightarrow> bool" where
  \<comment> \<open>the calls of a worker succeed, and the identification has its commas\<close>
  "crew_served J cx \<longleftrightarrow> serves J (\<lambda>_. True) (entering cx) \<and> serves J (\<lambda>_. True) (leaving cx) \<and>
     serves J has_comma (asked cx ''*IDN?'') \<and> serves J (\<lambda>_. True) (read_stb cx) \<and>
     serves J (\<lambda>_. True) (effect (cl_lock_excl (cx_client cx) 10000)) \<and> serves J (\<lambda>_. True) (effect (cl_unlock (cx_client cx)))"

lemma polling_clean:
  assumes "crew_served J cx"
  shows "thread_keeps (clean J) (polling_worker n cx)"
proof (induction n)
  case (Suc n)
  have "thread_keeps (clean J) (or_fail cx [] (read_stb cx) (\<lambda>_. ([], polling_worker n cx)))"
    using assms Suc by (intro or_fail_clean[where good = "\<lambda>_. True"]) (simp_all add: crew_served_def)
  then show ?case
    using assms unfolding polling_worker.simps by (intro or_fail_clean[where good = has_comma]) (simp_all add: crew_served_def bad_reply_def)
qed (use assms in \<open>simp add: crew_served_def leave_clean\<close>)

lemma locking_clean:
  assumes "crew_served J cx"
  shows "thread_keeps (clean J) (locking_worker n cx)"
proof (induction n)
  case (Suc n)
  have "thread_keeps (clean J) (or_fail cx [] (effect (cl_unlock (cx_client cx))) (\<lambda>_. ([], locking_worker n cx)))"
    using assms Suc by (intro or_fail_clean[where good = "\<lambda>_. True"]) (simp_all add: crew_served_def)
  then have "thread_keeps (clean J) (call_then (asked cx ''*IDN?'') (\<lambda>r.
       (case r of Inl _ \<Rightarrow> [] | Inr reply \<Rightarrow> bad_reply reply,
        or_fail cx [] (effect (cl_unlock (cx_client cx))) (\<lambda>_. ([], case r of Inl e \<Rightarrow> failed_with cx [] e | Inr _ \<Rightarrow> locking_worker n cx)))))"
    using assms by (intro call_clean[where good = has_comma]) (simp_all add: crew_served_def bad_reply_def)
  then show ?case
    using assms unfolding locking_worker.simps by (intro or_fail_clean[where good = "\<lambda>_. True"]) (simp_all add: crew_served_def)
qed (use assms in \<open>simp add: crew_served_def leave_clean\<close>)

lemma polling_within: "ends_in (Suc (2 * n)) (polling_worker n cx)"
proof (induction n)
  case (Suc n)
  have "2 * Suc n = Suc (Suc (2 * n))" by simp
  then show ?case using Suc by (auto intro!: or_fail_within)
qed (simp add: leave_within)

lemma locking_within: "ends_in (Suc (3 * n)) (locking_worker n cx)"
proof (induction n)
  case (Suc n)
  have "ends_in (Suc (3 * n)) (case r of Inl e \<Rightarrow> failed_with cx [] e | Inr _ \<Rightarrow> locking_worker n cx)" for r :: "exn + string"
    using Suc by (simp add: failed_within split: sum.split)
  then have "ends_in (Suc (Suc (3 * n))) (or_fail cx [] (effect (cl_unlock (cx_client cx)))
      (\<lambda>_. ([], case r of Inl e \<Rightarrow> failed_with cx [] e | Inr _ \<Rightarrow> locking_worker n cx)))" for r :: "exn + string"
    by (intro or_fail_within) simp
  then have "ends_in (Suc (Suc (Suc (Suc (3 * n))))) (locking_worker (Suc n) cx)"
    unfolding locking_worker.simps by (intro or_fail_within) (simp add: call_then_within)
  then show ?case by (simp add: eval_nat_numeral)
qed (simp add: leave_within)

lemma crew_passes:
  assumes "\<And>i. i < 4 \<Longrightarrow> crew_served J (through (cw_cx C) (cw_client C i))" "J w"
    and "\<And>cx. crew_served J cx \<Longrightarrow> thread_keeps (clean J) (body cx)" "\<And>cx. ends_in n (body cx)"
    and "\<And>i. i < 4 \<Longrightarrow> Suc n \<le> count_list (cw_calls C w) i"
  shows "\<exists>w'. crew_check C body wrong fine w = (Inr fine, w')"
proof -
  obtain ts w' errors_seen where run: "scheduled (cw_calls C w) (crew_workers C body, w, []) = (ts, w', errors_seen)" by (metis prod_cases3)
  have "\<forall>t \<in> set (crew_workers C body). thread_keeps (clean J) t"
    using assms(1,3) by (auto simp: crew_workers_def Let_def crew_served_def intro!: in_session_clean)
  moreover have "clean J (w, [])" using assms(2) by (simp add: clean_def)
  ultimately have "clean J (snd (scheduled (cw_calls C w) (crew_workers C body, w, [])))" by (rule scheduled_keeps)
  then have "errors_seen = []" by (simp add: run clean_def)
  moreover have "ts ! i = Stopped" if "i < 4" for i
  proof -
    have "i < length (crew_workers C body)" "ends_in (Suc n) (crew_workers C body ! i)"
      using that assms(4) by (simp_all add: crew_workers_def Let_def in_session_within)
    from scheduled_stops[OF this assms(5)[OF that], of "(w, [])"] show ?thesis by (simp add: run)
  qed
  moreover have "length (crew_workers C body) = 4" by (simp add: crew_workers_def)
  then have "length ts = 4" using scheduled_length[of "cw_calls C w" "(crew_workers C body, w, [])"] by (simp add: run)
  ultimately have "filter alive ts = []" by (auto simp: filter_empty_conv in_set_conv_nth alive_def)
  with run \<open>errors_seen = []\<close> show ?thesis by (simp add: crew_check_def andthen_def assert_that_def ret_def Let_def)
qed


definition example_crew :: "unit crew" where
  "example_crew = \<lparr>cw_cx = example_ctx, cw_client = (\<lambda>_. example_client), cw_calls = (\<lambda>_. concat (replicate 42 [0, 3, 1, 2]))\<rparr>"


end
