(* ===== verification/Spec2Isabelle.thy ===== *)
theory Spec2Isabelle
  imports Runner Outcomes Script_Run Compare Report Page Spec_Rules Summary Verify_Faults Event_Sessions Remote_Local Smoke Terminate Service_Requests Soak Concurrency Vendor_Store Threaded_Conformance "HOL-Library.Multiset"
begin

text \<open>
  A verification development for testgear-network-stress, a suite of checks for VISA implementations
  talking to an instrument over HiSLIP and VXI-11. A check is a Python function run against a live or a mock
  instrument; around the checks the program decides which scripts run and with what
  arguments, how a check's ending becomes a result row and an exit code, how a sweep survives scripts that
  hang, how the reports of several implementations become one matrix and a page, and how a continuous run
  decides that the suite itself is broken. This development models that part, the channel to the mock server
  with its faults, and the checks.

  \<^bold>\<open>The program and its theories.\<close> Each theory follows one or a few files under \<^verbatim>\<open>src/\<close> in the order the
  code has them, and imports the theories of the code it calls.

  \<^item> \<^verbatim>\<open>Prelude\<close>: what the source uses of the language: strings and their methods, decimal formatting with
    Python's rounding, insertion-ordered dictionaries (an association list with distinct keys), errors as
    values, and the shared interfaces: the locale \<^verbatim>\<open>ordered_dict\<close> (what a lookup returns after a store, and
    where a key stands), its extension \<^verbatim>\<open>grouped_dict\<close> (grouping into lists), and \<^verbatim>\<open>kept_invariant\<close> with its
    extension \<^verbatim>\<open>append_only\<close> (operations that keep an invariant and only append rows). They are interpreted on
    the dictionary here, on the grouping of \<^verbatim>\<open>Aggregate\<close> and on the recorder of \<^verbatim>\<open>Harness\<close>.
  \<^item> \<^verbatim>\<open>Regex\<close>: a backtracking matcher for the part of \<^verbatim>\<open>re\<close> the source uses, with its declarative reading.
  \<^item> \<^verbatim>\<open>Suite\<close> (\<^verbatim>\<open>testgear/suite.py\<close>): the table of scripts, their selection, arguments and budgets.
  \<^item> \<^verbatim>\<open>Visa_Status\<close> and \<^verbatim>\<open>Visa\<close> (\<^verbatim>\<open>testgear/visa.py\<close>): how a call of the library can end, which exceptions mean that
    the connection is gone, the session with its HiSLIP mode, the instrument's error queue, the large query.
    The library and the instrument are parameters: functions on a state of any type.
  \<^item> \<^verbatim>\<open>Harness\<close> (\<^verbatim>\<open>testgear/harness.py\<close>): the recorder \<^verbatim>\<open>Stats\<close> as the record \<open>stats\<close>, running checks under a
    watchdog, registering generated checks, writing the report, exit codes.
  \<^item> \<^verbatim>\<open>Aggregate\<close> (\<^verbatim>\<open>testgear/aggregate.py\<close>): columns, the matrix of columns, the lists made from it and the
    Markdown text.
  \<^item> \<^verbatim>\<open>Backends\<close> (\<^verbatim>\<open>testgear/backends.py\<close>): the table of implementations, resolving one on a machine, switching to
    a source tree, the provenance of a result.
  \<^item> \<^verbatim>\<open>Script_Run\<close> (\<^verbatim>\<open>testgear/script.py\<close>, \<^verbatim>\<open>testgear/cli.py\<close>): one script from its parsed arguments to the exit code.
  \<^item> \<^verbatim>\<open>Runner\<close> (\<^verbatim>\<open>run_all.py\<close>): the sweep over all scripts.
  \<^item> \<^verbatim>\<open>Legs\<close> (\<^verbatim>\<open>tools/gha_matrix.py\<close>, \<^verbatim>\<open>tools/leg_status.py\<close>, \<^verbatim>\<open>tools/normalise_reports.py\<close>, \<^verbatim>\<open>tools/ci_status.py\<close>): the
    legs of a continuous run, from the plan to the verdict.
  \<^item> \<^verbatim>\<open>Outcomes\<close> (\<^verbatim>\<open>tools/outcomes.py\<close>, and the loader of \<^verbatim>\<open>tools/artifact_matrix.py\<close>): loading a run and comparing
    it with another.
  \<^item> \<^verbatim>\<open>Compare\<close> (\<^verbatim>\<open>compare.py\<close>, \<^verbatim>\<open>tools/merge_reports.py\<close>): running the suite once per implementation.
  \<^item> \<^verbatim>\<open>Html\<close>, \<^verbatim>\<open>Report\<close> (\<^verbatim>\<open>testgear/report.py\<close>): escaping, the page of a run and of a comparison; \<^verbatim>\<open>Page_Assets\<close> and \<^verbatim>\<open>Page\<close>
    (\<^verbatim>\<open>tools/artifact_matrix.py\<close>): the published page; \<^verbatim>\<open>Summary\<close> (\<^verbatim>\<open>tools/markdown_summary.py\<close>): the report for a forge.
  \<^item> \<^verbatim>\<open>Spec_Rules\<close> (\<^verbatim>\<open>tools/spec_rules.py\<close>): the statements of the standards, the citations of the checks, the coverage.
  \<^item> \<^verbatim>\<open>Control\<close> (\<^verbatim>\<open>server/src/control.rs\<close>, \<^verbatim>\<open>faults.rs\<close> and the state they act on): the control channel of the mock server, with its
    fault fields at their machine width; \<^verbatim>\<open>Server\<close> (\<^verbatim>\<open>testgear/server.py\<close>): the Python side of that channel, the server process,
    the fault blocks. The locale \<^verbatim>\<open>knob_channel\<close> is what the blocks rely on; it is interpreted on \<^verbatim>\<open>Control\<close>.
  \<^item> \<^verbatim>\<open>Probe\<close>: what the scripts under \<^verbatim>\<open>checks/\<close> share; a check is an action, a function from a world to a value or an exception and the
    next world. \<^verbatim>\<open>Wire\<close>: what a check sees of the server's logs. \<^verbatim>\<open>Hislip_Messages\<close>, \<^verbatim>\<open>Vxi11_Flags\<close>, \<^verbatim>\<open>Attributes\<close>, \<^verbatim>\<open>Operations\<close>,
    \<^verbatim>\<open>Resource_Names\<close>, \<^verbatim>\<open>Hislip_Modes\<close>: the checks of the files 11 and 14 to 18; \<^verbatim>\<open>Lock_Semantics\<close>: of file 10, with locks as VPP-4.3 describes
    them; \<^verbatim>\<open>Conformance\<close> and \<^verbatim>\<open>Vxi11_Conformance\<close>: of the scripts of those names, and replacing the server after an abandoned check.
    \<^verbatim>\<open>Remote_Local\<close>: the checks of the remote and local states (09), which read the state back from how fast the instrument answers;
    \<^verbatim>\<open>Session_Lifecycle\<close> (12) and \<^verbatim>\<open>Events\<close> (13), with releasing an event of \<^verbatim>\<open>testgear/visa.py\<close>.
    \<^verbatim>\<open>Bulk_Io\<close> (02), \<^verbatim>\<open>Device_Clear\<close> (07), \<^verbatim>\<open>Lock_Cycles\<close> (05) and \<^verbatim>\<open>Smoke\<close> (01): the scripts that keep their sessions for the whole run and
    hand values on from one check to the next; their \<^verbatim>\<open>STATE\<close> is a record in the world and \<^verbatim>\<open>SETUP\<close> a bracket around the checks.
    \<^verbatim>\<open>Service_Requests\<close> (03), \<^verbatim>\<open>Concurrency\<close> (04), \<^verbatim>\<open>Terminate\<close> (06) and \<^verbatim>\<open>Soak\<close> (08): the same for the scripts that run threads or random
    mixes. \<^verbatim>\<open>Threads\<close>: threads as what is left of them, and their runs as the order of their calls; \<^verbatim>\<open>Threaded_Conformance\<close>: the checks of the two
    conformance scripts that run threads. What a thread does between two library calls is a definition; the order of the calls, what a thread had left when it was
    joined, and the random choices are parameters.
    \<^verbatim>\<open>Sessions\<close>: the bookkeeping of open sessions across all of them, as the locales \<^verbatim>\<open>ledger\<close>, \<^verbatim>\<open>two_ledgers\<close> (two handles),
    \<^verbatim>\<open>still_os\<close> and \<^verbatim>\<open>bench_ledger\<close> (servers a check starts), interpreted on the context of any run with a counter
    beside its world. \<^verbatim>\<open>Event_Sessions\<close> extends it to events, as \<^verbatim>\<open>event_ledger\<close> and \<^verbatim>\<open>context_ledger\<close>, the count of event contexts. \<^verbatim>\<open>Verify_Faults\<close> (\<^verbatim>\<open>tools/verify_faults.py\<close>): every knob armed and
    unarmed.
  \<^item> \<^verbatim>\<open>Vendor_Store\<close> (\<^verbatim>\<open>tools/upload_vendor.py\<close>, \<^verbatim>\<open>tools/fetch_vendor.py\<close>): the bucket of installers and its manifest; boto3 is a parameter.
  \<^item> This theory: what spans them, from the plan of the legs to the columns that are drawn.

  \<^bold>\<open>How the parts meet.\<close> \<open>Script_Run.script_main\<close> opens its target with \<open>Backends\<close>, runs its checks with
  \<open>Harness.run_checks\<close> and leaves a report, a \<open>column\<close> of \<open>Aggregate\<close>, and an exit code. The sweep of \<open>Runner\<close> sees
  only the process: its output lines and its code; the two sides meet in the summary line. \<open>Compare\<close>
  and the legs merge the reports of the scripts with \<open>Aggregate.merge\<close>; \<open>Legs.normalise\<close> writes a column file and
  an index entry per leg, which \<open>Outcomes.load\<close> reads back and \<open>Aggregate.build\<close> joins into the matrix.

  \<^bold>\<open>What the lemmas show.\<close>

  \<^item> Recording: the counts of a report are those of its rows after any sequence of recordings; each check that is
    run adds exactly one row with the outcome its ending deserves; with a watchdog the loop ends; a report is
    replaced atomically and is written whatever is raised; exit codes separate the failure modes, and zero means
    that no check failed.
  \<^item> The sweep: watching one script ends within its budget; the exit code counts the scripts that did
    not pass; the sweep stops early exactly by its rule, and always comes to an end.
  \<^item> The matrix: it is the full outer join of its columns on the stable key; a row differs exactly when two columns
    that ran disagree; the derived lists do not overlap; merging keeps every result and its script.
  \<^item> The legs: every planned leg has its index entry, its reason if it is not ok, and its drawn column; the verdict
    is red exactly for a broken suite; vendor legs stay out of runs that are not full ones.
  \<^item> Sessions and backends: a session is closed however it ends and its body runs only in the mode asked for;
    the error queue is drained in order and every entry is accounted for; a backend is reported honestly;
    the tree that was named is the one under test.

  \<^item> The server: applying faults implements a partial update of named knobs; a block puts the knobs back however its body
    ends; no server process outlives its block.
  \<^item> The pages: the markup depends on outcomes and counts only; every row of the matrix is on the page once.
  \<^item> The rules: one statement per heading, no citation lost, the coverage adds up.
  \<^item> The installers: what was uploaded is what is fetched, and an upload leaves the entries of other backends as they were.
  \<^item> The checks: with a library that answers the same way each time, a check passes exactly when the behaviour its rule asks for
    is there. \<open>enters\<close> and \<open>keeps\<close> say what is assumed of the library, as invariants of the world; every theorem has a
    concrete library that satisfies them. The lock checks pass against locks as the standard has them and tell apart a
    client that does not count; a pass of the checks on MessageIDs is a statement about 32-bit words on the wire. Every check closes the
    sessions it opens, however it ends, but for the four named in \<^verbatim>\<open>Sessions\<close>. Every event taken from a queue is released before its session is
    closed. The timing of queries tells the remote from the local state, or the checks that rest on it are skipped. A reply read in pieces
    passes exactly if it is the reply read at once; the checks of the device clear are decided by what the clear does to pending replies; the
    lock script passes in its order against locks as the standard has them. Threads that share a session file no problem in any order of their
    calls if each call is answered well, and workers with sessions of their own also come to their end; the terminate cycles are decided by the reads; the drain after the race of service requests closes
    every event it took; the soak lets no exception out, and so also passes when the connection is lost.

  \<^bold>\<open>Time, processes and files.\<close> Clocks are rational numbers given to the definitions. A child process is the list of
  events its watcher sees, an output line or a poll with the times read around it; the watch loop is
  structural recursion over that list and not returning is the value \<open>None\<close>. \<open>watched_long_enough\<close> says
  that the list is long enough: it has an exit or more polls of half a second than fit into the
  budget. A check that never returns has no duration; without a watchdog the run is \<open>Stuck\<close>. Draining reads
  at most fifty entries, the limit of the source. The matcher of \<open>Regex\<close> needs no more steps than
  the text has characters for a starred expression, since each round must consume one. Waiting for replies has 151 turns, one more than
  naps of 20 ms fit into its three seconds, and is shown not to need more; so do the 26 turns of waiting for the first event, with waits of 200 ms in five seconds. The soak
  loop has as many turns as it is given and is shown to be left within as many as fit into its duration (\<open>Soak.soak_returns\<close>); the drain of the
  race has the ten thousand of the source. A directory is a dictionary from names to
  contents, a file that is not JSON a constructor of its own. Writing the report is the sequence of file-system
  states a reader can meet. Numbers are unbounded as they are in Python; floats are rationals.

  \<^bold>\<open>Not modelled.\<close> The reproducers, which are scripts for one
  library, argument parsing, which is the standard library's, and of the mock server, which is written in Rust, everything behind its
  control channel.
\<close>

section \<open>From the legs of a run to the drawn columns\<close>

text \<open>What the loader of the page makes of the directory \<open>normalise\<close> leaves behind.\<close>

definition published :: "string \<Rightarrow> entry list \<Rightarrow> (string \<times> column) list \<Rightarrow> col_dir" where
  "published protocol es fs =
     \<lparr>cd_name = protocol, cd_index = Some es, cd_files = map (\<lambda>(f, c). (f, JReport c)) fs\<rparr>"

definition column_of :: "string \<Rightarrow> (string \<times> column) list \<Rightarrow> entry \<Rightarrow> column" where
  "column_of system fs e =
     (let file = n_id e @ ''.json''
      in dress_column system e (case map_of fs file of None \<Rightarrow> dead_column file e | Some c \<Rightarrow> c))"

lemma dict_get_files: "dict_get (map (\<lambda>(f, c). (f, JReport c)) fs) k = map_option JReport (map_of fs k)"
  by (induction fs) (auto simp: dict_get_def)

lemma load_entries_map:
  "(\<And>e. e \<in> set es \<Longrightarrow> load_entry system files e = Inr (g e)) \<Longrightarrow> load_entries system files es = Inr (map g es)"
  by (induction es) simp_all

lemma load_entry_published:
  "n_file e = Some (n_id e @ ''.json'') \<Longrightarrow>
     load_entry system (cd_files (published protocol es fs)) e = Inr (column_of system fs e)"
  by (simp add: load_entry_def published_def column_of_def Let_def dict_get_files get_or_def split: option.split)

lemma load_published:
  assumes "index_ok ls es fs"
  shows "load system (published protocol es fs) = Inr (map (column_of system fs) (sort_key (sort_label system) es))"
proof -
  have "load_entry system (cd_files (published protocol es fs)) e = Inr (column_of system fs e)"
    if "e \<in> set (sort_key (sort_label system) es)" for e
    using assms that by (intro load_entry_published) (simp add: index_ok_def)
  from load_entries_map[OF this, of "sort_key (sort_label system) es"] show ?thesis
    by (simp add: load_def planned_def published_def)
qed

lemma dress_column_id: "n_id e \<noteq> [] \<Longrightarrow> j_id (dress_column system e c) = Some (n_id e)"
  by (simp add: dress_column_def Let_def set_key_def truthy_def)

lemma dress_column_ok: "n_status e = Some ''ok'' \<Longrightarrow> status (dress_column system e c) = ''ok''"
  by (simp add: dress_column_def Let_def set_key_def truthy_def status_def STATUSES_def)

lemma dress_dead_column:
  "n_status e \<noteq> Some ''ok'' \<Longrightarrow> status (dress_column system e (dead_column file e)) \<noteq> ''ok''"
  by (cases "n_status e")
    (auto simp: dress_column_def dead_column_def Let_def set_key_def truthy_def status_def STATUSES_def column_results_def get_or_def)

lemma column_of_entry:
  assumes ix: "index_ok ls es fs" and d: "distinct (map n_id es)" and e: "e \<in> set es" and i: "n_id e \<noteq> []"
  shows "(the (j_id (column_of system fs e)), status (column_of system fs e) = ''ok'') = (n_id e, n_status e = Some ''ok'')"
proof (cases "n_status e = Some ''ok''")
  case True
  then show ?thesis by (simp add: column_of_def Let_def dress_column_id[OF i] dress_column_ok)
next
  case False
  have "n_id e @ ''.json'' \<notin> fst ` set fs"
  proof
    assume "n_id e @ ''.json'' \<in> fst ` set fs"
    then have "n_id e @ ''.json'' \<in> set (map fst fs)" by simp
    also have "map fst fs = map (\<lambda>e. n_id e @ ''.json'') (filter (\<lambda>e. n_status e = Some ''ok'') es)"
      using ix by (simp add: index_ok_def)
    finally obtain e' where "e' \<in> set es" "n_status e' = Some ''ok''" "n_id e' = n_id e" by auto
    with d e False show False by (auto simp: distinct_map inj_on_def)
  qed
  then have "map_of fs (n_id e @ ''.json'') = None" by (simp add: map_of_eq_None_iff)
  with False show ?thesis by (simp add: column_of_def Let_def dress_column_id[OF i] dress_dead_column)
qed

text \<open>C6: a leg that was planned is drawn. Loading what the normaliser wrote never fails, and gives exactly
  one column per planned leg, under the leg's id, and the column is ok exactly when the leg's entry in the
  index is: a leg that delivered nothing for a transport still has its column, marked as not ok, and no
  column appears that was not planned. For a plan whose ids are different and not empty.\<close>

theorem pipeline_draws_every_leg:
  assumes "normalise src protocol ls = Inr (es, fs)" and "distinct (map l_id ls)" and "[] \<notin> set (map l_id ls)"
  shows "\<exists>cols. load system (published protocol es fs) = Inr cols \<and>
    mset (map (\<lambda>c. the (j_id c)) cols) = mset (map l_id ls) \<and>
    mset (map (\<lambda>c. (the (j_id c), status c = ''ok'')) cols) = mset (map (\<lambda>e. (n_id e, n_status e = Some ''ok'')) es)"
proof -
  have ix: "index_ok ls es fs" by (rule normalise_index[OF assms(1)])
  then have ids: "map n_id es = map l_id ls" by (simp add: index_ok_def)
  let ?g = "column_of system fs" and ?sorted = "sort_key (sort_label system) es"
  have g: "(the (j_id (?g e)), status (?g e) = ''ok'') = (n_id e, n_status e = Some ''ok'')" if "e \<in> set es" for e
    using column_of_entry[OF ix _ that] assms(2,3) that by (metis ids image_eqI set_map)
  have perm: "mset (map f (map ?g ?sorted)) = mset (map (f \<circ> ?g) es)" for f :: "column \<Rightarrow> 'a"
    by (simp add: image_mset.compositionality)
  have cols: "map ((\<lambda>c. (the (j_id c), status c = ''ok'')) \<circ> ?g) es = map (\<lambda>e. (n_id e, n_status e = Some ''ok'')) es"
    "map ((\<lambda>c. the (j_id c)) \<circ> ?g) es = map l_id ls"
    using g by (auto simp flip: ids)
  show ?thesis
    by (rule exI[of _ "map ?g ?sorted"]) (simp only: load_published[OF ix] perm cols simp_thms)
qed

theorem pipeline_draws_every_leg_witness:
  "\<exists>es fs cols. normalise \<lparr>dl_dirs = [], dl_files = []\<rparr> ''hislip'' [leg0 ''linux-py'' ''py'' False, leg0 ''linux-ni'' ''ni'' True] = Inr (es, fs) \<and>
     load ''Linux'' (published ''hislip'' es fs) = Inr cols \<and>
     mset (map (\<lambda>c. the (j_id c)) cols) = mset [''linux-py'', ''linux-ni'']"
proof -
  let ?ls = "[leg0 ''linux-py'' ''py'' False, leg0 ''linux-ni'' ''ni'' True]"
  obtain es fs where r: "normalise \<lparr>dl_dirs = [], dl_files = []\<rparr> ''hislip'' ?ls = Inr (es, fs)"
    by (simp add: normalise_leg_def leg_root_def dict_get_def)
  have ids: "map l_id ?ls = [''linux-py'', ''linux-ni'']" by (simp add: leg0_def)
  obtain cols where "load ''Linux'' (published ''hislip'' es fs) = Inr cols"
    "mset (map (\<lambda>c. the (j_id c)) cols) = mset (map l_id ?ls)"
    using pipeline_draws_every_leg[OF r, of "''Linux''"] unfolding ids by auto
  with r show ?thesis unfolding ids by blast
qed

end
